(* ===== verification/Externals.thy ===== *)
theory Externals
  imports Prelude
begin

text \<open>
  The code outside the repository that the server calls: hashing, hex and DID helpers,
  \<open>uuid\<close> formatting, URL and RFC 3339 parsing, key agreement, signatures and AEAD. Each is a
  field of the record \<open>ext\<close>, an argument of every definition that uses it. Predicates named
  \<open>*_laws\<close> state the documented behaviour a property relies on, and \<open>ext_demo\<close> is an instance
  on which they hold.
\<close>

text \<open>
  \<open>serde_json::Value\<close>. Parsing keeps the members of an object in order, repeated names included;
  a number that is not an integer is opaque.
\<close>

datatype json =
    JNull
  | JBool bool
  | JInt int
  | JFloat string
  | JString string
  | JArray "json list"
  | JObject "(string \<times> json) list"

text \<open>
  A CACAO (\<open>relay_rpc::auth::cacao\<close>): the members the server reads first, then the rest of
  header, payload and signature. The answer of the Keys Server: a status code and the outcome of
  reading the body as \<open>KeyServerResponse\<close>.
\<close>

record Cacao =
  c_iss :: string
  c_domain :: string
  c_statement :: "string option"
  c_resources :: "string list option"
  c_nbf :: "string option"
  c_exp :: "string option"
  c_signature :: string
  c_header_type :: string
  c_aud :: string
  c_version :: string
  c_nonce :: string
  c_iat :: string
  c_request_id :: "string option"
  c_signature_type :: string

record KeyServerResponse =
  ksr_status :: string
  ksr_value :: "Cacao option"

record key_server_http =
  ksh_status :: nat
  ksh_body :: "(KeyServerResponse, string) result"

record ext =
  keccak256 :: "bytes \<Rightarrow> bytes"
  sha256_digest :: "bytes \<Rightarrow> string"
  hex_encode :: "bytes \<Rightarrow> string"
  hex_decode :: "string \<Rightarrow> (bytes, string) result"
  combine_did_data :: "string \<Rightarrow> string \<Rightarrow> string"
  extract_did_data :: "string \<Rightarrow> string \<Rightarrow> (string, string) result"
  to_did_key :: "bytes \<Rightarrow> string"
  try_from_did_key :: "string \<Rightarrow> (bytes, string) result"
  uuid_to_string :: "uuid \<Rightarrow> string"
  uuid_parse :: "string \<Rightarrow> uuid option"
  parse_rfc3339 :: "string \<Rightarrow> datetime option"
  ed25519_verifying_key :: "bytes \<Rightarrow> bytes"
  x25519_public_key :: "bytes \<Rightarrow> bytes"
  diffie_hellman :: "bytes \<Rightarrow> bytes \<Rightarrow> bytes"
  hkdf_expand32 :: "bytes \<Rightarrow> bytes option"
  chacha_encrypt :: "bytes \<Rightarrow> bytes \<Rightarrow> bytes \<Rightarrow> bytes option"
  chacha_decrypt :: "bytes \<Rightarrow> bytes \<Rightarrow> bytes \<Rightarrow> bytes option"
  b64_std_encode :: "bytes \<Rightarrow> string"
  b64_std_decode :: "string \<Rightarrow> (bytes, string) result"
  b64_std_no_pad_decode :: "string \<Rightarrow> (bytes, string) result"
  b64_url_no_pad_encode :: "bytes \<Rightarrow> string"
  b64_url_no_pad_decode :: "string \<Rightarrow> (bytes, string) result"
  json_to_string :: "json \<Rightarrow> string"
  json_from_slice :: "bytes \<Rightarrow> (json, string) result"
  jwt_header_alg :: string
  jwt_header_string :: string
  jwt_header_from_slice :: "bytes \<Rightarrow> (string, string) result"
  ed25519_sign :: "bytes \<Rightarrow> bytes \<Rightarrow> bytes"
  ed25519_public_key_ok :: "bytes \<Rightarrow> bool"
  jwt_ed_verify :: "string \<Rightarrow> bytes \<Rightarrow> bytes \<Rightarrow> (bool, string) result"
  url_join :: "string \<Rightarrow> string \<Rightarrow> string option"
  url_parse :: "string \<Rightarrow> string option"
  url_append_query :: "string \<Rightarrow> string \<Rightarrow> string \<Rightarrow> string"
  client_id_to_string :: "bytes \<Rightarrow> string"
  http_get_key_server :: "string \<Rightarrow> (key_server_http, string) result"
  cacao_verify :: "Cacao \<Rightarrow> (bool, string) result"
  cacao_identity_key :: "Cacao \<Rightarrow> (string, string) result"
  get_message_id :: "string \<Rightarrow> string"

text \<open>\<open>hex::encode\<close> of a Keccak-256 digest: 64 characters.\<close>

definition keccak_laws :: "ext \<Rightarrow> bool" where
  "keccak_laws X \<longleftrightarrow> (\<forall>s. length (hex_encode X (keccak256 X s)) = 64)"

text \<open>\<open>did:<method>:<data>\<close>: combining and extracting are inverse to each other.\<close>

definition did_laws :: "ext \<Rightarrow> bool" where
  "did_laws X \<longleftrightarrow>
     (\<forall>m d. extract_did_data X (combine_did_data X m d) m = Inr d) \<and>
     (\<forall>m s d. extract_did_data X s m = Inr d \<longrightarrow> s = combine_did_data X m d)"

definition did_key_laws :: "ext \<Rightarrow> bool" where
  "did_key_laws X \<longleftrightarrow>
     (\<forall>k. length k = 32 \<longrightarrow> try_from_did_key X (to_did_key X k) = Inr k) \<and>
     (\<forall>s k. try_from_did_key X s = Inr k \<longrightarrow> length k = 32)"

definition uuid_laws :: "ext \<Rightarrow> bool" where
  "uuid_laws X \<longleftrightarrow>
     (\<forall>u. uuid_parse X (uuid_to_string X u) = Some u) \<and>
     (\<forall>u. CHR '' '' \<notin> set (uuid_to_string X u)) \<and>
     (\<forall>u. CHR 0x2C \<notin> set (uuid_to_string X u))"

definition hex_laws :: "ext \<Rightarrow> bool" where
  "hex_laws X \<longleftrightarrow> (\<forall>bs. hex_decode X (hex_encode X bs) = Inr bs)"

text \<open>
  X25519 key agreement is symmetric, HKDF-SHA256 can expand to 32 bytes, and ChaCha20-Poly1305
  decrypts what it encrypted under the same key and nonce.
\<close>

definition dh_laws :: "ext \<Rightarrow> bool" where
  "dh_laws X \<longleftrightarrow>
     (\<forall>a b. diffie_hellman X a (x25519_public_key X b) = diffie_hellman X b (x25519_public_key X a)) \<and>
     (\<forall>s. \<exists>k. hkdf_expand32 X s = Some k \<and> length k = 32)"

definition aead_laws :: "ext \<Rightarrow> bool" where
  "aead_laws X \<longleftrightarrow>
     (\<forall>k iv m c. chacha_encrypt X k iv m = Some c \<longrightarrow> chacha_decrypt X k iv c = Some m)"

text \<open>
  ChaCha20-Poly1305 encrypts every message that has fewer than \<open>2^32 - 1\<close> full blocks of 64 bytes
  (some 256 GiB), under a key of 32 bytes and a nonce of 12; only a longer message is an error.
\<close>

definition chacha_fits :: "bytes \<Rightarrow> bool" where
  "chacha_fits m \<longleftrightarrow> length m div 64 < 2 ^ 32 - 1"

definition aead_total :: "ext \<Rightarrow> bool" where
  "aead_total X \<longleftrightarrow>
     (\<forall>k iv m. length k = 32 \<longrightarrow> length iv = 12 \<longrightarrow> chacha_fits m \<longrightarrow> chacha_encrypt X k iv m \<noteq> None)"

text \<open>
  Base64: the URL-safe alphabet has \<open>-\<close> and \<open>_\<close> where the standard one has \<open>+\<close> and \<open>/\<close>, and neither has
  the dot. Without those two characters the encodings coincide; with them the standard decoder
  fails. A signature made with a key verifies under its public key.
\<close>

definition jwt_laws :: "ext \<Rightarrow> bool" where
  "jwt_laws X \<longleftrightarrow>
     (\<forall>bs. CHR ''.'' \<notin> set (b64_url_no_pad_encode X bs)) \<and>
     (\<forall>bs. CHR ''-'' \<notin> set (b64_url_no_pad_encode X bs) \<longrightarrow> CHR ''_'' \<notin> set (b64_url_no_pad_encode X bs) \<longrightarrow>
        b64_std_no_pad_decode X (b64_url_no_pad_encode X bs) = Inr bs) \<and>
     (\<forall>s. CHR ''-'' \<in> set s \<or> CHR ''_'' \<in> set s \<longrightarrow> \<not> is_ok (b64_std_no_pad_decode X s)) \<and>
     jwt_header_from_slice X (as_bytes (jwt_header_string X)) = Inr (jwt_header_alg X) \<and>
     (\<forall>k m. jwt_ed_verify X (b64_url_no_pad_encode X (ed25519_sign X k m)) m (ed25519_verifying_key X k) = Inr True)"

section \<open>An instance\<close>

definition cacao_demo :: Cacao where
  "cacao_demo = \<lparr> c_iss = ''did:pkh:eip155:1:0x'' @ replicate 40 CHR ''a'', c_domain = ''app.example'',
     c_statement = Some ''I further authorize this app to send me notifications. Read more at https://walletconnect.com/notifications'',
     c_resources = None, c_nbf = None, c_exp = None, c_signature = ''sig'',
     c_header_type = ''eip4361'', c_aud = ''did:key:z'', c_version = ''1'', c_nonce = ''00'', c_iat = ''2024-01-01T00:00:00Z'',
     c_request_id = None, c_signature_type = ''eip191'' \<rparr>"

text \<open>
  Simple concrete functions that satisfy the laws, for evaluating the model on concrete
  inputs. They are not the real algorithms.
\<close>

definition nibble_char :: "u8 \<Rightarrow> char" where
  "nibble_char w = char_of (if unat w < 10 then 48 + unat w else 87 + unat w)"

definition char_nibble :: "char \<Rightarrow> u8 option" where
  "char_nibble c =
     (let n = of_char c :: nat in
      if 48 \<le> n \<and> n \<le> 57 then Some (of_nat (n - 48))
      else if 97 \<le> n \<and> n \<le> 102 then Some (of_nat (n - 87)) else None)"

fun hex_demo :: "bytes \<Rightarrow> string" where
  "hex_demo [] = []"
| "hex_demo (b # bs) = nibble_char (drop_bit 4 b) # nibble_char (take_bit 4 b) # hex_demo bs"

fun unhex_demo :: "string \<Rightarrow> bytes option" where
  "unhex_demo [] = Some []"
| "unhex_demo [c] = None"
| "unhex_demo (c # d # s) =
     (case (char_nibble c, char_nibble d, unhex_demo s) of
        (Some h, Some l, Some bs) \<Rightarrow> Some ((push_bit 4 h + l) # bs)
      | _ \<Rightarrow> None)"

definition did_combine_demo :: "string \<Rightarrow> string \<Rightarrow> string" where
  "did_combine_demo m d = ''did:'' @ m @ '':'' @ d"

definition did_extract_demo :: "string \<Rightarrow> string \<Rightarrow> (string, string) result" where
  "did_extract_demo s m = ok_or (strip_prefix (''did:'' @ m @ '':'') s) ''invalid DID''"

text \<open>A bijection between 128-bit numbers and 128-character strings of \<open>0\<close> and \<open>1\<close>.\<close>

definition uuid_string_demo :: "uuid \<Rightarrow> string" where
  "uuid_string_demo u = map (\<lambda>i. if bit u i then CHR ''1'' else CHR ''0'') [0..<128]"

definition uuid_parse_demo :: "string \<Rightarrow> uuid option" where
  "uuid_parse_demo s =
     (if length s = 128 \<and> set s \<subseteq> {CHR ''0'', CHR ''1''}
      then Some (horner_sum of_bool 2 (map (\<lambda>c. c = CHR ''1'') s)) else None)"

definition did_key_demo :: "bytes \<Rightarrow> string" where
  "did_key_demo k = did_combine_demo ''key'' (map (\<lambda>w. char_of (unat w)) k)"

definition did_unkey_demo :: "string \<Rightarrow> (bytes, string) result" where
  "did_unkey_demo s =
     rbind (did_extract_demo s ''key'') (\<lambda>d.
       if length d = 32 then Inr (as_bytes d) else Inl ''invalid key length'')"

definition ext_demo :: ext where
  "ext_demo = \<lparr>
     keccak256 = (\<lambda>s. replicate 32 0),
     sha256_digest = hex_demo,
     hex_encode = hex_demo,
     hex_decode = (\<lambda>s. ok_or (unhex_demo s) ''invalid hex''),
     combine_did_data = did_combine_demo,
     extract_did_data = did_extract_demo,
     to_did_key = did_key_demo,
     try_from_did_key = did_unkey_demo,
     uuid_to_string = uuid_string_demo,
     uuid_parse = uuid_parse_demo,
     parse_rfc3339 = (\<lambda>s. None),
     ed25519_verifying_key = map (\<lambda>b. b + 1),
     x25519_public_key = map (\<lambda>b. b + 2),
     diffie_hellman = (\<lambda>a p. map2 (\<lambda>x y. x + y - 2) a p),
     hkdf_expand32 = (\<lambda>s. Some (take 32 (s @ replicate 32 0))),
     chacha_encrypt = (\<lambda>k iv m. Some (k @ iv @ m)),
     chacha_decrypt = (\<lambda>k iv c. if take (length k + length iv) c = k @ iv
                                 then Some (drop (length k + length iv) c) else None),
     b64_std_encode = hex_demo,
     b64_std_decode = (\<lambda>s. ok_or (unhex_demo s) ''invalid base64''),
     b64_std_no_pad_decode = (\<lambda>s. ok_or (unhex_demo s) ''invalid base64''),
     b64_url_no_pad_encode = hex_demo,
     b64_url_no_pad_decode = (\<lambda>s. ok_or (unhex_demo s) ''invalid base64''),
     json_to_string = (\<lambda>j. ''{}''),
     json_from_slice = (\<lambda>bs. Inr (JObject [])),
     jwt_header_alg = ''EdDSA'',
     jwt_header_string = ''h'',
     jwt_header_from_slice = (\<lambda>bs. Inr ''EdDSA''),
     ed25519_sign = (\<lambda>k m. map (\<lambda>b. b + 1) k @ m),
     ed25519_public_key_ok = (\<lambda>k. length k = 32),
     jwt_ed_verify = (\<lambda>sig m k. Inr (sig = hex_demo (k @ m))),
     url_join = (\<lambda>base p. Some (base @ p)),
     url_parse = Some,
     url_append_query = (\<lambda>u k v. u @ ''?'' @ k @ ''='' @ v),
     client_id_to_string = hex_demo,
     http_get_key_server = (\<lambda>u. Inr \<lparr> ksh_status = 200,
        ksh_body = Inr \<lparr> ksr_status = ''SUCCESS'', ksr_value = Some cacao_demo \<rparr> \<rparr>),
     cacao_verify = (\<lambda>c. Inr (c_signature c = ''sig'')),
     cacao_identity_key = (\<lambda>c. Inr ''0606''),
     get_message_id = (\<lambda>m. m) \<rparr>"

lemma length_hex_demo [simp]: "length (hex_demo bs) = 2 * length bs"
  by (induction bs rule: hex_demo.induct) auto

lemma keccak_laws_demo: "keccak_laws ext_demo"
  by (simp add: keccak_laws_def ext_demo_def)

lemma did_laws_demo: "did_laws ext_demo"
proof -
  have "did_extract_demo (did_combine_demo m d) m = Inr d" for m d
    using strip_prefix_append [of "''did:'' @ m @ '':''" d]
    by (simp add: did_extract_demo_def did_combine_demo_def)
  moreover have "did_extract_demo s m = Inr d \<Longrightarrow> s = did_combine_demo m d" for s m d
    by (simp add: did_extract_demo_def did_combine_demo_def strip_prefix_Some_iff)
  ultimately show ?thesis by (simp add: did_laws_def ext_demo_def)
qed

lemma did_key_laws_demo: "did_key_laws ext_demo"
proof -
  have byte: "of_char (char_of (unat w) :: char) = w" for w :: u8
  proof -
    have "(of_char (char_of (unat w) :: char) :: u8) = of_nat (of_char (char_of (unat w) :: char))"
      by (rule of_nat_of_char [symmetric])
    also have "(of_char (char_of (unat w) :: char) :: nat) = unat w"
      using unsigned_less [of w, where ?'a = nat] by simp
    finally show ?thesis by simp
  qed
  have "did_unkey_demo (did_key_demo k) = Inr k" if "length k = 32" for k
    using that did_laws_demo
    by (simp add: did_unkey_demo_def did_key_demo_def did_laws_def ext_demo_def as_bytes_def o_def byte)
  moreover have "did_unkey_demo s = Inr k \<Longrightarrow> length k = 32" for s k
    by (auto simp: did_unkey_demo_def rbind_Inr_iff as_bytes_def split: if_splits)
  ultimately show ?thesis by (simp add: did_key_laws_def ext_demo_def)
qed

lemma uuid_laws_demo: "uuid_laws ext_demo"
proof -
  have "uuid_parse_demo (uuid_string_demo u) = Some u" for u
  proof -
    have "map (\<lambda>c. c = CHR ''1'') (uuid_string_demo u) = map (bit u) [0..<128]"
      by (simp add: uuid_string_demo_def)
    moreover have "horner_sum of_bool 2 (map (bit u) [0..<128]) = u"
      by (simp add: horner_sum_bit_eq_take_bit take_bit_word_eq_self)
    moreover have "length (uuid_string_demo u) = 128" "set (uuid_string_demo u) \<subseteq> {CHR ''0'', CHR ''1''}"
      by (auto simp: uuid_string_demo_def)
    ultimately show ?thesis by (simp add: uuid_parse_demo_def)
  qed
  moreover have "c \<notin> {CHR ''0'', CHR ''1''} \<Longrightarrow> c \<notin> set (uuid_string_demo u)" for u c
    by (auto simp: uuid_string_demo_def)
  ultimately show ?thesis by (simp add: uuid_laws_def ext_demo_def)
qed


lemma nibble_demo: "unat n < 16 \<Longrightarrow> char_nibble (nibble_char n) = Some n"
  by (auto simp: nibble_char_def char_nibble_def Let_def take_bit_nat_eq_self)

lemma hex_roundtrip_demo: "unhex_demo (hex_demo bs) = Some bs"
proof (induction bs)
  case (Cons b bs)
  have h: "unat (drop_bit 4 b) < 16"
    using unsigned_less [of b, where ?'a = nat]
    by (simp only: unat_drop_bit_eq drop_bit_nat_def) simp
  have l: "unat (take_bit 4 b) < 16"
    by (simp only: unsigned_take_bit_eq take_bit_nat_def) simp
  have "push_bit 4 (drop_bit 4 b) + take_bit 4 b = b"
    by (simp add: bits_ident)
  with h l Cons show ?case by (simp add: nibble_demo)
qed simp

lemma hex_laws_demo: "hex_laws ext_demo"
  by (simp add: hex_laws_def ext_demo_def hex_roundtrip_demo)

lemma dh_laws_demo: "dh_laws ext_demo"
proof -
  have "map2 (\<lambda>x y. x + y - 2) a (map (\<lambda>b. b + 2) b) = map2 (\<lambda>x y. x + y - 2) b (map (\<lambda>b. b + 2) a)"
    for a b :: bytes
    by (rule nth_equalityI) (auto simp: algebra_simps)
  moreover have "min (length s) 32 + (32 - length s) = 32" for s :: bytes by simp
  ultimately show ?thesis by (simp add: dh_laws_def ext_demo_def)
qed

lemma aead_laws_demo: "aead_laws ext_demo"
  by (auto simp: aead_laws_def ext_demo_def)

lemma aead_total_demo: "aead_total ext_demo"
  by (simp add: aead_total_def ext_demo_def)


lemma hex_demo_chars: "c \<in> set (hex_demo bs) \<Longrightarrow> char_nibble c \<noteq> None"
proof (induction bs)
  case (Cons b bs)
  have "unat (drop_bit 4 b) < 16" "unat (take_bit 4 b) < 16"
    using unsigned_less [of b, where ?'a = nat]
    by (simp only: unat_drop_bit_eq drop_bit_nat_def, simp)
      (simp only: unsigned_take_bit_eq take_bit_nat_def, simp)
  with Cons show ?case by (auto simp: nibble_demo)
qed simp

lemma unhex_demo_bad: "c \<in> set s \<Longrightarrow> char_nibble c = None \<Longrightarrow> unhex_demo s = None"
  by (induction s rule: unhex_demo.induct) (auto split: option.splits)

lemma char_nibble_bad [simp]:
  "char_nibble CHR ''.'' = None" "char_nibble CHR ''-'' = None" "char_nibble CHR ''_'' = None"
  by (auto simp: char_nibble_def Let_def)

lemma jwt_laws_demo: "jwt_laws ext_demo"
proof -
  note no = char_nibble_bad
  have dot: "CHR ''.'' \<notin> set (hex_demo bs)" "CHR ''-'' \<notin> set (hex_demo bs)" "CHR ''_'' \<notin> set (hex_demo bs)" for bs
    using hex_demo_chars no by metis+
  from no(2,3) have "CHR ''-'' \<in> set s \<or> CHR ''_'' \<in> set s \<Longrightarrow> unhex_demo s = None" for s
    using unhex_demo_bad by blast
  then show ?thesis using dot by (simp add: jwt_laws_def ext_demo_def hex_roundtrip_demo)
qed

end
