(* ===== verification/Account_Id.thy ===== *)
theory Account_Id
  imports Externals
begin

text \<open>
  CAIP-10 account identifiers: \<open>src/src/model/types/account_id/\<close> (\<open>caip10.rs\<close>, \<open>eip155.rs\<close>,
  \<open>erc55.rs\<close>, \<open>mod.rs\<close>), the helpers of \<open>src/src/utils.rs\<close> that take an account apart, and
  the SQL function \<open>get_address_lower\<close> of the migrations, which the unique index on
  subscribers is built on. A panic of the source is the value \<open>None\<close>.
\<close>

section \<open>Character classes of the patterns\<close>

definition is_digit :: "char \<Rightarrow> bool" where
  "is_digit c \<longleftrightarrow> CHR ''0'' \<le> c \<and> c \<le> CHR ''9''"

definition is_lower_az :: "char \<Rightarrow> bool" where
  "is_lower_az c \<longleftrightarrow> CHR ''a'' \<le> c \<and> c \<le> CHR ''z''"

definition is_upper_az :: "char \<Rightarrow> bool" where
  "is_upper_az c \<longleftrightarrow> CHR ''A'' \<le> c \<and> c \<le> CHR ''Z''"

definition is_hex :: "char \<Rightarrow> bool" where
  "is_hex c \<longleftrightarrow> is_digit c \<or> CHR ''a'' \<le> c \<and> c \<le> CHR ''f'' \<or> CHR ''A'' \<le> c \<and> c \<le> CHR ''F''"

definition ns_char :: "char \<Rightarrow> bool" where
  "ns_char c \<longleftrightarrow> c = CHR ''-'' \<or> is_lower_az c \<or> is_digit c"

definition ref_char :: "char \<Rightarrow> bool" where
  "ref_char c \<longleftrightarrow> c = CHR ''-'' \<or> c = CHR ''_'' \<or> is_lower_az c \<or> is_upper_az c \<or> is_digit c"

definition addr_char :: "char \<Rightarrow> bool" where
  "addr_char c \<longleftrightarrow> c = CHR ''-'' \<or> c = CHR ''.'' \<or> c = CHR ''%'' \<or>
     is_lower_az c \<or> is_upper_az c \<or> is_digit c"

text \<open>\<open>[class]{lo,hi}\<close> against a whole piece.\<close>

definition rep_class :: "(char \<Rightarrow> bool) \<Rightarrow> nat \<Rightarrow> nat \<Rightarrow> string \<Rightarrow> bool" where
  "rep_class P lo hi s \<longleftrightarrow> lo \<le> length s \<and> length s \<le> hi \<and> list_all P s"

section \<open>ERC-55\<close>

text \<open>
  \<open>address_hash.as_bytes()[i]\<close> panics when the hash is shorter than the string; the result is
  then \<open>None\<close>. The string is ASCII wherever the function is called.
\<close>

definition erc_55_checksum_encode :: "ext \<Rightarrow> string \<Rightarrow> string option" where
  "erc_55_checksum_encode X s =
     (let address_hash = hex_encode X (keccak256 X (as_bytes s)) in
      if list_all (\<lambda>i. is_digit (s ! i) \<or> i < length address_hash) [0..<length s]
      then Some (map (\<lambda>i. if \<not> is_digit (s ! i) \<and> address_hash ! i > CHR ''7''
                          then to_ascii_upper_char (s ! i) else s ! i) [0..<length s])
      else None)"

section \<open>EIP-155\<close>

definition NAMESPACE_EIP155 :: string where
  "NAMESPACE_EIP155 = ''eip155''"

datatype Eip155ReferenceError = Eip155Reference_Regex

datatype Eip155AddressError = Eip155Address_Regex | Eip155Address_Erc55

datatype Eip155Error =
    Eip155_Reference Eip155ReferenceError
  | Eip155_Address Eip155AddressError

text \<open>
  \<open>\d\<close> also matches digits outside ASCII, but the reference comes from the CAIP-10 pattern,
  which is ASCII.
\<close>

definition validate_eip155_reference :: "string \<Rightarrow> (unit, Eip155ReferenceError) result" where
  "validate_eip155_reference reference =
     (if reference \<noteq> [] \<and> list_all is_digit reference then Inr ()
      else Inl Eip155Reference_Regex)"

definition address_captures :: "string \<Rightarrow> string option" where
  "address_captures address =
     (case strip_prefix ''0x'' address of
        None \<Rightarrow> None
      | Some h \<Rightarrow> if rep_class is_hex 40 40 h then Some h else None)"

definition validate_eip155_address ::
  "ext \<Rightarrow> string \<Rightarrow> (unit, Eip155AddressError) result option" where
  "validate_eip155_address X address =
     (case address_captures address of
        Some address_hex \<Rightarrow>
          (case erc_55_checksum_encode X (to_ascii_lowercase address_hex) of
             None \<Rightarrow> None
           | Some erc55 \<Rightarrow> Some (if erc55 = address_hex then Inr () else Inl Eip155Address_Erc55))
      | None \<Rightarrow> Some (Inl Eip155Address_Regex))"

definition validate_eip155 ::
  "ext \<Rightarrow> string \<Rightarrow> string \<Rightarrow> (unit, Eip155Error) result option" where
  "validate_eip155 X reference address =
     (case validate_eip155_reference reference of
        Inl e \<Rightarrow> Some (Inl (Eip155_Reference e))
      | Inr _ \<Rightarrow> map_option (map_err Eip155_Address) (validate_eip155_address X address))"

section \<open>CAIP-10\<close>

datatype Caip10Error =
    Caip10_Invalid
  | Caip10_UnsupportedNamespace
  | Caip10_Eip155 Eip155Error

text \<open>
  The captures of \<open>^([-a-z0-9]{3,8}):([-_a-zA-Z0-9]{1,32}):([-.%a-zA-Z0-9]{1,128})$\<close>. No class
  holds the colon, so the pieces between the colons are the only possible captures.
\<close>

definition caip10_captures :: "string \<Rightarrow> (string \<times> string \<times> string) option" where
  "caip10_captures s =
     (case split_char CHR '':'' s of
        [ns, r, a] \<Rightarrow>
          if rep_class ns_char 3 8 ns \<and> rep_class ref_char 1 32 r \<and> rep_class addr_char 1 128 a
          then Some (ns, r, a) else None
      | _ \<Rightarrow> None)"

definition validate_caip_10 :: "ext \<Rightarrow> string \<Rightarrow> (unit, Caip10Error) result option" where
  "validate_caip_10 X s =
     (case caip10_captures s of
        Some (ns, r, a) \<Rightarrow>
          if ns = NAMESPACE_EIP155 then map_option (map_err Caip10_Eip155) (validate_eip155 X r a)
          else Some (Inl Caip10_UnsupportedNamespace)
      | None \<Rightarrow> Some (Inl Caip10_Invalid))"

section \<open>\<open>AccountId\<close>\<close>

type_synonym AccountId = string

definition AccountId_try_from :: "ext \<Rightarrow> string \<Rightarrow> (AccountId, Caip10Error) result option" where
  "AccountId_try_from X s = map_option (map_ok (\<lambda>_. s)) (validate_caip_10 X s)"

datatype AccountIdParseError =
    AccountIdParse_Caip10 Caip10Error
  | AccountIdParse_Did string

definition DID_METHOD_PKH :: string where
  "DID_METHOD_PKH = ''pkh''"

definition from_did_pkh :: "ext \<Rightarrow> string \<Rightarrow> (AccountId, AccountIdParseError) result option" where
  "from_did_pkh X did =
     (case extract_did_data X did DID_METHOD_PKH of
        Inl e \<Rightarrow> Some (Inl (AccountIdParse_Did e))
      | Inr d \<Rightarrow> map_option (map_err AccountIdParse_Caip10) (AccountId_try_from X d))"

definition to_did_pkh :: "ext \<Rightarrow> AccountId \<Rightarrow> string" where
  "to_did_pkh X account = combine_did_data X DID_METHOD_PKH account"

text \<open>\<open>s[8..]\<close> and the \<open>expect\<close> on \<open>find\<close> panic on strings that are too short or lack the colon.\<close>

definition get_address_from_account :: "AccountId \<Rightarrow> string option" where
  "get_address_from_account s =
     (let known_skippable_prefix_len = length ''eip155:1'' in
      if length s < known_skippable_prefix_len then None
      else (case find_char CHR '':'' (drop known_skippable_prefix_len s) of
              None \<Rightarrow> None
            | Some i \<Rightarrow> Some (drop (known_skippable_prefix_len + i + 1) s)))"

definition is_same_address :: "AccountId \<Rightarrow> AccountId \<Rightarrow> bool option" where
  "is_same_address account1 account2 =
     (case (get_address_from_account account1, get_address_from_account account2) of
        (Some a, Some b) \<Rightarrow> Some (eq_ignore_ascii_case a b)
      | _ \<Rightarrow> None)"

definition topic_from_key :: "ext \<Rightarrow> bytes \<Rightarrow> topic" where
  "topic_from_key X key = sha256_digest X key"

text \<open>
  \<open>lower(split_part(account, ':', 3))\<close> of Postgres; \<open>split_part\<close> is the empty string when there
  are fewer pieces.
\<close>

definition split_part :: "string \<Rightarrow> char \<Rightarrow> nat \<Rightarrow> string" where
  "split_part s c n = (let ps = split_char c s in if n \<le> length ps then ps ! (n - 1) else [])"

definition get_address_lower :: "string \<Rightarrow> string" where
  "get_address_lower account_id = to_ascii_lowercase (split_part account_id CHR '':'' 3)"

text \<open>What validation establishes of an account.\<close>

definition valid_account :: "ext \<Rightarrow> string \<Rightarrow> bool" where
  "valid_account X s \<longleftrightarrow> AccountId_try_from X s = Some (Inr s)"

section \<open>Facts about the patterns\<close>

lemma rep_class_no_colon:
  "rep_class P lo hi s \<Longrightarrow> \<not> P CHR '':'' \<Longrightarrow> CHR '':'' \<notin> set s"
  by (auto simp: rep_class_def list_all_iff)

lemma no_colon_classes [simp]:
  "\<not> ns_char CHR '':''" "\<not> ref_char CHR '':''" "\<not> addr_char CHR '':''" "\<not> is_digit CHR '':''"
  "\<not> is_hex CHR '':''"
  by (simp_all add: ns_char_def ref_char_def addr_char_def is_hex_def is_digit_def is_lower_az_def
      is_upper_az_def less_eq_char_def)

lemma split_char_inj: "split_char c s = split_char c t \<Longrightarrow> s = t"
proof (induction s arbitrary: t)
  case Nil
  then show ?case by (cases t) (auto split: if_splits list.splits dest: sym)
next
  case (Cons x s)
  show ?case
  proof (cases t)
    case Nil
    with Cons.prems show ?thesis by (auto split: if_splits list.splits)
  next
    case (Cons y u)
    with Cons.prems \<open>\<And>t. split_char c s = split_char c t \<Longrightarrow> s = t\<close> show ?thesis
      by (auto split: if_splits list.splits)
  qed
qed

lemma split3:
  "c \<notin> set a \<Longrightarrow> c \<notin> set b \<Longrightarrow> c \<notin> set d \<Longrightarrow> split_char c (a @ c # b @ c # d) = [a, b, d]"
  by simp

lemma caip10_captures_iff:
  "caip10_captures s = Some (ns, r, a) \<longleftrightarrow>
     s = ns @ CHR '':'' # r @ CHR '':'' # a \<and>
     rep_class ns_char 3 8 ns \<and> rep_class ref_char 1 32 r \<and> rep_class addr_char 1 128 a"
    (is "?L \<longleftrightarrow> ?R")
proof
  assume ?L
  then have sp: "split_char CHR '':'' s = [ns, r, a]"
    and cl: "rep_class ns_char 3 8 ns" "rep_class ref_char 1 32 r" "rep_class addr_char 1 128 a"
    by (auto simp: caip10_captures_def split: list.splits if_splits)
  have "split_char CHR '':'' (ns @ CHR '':'' # r @ CHR '':'' # a) = [ns, r, a]"
    using cl by (intro split3) (auto dest: rep_class_no_colon)
  with sp have "s = ns @ CHR '':'' # r @ CHR '':'' # a" by (metis split_char_inj)
  with cl show ?R by simp
next
  assume R: ?R
  then have "CHR '':'' \<notin> set ns" "CHR '':'' \<notin> set r" "CHR '':'' \<notin> set a"
    using rep_class_no_colon no_colon_classes by blast+
  with R have "split_char CHR '':'' s = [ns, r, a]" by simp
  with R show ?L by (simp add: caip10_captures_def)
qed

lemma address_captures_iff:
  "address_captures a = Some h \<longleftrightarrow> a = ''0x'' @ h \<and> length h = 40 \<and> list_all is_hex h"
proof -
  have "strip_prefix ''0x'' (CHR ''0'' # CHR ''x'' # h) = Some h" by (simp add: strip_prefix_def)
  then show ?thesis
    using strip_prefix_Some_iff [of "''0x''" a h]
    by (auto simp: address_captures_def rep_class_def split: option.splits if_splits)
qed

section \<open>Validation\<close>

lemma erc_55_total:
  "keccak_laws X \<Longrightarrow> length s \<le> 64 \<Longrightarrow> erc_55_checksum_encode X s \<noteq> None"
  by (auto simp: erc_55_checksum_encode_def keccak_laws_def list_all_iff)

lemma erc_55_lowercase:
  assumes "erc_55_checksum_encode X s = Some t"
  shows "to_ascii_lowercase t = to_ascii_lowercase s" and "length t = length s"
  using assms
  by (auto simp: erc_55_checksum_encode_def Let_def to_ascii_lowercase_def
      intro!: nth_equalityI split: if_splits)

lemma validate_caip_10_total: "keccak_laws X \<Longrightarrow> \<exists>r. validate_caip_10 X s = Some r"
  by (auto simp: validate_caip_10_def validate_eip155_def validate_eip155_address_def
      address_captures_iff erc_55_total split: option.splits sum.splits)

text \<open>The shape of every account the server accepts.\<close>

definition eip155_account :: "ext \<Rightarrow> string \<Rightarrow> string \<Rightarrow> string \<Rightarrow> bool" where
  "eip155_account X s r h \<longleftrightarrow>
     s = ''eip155:'' @ r @ '':0x'' @ h \<and> rep_class is_digit 1 32 r \<and> rep_class is_hex 40 40 h \<and>
     erc_55_checksum_encode X (to_ascii_lowercase h) = Some h"

lemma hex_addr_char: "list_all is_hex h \<Longrightarrow> list_all addr_char h"
  by (auto simp: list_all_iff is_hex_def addr_char_def is_lower_az_def is_upper_az_def is_digit_def
      less_eq_char_def)

lemma digit_ref_char: "list_all is_digit r \<Longrightarrow> list_all ref_char r"
  by (auto simp: list_all_iff ref_char_def)

lemma ns_eip155 [simp]: "rep_class ns_char 3 8 ''eip155''"
  by (simp add: rep_class_def ns_char_def is_lower_az_def is_digit_def less_eq_char_def)

lemma addr_0x: "addr_char CHR ''0''" "addr_char CHR ''x''"
  by (simp_all add: addr_char_def is_lower_az_def is_upper_az_def is_digit_def less_eq_char_def)

lemma AccountId_try_from_Ok_iff:
  "AccountId_try_from X s = Some (Inr a) \<longleftrightarrow> a = s \<and> (\<exists>r h. eip155_account X s r h)"
    (is "?L \<longleftrightarrow> ?R")
proof
  assume ?L
  then obtain r addr where cap: "caip10_captures s = Some (NAMESPACE_EIP155, r, addr)"
    and dig: "r \<noteq> []" "list_all is_digit r" and "a = s"
    and v: "validate_eip155_address X addr = Some (Inr ())"
    by (auto simp: AccountId_try_from_def validate_caip_10_def validate_eip155_def
        validate_eip155_reference_def map_ok_Inr_iff split: option.splits if_splits sum.splits)
  from v obtain h where h: "addr = ''0x'' @ h" "length h = 40" "list_all is_hex h"
    "erc_55_checksum_encode X (to_ascii_lowercase h) = Some h"
    by (auto simp: validate_eip155_address_def address_captures_iff split: option.splits if_splits)
  from cap h dig have "eip155_account X s r h"
    by (auto simp: eip155_account_def caip10_captures_iff NAMESPACE_EIP155_def rep_class_def)
  with \<open>a = s\<close> show ?R by blast
next
  assume ?R
  then obtain r h where a: "a = s" and e: "eip155_account X s r h" by blast
  then have "caip10_captures s = Some (NAMESPACE_EIP155, r, ''0x'' @ h)"
    using hex_addr_char digit_ref_char addr_0x ns_eip155
    by (auto simp: eip155_account_def caip10_captures_iff NAMESPACE_EIP155_def rep_class_def)
  moreover have "address_captures (''0x'' @ h) = Some h"
    using e address_captures_iff [of "''0x'' @ h" h] by (simp add: eip155_account_def rep_class_def)
  ultimately show ?L
    using e a
    by (auto simp: AccountId_try_from_def validate_caip_10_def validate_eip155_def
        validate_eip155_reference_def validate_eip155_address_def eip155_account_def rep_class_def)
qed

lemma valid_account_iff: "valid_account X s \<longleftrightarrow> (\<exists>r h. eip155_account X s r h)"
  by (simp add: valid_account_def AccountId_try_from_Ok_iff)

lemma eip155_account_parts:
  assumes "eip155_account X s r h"
  shows "get_address_from_account s = Some (''0x'' @ h)"
    and "get_address_lower s = to_ascii_lowercase (''0x'' @ h)"
proof -
  from assms have nr: "CHR '':'' \<notin> set r" and nh: "CHR '':'' \<notin> set h"
    and s: "s = ''eip155:'' @ r @ '':0x'' @ h"
    using rep_class_no_colon no_colon_classes unfolding eip155_account_def by blast+
  from assms obtain d r' where r: "r = d # r'"
    by (cases r) (auto simp: eip155_account_def rep_class_def)
  have "find_char CHR '':'' (r' @ '':0x'' @ h) = Some (length r')"
    using nr r by simp
  then show "get_address_from_account s = Some (''0x'' @ h)"
    using r s by (simp add: get_address_from_account_def)
  have "split_char CHR '':'' s = [''eip155'', r, ''0x'' @ h]"
    using split3 [of "CHR '':''" "''eip155''" r "''0x'' @ h"] nr nh s by simp
  then show "get_address_lower s = to_ascii_lowercase (''0x'' @ h)"
    by (simp add: get_address_lower_def split_part_def)
qed


section \<open>The account properties\<close>

lemma valid_account_checksum_unique:
  assumes "eip155_account X s r h" "eip155_account X t q k"
    and "to_ascii_lowercase h = to_ascii_lowercase k"
  shows "h = k"
  using assms by (simp add: eip155_account_def)

lemma valid_address:
  assumes "valid_account X s"
  shows "\<exists>a. get_address_from_account s = Some a \<and> get_address_lower s = to_ascii_lowercase a"
  using assms eip155_account_parts by (fastforce simp: valid_account_iff)

lemma same_lower_address:
  assumes "valid_account X s" "valid_account X t"
    and "get_address_from_account s = Some a" "get_address_from_account t = Some b"
  shows "get_address_lower s = get_address_lower t \<longleftrightarrow> a = b"
proof -
  obtain r h q k where e: "eip155_account X s r h" "eip155_account X t q k"
    using assms by (auto simp: valid_account_iff)
  have "to_ascii_lowercase (''0x'' @ h) = to_ascii_lowercase (''0x'' @ k) \<longleftrightarrow> h = k"
    using e by (auto dest: valid_account_checksum_unique)
  then show ?thesis
    using assms(3,4) eip155_account_parts [OF e(1)] eip155_account_parts [OF e(2)]
    by (metis append_Cons append_Nil list.inject option.inject)
qed

text \<open>
  C37. Validation of an account identifier never panics, and it accepts exactly the strings
  \<open>eip155:<1 to 32 digits>:0x<40 hex digits>\<close> whose hex digits are the ERC-55 checksummed form
  of the address.
\<close>

theorem account_validation_exact:
  assumes "keccak_laws X"
  shows "AccountId_try_from X s \<noteq> None \<and>
    (AccountId_try_from X s = Some (Inr a) \<longleftrightarrow>
       a = s \<and> (\<exists>r h. s = ''eip155:'' @ r @ '':0x'' @ h \<and>
         rep_class is_digit 1 32 r \<and> rep_class is_hex 40 40 h \<and>
         erc_55_checksum_encode X (to_ascii_lowercase h) = Some h))"
proof
  show "AccountId_try_from X s \<noteq> None"
    using validate_caip_10_total [OF assms, of s] by (auto simp: AccountId_try_from_def)
qed (simp add: AccountId_try_from_Ok_iff eip155_account_def)

text \<open>Concrete accounts, valid when no digit of the digest is above \<open>7\<close>.\<close>

definition acct_a :: string where
  "acct_a = ''eip155:1:0x'' @ replicate 40 CHR ''a''"

definition acct_b :: string where
  "acct_b = ''eip155:137:0x'' @ replicate 40 CHR ''b''"

lemma erc_55_demo: "length s \<le> 64 \<Longrightarrow> erc_55_checksum_encode ext_demo s = Some s"
proof -
  have "nibble_char 0 = CHR ''0''" by code_simp
  then have "hex_demo (replicate n 0) = replicate (2 * n) CHR ''0''" for n
    by (induction n) auto
  moreover assume "length s \<le> 64"
  ultimately show ?thesis
    by (auto simp: erc_55_checksum_encode_def ext_demo_def list_all_iff less_char_def
        intro!: nth_equalityI)
qed

lemma valid_acct_a: "eip155_account ext_demo acct_a ''1'' (replicate 40 CHR ''a'')"
  by (simp add: eip155_account_def acct_a_def rep_class_def is_digit_def is_hex_def list_all_iff
      less_eq_char_def to_ascii_lowercase_def to_ascii_lower_char_def erc_55_demo)

lemma valid_acct_b: "eip155_account ext_demo acct_b ''137'' (replicate 40 CHR ''b'')"
  by (simp add: eip155_account_def acct_b_def rep_class_def is_digit_def is_hex_def list_all_iff
      less_eq_char_def to_ascii_lowercase_def to_ascii_lower_char_def erc_55_demo)

theorem account_validation_exact_witness:
  "AccountId_try_from ext_demo acct_a = Some (Inr acct_a)"
  using account_validation_exact [OF keccak_laws_demo, of acct_a acct_a] valid_acct_a
  by (auto simp: eip155_account_def)

text \<open>
  On every validated account \<open>get_address_from_account\<close> returns (its slice and its \<open>expect\<close>
  never panic), the address it returns agrees, up to ASCII case, with the SQL function
  \<open>get_address_lower\<close> the unique index is built on, and two validated accounts, whatever their
  chains, have equal lower-cased addresses only when their addresses are equal.
\<close>

theorem account_address_agrees:
  assumes "valid_account X s" and "valid_account X t"
  shows "\<exists>a b. get_address_from_account s = Some a \<and> get_address_from_account t = Some b \<and>
    get_address_lower s = to_ascii_lowercase a \<and> get_address_lower t = to_ascii_lowercase b \<and>
    (get_address_lower s = get_address_lower t \<longleftrightarrow> a = b) \<and>
    is_same_address s t = Some (a = b)"
proof -
  obtain a b where ab: "get_address_from_account s = Some a" "get_address_from_account t = Some b"
    "get_address_lower s = to_ascii_lowercase a" "get_address_lower t = to_ascii_lowercase b"
    using valid_address [OF assms(1)] valid_address [OF assms(2)] by blast
  then show ?thesis
    using same_lower_address [OF assms ab(1,2)]
    by (auto simp: is_same_address_def eq_ignore_ascii_case_def)
qed

theorem account_address_agrees_witness:
  "valid_account ext_demo acct_a \<and> valid_account ext_demo acct_b \<and>
   (\<exists>a b. get_address_from_account acct_a = Some a \<and> get_address_from_account acct_b = Some b \<and>
    get_address_lower acct_a = to_ascii_lowercase a \<and> get_address_lower acct_b = to_ascii_lowercase b \<and>
    (get_address_lower acct_a = get_address_lower acct_b \<longleftrightarrow> a = b) \<and>
    is_same_address acct_a acct_b = Some (a = b))"
  using account_address_agrees [of ext_demo acct_a acct_b] valid_acct_a valid_acct_b
  by (auto simp: valid_account_iff)

section \<open>\<open>did:pkh\<close>\<close>

definition from_did_pkh_res :: "ext \<Rightarrow> string \<Rightarrow> (AccountId, AccountIdParseError option) result" where
  "from_did_pkh_res X did = (case from_did_pkh X did of None \<Rightarrow> Inl None | Some r \<Rightarrow> map_err Some r)"

lemma did_pkh_codec:
  "did_laws X \<Longrightarrow> codec_exact (valid_account X) (to_did_pkh X) (from_did_pkh_res X)"
proof unfold_locales
  fix x assume "did_laws X" "valid_account X x"
  then show "from_did_pkh_res X (to_did_pkh X x) = Inr x"
    by (simp add: did_laws_def valid_account_def to_did_pkh_def from_did_pkh_def from_did_pkh_res_def)
next
  fix y x assume "did_laws X" "from_did_pkh_res X y = Inr x"
  then show "valid_account X x \<and> to_did_pkh X x = y"
    by (auto simp: did_laws_def valid_account_iff to_did_pkh_def from_did_pkh_def from_did_pkh_res_def
        AccountId_try_from_Ok_iff split: sum.splits option.splits)
qed

text \<open>
  \<open>from_did_pkh\<close> accepts exactly the \<open>to_did_pkh\<close> forms of the validated accounts and gives
  the account back, so distinct validated accounts have distinct DIDs.
\<close>

theorem did_pkh_roundtrip:
  assumes "did_laws X"
  shows "from_did_pkh X did = Some (Inr a) \<longleftrightarrow> valid_account X a \<and> did = to_did_pkh X a"
  using codec_exact.dec_iff [OF did_pkh_codec [OF assms], of did a]
  by (auto simp: from_did_pkh_res_def split: option.splits)

theorem did_pkh_roundtrip_witness:
  "from_did_pkh ext_demo (to_did_pkh ext_demo acct_a) = Some (Inr acct_a)"
  using did_pkh_roundtrip [OF did_laws_demo, of "to_did_pkh ext_demo acct_a" acct_a] valid_acct_a
  by (auto simp: valid_account_iff)

end
