(* ===== verification/Database.thy ===== *)
theory Database
  imports Account_Id
begin

text \<open>
  The Postgres schema of \<open>src/migrations\<close> as the server sees it: a record of tables, each a list
  of rows in insertion order, with the constraints of the schema as the invariant \<open>wf_db\<close>.
  Columns the server neither reads nor writes explicitly (the \<open>inserted_at\<close> columns) are left
  out. \<open>gen_random_uuid()\<close> and \<open>now()\<close> are arguments of the statements that use them. A statement
  that breaks a constraint is an error and leaves the database as it was.
\<close>

section \<open>Rows\<close>

record project_row =
  p_id :: uuid
  p_updated_at :: datetime
  p_project_id :: string
  p_app_domain :: string
  p_topic :: topic
  p_authentication_public_key :: string
  p_authentication_private_key :: string
  p_subscribe_public_key :: string
  p_subscribe_private_key :: string

record subscriber_row =
  s_id :: uuid
  s_updated_at :: datetime
  s_project :: uuid
  s_account :: string
  s_sym_key :: string
  s_topic :: topic
  s_expiry :: datetime

record scope_row =
  sc_id :: uuid
  sc_subscriber :: uuid
  sc_name :: string

record watcher_row =
  w_id :: uuid
  w_updated_at :: datetime
  w_account :: string
  w_project :: "uuid option"
  w_did_key :: string
  w_sym_key :: string
  w_expiry :: datetime

record notification_row =
  n_id :: uuid
  n_created_at :: datetime
  n_project :: uuid
  n_notification_id :: string
  n_type :: uuid
  n_title :: string
  n_body :: string
  n_icon :: "string option"
  n_url :: "string option"

datatype SubscriberNotificationStatus =
  Queued | Processing | Published | Failed | NotSubscribed | WrongScope | RateLimited

record subscriber_notification_row =
  sn_id :: uuid
  sn_created_at :: datetime
  sn_updated_at :: datetime
  sn_notification :: uuid
  sn_subscriber :: uuid
  sn_status :: SubscriberNotificationStatus
  sn_is_read :: bool

record welcome_row =
  wn_id :: uuid
  wn_project :: uuid
  wn_enabled :: bool
  wn_type :: uuid
  wn_title :: string
  wn_body :: string
  wn_url :: "string option"

text \<open>
  \<open>delivery_channel\<close> holds the payloads the triggers of
  \<open>20231026150926_add_notification_trigger.sql\<close> sent with \<open>pg_notify\<close>, oldest first.
\<close>

record db =
  projects :: "project_row list"
  subscribers :: "subscriber_row list"
  scopes :: "scope_row list"
  watchers :: "watcher_row list"
  notifications :: "notification_row list"
  subscriber_notifications :: "subscriber_notification_row list"
  welcome_notifications :: "welcome_row list"
  delivery_channel :: "uuid list"

definition empty_db :: db where
  "empty_db = \<lparr> projects = [], subscribers = [], scopes = [], watchers = [], notifications = [],
     subscriber_notifications = [], welcome_notifications = [], delivery_channel = [] \<rparr>"

section \<open>Errors and column types\<close>

datatype sqlx_error =
    RowNotFound
  | ColumnDecode
  | UniqueViolation string
  | ForeignKeyViolation string
  | StringDataRightTruncation
  | InvalidByteSequence
  | InvalidTextRepresentation

fun take_chars :: "nat \<Rightarrow> string \<Rightarrow> string" where
  "take_chars n [] = []"
| "take_chars n (c # s) =
     (if is_char_start c then (case n of 0 \<Rightarrow> [] | Suc m \<Rightarrow> c # take_chars m s)
      else c # take_chars n s)"

text \<open>
  Assignment to a \<open>VARCHAR(255)\<close> column: a zero byte is refused, a longer value is an error
  unless what is cut off is spaces.
\<close>

definition varchar255 :: "string \<Rightarrow> (string, sqlx_error) result" where
  "varchar255 s =
     (if CHR 0x00 \<in> set s then Inl InvalidByteSequence
      else if chars_count s \<le> 255 then Inr s
      else (let t = take_chars 255 s in
            if list_all (\<lambda>c. c = CHR '' '') (drop (length t) s) then Inr t
            else Inl StringDataRightTruncation))"

definition varchar255_opt :: "string option \<Rightarrow> (string option, sqlx_error) result" where
  "varchar255_opt v = (case v of None \<Rightarrow> Inr None | Some s \<Rightarrow> map_ok Some (varchar255 s))"

text \<open>\<open>sqlx(try_from = "String")\<close> of an \<open>AccountId\<close> column.\<close>

definition decode_account :: "ext \<Rightarrow> string \<Rightarrow> (AccountId, sqlx_error) result" where
  "decode_account X s =
     (case AccountId_try_from X s of Some (Inr a) \<Rightarrow> Inr a | _ \<Rightarrow> Inl ColumnDecode)"

text \<open>\<open>fetch_one\<close> and \<open>fetch_optional\<close>: the first row the query yields.\<close>

definition fetch_one :: "'r list \<Rightarrow> ('r, sqlx_error) result" where
  "fetch_one rs = (case rs of [] \<Rightarrow> Inl RowNotFound | r # _ \<Rightarrow> Inr r)"

definition fetch_optional :: "'r list \<Rightarrow> 'r option" where
  "fetch_optional rs = (case rs of [] \<Rightarrow> None | r # _ \<Rightarrow> Some r)"

section \<open>Statements on one table\<close>

definition unique_ok :: "('r \<Rightarrow> 'k) \<Rightarrow> 'r \<Rightarrow> 'r list \<Rightarrow> bool" where
  "unique_ok f r t \<longleftrightarrow> f r \<notin> f ` set t"

definition update_where :: "('r \<Rightarrow> bool) \<Rightarrow> ('r \<Rightarrow> 'r) \<Rightarrow> 'r list \<Rightarrow> 'r list" where
  "update_where P u t = map (\<lambda>r. if P r then u r else r) t"

lemma unique_insert: "unique_ok f r t \<Longrightarrow> distinct (map f t) \<Longrightarrow> distinct (map f (t @ [r]))"
  by (auto simp: unique_ok_def)

lemma update_where_key:
  "(\<And>r. r \<in> set t \<Longrightarrow> P r \<Longrightarrow> f (u r) = f r) \<Longrightarrow> map f (update_where P u t) = map f t"
  by (simp add: update_where_def)

lemma update_where_key_set:
  "(\<And>r. r \<in> set t \<Longrightarrow> P r \<Longrightarrow> f (u r) = f r) \<Longrightarrow> f ` set (update_where P u t) = f ` set t"
  using update_where_key [of t P f u] by (metis list.set_map)

lemma length_update_where [simp]: "length (update_where P u t) = length t"
  by (simp add: update_where_def)

lemma set_update_where: "set (update_where P u t) = {u r | r. r \<in> set t \<and> P r} \<union> {r \<in> set t. \<not> P r}"
  by (auto simp: update_where_def image_iff)

lemma update_where_False: "(\<And>r. r \<in> set t \<Longrightarrow> \<not> P r) \<Longrightarrow> update_where P u t = t"
  by (simp add: update_where_def map_idI)

lemma varchar255_idem: "varchar255 s = Inr t \<Longrightarrow> chars_count s \<le> 255 \<Longrightarrow> t = s"
  by (auto simp: varchar255_def split: if_splits)

lemma take_chars_prefix: "prefix (take_chars n s) s"
  by (induction n s rule: take_chars.induct) (auto split: nat.splits)

lemma varchar255_no_space: "varchar255 s = Inr t \<Longrightarrow> CHR '' '' \<notin> set s \<Longrightarrow> t = s"
proof -
  assume v: "varchar255 s = Inr t" and ns: "CHR '' '' \<notin> set s"
  show "t = s"
  proof (cases "chars_count s \<le> 255")
    case True
    with v show ?thesis by (simp add: varchar255_idem)
  next
    case False
    from v False have t: "t = take_chars 255 s"
      and sp: "list_all (\<lambda>c. c = CHR '' '') (drop (length t) s)"
      by (auto simp: varchar255_def Let_def split: if_splits)
    from t obtain zs where "s = t @ zs" using take_chars_prefix [of 255 s] by (auto simp: prefix_def)
    with sp ns show ?thesis by (cases zs) auto
  qed
qed

lemma chars_count_le_length: "chars_count s \<le> length s"
  by (simp add: chars_count_def)

lemma varchar255_valid_account: "valid_account X a \<Longrightarrow> varchar255 a = Inr a"
proof -
  assume "valid_account X a"
  then obtain r h where "eip155_account X a r h" by (auto simp: valid_account_iff)
  then have "length a \<le> 255" and "CHR 0x00 \<notin> set a"
    by (auto simp: eip155_account_def rep_class_def list_all_iff is_digit_def is_hex_def less_eq_char_def)
  then show ?thesis using chars_count_le_length [of a] by (simp add: varchar255_def)
qed

lemma decode_account_Inr_iff [simp]: "decode_account X s = Inr a \<longleftrightarrow> valid_account X s \<and> a = s"
proof -
  have "AccountId_try_from X s = Some (Inr b) \<Longrightarrow> b = s" for b
    by (simp add: AccountId_try_from_Ok_iff)
  then show ?thesis
    by (auto simp: decode_account_def valid_account_def split: option.splits sum.splits)
qed

lemma fetch_one_Inr_iff: "fetch_one rs = Inr r \<longleftrightarrow> rs \<noteq> [] \<and> r = hd rs"
  by (cases rs) (auto simp: fetch_one_def)

lemma fetch_one_Inl_iff: "fetch_one rs = Inl e \<longleftrightarrow> rs = [] \<and> e = RowNotFound"
  by (cases rs) (auto simp: fetch_one_def)

lemma fetch_one_filter_Inr: "fetch_one (filter P t) = Inr r \<Longrightarrow> r \<in> set t \<and> P r"
  using hd_in_set [of "filter P t"] by (auto simp: fetch_one_Inr_iff)

lemma fetch_one_filter_unique:
  "distinct (map f t) \<Longrightarrow> fetch_one (filter (\<lambda>r. f r = k) t) = Inr r \<longleftrightarrow> r \<in> set t \<and> f r = k"
  using filter_eq_single [of f t r] fetch_one_filter_Inr [of "\<lambda>r. f r = k" t r]
  by (auto simp: fetch_one_def)

section \<open>The constraints of the schema\<close>

definition wf_projects :: "project_row list \<Rightarrow> bool" where
  "wf_projects ps \<longleftrightarrow>
     distinct (map p_id ps) \<and> distinct (map p_project_id ps) \<and> distinct (map p_app_domain ps) \<and>
     distinct (map p_topic ps) \<and>
     distinct (map p_authentication_public_key ps) \<and> distinct (map p_authentication_private_key ps) \<and>
     distinct (map p_subscribe_public_key ps) \<and> distinct (map p_subscribe_private_key ps)"

definition s_index :: "subscriber_row \<Rightarrow> uuid \<times> string" where
  "s_index s = (s_project s, get_address_lower (s_account s))"

definition wf_subscribers :: "ext \<Rightarrow> uuid set \<Rightarrow> subscriber_row list \<Rightarrow> bool" where
  "wf_subscribers X pids ss \<longleftrightarrow>
     distinct (map s_id ss) \<and> distinct (map s_index ss) \<and> distinct (map s_sym_key ss) \<and>
     distinct (map s_topic ss) \<and> s_project ` set ss \<subseteq> pids \<and> list_all (valid_account X \<circ> s_account) ss"

definition sc_index :: "scope_row \<Rightarrow> uuid \<times> string" where
  "sc_index r = (sc_subscriber r, sc_name r)"

definition wf_scopes :: "uuid set \<Rightarrow> scope_row list \<Rightarrow> bool" where
  "wf_scopes sids rs \<longleftrightarrow>
     distinct (map sc_id rs) \<and> distinct (map sc_index rs) \<and> sc_subscriber ` set rs \<subseteq> sids"

definition wf_watchers :: "ext \<Rightarrow> uuid set \<Rightarrow> watcher_row list \<Rightarrow> bool" where
  "wf_watchers X pids ws \<longleftrightarrow>
     distinct (map w_id ws) \<and> distinct (map w_did_key ws) \<and>
     list_all (\<lambda>w. pred_option (\<lambda>p. p \<in> pids) (w_project w)) ws \<and>
     list_all (valid_account X \<circ> w_account) ws"

definition n_index :: "notification_row \<Rightarrow> uuid \<times> string" where
  "n_index n = (n_project n, n_notification_id n)"

definition wf_notifications :: "uuid set \<Rightarrow> notification_row list \<Rightarrow> bool" where
  "wf_notifications pids ns \<longleftrightarrow>
     distinct (map n_id ns) \<and> distinct (map n_index ns) \<and> n_project ` set ns \<subseteq> pids"

definition sn_index :: "subscriber_notification_row \<Rightarrow> uuid \<times> uuid" where
  "sn_index r = (sn_notification r, sn_subscriber r)"

text \<open>The enum \<open>subscriber_notification_status\<close> has four of the seven values of the Rust type.\<close>

definition pg_status :: "SubscriberNotificationStatus \<Rightarrow> bool" where
  "pg_status s \<longleftrightarrow> s \<in> {Queued, Processing, Published, Failed}"

definition wf_subscriber_notifications ::
  "uuid set \<Rightarrow> uuid set \<Rightarrow> subscriber_notification_row list \<Rightarrow> bool" where
  "wf_subscriber_notifications nids sids rs \<longleftrightarrow>
     distinct (map sn_id rs) \<and> distinct (map sn_index rs) \<and>
     sn_notification ` set rs \<subseteq> nids \<and> sn_subscriber ` set rs \<subseteq> sids \<and>
     list_all (pg_status \<circ> sn_status) rs"

definition wf_welcome :: "uuid set \<Rightarrow> welcome_row list \<Rightarrow> bool" where
  "wf_welcome pids ws \<longleftrightarrow>
     distinct (map wn_id ws) \<and> distinct (map wn_project ws) \<and> wn_project ` set ws \<subseteq> pids"

definition pids :: "db \<Rightarrow> uuid set" where "pids d = p_id ` set (projects d)"
definition sids :: "db \<Rightarrow> uuid set" where "sids d = s_id ` set (subscribers d)"
definition nids :: "db \<Rightarrow> uuid set" where "nids d = n_id ` set (notifications d)"

definition wf_db :: "ext \<Rightarrow> db \<Rightarrow> bool" where
  "wf_db X d \<longleftrightarrow>
     wf_projects (projects d) \<and> wf_subscribers X (pids d) (subscribers d) \<and>
     wf_scopes (sids d) (scopes d) \<and> wf_watchers X (pids d) (watchers d) \<and>
     wf_notifications (pids d) (notifications d) \<and>
     wf_subscriber_notifications (nids d) (sids d) (subscriber_notifications d) \<and>
     wf_welcome (pids d) (welcome_notifications d)"

lemma wf_empty_db [wf_intros]: "wf_db X empty_db"
  by (simp add: wf_db_def empty_db_def wf_projects_def wf_subscribers_def wf_scopes_def
      wf_watchers_def wf_notifications_def wf_subscriber_notifications_def wf_welcome_def)

lemmas wf_table_defs = wf_projects_def wf_subscribers_def wf_scopes_def wf_watchers_def
  wf_notifications_def wf_subscriber_notifications_def wf_welcome_def

lemma wf_dbD:
  assumes "wf_db X d"
  shows "wf_projects (projects d)" "wf_subscribers X (pids d) (subscribers d)"
    "wf_scopes (sids d) (scopes d)" "wf_watchers X (pids d) (watchers d)"
    "wf_notifications (pids d) (notifications d)"
    "wf_subscriber_notifications (nids d) (sids d) (subscriber_notifications d)"
    "wf_welcome (pids d) (welcome_notifications d)"
  using assms by (simp_all add: wf_db_def)

end
