(* ===== verification/Wire.thy ===== *)
theory Wire
  imports Database
begin

text \<open>
  What travels over the relay: the envelopes and the scope strings of \<open>src/src/types/mod.rs\<close>, the
  bounds on notifications of \<open>src/src/types/notification.rs\<close>, the key helpers of \<open>src/src/rpc.rs\<close>
  and \<open>src/src/auth.rs\<close> and the protocol constants of \<open>src/src/spec.rs\<close>.
\<close>

section \<open>Keys\<close>

datatype DecodeKeyError = HexDecode string | InputTooShortError

text \<open>\<open>get(..32)\<close>, so that \<open>try_into\<close> on the slice cannot fail.\<close>

definition decode_key :: "ext \<Rightarrow> string \<Rightarrow> (bytes, DecodeKeyError) result" where
  "decode_key X key =
     rbind (map_err HexDecode (hex_decode X key)) (\<lambda>bs.
       if 32 \<le> length bs then Inr (take 32 bs) else Inl InputTooShortError)"

datatype DeriveKeyError = HkdfInvalidLength

definition derive_key :: "ext \<Rightarrow> bytes \<Rightarrow> bytes \<Rightarrow> (bytes, DeriveKeyError) result" where
  "derive_key X public_key private_key =
     ok_or (hkdf_expand32 X (diffie_hellman X private_key public_key)) HkdfInvalidLength"

definition encode_authentication_private_key :: "ext \<Rightarrow> bytes \<Rightarrow> string" where
  "encode_authentication_private_key X authentication_key = hex_encode X authentication_key"

definition encode_authentication_public_key :: "ext \<Rightarrow> bytes \<Rightarrow> string" where
  "encode_authentication_public_key X authentication_key =
     hex_encode X (ed25519_verifying_key X authentication_key)"

definition encode_subscribe_private_key :: "ext \<Rightarrow> bytes \<Rightarrow> string" where
  "encode_subscribe_private_key X subscribe_key = hex_encode X subscribe_key"

definition encode_subscribe_public_key :: "ext \<Rightarrow> bytes \<Rightarrow> string" where
  "encode_subscribe_public_key X subscribe_key = hex_encode X (x25519_public_key X subscribe_key)"

section \<open>Envelopes\<close>

datatype EnvelopeParseError = EnvelopeTooShort

record 'o envelope =
  envelope_type :: u8
  iv :: bytes
  sealbox :: bytes
  opts :: 'o

datatype EnvelopeType0 = EnvelopeType0

record EnvelopeType1 =
  pubkey :: bytes

type_synonym envelope0 = "EnvelopeType0 envelope"
type_synonym envelope1 = "EnvelopeType1 envelope"

text \<open>The nonce \<open>generate_nonce()\<close> draws is an argument.\<close>

definition Envelope0_new :: "ext \<Rightarrow> bytes \<Rightarrow> bytes \<Rightarrow> bytes \<Rightarrow> envelope0 option" where
  "Envelope0_new X nonce encryption_key serialized =
     map_option (\<lambda>sb. \<lparr> envelope_type = 0, iv = nonce, sealbox = sb, opts = EnvelopeType0 \<rparr>)
       (chacha_encrypt X encryption_key nonce serialized)"

definition Envelope0_to_bytes :: "envelope0 \<Rightarrow> bytes" where
  "Envelope0_to_bytes e = envelope_type e # iv e @ sealbox e"

text \<open>\<open>bytes.get(a..b)\<close> of a slice.\<close>

definition get_range :: "nat \<Rightarrow> nat \<Rightarrow> bytes \<Rightarrow> bytes option" where
  "get_range a b bs = (if a \<le> b \<and> b \<le> length bs then Some (take (b - a) (drop a bs)) else None)"

definition get_from :: "nat \<Rightarrow> bytes \<Rightarrow> bytes option" where
  "get_from a bs = (if a \<le> length bs then Some (drop a bs) else None)"

definition get_first :: "bytes \<Rightarrow> u8 option" where
  "get_first bs = (case bs of [] \<Rightarrow> None | b # _ \<Rightarrow> Some b)"

definition Envelope0_from_bytes :: "bytes \<Rightarrow> (envelope0, EnvelopeParseError) result" where
  "Envelope0_from_bytes bs =
     rbind (ok_or (get_first bs) EnvelopeTooShort) (\<lambda>ty.
     rbind (ok_or (get_range 1 13 bs) EnvelopeTooShort) (\<lambda>nonce.
     rbind (ok_or (get_from 13 bs) EnvelopeTooShort) (\<lambda>sb.
       Inr \<lparr> envelope_type = ty, iv = nonce, sealbox = sb, opts = EnvelopeType0 \<rparr>)))"

definition Envelope1_new :: "ext \<Rightarrow> bytes \<Rightarrow> bytes \<Rightarrow> bytes \<Rightarrow> bytes \<Rightarrow> envelope1 option" where
  "Envelope1_new X nonce encryption_key serialized pk =
     map_option (\<lambda>sb. \<lparr> envelope_type = 1, iv = nonce, sealbox = sb, opts = \<lparr> pubkey = pk \<rparr> \<rparr>)
       (chacha_encrypt X encryption_key nonce serialized)"

definition Envelope1_to_bytes :: "envelope1 \<Rightarrow> bytes" where
  "Envelope1_to_bytes e = envelope_type e # pubkey (opts e) @ iv e @ sealbox e"

definition Envelope1_from_bytes :: "bytes \<Rightarrow> (envelope1, EnvelopeParseError) result" where
  "Envelope1_from_bytes bs =
     rbind (ok_or (get_first bs) EnvelopeTooShort) (\<lambda>ty.
     rbind (ok_or (get_range 1 33 bs) EnvelopeTooShort) (\<lambda>pk.
     rbind (ok_or (get_range 33 45 bs) EnvelopeTooShort) (\<lambda>nonce.
     rbind (ok_or (get_from 45 bs) EnvelopeTooShort) (\<lambda>sb.
       Inr \<lparr> envelope_type = ty, iv = nonce, sealbox = sb, opts = \<lparr> pubkey = pk \<rparr> \<rparr>))))"

definition Envelope1_pubkey :: "envelope1 \<Rightarrow> bytes" where
  "Envelope1_pubkey e = pubkey (opts e)"

text \<open>The array lengths \<open>[u8; 12]\<close> and \<open>[u8; 32]\<close> of the source types.\<close>

definition wf_envelope0 :: "envelope0 \<Rightarrow> bool" where
  "wf_envelope0 e \<longleftrightarrow> length (iv e) = 12"

definition wf_envelope1 :: "envelope1 \<Rightarrow> bool" where
  "wf_envelope1 e \<longleftrightarrow> length (iv e) = 12 \<and> length (pubkey (opts e)) = 32"

section \<open>Scopes\<close>

definition parse_scope :: "ext \<Rightarrow> string \<Rightarrow> (uuid set, string) result" where
  "parse_scope X scope =
     map_ok set (collect_results (\<lambda>s. ok_or (uuid_parse X s) ''uuid error'')
       (filter (\<lambda>s. s \<noteq> []) (split_char CHR '' '' scope)))"

text \<open>
  A \<open>HashSet\<close> iterates in an unspecified order: the order of the elements is an argument.
\<close>

definition encode_scope :: "ext \<Rightarrow> uuid list \<Rightarrow> string" where
  "encode_scope X notification_types = join_with '' '' (map (uuid_to_string X) notification_types)"

definition parse_scopes_and_ignore_invalid :: "ext \<Rightarrow> string list \<Rightarrow> uuid set" where
  "parse_scopes_and_ignore_invalid X names = set (List.map_filter (uuid_parse X) names)"

section \<open>Notifications\<close>

record Notification =
  ntf_type :: uuid
  ntf_title :: string
  ntf_body :: string
  ntf_icon :: "string option"
  ntf_url :: "string option"

text \<open>\<open>validator\<close>'s \<open>length\<close> counts characters; an absent optional field is valid.\<close>

definition length_ok :: "nat \<Rightarrow> nat \<Rightarrow> string \<Rightarrow> bool" where
  "length_ok lo hi s \<longleftrightarrow> lo \<le> chars_count s \<and> chars_count s \<le> hi"

definition Notification_validate :: "Notification \<Rightarrow> bool" where
  "Notification_validate n \<longleftrightarrow>
     length_ok 1 64 (ntf_title n) \<and> length_ok 1 255 (ntf_body n) \<and>
     pred_option (length_ok 1 255) (ntf_icon n) \<and> pred_option (length_ok 1 255) (ntf_url n)"


section \<open>Protocol constants\<close>

definition NOTIFY_SUBSCRIBE_TAG :: nat where "NOTIFY_SUBSCRIBE_TAG = 4000"
definition NOTIFY_SUBSCRIBE_RESPONSE_TAG :: nat where "NOTIFY_SUBSCRIBE_RESPONSE_TAG = 4001"
definition NOTIFY_MESSAGE_TAG :: nat where "NOTIFY_MESSAGE_TAG = 4002"
definition NOTIFY_MESSAGE_RESPONSE_TAG :: nat where "NOTIFY_MESSAGE_RESPONSE_TAG = 4003"
definition NOTIFY_DELETE_TAG :: nat where "NOTIFY_DELETE_TAG = 4004"
definition NOTIFY_DELETE_RESPONSE_TAG :: nat where "NOTIFY_DELETE_RESPONSE_TAG = 4005"
definition NOTIFY_UPDATE_TAG :: nat where "NOTIFY_UPDATE_TAG = 4008"
definition NOTIFY_UPDATE_RESPONSE_TAG :: nat where "NOTIFY_UPDATE_RESPONSE_TAG = 4009"
definition NOTIFY_WATCH_SUBSCRIPTIONS_TAG :: nat where "NOTIFY_WATCH_SUBSCRIPTIONS_TAG = 4010"
definition NOTIFY_WATCH_SUBSCRIPTIONS_RESPONSE_TAG :: nat where
  "NOTIFY_WATCH_SUBSCRIPTIONS_RESPONSE_TAG = 4011"
definition NOTIFY_SUBSCRIPTIONS_CHANGED_TAG :: nat where "NOTIFY_SUBSCRIPTIONS_CHANGED_TAG = 4012"
definition NOTIFY_SUBSCRIPTIONS_CHANGED_RESPONSE_TAG :: nat where
  "NOTIFY_SUBSCRIPTIONS_CHANGED_RESPONSE_TAG = 4013"
definition NOTIFY_GET_NOTIFICATIONS_TAG :: nat where "NOTIFY_GET_NOTIFICATIONS_TAG = 4014"
definition NOTIFY_GET_NOTIFICATIONS_RESPONSE_TAG :: nat where
  "NOTIFY_GET_NOTIFICATIONS_RESPONSE_TAG = 4015"
definition NOTIFY_MARK_NOTIFICATIONS_AS_READ_TAG :: nat where
  "NOTIFY_MARK_NOTIFICATIONS_AS_READ_TAG = 4016"
definition NOTIFY_MARK_NOTIFICATIONS_AS_READ_RESPONSE_TAG :: nat where
  "NOTIFY_MARK_NOTIFICATIONS_AS_READ_RESPONSE_TAG = 4017"

lemmas tag_defs =
  NOTIFY_SUBSCRIBE_TAG_def NOTIFY_SUBSCRIBE_RESPONSE_TAG_def NOTIFY_MESSAGE_TAG_def
  NOTIFY_MESSAGE_RESPONSE_TAG_def NOTIFY_DELETE_TAG_def NOTIFY_DELETE_RESPONSE_TAG_def
  NOTIFY_UPDATE_TAG_def NOTIFY_UPDATE_RESPONSE_TAG_def NOTIFY_WATCH_SUBSCRIPTIONS_TAG_def
  NOTIFY_WATCH_SUBSCRIPTIONS_RESPONSE_TAG_def NOTIFY_SUBSCRIPTIONS_CHANGED_TAG_def
  NOTIFY_SUBSCRIPTIONS_CHANGED_RESPONSE_TAG_def NOTIFY_GET_NOTIFICATIONS_TAG_def
  NOTIFY_GET_NOTIFICATIONS_RESPONSE_TAG_def NOTIFY_MARK_NOTIFICATIONS_AS_READ_TAG_def
  NOTIFY_MARK_NOTIFICATIONS_AS_READ_RESPONSE_TAG_def

definition INCOMING_TAGS :: "nat list" where
  "INCOMING_TAGS =
     [NOTIFY_SUBSCRIBE_TAG, NOTIFY_MESSAGE_RESPONSE_TAG, NOTIFY_DELETE_TAG, NOTIFY_UPDATE_TAG,
      NOTIFY_WATCH_SUBSCRIPTIONS_TAG, NOTIFY_SUBSCRIPTIONS_CHANGED_RESPONSE_TAG,
      NOTIFY_GET_NOTIFICATIONS_TAG, NOTIFY_MARK_NOTIFICATIONS_AS_READ_TAG]"

text \<open>Times to live, in seconds.\<close>

definition T300 :: nat where "T300 = 300"
definition T2592000 :: nat where "T2592000 = 2592000"

section \<open>Facts\<close>

interpretation envelope0: codec_exact wf_envelope0 Envelope0_to_bytes Envelope0_from_bytes
proof unfold_locales
  fix e :: envelope0 assume "wf_envelope0 e"
  then show "Envelope0_from_bytes (Envelope0_to_bytes e) = Inr e"
    by (cases "opts e")
      (simp add: wf_envelope0_def Envelope0_from_bytes_def Envelope0_to_bytes_def get_first_def
        get_range_def get_from_def)
next
  fix bs :: bytes and e :: envelope0 assume "Envelope0_from_bytes bs = Inr e"
  then have e: "13 \<le> length bs"
    "e = \<lparr> envelope_type = hd bs, iv = take 12 (tl bs), sealbox = drop 13 bs, opts = EnvelopeType0 \<rparr>"
    by (auto simp: Envelope0_from_bytes_def rbind_Inr_iff get_first_def get_range_def get_from_def
        drop_Suc split: if_splits list.splits)
  then show "wf_envelope0 e \<and> Envelope0_to_bytes e = bs"
    by (cases bs) (auto simp: wf_envelope0_def Envelope0_to_bytes_def)
qed

interpretation envelope1: codec_exact wf_envelope1 Envelope1_to_bytes Envelope1_from_bytes
proof unfold_locales
  fix e :: envelope1 assume "wf_envelope1 e"
  then show "Envelope1_from_bytes (Envelope1_to_bytes e) = Inr e"
    by (simp add: wf_envelope1_def Envelope1_from_bytes_def Envelope1_to_bytes_def get_first_def
        get_range_def get_from_def)
next
  fix bs :: bytes and e :: envelope1 assume "Envelope1_from_bytes bs = Inr e"
  then have e: "45 \<le> length bs"
    "e = \<lparr> envelope_type = hd bs, iv = take 12 (drop 32 (tl bs)), sealbox = drop 45 bs,
           opts = \<lparr> pubkey = take 32 (tl bs) \<rparr> \<rparr>"
    by (auto simp: Envelope1_from_bytes_def rbind_Inr_iff get_first_def get_range_def get_from_def
        drop_Suc split: if_splits list.splits)
  have split: "take 12 (drop 32 t) @ drop 44 t = drop 32 t" for t :: bytes
    using append_take_drop_id [of 12 "drop 32 t"] by simp
  from e obtain b t where bs: "bs = b # t" by (cases bs) auto
  have "take 32 t @ take 12 (drop 32 t) @ drop 44 t = t"
    by (simp only: split append_take_drop_id)
  with e bs show "wf_envelope1 e \<and> Envelope1_to_bytes e = bs"
    by (simp add: wf_envelope1_def Envelope1_to_bytes_def)
qed


lemma parse_scope_nonempty_pieces:
  "collect_results (\<lambda>s. ok_or (uuid_parse X s) e) (filter (\<lambda>s. s \<noteq> []) ps) = Inr us \<Longrightarrow>
   \<forall>p \<in> set ps. p = [] \<or> uuid_parse X p \<noteq> None"
proof (induction ps arbitrary: us)
  case (Cons p ps)
  then show ?case by (cases "p = []") (auto simp: rbind_Inr_iff)
qed simp

lemma split_char_join:
  assumes "\<forall>p \<in> set ps. c \<notin> set p" and "ps \<noteq> []"
  shows "split_char c (join_with [c] ps) = ps"
  using assms by (induction "[c]" ps rule: join_with.induct) auto

lemma uuid_laws_string:
  assumes "uuid_laws X"
  shows "uuid_to_string X u \<noteq> [] \<or> uuid_parse X [] = Some u" and "CHR '' '' \<notin> set (uuid_to_string X u)"
  using assms unfolding uuid_laws_def by metis+

text \<open>
  A type 0 envelope (type byte, 12-byte nonce, sealed box) survives \<open>to_bytes\<close> and
  \<open>from_bytes\<close>, \<open>from_bytes\<close> fails exactly on fewer than 13 bytes, and whatever it returns
  serialises back to the same bytes.
\<close>

theorem envelope_type0_roundtrip:
  "(wf_envelope0 e \<longrightarrow> Envelope0_from_bytes (Envelope0_to_bytes e) = Inr e) \<and>
   (Envelope0_from_bytes bs = Inl EnvelopeTooShort \<longleftrightarrow> length bs < 13) \<and>
   (Envelope0_from_bytes bs = Inr e \<longrightarrow> wf_envelope0 e \<and> Envelope0_to_bytes e = bs)"
  using envelope0.dec_enc [of e] envelope0.dec_sound [of bs e]
  by (auto simp: Envelope0_from_bytes_def rbind_Inl_iff get_first_def get_range_def get_from_def
      split: list.splits)

theorem envelope_type0_roundtrip_witness:
  "Envelope0_from_bytes (Envelope0_to_bytes
     \<lparr> envelope_type = 0, iv = replicate 12 7, sealbox = [1, 2, 3], opts = EnvelopeType0 \<rparr>) =
   Inr \<lparr> envelope_type = 0, iv = replicate 12 7, sealbox = [1, 2, 3], opts = EnvelopeType0 \<rparr> \<and>
   Envelope0_from_bytes [0, 1] = Inl EnvelopeTooShort"
  using envelope_type0_roundtrip
    [of "\<lparr> envelope_type = 0, iv = replicate 12 7, sealbox = [1, 2, 3], opts = EnvelopeType0 \<rparr>" "[0, 1]"]
  by (simp add: wf_envelope0_def)

text \<open>
  A type 1 envelope, which carries the sender's 32-byte public key before the nonce, survives
  \<open>to_bytes\<close> and \<open>from_bytes\<close>; \<open>from_bytes\<close> fails exactly on fewer than 45 bytes.
\<close>

theorem envelope_type1_roundtrip:
  "(wf_envelope1 e \<longrightarrow> Envelope1_from_bytes (Envelope1_to_bytes e) = Inr e) \<and>
   (Envelope1_from_bytes bs = Inl EnvelopeTooShort \<longleftrightarrow> length bs < 45) \<and>
   (Envelope1_from_bytes bs = Inr e \<longrightarrow> wf_envelope1 e \<and> Envelope1_to_bytes e = bs)"
  using envelope1.dec_enc [of e] envelope1.dec_sound [of bs e]
  by (auto simp: Envelope1_from_bytes_def rbind_Inl_iff get_first_def get_range_def get_from_def
      split: list.splits)

theorem envelope_type1_roundtrip_witness:
  "Envelope1_from_bytes (Envelope1_to_bytes
     \<lparr> envelope_type = 1, iv = replicate 12 7, sealbox = [1], opts = \<lparr> pubkey = replicate 32 9 \<rparr> \<rparr>) =
   Inr \<lparr> envelope_type = 1, iv = replicate 12 7, sealbox = [1], opts = \<lparr> pubkey = replicate 32 9 \<rparr> \<rparr>"
  using envelope_type1_roundtrip
    [of "\<lparr> envelope_type = 1, iv = replicate 12 7, sealbox = [1], opts = \<lparr> pubkey = replicate 32 9 \<rparr> \<rparr>" "[]"]
  by (simp add: wf_envelope1_def)

text \<open>
  Parsing the encoding of a set of notification types gives the set back, in whatever order
  the encoder iterated over it.
\<close>

theorem scope_roundtrip:
  assumes "uuid_laws X" and "uuid_parse X [] = None"
  shows "parse_scope X (encode_scope X us) = Inr (set us)"
proof (cases "us = []")
  case True
  then show ?thesis by (simp add: parse_scope_def encode_scope_def)
next
  case False
  let ?ps = "map (uuid_to_string X) us"
  have "split_char CHR '' '' (encode_scope X us) = ?ps"
    using False uuid_laws_string(2) [OF assms(1)] unfolding encode_scope_def
    by (intro split_char_join) auto
  moreover have "filter (\<lambda>s. s \<noteq> []) ?ps = ?ps"
    using uuid_laws_string(1) [OF assms(1)] assms(2) by (auto simp: filter_id_conv)
  moreover have "collect_results (\<lambda>s. ok_or (uuid_parse X s) e) ?ps = Inr us" for e :: string
    using assms(1) by (simp add: collect_results_Inr_iff uuid_laws_def)
  ultimately show ?thesis by (simp add: parse_scope_def)
qed

theorem scope_roundtrip_witness:
  "parse_scope ext_demo (encode_scope ext_demo [5, 3]) = Inr {3, 5}"
  using scope_roundtrip [OF uuid_laws_demo, of "[5, 3]"]
  by (simp add: ext_demo_def uuid_parse_demo_def insert_commute)

text \<open>
  C35. The key both ends derive is the same: what the client seals in a type 1 envelope under the
  key derived from its private key and the server's public key, the server opens with the key
  derived from the public key found in the parsed envelope and its own private key.
\<close>

theorem envelope_type1_agreement:
  assumes "dh_laws X" "aead_laws X"
    and "length nonce = 12" "length (x25519_public_key X client) = 32"
    and "derive_key X (x25519_public_key X server) client = Inr k"
    and "Envelope1_new X nonce k msg (x25519_public_key X client) = Some e"
  shows "\<exists>e'. Envelope1_from_bytes (Envelope1_to_bytes e) = Inr e' \<and>
    derive_key X (Envelope1_pubkey e') server = Inr k \<and> chacha_decrypt X k (iv e') (sealbox e') = Some msg"
proof -
  from assms(6) obtain c where c: "chacha_encrypt X k nonce msg = Some c"
    and e: "e = \<lparr> envelope_type = 1, iv = nonce, sealbox = c, opts = \<lparr> pubkey = x25519_public_key X client \<rparr> \<rparr>"
    by (auto simp: Envelope1_new_def)
  have "Envelope1_from_bytes (Envelope1_to_bytes e) = Inr e"
    using assms(3,4) e by (intro envelope1.dec_enc) (simp add: wf_envelope1_def)
  moreover have "derive_key X (Envelope1_pubkey e) server = Inr k"
    using assms(1,5) e by (simp add: derive_key_def Envelope1_pubkey_def dh_laws_def)
  moreover have "chacha_decrypt X k (iv e) (sealbox e) = Some msg"
    using assms(2) c e by (simp add: aead_laws_def)
  ultimately show ?thesis by blast
qed

theorem envelope_type1_agreement_witness:
  "\<exists>k e e'. derive_key ext_demo (x25519_public_key ext_demo (replicate 32 4)) (replicate 32 1) = Inr k \<and>
     Envelope1_new ext_demo (replicate 12 0) k [1, 2] (x25519_public_key ext_demo (replicate 32 1)) = Some e \<and>
     Envelope1_from_bytes (Envelope1_to_bytes e) = Inr e' \<and>
     derive_key ext_demo (Envelope1_pubkey e') (replicate 32 4) = Inr k \<and>
     chacha_decrypt ext_demo k (iv e') (sealbox e') = Some [1, 2]"
proof -
  obtain k where k: "derive_key ext_demo (x25519_public_key ext_demo (replicate 32 4)) (replicate 32 1) = Inr k"
    by (simp add: derive_key_def ext_demo_def)
  obtain e where e: "Envelope1_new ext_demo (replicate 12 0) k [1, 2]
      (x25519_public_key ext_demo (replicate 32 1)) = Some e"
    by (simp add: Envelope1_new_def ext_demo_def)
  have "length (x25519_public_key ext_demo (replicate 32 1)) = 32" by (simp add: ext_demo_def)
  then show ?thesis
    using envelope_type1_agreement [OF dh_laws_demo aead_laws_demo _ _ k e] k e by auto
qed

end
