(* ===== verification/Model_Helpers.thy ===== *)
theory Model_Helpers
  imports Wire
begin

text \<open>
  The queries of \<open>src/src/model/helpers.rs\<close> on projects, subscribers, scopes and subscription
  watchers, and what each does to the database: the rows it returns, the rows it changes, and
  the invariant \<open>wf_db\<close> it keeps. An \<open>Inl\<close> result means the transaction did not commit. The
  order in which Postgres returns rows is unspecified; the model uses the table's order.
\<close>

section \<open>Projects\<close>

record ProjectWithPublicKeys =
  pk_authentication_public_key :: string
  pk_subscribe_public_key :: string
  pk_topic :: topic

definition public_keys :: "project_row \<Rightarrow> ProjectWithPublicKeys" where
  "public_keys p = \<lparr> pk_authentication_public_key = p_authentication_public_key p,
     pk_subscribe_public_key = p_subscribe_public_key p, pk_topic = p_topic p \<rparr>"

text \<open>
  One \<open>guard_err\<close> per constraint: the statement fails with the first unique index or foreign key
  the row breaks.
\<close>

definition insert_project_row :: "project_row \<Rightarrow> db \<Rightarrow> (db, sqlx_error) result" where
  "insert_project_row r d =
     (let violates = (\<lambda>ok c. guard_err (\<not> ok) (UniqueViolation c)); t = projects d in
      rbind (violates (unique_ok p_id r t) ''project_pkey'') (\<lambda>_.
      rbind (violates (unique_ok p_project_id r t) ''project_project_id_key'') (\<lambda>_.
      rbind (violates (unique_ok p_app_domain r t) ''project_app_domain_key'') (\<lambda>_.
      rbind (violates (unique_ok p_topic r t) ''project_topic_key'') (\<lambda>_.
      rbind (violates (unique_ok p_authentication_public_key r t)
               ''project_authentication_public_key_key'') (\<lambda>_.
      rbind (violates (unique_ok p_authentication_private_key r t)
               ''project_authentication_private_key_key'') (\<lambda>_.
      rbind (violates (unique_ok p_subscribe_public_key r t) ''project_subscribe_public_key_key'') (\<lambda>_.
      rbind (violates (unique_ok p_subscribe_private_key r t) ''project_subscribe_private_key_key'') (\<lambda>_.
        Inr (d\<lparr> projects := t @ [r] \<rparr>))))))))))"

text \<open>\<open>DO UPDATE SET updated_at=now(), app_domain=$2\<close> on the row in conflict.\<close>

definition update_project_domain :: "datetime \<Rightarrow> string \<Rightarrow> project_row \<Rightarrow> db \<Rightarrow> (db, sqlx_error) result" where
  "update_project_domain now app_domain p d =
     rbind (guard_err (\<exists>q \<in> set (projects d). p_id q \<noteq> p_id p \<and> p_app_domain q = app_domain)
              (UniqueViolation ''project_app_domain_key'')) (\<lambda>_.
       Inr (d\<lparr> projects := update_where (\<lambda>q. p_id q = p_id p)
              (\<lambda>q. q\<lparr> p_updated_at := now, p_app_domain := app_domain \<rparr>) (projects d) \<rparr>))"

definition upsert_project_row ::
  "datetime \<Rightarrow> project_row \<Rightarrow> db \<Rightarrow> (ProjectWithPublicKeys \<times> db, sqlx_error) result" where
  "upsert_project_row now r d =
     (case find (\<lambda>p. p_project_id p = p_project_id r) (projects d) of
        Some p \<Rightarrow> map_ok (Pair (public_keys p)) (update_project_domain now (p_app_domain r) p d)
      | None \<Rightarrow> map_ok (Pair (public_keys r)) (insert_project_row r d))"

definition upsert_project_impl ::
  "uuid \<Rightarrow> datetime \<Rightarrow> string \<Rightarrow> string \<Rightarrow> topic \<Rightarrow> string \<Rightarrow> string \<Rightarrow> string \<Rightarrow> string \<Rightarrow> db
     \<Rightarrow> (ProjectWithPublicKeys \<times> db, sqlx_error) result" where
  "upsert_project_impl new_id now project_id app_domain tpc auth_public auth_private
     sub_public sub_private d =
   rbind (varchar255 project_id) (\<lambda>project_id.
   rbind (varchar255 app_domain) (\<lambda>app_domain.
   rbind (varchar255 tpc) (\<lambda>tpc.
   rbind (varchar255 auth_public) (\<lambda>auth_public.
   rbind (varchar255 auth_private) (\<lambda>auth_private.
   rbind (varchar255 sub_public) (\<lambda>sub_public.
   rbind (varchar255 sub_private) (\<lambda>sub_private.
     upsert_project_row now
       \<lparr> p_id = new_id, p_updated_at = now, p_project_id = project_id,
         p_app_domain = app_domain, p_topic = tpc,
         p_authentication_public_key = auth_public, p_authentication_private_key = auth_private,
         p_subscribe_public_key = sub_public, p_subscribe_private_key = sub_private \<rparr> d)))))))"

definition upsert_project ::
  "ext \<Rightarrow> uuid \<Rightarrow> datetime \<Rightarrow> string \<Rightarrow> string \<Rightarrow> topic \<Rightarrow> bytes \<Rightarrow> bytes \<Rightarrow> db
     \<Rightarrow> (ProjectWithPublicKeys \<times> db, sqlx_error) result" where
  "upsert_project X new_id now project_id app_domain tpc authentication_key subscribe_key d =
     upsert_project_impl new_id now project_id app_domain tpc
       (encode_authentication_public_key X authentication_key)
       (encode_authentication_private_key X authentication_key)
       (encode_subscribe_public_key X subscribe_key)
       (encode_subscribe_private_key X subscribe_key) d"

definition get_project_by_id :: "uuid \<Rightarrow> db \<Rightarrow> (project_row, sqlx_error) result" where
  "get_project_by_id i d = fetch_one (filter (\<lambda>p. p_id p = i) (projects d))"

definition get_project_by_project_id :: "string \<Rightarrow> db \<Rightarrow> (project_row, sqlx_error) result" where
  "get_project_by_project_id i d = fetch_one (filter (\<lambda>p. p_project_id p = i) (projects d))"

definition get_project_by_app_domain :: "string \<Rightarrow> db \<Rightarrow> (project_row, sqlx_error) result" where
  "get_project_by_app_domain a d = fetch_one (filter (\<lambda>p. p_app_domain p = a) (projects d))"

definition get_project_by_topic :: "topic \<Rightarrow> db \<Rightarrow> (project_row, sqlx_error) result" where
  "get_project_by_topic t d = fetch_one (filter (\<lambda>p. p_topic p = t) (projects d))"

definition get_subscriber_topics :: "db \<Rightarrow> topic list" where
  "get_subscriber_topics d = map s_topic (subscribers d)"

definition get_project_topics :: "db \<Rightarrow> topic list" where
  "get_project_topics d = map p_topic (projects d)"

section \<open>Subscribers\<close>

definition get_subscriber_accounts_by_project_id ::
  "ext \<Rightarrow> string \<Rightarrow> db \<Rightarrow> (AccountId list, sqlx_error) result" where
  "get_subscriber_accounts_by_project_id X project_id d =
     collect_results (decode_account X)
       [s_account s. s \<leftarrow> subscribers d, p \<leftarrow> projects d,
                     p_id p = s_project s \<and> p_project_id p = project_id]"

text \<open>\<open>array_remove(array_agg(subscriber_scope.name), NULL)\<close> of a subscriber's group.\<close>

definition scope_names :: "uuid \<Rightarrow> db \<Rightarrow> string list" where
  "scope_names s d = map sc_name (filter (\<lambda>r. sc_subscriber r = s) (scopes d))"

text \<open>
  The lower-cased addresses bound to \<open>ANY($2)\<close>; \<open>None\<close> when \<open>get_address_from_account\<close> panics.
\<close>

definition lower_addresses :: "AccountId list \<Rightarrow> string list option" where
  "lower_addresses accounts =
     those (map (\<lambda>a. map_option to_ascii_lowercase (get_address_from_account a)) accounts)"

record SubscriberAccountAndScopes =
  sas_account :: AccountId
  sas_scope :: "uuid set"

text \<open>\<open>GROUP BY account\<close>: one result per account, with the names of every subscriber of the group.\<close>

definition get_subscribers_by_project_id_and_accounts ::
  "ext \<Rightarrow> string \<Rightarrow> AccountId list \<Rightarrow> db \<Rightarrow> (SubscriberAccountAndScopes list, sqlx_error) result option" where
  "get_subscribers_by_project_id_and_accounts X project_id accounts d =
     map_option (\<lambda>addrs.
       let ms = [s. s \<leftarrow> subscribers d, p \<leftarrow> projects d,
                    p_id p = s_project s \<and> p_project_id p = project_id \<and>
                    get_address_lower (s_account s) \<in> set addrs] in
       collect_results (\<lambda>acc. map_ok (\<lambda>a. \<lparr> sas_account = a,
           sas_scope = parse_scopes_and_ignore_invalid X
             (concat (map (\<lambda>s. scope_names (s_id s) d) (filter (\<lambda>s. s_account s = acc) ms))) \<rparr>)
           (decode_account X acc))
         (remdups (map s_account ms)))
       (lower_addresses accounts)"

record SubscribeResponse =
  sr_id :: uuid
  sr_account :: AccountId
  sr_topic :: topic
  sr_inserted :: bool

definition days :: "int \<Rightarrow> duration" where
  "days n = n * 86400 * 1000000"

text \<open>
  \<open>update_subscriber_scope\<close>: delete the rows of the subscriber, then insert one per element of
  the set. \<open>gen k\<close> is the \<open>k\<close>-th \<open>gen_random_uuid()\<close> of the statement.
\<close>

definition insert_scope_row :: "scope_row \<Rightarrow> db \<Rightarrow> (db, sqlx_error) result" where
  "insert_scope_row r d =
     rbind (guard_err (\<not> unique_ok sc_id r (scopes d)) (UniqueViolation ''subscriber_scope_pkey'')) (\<lambda>_.
     rbind (guard_err (\<not> unique_ok sc_index r (scopes d))
              (UniqueViolation ''subscriber_scope_subscriber_name_key'')) (\<lambda>_.
     rbind (guard_err (sc_subscriber r \<notin> sids d)
              (ForeignKeyViolation ''subscriber_scope_subscriber_fkey'')) (\<lambda>_.
       Inr (d\<lparr> scopes := scopes d @ [r] \<rparr>))))"

fun insert_scopes ::
  "ext \<Rightarrow> (nat \<Rightarrow> uuid) \<Rightarrow> nat \<Rightarrow> uuid \<Rightarrow> uuid list \<Rightarrow> db \<Rightarrow> (db, sqlx_error) result" where
  "insert_scopes X gen k subscriber [] d = Inr d"
| "insert_scopes X gen k subscriber (u # us) d =
     rbind (varchar255 (uuid_to_string X u)) (\<lambda>nm.
     rbind (insert_scope_row \<lparr> sc_id = gen k, sc_subscriber = subscriber, sc_name = nm \<rparr> d) (\<lambda>d'.
       insert_scopes X gen (Suc k) subscriber us d'))"

definition update_subscriber_scope ::
  "ext \<Rightarrow> (nat \<Rightarrow> uuid) \<Rightarrow> uuid \<Rightarrow> uuid set \<Rightarrow> db \<Rightarrow> (db, sqlx_error) result" where
  "update_subscriber_scope X gen subscriber scope d =
     insert_scopes X gen 0 subscriber (sorted_list_of_set scope)
       (d\<lparr> scopes := filter (\<lambda>r. sc_subscriber r \<noteq> subscriber) (scopes d) \<rparr>)"

definition insert_subscriber_row :: "subscriber_row \<Rightarrow> db \<Rightarrow> (db, sqlx_error) result" where
  "insert_subscriber_row r d =
     rbind (guard_err (\<not> unique_ok s_id r (subscribers d)) (UniqueViolation ''subscriber_pkey'')) (\<lambda>_.
     rbind (guard_err (\<not> unique_ok s_sym_key r (subscribers d))
              (UniqueViolation ''subscriber_sym_key_key'')) (\<lambda>_.
     rbind (guard_err (\<not> unique_ok s_topic r (subscribers d)) (UniqueViolation ''subscriber_topic_key'')) (\<lambda>_.
     rbind (guard_err (s_project r \<notin> pids d) (ForeignKeyViolation ''subscriber_project_fkey'')) (\<lambda>_.
       Inr (d\<lparr> subscribers := subscribers d @ [r] \<rparr>)))))"

definition renew_subscriber :: "datetime \<Rightarrow> uuid \<Rightarrow> db \<Rightarrow> db" where
  "renew_subscriber now i d =
     d\<lparr> subscribers := update_where (\<lambda>q. s_id q = i)
          (\<lambda>q. q\<lparr> s_updated_at := now, s_expiry := now + days 30 \<rparr>) (subscribers d) \<rparr>"

text \<open>
  The statement of \<open>upsert_subscriber\<close>: the arbiter index of \<open>ON CONFLICT\<close> is the one on the
  project and the lower-cased address.
\<close>

definition upsert_subscriber_row ::
  "ext \<Rightarrow> datetime \<Rightarrow> subscriber_row \<Rightarrow> db \<Rightarrow> (SubscribeResponse \<times> db, sqlx_error) result" where
  "upsert_subscriber_row X now r d =
     (case find (\<lambda>s. s_index s = s_index r) (subscribers d) of
        Some s \<Rightarrow>
          rbind (decode_account X (s_account s)) (\<lambda>acc.
            Inr (\<lparr> sr_id = s_id s, sr_account = acc, sr_topic = s_topic s, sr_inserted = False \<rparr>,
              renew_subscriber now (s_id s) d))
      | None \<Rightarrow>
          rbind (insert_subscriber_row r d) (\<lambda>d'.
          rbind (decode_account X (s_account r)) (\<lambda>acc.
            Inr (\<lparr> sr_id = s_id r, sr_account = acc, sr_topic = s_topic r, sr_inserted = True \<rparr>, d'))))"

definition upsert_subscriber ::
  "ext \<Rightarrow> uuid \<Rightarrow> (nat \<Rightarrow> uuid) \<Rightarrow> datetime \<Rightarrow> uuid \<Rightarrow> AccountId \<Rightarrow> uuid set \<Rightarrow> bytes \<Rightarrow> topic \<Rightarrow> db
     \<Rightarrow> (SubscribeResponse \<times> db, sqlx_error) result" where
  "upsert_subscriber X new_id gen now project account scope notify_key notify_topic d =
   rbind (varchar255 account) (\<lambda>account.
   rbind (varchar255 (hex_encode X notify_key)) (\<lambda>sym_key.
   rbind (varchar255 notify_topic) (\<lambda>notify_topic.
   rbind (upsert_subscriber_row X now
            \<lparr> s_id = new_id, s_updated_at = now, s_project = project, s_account = account,
              s_sym_key = sym_key, s_topic = notify_topic, s_expiry = now + days 30 \<rparr> d) (\<lambda>rd.
   rbind (update_subscriber_scope X gen (sr_id (fst rd)) scope (snd rd)) (\<lambda>d'.
     Inr (fst rd, d'))))))"

text \<open>\<open>RETURNING *\<close> gives the updated row; the \<open>assert_eq!\<close> on its id holds by the \<open>WHERE\<close> clause.\<close>

definition update_subscriber ::
  "ext \<Rightarrow> (nat \<Rightarrow> uuid) \<Rightarrow> datetime \<Rightarrow> uuid \<Rightarrow> uuid set \<Rightarrow> db \<Rightarrow> (subscriber_row \<times> db, sqlx_error) result" where
  "update_subscriber X gen now subscriber scope d =
     (let d1 = renew_subscriber now subscriber d in
      rbind (fetch_one (filter (\<lambda>q. s_id q = subscriber) (subscribers d1))) (\<lambda>r.
      rbind (decode_account X (s_account r)) (\<lambda>_.
      rbind (update_subscriber_scope X gen (s_id r) scope d1) (\<lambda>d2.
        Inr (r, d2)))))"

text \<open>\<open>ON DELETE CASCADE\<close> on \<open>subscriber_scope\<close> and \<open>subscriber_notification\<close>.\<close>

definition delete_subscriber :: "uuid \<Rightarrow> db \<Rightarrow> db" where
  "delete_subscriber subscriber d =
     d\<lparr> subscribers := filter (\<lambda>s. s_id s \<noteq> subscriber) (subscribers d),
        scopes := filter (\<lambda>r. sc_subscriber r \<noteq> subscriber) (scopes d),
        subscriber_notifications :=
          filter (\<lambda>r. sn_subscriber r \<noteq> subscriber) (subscriber_notifications d) \<rparr>"

record SubscriberWithScope =
  sws_id :: uuid
  sws_project :: uuid
  sws_account :: AccountId
  sws_sym_key :: string
  sws_topic :: topic
  sws_scope :: "uuid set"
  sws_expiry :: datetime

definition get_subscriber_by_topic ::
  "ext \<Rightarrow> topic \<Rightarrow> db \<Rightarrow> (SubscriberWithScope, sqlx_error) result" where
  "get_subscriber_by_topic X t d =
     rbind (fetch_one (filter (\<lambda>s. s_topic s = t) (subscribers d))) (\<lambda>s.
       map_ok (\<lambda>acc. \<lparr> sws_id = s_id s, sws_project = s_project s, sws_account = acc,
           sws_sym_key = s_sym_key s, sws_topic = s_topic s,
           sws_scope = parse_scopes_and_ignore_invalid X (scope_names (s_id s) d),
           sws_expiry = s_expiry s \<rparr>)
         (decode_account X (s_account s)))"

record NotifySubscriberInfo =
  nsi_id :: uuid
  nsi_account :: AccountId
  nsi_scope :: "uuid set"

definition get_subscribers_for_project_in ::
  "ext \<Rightarrow> uuid \<Rightarrow> AccountId list \<Rightarrow> db \<Rightarrow> (NotifySubscriberInfo list, sqlx_error) result option" where
  "get_subscribers_for_project_in X project accounts d =
     map_option (\<lambda>addrs.
       collect_results (\<lambda>s. map_ok (\<lambda>acc. \<lparr> nsi_id = s_id s, nsi_account = acc,
           nsi_scope = parse_scopes_and_ignore_invalid X (scope_names (s_id s) d) \<rparr>)
           (decode_account X (s_account s)))
         (filter (\<lambda>s. s_project s = project \<and> get_address_lower (s_account s) \<in> set addrs)
           (subscribers d)))
       (lower_addresses accounts)"

record SubscriberWithProject =
  swp_app_domain :: string
  swp_authentication_public_key :: string
  swp_account :: AccountId
  swp_sym_key :: string
  swp_scope :: "uuid set"
  swp_expiry :: datetime
  swp_unread_notification_count :: nat

definition unread_count :: "uuid \<Rightarrow> db \<Rightarrow> nat" where
  "unread_count s d =
     length (filter (\<lambda>r. sn_subscriber r = s \<and> \<not> sn_is_read r) (subscriber_notifications d))"

definition get_subscriptions_by_account_and_maybe_app ::
  "ext \<Rightarrow> AccountId \<Rightarrow> string option \<Rightarrow> db \<Rightarrow> (SubscriberWithProject list, sqlx_error) result" where
  "get_subscriptions_by_account_and_maybe_app X account app_domain d =
     collect_results (\<lambda>(s, p). map_ok (\<lambda>acc.
         \<lparr> swp_app_domain = p_app_domain p,
           swp_authentication_public_key = p_authentication_public_key p,
           swp_account = acc, swp_sym_key = s_sym_key s,
           swp_scope = parse_scopes_and_ignore_invalid X (scope_names (s_id s) d),
           swp_expiry = s_expiry s, swp_unread_notification_count = unread_count (s_id s) d \<rparr>)
         (decode_account X (s_account s)))
       [(s, p). s \<leftarrow> subscribers d, p \<leftarrow> projects d,
                p_id p = s_project s \<and> get_address_lower (s_account s) = get_address_lower account \<and>
                (case app_domain of None \<Rightarrow> True | Some a \<Rightarrow> p_app_domain p = a)]"

section \<open>Subscription watchers\<close>

definition SUBSCRIPTION_WATCHER_LIMIT :: nat where
  "SUBSCRIPTION_WATCHER_LIMIT = 25"

datatype UpsertSubscriptionWatcherError =
    WatcherLimitReached
  | WatcherSqlx sqlx_error

text \<open>\<open>project=$2\<close> is unknown, so not selected, when either side is \<open>NULL\<close>.\<close>

definition sql_eq :: "'a option \<Rightarrow> 'a option \<Rightarrow> bool" where
  "sql_eq x y \<longleftrightarrow> x \<noteq> None \<and> x = y"

definition watcher_count :: "AccountId \<Rightarrow> uuid option \<Rightarrow> db \<Rightarrow> nat" where
  "watcher_count account project d =
     length (filter (\<lambda>w. get_address_lower (w_account w) = get_address_lower account \<and>
                         sql_eq (w_project w) project) (watchers d))"

definition upsert_watcher_row :: "watcher_row \<Rightarrow> db \<Rightarrow> (db, sqlx_error) result" where
  "upsert_watcher_row r d =
     rbind (guard_err (\<not> pred_option (\<lambda>p. p \<in> pids d) (w_project r))
              (ForeignKeyViolation ''subscription_watcher_project_fkey'')) (\<lambda>_.
       if \<not> unique_ok w_did_key r (watchers d)
       then Inr (d\<lparr> watchers := update_where (\<lambda>w. w_did_key w = w_did_key r)
              (\<lambda>w. w\<lparr> w_updated_at := w_updated_at r, w_account := w_account r,
                     w_project := w_project r, w_sym_key := w_sym_key r, w_expiry := w_expiry r \<rparr>)
              (watchers d) \<rparr>)
       else rbind (guard_err (\<not> unique_ok w_id r (watchers d))
                     (UniqueViolation ''subscription_watcher_pkey'')) (\<lambda>_.
              Inr (d\<lparr> watchers := watchers d @ [r] \<rparr>)))"

text \<open>
  The transaction is not serializable (``Allow phantom reads''): the statement counts in the database
  as it was when it began, \<open>seen\<close>, without the rows that other transactions have committed since, and
  inserts into the database as it is by then.
\<close>

definition upsert_subscription_watcher_seeing ::
  "db \<Rightarrow> uuid \<Rightarrow> datetime \<Rightarrow> AccountId \<Rightarrow> uuid option \<Rightarrow> string \<Rightarrow> string \<Rightarrow> datetime \<Rightarrow> db
     \<Rightarrow> (db, UpsertSubscriptionWatcherError) result" where
  "upsert_subscription_watcher_seeing seen new_id now account project did_key sym_key expiry d =
     rbind (guard_err (\<not> watcher_count account project seen < SUBSCRIPTION_WATCHER_LIMIT)
              WatcherLimitReached) (\<lambda>_.
       map_err WatcherSqlx (
         rbind (varchar255 account) (\<lambda>account.
         rbind (varchar255 did_key) (\<lambda>did_key.
         rbind (varchar255 sym_key) (\<lambda>sym_key.
           upsert_watcher_row \<lparr> w_id = new_id, w_updated_at = now, w_account = account,
             w_project = project, w_did_key = did_key, w_sym_key = sym_key, w_expiry = expiry \<rparr> d)))))"

text \<open>With no other transaction beside it.\<close>

definition upsert_subscription_watcher ::
  "uuid \<Rightarrow> datetime \<Rightarrow> AccountId \<Rightarrow> uuid option \<Rightarrow> string \<Rightarrow> string \<Rightarrow> datetime \<Rightarrow> db
     \<Rightarrow> (db, UpsertSubscriptionWatcherError) result" where
  "upsert_subscription_watcher new_id now account project did_key sym_key expiry d =
     upsert_subscription_watcher_seeing d new_id now account project did_key sym_key expiry d"

record SubscriptionWatcherQuery =
  swq_account :: AccountId
  swq_project :: "uuid option"
  swq_did_key :: string
  swq_sym_key :: string

definition get_subscription_watchers_for_account_by_app_or_all_app ::
  "ext \<Rightarrow> datetime \<Rightarrow> AccountId \<Rightarrow> string \<Rightarrow> db \<Rightarrow> (SubscriptionWatcherQuery list, sqlx_error) result" where
  "get_subscription_watchers_for_account_by_app_or_all_app X now account app_domain d =
     collect_results (\<lambda>w. map_ok (\<lambda>acc. \<lparr> swq_account = acc, swq_project = w_project w,
           swq_did_key = w_did_key w, swq_sym_key = w_sym_key w \<rparr>) (decode_account X (w_account w)))
       (filter (\<lambda>w. now < w_expiry w \<and> get_address_lower (w_account w) = get_address_lower account \<and>
            (w_project w = None \<or>
             (\<exists>p \<in> set (projects d). w_project w = Some (p_id p) \<and> p_app_domain p = app_domain)))
         (watchers d))"

definition delete_expired_subscription_watchers :: "datetime \<Rightarrow> db \<Rightarrow> nat \<times> db" where
  "delete_expired_subscription_watchers now d =
     (length (filter (\<lambda>w. w_expiry w \<le> now) (watchers d)),
      d\<lparr> watchers := filter (\<lambda>w. \<not> w_expiry w \<le> now) (watchers d) \<rparr>)"


section \<open>Every statement keeps the constraints\<close>

lemma wf_mono:
  assumes "A \<subseteq> B"
  shows "wf_subscribers X A ss \<Longrightarrow> wf_subscribers X B ss" and "wf_scopes A rs \<Longrightarrow> wf_scopes B rs"
    and "wf_watchers X A ws \<Longrightarrow> wf_watchers X B ws" and "wf_notifications A ns \<Longrightarrow> wf_notifications B ns"
    and "wf_subscriber_notifications A C rs' \<Longrightarrow> wf_subscriber_notifications B C rs'"
    and "wf_subscriber_notifications C A rs' \<Longrightarrow> wf_subscriber_notifications C B rs'"
    and "wf_welcome A ws' \<Longrightarrow> wf_welcome B ws'"
  using assms
  by (auto simp: wf_table_defs list_all_iff pred_option_def split: option.splits)

lemma wf_db_projects:
  assumes "wf_db X d" "wf_projects ps" "pids d \<subseteq> p_id ` set ps"
  shows "wf_db X (d\<lparr> projects := ps \<rparr>)"
  using assms wf_mono [OF assms(3)]
  by (auto simp: wf_db_def pids_def sids_def nids_def)

lemma wf_db_subscribers:
  assumes "wf_db X d" "wf_subscribers X (pids d) ss" "sids d \<subseteq> s_id ` set ss"
  shows "wf_db X (d\<lparr> subscribers := ss \<rparr>)"
  using assms wf_mono [OF assms(3)]
  by (auto simp: wf_db_def pids_def sids_def nids_def)

lemma wf_db_scopes: "wf_db X d \<Longrightarrow> wf_scopes (sids d) rs \<Longrightarrow> wf_db X (d\<lparr> scopes := rs \<rparr>)"
  by (simp add: wf_db_def pids_def sids_def nids_def)

lemma wf_db_watchers: "wf_db X d \<Longrightarrow> wf_watchers X (pids d) ws \<Longrightarrow> wf_db X (d\<lparr> watchers := ws \<rparr>)"
  by (simp add: wf_db_def pids_def sids_def nids_def)

lemma distinct_update_one:
  assumes "distinct (map f t)" and "distinct (map k t)"
    and "\<And>q. q \<in> set t \<Longrightarrow> k q \<noteq> i \<Longrightarrow> f q \<noteq> v" and "\<And>q. f (u q) = v"
  shows "distinct (map f (update_where (\<lambda>q. k q = i) u t))"
proof -
  have "map f (update_where (\<lambda>q. k q = i) u t) = map (\<lambda>q. if k q = i then v else f q) t"
    using assms(4) by (auto simp: update_where_def)
  moreover have "inj_on (\<lambda>q. if k q = i then v else f q) (set t)"
    using assms(1-3) unfolding distinct_map inj_on_def by metis
  ultimately show ?thesis using assms(1) by (simp add: distinct_map)
qed

lemma insert_project_row_wf:
  assumes "insert_project_row r d = Inr d'" "wf_db X d"
  shows "wf_db X d'"
proof -
  have "wf_projects (projects d @ [r])"
    using assms(1) wf_dbD(1) [OF assms(2)]
    unfolding insert_project_row_def Let_def wf_projects_def
    by (simp add: rbind_Inr_iff unique_ok_def)
  moreover have "d' = d\<lparr> projects := projects d @ [r] \<rparr>"
    using assms(1) unfolding insert_project_row_def Let_def by (simp add: rbind_Inr_iff)
  ultimately show ?thesis
    using wf_db_projects [OF assms(2), of "projects d @ [r]"] by (auto simp: pids_def)
qed

lemma update_project_domain_wf:
  assumes "update_project_domain now a p d = Inr d'" "wf_db X d"
  shows "wf_db X d'"
proof -
  let ?t = "update_where (\<lambda>q. p_id q = p_id p)
              (\<lambda>q. q\<lparr> p_updated_at := now, p_app_domain := a \<rparr>) (projects d)"
  from assms(1) have a: "\<forall>q \<in> set (projects d). p_id q \<noteq> p_id p \<longrightarrow> p_app_domain q \<noteq> a"
    and d': "d' = d\<lparr> projects := ?t \<rparr>"
    by (auto simp: update_project_domain_def rbind_Inr_iff)
  note wp = wf_dbD(1) [OF assms(2)]
  have "distinct (map p_app_domain ?t)"
    using wp a by (intro distinct_update_one [where v = a]) (auto simp: wf_projects_def)
  then have "wf_projects ?t" using wp by (simp add: wf_projects_def update_where_key)
  moreover have "p_id ` set ?t = p_id ` set (projects d)" by (rule update_where_key_set) simp
  ultimately show ?thesis using wf_db_projects [OF assms(2)] d' by (simp add: pids_def)
qed

lemma upsert_project_row_wf:
  "upsert_project_row now r d = Inr (k, d') \<Longrightarrow> wf_db X d \<Longrightarrow> wf_db X d'"
  unfolding upsert_project_row_def
  by (auto simp: map_ok_Inr_iff split: option.splits
      intro: insert_project_row_wf update_project_domain_wf)

lemma upsert_project_wf [wf_intros]:
  "upsert_project X i now pid a t ak sk d = Inr (k, d') \<Longrightarrow> wf_db X' d \<Longrightarrow> wf_db X' d'"
  unfolding upsert_project_def upsert_project_impl_def
  by (simp add: rbind_Inr_iff) (blast intro: upsert_project_row_wf)

lemma insert_scope_row_wf:
  assumes "insert_scope_row r d = Inr d'" "wf_db X d"
  shows "wf_db X d'"
proof -
  have "wf_scopes (sids d) (scopes d @ [r])" and "d' = d\<lparr> scopes := scopes d @ [r] \<rparr>"
    using assms(1) wf_dbD(3) [OF assms(2)]
    by (simp_all add: insert_scope_row_def rbind_Inr_iff wf_scopes_def unique_ok_def)
  then show ?thesis using wf_db_scopes [OF assms(2)] by simp
qed

lemma insert_scopes_wf:
  "insert_scopes X gen k s us d = Inr d' \<Longrightarrow> wf_db X' d \<Longrightarrow> wf_db X' d'"
  by (induction us arbitrary: k d) (auto simp: rbind_Inr_iff dest: insert_scope_row_wf)

lemma update_subscriber_scope_wf [wf_intros]:
  assumes "update_subscriber_scope X gen s scope d = Inr d'" and "wf_db X' d"
  shows "wf_db X' d'"
proof -
  have "wf_db X' (d\<lparr> scopes := filter (\<lambda>r. sc_subscriber r \<noteq> s) (scopes d) \<rparr>)"
    using wf_dbD(3) [OF assms(2)]
    by (intro wf_db_scopes [OF assms(2)]) (auto simp: wf_scopes_def distinct_map_filter)
  then show ?thesis
    using assms(1) insert_scopes_wf unfolding update_subscriber_scope_def by blast
qed

lemma renew_subscriber_wf [wf_intros]:
  assumes "wf_db X d"
  shows "wf_db X (renew_subscriber now i d)"
proof -
  let ?t = "subscribers (renew_subscriber now i d)"
  have key: "map f ?t = map f (subscribers d)" if "\<And>q e. f (q\<lparr> s_updated_at := now, s_expiry := e \<rparr>) = f q"
    for f :: "subscriber_row \<Rightarrow> 'k"
    using that by (simp add: renew_subscriber_def update_where_key)
  have "map s_id ?t = map s_id (subscribers d)" "map s_index ?t = map s_index (subscribers d)"
    "map s_sym_key ?t = map s_sym_key (subscribers d)" "map s_topic ?t = map s_topic (subscribers d)"
    "map s_project ?t = map s_project (subscribers d)" "map s_account ?t = map s_account (subscribers d)"
    by (rule key, simp add: s_index_def)+
  then have "wf_subscribers X (pids d) ?t" and "s_id ` set ?t = sids d"
    using wf_dbD(2) [OF assms] unfolding wf_subscribers_def sids_def
    by (metis list.pred_map list.set_map)+
  then show ?thesis
    using wf_db_subscribers [OF assms, of ?t] by (simp add: renew_subscriber_def)
qed

lemma insert_subscriber_row_wf:
  assumes "insert_subscriber_row r d = Inr d'" "wf_db X d"
    and "valid_account X (s_account r)" "unique_ok s_index r (subscribers d)"
  shows "wf_db X d'"
proof -
  have "wf_subscribers X (pids d) (subscribers d @ [r])"
    and "d' = d\<lparr> subscribers := subscribers d @ [r] \<rparr>"
    using assms wf_dbD(2) [OF assms(2)]
    by (simp_all add: insert_subscriber_row_def rbind_Inr_iff wf_subscribers_def unique_ok_def)
  then show ?thesis
    using wf_db_subscribers [OF assms(2), of "subscribers d @ [r]"] by (auto simp: sids_def)
qed

lemma upsert_subscriber_row_wf:
  assumes "upsert_subscriber_row X now r d = Inr (k, d')" "wf_db X d"
  shows "wf_db X d'"
proof (cases "find (\<lambda>s. s_index s = s_index r) (subscribers d)")
  case None
  then have "unique_ok s_index r (subscribers d)" by (auto simp: find_None_iff unique_ok_def)
  with None assms show ?thesis
    by (auto simp: upsert_subscriber_row_def rbind_Inr_iff intro: insert_subscriber_row_wf)
next
  case (Some s)
  with assms show ?thesis
    by (auto simp: upsert_subscriber_row_def rbind_Inr_iff intro: renew_subscriber_wf)
qed

lemma upsert_subscriber_wf [wf_intros]:
  "upsert_subscriber X i gen now p a sc nk nt d = Inr (k, d') \<Longrightarrow> wf_db X d \<Longrightarrow> wf_db X d'"
  unfolding upsert_subscriber_def
  by (simp add: rbind_Inr_iff) (metis prod.collapse update_subscriber_scope_wf upsert_subscriber_row_wf)

lemma update_subscriber_wf [wf_intros]:
  "update_subscriber X gen now s sc d = Inr (r, d') \<Longrightarrow> wf_db X d \<Longrightarrow> wf_db X d'"
  unfolding update_subscriber_def Let_def
  by (auto simp: rbind_Inr_iff intro: update_subscriber_scope_wf renew_subscriber_wf)

lemma delete_subscriber_wf [wf_intros]:
  assumes "wf_db X d"
  shows "wf_db X (delete_subscriber s d)"
  using assms unfolding wf_db_def
  by (auto simp: delete_subscriber_def wf_table_defs pids_def sids_def nids_def distinct_map_filter
      list_all_iff)

lemma upsert_watcher_row_wf:
  assumes "upsert_watcher_row r d = Inr d'" "wf_db X d" "valid_account X (w_account r)"
  shows "wf_db X d'"
proof -
  from assms(1) have p: "pred_option (\<lambda>p. p \<in> pids d) (w_project r)"
    by (simp add: upsert_watcher_row_def rbind_Inr_iff)
  note ww = wf_dbD(4) [OF assms(2)]
  show ?thesis
  proof (cases "unique_ok w_did_key r (watchers d)")
    case True
    with assms(1,3) p ww have "wf_watchers X (pids d) (watchers d @ [r])"
      and "d' = d\<lparr> watchers := watchers d @ [r] \<rparr>"
      by (simp_all add: upsert_watcher_row_def rbind_Inr_iff wf_watchers_def unique_ok_def)
    then show ?thesis using wf_db_watchers [OF assms(2)] by simp
  next
    case False
    let ?u = "\<lambda>w. w\<lparr> w_updated_at := w_updated_at r, w_account := w_account r,
                     w_project := w_project r, w_sym_key := w_sym_key r, w_expiry := w_expiry r \<rparr>"
    let ?t = "update_where (\<lambda>w. w_did_key w = w_did_key r) ?u (watchers d)"
    have "d' = d\<lparr> watchers := ?t \<rparr>"
      using assms(1) False by (simp add: upsert_watcher_row_def rbind_Inr_iff)
    moreover have "wf_watchers X (pids d) ?t"
      using ww p assms(3) by (auto simp: wf_watchers_def update_where_key list_all_iff set_update_where)
    ultimately show ?thesis using wf_db_watchers [OF assms(2)] by simp
  qed
qed

lemma delete_expired_watchers_wf [wf_intros]:
  "wf_db X d \<Longrightarrow> wf_db X (snd (delete_expired_subscription_watchers now d))"
  by (auto simp: delete_expired_subscription_watchers_def wf_watchers_def distinct_map_filter
      list_all_iff dest: wf_dbD(4) intro!: wf_db_watchers)

lemma upsert_subscription_watcher_wf [wf_intros]:
  assumes "upsert_subscription_watcher i now a p dk sk ex d = Inr d'" "wf_db X d" "valid_account X a"
  shows "wf_db X d'"
  using assms varchar255_valid_account [OF assms(3)]
  unfolding upsert_subscription_watcher_def upsert_subscription_watcher_seeing_def
  by (auto simp: rbind_Inr_iff intro: upsert_watcher_row_wf)

section \<open>Functional behaviour\<close>

lemma insert_scopes_scopes:
  assumes "insert_scopes X gen k s us d = Inr d'" and "uuid_laws X"
  shows "scope_names s d' = scope_names s d @ map (uuid_to_string X) us \<and>
    (\<forall>s'. s' \<noteq> s \<longrightarrow> scope_names s' d' = scope_names s' d) \<and> d' = d\<lparr> scopes := scopes d' \<rparr>"
  using assms
proof (induction us arbitrary: k d)
  case (Cons u us)
  from Cons.prems obtain nm d1 where nm: "varchar255 (uuid_to_string X u) = Inr nm"
    and ins: "insert_scope_row \<lparr> sc_id = gen k, sc_subscriber = s, sc_name = nm \<rparr> d = Inr d1"
    and rest: "insert_scopes X gen (Suc k) s us d1 = Inr d'"
    by (auto simp: rbind_Inr_iff)
  have "nm = uuid_to_string X u"
    using nm Cons.prems(2) by (auto simp: uuid_laws_def dest: varchar255_no_space)
  moreover have "d1 = d\<lparr> scopes := scopes d @ [\<lparr> sc_id = gen k, sc_subscriber = s, sc_name = nm \<rparr>] \<rparr>"
    using ins by (simp add: insert_scope_row_def rbind_Inr_iff)
  ultimately show ?case using Cons.IH [OF rest Cons.prems(2)] by (auto simp: scope_names_def)
qed (simp add: scope_names_def)

lemma update_subscriber_scope_scopes:
  assumes "update_subscriber_scope X gen s sc d = Inr d'" and "uuid_laws X"
  shows "scope_names s d' = map (uuid_to_string X) (sorted_list_of_set sc)"
    and "s' \<noteq> s \<Longrightarrow> scope_names s' d' = scope_names s' d"
    and "d' = d\<lparr> scopes := scopes d' \<rparr>"
proof -
  let ?d = "d\<lparr> scopes := filter (\<lambda>r. sc_subscriber r \<noteq> s) (scopes d) \<rparr>"
  have "insert_scopes X gen 0 s (sorted_list_of_set sc) ?d = Inr d'"
    using assms(1) by (simp add: update_subscriber_scope_def)
  note ins = insert_scopes_scopes [OF this assms(2)]
  have "scope_names s ?d = []" and "s' \<noteq> s \<Longrightarrow> scope_names s' ?d = scope_names s' d" for s'
    by (auto simp: scope_names_def filter_empty_conv intro!: arg_cong [where f = "map sc_name"] filter_cong)
  with ins show "scope_names s d' = map (uuid_to_string X) (sorted_list_of_set sc)"
    and "s' \<noteq> s \<Longrightarrow> scope_names s' d' = scope_names s' d" by simp_all
  from ins show "d' = d\<lparr> scopes := scopes d' \<rparr>" by (metis db.surjective db.update_convs(3))
qed

lemma parse_scopes_uuid_strings:
  "uuid_laws X \<Longrightarrow> finite sc \<Longrightarrow>
   parse_scopes_and_ignore_invalid X (map (uuid_to_string X) (sorted_list_of_set sc)) = sc"
  by (auto simp: parse_scopes_and_ignore_invalid_def uuid_laws_def map_filter_def o_def)

lemma get_subscriber_by_topic_wf:
  assumes "wf_db X d" "s \<in> set (subscribers d)"
  shows "get_subscriber_by_topic X (s_topic s) d = Inr \<lparr> sws_id = s_id s, sws_project = s_project s,
    sws_account = s_account s, sws_sym_key = s_sym_key s, sws_topic = s_topic s,
    sws_scope = parse_scopes_and_ignore_invalid X (scope_names (s_id s) d), sws_expiry = s_expiry s \<rparr>"
proof -
  have ws: "distinct (map s_topic (subscribers d))" "valid_account X (s_account s)"
    using wf_dbD(2) [OF assms(1)] assms(2) by (auto simp: wf_subscribers_def list_all_iff)
  have "fetch_one (filter (\<lambda>q. s_topic q = s_topic s) (subscribers d)) = Inr s"
    using fetch_one_filter_unique [OF ws(1), of "s_topic s" s] assms(2) by simp
  then show ?thesis using ws(2) by (simp add: get_subscriber_by_topic_def map_ok_Inr_iff)
qed

text \<open>What the two cases of the statement of \<open>upsert_subscriber\<close> do to the rows.\<close>

definition subscriber_upserted ::
  "datetime \<Rightarrow> subscriber_row \<Rightarrow> SubscribeResponse \<Rightarrow> subscriber_row list \<Rightarrow> subscriber_row list \<Rightarrow> bool" where
  "subscriber_upserted now r k t t' \<longleftrightarrow>
     (if s_index r \<in> s_index ` set t
      then \<not> sr_inserted k \<and> (\<exists>s \<in> set t. s_index s = s_index r \<and>
             k = \<lparr> sr_id = s_id s, sr_account = s_account s, sr_topic = s_topic s, sr_inserted = False \<rparr> \<and>
             t' = update_where (\<lambda>q. s_id q = s_id s)
                    (\<lambda>q. q\<lparr> s_updated_at := now, s_expiry := now + days 30 \<rparr>) t)
      else k = \<lparr> sr_id = s_id r, sr_account = s_account r, sr_topic = s_topic r, sr_inserted = True \<rparr> \<and>
           s_id r \<notin> s_id ` set t \<and> t' = t @ [r])"

lemma upsert_subscriber_row_spec:
  assumes "upsert_subscriber_row X now r d = Inr (k, d')"
  shows "subscriber_upserted now r k (subscribers d) (subscribers d') \<and> d' = d\<lparr> subscribers := subscribers d' \<rparr>"
proof (cases "find (\<lambda>s. s_index s = s_index r) (subscribers d)")
  case None
  then have "s_index r \<notin> s_index ` set (subscribers d)" by (auto simp: find_None_iff)
  with None assms show ?thesis
    by (auto simp: upsert_subscriber_row_def insert_subscriber_row_def rbind_Inr_iff
        subscriber_upserted_def unique_ok_def)
next
  case (Some s)
  with find_Some_set [OF Some] assms show ?thesis
    by (auto simp: upsert_subscriber_row_def rbind_Inr_iff subscriber_upserted_def
        renew_subscriber_def image_iff)
qed

lemma subscriber_upserted_row:
  assumes "subscriber_upserted now r k t t'" "distinct (map s_id t)" "s_expiry r = now + days 30"
  shows "\<exists>s \<in> set t'. s_id s = sr_id k \<and> s_index s = s_index r \<and> s_topic s = sr_topic k \<and>
    s_account s = sr_account k \<and> s_expiry s = now + days 30"
    and "{s \<in> set t'. s_id s \<noteq> sr_id k} = {s \<in> set t. s_id s \<noteq> sr_id k}"
    and "sr_inserted k \<longleftrightarrow> s_index r \<notin> s_index ` set t"
    and "\<not> sr_inserted k \<Longrightarrow> s \<in> set t' \<Longrightarrow> s_id s = sr_id k \<Longrightarrow>
      \<exists>q \<in> set t. s_id q = s_id s \<and> s_account q = s_account s \<and>
        s_sym_key q = s_sym_key s \<and> s_topic q = s_topic s"
proof -
  consider (upd) s where "s_index r \<in> s_index ` set t" "s \<in> set t" "s_index s = s_index r"
      "k = \<lparr> sr_id = s_id s, sr_account = s_account s, sr_topic = s_topic s, sr_inserted = False \<rparr>"
      "t' = update_where (\<lambda>q. s_id q = s_id s) (\<lambda>q. q\<lparr> s_updated_at := now, s_expiry := now + days 30 \<rparr>) t"
    | (ins) "s_index r \<notin> s_index ` set t" "s_id r \<notin> s_id ` set t" "t' = t @ [r]"
      "k = \<lparr> sr_id = s_id r, sr_account = s_account r, sr_topic = s_topic r, sr_inserted = True \<rparr>"
    using assms(1) by (auto simp: subscriber_upserted_def split: if_splits)
  note cases = this
  show "\<exists>s \<in> set t'. s_id s = sr_id k \<and> s_index s = s_index r \<and> s_topic s = sr_topic k \<and>
    s_account s = sr_account k \<and> s_expiry s = now + days 30"
    using cases
  proof cases
    case upd
    then have "s\<lparr> s_updated_at := now, s_expiry := now + days 30 \<rparr> \<in> set t'"
      by (auto simp: set_update_where)
    moreover have "s_index (s\<lparr> s_updated_at := now, s_expiry := now + days 30 \<rparr>) = s_index r"
      using upd(3) by (simp add: s_index_def)
    ultimately show ?thesis using upd(4) by (intro bexI) auto
  qed (use assms(3) in auto)
  show "{s \<in> set t'. s_id s \<noteq> sr_id k} = {s \<in> set t. s_id s \<noteq> sr_id k}"
    by (cases rule: cases) (auto simp: set_update_where)
  show "sr_inserted k \<longleftrightarrow> s_index r \<notin> s_index ` set t"
    by (cases rule: cases) auto
  show "\<exists>q \<in> set t. s_id q = s_id s \<and> s_account q = s_account s \<and>
      s_sym_key q = s_sym_key s \<and> s_topic q = s_topic s"
    if "\<not> sr_inserted k" "s \<in> set t'" "s_id s = sr_id k"
    using cases
  proof cases
    case upd
    with that show ?thesis by (auto simp: set_update_where intro: bexI [of _ "_ :: subscriber_row"])
  qed (use that in auto)
qed

text \<open>
  C30. Subscribing: when \<open>upsert_subscriber\<close> succeeds, looking the returned topic up gives the
  returned subscriber with exactly the requested project, scope and a 30-day expiry, whose account
  has the requested address; \<open>inserted\<close> says whether the address was new to the project; an
  existing subscription keeps its account, key and topic; every other subscriber, its scopes, and
  all other tables are untouched.
\<close>

theorem upsert_subscriber_spec:
  assumes "wf_db X d" "uuid_laws X" "valid_account X account" "finite scope"
    and "upsert_subscriber X new_id gen now project account scope notify_key notify_topic d = Inr (k, d')"
  shows "\<exists>s. get_subscriber_by_topic X (sr_topic k) d' = Inr s \<and> sws_id s = sr_id k \<and>
      sws_project s = project \<and> get_address_lower (sws_account s) = get_address_lower account \<and>
      sws_scope s = scope \<and> sws_expiry s = now + days 30 \<and>
    (sr_inserted k \<longleftrightarrow> (\<forall>q \<in> set (subscribers d). s_index q \<noteq> (project, get_address_lower account))) \<and>
    (\<not> sr_inserted k \<longrightarrow> (\<exists>q \<in> set (subscribers d). s_id q = sws_id s \<and> s_account q = sws_account s \<and>
        s_sym_key q = sws_sym_key s \<and> s_topic q = sws_topic s)) \<and>
    {q \<in> set (subscribers d'). s_id q \<noteq> sr_id k} = {q \<in> set (subscribers d). s_id q \<noteq> sr_id k} \<and>
    (\<forall>i. i \<noteq> sr_id k \<longrightarrow> scope_names i d' = scope_names i d) \<and>
    d' = d\<lparr> subscribers := subscribers d', scopes := scopes d' \<rparr>"
proof -
  from assms(5) varchar255_valid_account [OF assms(3)] obtain sk nt d1 where
    row: "upsert_subscriber_row X now \<lparr> s_id = new_id, s_updated_at = now, s_project = project,
       s_account = account, s_sym_key = sk, s_topic = nt, s_expiry = now + days 30 \<rparr> d = Inr (k, d1)"
    and sc: "update_subscriber_scope X gen (sr_id k) scope d1 = Inr d'"
    by (auto simp: upsert_subscriber_def rbind_Inr_iff)
  let ?r = "\<lparr> s_id = new_id, s_updated_at = now, s_project = project,
       s_account = account, s_sym_key = sk, s_topic = nt, s_expiry = now + days 30 \<rparr>"
  note up = upsert_subscriber_row_spec [OF row]
  note wfd = wf_dbD(2) [OF assms(1)]
  have d': "subscribers d' = subscribers d1" "wf_db X d'"
    using update_subscriber_scope_scopes(3) [OF sc assms(2)] assms(1,5) upsert_subscriber_wf
    by (metis db.select_convs(2) db.surjective db.update_convs(3), blast)
  have ids: "distinct (map s_id (subscribers d))" using wfd by (simp add: wf_subscribers_def)
  note rowf = subscriber_upserted_row [OF conjunct1 [OF up] ids]
  from rowf(1) d' obtain s where s: "s \<in> set (subscribers d')" "s_id s = sr_id k" "s_index s = s_index ?r"
    "s_topic s = sr_topic k" "s_account s = sr_account k" "s_expiry s = now + days 30" by auto
  have got: "get_subscriber_by_topic X (sr_topic k) d' = Inr \<lparr> sws_id = s_id s, sws_project = s_project s,
      sws_account = s_account s, sws_sym_key = s_sym_key s, sws_topic = s_topic s,
      sws_scope = scope, sws_expiry = s_expiry s \<rparr>"
    using get_subscriber_by_topic_wf [OF d'(2) s(1)] s(2,4)
      update_subscriber_scope_scopes(1) [OF sc assms(2)] parse_scopes_uuid_strings [OF assms(2,4)] by simp
  have kept: "\<exists>q \<in> set (subscribers d). s_id q = s_id s \<and> s_account q = s_account s \<and>
      s_sym_key q = s_sym_key s \<and> s_topic q = s_topic s" if "\<not> sr_inserted k"
    using rowf(4) [OF _ that] s(1,2) d'(1) by simp
  have scopes_kept: "scope_names i d' = scope_names i d" if "i \<noteq> sr_id k" for i
  proof -
    have "scope_names i d1 = scope_names i d"
      using up by (metis (no_types) db.select_convs(3) db.surjective db.update_convs(2) scope_names_def)
    then show ?thesis using update_subscriber_scope_scopes(2) [OF sc assms(2) that] by simp
  qed
  have frame: "d' = d\<lparr> subscribers := subscribers d', scopes := scopes d' \<rparr>"
    using up update_subscriber_scope_scopes(3) [OF sc assms(2)]
    by (metis (no_types) d'(1) db.surjective db.update_convs(2,3))
  show ?thesis
    using got s rowf(2,3) kept scopes_kept frame d'(1) by (auto simp: s_index_def image_iff)
qed

definition demo_project :: project_row where
  "demo_project = \<lparr> p_id = 1, p_updated_at = 0, p_project_id = ''prj'', p_app_domain = ''app.example'',
     p_topic = ''ptopic'', p_authentication_public_key = ''apub'', p_authentication_private_key = ''apriv'',
     p_subscribe_public_key = ''spub'', p_subscribe_private_key = ''spriv'' \<rparr>"

definition demo_db :: db where
  "demo_db = empty_db\<lparr> projects := [demo_project] \<rparr>"

lemma wf_demo_db: "wf_db X demo_db"
  by (simp add: demo_db_def demo_project_def empty_db_def wf_db_def wf_table_defs pids_def sids_def nids_def)

definition demo_gen :: "nat \<Rightarrow> uuid" where
  "demo_gen k = 100 + of_nat k"

lemma varchar255_short: "length s \<le> 255 \<Longrightarrow> CHR 0x00 \<notin> set s \<Longrightarrow> varchar255 s = Inr s"
  using chars_count_le_length [of s] by (simp add: varchar255_def)

lemma varchar255_uuid_demo: "varchar255 (uuid_to_string ext_demo u) = Inr (uuid_to_string ext_demo u)"
  by (rule varchar255_short) (auto simp: ext_demo_def uuid_string_demo_def)

lemma valid_demo_accounts: "valid_account ext_demo acct_a" "valid_account ext_demo acct_b"
  using valid_acct_a valid_acct_b by (auto simp: valid_account_iff)

lemma hex_demo_1: "hex_encode ext_demo [1] = ''01''"
  by code_simp

lemma upsert_subscriber_demo:
  "is_ok (upsert_subscriber ext_demo 7 demo_gen 0 1 acct_a {3} [1] ''t'' demo_db)"
  by (simp add: upsert_subscriber_def varchar255_valid_account [OF valid_demo_accounts(1)] hex_demo_1
      varchar255_short upsert_subscriber_row_def insert_subscriber_row_def demo_db_def demo_project_def
      empty_db_def unique_ok_def pids_def sids_def valid_demo_accounts
      decode_account_Inr_iff [THEN iffD2] update_subscriber_scope_def varchar255_uuid_demo
      insert_scope_row_def)

theorem upsert_subscriber_spec_witness:
  "\<exists>k d' s. upsert_subscriber ext_demo 7 demo_gen 0 1 acct_a {3} [1] ''t'' demo_db = Inr (k, d') \<and>
     get_subscriber_by_topic ext_demo (sr_topic k) d' = Inr s \<and> sws_scope s = {3} \<and> sr_inserted k"
proof -
  obtain k d' where u: "upsert_subscriber ext_demo 7 demo_gen 0 1 acct_a {3} [1] ''t'' demo_db = Inr (k, d')"
    using upsert_subscriber_demo by (auto simp: is_ok_iff)
  then show ?thesis
    using upsert_subscriber_spec [OF wf_demo_db uuid_laws_demo valid_demo_accounts(1) _ u]
    by (auto simp: demo_db_def empty_db_def)
qed

lemma lower_addresses_valid:
  "list_all (valid_account X) accounts \<Longrightarrow> lower_addresses accounts = Some (map get_address_lower accounts)"
proof (induction accounts)
  case (Cons a accounts)
  then obtain r h where "eip155_account X a r h" by (auto simp: valid_account_iff)
  note parts = eip155_account_parts [OF this]
  show ?case using Cons parts by (simp add: lower_addresses_def)
qed (simp add: lower_addresses_def)

lemma valid_subscriber_accounts: "wf_db X d \<Longrightarrow> s \<in> set (subscribers d) \<Longrightarrow> valid_account X (s_account s)"
  using wf_dbD(2) by (auto simp: wf_subscribers_def list_all_iff)

text \<open>A subscriber's row as the notify handler sees it.\<close>

definition subscriber_info :: "ext \<Rightarrow> db \<Rightarrow> subscriber_row \<Rightarrow> NotifySubscriberInfo" where
  "subscriber_info X d s = \<lparr> nsi_id = s_id s, nsi_account = s_account s,
     nsi_scope = parse_scopes_and_ignore_invalid X (scope_names (s_id s) d) \<rparr>"

lemma get_subscribers_for_project_in_total:
  assumes "wf_db X d" "list_all (valid_account X) accounts"
  shows "get_subscribers_for_project_in X project accounts d =
    Some (Inr (map (subscriber_info X d) (filter (\<lambda>s. s_project s = project \<and>
      get_address_lower (s_account s) \<in> get_address_lower ` set accounts) (subscribers d))))"
  using assms(1)
  by (auto simp: get_subscribers_for_project_in_def lower_addresses_valid [OF assms(2)] subscriber_info_def
      map_ok_Inr_iff intro!: collect_results_total valid_subscriber_accounts)

text \<open>
  On a well-formed database \<open>get_subscribers_for_project_in\<close> succeeds for validated accounts and
  returns exactly the project's subscribers whose address is among the accounts, each with its
  account and the notification types stored for it, on whatever chain the account was given.
\<close>

theorem get_subscribers_for_project_in_exact:
  assumes "wf_db X d" "list_all (valid_account X) accounts"
  shows "\<exists>infos. get_subscribers_for_project_in X project accounts d = Some (Inr infos) \<and>
    distinct (map nsi_id infos) \<and>
    (\<forall>i. i \<in> set infos \<longleftrightarrow> (\<exists>s \<in> set (subscribers d). s_project s = project \<and>
       (\<exists>a \<in> set accounts. get_address_lower (s_account s) = get_address_lower a) \<and>
       i = \<lparr> nsi_id = s_id s, nsi_account = s_account s,
             nsi_scope = parse_scopes_and_ignore_invalid X (scope_names (s_id s) d) \<rparr>))"
proof -
  let ?sel = "filter (\<lambda>s. s_project s = project \<and>
    get_address_lower (s_account s) \<in> get_address_lower ` set accounts) (subscribers d)"
  have "distinct (map nsi_id (map (subscriber_info X d) ?sel))"
    using wf_dbD(2) [OF assms(1)]
    by (simp add: wf_subscribers_def distinct_map_filter o_def subscriber_info_def)
  then show ?thesis
    using get_subscribers_for_project_in_total [OF assms]
    by (auto simp: image_iff subscriber_info_def)
qed

theorem get_subscribers_for_project_in_exact_witness:
  "\<exists>infos. get_subscribers_for_project_in ext_demo 1 [acct_a, acct_b] demo_db = Some (Inr infos) \<and>
    distinct (map nsi_id infos) \<and> infos = []"
  using get_subscribers_for_project_in_exact [OF wf_demo_db, of ext_demo "[acct_a, acct_b]" 1]
    valid_demo_accounts
  by (auto simp: demo_db_def empty_db_def last_in_set intro: hd_in_set)

lemma delete_subscriber_gone:
  assumes "wf_db X d" "s \<in> set (subscribers d)"
  shows "get_subscriber_by_topic X (s_topic s) (delete_subscriber (s_id s) d) = Inl RowNotFound"
    and "q \<in> set (subscribers d) \<Longrightarrow> s_topic q = s_topic s \<longleftrightarrow> s_id q = s_id s"
proof -
  have ws: "distinct (map s_id (subscribers d))" "distinct (map s_topic (subscribers d))"
    using wf_dbD(2) [OF assms(1)] by (auto simp: wf_subscribers_def)
  show topic_iff: "s_topic q = s_topic s \<longleftrightarrow> s_id q = s_id s" if "q \<in> set (subscribers d)" for q
    using distinct_map_inj [OF ws(1) that assms(2)] distinct_map_inj [OF ws(2) that assms(2)] by auto
  have "filter (\<lambda>q. s_topic q = s_topic s) (subscribers (delete_subscriber (s_id s) d)) = []"
    using topic_iff by (auto simp: delete_subscriber_def filter_empty_conv)
  then show "get_subscriber_by_topic X (s_topic s) (delete_subscriber (s_id s) d) = Inl RowNotFound"
    by (simp add: get_subscriber_by_topic_def fetch_one_def)
qed

text \<open>
  Unsubscribing: after \<open>delete_subscriber\<close> the subscriber's topic is unknown, no scope and no
  queued notification of it is left (the cascades), the lookup of every other topic gives what it
  gave before, and the constraints still hold.
\<close>

theorem delete_subscriber_spec:
  assumes "wf_db X d" "s \<in> set (subscribers d)"
  shows "get_subscriber_by_topic X (s_topic s) (delete_subscriber (s_id s) d) = Inl RowNotFound \<and>
    scope_names (s_id s) (delete_subscriber (s_id s) d) = [] \<and>
    (\<forall>r \<in> set (subscriber_notifications (delete_subscriber (s_id s) d)). sn_subscriber r \<noteq> s_id s) \<and>
    (\<forall>t. t \<noteq> s_topic s \<longrightarrow>
       get_subscriber_by_topic X t (delete_subscriber (s_id s) d) = get_subscriber_by_topic X t d) \<and>
    wf_db X (delete_subscriber (s_id s) d)"
proof -
  let ?d = "delete_subscriber (s_id s) d"
  note gone = delete_subscriber_gone(1) [OF assms] and topic_iff = delete_subscriber_gone(2) [OF assms]
  have others: "get_subscriber_by_topic X t ?d = get_subscriber_by_topic X t d" if "t \<noteq> s_topic s" for t
  proof -
    have "filter (\<lambda>q. s_topic q = t) (subscribers ?d) = filter (\<lambda>q. s_topic q = t) (subscribers d)"
      using topic_iff that by (auto simp: delete_subscriber_def intro!: filter_cong)
    moreover have "scope_names (s_id q) ?d = scope_names (s_id q) d"
      if q: "fetch_one (filter (\<lambda>q. s_topic q = t) (subscribers d)) = Inr q" for q
    proof -
      have "s_id q \<noteq> s_id s" using fetch_one_filter_Inr [OF q] topic_iff \<open>t \<noteq> s_topic s\<close> by auto
      then show ?thesis
        by (auto simp: delete_subscriber_def scope_names_def intro!: arg_cong [where f = "map sc_name"] filter_cong)
    qed
    ultimately show ?thesis
      by (cases "fetch_one (filter (\<lambda>q. s_topic q = t) (subscribers d))")
        (auto simp: get_subscriber_by_topic_def)
  qed
  show ?thesis
    using gone others delete_subscriber_wf [OF assms(1)]
    by (auto simp: delete_subscriber_def scope_names_def filter_empty_conv)
qed

definition demo_subscriber :: subscriber_row where
  "demo_subscriber = \<lparr> s_id = 7, s_updated_at = 0, s_project = 1, s_account = acct_a,
     s_sym_key = ''01'', s_topic = ''t'', s_expiry = 100 \<rparr>"

definition demo_db2 :: db where
  "demo_db2 = demo_db\<lparr> subscribers := [demo_subscriber] \<rparr>"

lemma wf_demo_db2: "wf_db ext_demo demo_db2"
  using valid_demo_accounts
  by (simp add: demo_db2_def demo_subscriber_def demo_db_def demo_project_def empty_db_def wf_db_def
      wf_table_defs pids_def sids_def nids_def)

theorem delete_subscriber_spec_witness:
  "get_subscriber_by_topic ext_demo ''t'' (delete_subscriber 7 demo_db2) = Inl RowNotFound \<and>
   wf_db ext_demo (delete_subscriber 7 demo_db2)"
  using delete_subscriber_spec [OF wf_demo_db2, of demo_subscriber]
  by (simp add: demo_db2_def demo_subscriber_def)

lemma filter_update_where_le:
  "distinct (map k t) \<Longrightarrow>
   length (filter Q (update_where (\<lambda>w. k w = i) u t)) \<le> Suc (length (filter Q t))"
proof (induction t)
  case (Cons x t)
  show ?case
  proof (cases "k x = i")
    case True
    with Cons.prems have "update_where (\<lambda>w. k w = i) u t = t"
      by (intro update_where_False) (auto simp: image_iff)
    with True show ?thesis by (simp add: update_where_def)
  next
    case False
    with Cons show ?thesis by (simp add: update_where_def)
  qed
qed (simp add: update_where_def)

lemma upsert_watcher_row_count:
  assumes "upsert_watcher_row r d = Inr d'" "wf_db X d"
  shows "length (filter Q (watchers d')) \<le> Suc (length (filter Q (watchers d)))"
proof -
  have "distinct (map w_did_key (watchers d))" using wf_dbD(4) [OF assms(2)] by (simp add: wf_watchers_def)
  note le = filter_update_where_le [OF this]
  show ?thesis
    using assms(1) le by (auto simp: upsert_watcher_row_def rbind_Inr_iff split: if_splits)
qed

text \<open>
  C38. The watcher limit. By itself, the statement is refused for the limit exactly when it names an app
  for which the account has 25 watchers or more; a watcher of all apps is never refused, because
  \<open>project=NULL\<close> selects nothing. Beside other transactions, a statement that could not see \<open>k\<close> of
  the account's watchers for the app, when it succeeds, leaves at most \<open>25 + k\<close>: 25 by itself.
  (The test \<open>subscription_watcher_limit\<close> ends with a request for all apps that fails, but it carries
  the statement for one domain, so it fails for its authorization, see \<open>test_watcher_limit_last_request\<close>.)
\<close>

theorem watcher_limit:
  assumes "wf_db X d"
  shows "(upsert_subscription_watcher i now account project dk sk ex d = Inl WatcherLimitReached \<longleftrightarrow>
      (\<exists>p. project = Some p \<and> 25 \<le> length (filter (\<lambda>w. get_address_lower (w_account w) = get_address_lower account \<and>
         w_project w = Some p) (watchers d)))) \<and>
    (upsert_subscription_watcher_seeing seen i now account (Some p) dk sk ex d = Inr d' \<longrightarrow>
      watcher_count account (Some p) d \<le> watcher_count account (Some p) seen + k \<longrightarrow>
      watcher_count account (Some p) d' \<le> 25 + k)"
proof (intro conjI impI)
  have none: "watcher_count account None d = 0"
    by (auto simp: watcher_count_def sql_eq_def filter_empty_conv)
  have some: "watcher_count account (Some p) d = length (filter (\<lambda>w. get_address_lower (w_account w) = get_address_lower account \<and>
         w_project w = Some p) (watchers d))" for p
    by (simp add: watcher_count_def sql_eq_def) (metis option.distinct(1))
  have "upsert_subscription_watcher i now account project dk sk ex d = Inl WatcherLimitReached \<longleftrightarrow>
      25 \<le> watcher_count account project d"
    by (auto simp: upsert_subscription_watcher_def upsert_subscription_watcher_seeing_def rbind_Inl_iff map_err_Inl_iff
        SUBSCRIPTION_WATCHER_LIMIT_def guard_err_def)
  then show "upsert_subscription_watcher i now account project dk sk ex d = Inl WatcherLimitReached \<longleftrightarrow>
      (\<exists>p. project = Some p \<and> 25 \<le> length (filter (\<lambda>w. get_address_lower (w_account w) = get_address_lower account \<and>
         w_project w = Some p) (watchers d)))"
    by (cases project) (simp_all add: none some)
next
  assume "upsert_subscription_watcher_seeing seen i now account (Some p) dk sk ex d = Inr d'"
  then obtain r where lt: "watcher_count account (Some p) seen < 25"
    and up: "upsert_watcher_row r d = Inr d'"
    by (auto simp: upsert_subscription_watcher_seeing_def rbind_Inr_iff SUBSCRIPTION_WATCHER_LIMIT_def)
  assume "watcher_count account (Some p) d \<le> watcher_count account (Some p) seen + k"
  moreover have "watcher_count account (Some p) d' \<le> Suc (watcher_count account (Some p) d)"
    unfolding watcher_count_def by (rule upsert_watcher_row_count [OF up assms])
  ultimately show "watcher_count account (Some p) d' \<le> 25 + k" using lt by simp
qed

theorem watcher_limit_witness:
  "\<exists>d'. upsert_subscription_watcher 9 0 acct_a (Some 1) ''dk'' ''sk'' 100 demo_db = Inr d' \<and>
     watcher_count acct_a (Some 1) d' \<le> 25 \<and>
     upsert_subscription_watcher 9 0 acct_a None ''dk'' ''sk'' 100 demo_db \<noteq> Inl WatcherLimitReached"
proof -
  have "is_ok (upsert_subscription_watcher 9 0 acct_a (Some 1) ''dk'' ''sk'' 100 demo_db)"
    by (simp add: upsert_subscription_watcher_def upsert_subscription_watcher_seeing_def
        varchar255_valid_account [OF valid_demo_accounts(1)]
        varchar255_short watcher_count_def SUBSCRIPTION_WATCHER_LIMIT_def demo_db_def demo_project_def
        empty_db_def upsert_watcher_row_def unique_ok_def pids_def)
  then obtain d' where d': "upsert_subscription_watcher 9 0 acct_a (Some 1) ''dk'' ''sk'' 100 demo_db = Inr d'"
    by (auto simp: is_ok_iff)
  then show ?thesis
    using watcher_limit [OF wf_demo_db [of ext_demo], where seen = demo_db and p = 1 and k = 0 and d' = d'
        and i = 9 and now = 0 and account = acct_a and dk = "''dk''" and sk = "''sk''" and ex = 100 and project = None]
    by (auto simp: upsert_subscription_watcher_def)
qed

end
