(* ===== verification/Notification_Store.thy ===== *)
theory Notification_Store
  imports Model_Helpers "HOL-Library.Product_Lexorder"
begin

text \<open>
  Notifications and their delivery rows: \<open>src/src/services/publisher_service/helpers.rs\<close> and
  \<open>types.rs\<close>, and the second half of \<open>src/src/model/helpers.rs\<close> (pagination, welcome
  notifications, links, read marks).
\<close>

section \<open>Status\<close>

definition status_to_string :: "SubscriberNotificationStatus \<Rightarrow> string" where
  "status_to_string s = (case s of
      Queued \<Rightarrow> ''queued'' | Processing \<Rightarrow> ''processing'' | Published \<Rightarrow> ''published''
    | Failed \<Rightarrow> ''failed'' | NotSubscribed \<Rightarrow> ''not-subscribed'' | WrongScope \<Rightarrow> ''wrong-scope''
    | RateLimited \<Rightarrow> ''rate-limited'')"

definition status_from_str :: "string \<Rightarrow> (SubscriberNotificationStatus, string) result" where
  "status_from_str s =
     (if s = ''queued'' then Inr Queued
      else if s = ''processing'' then Inr Processing
      else if s = ''published'' then Inr Published
      else if s = ''failed'' then Inr Failed
      else if s = ''not-subscribed'' then Inr NotSubscribed
      else if s = ''wrong-scope'' then Inr WrongScope
      else if s = ''rate-limited'' then Inr RateLimited
      else Inl (CHR 0x27 # s @ CHR 0x27 # '' is not a valid state''))"

interpretation status: codec_exact "\<lambda>_. True" status_to_string status_from_str
  by unfold_locales
    (auto simp: status_to_string_def status_from_str_def split: SubscriberNotificationStatus.splits if_splits)

text \<open>The cast \<open>$1::subscriber_notification_status\<close> of the status' string.\<close>

definition cast_status :: "string \<Rightarrow> (SubscriberNotificationStatus, sqlx_error) result" where
  "cast_status s =
     (if s = ''queued'' then Inr Queued
      else if s = ''processing'' then Inr Processing
      else if s = ''published'' then Inr Published
      else if s = ''failed'' then Inr Failed
      else Inl InvalidTextRepresentation)"

section \<open>Inserting\<close>

record NotificationWithId =
  nwi_id :: uuid
  nwi_notification :: Notification

definition row_notification :: "notification_row \<Rightarrow> Notification" where
  "row_notification n = \<lparr> ntf_type = n_type n, ntf_title = n_title n, ntf_body = n_body n,
     ntf_icon = n_icon n, ntf_url = n_url n \<rparr>"

definition insert_notification_row :: "notification_row \<Rightarrow> db \<Rightarrow> (db, sqlx_error) result" where
  "insert_notification_row r d =
     rbind (guard_err (\<not> unique_ok n_id r (notifications d)) (UniqueViolation ''notification_pkey'')) (\<lambda>_.
     rbind (guard_err (n_project r \<notin> pids d) (ForeignKeyViolation ''notification_project_fkey'')) (\<lambda>_.
       Inr (d\<lparr> notifications := notifications d @ [r] \<rparr>)))"

text \<open>
  \<open>DO UPDATE SET notification_id=EXCLUDED.notification_id\<close> writes the value the row already has,
  so that \<open>RETURNING\<close> yields it.
\<close>

definition upsert_notification ::
  "uuid \<Rightarrow> datetime \<Rightarrow> string \<Rightarrow> uuid \<Rightarrow> Notification \<Rightarrow> db \<Rightarrow> (NotificationWithId \<times> db, sqlx_error) result" where
  "upsert_notification new_id now notification_id project notification d =
     rbind (varchar255 notification_id) (\<lambda>notification_id.
     rbind (varchar255 (ntf_title notification)) (\<lambda>title.
     rbind (varchar255 (ntf_body notification)) (\<lambda>body.
     rbind (varchar255_opt (ntf_icon notification)) (\<lambda>icon.
     rbind (varchar255_opt (ntf_url notification)) (\<lambda>url.
       case find (\<lambda>n. n_index n = (project, notification_id)) (notifications d) of
         Some n \<Rightarrow> Inr (\<lparr> nwi_id = n_id n, nwi_notification = row_notification n \<rparr>, d)
       | None \<Rightarrow>
           let r = \<lparr> n_id = new_id, n_created_at = now, n_project = project,
                     n_notification_id = notification_id, n_type = ntf_type notification,
                     n_title = title, n_body = body, n_icon = icon, n_url = url \<rparr> in
           map_ok (\<lambda>d'. (\<lparr> nwi_id = new_id, nwi_notification = row_notification r \<rparr>, d'))
             (insert_notification_row r d))))))"

text \<open>
  One row of \<open>upsert_subscriber_notifications\<close>: a conflict on the pair is skipped; the insert
  trigger sends the new row's id.
\<close>

definition insert_subscriber_notification_row ::
  "subscriber_notification_row \<Rightarrow> db \<Rightarrow> (db, sqlx_error) result" where
  "insert_subscriber_notification_row r d =
     (if \<not> unique_ok sn_index r (subscriber_notifications d) then Inr d
      else
        rbind (guard_err (\<not> unique_ok sn_id r (subscriber_notifications d))
                 (UniqueViolation ''subscriber_notification_pkey'')) (\<lambda>_.
        rbind (guard_err (sn_notification r \<notin> nids d)
                 (ForeignKeyViolation ''subscriber_notification_notification_fkey'')) (\<lambda>_.
        rbind (guard_err (sn_subscriber r \<notin> sids d)
                 (ForeignKeyViolation ''subscriber_notification_subscriber_fkey'')) (\<lambda>_.
          Inr (d\<lparr> subscriber_notifications := subscriber_notifications d @ [r],
                 delivery_channel := delivery_channel d @ [sn_id r] \<rparr>)))))"

fun insert_subscriber_notifications ::
  "(nat \<Rightarrow> uuid) \<Rightarrow> nat \<Rightarrow> datetime \<Rightarrow> uuid \<Rightarrow> SubscriberNotificationStatus \<Rightarrow> uuid list \<Rightarrow> db
     \<Rightarrow> (db, sqlx_error) result" where
  "insert_subscriber_notifications gen k now notification st [] d = Inr d"
| "insert_subscriber_notifications gen k now notification st (s # ss) d =
     rbind (insert_subscriber_notification_row
              \<lparr> sn_id = gen k, sn_created_at = now, sn_updated_at = now, sn_notification = notification,
                sn_subscriber = s, sn_status = st, sn_is_read = False \<rparr> d) (\<lambda>d'.
       insert_subscriber_notifications gen (Suc k) now notification st ss d')"

definition upsert_subscriber_notifications ::
  "(nat \<Rightarrow> uuid) \<Rightarrow> datetime \<Rightarrow> uuid \<Rightarrow> uuid list \<Rightarrow> db \<Rightarrow> (db, sqlx_error) result" where
  "upsert_subscriber_notifications gen now notification subscriber_ids d =
     rbind (cast_status (status_to_string Queued)) (\<lambda>st.
       insert_subscriber_notifications gen 0 now notification st subscriber_ids d)"

section \<open>Processing\<close>

record NotificationToProcess =
  np_notification :: uuid
  np_notification_created_at :: datetime
  np_notification_type :: uuid
  np_notification_title :: string
  np_notification_body :: string
  np_notification_icon :: "string option"
  np_notification_url :: "string option"
  np_subscriber :: uuid
  np_subscriber_account :: AccountId
  np_subscriber_sym_key :: string
  np_subscriber_topic :: topic
  np_subscriber_notification :: uuid
  np_subscriber_notification_is_read :: bool
  np_project :: uuid
  np_project_project_id :: string
  np_project_app_domain :: string
  np_project_authentication_public_key :: string
  np_project_authentication_private_key :: string

definition joined_rows ::
  "uuid \<Rightarrow> db \<Rightarrow> (subscriber_notification_row \<times> notification_row \<times> subscriber_row \<times> project_row) list" where
  "joined_rows i d =
     [(r, n, s, p). r \<leftarrow> filter (\<lambda>r. sn_id r = i) (subscriber_notifications d),
        n \<leftarrow> filter (\<lambda>n. n_id n = sn_notification r) (notifications d),
        s \<leftarrow> filter (\<lambda>s. s_id s = sn_subscriber r) (subscribers d),
        p \<leftarrow> filter (\<lambda>p. p_id p = n_project n) (projects d)]"

definition to_process ::
  "AccountId \<Rightarrow> subscriber_notification_row \<times> notification_row \<times> subscriber_row \<times> project_row
     \<Rightarrow> NotificationToProcess" where
  "to_process acc x = (case x of (r, n, s, p) \<Rightarrow>
     \<lparr> np_notification = n_id n, np_notification_created_at = n_created_at n,
       np_notification_type = n_type n, np_notification_title = n_title n,
       np_notification_body = n_body n, np_notification_icon = n_icon n, np_notification_url = n_url n,
       np_subscriber = s_id s, np_subscriber_account = acc, np_subscriber_sym_key = s_sym_key s,
       np_subscriber_topic = s_topic s, np_subscriber_notification = sn_id r,
       np_subscriber_notification_is_read = sn_is_read r, np_project = p_id p,
       np_project_project_id = p_project_id p, np_project_app_domain = p_app_domain p,
       np_project_authentication_public_key = p_authentication_public_key p,
       np_project_authentication_private_key = p_authentication_private_key p \<rparr>)"

text \<open>
  \<open>LIMIT 1 FOR UPDATE SKIP LOCKED\<close> takes some queued row; \<open>pick\<close>, an argument, says which of the
  candidates. The first result is the database after the first statement, whose update commits
  even when the second statement, the \<open>SELECT\<close>, fails or finds nothing.
\<close>

definition pick_queued :: "('r list \<Rightarrow> 'r) \<Rightarrow> 'r list \<Rightarrow> 'r option" where
  "pick_queued pick rs = (if rs = [] then None else Some (pick rs))"

definition picker :: "('r list \<Rightarrow> 'r) \<Rightarrow> bool" where
  "picker pick \<longleftrightarrow> (\<forall>rs. rs \<noteq> [] \<longrightarrow> pick rs \<in> set rs)"

definition set_status ::
  "datetime \<Rightarrow> SubscriberNotificationStatus \<Rightarrow> subscriber_notification_row \<Rightarrow> subscriber_notification_row" where
  "set_status now st r = r\<lparr> sn_updated_at := now, sn_status := st \<rparr>"

definition pick_subscriber_notification_for_processing ::
  "ext \<Rightarrow> (subscriber_notification_row list \<Rightarrow> subscriber_notification_row) \<Rightarrow> datetime \<Rightarrow> db
     \<Rightarrow> (NotificationToProcess option, sqlx_error) result \<times> db" where
  "pick_subscriber_notification_for_processing X pick now d =
     (case pick_queued pick (filter (\<lambda>r. sn_status r = Queued) (subscriber_notifications d)) of
        None \<Rightarrow> (Inr None, d)
      | Some picked \<Rightarrow>
          let d' = d\<lparr> subscriber_notifications :=
                update_where (\<lambda>r. sn_id r = sn_id picked) (set_status now Processing)
                  (subscriber_notifications d) \<rparr> in
          ((case fetch_optional (joined_rows (sn_id picked) d') of
              None \<Rightarrow> Inr None
            | Some (r, n, s, p) \<Rightarrow>
                map_ok (\<lambda>acc. Some (to_process acc (r, n, s, p))) (decode_account X (s_account s))),
           d'))"

text \<open>The update trigger fires when a row that was not queued becomes queued.\<close>

definition requeued ::
  "(subscriber_notification_row \<Rightarrow> bool) \<Rightarrow> SubscriberNotificationStatus \<Rightarrow> db \<Rightarrow> uuid list" where
  "requeued P st d =
     (if st = Queued
      then map sn_id (filter (\<lambda>r. P r \<and> sn_status r \<noteq> Queued) (subscriber_notifications d)) else [])"

definition update_message_processing_status ::
  "datetime \<Rightarrow> uuid \<Rightarrow> SubscriberNotificationStatus \<Rightarrow> db \<Rightarrow> (db, sqlx_error) result" where
  "update_message_processing_status now notification status d =
     map_ok (\<lambda>st. d\<lparr> subscriber_notifications :=
           update_where (\<lambda>r. sn_id r = notification) (set_status now st) (subscriber_notifications d),
         delivery_channel := delivery_channel d @ requeued (\<lambda>r. sn_id r = notification) st d \<rparr>)
       (cast_status (status_to_string status))"

record PublishingQueueStats =
  qs_queued :: nat
  qs_processing :: nat

definition get_publishing_queue_stats :: "db \<Rightarrow> PublishingQueueStats" where
  "get_publishing_queue_stats d =
     \<lparr> qs_queued = length (filter (\<lambda>r. sn_status r = Queued) (subscriber_notifications d)),
       qs_processing = length (filter (\<lambda>r. sn_status r = Processing) (subscriber_notifications d)) \<rparr>"

text \<open>\<open>dead_letters_check\<close> leaves \<open>updated_at\<close> alone.\<close>

definition dead_letter :: "datetime \<Rightarrow> duration \<Rightarrow> subscriber_notification_row \<Rightarrow> bool" where
  "dead_letter now threshold r \<longleftrightarrow> sn_status r = Processing \<and> sn_updated_at r < now - threshold"

definition dead_letters_check :: "datetime \<Rightarrow> duration \<Rightarrow> db \<Rightarrow> db" where
  "dead_letters_check now threshold d =
     d\<lparr> subscriber_notifications :=
          update_where (dead_letter now threshold) (\<lambda>r. r\<lparr> sn_status := Queued \<rparr>) (subscriber_notifications d),
        delivery_channel := delivery_channel d @ requeued (dead_letter now threshold) Queued d \<rparr>"

definition dead_letter_give_up_check :: "datetime \<Rightarrow> datetime \<Rightarrow> duration \<Rightarrow> bool" where
  "dead_letter_give_up_check now notification_created_at threshold \<longleftrightarrow>
     notification_created_at + threshold < now"

section \<open>Pagination\<close>

record GetNotification =
  gn_notification_id :: uuid
  gn_id :: uuid
  gn_sent_at :: int
  gn_type :: uuid
  gn_title :: string
  gn_body :: string
  gn_icon :: "string option"
  gn_url :: "string option"
  gn_is_read :: bool

record GetNotificationsResult =
  gr_notifications :: "GetNotification list"
  gr_has_more :: bool
  gr_has_more_unread :: bool

record GetNotificationsParams =
  gp_limit :: nat
  gp_after :: "uuid option"
  gp_unread_first :: bool

definition GetNotificationsParams_validate :: "GetNotificationsParams \<Rightarrow> bool" where
  "GetNotificationsParams_validate p \<longleftrightarrow> 1 \<le> gp_limit p \<and> gp_limit p \<le> 50"

text \<open>\<open>CAST(EXTRACT(EPOCH FROM created_at) * 1000 AS int8)\<close>: milliseconds, rounded half away from zero.\<close>

definition sent_at_millis :: "datetime \<Rightarrow> int" where
  "sent_at_millis t = (if 0 \<le> t then (t + 500) div 1000 else - ((500 - t) div 1000))"

text \<open>
  The key both the \<open>ORDER BY\<close> and the row comparison of the cursor use: read flag (only with
  \<open>unread_first\<close>), age (\<open>NOW() - created_at\<close>, so newest first), id.
\<close>

definition order_key :: "bool \<Rightarrow> datetime \<Rightarrow> subscriber_notification_row \<Rightarrow> bool \<times> int \<times> uuid" where
  "order_key unread_first now r = (unread_first \<and> sn_is_read r, now - sn_created_at r, sn_id r)"

text \<open>
  The cursor's read flag and creation time are scalar subqueries over the whole table; they are
  \<open>NULL\<close>, and so is the comparison, when no row has that id.
\<close>

definition after_clause ::
  "bool \<Rightarrow> datetime \<Rightarrow> uuid option \<Rightarrow> db \<Rightarrow> subscriber_notification_row \<Rightarrow> bool" where
  "after_clause unread_first now after d r =
     (case after of
        None \<Rightarrow> True
      | Some i \<Rightarrow>
          (case find (\<lambda>c. sn_id c = i) (subscriber_notifications d) of
             None \<Rightarrow> False
           | Some c \<Rightarrow> order_key unread_first now c < order_key unread_first now r))"

definition notification_view :: "subscriber_notification_row \<times> notification_row \<Rightarrow> GetNotification" where
  "notification_view x = (case x of (r, n) \<Rightarrow>
     \<lparr> gn_notification_id = n_id n, gn_id = sn_id r, gn_sent_at = sent_at_millis (sn_created_at r),
       gn_type = n_type n, gn_title = n_title n, gn_body = n_body n, gn_icon = n_icon n,
       gn_url = n_url n, gn_is_read = sn_is_read r \<rparr>)"

definition subscriber_rows :: "uuid \<Rightarrow> db \<Rightarrow> (subscriber_notification_row \<times> notification_row) list" where
  "subscriber_rows s d =
     [(r, n). r \<leftarrow> filter (\<lambda>r. sn_subscriber r = s) (subscriber_notifications d),
              n \<leftarrow> filter (\<lambda>n. n_id n = sn_notification r) (notifications d)]"

definition get_notifications_for_subscriber ::
  "datetime \<Rightarrow> uuid \<Rightarrow> GetNotificationsParams \<Rightarrow> db \<Rightarrow> GetNotificationsResult" where
  "get_notifications_for_subscriber now subscriber params d =
     (let limit = gp_limit params; unread_first = gp_unread_first params;
          fetched = take (limit + 1)
            (sort_key (\<lambda>x. order_key unread_first now (fst x))
              (filter (\<lambda>x. after_clause unread_first now (gp_after params) d (fst x))
                (subscriber_rows subscriber d)));
          has_more = length fetched > limit;
          page = map notification_view (take limit fetched);
          has_more_unread =
            (if page = [] then False
             else filter (\<lambda>r. sn_subscriber r = subscriber \<and> \<not> sn_is_read r \<and>
                              after_clause unread_first now (Some (gn_id (last page))) d r)
                    (subscriber_notifications d) \<noteq> [])
      in \<lparr> gr_notifications = page, gr_has_more = has_more, gr_has_more_unread = has_more_unread \<rparr>)"

section \<open>Welcome notifications and links\<close>

record WelcomeNotification =
  wel_enabled :: bool
  wel_type :: uuid
  wel_title :: string
  wel_body :: string
  wel_url :: "string option"

definition get_welcome_notification :: "uuid \<Rightarrow> db \<Rightarrow> WelcomeNotification option" where
  "get_welcome_notification project d =
     map_option (\<lambda>w. \<lparr> wel_enabled = wn_enabled w, wel_type = wn_type w, wel_title = wn_title w,
         wel_body = wn_body w, wel_url = wn_url w \<rparr>)
       (fetch_optional (filter (\<lambda>w. wn_project w = project) (welcome_notifications d)))"

definition upsert_welcome_row :: "welcome_row \<Rightarrow> db \<Rightarrow> (db, sqlx_error) result" where
  "upsert_welcome_row r d =
     (if \<not> unique_ok wn_project r (welcome_notifications d)
      then Inr (d\<lparr> welcome_notifications := update_where (\<lambda>w. wn_project w = wn_project r)
             (\<lambda>w. w\<lparr> wn_enabled := wn_enabled r, wn_type := wn_type r, wn_title := wn_title r,
                    wn_body := wn_body r, wn_url := wn_url r \<rparr>) (welcome_notifications d) \<rparr>)
      else
        rbind (guard_err (\<not> unique_ok wn_id r (welcome_notifications d))
                 (UniqueViolation ''welcome_notification_pkey'')) (\<lambda>_.
        rbind (guard_err (wn_project r \<notin> pids d)
                 (ForeignKeyViolation ''welcome_notification_project_fkey'')) (\<lambda>_.
          Inr (d\<lparr> welcome_notifications := welcome_notifications d @ [r] \<rparr>))))"

definition set_welcome_notification ::
  "uuid \<Rightarrow> uuid \<Rightarrow> WelcomeNotification \<Rightarrow> db \<Rightarrow> (db, sqlx_error) result" where
  "set_welcome_notification new_id project wn d =
     rbind (varchar255 (wel_title wn)) (\<lambda>title.
     rbind (varchar255 (wel_body wn)) (\<lambda>body.
     rbind (varchar255_opt (wel_url wn)) (\<lambda>url.
       upsert_welcome_row \<lparr> wn_id = new_id, wn_project = project, wn_enabled = wel_enabled wn,
         wn_type = wel_type wn, wn_title = title, wn_body = body, wn_url = url \<rparr> d)))"

record FollowNotificationLink =
  fl_project_pk :: uuid
  fl_project_id :: string
  fl_subscriber_pk :: uuid
  fl_subscriber_account :: AccountId
  fl_notification_topic :: topic
  fl_subscriber_notification_id :: uuid
  fl_notification_id :: uuid
  fl_notification_type :: uuid
  fl_notification_url :: "string option"

definition get_notification_link ::
  "ext \<Rightarrow> uuid \<Rightarrow> db \<Rightarrow> (FollowNotificationLink option, sqlx_error) result" where
  "get_notification_link X i d =
     (case fetch_optional [(r, s, p, n). r \<leftarrow> filter (\<lambda>r. sn_id r = i) (subscriber_notifications d),
             s \<leftarrow> filter (\<lambda>s. s_id s = sn_subscriber r) (subscribers d),
             p \<leftarrow> filter (\<lambda>p. p_id p = s_project s) (projects d),
             n \<leftarrow> filter (\<lambda>n. n_id n = sn_notification r) (notifications d)] of
        None \<Rightarrow> Inr None
      | Some (r, s, p, n) \<Rightarrow>
          map_ok (\<lambda>acc. Some \<lparr> fl_project_pk = p_id p, fl_project_id = p_project_id p,
              fl_subscriber_pk = s_id s, fl_subscriber_account = acc, fl_notification_topic = s_topic s,
              fl_subscriber_notification_id = sn_id r, fl_notification_id = n_id n,
              fl_notification_type = n_type n, fl_notification_url = n_url n \<rparr>)
            (decode_account X (s_account s)))"

section \<open>Read marks\<close>

record MarkNotificationsAsReadParams =
  mr_all :: bool
  mr_ids :: "uuid list option"

definition custom_mark_notifications_as_read_params_validator :: "uuid list option \<Rightarrow> bool \<Rightarrow> bool" where
  "custom_mark_notifications_as_read_params_validator ids all =
     (if all then ids = None else ids \<noteq> None)"

text \<open>
  The derived validator: \<open>length\<close> and \<open>custom\<close> on the field \<open>ids\<close>. For an \<open>Option\<close> field the length
  check applies to a present value; the custom function is given the option itself.
\<close>

definition MarkNotificationsAsReadParams_validate :: "MarkNotificationsAsReadParams \<Rightarrow> bool" where
  "MarkNotificationsAsReadParams_validate p \<longleftrightarrow>
     pred_option (\<lambda>ids. 1 \<le> length ids \<and> length ids \<le> 1000) (mr_ids p) \<and>
     custom_mark_notifications_as_read_params_validator (mr_ids p) (mr_all p)"

definition mark_selected :: "uuid \<Rightarrow> uuid list option \<Rightarrow> subscriber_notification_row \<Rightarrow> bool" where
  "mark_selected subscriber ids r \<longleftrightarrow>
     sn_subscriber r = subscriber \<and> \<not> sn_is_read r \<and>
     (case ids of None \<Rightarrow> True | Some is \<Rightarrow> sn_id r \<in> set is)"

text \<open>The result is the list of (notification, subscriber notification) ids of the rows changed.\<close>

definition mark_notifications_as_read ::
  "uuid \<Rightarrow> uuid list option \<Rightarrow> db \<Rightarrow> (uuid \<times> uuid) list \<times> db" where
  "mark_notifications_as_read subscriber ids d =
     (map (\<lambda>r. (sn_notification r, sn_id r))
        (filter (mark_selected subscriber ids) (subscriber_notifications d)),
      d\<lparr> subscriber_notifications :=
           update_where (mark_selected subscriber ids) (\<lambda>r. r\<lparr> sn_is_read := True \<rparr>)
             (subscriber_notifications d) \<rparr>)"

text \<open>
  The subquery selects subscriber ids and is compared with the id of the notification row. The
  statement has no \<open>RETURNING\<close>, so \<open>fetch_all\<close> yields no rows.
\<close>

definition mark_all_notifications_as_read_for_project :: "uuid \<Rightarrow> db \<Rightarrow> (uuid \<times> uuid) list \<times> db" where
  "mark_all_notifications_as_read_for_project project d =
     (let ids = [s_id s. s \<leftarrow> subscribers d, p \<leftarrow> projects d, p_id p = s_project s \<and> p_id p = project] in
      ([], d\<lparr> subscriber_notifications :=
             update_where (\<lambda>r. sn_id r \<in> set ids) (\<lambda>r. r\<lparr> sn_is_read := True \<rparr>)
               (subscriber_notifications d) \<rparr>))"

section \<open>Every statement keeps the constraints\<close>

lemma wf_db_notifications:
  assumes "wf_db X d" "wf_notifications (pids d) ns" "nids d \<subseteq> n_id ` set ns"
  shows "wf_db X (d\<lparr> notifications := ns \<rparr>)"
  using assms wf_mono(5) [OF assms(3)] by (auto simp: wf_db_def pids_def sids_def nids_def)

lemma wf_db_subscriber_notifications:
  "wf_db X d \<Longrightarrow> wf_subscriber_notifications (nids d) (sids d) rs \<Longrightarrow>
   wf_db X (d\<lparr> subscriber_notifications := rs, delivery_channel := c \<rparr>)"
  by (simp add: wf_db_def pids_def sids_def nids_def)

lemma wf_db_delivery_channel: "wf_db X (d\<lparr> delivery_channel := c \<rparr>) = wf_db X d"
  by (simp add: wf_db_def pids_def sids_def nids_def)

lemma wf_db_welcome: "wf_db X d \<Longrightarrow> wf_welcome (pids d) ws \<Longrightarrow> wf_db X (d\<lparr> welcome_notifications := ws \<rparr>)"
  by (simp add: wf_db_def pids_def sids_def nids_def)

text \<open>Updates of delivery rows that keep id, notification and subscriber.\<close>

lemma wf_db_sn_update:
  assumes "wf_db X d"
    and "\<And>r. sn_id (u r) = sn_id r" "\<And>r. sn_notification (u r) = sn_notification r"
      "\<And>r. sn_subscriber (u r) = sn_subscriber r" "\<And>r. pg_status (sn_status r) \<Longrightarrow> pg_status (sn_status (u r))"
  shows "wf_db X (d\<lparr> subscriber_notifications := update_where P u (subscriber_notifications d),
    delivery_channel := c \<rparr>)"
proof (rule wf_db_subscriber_notifications [OF assms(1)])
  let ?t = "subscriber_notifications d"
  have "map sn_id (update_where P u ?t) = map sn_id ?t" "map sn_index (update_where P u ?t) = map sn_index ?t"
    "sn_notification ` set (update_where P u ?t) = sn_notification ` set ?t"
    "sn_subscriber ` set (update_where P u ?t) = sn_subscriber ` set ?t"
    using assms(2-4) by (auto intro!: update_where_key update_where_key_set simp: sn_index_def)
  moreover have "list_all (pg_status \<circ> sn_status) (update_where P u ?t)"
    using wf_dbD(6) [OF assms(1)] assms(5)
    by (auto simp: wf_subscriber_notifications_def list_all_iff set_update_where)
  ultimately show "wf_subscriber_notifications (nids d) (sids d) (update_where P u ?t)"
    using wf_dbD(6) [OF assms(1)] by (simp add: wf_subscriber_notifications_def)
qed

lemma wf_db_sn_update' :
  assumes "wf_db X d"
    and "\<And>r. sn_id (u r) = sn_id r" "\<And>r. sn_notification (u r) = sn_notification r"
      "\<And>r. sn_subscriber (u r) = sn_subscriber r" "\<And>r. pg_status (sn_status r) \<Longrightarrow> pg_status (sn_status (u r))"
  shows "wf_db X (d\<lparr> subscriber_notifications := update_where P u (subscriber_notifications d) \<rparr>)"
  using wf_db_sn_update [OF assms, where P = P and c = "delivery_channel d"] by simp

lemma insert_notification_row_wf:
  assumes "insert_notification_row r d = Inr d'" "wf_db X d" "unique_ok n_index r (notifications d)"
  shows "wf_db X d'"
proof -
  have "wf_notifications (pids d) (notifications d @ [r])" and "d' = d\<lparr> notifications := notifications d @ [r] \<rparr>"
    using assms(1,3) wf_dbD(5) [OF assms(2)]
    by (simp_all add: insert_notification_row_def rbind_Inr_iff wf_notifications_def unique_ok_def)
  then show ?thesis
    using wf_db_notifications [OF assms(2), of "notifications d @ [r]"] by (auto simp: nids_def)
qed

lemma upsert_notification_cases:
  assumes "upsert_notification i now nid p n d = Inr (k, d')"
  obtains (old) m nid' where "varchar255 nid = Inr nid'" "m \<in> set (notifications d)" "n_index m = (p, nid')"
      "k = \<lparr> nwi_id = n_id m, nwi_notification = row_notification m \<rparr>" "d' = d"
  | (new) r where "varchar255 nid = Inr (n_notification_id r)" "n_id r = i" "n_project r = p"
      "n_type r = ntf_type n" "varchar255 (ntf_title n) = Inr (n_title r)" "varchar255 (ntf_body n) = Inr (n_body r)"
      "varchar255_opt (ntf_icon n) = Inr (n_icon r)" "varchar255_opt (ntf_url n) = Inr (n_url r)"
      "unique_ok n_index r (notifications d)" "insert_notification_row r d = Inr d'"
      "k = \<lparr> nwi_id = i, nwi_notification = row_notification r \<rparr>"
proof -
  from assms obtain nid' title body icon url where v: "varchar255 nid = Inr nid'"
    "varchar255 (ntf_title n) = Inr title" "varchar255 (ntf_body n) = Inr body"
    "varchar255_opt (ntf_icon n) = Inr icon" "varchar255_opt (ntf_url n) = Inr url"
    by (auto simp: upsert_notification_def rbind_Inr_iff)
  show thesis
  proof (cases "find (\<lambda>n. n_index n = (p, nid')) (notifications d)")
    case None
    let ?r = "\<lparr> n_id = i, n_created_at = now, n_project = p, n_notification_id = nid', n_type = ntf_type n,
      n_title = title, n_body = body, n_icon = icon, n_url = url \<rparr>"
    have "unique_ok n_index ?r (notifications d)"
      using None by (auto simp: find_None_iff unique_ok_def n_index_def)
    then show thesis
      using new [of ?r] assms v None by (auto simp: upsert_notification_def map_ok_Inr_iff Let_def)
  next
    case (Some m)
    then show thesis
      using old [of nid' m] assms v find_Some_set [OF Some] by (auto simp: upsert_notification_def)
  qed
qed

lemma upsert_notification_wf [wf_intros]:
  "upsert_notification i now nid p n d = Inr (k, d') \<Longrightarrow> wf_db X d \<Longrightarrow> wf_db X d'"
  by (erule upsert_notification_cases) (auto intro: insert_notification_row_wf)

lemma insert_subscriber_notification_row_wf:
  assumes "insert_subscriber_notification_row r d = Inr d'" "wf_db X d" "pg_status (sn_status r)"
  shows "wf_db X d'"
proof (cases "unique_ok sn_index r (subscriber_notifications d)")
  case True
  with assms have "wf_subscriber_notifications (nids d) (sids d) (subscriber_notifications d @ [r])"
    and "d' = d\<lparr> subscriber_notifications := subscriber_notifications d @ [r],
                 delivery_channel := delivery_channel d @ [sn_id r] \<rparr>"
    using wf_dbD(6) [OF assms(2)]
    by (simp_all add: insert_subscriber_notification_row_def rbind_Inr_iff
        wf_subscriber_notifications_def unique_ok_def)
  then show ?thesis using wf_db_subscriber_notifications [OF assms(2)] by simp
qed (use assms in \<open>simp add: insert_subscriber_notification_row_def\<close>)

lemma insert_subscriber_notifications_wf:
  "insert_subscriber_notifications gen k now n st ss d = Inr d' \<Longrightarrow> wf_db X d \<Longrightarrow> pg_status st \<Longrightarrow> wf_db X d'"
  by (induction ss arbitrary: k d)
    (auto simp: rbind_Inr_iff dest: insert_subscriber_notification_row_wf)

lemma cast_status_iff: "cast_status (status_to_string s) = Inr t \<longleftrightarrow> pg_status s \<and> t = s"
  by (cases s) (auto simp: cast_status_def status_to_string_def pg_status_def)

lemma upsert_subscriber_notifications_wf [wf_intros]:
  "upsert_subscriber_notifications gen now n ss d = Inr d' \<Longrightarrow> wf_db X d \<Longrightarrow> wf_db X d'"
  by (auto simp: upsert_subscriber_notifications_def rbind_Inr_iff cast_status_iff
      dest: insert_subscriber_notifications_wf)

lemma pick_wf [wf_intros]:
  "wf_db X d \<Longrightarrow> wf_db X (snd (pick_subscriber_notification_for_processing X' pick now d))"
  by (auto simp: pick_subscriber_notification_for_processing_def Let_def set_status_def pg_status_def
      split: option.splits intro!: wf_db_sn_update')

lemma update_message_processing_status_wf [wf_intros]:
  "update_message_processing_status now n st d = Inr d' \<Longrightarrow> wf_db X d \<Longrightarrow> wf_db X d'"
  by (auto simp: update_message_processing_status_def map_ok_Inr_iff cast_status_iff set_status_def
      intro!: wf_db_sn_update)

lemma dead_letters_check_wf [wf_intros]: "wf_db X d \<Longrightarrow> wf_db X (dead_letters_check now th d)"
  by (auto simp: dead_letters_check_def pg_status_def intro!: wf_db_sn_update)

lemma mark_notifications_as_read_wf [wf_intros]:
  "wf_db X d \<Longrightarrow> wf_db X (snd (mark_notifications_as_read s ids d))"
  by (auto simp: mark_notifications_as_read_def intro!: wf_db_sn_update')

lemma mark_all_wf [wf_intros]:
  "wf_db X d \<Longrightarrow> wf_db X (snd (mark_all_notifications_as_read_for_project p d))"
  by (auto simp: mark_all_notifications_as_read_for_project_def Let_def intro!: wf_db_sn_update')

lemma upsert_welcome_row_wf:
  assumes "upsert_welcome_row r d = Inr d'" "wf_db X d"
  shows "wf_db X d'"
proof (cases "unique_ok wn_project r (welcome_notifications d)")
  case True
  with assms have "wf_welcome (pids d) (welcome_notifications d @ [r])"
    and "d' = d\<lparr> welcome_notifications := welcome_notifications d @ [r] \<rparr>"
    using wf_dbD(7) [OF assms(2)]
    by (simp_all add: upsert_welcome_row_def rbind_Inr_iff wf_welcome_def unique_ok_def)
  then show ?thesis using wf_db_welcome [OF assms(2)] by simp
next
  case False
  with assms(1) show ?thesis
    using wf_dbD(7) [OF assms(2)]
    by (auto simp: upsert_welcome_row_def wf_welcome_def update_where_key update_where_key_set
        intro!: wf_db_welcome [OF assms(2)])
qed

lemma set_welcome_notification_wf [wf_intros]:
  "set_welcome_notification i p wn d = Inr d' \<Longrightarrow> wf_db X d \<Longrightarrow> wf_db X d'"
  by (auto simp: set_welcome_notification_def rbind_Inr_iff dest: upsert_welcome_row_wf)

section \<open>Functional behaviour\<close>

text \<open>
  \<open>upsert_notification\<close> is idempotent: repeating it with the same project and notification id,
  whatever the content and whatever happened to other tables, returns the id and the content
  stored by the first call and changes nothing.
\<close>

theorem upsert_notification_idempotent:
  assumes "wf_db X d" "upsert_notification i now nid p n d = Inr (k, d1)"
    and "notifications d2 = notifications d1"
    and "upsert_notification j later nid p m d2 = Inr (k', d3)"
  shows "k' = k \<and> d3 = d2"
proof -
  have dist: "distinct (map n_index (notifications d2))"
    using upsert_notification_wf [OF assms(2,1)] assms(3) wf_dbD(5) by (metis wf_notifications_def)
  obtain r nid' where r: "r \<in> set (notifications d2)" "n_index r = (p, nid')" "varchar255 nid = Inr nid'"
    "k = \<lparr> nwi_id = n_id r, nwi_notification = row_notification r \<rparr>"
    using assms(2)
  proof (cases rule: upsert_notification_cases)
    case (old r nid')
    then show ?thesis using that assms(3) by auto
  next
    case (new r)
    then have "r \<in> set (notifications d1)" by (auto simp: insert_notification_row_def rbind_Inr_iff)
    then show ?thesis using that [of r "n_notification_id r"] new assms(3) by (simp add: n_index_def)
  qed
  from assms(4) show ?thesis
  proof (cases rule: upsert_notification_cases)
    case (old q nid2)
    then have "q = r" using r distinct_map_inj [OF dist, of q r] by simp
    then show ?thesis using old r by simp
  next
    case (new q)
    then have "n_index q = n_index r" using r by (simp add: n_index_def)
    then show ?thesis using new r(1) by (auto simp: unique_ok_def)
  qed
qed

definition demo_notification :: Notification where
  "demo_notification = \<lparr> ntf_type = 3, ntf_title = ''title'', ntf_body = ''body'', ntf_icon = None, ntf_url = None \<rparr>"

lemma upsert_notification_demo:
  "upsert_notification 21 5 ''nid'' 1 demo_notification demo_db2 =
     (let r = \<lparr> n_id = 21, n_created_at = 5, n_project = 1, n_notification_id = ''nid'', n_type = 3,
                n_title = ''title'', n_body = ''body'', n_icon = None, n_url = None \<rparr> in
      Inr (\<lparr> nwi_id = 21, nwi_notification = row_notification r \<rparr>, demo_db2\<lparr> notifications := [r] \<rparr>))"
  by (simp add: upsert_notification_def demo_notification_def varchar255_short varchar255_opt_def Let_def
      insert_notification_row_def demo_db2_def demo_db_def demo_project_def empty_db_def unique_ok_def pids_def)

theorem upsert_notification_idempotent_witness:
  "\<exists>k d1 k' d3. upsert_notification 21 5 ''nid'' 1 demo_notification demo_db2 = Inr (k, d1) \<and>
     upsert_notification 22 9 ''nid'' 1 (demo_notification\<lparr> ntf_title := ''other'' \<rparr>) d1 = Inr (k', d3) \<and>
     k' = k \<and> d3 = d1"
proof -
  obtain k d1 where a: "upsert_notification 21 5 ''nid'' 1 demo_notification demo_db2 = Inr (k, d1)"
    and d1: "notifications d1 = [\<lparr> n_id = 21, n_created_at = 5, n_project = 1, n_notification_id = ''nid'',
        n_type = 3, n_title = ''title'', n_body = ''body'', n_icon = None, n_url = None \<rparr>]"
    by (simp add: upsert_notification_demo Let_def)
  obtain k' d3 where b:
    "upsert_notification 22 9 ''nid'' 1 (demo_notification\<lparr> ntf_title := ''other'' \<rparr>) d1 = Inr (k', d3)"
    by (simp add: upsert_notification_def demo_notification_def varchar255_short varchar255_opt_def d1 n_index_def)
  show ?thesis using upsert_notification_idempotent [OF wf_demo_db2 a _ b] a b by blast
qed

text \<open>
  What \<open>insert_subscriber_notifications\<close> appends: one queued, unread row for each listed
  subscriber that had none, announced on the delivery channel.
\<close>

lemma insert_subscriber_notifications_spec:
  assumes "insert_subscriber_notifications gen k now n st ss d = Inr d'"
  shows "\<exists>rs. subscriber_notifications d' = subscriber_notifications d @ rs \<and>
    delivery_channel d' = delivery_channel d @ map sn_id rs \<and>
    d' = d\<lparr> subscriber_notifications := subscriber_notifications d', delivery_channel := delivery_channel d' \<rparr> \<and>
    (\<forall>r \<in> set rs. sn_notification r = n \<and> sn_status r = st \<and> \<not> sn_is_read r \<and> sn_subscriber r \<in> set ss \<and>
       (n, sn_subscriber r) \<notin> sn_index ` set (subscriber_notifications d)) \<and>
    (\<forall>s \<in> set ss. (n, s) \<in> sn_index ` set (subscriber_notifications d'))"
  using assms
proof (induction ss arbitrary: k d)
  case (Cons s ss)
  let ?r = "\<lparr> sn_id = gen k, sn_created_at = now, sn_updated_at = now, sn_notification = n,
    sn_subscriber = s, sn_status = st, sn_is_read = False \<rparr>"
  from Cons.prems obtain d1 where ins: "insert_subscriber_notification_row ?r d = Inr d1"
    and rest: "insert_subscriber_notifications gen (Suc k) now n st ss d1 = Inr d'"
    by (auto simp: rbind_Inr_iff)
  from Cons.IH [OF rest] obtain rs where IH:
    "subscriber_notifications d' = subscriber_notifications d1 @ rs"
    "delivery_channel d' = delivery_channel d1 @ map sn_id rs"
    "d' = d1\<lparr> subscriber_notifications := subscriber_notifications d', delivery_channel := delivery_channel d' \<rparr>"
    "\<forall>r \<in> set rs. sn_notification r = n \<and> sn_status r = st \<and> \<not> sn_is_read r \<and> sn_subscriber r \<in> set ss \<and>
       (n, sn_subscriber r) \<notin> sn_index ` set (subscriber_notifications d1)"
    "\<forall>s \<in> set ss. (n, s) \<in> sn_index ` set (subscriber_notifications d')"
    by blast
  show ?case
  proof (cases "unique_ok sn_index ?r (subscriber_notifications d)")
    case True
    then have d1: "d1 = d\<lparr> subscriber_notifications := subscriber_notifications d @ [?r],
        delivery_channel := delivery_channel d @ [gen k] \<rparr>"
      using ins by (simp add: insert_subscriber_notification_row_def rbind_Inr_iff)
    have r: "sn_index ?r = (n, s)" by (simp add: sn_index_def)
    have "d' = d\<lparr> subscriber_notifications := subscriber_notifications d', delivery_channel := delivery_channel d' \<rparr>"
      using IH(3) d1 by simp
    then show ?thesis
      using IH d1 r True by (intro exI [of _ "?r # rs"]) (auto simp: unique_ok_def)
  next
    case False
    then have "d1 = d" and "(n, s) \<in> sn_index ` set (subscriber_notifications d)"
      using ins by (auto simp: insert_subscriber_notification_row_def unique_ok_def sn_index_def)
    then show ?thesis using IH by (intro exI [of _ rs]) auto
  qed
qed simp

lemma upsert_subscriber_notifications_rows:
  assumes "upsert_subscriber_notifications gen now n ss d = Inr d'"
  shows "insert_subscriber_notifications gen 0 now n Queued ss d = Inr d'"
  using assms by (auto simp: upsert_subscriber_notifications_def rbind_Inr_iff cast_status_iff)

lemma one_delivery_row:
  assumes "wf_db X d" "(n, s) \<in> sn_index ` set (subscriber_notifications d)"
  shows "\<exists>!r. r \<in> set (subscriber_notifications d) \<and> sn_notification r = n \<and> sn_subscriber r = s"
proof -
  have "distinct (map sn_index (subscriber_notifications d))"
    using wf_dbD(6) [OF assms(1)] by (auto simp: wf_subscriber_notifications_def)
  from distinct_map_inj [OF this] show ?thesis using assms(2) by (auto simp: sn_index_def)
qed

text \<open>
  \<open>upsert_subscriber_notifications\<close> queues each listed subscriber once: existing rows are
  kept as they are (a notification already published is not queued again), the rows it adds are
  queued and unread rows of listed subscribers that had none, every listed subscriber has exactly
  one row for the notification afterwards, and the delivery channel announces exactly the new rows.
\<close>

theorem upsert_subscriber_notifications_spec:
  assumes "wf_db X d" "upsert_subscriber_notifications gen now n ss d = Inr d'"
  shows "\<exists>rs. subscriber_notifications d' = subscriber_notifications d @ rs \<and>
    delivery_channel d' = delivery_channel d @ map sn_id rs \<and>
    (\<forall>r \<in> set rs. sn_notification r = n \<and> sn_status r = Queued \<and> \<not> sn_is_read r \<and> sn_subscriber r \<in> set ss \<and>
       (n, sn_subscriber r) \<notin> sn_index ` set (subscriber_notifications d)) \<and>
    (\<forall>s \<in> set ss. \<exists>!r. r \<in> set (subscriber_notifications d') \<and> sn_notification r = n \<and> sn_subscriber r = s)"
  using insert_subscriber_notifications_spec [OF upsert_subscriber_notifications_rows [OF assms(2)]]
    one_delivery_row [OF upsert_subscriber_notifications_wf [OF assms(2,1)]]
  by auto

definition demo_notification_row :: notification_row where
  "demo_notification_row = \<lparr> n_id = 21, n_created_at = 5, n_project = 1, n_notification_id = ''nid'', n_type = 3,
     n_title = ''title'', n_body = ''body'', n_icon = None, n_url = None \<rparr>"

definition demo_db3 :: db where
  "demo_db3 = demo_db2\<lparr> notifications := [demo_notification_row] \<rparr>"

lemmas demo_defs = demo_db3_def demo_notification_row_def demo_db2_def demo_subscriber_def demo_db_def
  demo_project_def empty_db_def

lemma wf_demo_db3: "wf_db ext_demo demo_db3"
  using valid_demo_accounts
  by (simp add: demo_defs wf_db_def wf_table_defs pids_def sids_def nids_def)

theorem upsert_subscriber_notifications_spec_witness:
  "\<exists>d'. upsert_subscriber_notifications demo_gen 9 21 [7, 7] demo_db3 = Inr d' \<and>
     (\<exists>!r. r \<in> set (subscriber_notifications d') \<and> sn_notification r = 21 \<and> sn_subscriber r = 7)"
proof -
  have "is_ok (upsert_subscriber_notifications demo_gen 9 21 [7, 7] demo_db3)"
    by (simp add: upsert_subscriber_notifications_def cast_status_def status_to_string_def demo_defs
        insert_subscriber_notification_row_def unique_ok_def sn_index_def sids_def nids_def)
  then obtain d' where b: "upsert_subscriber_notifications demo_gen 9 21 [7, 7] demo_db3 = Inr d'"
    by (auto simp: is_ok_iff)
  then show ?thesis
    using upsert_subscriber_notifications_spec [OF wf_demo_db3 b] by auto
qed

section \<open>Picking and the life of a delivery row\<close>

lemma joined_rows_wf:
  assumes "wf_db X d" "r \<in> set (subscriber_notifications d)"
  shows "\<exists>n s p. joined_rows (sn_id r) d = [(r, n, s, p)] \<and> n \<in> set (notifications d) \<and>
    s \<in> set (subscribers d) \<and> p \<in> set (projects d) \<and> n_id n = sn_notification r \<and>
    s_id s = sn_subscriber r \<and> p_id p = n_project n"
proof -
  have wsn: "distinct (map sn_id (subscriber_notifications d))" "sn_notification r \<in> nids d" "sn_subscriber r \<in> sids d"
    using wf_dbD(6) [OF assms(1)] assms(2) by (auto simp: wf_subscriber_notifications_def)
  obtain n s where n: "n \<in> set (notifications d)" "n_id n = sn_notification r"
    and s: "s \<in> set (subscribers d)" "s_id s = sn_subscriber r"
    using wsn by (auto simp: nids_def sids_def)
  have dn: "distinct (map n_id (notifications d))" "n_project n \<in> pids d"
    using wf_dbD(5) [OF assms(1)] n by (auto simp: wf_notifications_def)
  then obtain p where p: "p \<in> set (projects d)" "p_id p = n_project n" by (auto simp: pids_def)
  have ds: "distinct (map s_id (subscribers d))" and dp: "distinct (map p_id (projects d))"
    using wf_dbD(1,2) [OF assms(1)] by (auto simp: wf_subscribers_def wf_projects_def)
  show ?thesis
    unfolding joined_rows_def
    using filter_eq_single [OF wsn(1) assms(2)] filter_eq_single [OF dn(1) n(1)] filter_eq_single [OF ds s(1)]
      filter_eq_single [OF dp p(1)] n s p by simp
qed

lemma filter_status_set_status:
  "set (update_where P (set_status now st) t) =
     {set_status now st r | r. r \<in> set t \<and> P r} \<union> {r \<in> set t. \<not> P r}"
  by (rule set_update_where)

lemma pick_nothing:
  assumes "filter (\<lambda>r. sn_status r = Queued) (subscriber_notifications d) = []"
  shows "pick_subscriber_notification_for_processing X pick now d = (Inr None, d)"
  using assms by (simp add: pick_subscriber_notification_for_processing_def pick_queued_def)

lemma pick_picked:
  fixes pick now d
  defines "r \<equiv> pick (filter (\<lambda>r. sn_status r = Queued) (subscriber_notifications d))"
    and "d' \<equiv> d\<lparr> subscriber_notifications := update_where
      (\<lambda>q. sn_id q = sn_id (pick (filter (\<lambda>r. sn_status r = Queued) (subscriber_notifications d))))
      (set_status now Processing) (subscriber_notifications d) \<rparr>"
  assumes "wf_db X d" "picker pick" "filter (\<lambda>r. sn_status r = Queued) (subscriber_notifications d) \<noteq> []"
  shows "r \<in> set (subscriber_notifications d) \<and> sn_status r = Queued \<and>
    (\<exists>n s p. pick_subscriber_notification_for_processing X pick now d =
        (Inr (Some (to_process (s_account s) (set_status now Processing r, n, s, p))), d') \<and>
      n \<in> set (notifications d) \<and> n_id n = sn_notification r \<and>
      s \<in> set (subscribers d) \<and> s_id s = sn_subscriber r \<and> p \<in> set (projects d) \<and> p_id p = n_project n)"
proof -
  have r: "r \<in> set (subscriber_notifications d) \<and> sn_status r = Queued"
  proof -
    have "r \<in> set (filter (\<lambda>r. sn_status r = Queued) (subscriber_notifications d))"
      using assms(4,5) unfolding r_def picker_def by blast
    then show ?thesis by simp
  qed
  have pick: "pick_queued pick (filter (\<lambda>r. sn_status r = Queued) (subscriber_notifications d)) = Some r"
    using assms(5) by (simp add: pick_queued_def r_def)
  have wf': "wf_db X d'"
    using pick_wf [OF assms(3), of X pick now] pick
    by (simp add: pick_subscriber_notification_for_processing_def d'_def r_def Let_def)
  have r': "set_status now Processing r \<in> set (subscriber_notifications d')"
    using r by (auto simp: d'_def r_def set_update_where)
  obtain n s p where j: "joined_rows (sn_id r) d' = [(set_status now Processing r, n, s, p)]"
      "n \<in> set (notifications d)" "n_id n = sn_notification r" "s \<in> set (subscribers d)"
      "s_id s = sn_subscriber r" "p \<in> set (projects d)" "p_id p = n_project n"
    using joined_rows_wf [OF wf' r'] by (auto simp: set_status_def d'_def)
  have acc: "decode_account X (s_account s) = Inr (s_account s)"
    using valid_subscriber_accounts [OF assms(3) j(4)] by simp
  have "pick_subscriber_notification_for_processing X pick now d =
      (Inr (Some (to_process (s_account s) (set_status now Processing r, n, s, p))), d')"
    using pick j(1) acc
    by (simp add: pick_subscriber_notification_for_processing_def Let_def d'_def r_def [symmetric] fetch_optional_def
        map_ok_Inr_iff)
  then show ?thesis using r j(2-7) by blast
qed

lemma update_where_id:
  assumes "wf_db X d" "r \<in> set (subscriber_notifications d)"
  shows "update_where (\<lambda>q. sn_id q = sn_id r) u (subscriber_notifications d) =
    map (\<lambda>q. if q = r then u q else q) (subscriber_notifications d)"
proof -
  have "distinct (map sn_id (subscriber_notifications d))"
    using wf_dbD(6) [OF assms(1)] by (simp add: wf_subscriber_notifications_def)
  then show ?thesis
    using distinct_map_inj [of sn_id "subscriber_notifications d" _ r] assms(2) by (auto simp: update_where_def)
qed

text \<open>
  Picking: nothing is picked exactly when no row is queued; otherwise one queued row (the one
  the picker chose) becomes processing with a fresh timestamp, no other row changes, and on a
  well-formed database the joined record of that row is returned, never the race-condition \<open>None\<close>
  and never an error.
\<close>

theorem pick_for_processing_spec:
  assumes "wf_db X d" "picker pick"
  shows "(let queued = filter (\<lambda>r. sn_status r = Queued) (subscriber_notifications d);
              (res, d') = pick_subscriber_notification_for_processing X pick now d in
     if queued = [] then res = Inr None \<and> d' = d
     else (let r = pick queued in r \<in> set queued \<and>
       subscriber_notifications d' =
         map (\<lambda>q. if q = r then q\<lparr> sn_updated_at := now, sn_status := Processing \<rparr> else q)
           (subscriber_notifications d) \<and>
       d' = d\<lparr> subscriber_notifications := subscriber_notifications d' \<rparr> \<and>
       (\<exists>np. res = Inr (Some np) \<and> np_subscriber_notification np = sn_id r \<and>
          np_notification np = sn_notification r \<and> np_subscriber np = sn_subscriber r \<and>
          (\<exists>s \<in> set (subscribers d). s_id s = np_subscriber np \<and> np_subscriber_topic np = s_topic s \<and>
             np_subscriber_sym_key np = s_sym_key s))))"
proof (cases "filter (\<lambda>r. sn_status r = Queued) (subscriber_notifications d) = []")
  case True
  then show ?thesis by (simp add: pick_nothing Let_def)
next
  case False
  define r where "r = pick (filter (\<lambda>r. sn_status r = Queued) (subscriber_notifications d))"
  note picked = pick_picked [OF assms False, of now, folded r_def]
  then obtain n s p where res: "pick_subscriber_notification_for_processing X pick now d =
      (Inr (Some (to_process (s_account s) (set_status now Processing r, n, s, p))),
       d\<lparr> subscriber_notifications := update_where (\<lambda>q. sn_id q = sn_id r) (set_status now Processing) (subscriber_notifications d) \<rparr>)"
    and j: "n_id n = sn_notification r" "s \<in> set (subscribers d)" "s_id s = sn_subscriber r"
    by blast
  have upd: "update_where (\<lambda>q. sn_id q = sn_id r) (set_status now Processing) (subscriber_notifications d) =
      map (\<lambda>q. if q = r then q\<lparr> sn_updated_at := now, sn_status := Processing \<rparr> else q) (subscriber_notifications d)"
    using update_where_id [OF assms(1), of r "set_status now Processing"] picked
    by (auto simp: set_status_def)
  show ?thesis
    using False picked res j upd by (auto simp: Let_def r_def [symmetric] to_process_def set_status_def)
qed

definition demo_sn :: subscriber_notification_row where
  "demo_sn = \<lparr> sn_id = 31, sn_created_at = 5, sn_updated_at = 5, sn_notification = 21, sn_subscriber = 7,
     sn_status = Queued, sn_is_read = False \<rparr>"

definition demo_db4 :: db where
  "demo_db4 = demo_db3\<lparr> subscriber_notifications := [demo_sn] \<rparr>"

lemma wf_demo_db4: "wf_db ext_demo demo_db4"
  using valid_demo_accounts
  by (simp add: demo_db4_def demo_sn_def demo_defs wf_db_def wf_table_defs pids_def sids_def nids_def pg_status_def)

lemma picker_hd: "picker hd"
  by (simp add: picker_def)

theorem pick_for_processing_spec_witness:
  "\<exists>np d'. pick_subscriber_notification_for_processing ext_demo hd 50 demo_db4 = (Inr (Some np), d') \<and>
     np_subscriber_notification np = 31 \<and> map sn_status (subscriber_notifications d') = [Processing]"
  using pick_for_processing_spec [OF wf_demo_db4 picker_hd, of 50]
  by (auto simp: Let_def demo_db4_def demo_sn_def demo_defs split: prod.splits)

text \<open>
  Dead letters: exactly the rows that have been processing since before \<open>now - threshold\<close> go
  back to queued (and are announced), so no row older than that is left processing; every other
  row is untouched, and no row changes its read flag, notification or subscriber.
\<close>

theorem dead_letters_check_spec:
  "subscriber_notifications (dead_letters_check now th d) =
     map (\<lambda>r. if sn_status r = Processing \<and> sn_updated_at r < now - th then r\<lparr> sn_status := Queued \<rparr> else r)
       (subscriber_notifications d) \<and>
   (\<forall>r. r \<in> set (subscriber_notifications (dead_letters_check now th d)) \<and> sn_status r = Processing \<longrightarrow>
      now - th \<le> sn_updated_at r) \<and>
   delivery_channel (dead_letters_check now th d) = delivery_channel d @
     map sn_id (filter (\<lambda>r. sn_status r = Processing \<and> sn_updated_at r < now - th) (subscriber_notifications d))"
proof -
  have "filter (\<lambda>r. dead_letter now th r \<and> sn_status r \<noteq> Queued) t = filter (dead_letter now th) t" for t
    by (rule filter_cong) (auto simp: dead_letter_def)
  moreover have "dead_letter now th = (\<lambda>r. sn_status r = Processing \<and> sn_updated_at r < now - th)"
    by (simp add: fun_eq_iff dead_letter_def)
  ultimately show ?thesis
    by (auto simp: dead_letters_check_def update_where_def requeued_def split: if_splits)
qed

theorem dead_letters_check_spec_witness:
  "map sn_status (subscriber_notifications (dead_letters_check 100 10
     (snd (pick_subscriber_notification_for_processing ext_demo hd 50 demo_db4)))) = [Queued]"
  using dead_letters_check_spec [of 100 10 "snd (pick_subscriber_notification_for_processing ext_demo hd 50 demo_db4)"]
  by (simp add: pick_subscriber_notification_for_processing_def pick_queued_def demo_db4_def demo_sn_def
      demo_defs update_where_def set_status_def Let_def)

end
