(* ===== verification/Pagination.thy ===== *)
theory Pagination
  imports Notification_Store "HOL-Library.Multiset"
begin

text \<open>
  Facts about \<open>get_notifications_for_subscriber\<close> and the read marks of
  \<open>src/src/model/helpers.rs\<close>: the pages a client walks through with the \<open>after\<close> cursor are
  consecutive slices of one fixed order of the subscriber's notifications.
\<close>

section \<open>The order\<close>

definition notification_order ::
  "bool \<Rightarrow> uuid \<Rightarrow> db \<Rightarrow> (subscriber_notification_row \<times> notification_row) list" where
  "notification_order unread_first s d = sort_key (\<lambda>x. order_key unread_first 0 (fst x)) (subscriber_rows s d)"

lemma order_key_now: "order_key u now a < order_key u now b \<longleftrightarrow> order_key u 0 a < order_key u 0 b"
  by (auto simp: order_key_def less_prod_def)

lemma order_key_now_le: "order_key u now a \<le> order_key u now b \<longleftrightarrow> order_key u 0 a \<le> order_key u 0 b"
  using order_key_now [of u now b a] by (simp add: not_less [symmetric])

lemma order_key_now_eq: "order_key u now a = order_key u now b \<longleftrightarrow> order_key u 0 a = order_key u 0 b"
  by (auto simp: order_key_def)

lemma sort_key_order_iso:
  fixes f g :: "'a \<Rightarrow> 'k :: linorder"
  assumes "\<And>x y. f x \<le> f y \<longleftrightarrow> g x \<le> g y"
  shows "sort_key f xs = sort_key g xs"
proof (rule properties_for_sort_key)
  show "mset (sort_key g xs) = mset xs" by simp
  show "sorted (map f (sort_key g xs))"
    using sorted_sort_key [of g xs] assms by (simp add: sorted_map)
  fix k assume "k \<in> set (sort_key g xs)"
  have "(\<lambda>x. f k = f x) = (\<lambda>x. g x = g k)" using assms by (metis order_antisym order_refl)
  then show "filter (\<lambda>x. f k = f x) (sort_key g xs) = filter (\<lambda>x. f k = f x) xs"
    using sort_key_stable [of g "g k" xs] by simp
qed

lemma sort_order_now:
  "sort_key (\<lambda>x. order_key u now (fst x)) xs = sort_key (\<lambda>x. order_key u 0 (fst x)) xs"
  by (rule sort_key_order_iso) (rule order_key_now_le)

lemma strict_sorted_after:
  assumes "sorted_wrt (\<lambda>a b. f a < f b) L" "k < length L"
  shows "filter (\<lambda>x. f (L ! k) < (f x :: 'k :: linorder)) L = drop (Suc k) L"
proof -
  have nth: "f (L ! i) < f (L ! j) \<longleftrightarrow> i < j" if "i < length L" "j < length L" for i j
    using assms(1) that sorted_wrt_nth_less [OF assms(1)] by (metis less_asym linorder_neqE_nat)
  have "filter (\<lambda>x. f (L ! k) < f x) (take (Suc k) L) = []"
    using nth assms(2) by (auto simp: filter_empty_conv in_set_conv_nth)
  moreover have "filter (\<lambda>x. f (L ! k) < f x) (drop (Suc k) L) = drop (Suc k) L"
    using nth assms(2) by (auto simp: filter_id_conv in_set_conv_nth)
  ultimately show ?thesis by (metis append_Nil append_take_drop_id filter_append)
qed

lemma filter_concat_map: "filter P (concat (map f xs)) = concat (map (\<lambda>x. filter P (f x)) xs)"
  by (simp add: filter_concat o_def)

lemma subscriber_rows_set:
  assumes "wf_db X d"
  shows "fst ` set (subscriber_rows s d) = {r \<in> set (subscriber_notifications d). sn_subscriber r = s}"
proof -
  have "\<exists>n \<in> set (notifications d). n_id n = sn_notification r" if "r \<in> set (subscriber_notifications d)" for r
    using wf_dbD(6) [OF assms] that by (auto simp: wf_subscriber_notifications_def nids_def image_iff subset_eq) metis
  then show ?thesis by (force simp: subscriber_rows_def)
qed

lemma subscriber_rows_ids:
  assumes "wf_db X d"
  shows "distinct (map (\<lambda>x. sn_id (fst x)) (subscriber_rows s d))"
proof -
  have nd: "distinct (map n_id (notifications d))" and rd: "distinct (map sn_id (subscriber_notifications d))"
    using wf_dbD(5,6) [OF assms] by (auto simp: wf_notifications_def wf_subscriber_notifications_def)
  have one: "\<exists>n. filter (\<lambda>n. n_id n = sn_notification r) (notifications d) = [n]"
    if "r \<in> set (subscriber_notifications d)" for r
  proof -
    have "sn_notification r \<in> nids d"
      using wf_dbD(6) [OF assms] that by (auto simp: wf_subscriber_notifications_def)
    then obtain n where "n \<in> set (notifications d)" "n_id n = sn_notification r" by (auto simp: nids_def)
    then show ?thesis using filter_eq_single [OF nd, of n] by auto
  qed
  have "map (\<lambda>x. sn_id (fst x)) (subscriber_rows s d) =
      map sn_id (filter (\<lambda>r. sn_subscriber r = s) (subscriber_notifications d))"
  proof -
    have "map (\<lambda>x. sn_id (fst x)) (concat (map (\<lambda>r. map (Pair r)
        (filter (\<lambda>n. n_id n = sn_notification r) (notifications d))) rs)) = map sn_id rs"
      if "set rs \<subseteq> set (subscriber_notifications d)" for rs
      using that by (induction rs) (auto dest!: one)
    then show ?thesis by (simp add: subscriber_rows_def)
  qed
  then show ?thesis using rd by (simp add: distinct_map_filter)
qed

lemma notification_order_strict:
  assumes "wf_db X d"
  shows "sorted_wrt (\<lambda>a b. order_key u 0 (fst a) < order_key u 0 (fst b)) (notification_order u s d)"
proof -
  let ?L = "notification_order u s d" and ?f = "\<lambda>x. order_key u 0 (fst x)"
  have "mset (map (\<lambda>x. sn_id (fst x)) ?L) = mset (map (\<lambda>x. sn_id (fst x)) (subscriber_rows s d))"
    by (simp add: notification_order_def)
  then have ids: "distinct (map (\<lambda>x. sn_id (fst x)) ?L)"
    using subscriber_rows_ids [OF assms] by (metis mset_eq_imp_distinct_iff)
  have "inj_on ?f (set ?L)"
    using ids by (auto simp: distinct_map inj_on_def order_key_def)
  then have "distinct (map ?f ?L)" using ids by (simp add: distinct_map)
  moreover have "sorted (map ?f ?L)" by (simp add: notification_order_def)
  ultimately have "sorted_wrt (<) (map ?f ?L)" by (simp add: strict_sorted_iff)
  then show ?thesis by (simp add: sorted_wrt_map)
qed

section \<open>Pages\<close>

definition cursor_at :: "(subscriber_notification_row \<times> notification_row) list \<Rightarrow> nat \<Rightarrow> uuid option" where
  "cursor_at L n = (case n of 0 \<Rightarrow> None | Suc k \<Rightarrow> Some (sn_id (fst (L ! k))))"

lemma after_clause_row:
  assumes "wf_db X d" "c \<in> set (subscriber_notifications d)"
  shows "after_clause u now (Some (sn_id c)) d r \<longleftrightarrow> order_key u 0 c < order_key u 0 r"
proof -
  have dist: "distinct (map sn_id (subscriber_notifications d))"
    using wf_dbD(6) [OF assms(1)] by (simp add: wf_subscriber_notifications_def)
  obtain q where q: "find (\<lambda>q. sn_id q = sn_id c) (subscriber_notifications d) = Some q"
    using assms(2) by (cases "find (\<lambda>q. sn_id q = sn_id c) (subscriber_notifications d)") (auto simp: find_None_iff)
  then have "q = c" using find_Some_set [OF q] distinct_map_inj [OF dist _ assms(2)] by auto
  then show ?thesis using q by (simp add: after_clause_def order_key_now [of u now])
qed

lemma notification_order_mem:
  assumes "wf_db X d" "k < length (notification_order u s d)"
  shows "fst (notification_order u s d ! k) \<in> set (subscriber_notifications d)"
    and "sn_subscriber (fst (notification_order u s d ! k)) = s"
proof -
  have "notification_order u s d ! k \<in> set (subscriber_rows s d)"
    using nth_mem [OF assms(2)] by (simp add: notification_order_def)
  then have "fst (notification_order u s d ! k) \<in> fst ` set (subscriber_rows s d)" by (rule imageI)
  then show "fst (notification_order u s d ! k) \<in> set (subscriber_notifications d)"
    and "sn_subscriber (fst (notification_order u s d ! k)) = s"
    using subscriber_rows_set [OF assms(1)] by auto
qed

lemma page_rows:
  assumes "wf_db X d" "n \<le> length (notification_order u s d)"
  shows "sort_key (\<lambda>x. order_key u now (fst x))
      (filter (\<lambda>x. after_clause u now (cursor_at (notification_order u s d) n) d (fst x)) (subscriber_rows s d)) =
    drop n (notification_order u s d)"
proof -
  let ?L = "notification_order u s d"
  have "sort_key (\<lambda>x. order_key u now (fst x)) (filter P (subscriber_rows s d)) = filter P ?L" for P
    by (simp add: sort_order_now [of u now] filter_sort notification_order_def)
  moreover have "filter (\<lambda>x. after_clause u now (cursor_at ?L n) d (fst x)) ?L = drop n ?L"
  proof (cases n)
    case 0
    then show ?thesis by (simp add: cursor_at_def after_clause_def)
  next
    case (Suc k)
    with assms(2) have k: "k < length ?L" by simp
    show ?thesis
      using strict_sorted_after [OF notification_order_strict [OF assms(1)] k]
        after_clause_row [OF assms(1) notification_order_mem(1) [OF assms(1) k]] Suc
      by (simp add: cursor_at_def)
  qed
  ultimately show ?thesis by simp
qed

lemma unread_after:
  assumes "wf_db X d" "k < length (notification_order u s d)"
  shows "filter (\<lambda>r. sn_subscriber r = s \<and> \<not> sn_is_read r \<and>
        after_clause u now (Some (sn_id (fst (notification_order u s d ! k)))) d r) (subscriber_notifications d) \<noteq> [] \<longleftrightarrow>
    (\<exists>x \<in> set (drop (Suc k) (notification_order u s d)). \<not> sn_is_read (fst x))"
proof -
  let ?L = "notification_order u s d"
  have rows: "fst ` set ?L = {r \<in> set (subscriber_notifications d). sn_subscriber r = s}"
    using subscriber_rows_set [OF assms(1), of s] by (simp add: notification_order_def)
  have "set (drop (Suc k) ?L) = {x \<in> set ?L. order_key u 0 (fst (?L ! k)) < order_key u 0 (fst x)}"
    using strict_sorted_after [OF notification_order_strict [OF assms(1)] assms(2)] by (metis set_filter)
  then have "(\<exists>x \<in> set (drop (Suc k) ?L). \<not> sn_is_read (fst x)) \<longleftrightarrow>
      (\<exists>r \<in> fst ` set ?L. order_key u 0 (fst (?L ! k)) < order_key u 0 r \<and> \<not> sn_is_read r)"
    by (simp only: bex_simps image_iff mem_Collect_eq Bex_def) blast
  then show ?thesis
    using after_clause_row [OF assms(1) notification_order_mem(1) [OF assms]]
    by (auto simp: rows filter_empty_conv)
qed

text \<open>
  The page after the \<open>n\<close>-th notification (the cursor is that notification's id; none for the
  first page) is the next slice of the subscriber's notifications in the fixed order: unread first
  if asked, newest first, then by id. \<open>has_more\<close> says whether the slice stops before the end, and
  \<open>has_more_unread\<close> whether an unread notification comes after the page. The answer does not depend
  on the clock.
\<close>

theorem pagination_page:
  assumes "wf_db X d" "n \<le> length (notification_order u s d)"
  shows "get_notifications_for_subscriber now s
      \<lparr> gp_limit = l, gp_after = cursor_at (notification_order u s d) n, gp_unread_first = u \<rparr> d =
    \<lparr> gr_notifications = map notification_view (take l (drop n (notification_order u s d))),
      gr_has_more = (n + l < length (notification_order u s d)),
      gr_has_more_unread = (take l (drop n (notification_order u s d)) \<noteq> [] \<and>
        (\<exists>x \<in> set (drop (n + l) (notification_order u s d)). \<not> sn_is_read (fst x))) \<rparr>"
proof -
  define L where "L = notification_order u s d"
  define m where "m = min l (length L - n)"
  note rows = page_rows [OF assms, of now, folded L_def]
  let ?page = "take l (drop n L)"
  have n: "n \<le> length L" using assms(2) by (simp add: L_def)
  have has_more: "length (take (l + 1) (drop n L)) > l \<longleftrightarrow> n + l < length L" by auto
  have unread: "(filter (\<lambda>r. sn_subscriber r = s \<and> \<not> sn_is_read r \<and>
        after_clause u now (Some (sn_id (fst (last ?page)))) d r) (subscriber_notifications d) \<noteq> []) \<longleftrightarrow>
      (\<exists>x \<in> set (drop (n + l) L). \<not> sn_is_read (fst x))" if "?page \<noteq> []"
  proof -
    from that have m: "0 < m" by (cases "l = 0") (auto simp: m_def)
    have len: "length ?page = m" by (simp add: m_def min_def)
    have "last ?page = ?page ! (m - 1)" using last_conv_nth [OF that] by (simp only: len)
    also have "\<dots> = L ! (n + m - 1)" using m n by (auto simp: m_def)
    finally have last: "last ?page = L ! (n + m - 1)" .
    have k: "n + m - 1 < length L" using m n by (auto simp: m_def)
    have "drop (Suc (n + m - 1)) L = drop (n + l) L" using m n by (cases "l \<le> length L - n") (auto simp: m_def)
    then show ?thesis using unread_after [OF assms(1), of "n + m - 1" u s now] k last by (simp add: L_def)
  qed
  have ids: "?page \<noteq> [] \<Longrightarrow> gn_id (last (map notification_view ?page)) = sn_id (fst (last ?page))"
    by (simp add: last_map notification_view_def split: prod.splits)
  show ?thesis
    using unread ids has_more
    unfolding get_notifications_for_subscriber_def Let_def L_def [symmetric]
    by (simp add: rows min_def)
qed

text \<open>What a client does: ask for page after page with the last id as cursor while there are more.\<close>

fun walk_pages ::
  "nat \<Rightarrow> (nat \<Rightarrow> datetime) \<Rightarrow> nat \<Rightarrow> bool \<Rightarrow> uuid \<Rightarrow> uuid option \<Rightarrow> db \<Rightarrow> GetNotification list" where
  "walk_pages 0 clock l u s after d = []"
| "walk_pages (Suc fuel) clock l u s after d =
     (let r = get_notifications_for_subscriber (clock fuel) s
                \<lparr> gp_limit = l, gp_after = after, gp_unread_first = u \<rparr> d in
      gr_notifications r @
      (if gr_has_more r then walk_pages fuel clock l u s (Some (gn_id (last (gr_notifications r)))) d else []))"

lemma walk_pages_from:
  assumes "wf_db X d" "1 \<le> l"
  shows "n \<le> length (notification_order u s d) \<Longrightarrow> length (notification_order u s d) - n < fuel \<Longrightarrow>
    walk_pages fuel clock l u s (cursor_at (notification_order u s d) n) d =
      map notification_view (drop n (notification_order u s d))"
proof (induction fuel arbitrary: n)
  case (Suc fuel)
  let ?L = "notification_order u s d"
  let ?r = "get_notifications_for_subscriber (clock fuel) s
    \<lparr> gp_limit = l, gp_after = cursor_at ?L n, gp_unread_first = u \<rparr> d"
  note page = pagination_page [OF assms(1) Suc.prems(1), of "clock fuel" l]
  show ?case
  proof (cases "n + l < length ?L")
    case True
    have len: "length (take l (drop n ?L)) = l" using True by simp
    have ne: "take l (drop n ?L) \<noteq> []" using len assms(2) by auto
    have "last (take l (drop n ?L)) = ?L ! (n + l - 1)"
      using ne len True assms(2) by (simp add: last_conv_nth)
    then have cur: "Some (gn_id (last (gr_notifications ?r))) = cursor_at ?L (n + l)"
      using ne page assms(2) by (cases "n + l") (auto simp: cursor_at_def last_map notification_view_def split: prod.splits)
    have "length ?L - (n + l) < fuel" using Suc.prems(2) True assms(2) by linarith
    then have "walk_pages fuel clock l u s (cursor_at ?L (n + l)) d = map notification_view (drop (n + l) ?L)"
      using Suc.IH True by simp
    moreover have "take l (drop n ?L) @ drop (n + l) ?L = drop n ?L"
      by (metis add.commute append_take_drop_id drop_drop)
    ultimately show ?thesis
      using page cur True by (simp add: Let_def) (metis map_append)
  next
    case False
    then show ?thesis using page by (simp add: Let_def)
  qed
qed simp

text \<open>
  C18. Walking the pages visits every notification of the subscriber exactly once, in the fixed
  order, whatever the page size and however the clock moves between requests.
\<close>

theorem pagination_complete:
  assumes "wf_db X d" "1 \<le> l" "length (notification_order u s d) < fuel"
  shows "walk_pages fuel clock l u s None d = map notification_view (notification_order u s d) \<and>
    mset (notification_order u s d) = mset (subscriber_rows s d)"
  using walk_pages_from [OF assms(1,2), of 0 u s fuel clock] assms(3)
  by (simp add: cursor_at_def notification_order_def)


text \<open>A database with three notifications of one subscriber, one of them read.\<close>

definition demo_sn2 :: subscriber_notification_row where
  "demo_sn2 = demo_sn\<lparr> sn_id := 32, sn_notification := 22, sn_created_at := 9, sn_is_read := True \<rparr>"

definition demo_sn3 :: subscriber_notification_row where
  "demo_sn3 = demo_sn\<lparr> sn_id := 33, sn_notification := 23, sn_created_at := 7 \<rparr>"

definition demo_db5 :: db where
  "demo_db5 = demo_db4\<lparr>
     notifications := [demo_notification_row,
       demo_notification_row\<lparr> n_id := 22, n_notification_id := ''nid2'' \<rparr>,
       demo_notification_row\<lparr> n_id := 23, n_notification_id := ''nid3'' \<rparr>],
     subscriber_notifications := [demo_sn, demo_sn2, demo_sn3] \<rparr>"

lemma wf_demo_db5: "wf_db ext_demo demo_db5"
  using valid_demo_accounts
  by (simp add: demo_db5_def demo_sn2_def demo_sn3_def demo_db4_def demo_sn_def demo_defs wf_db_def
      wf_table_defs pids_def sids_def nids_def pg_status_def n_index_def sn_index_def)

lemma demo_order: "map (\<lambda>x. sn_id (fst x)) (notification_order u 7 demo_db5) = (if u then [33, 31, 32] else [32, 33, 31])"
  by (simp add: notification_order_def subscriber_rows_def demo_db5_def demo_sn2_def demo_sn3_def
      demo_db4_def demo_sn_def demo_defs order_key_def)

theorem pagination_page_witness:
  "\<exists>L. map (\<lambda>x. sn_id (fst x)) L = [33, 31, 32] \<and>
     get_notifications_for_subscriber 1000 7 \<lparr> gp_limit = 1, gp_after = cursor_at L 1, gp_unread_first = True \<rparr> demo_db5 =
     \<lparr> gr_notifications = map notification_view (take 1 (drop 1 L)), gr_has_more = (1 + 1 < length L),
       gr_has_more_unread = (take 1 (drop 1 L) \<noteq> [] \<and> (\<exists>x \<in> set (drop (1 + 1) L). \<not> sn_is_read (fst x))) \<rparr>"
proof -
  have "1 \<le> length (notification_order True 7 demo_db5)"
    using arg_cong [OF demo_order [of True], of length] by simp
  note page = pagination_page [OF wf_demo_db5 this, of 1000 1]
  have "map (\<lambda>x. sn_id (fst x)) (notification_order True 7 demo_db5) = [33, 31, 32]"
    using demo_order [of True] by simp
  from conjI [OF this page] show ?thesis by (rule exI [of _ "notification_order True 7 demo_db5"])
qed

theorem pagination_complete_witness:
  "map gn_id (walk_pages 4 (\<lambda>k. of_nat k) 2 False 7 None demo_db5) = [32, 33, 31]"
proof -
  have "length (notification_order False 7 demo_db5) < 4"
    using arg_cong [OF demo_order [of False], of length] by simp
  then have "walk_pages 4 (\<lambda>k. of_nat k) 2 False 7 None demo_db5 = map notification_view (notification_order False 7 demo_db5)"
    using pagination_complete [OF wf_demo_db5, of 2 False 7 4 "\<lambda>k. of_nat k"] by simp
  moreover have "gn_id (notification_view x) = sn_id (fst x)" for x
    by (simp add: notification_view_def split: prod.splits)
  ultimately show ?thesis using demo_order [of False] by (simp add: o_def)
qed


section \<open>Read marks\<close>

lemma mark_selected_marked [simp]: "\<not> mark_selected s ids (r\<lparr> sn_is_read := True \<rparr>)"
  by (simp add: mark_selected_def)

lemma unread_mark_other:
  "q \<noteq> s \<Longrightarrow>
   length (filter (\<lambda>r. sn_subscriber r = q \<and> \<not> sn_is_read r)
     (map (\<lambda>r. if mark_selected s ids r then r\<lparr> sn_is_read := True \<rparr> else r) t)) =
   length (filter (\<lambda>r. sn_subscriber r = q \<and> \<not> sn_is_read r) t)"
proof (induction t)
  case (Cons r t)
  then show ?case by (cases "sn_subscriber r = s") (auto simp: mark_selected_def)
qed simp

lemma unread_mark_own:
  "length (filter (\<lambda>r. sn_subscriber r = s \<and> \<not> sn_is_read r)
     (map (\<lambda>r. if mark_selected s ids r then r\<lparr> sn_is_read := True \<rparr> else r) t)) +
   length (filter (mark_selected s ids) t) =
   length (filter (\<lambda>r. sn_subscriber r = s \<and> \<not> sn_is_read r) t)"
proof (induction t)
  case (Cons r t)
  have "mark_selected s ids r \<Longrightarrow> sn_subscriber r = s \<and> \<not> sn_is_read r" by (simp add: mark_selected_def)
  with Cons show ?case by (cases "mark_selected s ids r") auto
qed simp

text \<open>
  \<open>mark_notifications_as_read\<close> reports exactly the rows of the subscriber that were unread and
  selected, marks exactly those as read, leaves every row of other subscribers alone, and a
  repetition reports nothing and changes nothing; afterwards the subscriber's unread count is the
  number of unread rows that were not selected, so it is zero when all were.
\<close>

theorem mark_as_read_spec:
  assumes "mark_notifications_as_read s ids d = (rows, d')"
  shows "rows = map (\<lambda>r. (sn_notification r, sn_id r))
      (filter (\<lambda>r. sn_subscriber r = s \<and> \<not> sn_is_read r \<and> (\<forall>is. ids = Some is \<longrightarrow> sn_id r \<in> set is))
        (subscriber_notifications d)) \<and>
    subscriber_notifications d' = map (\<lambda>r. if sn_subscriber r = s \<and> \<not> sn_is_read r \<and>
        (\<forall>is. ids = Some is \<longrightarrow> sn_id r \<in> set is) then r\<lparr> sn_is_read := True \<rparr> else r) (subscriber_notifications d) \<and>
    (\<forall>q. q \<noteq> s \<longrightarrow> unread_count q d' = unread_count q d) \<and>
    unread_count s d' + length rows = unread_count s d \<and>
    (ids = None \<longrightarrow> unread_count s d' = 0) \<and>
    mark_notifications_as_read s ids d' = ([], d')"
proof -
  have sel: "(sn_subscriber r = s \<and> \<not> sn_is_read r \<and> (\<forall>is. ids = Some is \<longrightarrow> sn_id r \<in> set is)) = mark_selected s ids r"
    for r by (simp add: mark_selected_def split: option.splits)
  let ?m = "map (\<lambda>r. if mark_selected s ids r then r\<lparr> sn_is_read := True \<rparr> else r)"
  from assms have rows: "rows = map (\<lambda>r. (sn_notification r, sn_id r)) (filter (mark_selected s ids) (subscriber_notifications d))"
    and d': "d' = d\<lparr> subscriber_notifications := ?m (subscriber_notifications d) \<rparr>"
    by (simp_all add: mark_notifications_as_read_def update_where_def)
  have "filter (mark_selected s ids) (?m t) = []" and "?m (?m t) = ?m t" for t
    by (induction t) auto
  then have again: "mark_notifications_as_read s ids d' = ([], d')"
    by (simp add: mark_notifications_as_read_def update_where_def d' del: map_map)
  have "filter (\<lambda>r. sn_subscriber r = s \<and> \<not> sn_is_read r) (?m t) = []" if "ids = None" for t
    using that by (induction t) (auto simp: mark_selected_def)
  then have "ids = None \<longrightarrow> unread_count s d' = 0" by (simp add: unread_count_def d')
  moreover have "q \<noteq> s \<longrightarrow> unread_count q d' = unread_count q d" for q
    using unread_mark_other by (simp add: unread_count_def d')
  moreover have "unread_count s d' + length rows = unread_count s d"
    using unread_mark_own by (simp add: unread_count_def d' rows)
  ultimately show ?thesis using again rows d' by (simp add: sel)
qed

theorem mark_as_read_spec_witness:
  "unread_count 7 (snd (mark_notifications_as_read 7 None demo_db5)) = 0 \<and> unread_count 7 demo_db5 = 2"
  using mark_as_read_spec [of 7 None demo_db5, OF prod.collapse [symmetric]]
  by (simp add: unread_count_def demo_db5_def demo_sn2_def demo_sn3_def demo_db4_def demo_sn_def demo_defs)

text \<open>
  \<open>mark_all_notifications_as_read_for_project\<close> compares the ids of delivery rows with the ids
  of subscribers. As long as no delivery row happens to have the id of a subscriber, it marks
  nothing and always reports nothing, whatever notifications the project's subscribers have unread.
\<close>

theorem mark_all_for_project_marks_nothing:
  assumes "sn_id ` set (subscriber_notifications d) \<inter> sids d = {}"
  shows "mark_all_notifications_as_read_for_project p d = ([], d)"
proof -
  have "update_where (\<lambda>r. sn_id r \<in> set [s_id s. s \<leftarrow> subscribers d, q \<leftarrow> projects d,
      p_id q = s_project s \<and> p_id q = p]) u (subscriber_notifications d) = subscriber_notifications d" for u
    using assms by (intro update_where_False) (auto simp: sids_def)
  then show ?thesis by (simp add: mark_all_notifications_as_read_for_project_def Let_def)
qed

theorem mark_all_for_project_marks_nothing_witness:
  "mark_all_notifications_as_read_for_project 1 demo_db5 = ([], demo_db5) \<and> unread_count 7 demo_db5 = 2 \<and>
   (\<exists>s \<in> set (subscribers demo_db5). s_id s = 7 \<and> s_project s = 1)"
  using mark_all_for_project_marks_nothing [of demo_db5 1]
  by (simp add: unread_count_def sids_def demo_db5_def demo_sn2_def demo_sn3_def demo_db4_def demo_sn_def demo_defs)

end
