(* ===== verification/Rate_Limit.thy ===== *)
theory Rate_Limit
  imports Prelude
begin

text \<open>
  The token bucket of \<open>src/src/rate_limit/token_bucket.rs\<close> and its Redis script
  \<open>token_bucket.lua\<close>. The script computes with doubles; all quantities are integers far below
  \<open>2 ^ 53\<close>, on which its sums, floors and ceilings are exact, so the model uses integers. A
  Redis hash carries the absolute time its \<open>PEXPIRE\<close> set; a hash past it is absent. \<open>Limits\<close> adds the
  failures of the Redis pool and connection.
\<close>

record bucket =
  b_refilledAt :: int
  b_tokens :: int
  b_expireAt :: int

type_synonym redis_buckets = "string \<Rightarrow> bucket option"

text \<open>\<open>HMGET\<close> at Redis time \<open>rnow\<close>.\<close>

definition hmget :: "int \<Rightarrow> string \<Rightarrow> redis_buckets \<Rightarrow> (int \<times> int) option" where
  "hmget rnow key st =
     (case st key of
        None \<Rightarrow> None
      | Some b \<Rightarrow> if b_expireAt b \<le> rnow then None else Some (b_refilledAt b, b_tokens b))"

definition ceil_div :: "int \<Rightarrow> int \<Rightarrow> int" where
  "ceil_div a b = - ((- a) div b)"

text \<open>The tokens and the refill time after the optional refill.\<close>

definition refill :: "int \<Rightarrow> int \<Rightarrow> int \<Rightarrow> int \<Rightarrow> int \<times> int \<Rightarrow> int \<times> int" where
  "refill maxTokens interval refillRate now b =
     (case b of (refilledAt, tokens) \<Rightarrow>
        if now \<ge> refilledAt + interval
        then let numRefills = (now - refilledAt) div interval in
             (refilledAt + numRefills * interval, min maxTokens (tokens + numRefills * refillRate))
        else (refilledAt, tokens))"

text \<open>One iteration of the loop over the keys: the pair (remaining, reset) and the new store.\<close>

definition token_bucket_key ::
  "int \<Rightarrow> int \<Rightarrow> int \<Rightarrow> int \<Rightarrow> int \<Rightarrow> string \<Rightarrow> redis_buckets \<Rightarrow> (int \<times> int) \<times> redis_buckets" where
  "token_bucket_key maxTokens interval refillRate now rnow key st =
     (let b = (case hmget rnow key st of None \<Rightarrow> (now, maxTokens) | Some b \<Rightarrow> b);
          (refilledAt, tokens) = refill maxTokens interval refillRate now b in
      if tokens = 0 then ((-1, refilledAt + interval), st)
      else let remaining = tokens - 1;
               expire = ceil_div (maxTokens - remaining) refillRate * interval in
           ((remaining, refilledAt + interval),
            st(key \<mapsto> \<lparr> b_refilledAt = refilledAt, b_tokens = remaining, b_expireAt = rnow + expire \<rparr>)))"

fun token_bucket_many ::
  "int \<Rightarrow> int \<Rightarrow> int \<Rightarrow> int \<Rightarrow> int \<Rightarrow> string list \<Rightarrow> redis_buckets \<Rightarrow> (string \<rightharpoonup> int \<times> int) \<times> redis_buckets" where
  "token_bucket_many maxTokens interval refillRate now rnow [] st = (Map.empty, st)"
| "token_bucket_many maxTokens interval refillRate now rnow (key # keys) st =
     (let (res, st') = token_bucket_key maxTokens interval refillRate now rnow key st;
          (results, st'') = token_bucket_many maxTokens interval refillRate now rnow keys st' in
      (case results key of None \<Rightarrow> results(key \<mapsto> res) | Some _ \<Rightarrow> results, st''))"

datatype RateLimitError = RateLimitExceeded int

text \<open>\<open>reset / 1000\<close>; the \<open>expect\<close> on the key cannot fail, see \<open>token_bucket_many_dom\<close>.\<close>

definition token_bucket ::
  "int \<Rightarrow> int \<Rightarrow> int \<Rightarrow> int \<Rightarrow> int \<Rightarrow> string \<Rightarrow> redis_buckets
     \<Rightarrow> (unit, RateLimitError) result option \<times> redis_buckets" where
  "token_bucket maxTokens interval refillRate now rnow key st =
     (let (results, st') = token_bucket_many maxTokens interval refillRate now rnow [key] st in
      (case results key of
         None \<Rightarrow> None
       | Some (remaining, reset) \<Rightarrow>
           Some (if remaining < 0 then Inl (RateLimitExceeded (reset div 1000)) else Inr ()),
       st'))"

section \<open>Facts\<close>

lemma token_bucket_many_dom:
  "dom (fst (token_bucket_many m i r now rnow keys st)) = set keys"
proof (induction keys arbitrary: st)
  case (Cons key keys)
  obtain res st' where k: "token_bucket_key m i r now rnow key st = (res, st')" by fastforce
  obtain results st'' where ks: "token_bucket_many m i r now rnow keys st' = (results, st'')" by fastforce
  have "dom results = set keys" using Cons.IH [of st'] ks by simp
  then show ?case using k ks by (auto simp: Let_def split: option.splits)
qed simp

text \<open>The contents of a bucket: tokens between 0 and the maximum, refilled in the past.\<close>

definition bucket_ok :: "int \<Rightarrow> int \<Rightarrow> bucket \<Rightarrow> bool" where
  "bucket_ok maxTokens now b \<longleftrightarrow> 0 \<le> b_tokens b \<and> b_tokens b < maxTokens \<and> b_refilledAt b \<le> now"

definition buckets_ok :: "int \<Rightarrow> int \<Rightarrow> redis_buckets \<Rightarrow> bool" where
  "buckets_ok maxTokens now st \<longleftrightarrow> (\<forall>k b. st k = Some b \<longrightarrow> bucket_ok maxTokens now b)"

lemma div_bounds:
  fixes x i :: int
  assumes "0 < i"
  shows "x div i * i \<le> x" "x < x div i * i + i"
  using div_mult_mod_eq [of x i] pos_mod_sign [OF assms, of x] pos_mod_bound [OF assms, of x] by linarith+

lemma le_div_iff:
  fixes x i :: int
  assumes "0 < i"
  shows "n \<le> x div i \<longleftrightarrow> n * i \<le> x"
proof
  assume "n \<le> x div i"
  then have "n * i \<le> x div i * i" using assms by simp
  then show "n * i \<le> x" using div_bounds(1) [OF assms, of x] by linarith
next
  assume "n * i \<le> x"
  then show "n \<le> x div i" using zdiv_mono1 [of "n * i" x i] assms by simp
qed

lemma refill_bounds:
  assumes "0 < i" "0 < r" "ra \<le> now" "0 \<le> t" "t \<le> m" "refill m i r now (ra, t) = (ra', t')"
  shows "ra \<le> ra'" "ra' \<le> now" "now < ra' + i" "0 \<le> t'" "t' \<le> m" "t \<le> t'"
    "t' \<le> t + r * ((ra' - ra) div i)" "i dvd (ra' - ra)"
proof -
  define n where "n = (now - ra) div i"
  have n: "0 \<le> n" "n * i \<le> now - ra" "now - ra < n * i + i"
    using assms(3) div_bounds [OF assms(1), of "now - ra"] unfolding n_def
    by (simp_all add: pos_imp_zdiv_nonneg_iff assms(1))
  have "0 \<le> n * r" using n(1) assms(2) by simp
  show "ra \<le> ra'" "ra' \<le> now" "now < ra' + i" "0 \<le> t'" "t' \<le> m" "t \<le> t'"
    "t' \<le> t + r * ((ra' - ra) div i)" "i dvd (ra' - ra)"
    using assms n \<open>0 \<le> n * r\<close> unfolding refill_def n_def [symmetric]
    by (auto simp: Let_def n_def [symmetric] mult.commute split: if_splits)
qed

lemma token_bucket_single:
  "token_bucket m i r now rnow key st =
     (let ((remaining, reset), st') = token_bucket_key m i r now rnow key st in
      (Some (if remaining < 0 then Inl (RateLimitExceeded (reset div 1000)) else Inr ()), st'))"
  by (simp add: token_bucket_def Let_def split: prod.splits)

text \<open>What the script sees of a key, after expiry and refill: (refill time, tokens).\<close>

definition effective :: "int \<Rightarrow> int \<Rightarrow> int \<Rightarrow> int \<Rightarrow> string \<Rightarrow> redis_buckets \<Rightarrow> int \<times> int" where
  "effective m i r now key st =
     refill m i r now (case hmget now key st of None \<Rightarrow> (now, m) | Some b \<Rightarrow> b)"

lemma token_bucket_effective:
  assumes "effective m i r now key st = (ra, k)" "0 \<le> k"
  shows "token_bucket m i r now now key st =
    (if k = 0 then (Some (Inl (RateLimitExceeded ((ra + i) div 1000))), st)
     else (Some (Inr ()), st(key \<mapsto> \<lparr> b_refilledAt = ra, b_tokens = k - 1,
        b_expireAt = now + ceil_div (m - (k - 1)) r * i \<rparr>)))"
  using assms by (simp add: token_bucket_single token_bucket_key_def effective_def Let_def)

lemma ceil_div_bounds: "0 < b \<Longrightarrow> a \<le> ceil_div a b * b"
  using div_bounds(1) [of b "- a"] by (simp add: ceil_div_def)

text \<open>
  The bucket of a key after \<open>a\<close> accepted calls since \<open>t0\<close>: what was accepted and what is left is
  covered by the initial tokens and \<open>n\<close> refills, which took at least \<open>n\<close> intervals; and Redis does
  not drop the hash before it would have been refilled completely.
\<close>

definition bucket_inv :: "int \<Rightarrow> int \<Rightarrow> int \<Rightarrow> int \<Rightarrow> int \<Rightarrow> int \<Rightarrow> bucket \<Rightarrow> bool" where
  "bucket_inv m i r t0 now a b \<longleftrightarrow>
     bucket_ok m now b \<and> b_refilledAt b + ceil_div (m - b_tokens b) r * i \<le> b_expireAt b \<and>
     (\<exists>n. 0 \<le> n \<and> a + b_tokens b \<le> m + r * n \<and> n * i \<le> b_refilledAt b - t0)"

lemma effective_inv:
  assumes pos: "0 < i" "0 < r" "0 < m" and inv: "st key = Some b" "bucket_inv m i r t0 now a b" "now \<le> t"
    and eff: "effective m i r t key st = (ra, k)"
  shows "ra \<le> t \<and> 0 \<le> k \<and> k \<le> m \<and> (\<exists>n. 0 \<le> n \<and> a + k \<le> m + r * n \<and> n * i \<le> ra - t0)"
proof (cases "b_expireAt b \<le> t")
  case True
  then have e: "ra = t" "k = m" using eff inv(1) pos by (auto simp: effective_def hmget_def refill_def)
  obtain n where n: "0 \<le> n" "a + b_tokens b \<le> m + r * n" "n * i \<le> b_refilledAt b - t0"
    using inv(2) by (auto simp: bucket_inv_def)
  define c where "c = ceil_div (m - b_tokens b) r"
  have c: "m - b_tokens b \<le> c * r" using ceil_div_bounds [OF pos(2)] by (simp add: c_def)
  have "0 < m - b_tokens b" using inv(2) by (simp add: bucket_inv_def bucket_ok_def)
  then have "0 < c" using c pos(2) by (metis less_le_trans zero_less_mult_pos2)
  moreover have "b_refilledAt b + c * i \<le> t" using inv(2) True by (simp add: bucket_inv_def c_def)
  moreover have "a + m \<le> m + r * (n + c)" using n(2) c by (simp add: algebra_simps)
  ultimately show ?thesis using e n pos by (auto intro!: exI [of _ "n + c"] simp: algebra_simps)
next
  case False
  then have e: "refill m i r t (b_refilledAt b, b_tokens b) = (ra, k)"
    using eff inv(1) by (simp add: effective_def hmget_def)
  have ok: "b_refilledAt b \<le> t" "0 \<le> b_tokens b" "b_tokens b \<le> m"
    using inv(2,3) by (auto simp: bucket_inv_def bucket_ok_def)
  note rb = refill_bounds [OF pos(1,2) ok e]
  obtain n where n: "0 \<le> n" "a + b_tokens b \<le> m + r * n" "n * i \<le> b_refilledAt b - t0"
    using inv(2) by (auto simp: bucket_inv_def)
  define q where "q = (ra - b_refilledAt b) div i"
  have q: "0 \<le> q" "q * i = ra - b_refilledAt b"
    using rb(1,8) pos(1) by (auto simp: q_def pos_imp_zdiv_nonneg_iff)
  have "a + k \<le> m + r * (n + q)" using n(2) rb(7) by (simp add: q_def algebra_simps)
  moreover have "(n + q) * i \<le> ra - t0" using n(3) q(2) by (simp add: algebra_simps)
  ultimately show ?thesis using rb(2,4,5) n(1) q(1) by (auto intro!: exI [of _ "n + q"])
qed

fun accepted_calls :: "int \<Rightarrow> int \<Rightarrow> int \<Rightarrow> string \<Rightarrow> int list \<Rightarrow> redis_buckets \<Rightarrow> int" where
  "accepted_calls m i r key [] st = 0"
| "accepted_calls m i r key (t # ts) st =
     (let (res, st') = token_bucket m i r t t key st in
      (if res = Some (Inr ()) then 1 else 0) + accepted_calls m i r key ts st')"

lemma accepted_calls_inv:
  assumes pos: "0 < i" "0 < r" "0 < m"
  shows "st key = Some b \<Longrightarrow> bucket_inv m i r t0 now a b \<Longrightarrow> sorted (now # ts) \<Longrightarrow>
    a + accepted_calls m i r key ts st \<le> m + r * ((last (now # ts) - t0) div i)"
proof (induction ts arbitrary: st b now a)
  case Nil
  then obtain n where n: "0 \<le> n" "a + b_tokens b \<le> m + r * n" "n * i \<le> b_refilledAt b - t0"
    "0 \<le> b_tokens b" "b_refilledAt b \<le> now" by (auto simp: bucket_inv_def bucket_ok_def)
  then have "n \<le> (now - t0) div i" using pos(1) by (auto simp: le_div_iff)
  then have "r * n \<le> r * ((now - t0) div i)" using pos(2) by simp
  then show ?case using n(2,4) by simp
next
  case (Cons t ts)
  obtain ra k where eff: "effective m i r t key st = (ra, k)" by fastforce
  have "now \<le> t" using Cons.prems(3) by simp
  note ei = effective_inv [OF pos Cons.prems(1,2) this eff]
  have tb: "token_bucket m i r t t key st =
    (if k = 0 then (Some (Inl (RateLimitExceeded ((ra + i) div 1000))), st)
     else (Some (Inr ()), st(key \<mapsto> \<lparr> b_refilledAt = ra, b_tokens = k - 1,
        b_expireAt = t + ceil_div (m - (k - 1)) r * i \<rparr>)))"
    using token_bucket_effective [OF eff] ei by blast
  show ?case
  proof (cases "k = 0")
    case True
    have "bucket_inv m i r t0 t a b"
      using Cons.prems(2) \<open>now \<le> t\<close> by (auto simp: bucket_inv_def bucket_ok_def)
    then show ?thesis using Cons.IH [of st b t a, OF Cons.prems(1)] Cons.prems(3) tb True by simp
  next
    case False
    let ?b = "\<lparr> b_refilledAt = ra, b_tokens = k - 1, b_expireAt = t + ceil_div (m - (k - 1)) r * i \<rparr>"
    have inv': "bucket_inv m i r t0 t (a + 1) ?b"
      using ei False by (auto simp: bucket_inv_def bucket_ok_def)
    define st' where "st' = st(key \<mapsto> ?b)"
    have "(a + 1) + accepted_calls m i r key ts st' \<le> m + r * ((last (t # ts) - t0) div i)"
      using Cons.prems(3) by (intro Cons.IH [OF _ inv']) (simp_all add: st'_def)
    moreover have "accepted_calls m i r key (t # ts) st = 1 + accepted_calls m i r key ts st'"
      using tb False by (simp add: st'_def)
    ultimately show ?thesis by simp
  qed
qed

text \<open>
  The rate limit holds: from an unused key, calls at non-decreasing times \<open>t # ts\<close> are accepted at
  most \<open>max_tokens + refill_rate * (elapsed / interval)\<close> times in all, however they are spread, and
  although Redis forgets the key when its expiry passes.
\<close>

theorem rate_limit_bound:
  assumes "0 < i" "0 < r" "0 < m" "st key = None" "sorted (t # ts)"
  shows "accepted_calls m i r key (t # ts) st \<le> m + r * ((last (t # ts) - t) div i)"
proof -
  have eff: "effective m i r t key st = (t, m)"
    using assms by (simp add: effective_def hmget_def refill_def)
  let ?b = "\<lparr> b_refilledAt = t, b_tokens = m - 1, b_expireAt = t + ceil_div (m - (m - 1)) r * i \<rparr>"
  have tb: "token_bucket m i r t t key st = (Some (Inr ()), st(key \<mapsto> ?b))"
    using token_bucket_effective [OF eff] assms(3) by simp
  have "bucket_inv m i r t t 1 ?b"
    using assms by (auto simp: bucket_inv_def bucket_ok_def intro!: exI [of _ 0])
  from accepted_calls_inv [OF assms(1-3), of "st(key \<mapsto> ?b)" key ?b, OF _ this assms(5)] tb
  show ?thesis by simp
qed

theorem rate_limit_bound_witness:
  "accepted_calls 2 1000 1 ''k'' [0, 1, 2, 1500] Map.empty \<le> 2 + 1 * ((1500 - 0) div 1000)"
  using rate_limit_bound [of 1000 1 2 Map.empty "''k''" 0 "[1, 2, 1500]"] by simp

text \<open>
  A call is refused exactly when the bucket, after refilling, is empty; a refusal changes
  nothing and names the second at which a token is due, and a call at or after that time (in
  milliseconds) is accepted.
\<close>

theorem rate_limit_refusal:
  assumes "0 < i" "0 < r" "0 < m" "buckets_ok m now st"
    and "token_bucket m i r now now key st = (Some (Inl (RateLimitExceeded reset)), st')"
  shows "\<exists>ra. effective m i r now key st = (ra, 0) \<and> st' = st \<and> reset = (ra + i) div 1000 \<and> now < ra + i \<and>
    (\<forall>later. ra + i \<le> later \<longrightarrow> fst (token_bucket m i r later later key st) = Some (Inr ()))"
proof -
  obtain ra k where eff: "effective m i r now key st = (ra, k)" by fastforce
  have range: "0 \<le> k \<and> (k = 0 \<longrightarrow> (\<exists>b. st key = Some b \<and> \<not> b_expireAt b \<le> now \<and>
      refill m i r now (b_refilledAt b, b_tokens b) = (ra, 0) \<and> now < ra + i \<and> b_tokens b = 0 \<and> ra = b_refilledAt b))"
  proof (cases "hmget now key st")
    case None
    then show ?thesis using eff assms(1,3) by (simp add: effective_def refill_def)
  next
    case (Some p)
    then obtain b where b: "st key = Some b" "\<not> b_expireAt b \<le> now" "p = (b_refilledAt b, b_tokens b)"
      by (auto simp: hmget_def split: option.splits if_splits)
    have ok: "b_refilledAt b \<le> now" "0 \<le> b_tokens b" "b_tokens b \<le> m"
      using assms(4) b(1) unfolding buckets_ok_def bucket_ok_def by (meson less_imp_le)+
    have e: "refill m i r now (b_refilledAt b, b_tokens b) = (ra, k)"
      using eff Some b by (simp add: effective_def)
    note rb = refill_bounds [OF assms(1,2) ok e]
    have "k = 0 \<Longrightarrow> ra = b_refilledAt b"
    proof (rule ccontr)
      assume "k = 0" "ra \<noteq> b_refilledAt b"
      then have "b_tokens b = 0" "now \<ge> b_refilledAt b + i"
        using rb(6) ok e by (auto simp: refill_def Let_def split: if_splits)
      moreover from this have "1 \<le> (now - b_refilledAt b) div i"
        using assms(1) by (simp add: le_div_iff)
      then have "0 < (now - b_refilledAt b) div i * r" using assms(2) by simp
      ultimately show False using e \<open>k = 0\<close> assms(3) by (simp add: refill_def Let_def min_def split: if_splits)
    qed
    then show ?thesis using rb b e ok by auto
  qed
  have tb: "token_bucket m i r now now key st =
    (if k = 0 then (Some (Inl (RateLimitExceeded ((ra + i) div 1000))), st)
     else (Some (Inr ()), st(key \<mapsto> \<lparr> b_refilledAt = ra, b_tokens = k - 1,
        b_expireAt = now + ceil_div (m - (k - 1)) r * i \<rparr>)))"
    using token_bucket_effective [OF eff] range assms(3) by simp
  with assms(5) have k0: "k = 0" and res: "st' = st" "reset = (ra + i) div 1000" by (auto split: if_splits)
  then obtain b where b: "st key = Some b" "now < ra + i" "b_tokens b = 0" "ra = b_refilledAt b"
    using range assms(3) by auto
  have later: "fst (token_bucket m i r later later key st) = Some (Inr ())" if "ra + i \<le> later" for later
  proof -
    obtain ra' k' where e': "effective m i r later key st = (ra', k')" by fastforce
    have "0 < k'"
    proof (cases "b_expireAt b \<le> later")
      case True
      then show ?thesis using e' b(1) assms(1,3) by (auto simp: effective_def hmget_def refill_def)
    next
      case False
      have "1 \<le> (later - ra) div i" using that assms(1) by (simp add: le_div_iff)
      then have "0 < (later - ra) div i * r" using assms(2) by simp
      then show ?thesis
        using e' b that False assms(3) by (auto simp: effective_def hmget_def refill_def Let_def)
    qed
    then show ?thesis using token_bucket_effective [OF e'] by simp
  qed
  show ?thesis using eff k0 res b(2) later by auto
qed

theorem rate_limit_refusal_witness:
  "\<exists>st. buckets_ok 1 5 st \<and> token_bucket 1 1000 1 5 5 ''k'' st = (Some (Inl (RateLimitExceeded 1)), st) \<and>
     fst (token_bucket 1 1000 1 1000 1000 ''k'' st) = Some (Inr ())"
proof -
  let ?st = "[''k'' \<mapsto> \<lparr> b_refilledAt = 0, b_tokens = 0, b_expireAt = 1000 \<rparr>]"
  have eff: "effective 1 1000 1 5 ''k'' ?st = (0, 0)" by (simp add: effective_def hmget_def refill_def)
  have ok: "buckets_ok 1 5 ?st" by (simp add: buckets_ok_def bucket_ok_def)
  have ref: "token_bucket 1 1000 1 5 5 ''k'' ?st = (Some (Inl (RateLimitExceeded 1)), ?st)"
    using token_bucket_effective [OF eff] by simp
  show ?thesis
    using rate_limit_refusal [OF _ _ _ ok ref] ok ref eff by (intro exI [of _ ?st]) simp
qed

end
