(* ===== verification/Batcher.thy ===== *)
theory Batcher
  imports Prelude
begin

text \<open>
  The batcher of \<open>src/src/services/relay_mailbox_clearing_service.rs\<close>: receipts of relay messages
  are collected into batches. The task is a state machine driven by what the channel gives it:
  an item, the timeout of a receive, or the end of the channel. Whether the output channel is
  still open is part of the event. An \<open>assert!\<close> that fails is the status \<open>Panicked\<close>.
\<close>

definition BATCH_SIZE :: nat where
  "BATCH_SIZE = 500"

datatype batcher_status = Running | Stopped | Panicked

record 'a batcher =
  batch_buffer :: "'a list"
  batches_sent :: "'a list list"
  batcher_status :: batcher_status

datatype 'a batcher_event = Received 'a | TimedOut | ChannelClosed

definition batcher_init :: "'a batcher" where
  "batcher_init = \<lparr> batch_buffer = [], batches_sent = [], batcher_status = Running \<rparr>"

text \<open>\<open>send_batch\<close> and the \<open>if let\<close> around it; \<open>output_open\<close> says whether \<open>send\<close> succeeds.\<close>

definition send_batch :: "nat \<Rightarrow> bool \<Rightarrow> 'a batcher \<Rightarrow> 'a batcher" where
  "send_batch MAX_BATCH_SIZE output_open s =
     (let batch = batch_buffer s in
      if batch = [] \<or> \<not> length batch \<le> MAX_BATCH_SIZE then s\<lparr> batcher_status := Panicked \<rparr>
      else if \<not> output_open then s\<lparr> batch_buffer := [], batcher_status := Stopped \<rparr>
      else s\<lparr> batch_buffer := [], batches_sent := batches_sent s @ [batch] \<rparr>)"

text \<open>One iteration of the loop. With an empty buffer there is no timer, so \<open>TimedOut\<close> cannot happen.\<close>

definition batcher_step :: "nat \<Rightarrow> 'a batcher_event \<times> bool \<Rightarrow> 'a batcher \<Rightarrow> 'a batcher" where
  "batcher_step MAX_BATCH_SIZE e s =
     (if batcher_status s \<noteq> Running then s
      else if batch_buffer s = []
      then (case fst e of
              Received item \<Rightarrow> s\<lparr> batch_buffer := [item] \<rparr>
            | ChannelClosed \<Rightarrow> s\<lparr> batcher_status := Stopped \<rparr>
            | TimedOut \<Rightarrow> s)
      else (case fst e of
              Received item \<Rightarrow>
                let s' = s\<lparr> batch_buffer := batch_buffer s @ [item] \<rparr> in
                if MAX_BATCH_SIZE \<le> length (batch_buffer s')
                then send_batch MAX_BATCH_SIZE (snd e) s' else s'
            | ChannelClosed \<Rightarrow> s\<lparr> batcher_status := Stopped \<rparr>
            | TimedOut \<Rightarrow> send_batch MAX_BATCH_SIZE (snd e) s))"

definition batcher_run :: "nat \<Rightarrow> ('a batcher_event \<times> bool) list \<Rightarrow> 'a batcher \<Rightarrow> 'a batcher" where
  "batcher_run MAX_BATCH_SIZE = fold (batcher_step MAX_BATCH_SIZE)"

fun received :: "('a batcher_event \<times> bool) list \<Rightarrow> 'a list" where
  "received [] = []"
| "received ((Received x, _) # es) = x # received es"
| "received ((TimedOut, _) # es) = received es"
| "received ((ChannelClosed, _) # es) = []"

definition batcher_inv :: "nat \<Rightarrow> 'a batcher \<Rightarrow> bool" where
  "batcher_inv N s \<longleftrightarrow>
     batcher_status s \<noteq> Panicked \<and> length (batch_buffer s) < N \<and>
     (\<forall>b \<in> set (batches_sent s). b \<noteq> [] \<and> length b \<le> N)"

lemma batcher_step_inv: "2 \<le> N \<Longrightarrow> batcher_inv N s \<Longrightarrow> batcher_inv N (batcher_step N e s)"
  by (auto simp: batcher_inv_def batcher_step_def send_batch_def Let_def split: batcher_event.splits)

interpretation batcher500: event_system batcher_init "batcher_step BATCH_SIZE" "batcher_inv BATCH_SIZE"
  by unfold_locales
    (simp add: batcher_inv_def batcher_init_def BATCH_SIZE_def, rule batcher_step_inv, simp_all add: BATCH_SIZE_def)

lemma batcher_step_received:
  assumes "2 \<le> N" "batcher_inv N s" "batcher_status s = Running"
  shows "concat (batches_sent (batcher_step N (e, True) s)) @ batch_buffer (batcher_step N (e, True) s) =
      concat (batches_sent s) @ batch_buffer s @ (case e of Received x \<Rightarrow> [x] | _ \<Rightarrow> [])"
    and "batcher_status (batcher_step N (e, True) s) = (if e = ChannelClosed then Stopped else Running)"
  using assms
  by (auto simp: batcher_step_def send_batch_def batcher_inv_def Let_def split: batcher_event.splits)

lemma batcher_run_stopped: "batcher_status s = Stopped \<Longrightarrow> batcher_run N es s = s"
  by (induction es arbitrary: s) (auto simp: batcher_run_def batcher_step_def)

lemma batcher_run_received:
  assumes "2 \<le> N"
  shows "batcher_inv N s \<Longrightarrow> batcher_status s = Running \<Longrightarrow> list_all snd es \<Longrightarrow>
    concat (batches_sent (batcher_run N es s)) @ batch_buffer (batcher_run N es s) =
      concat (batches_sent s) @ batch_buffer s @ received es"
proof (induction es arbitrary: s)
  case (Cons ev es)
  obtain e where ev: "ev = (e, True)" using Cons.prems(3) by (cases ev) auto
  let ?s = "batcher_step N (e, True) s"
  have run: "batcher_run N (ev # es) s = batcher_run N es ?s" by (simp add: batcher_run_def ev)
  have inv: "batcher_inv N ?s" by (rule batcher_step_inv [OF assms Cons.prems(1)])
  note st = batcher_step_received [OF assms Cons.prems(1,2), of e]
  show ?case
  proof (cases "e = ChannelClosed")
    case True
    with st have "batcher_status ?s = Stopped" by simp
    then show ?thesis using st run True ev by (simp add: batcher_run_stopped)
  next
    case False
    with st have "batcher_status ?s = Running" by simp
    then have "concat (batches_sent (batcher_run N es ?s)) @ batch_buffer (batcher_run N es ?s) =
        concat (batches_sent ?s) @ batch_buffer ?s @ received es"
      using Cons.IH [OF inv] Cons.prems(3) by simp
    then show ?thesis using st run False ev by (cases e) simp_all
  qed
qed (simp add: batcher_run_def)

text \<open>
  The batcher, with its size of 500 (or any size from 2), never fails its assertions, sends only
  batches of 1 to \<open>MAX_BATCH_SIZE\<close> items, and as long as the output is open loses, duplicates and
  reorders nothing: the batches sent followed by the buffer are the items received.
\<close>

theorem batcher_correct:
  assumes "2 \<le> N"
  shows "(let s = batcher_run N es batcher_init in
     batcher_status s \<noteq> Panicked \<and> length (batch_buffer s) < N \<and>
     (\<forall>b \<in> set (batches_sent s). b \<noteq> [] \<and> length b \<le> N) \<and>
     (list_all snd es \<longrightarrow> concat (batches_sent s) @ batch_buffer s = received es))"
proof -
  have init: "batcher_inv N batcher_init" using assms by (simp add: batcher_inv_def batcher_init_def)
  have "event_system batcher_init (batcher_step N) (batcher_inv N)"
    by unfold_locales (use init batcher_step_inv [OF assms] in auto)
  from event_system.run_inv [OF this] have "batcher_inv N (batcher_run N es batcher_init)"
    unfolding batcher_run_def .
  then show ?thesis
    using batcher_run_received [OF assms init, of es]
    by (auto simp: Let_def batcher_inv_def batcher_init_def)
qed

theorem batcher_correct_witness:
  "let s = batcher_run 2 [(Received (1 :: nat), True), (Received 2, True), (Received 3, True), (TimedOut, True)] batcher_init in
   concat (batches_sent s) @ batch_buffer s = [1, 2, 3] \<and> batches_sent s = [[1, 2], [3]]"
  using batcher_correct [of 2 "[(Received (1 :: nat), True), (Received 2, True), (Received 3, True), (TimedOut, True)]"]
  by (simp add: Let_def batcher_run_def batcher_step_def send_batch_def batcher_init_def)

text \<open>
  When the input channel closes, the items still in the buffer are never sent: the batches are
  those sent before, whatever comes later.
\<close>

theorem batcher_close_drops_buffer:
  assumes "batcher_status s = Running"
  shows "batches_sent (batcher_run N ((ChannelClosed, b) # es) s) = batches_sent s \<and>
    batch_buffer (batcher_run N ((ChannelClosed, b) # es) s) = batch_buffer s"
proof -
  have "batcher_step N (ChannelClosed, b) s = s\<lparr> batcher_status := Stopped \<rparr>"
    using assms by (simp add: batcher_step_def)
  then have "batcher_run N ((ChannelClosed, b) # es) s = s\<lparr> batcher_status := Stopped \<rparr>"
    using batcher_run_stopped [of "s\<lparr> batcher_status := Stopped \<rparr>" N es] by (simp add: batcher_run_def)
  then show ?thesis by simp
qed

theorem batcher_close_drops_buffer_witness:
  "batches_sent (batcher_run 500 [(ChannelClosed, True)]
     (batcher_run 500 [(Received (1 :: nat), True), (Received 2, True)] batcher_init)) = []"
  using batcher_close_drops_buffer
    [of "batcher_run 500 [(Received (1 :: nat), True), (Received 2, True)] batcher_init" 500 True "[]"]
  by (simp add: batcher_run_def batcher_step_def batcher_init_def Let_def)

end
