(* ===== verification/Mailbox.thy ===== *)
theory Mailbox
  imports Batcher
begin

text \<open>
  The service that clears the server's mailbox on the relay (\<open>start\<close> of
  \<open>src/src/services/relay_mailbox_clearing_service.rs\<close>), as steps of its parts: the webhook's handlers
  send receipts into a channel of 1000, the batcher takes them, its batches wait in a channel of ten,
  and a second task passes them to the relay one at a time. The batcher's own step is \<open>batcher_step\<close>.
\<close>

definition RECEIPTS_QUEUE_SIZE :: nat where
  "RECEIPTS_QUEUE_SIZE = 1000"

definition BATCHES_QUEUE_SIZE :: nat where
  "BATCHES_QUEUE_SIZE = 10"

text \<open>
  \<open>mb_output\<close> holds the batches in the channel and, when that is full, the batch whose \<open>send\<close> waits;
  \<open>mb_flying\<close> is the batch of the call under way; \<open>mb_cleared\<close> the batches the relay was called with and
  what it said; \<open>mb_received\<close> all receipts the handlers have sent.
\<close>

record 'a mailbox =
  mb_received :: "'a list"
  mb_input :: "'a list"
  mb_batcher :: "'a batcher"
  mb_output :: "'a list list"
  mb_flying :: "'a list option"
  mb_cleared :: "('a list \<times> (unit, string) result) list"
  mb_running :: bool

definition mailbox_start :: "'a mailbox" where
  "mailbox_start = \<lparr> mb_received = [], mb_input = [], mb_batcher = batcher_init, mb_output = [], mb_flying = None,
     mb_cleared = [], mb_running = True \<rparr>"

text \<open>The batcher makes an iteration; what it sends joins the output.\<close>

definition batcher_turn :: "'a batcher_event \<Rightarrow> 'a mailbox \<Rightarrow> 'a mailbox" where
  "batcher_turn e s =
     (let b = batcher_step BATCH_SIZE (e, True) (mb_batcher s) in
      s\<lparr> mb_batcher := b, mb_output := mb_output s @ drop (length (batches_sent (mb_batcher s))) (batches_sent b) \<rparr>)"

text \<open>
  What the service does by itself. The batcher's receive times out only when the channel is empty; it
  is held up while a batch of its waits. An error of the relay is only logged.
\<close>

inductive mailbox_work :: "'a mailbox \<Rightarrow> 'a mailbox \<Rightarrow> bool" where
  take_receipt: "mb_running s \<Longrightarrow> length (mb_output s) \<le> BATCHES_QUEUE_SIZE \<Longrightarrow> mb_input s = x # xs \<Longrightarrow>
    mailbox_work s (batcher_turn (Received x) (s\<lparr> mb_input := xs \<rparr>))"
| time_out: "mb_running s \<Longrightarrow> length (mb_output s) \<le> BATCHES_QUEUE_SIZE \<Longrightarrow> mb_input s = [] \<Longrightarrow>
    batch_buffer (mb_batcher s) \<noteq> [] \<Longrightarrow> mailbox_work s (batcher_turn TimedOut s)"
| take_batch: "mb_running s \<Longrightarrow> mb_flying s = None \<Longrightarrow> mb_output s = b # bs \<Longrightarrow>
    mailbox_work s (s\<lparr> mb_output := bs, mb_flying := Some b \<rparr>)"
| batch_received: "mb_running s \<Longrightarrow> mb_flying s = Some b \<Longrightarrow>
    mailbox_work s (s\<lparr> mb_flying := None, mb_cleared := mb_cleared s @ [(b, r)] \<rparr>)"

text \<open>With the senders and the end of the server, whose \<open>select!\<close> drops the service.\<close>

inductive mailbox_step :: "'a mailbox \<Rightarrow> 'a mailbox \<Rightarrow> bool" where
  work: "mailbox_work s t \<Longrightarrow> mailbox_step s t"
| send: "mb_running s \<Longrightarrow> length (mb_input s) < RECEIPTS_QUEUE_SIZE \<Longrightarrow>
    mailbox_step s (s\<lparr> mb_received := mb_received s @ [x], mb_input := mb_input s @ [x] \<rparr>)"
| drop: "mb_running s \<Longrightarrow> mailbox_step s (s\<lparr> mb_running := False \<rparr>)"

section \<open>Invariant\<close>

definition mb_order :: "'a mailbox \<Rightarrow> 'a list" where
  "mb_order s = concat (map fst (mb_cleared s)) @ (case mb_flying s of None \<Rightarrow> [] | Some b \<Rightarrow> b) @
     concat (mb_output s) @ batch_buffer (mb_batcher s) @ mb_input s"

definition batch_ok :: "'a list \<Rightarrow> bool" where
  "batch_ok b \<longleftrightarrow> b \<noteq> [] \<and> length b \<le> BATCH_SIZE"

definition mailbox_inv :: "'a mailbox \<Rightarrow> bool" where
  "mailbox_inv s \<longleftrightarrow> mb_order s = mb_received s \<and> length (mb_input s) \<le> RECEIPTS_QUEUE_SIZE \<and>
     batcher_inv BATCH_SIZE (mb_batcher s) \<and> batcher_status (mb_batcher s) = Running \<and>
     length (mb_output s) \<le> Suc BATCHES_QUEUE_SIZE \<and>
     (\<forall>b \<in> set (mb_output s). batch_ok b) \<and> (\<forall>b. mb_flying s = Some b \<longrightarrow> batch_ok b) \<and>
     (\<forall>(b, r) \<in> set (mb_cleared s). batch_ok b)"

text \<open>An iteration of the batcher on an item or a timeout: nothing is sent, or the buffer as one batch.\<close>

lemma batcher_turn_cases:
  assumes "batcher_inv BATCH_SIZE b" "batcher_status b = Running" "e \<noteq> ChannelClosed" "e = TimedOut \<longrightarrow> batch_buffer b \<noteq> []"
  defines "b' \<equiv> batcher_step BATCH_SIZE (e, True) b"
  shows "batcher_inv BATCH_SIZE b' \<and> batcher_status b' = Running \<and>
    (\<exists>items. items = batch_buffer b @ (case e of Received x \<Rightarrow> [x] | _ \<Rightarrow> []) \<and>
      (drop (length (batches_sent b)) (batches_sent b') = [] \<and> batch_buffer b' = items \<and> e \<noteq> TimedOut \<or>
       drop (length (batches_sent b)) (batches_sent b') = [items] \<and> batch_buffer b' = [] \<and> batch_buffer b \<noteq> [] \<and> batch_ok items))"
proof -
  have inv: "batcher_inv BATCH_SIZE b'"
    unfolding b'_def by (rule batcher_step_inv [OF _ assms(1)]) (simp add: BATCH_SIZE_def)
  have len: "length (batch_buffer b) < BATCH_SIZE" using assms(1) by (simp add: batcher_inv_def)
  show ?thesis
  proof (cases e)
    case (Received x)
    consider "batch_buffer b = []" | "batch_buffer b \<noteq> []" "Suc (length (batch_buffer b)) < BATCH_SIZE"
      | "batch_buffer b \<noteq> []" "Suc (length (batch_buffer b)) = BATCH_SIZE"
      using len by linarith
    then show ?thesis
      by cases (use inv assms(2) Received in \<open>simp_all add: b'_def batcher_step_def send_batch_def Let_def batch_ok_def\<close>)
  next
    case TimedOut
    then show ?thesis
      using inv assms(2,4) len by (simp add: b'_def batcher_step_def send_batch_def Let_def batch_ok_def)
  qed (use assms(3) in simp)
qed

lemma batcher_turn_inv:
  assumes "mailbox_inv s" "e \<noteq> ChannelClosed" "e = TimedOut \<longrightarrow> batch_buffer (mb_batcher s) \<noteq> []"
    and "length (mb_output s) \<le> BATCHES_QUEUE_SIZE"
    and "mb_input s = (case e of Received x \<Rightarrow> [x] | _ \<Rightarrow> []) @ xs"
  shows "mailbox_inv (batcher_turn e (s\<lparr> mb_input := xs \<rparr>))"
proof -
  let ?b = "mb_batcher s"
  have "batcher_inv BATCH_SIZE ?b" "batcher_status ?b = Running" using assms(1) by (simp_all add: mailbox_inv_def)
  from batcher_turn_cases [OF this assms(2,3)] show ?thesis
    using assms(1,4,5)
    by (auto simp: batcher_turn_def mailbox_inv_def mb_order_def Let_def simp del: length_drop drop_eq_Nil)
qed

lemma mb_input_same: "mb_input s = [] \<Longrightarrow> s\<lparr> mb_input := [] \<rparr> = s"
  by (cases s) simp

lemma mailbox_work_inv:
  assumes "mailbox_work s t" "mailbox_inv s"
  shows "mailbox_inv t"
  using assms(1)
proof (cases rule: mailbox_work.cases)
  case (take_receipt x xs)
  then show ?thesis using batcher_turn_inv [OF assms(2), of "Received x" xs] by simp
next
  case time_out
  then show ?thesis using batcher_turn_inv [OF assms(2), of TimedOut "[]"] mb_input_same [of s] by simp
next
  case (take_batch b bs)
  then show ?thesis using assms(2) by (auto simp: mailbox_inv_def mb_order_def)
next
  case (batch_received b r)
  then show ?thesis using assms(2) by (auto simp: mailbox_inv_def mb_order_def)
qed

interpretation mailboxes: transition_system "\<lambda>s. s = mailbox_start" mailbox_step mailbox_inv
proof unfold_locales
  fix s :: "'a mailbox" assume "s = mailbox_start"
  then show "mailbox_inv s"
    by (simp add: mailbox_inv_def mailbox_start_def mb_order_def batcher_inv_def batcher_init_def BATCH_SIZE_def)
next
  fix s t :: "'a mailbox" assume inv: "mailbox_inv s" and "mailbox_step s t"
  from this(2) show "mailbox_inv t"
  proof (cases rule: mailbox_step.cases)
    case work
    then show ?thesis using inv by (rule mailbox_work_inv)
  next
    case (send x)
    then show ?thesis using inv by (simp add: mailbox_inv_def mb_order_def)
  next
    case drop
    then show ?thesis using inv by (simp add: mailbox_inv_def mb_order_def)
  qed
qed

section \<open>Progress\<close>

definition mb_measure :: "'a mailbox \<Rightarrow> nat" where
  "mb_measure s = 4 * length (mb_input s) + (if batch_buffer (mb_batcher s) = [] then 0 else 3) +
     2 * length (mb_output s) + (if mb_flying s = None then 0 else 1)"

lemma batcher_turn_measure:
  assumes "mailbox_inv s" "e \<noteq> ChannelClosed" "e = TimedOut \<longrightarrow> batch_buffer (mb_batcher s) \<noteq> []"
    and "mb_input s = (case e of Received x \<Rightarrow> [x] | _ \<Rightarrow> []) @ xs"
  shows "mb_measure (batcher_turn e (s\<lparr> mb_input := xs \<rparr>)) < mb_measure s"
proof -
  have "batcher_inv BATCH_SIZE (mb_batcher s)" "batcher_status (mb_batcher s) = Running"
    using assms(1) by (simp_all add: mailbox_inv_def)
  from batcher_turn_cases [OF this assms(2,3)] show ?thesis
    using assms(2,4)
    by (cases e) (auto simp: batcher_turn_def mb_measure_def Let_def simp del: length_drop drop_eq_Nil)
qed

lemma mailbox_work_measure:
  assumes "mailbox_work s t" "mailbox_inv s"
  shows "mb_measure t < mb_measure s"
  using assms(1)
proof (cases rule: mailbox_work.cases)
  case (take_receipt x xs)
  then show ?thesis using batcher_turn_measure [OF assms(2), of "Received x" xs] by simp
next
  case time_out
  then show ?thesis using batcher_turn_measure [OF assms(2), of TimedOut "[]"] mb_input_same [of s] by simp
qed (auto simp: mb_measure_def)

lemma mailbox_works:
  assumes "(mailbox_work ^^ n) s t" "mailbox_inv s"
  shows "mailbox_inv t \<and> n + mb_measure t \<le> mb_measure s"
  using assms
proof (induction n arbitrary: t)
  case (Suc n)
  then obtain u where u: "(mailbox_work ^^ n) s u" "mailbox_work u t" by auto
  from Suc.IH [OF u(1) Suc.prems(2)] mailbox_work_inv [OF u(2)] mailbox_work_measure [OF u(2)] show ?case by force
qed simp

text \<open>The service has work to do as long as a receipt is not cleared.\<close>

lemma mailbox_work_enabled:
  assumes "mb_running s" "concat (map fst (mb_cleared s)) \<noteq> mb_order s"
  shows "\<exists>t. mailbox_work s t"
proof (cases "mb_flying s")
  case (Some b)
  then show ?thesis using batch_received [OF assms(1), of b "Inr ()"] by blast
next
  case None
  show ?thesis
  proof (cases "mb_output s")
    case (Cons b bs)
    then show ?thesis using take_batch [OF assms(1) None] by blast
  next
    case Nil
    show ?thesis
    proof (cases "mb_input s")
      case (Cons x xs)
      then show ?thesis using take_receipt [OF assms(1) _ Cons] Nil by auto
    next
      case Nil': Nil
      then have "batch_buffer (mb_batcher s) \<noteq> []" using assms(2) None Nil by (simp add: mb_order_def)
      then show ?thesis using time_out [OF assms(1) _ Nil'] Nil by auto
    qed
  qed
qed

text \<open>
  C27. Receipts get to the relay. However the handlers, the batcher, the relay's answers and the
  timeouts interleave, the receipts the handlers sent are, in their order and each once, those the
  relay was called with, then those of the call under way, in the output channel, in the buffer and
  in the input channel; every call has 1 to 500 receipts and at most 7499 are underway. Left alone
  with a relay that answers, the service makes at most 4 steps for each receipt in the input channel
  and 26 more, and when it has nothing left to do the relay was called with all receipts; a call that
  fails is not repeated.
\<close>

theorem receipts_cleared:
  assumes "mailbox_step\<^sup>*\<^sup>* mailbox_start s"
  shows "concat (map fst (mb_cleared s)) @ (case mb_flying s of None \<Rightarrow> [] | Some b \<Rightarrow> b) @ concat (mb_output s) @
      batch_buffer (mb_batcher s) @ mb_input s = mb_received s \<and>
    (\<forall>(b, r) \<in> set (mb_cleared s). b \<noteq> [] \<and> length b \<le> 500) \<and>
    length (mb_received s) \<le> length (concat (map fst (mb_cleared s))) + 7499 \<and>
    (\<forall>n t. (mailbox_work ^^ n) s t \<longrightarrow> n \<le> 4 * length (mb_input s) + 26 \<and>
       (mb_running t \<and> (\<forall>u. \<not> mailbox_work t u) \<longrightarrow> concat (map fst (mb_cleared t)) = mb_received t))"
proof (intro conjI allI impI)
  have inv: "mailbox_inv s" using assms by (rule mailboxes.reachable_inv [OF refl])
  then show order: "concat (map fst (mb_cleared s)) @ (case mb_flying s of None \<Rightarrow> [] | Some b \<Rightarrow> b) @ concat (mb_output s) @
      batch_buffer (mb_batcher s) @ mb_input s = mb_received s"
    by (simp add: mailbox_inv_def mb_order_def)
  show "\<forall>(b, r) \<in> set (mb_cleared s). b \<noteq> [] \<and> length b \<le> 500"
    using inv by (auto simp: mailbox_inv_def batch_ok_def BATCH_SIZE_def)
  have "length (concat bs) \<le> 500 * length bs" if "\<forall>b \<in> set bs. batch_ok b" for bs :: "'a list list"
    using that by (induction bs) (auto simp: batch_ok_def BATCH_SIZE_def)
  then have "length (concat (mb_output s)) \<le> 500 * length (mb_output s)" using inv by (simp add: mailbox_inv_def)
  moreover have "length (mb_output s) \<le> 11" "length (mb_input s) \<le> 1000" "length (batch_buffer (mb_batcher s)) < 500"
    "\<forall>b. mb_flying s = Some b \<longrightarrow> length b \<le> 500"
    using inv by (auto simp: mailbox_inv_def batch_ok_def batcher_inv_def BATCH_SIZE_def BATCHES_QUEUE_SIZE_def RECEIPTS_QUEUE_SIZE_def)
  ultimately show "length (mb_received s) \<le> length (concat (map fst (mb_cleared s))) + 7499"
    unfolding order [symmetric] by (cases "mb_flying s") auto
  fix n t assume run: "(mailbox_work ^^ n) s t"
  note t = mailbox_works [OF run inv]
  have "mb_measure s \<le> 4 * length (mb_input s) + 26"
    using inv by (auto simp: mb_measure_def mailbox_inv_def BATCHES_QUEUE_SIZE_def)
  then show "n \<le> 4 * length (mb_input s) + 26" using t by simp
  assume "mb_running t \<and> (\<forall>u. \<not> mailbox_work t u)"
  then show "concat (map fst (mb_cleared t)) = mb_received t"
    using mailbox_work_enabled [of t] t by (auto simp: mailbox_inv_def)
qed

section \<open>Witness\<close>

text \<open>One receipt, sent by a handler.\<close>

theorem receipts_cleared_witness:
  "\<exists>s. mailbox_step\<^sup>*\<^sup>* mailbox_start s \<and> mb_received s = [7 :: nat] \<and> mb_cleared s = [] \<and>
     (\<forall>n t. (mailbox_work ^^ n) s t \<longrightarrow> n \<le> 30)"
proof -
  have "mailbox_step mailbox_start (mailbox_start\<lparr> mb_received := [7 :: nat], mb_input := [7] \<rparr>)"
    using mailbox_step.send [of mailbox_start "7 :: nat"] by (simp add: mailbox_start_def RECEIPTS_QUEUE_SIZE_def)
  then have run: "mailbox_step\<^sup>*\<^sup>* mailbox_start (mailbox_start\<lparr> mb_received := [7 :: nat], mb_input := [7] \<rparr>)" by blast
  show ?thesis
    using receipts_cleared [OF run] run
    by (intro exI [of _ "mailbox_start\<lparr> mb_received := [7 :: nat], mb_input := [7] \<rparr>"]) (auto simp: mailbox_start_def)
qed

end
