(* ===== verification/Claims.thy ===== *)
theory Claims
  imports Notification_Store
begin

text \<open>
  The JWT claims of \<open>src/src/auth.rs\<close>. The derived \<open>Deserialize\<close> and \<open>Serialize\<close> instances are
  functions between the records and \<open>json\<close>: a repeated field is an error, an unknown one is
  ignored, a missing one is an error unless it is optional or has a default, and \<open>flatten\<close>
  reads and writes the members of the inner struct in the outer object. Requests are parsed and
  responses are printed, the directions the server uses.
\<close>

section \<open>Reading and writing fields\<close>

type_synonym 'a parsed = "('a, string) result"

definition jfield :: "string \<Rightarrow> (string \<times> json) list \<Rightarrow> json option parsed" where
  "jfield nm ms =
     (case filter (\<lambda>m. fst m = nm) ms of
        [] \<Rightarrow> Inr None
      | [m] \<Rightarrow> Inr (Some (snd m))
      | _ \<Rightarrow> Inl (''duplicate field '' @ nm))"

definition as_string :: "json \<Rightarrow> string parsed" where
  "as_string j = (case j of JString s \<Rightarrow> Inr s | _ \<Rightarrow> Inl ''expected a string'')"

definition as_bool :: "json \<Rightarrow> bool parsed" where
  "as_bool j = (case j of JBool b \<Rightarrow> Inr b | _ \<Rightarrow> Inl ''expected a boolean'')"

definition as_u64 :: "json \<Rightarrow> u64 parsed" where
  "as_u64 j =
     (case j of
        JInt i \<Rightarrow> if 0 \<le> i \<and> i < 2 ^ 64 then Inr (of_int i) else Inl ''expected u64''
      | _ \<Rightarrow> Inl ''expected u64'')"

definition as_uuid :: "ext \<Rightarrow> json \<Rightarrow> uuid parsed" where
  "as_uuid X j = rbind (as_string j) (\<lambda>s. ok_or (uuid_parse X s) ''invalid uuid'')"

definition as_array :: "json \<Rightarrow> json list parsed" where
  "as_array j = (case j of JArray xs \<Rightarrow> Inr xs | _ \<Rightarrow> Inl ''expected an array'')"

definition as_object :: "json \<Rightarrow> (string \<times> json) list parsed" where
  "as_object j = (case j of JObject ms \<Rightarrow> Inr ms | _ \<Rightarrow> Inl ''expected an object'')"

text \<open>
  A struct without flattened or defaulted members is read from an object or from an array with
  exactly its members in order.
\<close>

definition as_struct :: "string list \<Rightarrow> json \<Rightarrow> (string \<times> json) list parsed" where
  "as_struct names j =
     (case j of
        JObject ms \<Rightarrow> Inr ms
      | JArray vs \<Rightarrow> if length vs = length names then Inr (zip names vs) else Inl ''invalid length''
      | _ \<Rightarrow> Inl ''expected a struct'')"

definition as_option :: "(json \<Rightarrow> 'a parsed) \<Rightarrow> json \<Rightarrow> 'a option parsed" where
  "as_option f j = (case j of JNull \<Rightarrow> Inr None | _ \<Rightarrow> map_ok Some (f j))"

definition req_field :: "(json \<Rightarrow> 'a parsed) \<Rightarrow> string \<Rightarrow> (string \<times> json) list \<Rightarrow> 'a parsed" where
  "req_field f nm ms =
     rbind (jfield nm ms) (\<lambda>v. case v of None \<Rightarrow> Inl (''missing field '' @ nm) | Some j \<Rightarrow> f j)"

definition default_field :: "(json \<Rightarrow> 'a parsed) \<Rightarrow> 'a \<Rightarrow> string \<Rightarrow> (string \<times> json) list \<Rightarrow> 'a parsed" where
  "default_field f dflt nm ms =
     rbind (jfield nm ms) (\<lambda>v. case v of None \<Rightarrow> Inr dflt | Some j \<Rightarrow> f j)"

definition jopt :: "('a \<Rightarrow> json) \<Rightarrow> 'a option \<Rightarrow> json" where
  "jopt f v = (case v of None \<Rightarrow> JNull | Some x \<Rightarrow> f x)"

definition ju64 :: "u64 \<Rightarrow> json" where
  "ju64 w = JInt (uint w)"

definition juuid :: "ext \<Rightarrow> uuid \<Rightarrow> json" where
  "juuid X u = JString (uuid_to_string X u)"

section \<open>\<open>DidWeb\<close>\<close>

text \<open>A \<open>DidWeb\<close> is its domain.\<close>

type_synonym DidWeb = string

definition DID_METHOD_WEB :: string where
  "DID_METHOD_WEB = ''web''"

definition DidWeb_from :: "ext \<Rightarrow> string \<Rightarrow> (DidWeb, string) result" where
  "DidWeb_from X did_web = extract_did_data X did_web DID_METHOD_WEB"

definition DidWeb_to_string :: "ext \<Rightarrow> DidWeb \<Rightarrow> string" where
  "DidWeb_to_string X domain = combine_did_data X DID_METHOD_WEB domain"

definition as_did_web :: "ext \<Rightarrow> json \<Rightarrow> DidWeb parsed" where
  "as_did_web X j = rbind (as_string j) (DidWeb_from X)"

definition jdid_web :: "ext \<Rightarrow> DidWeb \<Rightarrow> json" where
  "jdid_web X d = JString (DidWeb_to_string X d)"

section \<open>Shared claims\<close>

record SharedClaims =
  iat :: u64
  exp_claim :: u64
  iss :: string
  aud :: string
  act :: string
  mjv :: string

definition default_mjv :: string where
  "default_mjv = ''0''"

definition SharedClaims_from_json :: "(string \<times> json) list \<Rightarrow> SharedClaims parsed" where
  "SharedClaims_from_json ms =
     rbind (req_field as_u64 ''iat'' ms) (\<lambda>c_iat.
     rbind (req_field as_u64 ''exp'' ms) (\<lambda>c_exp.
     rbind (req_field as_string ''iss'' ms) (\<lambda>c_iss.
     rbind (req_field as_string ''aud'' ms) (\<lambda>c_aud.
     rbind (req_field as_string ''act'' ms) (\<lambda>c_act.
     rbind (default_field as_string default_mjv ''mjv'' ms) (\<lambda>c_mjv.
       Inr \<lparr> iat = c_iat, exp_claim = c_exp, iss = c_iss, aud = c_aud, act = c_act, mjv = c_mjv \<rparr>))))))"

definition SharedClaims_to_json :: "SharedClaims \<Rightarrow> (string \<times> json) list" where
  "SharedClaims_to_json c =
     [(''iat'', ju64 (iat c)), (''exp'', ju64 (exp_claim c)), (''iss'', JString (iss c)),
      (''aud'', JString (aud c)), (''act'', JString (act c)), (''mjv'', JString (mjv c))]"

text \<open>\<open>now + ttl\<close>, with the time to live in seconds.\<close>

definition add_ttl :: "datetime \<Rightarrow> nat \<Rightarrow> datetime" where
  "add_ttl now ttl = now + int ttl * 1000000"

definition timestamp :: "datetime \<Rightarrow> int" where
  "timestamp t = t div 1000000"

definition timestamp_millis :: "datetime \<Rightarrow> int" where
  "timestamp_millis t = t div 1000"

text \<open>\<open>i64::unsigned_abs\<close>.\<close>

definition unsigned_abs :: "int \<Rightarrow> u64" where
  "unsigned_abs i = of_int \<bar>i\<bar>"

section \<open>Requests\<close>

text \<open>The claims every request of a client has: the key server, the account and the app.\<close>

record WatchSubscriptionsRequestAuth =
  wsr_shared_claims :: SharedClaims
  wsr_ksu :: string
  wsr_sub :: string
  wsr_app :: "DidWeb option"

definition WatchSubscriptionsRequestAuth_from_json :: "ext \<Rightarrow> json \<Rightarrow> WatchSubscriptionsRequestAuth parsed" where
  "WatchSubscriptionsRequestAuth_from_json X j =
     rbind (as_object j) (\<lambda>ms.
     rbind (SharedClaims_from_json ms) (\<lambda>c.
     rbind (req_field as_string ''ksu'' ms) (\<lambda>c_ksu.
     rbind (req_field as_string ''sub'' ms) (\<lambda>c_sub.
     rbind (default_field (as_option (as_did_web X)) None ''app'' ms) (\<lambda>c_app.
       Inr \<lparr> wsr_shared_claims = c, wsr_ksu = c_ksu, wsr_sub = c_sub, wsr_app = c_app \<rparr>)))))"

record AppRequestAuth =
  ar_shared_claims :: SharedClaims
  ar_ksu :: string
  ar_sub :: string
  ar_app :: DidWeb

definition AppRequestAuth_from_members :: "ext \<Rightarrow> (string \<times> json) list \<Rightarrow> AppRequestAuth parsed" where
  "AppRequestAuth_from_members X ms =
     rbind (SharedClaims_from_json ms) (\<lambda>c.
     rbind (req_field as_string ''ksu'' ms) (\<lambda>c_ksu.
     rbind (req_field as_string ''sub'' ms) (\<lambda>c_sub.
     rbind (req_field (as_did_web X) ''app'' ms) (\<lambda>c_app.
       Inr \<lparr> ar_shared_claims = c, ar_ksu = c_ksu, ar_sub = c_sub, ar_app = c_app \<rparr>))))"

definition MessageResponseAuth_from_json :: "ext \<Rightarrow> json \<Rightarrow> AppRequestAuth parsed" where
  "MessageResponseAuth_from_json X j = rbind (as_object j) (AppRequestAuth_from_members X)"

definition SubscriptionDeleteRequestAuth_from_json :: "ext \<Rightarrow> json \<Rightarrow> AppRequestAuth parsed" where
  "SubscriptionDeleteRequestAuth_from_json X j = rbind (as_object j) (AppRequestAuth_from_members X)"

record SubscriptionRequestAuth =
  srq_base :: AppRequestAuth
  srq_scp :: string

definition scoped_from_json :: "ext \<Rightarrow> json \<Rightarrow> SubscriptionRequestAuth parsed" where
  "scoped_from_json X j =
     rbind (as_object j) (\<lambda>ms.
     rbind (AppRequestAuth_from_members X ms) (\<lambda>b.
     rbind (req_field as_string ''scp'' ms) (\<lambda>c_scp.
       Inr \<lparr> srq_base = b, srq_scp = c_scp \<rparr>)))"

definition SubscriptionRequestAuth_from_json :: "ext \<Rightarrow> json \<Rightarrow> SubscriptionRequestAuth parsed" where
  "SubscriptionRequestAuth_from_json = scoped_from_json"

definition SubscriptionUpdateRequestAuth_from_json :: "ext \<Rightarrow> json \<Rightarrow> SubscriptionRequestAuth parsed" where
  "SubscriptionUpdateRequestAuth_from_json = scoped_from_json"

text \<open>The parameters the two requests flatten, with their names on the wire.\<close>

definition GetNotificationsParams_from_members ::
  "ext \<Rightarrow> (string \<times> json) list \<Rightarrow> GetNotificationsParams parsed" where
  "GetNotificationsParams_from_members X ms =
     rbind (req_field as_u64 ''lmt'' ms) (\<lambda>lmt.
     rbind (default_field (as_option (as_uuid X)) None ''aft'' ms) (\<lambda>aft.
     rbind (default_field as_bool False ''urf'' ms) (\<lambda>urf.
       Inr \<lparr> gp_limit = unat lmt, gp_after = aft, gp_unread_first = urf \<rparr>)))"

definition MarkNotificationsAsReadParams_from_members ::
  "ext \<Rightarrow> (string \<times> json) list \<Rightarrow> MarkNotificationsAsReadParams parsed" where
  "MarkNotificationsAsReadParams_from_members X ms =
     rbind (req_field as_bool ''all'' ms) (\<lambda>all.
     rbind (default_field (as_option (\<lambda>v. rbind (as_array v) (collect_results (as_uuid X)))) None ''ids'' ms) (\<lambda>ids.
       Inr \<lparr> mr_all = all, mr_ids = ids \<rparr>))"

record SubscriptionGetNotificationsRequestAuth =
  gnr_base :: AppRequestAuth
  gnr_params :: GetNotificationsParams

definition SubscriptionGetNotificationsRequestAuth_from_json ::
  "ext \<Rightarrow> json \<Rightarrow> SubscriptionGetNotificationsRequestAuth parsed" where
  "SubscriptionGetNotificationsRequestAuth_from_json X j =
     rbind (as_object j) (\<lambda>ms.
     rbind (AppRequestAuth_from_members X ms) (\<lambda>b.
     rbind (GetNotificationsParams_from_members X ms) (\<lambda>p.
       Inr \<lparr> gnr_base = b, gnr_params = p \<rparr>)))"

record SubscriptionMarkNotificationsAsReadRequestAuth =
  mnr_base :: AppRequestAuth
  mnr_params :: MarkNotificationsAsReadParams

definition SubscriptionMarkNotificationsAsReadRequestAuth_from_json ::
  "ext \<Rightarrow> json \<Rightarrow> SubscriptionMarkNotificationsAsReadRequestAuth parsed" where
  "SubscriptionMarkNotificationsAsReadRequestAuth_from_json X j =
     rbind (as_object j) (\<lambda>ms.
     rbind (AppRequestAuth_from_members X ms) (\<lambda>b.
     rbind (MarkNotificationsAsReadParams_from_members X ms) (\<lambda>p.
       Inr \<lparr> mnr_base = b, mnr_params = p \<rparr>)))"

section \<open>Responses\<close>

record NotifyServerSubscription =
  nss_app_domain :: string
  nss_app_authentication_key :: string
  nss_sym_key :: string
  nss_account :: AccountId
  nss_scope :: "uuid set"
  nss_expiry :: u64
  nss_unread_notification_count :: u64

definition NotifyServerSubscription_to_json :: "ext \<Rightarrow> NotifyServerSubscription \<Rightarrow> json" where
  "NotifyServerSubscription_to_json X s = JObject
     [(''appDomain'', JString (nss_app_domain s)),
      (''appAuthenticationKey'', JString (nss_app_authentication_key s)),
      (''symKey'', JString (nss_sym_key s)), (''account'', JString (nss_account s)),
      (''scope'', JArray (map (juuid X) (sorted_list_of_set (nss_scope s)))),
      (''expiry'', ju64 (nss_expiry s)),
      (''unreadNotificationCount'', ju64 (nss_unread_notification_count s))]"

definition WatchSubscriptionsResponseAuth_to_json ::
  "ext \<Rightarrow> SharedClaims \<Rightarrow> string \<Rightarrow> NotifyServerSubscription list \<Rightarrow> json" where
  "WatchSubscriptionsResponseAuth_to_json X c c_sub sbs = JObject (SharedClaims_to_json c @
     [(''sub'', JString c_sub), (''sbs'', JArray (map (NotifyServerSubscription_to_json X) sbs))])"

definition WatchSubscriptionsChangedRequestAuth_to_json ::
  "ext \<Rightarrow> SharedClaims \<Rightarrow> string \<Rightarrow> NotifyServerSubscription list \<Rightarrow> json" where
  "WatchSubscriptionsChangedRequestAuth_to_json X c c_sub sbs = JObject (SharedClaims_to_json c @
     [(''sub'', JString c_sub), (''sbs'', JArray (map (NotifyServerSubscription_to_json X) sbs))])"

text \<open>\<open>SubscriptionResponseAuth\<close>, \<open>SubscriptionUpdateResponseAuth\<close> and \<open>SubscriptionDeleteResponseAuth\<close>.\<close>

definition SubscriptionResponseAuth_to_json ::
  "ext \<Rightarrow> SharedClaims \<Rightarrow> string \<Rightarrow> DidWeb \<Rightarrow> NotifyServerSubscription list \<Rightarrow> json" where
  "SubscriptionResponseAuth_to_json X c c_sub c_app sbs = JObject (SharedClaims_to_json c @
     [(''sub'', JString c_sub), (''app'', jdid_web X c_app),
      (''sbs'', JArray (map (NotifyServerSubscription_to_json X) sbs))])"

definition GetNotification_to_json :: "ext \<Rightarrow> GetNotification \<Rightarrow> json" where
  "GetNotification_to_json X n = JObject
     [(''id'', juuid X (gn_id n)), (''sent_at'', JInt (gn_sent_at n)), (''type'', juuid X (gn_type n)),
      (''title'', JString (gn_title n)), (''body'', JString (gn_body n)),
      (''icon'', jopt JString (gn_icon n)), (''url'', jopt JString (gn_url n)),
      (''is_read'', JBool (gn_is_read n))]"

definition SubscriptionGetNotificationsResponseAuth_to_json ::
  "ext \<Rightarrow> SharedClaims \<Rightarrow> string \<Rightarrow> DidWeb \<Rightarrow> GetNotificationsResult \<Rightarrow> json" where
  "SubscriptionGetNotificationsResponseAuth_to_json X c c_sub c_app r = JObject (SharedClaims_to_json c @
     [(''sub'', JString c_sub), (''app'', jdid_web X c_app),
      (''nfs'', JArray (map (GetNotification_to_json X) (gr_notifications r))),
      (''mre'', JBool (gr_has_more r)), (''mur'', JBool (gr_has_more_unread r))])"

definition SubscriptionMarkNotificationsAsReadResponseAuth_to_json ::
  "ext \<Rightarrow> SharedClaims \<Rightarrow> string \<Rightarrow> DidWeb \<Rightarrow> json" where
  "SubscriptionMarkNotificationsAsReadResponseAuth_to_json X c c_sub c_app = JObject (SharedClaims_to_json c @
     [(''sub'', JString c_sub), (''app'', jdid_web X c_app)])"

end
