(* ===== verification/Recap.thy ===== *)
theory Recap
  imports Claims "HOL-Library.Multiset"
begin

text \<open>
  ERC-5573 recaps: \<open>src/src/siwx/erc5573.rs\<close> and the constants of \<open>notify_recap.rs\<close>. A \<open>HashMap\<close>
  is an association list with distinct keys in its iteration order, which is unspecified; the
  statement a recap must come with does not depend on that order.
\<close>

record Ability =
  namespace :: string
  ability_name :: string

definition Ability_to_string :: "Ability \<Rightarrow> string" where
  "Ability_to_string a = namespace a @ ''/'' @ ability_name a"

text \<open>
  The classes of \<open>^([a-zA-Z0-9.*_+-]+)\/([a-zA-z0-9.*_+-]+)$\<close>. The second range is \<open>A-z\<close>, which
  also holds the six characters between \<open>Z\<close> and \<open>a\<close>.
\<close>

definition ability_ns_char :: "char \<Rightarrow> bool" where
  "ability_ns_char c \<longleftrightarrow> is_lower_az c \<or> is_upper_az c \<or> is_digit c \<or> c \<in> set ''.*_+-''"

definition ability_name_char :: "char \<Rightarrow> bool" where
  "ability_name_char c \<longleftrightarrow>
     is_lower_az c \<or> (CHR ''A'' \<le> c \<and> c \<le> CHR ''z'') \<or> is_digit c \<or> c \<in> set ''.*_+-''"

text \<open>No class holds the slash, so the parts around the only slash are the captures.\<close>

definition Ability_from_str :: "string \<Rightarrow> Ability parsed" where
  "Ability_from_str s =
     (case split_once CHR ''/'' s of
        Some (ns, nm) \<Rightarrow>
          if ns \<noteq> [] \<and> list_all ability_ns_char ns \<and> nm \<noteq> [] \<and> list_all ability_name_char nm
          then Inr \<lparr> namespace = ns, ability_name = nm \<rparr> else Inl ''Ability string invalid''
      | None \<Rightarrow> Inl ''Ability string invalid'')"

type_synonym recap_abilities = "(Ability \<times> json list) list"

record ReCapDetailsObject =
  att :: "(string \<times> recap_abilities) list"

text \<open>Reading a map from the members of an object: a later member replaces an earlier one.\<close>

fun dedup_last :: "('k \<times> 'v) list \<Rightarrow> ('k \<times> 'v) list" where
  "dedup_last [] = []"
| "dedup_last ((k, v) # ms) = (if k \<in> fst ` set ms then dedup_last ms else (k, v) # dedup_last ms)"

definition abilities_from_json :: "json \<Rightarrow> recap_abilities parsed" where
  "abilities_from_json j =
     rbind (as_object j) (\<lambda>ms.
       map_ok dedup_last (collect_results (\<lambda>(k, v).
         rbind (Ability_from_str k) (\<lambda>a. map_ok (Pair a) (as_array v))) ms))"

definition ReCapDetailsObject_from_json :: "json \<Rightarrow> ReCapDetailsObject parsed" where
  "ReCapDetailsObject_from_json j =
     rbind (as_struct [''att''] j) (\<lambda>ms.
     rbind (req_field (\<lambda>v. rbind (as_object v) (\<lambda>us.
              map_ok dedup_last (collect_results (\<lambda>(u, a). map_ok (Pair u) (abilities_from_json a)) us)))
            ''att'' ms) (\<lambda>a. Inr \<lparr> att = a \<rparr>))"

datatype RecapParseError =
    RecapDecode string
  | RecapJson string
  | RecapInvalidUri string

definition RECAP_URI_PREFIX :: string where
  "RECAP_URI_PREFIX = ''urn:recap:''"

text \<open>\<open>^.+:.*$\<close>: no line feed, and a colon after the first character.\<close>

definition uri_regex :: "string \<Rightarrow> bool" where
  "uri_regex s \<longleftrightarrow> CHR 0x0A \<notin> set s \<and> CHR '':'' \<in> set (tl s)"

definition parse_recap :: "ext \<Rightarrow> string option \<Rightarrow> (ReCapDetailsObject option, RecapParseError) result" where
  "parse_recap X last_resource =
     (case last_resource of
        None \<Rightarrow> Inr None
      | Some resource \<Rightarrow>
          (case strip_prefix RECAP_URI_PREFIX resource of
             None \<Rightarrow> Inr None
           | Some recap_encoded \<Rightarrow>
               rbind (map_err RecapDecode (b64_url_no_pad_decode X recap_encoded)) (\<lambda>decoded.
               rbind (map_err RecapJson (rbind (json_from_slice X decoded) ReCapDetailsObject_from_json)) (\<lambda>recap.
                 case find (\<lambda>uri. \<not> uri_regex uri \<and> uri \<noteq> ''eip155'') (map fst (att recap)) of
                   Some uri \<Rightarrow> Inl (RecapInvalidUri uri)
                 | None \<Rightarrow> Inr (Some recap)))))"

section \<open>The statement\<close>

definition ability_groups :: "Ability list \<Rightarrow> (string \<times> string list) list" where
  "ability_groups as =
     map (\<lambda>ns. (ns, map ability_name (filter (\<lambda>a. namespace a = ns) as))) (remdups (map namespace as))"

text \<open>Decimal notation of the running index.\<close>

fun nat_to_string :: "nat \<Rightarrow> string" where
  "nat_to_string n =
     (if n < 10 then [char_of (48 + n)] else nat_to_string (n div 10) @ [char_of (48 + n mod 10)])"

declare nat_to_string.simps [simp del]

definition quoted :: "string \<Rightarrow> string" where
  "quoted s = CHR 0x27 # s @ [CHR 0x27]"

text \<open>The groups of all URIs in the order the two sorted loops visit them.\<close>

definition statement_groups :: "ReCapDetailsObject \<Rightarrow> (string \<times> string \<times> string list) list" where
  "statement_groups recap =
     concat (map (\<lambda>(uri, abilities).
         map (\<lambda>(ns, names). (uri, ns, sort names))
           (sort_key fst (ability_groups (map fst abilities))))
       (sort_key fst (att recap)))"

fun statement_actions :: "nat \<Rightarrow> (string \<times> string \<times> string list) list \<Rightarrow> string" where
  "statement_actions i [] = []"
| "statement_actions i ((uri, ns, names) # gs) =
     '' ('' @ nat_to_string i @ '') '' @ quoted ns @ '':'' @
     join_with '','' (map (\<lambda>nm. '' '' @ quoted nm) names) @ '' for '' @ quoted uri @ ''.'' @
     statement_actions (Suc i) gs"

definition build_statement :: "ReCapDetailsObject \<Rightarrow> string" where
  "build_statement recap =
     ''I further authorize the stated URI to perform the following actions on my behalf:'' @
     statement_actions 1 (statement_groups recap)"

definition NOTIFY_URI :: string where "NOTIFY_URI = ''https://notify.walletconnect.com''"
definition ABILITY_NAMESPACE_MANAGE :: string where "ABILITY_NAMESPACE_MANAGE = ''manage''"
definition ABILITY_ABILITY_ALL_APPS_MAGIC :: string where "ABILITY_ABILITY_ALL_APPS_MAGIC = ''all-apps''"
definition ABILITY_ABILITY_SUFFIX :: string where "ABILITY_ABILITY_SUFFIX = ''-notifications''"

section \<open>Facts\<close>

definition ability_ok :: "Ability \<Rightarrow> bool" where
  "ability_ok a \<longleftrightarrow> namespace a \<noteq> [] \<and> list_all ability_ns_char (namespace a) \<and>
     ability_name a \<noteq> [] \<and> list_all ability_name_char (ability_name a)"

lemma no_slash: "\<not> ability_ns_char CHR ''/''"
  by (simp add: ability_ns_char_def is_lower_az_def is_upper_az_def is_digit_def less_eq_char_def)

interpretation ability: codec_exact ability_ok Ability_to_string Ability_from_str
proof unfold_locales
  fix a assume "ability_ok a"
  moreover from this have "CHR ''/'' \<notin> set (namespace a)"
    using no_slash by (auto simp: ability_ok_def list_all_iff)
  ultimately show "Ability_from_str (Ability_to_string a) = Inr a"
    by (simp add: Ability_from_str_def Ability_to_string_def ability_ok_def)
next
  fix s a assume "Ability_from_str s = Inr a"
  then show "ability_ok a \<and> Ability_to_string a = s"
    by (auto simp: Ability_from_str_def Ability_to_string_def ability_ok_def split_once_Some_iff
        split: option.splits if_splits prod.splits)
qed

text \<open>
  The string form of an ability parses back to it, the parser accepts nothing but string forms,
  and, because of the range \<open>A-z\<close> in the pattern, ability names may hold brackets, backslash,
  caret and backquote, which the namespace may not.
\<close>

theorem ability_roundtrip:
  "(Ability_from_str s = Inr a \<longleftrightarrow> ability_ok a \<and> Ability_to_string a = s) \<and>
   (\<forall>c \<in> set ''[]^`''. ability_name_char c \<and> \<not> ability_ns_char c)"
proof -
  have "\<forall>c \<in> set ''[]^`''. ability_name_char c \<and> \<not> ability_ns_char c"
    by (simp add: ability_name_char_def ability_ns_char_def is_lower_az_def is_upper_az_def is_digit_def
        less_eq_char_def)
  then show ?thesis using ability.dec_iff by blast
qed

theorem ability_roundtrip_witness:
  "Ability_from_str ''manage/all-apps-notifications'' =
     Inr \<lparr> namespace = ''manage'', ability_name = ''all-apps-notifications'' \<rparr> \<and>
   ability_name_char CHR ''['' \<and> \<not> ability_ns_char CHR ''[''"
proof -
  have "ability_ok \<lparr> namespace = ''manage'', ability_name = ''all-apps-notifications'' \<rparr>"
    by (simp add: ability_ok_def ability_ns_char_def ability_name_char_def is_lower_az_def less_eq_char_def)
  then show ?thesis
    using ability_roundtrip [of "''manage/all-apps-notifications''"
        "\<lparr> namespace = ''manage'', ability_name = ''all-apps-notifications'' \<rparr>"]
    by (simp add: Ability_to_string_def)
qed

section \<open>Independence of the iteration order\<close>

lemma sort_alist:
  fixes xs :: "('k :: linorder \<times> 'v) list"
  assumes "distinct (map fst xs)"
  shows "sort_key fst xs = map (\<lambda>k. (k, the (map_of xs k))) (sorted_list_of_set (fst ` set xs))"
proof -
  have "sorted (map fst (sort_key fst xs))" by simp
  moreover have "mset (map fst (sort_key fst xs)) = mset (map fst xs)" by simp
  then have "distinct (map fst (sort_key fst xs))" using assms by (metis mset_eq_imp_distinct_iff)
  moreover have "set (map fst (sort_key fst xs)) = fst ` set xs" by simp
  ultimately have "map fst (sort_key fst xs) = sorted_list_of_set (fst ` set xs)"
    by (metis finite_imageI finite_set sorted_distinct_set_unique sorted_list_of_set.distinct_sorted_key_list_of_set
        sorted_list_of_set.set_sorted_key_list_of_set sorted_list_of_set.sorted_sorted_key_list_of_set list.map_ident)
  moreover have "sort_key fst xs = map (\<lambda>k. (k, the (map_of xs k))) (map fst (sort_key fst xs))"
    using assms by (auto simp: o_def intro!: map_idI [symmetric])
  ultimately show ?thesis by simp
qed

lemma sort_mset_eq: "mset xs = mset ys \<Longrightarrow> sort xs = sort (ys :: 'a :: linorder list)"
  by (metis mset_sort properties_for_sort sorted_sort)

definition sorted_groups :: "Ability list \<Rightarrow> (string \<times> string list) list" where
  "sorted_groups as = map (\<lambda>(ns, names). (ns, sort names)) (sort_key fst (ability_groups as))"

lemma sorted_groups_set:
  assumes "distinct as" "distinct bs" "set as = set bs"
  shows "sorted_groups as = sorted_groups bs"
proof -
  have m: "mset as = mset bs" using assms by (simp add: set_eq_iff_mset_eq_distinct)
  have keys: "fst ` set (ability_groups cs) = namespace ` set cs" "distinct (map fst (ability_groups cs))" for cs
    by (auto simp: ability_groups_def o_def image_image)
  have look: "map_of (ability_groups cs) ns = Some (map ability_name (filter (\<lambda>a. namespace a = ns) cs))"
    if "ns \<in> namespace ` set cs" for ns cs
    using that by (auto simp: ability_groups_def map_of_map_restrict)
  have names: "sort (map ability_name (filter P as)) = sort (map ability_name (filter P bs))" for P
    using m by (intro sort_mset_eq) (metis mset_filter mset_map)
  have "sorted_groups cs = map (\<lambda>ns. (ns, sort (map ability_name (filter (\<lambda>a. namespace a = ns) cs))))
      (sorted_list_of_set (namespace ` set cs))" for cs
    unfolding sorted_groups_def sort_alist [OF keys(2)] keys(1)
    by (auto simp: look)
  then show ?thesis using assms(3) names by simp
qed

definition recap_ok :: "ReCapDetailsObject \<Rightarrow> bool" where
  "recap_ok r \<longleftrightarrow> distinct (map fst (att r)) \<and> (\<forall>(u, ab) \<in> set (att r). distinct (map fst ab))"

text \<open>The abilities a recap lists for a URI.\<close>

definition recap_abilities_of :: "ReCapDetailsObject \<Rightarrow> string \<Rightarrow> Ability set option" where
  "recap_abilities_of r uri = map_option (\<lambda>ab. fst ` set ab) (map_of (att r) uri)"

lemma statement_groups_sorted:
  assumes "recap_ok p"
  shows "statement_groups p = concat (map (\<lambda>uri. map (\<lambda>g. (uri, g))
      (sorted_groups (map fst (the (map_of (att p) uri))))) (sorted_list_of_set (fst ` set (att p))))"
proof -
  have d: "distinct (map fst (att p))" using assms by (simp add: recap_ok_def)
  have inner: "map (\<lambda>(ns, names). (u, ns, sort names)) gs =
      map (\<lambda>g. (u, g)) (map (\<lambda>(ns, names). (ns, sort names)) gs)" for u :: string and gs :: "(string \<times> string list) list"
    by (induction gs) auto
  show ?thesis
    unfolding statement_groups_def sort_alist [OF d] map_map o_def sorted_groups_def prod.case inner ..
qed

lemma recap_same_groups:
  assumes "recap_ok r" "recap_ok q" "recap_abilities_of r uri = recap_abilities_of q uri"
    and "uri \<in> fst ` set (att r)" "uri \<in> fst ` set (att q)"
  shows "sorted_groups (map fst (the (map_of (att r) uri))) = sorted_groups (map fst (the (map_of (att q) uri)))"
proof -
  obtain a b where ab: "map_of (att r) uri = Some a" "map_of (att q) uri = Some b"
    using assms(4,5) by (meson map_of_eq_None_iff not_None_eq)
  then have "set (map fst a) = set (map fst b)"
    using assms(3) by (simp add: recap_abilities_of_def)
  moreover have "distinct (map fst a)" "distinct (map fst b)"
    using assms(1,2) map_of_SomeD [OF ab(1)] map_of_SomeD [OF ab(2)] by (auto simp: recap_ok_def)
  ultimately show ?thesis using ab sorted_groups_set [of "map fst a" "map fst b"] by simp
qed

text \<open>
  C40. The statement a recap requires depends only on which abilities it lists for which URIs, not
  on the iteration order of the hash maps it is stored in.
\<close>

theorem build_statement_order_independent:
  assumes "recap_ok r" "recap_ok q" "recap_abilities_of r = recap_abilities_of q"
  shows "build_statement r = build_statement q"
proof -
  have "dom (recap_abilities_of p) = fst ` set (att p)" for p
  proof -
    have "dom (recap_abilities_of p) = dom (map_of (att p))" by (auto simp: recap_abilities_of_def dom_def)
    then show ?thesis by (simp add: dom_map_of_conv_image_fst)
  qed
  then have uris: "fst ` set (att q) = fst ` set (att r)" using assms(3) by metis
  have "map (\<lambda>uri. map (\<lambda>g. (uri, g)) (sorted_groups (map fst (the (map_of (att r) uri)))))
      (sorted_list_of_set (fst ` set (att r))) =
    map (\<lambda>uri. map (\<lambda>g. (uri, g)) (sorted_groups (map fst (the (map_of (att q) uri)))))
      (sorted_list_of_set (fst ` set (att r)))"
  proof (rule map_cong [OF refl])
    fix uri assume "uri \<in> set (sorted_list_of_set (fst ` set (att r)))"
    then have u: "uri \<in> fst ` set (att r)" by simp
    have "recap_abilities_of r uri = recap_abilities_of q uri" by (simp only: assms(3))
    from recap_same_groups [OF assms(1,2) this u] u uris
    show "map (\<lambda>g. (uri, g)) (sorted_groups (map fst (the (map_of (att r) uri)))) =
      map (\<lambda>g. (uri, g)) (sorted_groups (map fst (the (map_of (att q) uri))))" by simp
  qed
  then have "statement_groups r = statement_groups q"
    by (simp only: statement_groups_sorted [OF assms(1)] statement_groups_sorted [OF assms(2)] uris)
  then show ?thesis by (simp add: build_statement_def)
qed

definition demo_ability :: "string \<Rightarrow> Ability" where
  "demo_ability n = \<lparr> namespace = ''manage'', ability_name = n \<rparr>"

theorem build_statement_order_independent_witness:
  "build_statement \<lparr> att = [(''b:'', [(demo_ability ''x'', [])]), (''a:'', [(demo_ability ''z'', []), (demo_ability ''y'', [])])] \<rparr> =
   build_statement \<lparr> att = [(''a:'', [(demo_ability ''y'', []), (demo_ability ''z'', [])]), (''b:'', [(demo_ability ''x'', [])])] \<rparr>"
  by (rule build_statement_order_independent)
    (auto simp: recap_ok_def recap_abilities_of_def demo_ability_def fun_eq_iff)

end
