(* ===== verification/Storage.thy ===== *)
theory Storage
  imports Externals
begin

text \<open>
  The key-value storage behind the caches (\<open>src/src/registry/storage\<close>): the interface, and Redis with
  its two pools of connections. Redis itself is a map from addresses to stores whose entries may
  expire; the outcome of a connection and of a command are arguments of each call, so that every
  failure the code handles can happen. The MessagePack codec is a parameter.
\<close>

section \<open>Errors and data\<close>

datatype StorageError =
    StorageSerialize
  | StorageDeserialize
  | StorageConnection string
  | StorageOther string

type_synonym 'a storage_result = "('a, StorageError) result"

definition serialize :: "('v \<Rightarrow> bytes option) \<Rightarrow> 'v \<Rightarrow> bytes storage_result" where
  "serialize to_vec v = ok_or (to_vec v) StorageSerialize"

definition deserialize :: "(bytes \<Rightarrow> 'v option) \<Rightarrow> bytes \<Rightarrow> 'v storage_result" where
  "deserialize from_slice bs = ok_or (from_slice bs) StorageDeserialize"

section \<open>Addresses\<close>

definition LOCAL_REDIS_ADDR :: string where
  "LOCAL_REDIS_ADDR = ''redis://localhost:6378/0''"

datatype Addr = Combined string | Separate string string

definition Addr_default :: Addr where
  "Addr_default = Combined LOCAL_REDIS_ADDR"

fun Addr_read :: "Addr \<Rightarrow> string" where
  "Addr_read (Combined addr) = addr"
| "Addr_read (Separate read write) = read"

fun Addr_write :: "Addr \<Rightarrow> string" where
  "Addr_write (Combined addr) = addr"
| "Addr_write (Separate read write) = write"

fun Addr_from :: "string option \<times> string option \<Rightarrow> Addr" where
  "Addr_from (Some read, Some write) = Separate read write"
| "Addr_from (Some addr, None) = Combined addr"
| "Addr_from (None, Some addr) = Combined addr"
| "Addr_from (None, None) = Addr_default"

section \<open>Redis\<close>

text \<open>The value of an entry, as \<open>GET\<close> answers it, and when it expires.\<close>

datatype redis_value = Data bytes | Other_value

type_synonym redis_entry = "redis_value \<times> datetime option"
type_synonym redis_store = "string \<Rightarrow> redis_entry option"
type_synonym redis_servers = "string \<Rightarrow> redis_store"

record Redis =
  read_pool :: string
  write_pool :: string

text \<open>\<open>build_pool\<close> is what the pool's builder makes of a URL and a size.\<close>

definition Redis_new :: "(string \<Rightarrow> nat \<Rightarrow> (unit, string) result) \<Rightarrow> Addr \<Rightarrow> nat \<Rightarrow> Redis storage_result" where
  "Redis_new build_pool addr pool_size =
     rbind (map_err StorageOther (build_pool (Addr_read addr) pool_size)) (\<lambda>_.
     rbind (map_err StorageOther (build_pool (Addr_write addr) pool_size)) (\<lambda>_.
       Inr \<lparr> read_pool = Addr_read addr, write_pool = Addr_write addr \<rparr>))"

text \<open>
  The outcome of getting a connection and of a command. A command that fails may have been carried
  out all the same, when only its answer was lost.
\<close>

record redis_io =
  io_connect :: "(unit, string) result"
  io_command :: "(unit, string) result"
  io_applied :: bool

definition smooth_io :: redis_io where
  "smooth_io = \<lparr> io_connect = Inr (), io_command = Inr (), io_applied = True \<rparr>"

definition live_entry :: "datetime \<Rightarrow> redis_entry option \<Rightarrow> redis_value option" where
  "live_entry now e =
     (case e of None \<Rightarrow> None
      | Some (v, expiry) \<Rightarrow> (case expiry of None \<Rightarrow> Some v | Some t \<Rightarrow> if t \<le> now then None else Some v))"

definition storage_get ::
  "(bytes \<Rightarrow> 'v option) \<Rightarrow> Redis \<Rightarrow> redis_io \<Rightarrow> datetime \<Rightarrow> string \<Rightarrow> redis_servers \<Rightarrow> 'v option storage_result" where
  "storage_get from_slice redis io now key sv =
     rbind (map_err StorageConnection (io_connect io)) (\<lambda>_.
     rbind (map_err StorageOther (io_command io)) (\<lambda>_.
       case live_entry now (sv (read_pool redis) key) of
         None \<Rightarrow> Inr None
       | Some (Data bs) \<Rightarrow> map_ok Some (deserialize from_slice bs)
       | Some Other_value \<Rightarrow> Inl StorageDeserialize))"

definition set_entry :: "string \<Rightarrow> string \<Rightarrow> redis_entry option \<Rightarrow> redis_servers \<Rightarrow> redis_servers" where
  "set_entry addr key e sv = sv(addr := (sv addr)(key := e))"

text \<open>A command that changes an entry at the address of the write pool.\<close>

definition write_command ::
  "Redis \<Rightarrow> redis_io \<Rightarrow> string \<Rightarrow> redis_entry option \<Rightarrow> redis_servers \<Rightarrow> unit storage_result \<times> redis_servers" where
  "write_command redis io key e sv =
     (case io_connect io of
        Inl x \<Rightarrow> (Inl (StorageConnection x), sv)
      | Inr _ \<Rightarrow>
          (case io_command io of
             Inl x \<Rightarrow> (Inl (StorageOther x), if io_applied io then set_entry (write_pool redis) key e sv else sv)
           | Inr _ \<Rightarrow> (Inr (), set_entry (write_pool redis) key e sv)))"

text \<open>\<open>SET\<close>, or \<open>SETEX\<close> with the seconds of the time to live.\<close>

definition as_secs :: "duration \<Rightarrow> int" where
  "as_secs d = d div 1000000"

definition expiry_at :: "datetime \<Rightarrow> duration option \<Rightarrow> datetime option" where
  "expiry_at now ttl = map_option (\<lambda>d. now + as_secs d * 1000000) ttl"

definition set_internal ::
  "Redis \<Rightarrow> redis_io \<Rightarrow> datetime \<Rightarrow> string \<Rightarrow> bytes \<Rightarrow> duration option \<Rightarrow> redis_servers
     \<Rightarrow> unit storage_result \<times> redis_servers" where
  "set_internal redis io now key data ttl = write_command redis io key (Some (Data data, expiry_at now ttl))"

definition storage_set ::
  "('v \<Rightarrow> bytes option) \<Rightarrow> Redis \<Rightarrow> redis_io \<Rightarrow> datetime \<Rightarrow> string \<Rightarrow> 'v \<Rightarrow> duration option \<Rightarrow> redis_servers
     \<Rightarrow> unit storage_result \<times> redis_servers" where
  "storage_set to_vec redis io now key v ttl sv =
     (case serialize to_vec v of Inl e \<Rightarrow> (Inl e, sv) | Inr data \<Rightarrow> set_internal redis io now key data ttl sv)"

definition storage_del :: "Redis \<Rightarrow> redis_io \<Rightarrow> string \<Rightarrow> redis_servers \<Rightarrow> unit storage_result \<times> redis_servers" where
  "storage_del redis io key = write_command redis io key None"

section \<open>The interface\<close>

text \<open>Whether a value that was stored at \<open>t\<close> is gone.\<close>

definition gone :: "datetime \<Rightarrow> duration option \<Rightarrow> datetime \<Rightarrow> bool" where
  "gone t ttl now = (case expiry_at t ttl of None \<Rightarrow> False | Some e \<Rightarrow> e \<le> now)"

text \<open>\<open>KeyValueStorage\<close>: what is stored is found, until it expires or is deleted, and nothing else changes.\<close>

locale key_value_storage =
  fixes get :: "datetime \<Rightarrow> string \<Rightarrow> 's \<Rightarrow> 'v option storage_result"
    and put :: "datetime \<Rightarrow> string \<Rightarrow> 'v \<Rightarrow> duration option \<Rightarrow> 's \<Rightarrow> unit storage_result \<times> 's"
    and del :: "string \<Rightarrow> 's \<Rightarrow> unit storage_result \<times> 's"
  assumes get_put: "put t k v ttl s = (Inr u, s') \<Longrightarrow>
      get now l s' = (if l = k then Inr (if gone t ttl now then None else Some v) else get now l s)"
    and get_del: "del k s = (Inr u, s') \<Longrightarrow> get now l s' = (if l = k then Inr None else get now l s)"
begin

lemma get_put_same: "put t k v ttl s = (Inr u, s') \<Longrightarrow> \<not> gone t ttl now \<Longrightarrow> get now k s' = Inr (Some v)"
  by (simp add: get_put)

lemma put_put:
  assumes "put t k v ttl s = (Inr u, s1)" "put t' k v' ttl' s1 = (Inr u', s2)" "put t' k v' ttl' s = (Inr u'', s3)"
  shows "get now l s2 = get now l s3"
  using get_put [OF assms(1), of now l] get_put [OF assms(2), of now l] get_put [OF assms(3), of now l] by simp

lemma put_del:
  assumes "put t k v ttl s = (Inr u, s1)" "del k s1 = (Inr u', s2)"
  shows "get now l s2 = (if l = k then Inr None else get now l s)"
  using get_put [OF assms(1), of now l] get_del [OF assms(2), of now l] by simp

end

text \<open>A codec whose encoding is read back: \<open>rmp_serde::to_vec\<close> and \<open>from_slice\<close> of one type.\<close>

locale rmp_codec =
  fixes to_vec :: "'v \<Rightarrow> bytes option" and from_slice :: "bytes \<Rightarrow> 'v option"
  assumes from_to: "to_vec v = Some bs \<Longrightarrow> from_slice bs = Some v"
begin

lemma storage_get_set:
  assumes "storage_set to_vec redis smooth_io t k v ttl sv = (Inr u, sv')" "read_pool redis = write_pool redis"
  shows "storage_get from_slice redis smooth_io now l sv' =
    (if l = k then Inr (if gone t ttl now then None else Some v) else storage_get from_slice redis smooth_io now l sv)"
  using assms
  by (auto simp: storage_set_def serialize_def ok_or_def set_internal_def write_command_def smooth_io_def storage_get_def
      set_entry_def live_entry_def gone_def rbind_def map_err_def map_ok_def deserialize_def
      split: option.splits sum.splits dest!: from_to)

lemma storage_get_del:
  assumes "storage_del redis smooth_io k sv = (Inr u, sv')" "read_pool redis = write_pool redis"
  shows "storage_get from_slice redis smooth_io now l sv' =
    (if l = k then Inr None else storage_get from_slice redis smooth_io now l sv)"
  using assms
  by (auto simp: storage_del_def write_command_def smooth_io_def storage_get_def set_entry_def live_entry_def
      rbind_def map_err_def)

end

text \<open>Redis at one address, as long as it answers, is such a storage.\<close>

sublocale rmp_codec \<subseteq> redis: key_value_storage
  "storage_get from_slice \<lparr> read_pool = addr, write_pool = addr \<rparr> smooth_io"
  "storage_set to_vec \<lparr> read_pool = addr, write_pool = addr \<rparr> smooth_io"
  "storage_del \<lparr> read_pool = addr, write_pool = addr \<rparr> smooth_io" for addr
  by unfold_locales (simp_all add: storage_get_set storage_get_del)

text \<open>MessagePack's booleans.\<close>

definition msgpack_from_bool :: "bool \<Rightarrow> bytes option" where
  "msgpack_from_bool b = Some [if b then 0xC3 else 0xC2]"

definition msgpack_to_bool :: "bytes \<Rightarrow> bool option" where
  "msgpack_to_bool bs = (if bs = [0xC3] then Some True else if bs = [0xC2] then Some False else None)"

interpretation booleans: rmp_codec msgpack_from_bool msgpack_to_bool
  by unfold_locales (auto simp: msgpack_from_bool_def msgpack_to_bool_def)

section \<open>Facts\<close>

text \<open>One address serves both pools unless two are configured.\<close>

lemma Addr_from_pools:
  "Addr_read (Addr_from (r, w)) = (case r of Some a \<Rightarrow> a | None \<Rightarrow> (case w of Some a \<Rightarrow> a | None \<Rightarrow> LOCAL_REDIS_ADDR))"
  "Addr_write (Addr_from (r, w)) = (case w of Some a \<Rightarrow> a | None \<Rightarrow> (case r of Some a \<Rightarrow> a | None \<Rightarrow> LOCAL_REDIS_ADDR))"
  by (cases r; cases w; simp add: Addr_default_def)+

lemma Redis_new_ok:
  "Redis_new build addr n = Inr redis \<longleftrightarrow> is_ok (build (Addr_read addr) n) \<and> is_ok (build (Addr_write addr) n) \<and>
     redis = \<lparr> read_pool = Addr_read addr, write_pool = Addr_write addr \<rparr>"
  by (auto simp: Redis_new_def rbind_Inr_iff is_ok_def map_err_def split: sum.splits)

lemma write_command_cases:
  "write_command redis io key e sv = (r, sv') \<Longrightarrow> sv' = sv \<or> sv' = set_entry (write_pool redis) key e sv"
  by (auto simp: write_command_def split: sum.splits if_splits)

lemma storage_set_cases:
  assumes "storage_set to_vec redis io now key v ttl sv = (r, sv')"
  shows "sv' = sv \<or> (\<exists>bs. to_vec v = Some bs \<and> sv' = set_entry (write_pool redis) key (Some (Data bs, expiry_at now ttl)) sv)"
  using assms
  by (auto simp: storage_set_def serialize_def ok_or_def set_internal_def split: option.splits dest!: write_command_cases)

lemma storage_get_Some:
  assumes "storage_get from_slice redis io now key sv = Inr (Some v)"
  shows "\<exists>bs expiry. sv (read_pool redis) key = Some (Data bs, expiry) \<and> from_slice bs = Some v \<and>
    (\<forall>t. expiry = Some t \<longrightarrow> now < t)"
  using assms
  by (auto simp: storage_get_def rbind_Inr_iff live_entry_def deserialize_def ok_or_def map_ok_def
      split: option.splits redis_value.splits if_splits sum.splits)

end
