(* ===== verification/Jwt.thy ===== *)
theory Jwt
  imports Claims
begin

text \<open>
  Signing and verifying JWTs: \<open>sign_jwt\<close> and \<open>from_jwt\<close> of \<open>src/src/auth.rs\<close>, and the message JWTs of
  \<open>src/src/notify_message.rs\<close>. Base64, JSON text and Ed25519 are parameters.
\<close>

datatype JwtError =
    MissingMessage
  | MissingHeader
  | MissingPayload
  | MissingSignature
  | TooManyParts
  | HeaderNotBase64
  | PayloadNotBase64
  | HeaderSerde
  | PayloadSerde
  | UnsupportedAlgorithm
  | JwtExpired
  | JwtNotYetValid
  | IssNotDidKey
  | SignatureVerification
  | InvalidSignature

text \<open>\<open>rsplitn(2, '.')\<close> as (message, signature); the message is missing when there is no dot.\<close>

definition rsplit_dot :: "string \<Rightarrow> string option \<times> string" where
  "rsplit_dot s =
     (case split_once CHR ''.'' (rev s) of
        None \<Rightarrow> (None, s)
      | Some (sig, msg) \<Rightarrow> (Some (rev msg), rev sig))"

text \<open>\<open>u64\<close> addition and subtraction wrap, as release builds do.\<close>

definition jwt_expired :: "datetime \<Rightarrow> SharedClaims \<Rightarrow> bool" where
  "jwt_expired now c \<longleftrightarrow> exp_claim c + 300 \<le> unsigned_abs (timestamp now)"

definition jwt_not_yet_valid :: "datetime \<Rightarrow> SharedClaims \<Rightarrow> bool" where
  "jwt_not_yet_valid now c \<longleftrightarrow> unsigned_abs (timestamp_millis now) < iat c - 300"

definition from_jwt ::
  "ext \<Rightarrow> datetime \<Rightarrow> (json \<Rightarrow> 'c parsed) \<Rightarrow> ('c \<Rightarrow> SharedClaims) \<Rightarrow> string \<Rightarrow> ('c, JwtError) result" where
  "from_jwt X now from_json get_shared_claims jwt =
     (let (message_part, signature_raw) = rsplit_dot jwt in
      rbind (ok_or message_part MissingMessage) (\<lambda>message_raw.
      rbind (case split_once CHR ''.'' message_raw of
               None \<Rightarrow> Inl MissingPayload
             | Some hp \<Rightarrow> Inr hp) (\<lambda>(header_raw, payload_raw).
      rbind (map_err (\<lambda>_. HeaderNotBase64) (b64_std_no_pad_decode X header_raw)) (\<lambda>header.
      rbind (map_err (\<lambda>_. PayloadNotBase64) (b64_std_no_pad_decode X payload_raw)) (\<lambda>payload.
      rbind (map_err (\<lambda>_. HeaderSerde) (jwt_header_from_slice X header)) (\<lambda>alg.
      rbind (map_err (\<lambda>_. PayloadSerde) (rbind (json_from_slice X payload) from_json)) (\<lambda>claims.
      rbind (guard_err (alg \<noteq> jwt_header_alg X) UnsupportedAlgorithm) (\<lambda>_.
      rbind (guard_err (jwt_expired now (get_shared_claims claims)) JwtExpired) (\<lambda>_.
      rbind (guard_err (jwt_not_yet_valid now (get_shared_claims claims)) JwtNotYetValid) (\<lambda>_.
      rbind (map_err (\<lambda>_. IssNotDidKey) (try_from_did_key X (iss (get_shared_claims claims)))) (\<lambda>pub_key.
      rbind (map_err (\<lambda>_. SignatureVerification)
               (jwt_ed_verify X signature_raw (as_bytes message_raw) pub_key)) (\<lambda>sig_result.
        if sig_result then Inr claims else Inl InvalidSignature))))))))))))"

definition sign_jwt :: "ext \<Rightarrow> json \<Rightarrow> bytes \<Rightarrow> string" where
  "sign_jwt X message private_key =
     (let header = b64_url_no_pad_encode X (as_bytes (jwt_header_string X));
          message = b64_url_no_pad_encode X (as_bytes (json_to_string X message));
          message = header @ ''.'' @ message;
          signature = b64_url_no_pad_encode X (ed25519_sign X private_key (as_bytes message))
      in message @ ''.'' @ signature)"

section \<open>Message JWTs\<close>

record JwtNotification =
  jn_id :: uuid
  jn_sent_at :: int
  jn_type :: uuid
  jn_title :: string
  jn_body :: string
  jn_icon :: string
  jn_url :: string
  jn_is_read :: bool

record ProjectSigningDetails =
  psd_decoded_client_id :: bytes
  psd_private_key :: bytes
  psd_app :: DidWeb

definition JwtNotification_to_json :: "ext \<Rightarrow> JwtNotification \<Rightarrow> json" where
  "JwtNotification_to_json X n = JObject
     [(''id'', juuid X (jn_id n)), (''sent_at'', JInt (jn_sent_at n)), (''type'', juuid X (jn_type n)),
      (''title'', JString (jn_title n)), (''body'', JString (jn_body n)), (''icon'', JString (jn_icon n)),
      (''url'', JString (jn_url n)), (''is_read'', JBool (jn_is_read n))]"

text \<open>Names of JWT actions, from \<open>src/src/spec.rs\<close>.\<close>

definition NOTIFY_MESSAGE_ACT :: string where "NOTIFY_MESSAGE_ACT = ''notify_message''"

definition NOTIFY_MESSAGE_TTL :: nat where "NOTIFY_MESSAGE_TTL = T2592000"

record NotifyMessage =
  nm_iat :: int
  nm_exp :: int
  nm_iss :: string
  nm_act :: string
  nm_sub :: string
  nm_app :: DidWeb
  nm_msg :: JwtNotification

definition NotifyMessage_to_json :: "ext \<Rightarrow> NotifyMessage \<Rightarrow> json" where
  "NotifyMessage_to_json X m = JObject
     [(''iat'', JInt (nm_iat m)), (''exp'', JInt (nm_exp m)), (''iss'', JString (nm_iss m)),
      (''act'', JString (nm_act m)), (''sub'', JString (nm_sub m)), (''app'', jdid_web X (nm_app m)),
      (''msg'', JwtNotification_to_json X (nm_msg m))]"

definition sign_message ::
  "ext \<Rightarrow> datetime \<Rightarrow> JwtNotification \<Rightarrow> AccountId \<Rightarrow> ProjectSigningDetails \<Rightarrow> string" where
  "sign_message X now msg account details =
     sign_jwt X (NotifyMessage_to_json X
       \<lparr> nm_iat = timestamp now, nm_exp = timestamp (add_ttl now NOTIFY_MESSAGE_TTL),
         nm_iss = to_did_key X (psd_decoded_client_id details), nm_act = NOTIFY_MESSAGE_ACT,
         nm_sub = to_did_pkh X account, nm_app = psd_app details, nm_msg = msg \<rparr>)
       (psd_private_key details)"

section \<open>Facts\<close>

lemma rsplit_dot_append: "CHR ''.'' \<notin> set sig \<Longrightarrow> rsplit_dot (msg @ CHR ''.'' # sig) = (Some msg, sig)"
  by (simp add: rsplit_dot_def)

lemma rsplit_dot_Some: "rsplit_dot s = (Some msg, sig) \<longleftrightarrow> s = msg @ CHR ''.'' # sig \<and> CHR ''.'' \<notin> set sig"
proof
  assume "rsplit_dot s = (Some msg, sig)"
  then have "rev s = rev sig @ CHR ''.'' # rev msg" "CHR ''.'' \<notin> set (rev sig)"
    by (auto simp: rsplit_dot_def split_once_Some_iff split: option.splits prod.splits)
  then show "s = msg @ CHR ''.'' # sig \<and> CHR ''.'' \<notin> set sig"
    by (metis append.assoc append_Cons append_Nil rev.simps(2) rev_append rev_rev_ident set_rev)
qed (simp add: rsplit_dot_append)

text \<open>
  C3. A JWT the server accepts has a key in its \<open>iss\<close> under which the signature over exactly the
  header and payload text verifies, uses the expected algorithm, carries claims parsed from that
  payload, and passed both time checks.
\<close>

theorem from_jwt_sound:
  assumes "from_jwt X now from_json get_shared jwt = Inr claims"
  shows "\<exists>h p sig payload j k. jwt = h @ ''.'' @ p @ ''.'' @ sig \<and> CHR ''.'' \<notin> set h \<and>
    b64_std_no_pad_decode X p = Inr payload \<and> json_from_slice X payload = Inr j \<and> from_json j = Inr claims \<and>
    (\<exists>hb. b64_std_no_pad_decode X h = Inr hb \<and> jwt_header_from_slice X hb = Inr (jwt_header_alg X)) \<and>
    try_from_did_key X (iss (get_shared claims)) = Inr k \<and>
    jwt_ed_verify X sig (as_bytes (h @ ''.'' @ p)) k = Inr True \<and>
    \<not> jwt_expired now (get_shared claims) \<and> \<not> jwt_not_yet_valid now (get_shared claims)"
proof -
  obtain mp sig where rs: "rsplit_dot jwt = (mp, sig)" by fastforce
  with assms obtain msg where mp: "mp = Some msg" by (auto simp: from_jwt_def rbind_Inr_iff)
  with assms rs obtain h p where hp: "split_once CHR ''.'' msg = Some (h, p)"
    by (auto simp: from_jwt_def rbind_Inr_iff split: option.splits)
  have parts: "jwt = h @ ''.'' @ p @ ''.'' @ sig" "msg = h @ ''.'' @ p" "CHR ''.'' \<notin> set h"
    using rs mp hp by (simp_all add: rsplit_dot_Some split_once_Some_iff)
  from assms rs mp hp obtain hb payload j k where "b64_std_no_pad_decode X h = Inr hb"
    "b64_std_no_pad_decode X p = Inr payload" "jwt_header_from_slice X hb = Inr (jwt_header_alg X)"
    "json_from_slice X payload = Inr j" "from_json j = Inr claims"
    "\<not> jwt_expired now (get_shared claims)" "\<not> jwt_not_yet_valid now (get_shared claims)"
    "try_from_did_key X (iss (get_shared claims)) = Inr k" "jwt_ed_verify X sig (as_bytes msg) k = Inr True"
    by (auto simp: from_jwt_def rbind_Inr_iff split: if_splits)
  with parts show ?thesis by blast
qed

lemma sign_jwt_parts:
  fixes j :: json
  assumes "jwt_laws X"
  defines "h \<equiv> b64_url_no_pad_encode X (as_bytes (jwt_header_string X))"
    and "p \<equiv> b64_url_no_pad_encode X (as_bytes (json_to_string X j))"
  shows "\<exists>sig. rsplit_dot (sign_jwt X j key) = (Some (h @ CHR ''.'' # p), sig) \<and>
    split_once CHR ''.'' (h @ CHR ''.'' # p) = Some (h, p) \<and>
    jwt_ed_verify X sig (as_bytes (h @ CHR ''.'' # p)) (ed25519_verifying_key X key) = Inr True"
proof -
  let ?sig = "b64_url_no_pad_encode X (ed25519_sign X key (as_bytes (h @ ''.'' @ p)))"
  have dots: "CHR ''.'' \<notin> set (b64_url_no_pad_encode X bs)" for bs using assms(1) by (simp add: jwt_laws_def)
  have jwt: "sign_jwt X j key = (h @ CHR ''.'' # p) @ CHR ''.'' # ?sig" by (simp add: sign_jwt_def Let_def h_def p_def)
  have "rsplit_dot (sign_jwt X j key) = (Some (h @ CHR ''.'' # p), ?sig)"
    unfolding jwt by (rule rsplit_dot_append [OF dots])
  moreover have "split_once CHR ''.'' (h @ CHR ''.'' # p) = Some (h, p)" using dots by (simp add: h_def)
  moreover have "jwt_ed_verify X ?sig (as_bytes (h @ CHR ''.'' # p)) (ed25519_verifying_key X key) = Inr True"
    using assms(1) by (simp add: jwt_laws_def)
  ultimately show ?thesis by blast
qed

lemma sign_jwt_accepted:
  assumes "jwt_laws X" "json_from_slice X (as_bytes (json_to_string X j)) = Inr j'" "from_json j' = Inr claims"
    and "try_from_did_key X (iss (get_shared claims)) = Inr (ed25519_verifying_key X key)"
    and "\<not> jwt_expired now (get_shared claims)" "\<not> jwt_not_yet_valid now (get_shared claims)"
    and "\<forall>t \<in> {b64_url_no_pad_encode X (as_bytes (jwt_header_string X)),
            b64_url_no_pad_encode X (as_bytes (json_to_string X j))}. CHR ''-'' \<notin> set t \<and> CHR ''_'' \<notin> set t"
  shows "from_jwt X now from_json get_shared (sign_jwt X j key) = Inr claims"
proof -
  have "b64_std_no_pad_decode X (b64_url_no_pad_encode X bs) = Inr bs"
    if "CHR ''-'' \<notin> set (b64_url_no_pad_encode X bs)" "CHR ''_'' \<notin> set (b64_url_no_pad_encode X bs)" for bs
    using assms(1) that by (simp add: jwt_laws_def)
  moreover have "jwt_header_from_slice X (as_bytes (jwt_header_string X)) = Inr (jwt_header_alg X)"
    using assms(1) by (simp add: jwt_laws_def)
  ultimately show ?thesis
    using sign_jwt_parts [OF assms(1), of j key] assms(2-7) by (auto simp: from_jwt_def)
qed

text \<open>
  C36. A token the server's own \<open>sign_jwt\<close> made for unexpired claims issued by the signing key is
  accepted exactly when neither its header nor its payload text holds \<open>-\<close> or \<open>_\<close>: signing encodes with
  the URL-safe alphabet of JWT, verification decodes with the standard one.
\<close>

theorem sign_jwt_from_jwt:
  assumes "jwt_laws X" "json_from_slice X (as_bytes (json_to_string X j)) = Inr j" "from_json j = Inr claims"
    and "try_from_did_key X (iss (get_shared claims)) = Inr (ed25519_verifying_key X key)"
    and "\<not> jwt_expired now (get_shared claims)" "\<not> jwt_not_yet_valid now (get_shared claims)"
  shows "from_jwt X now from_json get_shared (sign_jwt X j key) = Inr claims \<longleftrightarrow>
    (\<forall>t \<in> {b64_url_no_pad_encode X (as_bytes (jwt_header_string X)),
            b64_url_no_pad_encode X (as_bytes (json_to_string X j))}. CHR ''-'' \<notin> set t \<and> CHR ''_'' \<notin> set t)"
proof
  assume acc: "from_jwt X now from_json get_shared (sign_jwt X j key) = Inr claims"
  have "is_ok (b64_std_no_pad_decode X (b64_url_no_pad_encode X (as_bytes (jwt_header_string X))))"
    "is_ok (b64_std_no_pad_decode X (b64_url_no_pad_encode X (as_bytes (json_to_string X j))))"
    using sign_jwt_parts [OF assms(1), of j key] acc by (auto simp: from_jwt_def rbind_Inr_iff)
  then show "\<forall>t \<in> {b64_url_no_pad_encode X (as_bytes (jwt_header_string X)),
      b64_url_no_pad_encode X (as_bytes (json_to_string X j))}. CHR ''-'' \<notin> set t \<and> CHR ''_'' \<notin> set t"
    using assms(1) unfolding jwt_laws_def by blast
qed (rule sign_jwt_accepted [where get_shared = get_shared and from_json = from_json and j' = j, OF assms])

text \<open>
  C39. The time checks. With \<open>u64\<close> claims in a sane range the expiry check is \<open>exp + 300 \<le> now\<close> in
  seconds, but the issued-at check compares milliseconds with seconds: since any second count of
  this era is far below its millisecond count, a token issued in the future is accepted. A token
  whose \<open>iat\<close> is below 300 is refused, because the subtraction wraps.
\<close>

theorem jwt_time_checks:
  assumes "0 \<le> now" "now < 2 ^ 60"
  shows "(uint (exp_claim c) < 2 ^ 63 \<longrightarrow> (jwt_expired now c \<longleftrightarrow> uint (exp_claim c) + 300 \<le> timestamp now)) \<and>
    (300 \<le> uint (iat c) \<longrightarrow> (jwt_not_yet_valid now c \<longleftrightarrow> timestamp_millis now < uint (iat c) - 300)) \<and>
    (uint (iat c) < 300 \<longrightarrow> jwt_not_yet_valid now c)"
proof -
  have bounds: "0 \<le> timestamp now" "timestamp now < 2 ^ 60" "0 \<le> timestamp_millis now" "timestamp_millis now < 2 ^ 60"
    using assms unfolding timestamp_def timestamp_millis_def by linarith+
  have abs: "uint (unsigned_abs i) = i" if "0 \<le> i" "i < 2 ^ 60" for i
    using that by (simp add: unsigned_abs_def uint_word_of_int take_bit_int_eq_self)
  have "jwt_expired now c \<longleftrightarrow> uint (exp_claim c) + 300 \<le> timestamp now" if "uint (exp_claim c) < 2 ^ 63"
    using that abs [OF bounds(1,2)] by (simp add: jwt_expired_def word_le_def uint_plus_if')
  moreover have "jwt_not_yet_valid now c \<longleftrightarrow> timestamp_millis now < uint (iat c) - 300" if "300 \<le> uint (iat c)"
    using that abs [OF bounds(3,4)] by (simp add: jwt_not_yet_valid_def word_less_def uint_sub_if')
  moreover have "jwt_not_yet_valid now c" if "uint (iat c) < 300"
  proof -
    have "uint (iat c - 300) = uint (iat c) - 300 + 2 ^ 64" using that by (simp add: uint_sub_if')
    moreover have "(2 :: int) ^ 60 + 300 < 2 ^ 64" by simp
    ultimately have "timestamp_millis now < uint (iat c - 300)"
      using bounds(4) uint_ge_0 [of "iat c"] by linarith
    then show ?thesis
      using abs [OF bounds(3,4)] by (simp add: jwt_not_yet_valid_def word_less_def)
  qed
  ultimately show ?thesis by blast
qed

text \<open>Tokens of an era of about \<open>1.7 * 10 ^ 9\<close> seconds.\<close>

definition demo_claims :: "u64 \<Rightarrow> u64 \<Rightarrow> SharedClaims" where
  "demo_claims i e = \<lparr> iat = i, exp_claim = e, iss = did_key_demo (replicate 32 6), aud = ''aud'', act = ''act'', mjv = ''1'' \<rparr>"

theorem jwt_time_checks_witness:
  "\<not> jwt_not_yet_valid 1700000000000000 (demo_claims 1800000000 1800000000) \<and>
   \<not> jwt_expired 1700000000000000 (demo_claims 1800000000 1800000000) \<and>
   jwt_not_yet_valid 1700000000000000 (demo_claims 5 1800000000)"
  using jwt_time_checks [of 1700000000000000 "demo_claims 1800000000 1800000000"]
    jwt_time_checks [of 1700000000000000 "demo_claims 5 1800000000"]
  by (simp add: demo_claims_def timestamp_def timestamp_millis_def)

definition demo_from_json :: "json \<Rightarrow> SharedClaims parsed" where
  "demo_from_json j = Inr (demo_claims 1700000000 1700001000)"

definition demo_token :: string where
  "demo_token = sign_jwt ext_demo (JObject []) (replicate 32 5)"

lemma demo_token_facts:
  "try_from_did_key ext_demo (iss (demo_claims 1700000000 1700001000)) =
     Inr (ed25519_verifying_key ext_demo (replicate 32 5))"
  "\<not> jwt_expired 1700000000000000 (demo_claims 1700000000 1700001000)"
  "\<not> jwt_not_yet_valid 1700000000000000 (demo_claims 1700000000 1700001000)"
  "\<forall>t \<in> {b64_url_no_pad_encode ext_demo (as_bytes (jwt_header_string ext_demo)),
     b64_url_no_pad_encode ext_demo (as_bytes (json_to_string ext_demo (JObject [])))}.
     CHR ''-'' \<notin> set t \<and> CHR ''_'' \<notin> set t"
  "json_from_slice ext_demo (as_bytes (json_to_string ext_demo (JObject []))) = Inr (JObject [])"
  "demo_from_json (JObject []) = Inr (demo_claims 1700000000 1700001000)"
proof -
  show "try_from_did_key ext_demo (iss (demo_claims 1700000000 1700001000)) =
      Inr (ed25519_verifying_key ext_demo (replicate 32 5))"
    using did_key_laws_demo by (simp add: did_key_laws_def demo_claims_def ext_demo_def)
  show "\<not> jwt_expired 1700000000000000 (demo_claims 1700000000 1700001000)"
    "\<not> jwt_not_yet_valid 1700000000000000 (demo_claims 1700000000 1700001000)"
    by (simp_all add: demo_claims_def jwt_expired_def jwt_not_yet_valid_def unsigned_abs_def timestamp_def
        timestamp_millis_def)
  have "CHR ''-'' \<notin> set (hex_demo bs)" "CHR ''_'' \<notin> set (hex_demo bs)" for bs
    using hex_demo_chars [of _ bs] by (metis char_nibble_bad)+
  then show "\<forall>t \<in> {b64_url_no_pad_encode ext_demo (as_bytes (jwt_header_string ext_demo)),
     b64_url_no_pad_encode ext_demo (as_bytes (json_to_string ext_demo (JObject [])))}.
     CHR ''-'' \<notin> set t \<and> CHR ''_'' \<notin> set t" by (simp add: ext_demo_def)
  show "json_from_slice ext_demo (as_bytes (json_to_string ext_demo (JObject []))) = Inr (JObject [])"
    by (simp add: ext_demo_def)
qed (simp add: demo_from_json_def)

theorem sign_jwt_from_jwt_witness:
  "from_jwt ext_demo 1700000000000000 demo_from_json (\<lambda>c. c) demo_token = Inr (demo_claims 1700000000 1700001000)"
  unfolding demo_token_def
  using sign_jwt_from_jwt [where get_shared = "\<lambda>c. c" and from_json = demo_from_json, OF jwt_laws_demo demo_token_facts(5) demo_token_facts(6) demo_token_facts(1,2,3)]
    demo_token_facts(4) by blast

theorem from_jwt_sound_witness:
  "\<exists>claims h p sig k. from_jwt ext_demo 1700000000000000 demo_from_json (\<lambda>c. c) demo_token = Inr claims \<and>
     demo_token = h @ ''.'' @ p @ ''.'' @ sig \<and> try_from_did_key ext_demo (iss claims) = Inr k \<and>
     jwt_ed_verify ext_demo sig (as_bytes (h @ ''.'' @ p)) k = Inr True"
proof -
  have acc: "from_jwt ext_demo 1700000000000000 demo_from_json (\<lambda>c. c) demo_token = Inr (demo_claims 1700000000 1700001000)"
    unfolding demo_token_def
    by (rule sign_jwt_accepted [where get_shared = "\<lambda>c. c" and from_json = demo_from_json, OF jwt_laws_demo demo_token_facts(5) demo_token_facts(6) demo_token_facts(1,2,3,4)])
  show ?thesis using from_jwt_sound [OF acc] acc by blast
qed

end
