(* ===== verification/Auth.thy ===== *)
theory Auth
  imports Recap Storage
begin

text \<open>
  Authorization of a client by its CACAO: \<open>verify_identity\<close> and the functions it uses in
  \<open>src/src/auth.rs\<close>. The Keys Server, the verification of the CACAO's signature and URL handling
  are parameters. Redis is a map with expiry times that always answers (\<open>Caches\<close> has one that
  may fail), and the detached write of the cache takes effect at once. A panic is the error \<open>VerifyPanic\<close>.
\<close>

definition STATEMENT :: string where
  "STATEMENT = ''I further authorize this app to send and receive messages on my behalf using my WalletConnect identity. Read more at https://walletconnect.com/identity''"
definition STATEMENT_ALL_DOMAINS_IDENTITY :: string where
  "STATEMENT_ALL_DOMAINS_IDENTITY = ''I further authorize this app to send and receive messages on my behalf for ALL domains using my WalletConnect identity. Read more at https://walletconnect.com/identity''"
definition STATEMENT_THIS_DOMAIN_IDENTITY :: string where
  "STATEMENT_THIS_DOMAIN_IDENTITY = ''I further authorize this app to send and receive messages on my behalf for THIS domain using my WalletConnect identity. Read more at https://walletconnect.com/identity''"
definition STATEMENT_ALL_DOMAINS_OLD :: string where
  "STATEMENT_ALL_DOMAINS_OLD = ''I further authorize this app to view and manage my notifications for ALL apps. Read more at https://walletconnect.com/notifications''"
definition STATEMENT_ALL_DOMAINS :: string where
  "STATEMENT_ALL_DOMAINS = ''I further authorize this app to view and manage my notifications for ALL apps. Read more at https://walletconnect.com/notifications-all-apps''"
definition STATEMENT_THIS_DOMAIN :: string where
  "STATEMENT_THIS_DOMAIN = ''I further authorize this app to send me notifications. Read more at https://walletconnect.com/notifications''"

datatype AuthorizedApp = Limited string | Unlimited

record Authorization =
  az_account :: AccountId
  az_app :: AuthorizedApp
  az_domain :: string

datatype IdentityVerificationClientError =
    NotRegistered
  | KsuNotUrl
  | CacaoAccountId AccountIdParseError
  | CacaoVerification
  | CacaoMissingIdentityKey
  | CacaoWrongIdentityKey
  | CacaoStatementMissing
  | CacaoStatementInvalid
  | CacaoAccountMismatch
  | CacaoNotYetValid
  | CacaoNbfParse
  | CacaoExpired
  | CacaoExpParse
  | CacaoMoreThanOneRecapUri
  | CacaoRecapParse RecapParseError
  | CacaoStatementDoesNotMatchRecap
  | CacaoRecapNoNotifyUri
  | CacaoRecapNoAbilities
  | CacaoRecapMoreThanOneAbility
  | CacaoRecapAbilityNamespaceNotManage
  | CacaoRecapAbilityNameNotNotifications
  | CacaoRecapAbilityEmptyObjects
  | CacaoRecapAbilityMoreThanOneObject
  | CacaoRecapAbilityNonEmptyObject
  | CacaoRecapAbilityNameNotValidDomain

datatype IdentityVerificationInternalError =
    KsHttp
  | KsJson
  | KeyServerNotSuccess string
  | KeyServerResponseMissingValue
  | KeyServerUnsuccessfulResponse nat
  | CacheLookup StorageError
  | KeysServerRequestUrlConstruction

datatype IdentityVerificationError =
    IvClient IdentityVerificationClientError
  | IvInternal IdentityVerificationInternalError
  | VerifyPanic

section \<open>Keys Server\<close>

definition KEYS_SERVER_STATUS_SUCCESS :: string where "KEYS_SERVER_STATUS_SUCCESS = ''SUCCESS''"
definition KEYS_SERVER_IDENTITY_ENDPOINT :: string where "KEYS_SERVER_IDENTITY_ENDPOINT = ''/identity''"
definition KEYS_SERVER_IDENTITY_ENDPOINT_PUBLIC_KEY_QUERY :: string where
  "KEYS_SERVER_IDENTITY_ENDPOINT_PUBLIC_KEY_QUERY = ''publicKey''"

definition keys_server_request :: "ext \<Rightarrow> string \<Rightarrow> (Cacao, IdentityVerificationError) result" where
  "keys_server_request X url =
     rbind (map_err (\<lambda>_. IvInternal KsHttp) (http_get_key_server X url)) (\<lambda>response.
       if ksh_status response = 404 then Inl (IvClient NotRegistered)
       else if 200 \<le> ksh_status response \<and> ksh_status response < 300
       then rbind (map_err (\<lambda>_. IvInternal KsJson) (ksh_body response)) (\<lambda>body.
            rbind (guard_err (ksr_status body \<noteq> KEYS_SERVER_STATUS_SUCCESS)
                     (IvInternal (KeyServerNotSuccess (ksr_status body)))) (\<lambda>_.
            ok_or (ksr_value body) (IvInternal KeyServerResponseMissingValue)))
       else Inl (IvInternal (KeyServerUnsuccessfulResponse (ksh_status response))))"

type_synonym cacao_cache = "string \<Rightarrow> (Cacao \<times> datetime) option"

definition cache_ttl :: duration where
  "cache_ttl = days 7"

definition cache_get :: "datetime \<Rightarrow> string \<Rightarrow> cacao_cache \<Rightarrow> Cacao option" where
  "cache_get now key c = (case c key of None \<Rightarrow> None | Some (v, t) \<Rightarrow> if t \<le> now then None else Some v)"

definition keys_server_request_cached ::
  "ext \<Rightarrow> datetime \<Rightarrow> string \<Rightarrow> cacao_cache option \<Rightarrow> (Cacao, IdentityVerificationError) result \<times> cacao_cache option" where
  "keys_server_request_cached X now url redis =
     (let cache_key = ''keys-server-'' @ url in
      case Option.bind redis (cache_get now cache_key) of
        Some cacao \<Rightarrow> (Inr cacao, redis)
      | None \<Rightarrow>
          (case keys_server_request X url of
             Inl e \<Rightarrow> (Inl e, redis)
           | Inr cacao \<Rightarrow>
               (Inr cacao, map_option (\<lambda>c. c(cache_key \<mapsto> (cacao, now + cache_ttl))) redis)))"

section \<open>What a CACAO authorizes\<close>

definition parse_cacao_statement :: "string \<Rightarrow> string \<Rightarrow> AuthorizedApp option" where
  "parse_cacao_statement statement domain =
     (if str_contains ''DAPP'' statement \<or> statement = STATEMENT_THIS_DOMAIN_IDENTITY \<or> statement = STATEMENT_THIS_DOMAIN
      then Some (Limited domain)
      else if str_contains ''WALLET'' statement \<or> statement = STATEMENT \<or> statement = STATEMENT_ALL_DOMAINS_IDENTITY \<or>
        statement = STATEMENT_ALL_DOMAINS_OLD \<or> statement = STATEMENT_ALL_DOMAINS
      then Some Unlimited
      else None)"

text \<open>\<open>^[a-zA-Z0-9.-]+$\<close>.\<close>

definition domain_regex :: "string \<Rightarrow> bool" where
  "domain_regex s \<longleftrightarrow> s \<noteq> [] \<and> list_all (\<lambda>c. is_lower_az c \<or> is_upper_az c \<or> is_digit c \<or> c = CHR ''.'' \<or> c = CHR ''-'') s"

text \<open>The block that reads the single ability of a recap.\<close>

definition recap_app :: "ReCapDetailsObject \<Rightarrow> (AuthorizedApp, IdentityVerificationClientError) result" where
  "recap_app recap =
     rbind (ok_or (map_of (att recap) NOTIFY_URI) CacaoRecapNoNotifyUri) (\<lambda>abilities.
     rbind (guard_err (length abilities > 1) CacaoRecapMoreThanOneAbility) (\<lambda>_.
     rbind (ok_or (fetch_optional abilities) CacaoRecapNoAbilities) (\<lambda>(ability, objects).
     rbind (guard_err (namespace ability \<noteq> ABILITY_NAMESPACE_MANAGE) CacaoRecapAbilityNamespaceNotManage) (\<lambda>_.
     rbind (ok_or (strip_suffix ABILITY_ABILITY_SUFFIX (ability_name ability)) CacaoRecapAbilityNameNotNotifications) (\<lambda>maybe_domain.
     rbind (guard_err (length objects > 1) CacaoRecapAbilityMoreThanOneObject) (\<lambda>_.
     rbind (ok_or (fetch_optional objects) CacaoRecapAbilityEmptyObjects) (\<lambda>obj.
     rbind (guard_err (obj \<noteq> JObject []) CacaoRecapAbilityNonEmptyObject) (\<lambda>_.
       if maybe_domain = ABILITY_ABILITY_ALL_APPS_MAGIC then Inr Unlimited
       else if domain_regex maybe_domain then Inr (Limited maybe_domain)
       else Inl CacaoRecapAbilityNameNotValidDomain))))))))"

definition cacao_app :: "ext \<Rightarrow> Cacao \<Rightarrow> (AuthorizedApp, IdentityVerificationClientError) result" where
  "cacao_app X cacao =
     rbind (ok_or (c_statement cacao) CacaoStatementMissing) (\<lambda>statement.
       let resources = (case c_resources cacao of None \<Rightarrow> [] | Some rs \<Rightarrow> rs) in
       rbind (guard_err (length (filter (starts_with RECAP_URI_PREFIX) resources) > 1) CacaoMoreThanOneRecapUri) (\<lambda>_.
       rbind (map_err CacaoRecapParse (parse_recap X (fetch_optional (rev resources)))) (\<lambda>recap.
         case recap of
           Some recap \<Rightarrow>
             rbind (guard_err (\<not> ends_with (build_statement recap) statement) CacaoStatementDoesNotMatchRecap) (\<lambda>_.
               recap_app recap)
         | None \<Rightarrow> ok_or (parse_cacao_statement statement (c_domain cacao)) CacaoStatementInvalid)))"

definition check_nbf :: "ext \<Rightarrow> datetime \<Rightarrow> string option \<Rightarrow> (unit, IdentityVerificationClientError) result" where
  "check_nbf X now v =
     (case v of
        None \<Rightarrow> Inr ()
      | Some s \<Rightarrow> rbind (ok_or (parse_rfc3339 X s) CacaoNbfParse) (\<lambda>t.
          guard_err (timestamp now \<le> timestamp t) CacaoNotYetValid))"

definition check_exp :: "ext \<Rightarrow> datetime \<Rightarrow> string option \<Rightarrow> (unit, IdentityVerificationClientError) result" where
  "check_exp X now v =
     (case v of
        None \<Rightarrow> Inr ()
      | Some s \<Rightarrow> rbind (ok_or (parse_rfc3339 X s) CacaoExpParse) (\<lambda>t.
          guard_err (timestamp t \<le> timestamp now) CacaoExpired))"

text \<open>Everything \<open>verify_identity\<close> does with the CACAO once it has it.\<close>

definition verify_cacao ::
  "ext \<Rightarrow> datetime \<Rightarrow> string \<Rightarrow> string \<Rightarrow> Cacao \<Rightarrow> (Authorization, IdentityVerificationError) result" where
  "verify_cacao X now public_key sub cacao =
     rbind (case from_did_pkh X (c_iss cacao) of
              None \<Rightarrow> Inl VerifyPanic
            | Some r \<Rightarrow> map_err (\<lambda>e. IvClient (CacaoAccountId e)) r) (\<lambda>account.
     rbind (map_err (\<lambda>_. IvClient CacaoVerification) (cacao_verify X cacao)) (\<lambda>always_true.
     rbind (guard_err (\<not> always_true) VerifyPanic) (\<lambda>_.
     rbind (map_err (\<lambda>_. IvClient CacaoMissingIdentityKey) (cacao_identity_key X cacao)) (\<lambda>cacao_identity_key.
     rbind (guard_err (cacao_identity_key \<noteq> public_key) (IvClient CacaoWrongIdentityKey)) (\<lambda>_.
     rbind (map_err IvClient (cacao_app X cacao)) (\<lambda>app.
     rbind (guard_err (c_iss cacao \<noteq> sub) (IvClient CacaoAccountMismatch)) (\<lambda>_.
     rbind (map_err IvClient (check_nbf X now (c_nbf cacao))) (\<lambda>_.
     rbind (map_err IvClient (check_exp X now (c_exp cacao))) (\<lambda>_.
       Inr \<lparr> az_account = account, az_app = app, az_domain = c_domain cacao \<rparr>)))))))))"

definition verify_identity ::
  "ext \<Rightarrow> datetime \<Rightarrow> bytes \<Rightarrow> string \<Rightarrow> string \<Rightarrow> cacao_cache option
     \<Rightarrow> (Authorization, IdentityVerificationError) result \<times> cacao_cache option" where
  "verify_identity X now iss_client_id ksu sub redis =
     (case url_parse X ksu of
        None \<Rightarrow> (Inl (IvClient KsuNotUrl), redis)
      | Some base \<Rightarrow>
          (case url_join X base KEYS_SERVER_IDENTITY_ENDPOINT of
             None \<Rightarrow> (Inl (IvInternal KeysServerRequestUrlConstruction), redis)
           | Some endpoint \<Rightarrow>
               let public_key = client_id_to_string X iss_client_id;
                   url = url_append_query X endpoint KEYS_SERVER_IDENTITY_ENDPOINT_PUBLIC_KEY_QUERY public_key;
                   (cacao, redis') = keys_server_request_cached X now url redis in
               (rbind cacao (verify_cacao X now public_key sub), redis')))"

section \<open>Facts\<close>

lemma recap_app_Inr:
  assumes "recap_app recap = Inr app"
  shows "\<exists>ability. map_of (att recap) NOTIFY_URI = Some [(ability, [JObject []])] \<and>
    namespace ability = ''manage'' \<and>
    (app = Unlimited \<and> ability_name ability = ''all-apps-notifications'' \<or>
     (\<exists>dom. app = Limited dom \<and> domain_regex dom \<and> dom \<noteq> ''all-apps'' \<and>
        ability_name ability = dom @ ''-notifications''))"
proof -
  from assms obtain abilities ability objects dom obj where
    a: "map_of (att recap) NOTIFY_URI = Some abilities" "\<not> length abilities > 1"
      "fetch_optional abilities = Some (ability, objects)"
      "namespace ability = ABILITY_NAMESPACE_MANAGE" "ability_name ability = dom @ ABILITY_ABILITY_SUFFIX"
      "\<not> length objects > 1" "fetch_optional objects = Some obj" "obj = JObject []"
    and app: "app = (if dom = ABILITY_ABILITY_ALL_APPS_MAGIC then Unlimited else Limited dom)"
      "dom \<noteq> ABILITY_ABILITY_ALL_APPS_MAGIC \<Longrightarrow> domain_regex dom"
    by (auto simp: recap_app_def rbind_Inr_iff strip_suffix_Some_iff split: if_splits)
  have "abilities = [(ability, [JObject []])]"
    using a by (cases abilities; cases objects) (auto simp: fetch_optional_def)
  then show ?thesis
    using a app by (auto simp: ABILITY_NAMESPACE_MANAGE_def ABILITY_ABILITY_SUFFIX_def ABILITY_ABILITY_ALL_APPS_MAGIC_def)
qed

text \<open>
  C28. What a CACAO can authorize. It has a statement and at most one recap among its resources. If its
  last resource is a recap, the recap is readable, the statement ends with the statement built from
  it, and it lists exactly one ability for the Notify URI, in the namespace \<open>manage\<close>, with one empty
  object: \<open>all-apps-notifications\<close> gives all apps and \<open><domain>-notifications\<close> gives that domain,
  never what the statement would give. Only when the last resource is no recap the statement decides:
  the CACAO's own domain if it contains \<open>DAPP\<close> or is one of the two fixed statements about this
  domain, else all apps, and then it contains \<open>WALLET\<close> or is one of the four about all domains.
\<close>

theorem cacao_app_sound:
  assumes "cacao_app X cacao = Inr app"
  defines "rs \<equiv> (case c_resources cacao of None \<Rightarrow> [] | Some rs \<Rightarrow> rs)"
  shows "length (filter (starts_with RECAP_URI_PREFIX) rs) \<le> 1 \<and> (\<exists>st. c_statement cacao = Some st \<and>
    (case parse_recap X (if rs = [] then None else Some (last rs)) of
       Inl e \<Rightarrow> False
     | Inr (Some recap) \<Rightarrow> (\<exists>ability pre. st = pre @ build_statement recap \<and>
         map_of (att recap) NOTIFY_URI = Some [(ability, [JObject []])] \<and> namespace ability = ''manage'' \<and>
         (app = Unlimited \<and> ability_name ability = ''all-apps-notifications'' \<or>
          (\<exists>dom. app = Limited dom \<and> domain_regex dom \<and> dom \<noteq> ''all-apps'' \<and> ability_name ability = dom @ ''-notifications'')))
     | Inr None \<Rightarrow>
         (if str_contains ''DAPP'' st \<or> st \<in> {STATEMENT_THIS_DOMAIN_IDENTITY, STATEMENT_THIS_DOMAIN}
          then app = Limited (c_domain cacao)
          else app = Unlimited \<and> (str_contains ''WALLET'' st \<or>
            st \<in> {STATEMENT, STATEMENT_ALL_DOMAINS_IDENTITY, STATEMENT_ALL_DOMAINS_OLD, STATEMENT_ALL_DOMAINS}))))"
proof -
  from assms(1) obtain st recap where st: "c_statement cacao = Some st"
    and one: "length (filter (starts_with RECAP_URI_PREFIX) rs) \<le> 1"
    and pr: "parse_recap X (fetch_optional (rev rs)) = Inr recap"
    and rest: "(case recap of
        Some recap \<Rightarrow> rbind (guard_err (\<not> ends_with (build_statement recap) st) CacaoStatementDoesNotMatchRecap)
          (\<lambda>_. recap_app recap)
      | None \<Rightarrow> ok_or (parse_cacao_statement st (c_domain cacao)) CacaoStatementInvalid) = Inr app"
    by (auto simp: cacao_app_def rbind_Inr_iff Let_def rs_def)
  have last: "fetch_optional (rev rs) = (if rs = [] then None else Some (last rs))"
    by (cases rs rule: rev_cases) (simp_all add: fetch_optional_def)
  show ?thesis
  proof (cases recap)
    case None
    with rest have "parse_cacao_statement st (c_domain cacao) = Some app" by simp
    then show ?thesis using st one pr [unfolded last] None
      by (auto simp: parse_cacao_statement_def split: if_splits)
  next
    case (Some r)
    with rest have "ends_with (build_statement r) st" "recap_app r = Inr app"
      by (auto simp: rbind_Inr_iff)
    then show ?thesis
      using st one pr [unfolded last] Some recap_app_Inr [of r app] by (auto simp: ends_with_iff)
  qed
qed

lemma keys_server_request_cached_source:
  "fst (keys_server_request_cached X now url redis) = Inr cacao \<Longrightarrow>
   Option.bind redis (cache_get now (''keys-server-'' @ url)) = Some cacao \<or> keys_server_request X url = Inr cacao"
  by (auto simp: keys_server_request_cached_def Let_def split: option.splits sum.splits)

text \<open>
  C2. When \<open>verify_identity\<close> returns an authorization, a CACAO obtained from the cache or the Keys
  Server (by its URL, with the key as the query) for the key that signed the request verifies, names that key, is issued by exactly the
  account the request claims as \<open>sub\<close>, is within its validity, and authorizes the returned app and
  domain; the returned account is the validated account of that DID.
\<close>

theorem verify_identity_sound:
  assumes "fst (verify_identity X now key ksu sub redis) = Inr az"
  shows "\<exists>base endpoint url cacao. url_parse X ksu = Some base \<and> url_join X base ''/identity'' = Some endpoint \<and>
    url = url_append_query X endpoint ''publicKey'' (client_id_to_string X key) \<and>
    (Option.bind redis (cache_get now (''keys-server-'' @ url)) = Some cacao \<or> keys_server_request X url = Inr cacao) \<and>
    cacao_verify X cacao = Inr True \<and> cacao_identity_key X cacao = Inr (client_id_to_string X key) \<and>
    c_iss cacao = sub \<and> from_did_pkh X sub = Some (Inr (az_account az)) \<and>
    cacao_app X cacao = Inr (az_app az) \<and> az_domain az = c_domain cacao \<and>
    (\<forall>s. c_nbf cacao = Some s \<longrightarrow> (\<exists>t. parse_rfc3339 X s = Some t \<and> timestamp t < timestamp now)) \<and>
    (\<forall>s. c_exp cacao = Some s \<longrightarrow> (\<exists>t. parse_rfc3339 X s = Some t \<and> timestamp now < timestamp t))"
proof -
  from assms obtain base endpoint url cacao where src: "fst (keys_server_request_cached X now url redis) = Inr cacao"
    and url: "url_parse X ksu = Some base" "url_join X base ''/identity'' = Some endpoint"
      "url = url_append_query X endpoint ''publicKey'' (client_id_to_string X key)"
    and v: "verify_cacao X now (client_id_to_string X key) sub cacao = Inr az"
    by (auto simp: verify_identity_def KEYS_SERVER_IDENTITY_ENDPOINT_def KEYS_SERVER_IDENTITY_ENDPOINT_PUBLIC_KEY_QUERY_def
        Let_def rbind_Inr_iff split: option.splits prod.splits) (metis fst_conv)
  from v have "cacao_verify X cacao = Inr True" "cacao_identity_key X cacao = Inr (client_id_to_string X key)"
    "c_iss cacao = sub" "from_did_pkh X sub = Some (Inr (az_account az))" "cacao_app X cacao = Inr (az_app az)"
    "az_domain az = c_domain cacao"
    by (auto simp: verify_cacao_def rbind_Inr_iff split: option.splits)
  moreover from v have nbf: "check_nbf X now (c_nbf cacao) = Inr ()" and ex: "check_exp X now (c_exp cacao) = Inr ()"
    by (auto simp: verify_cacao_def rbind_Inr_iff)
  have "\<forall>s. c_nbf cacao = Some s \<longrightarrow> (\<exists>t. parse_rfc3339 X s = Some t \<and> timestamp t < timestamp now)"
    using nbf by (auto simp: check_nbf_def rbind_Inr_iff)
  moreover have "\<forall>s. c_exp cacao = Some s \<longrightarrow> (\<exists>t. parse_rfc3339 X s = Some t \<and> timestamp now < timestamp t)"
    using ex by (auto simp: check_exp_def rbind_Inr_iff)
  ultimately show ?thesis using keys_server_request_cached_source [OF src] url by blast
qed

text \<open>
  A CACAO fetched from the Keys Server is used for a week without asking again: until then
  every request for the same URL returns it, whatever the Keys Server would answer by then.
\<close>

theorem keys_server_cache_week:
  assumes "cache_get now (''keys-server-'' @ url) c = None"
    and "keys_server_request_cached X now url (Some c) = (Inr cacao, r)"
    and "now \<le> later" "later < now + days 7"
  shows "keys_server_request_cached Y later url r = (Inr cacao, r)"
  using assms
  by (auto simp: keys_server_request_cached_def Let_def cache_get_def cache_ttl_def split: sum.splits)

section \<open>Witnesses\<close>

lemma cacao_demo_account: "c_iss cacao_demo = to_did_pkh ext_demo acct_a"
  by (simp add: cacao_demo_def to_did_pkh_def ext_demo_def did_combine_demo_def DID_METHOD_PKH_def acct_a_def)

lemma from_did_pkh_demo: "from_did_pkh ext_demo (to_did_pkh ext_demo acct_a) = Some (Inr acct_a)"
  using codec_exact.dec_iff [OF did_pkh_codec [OF did_laws_demo], of "to_did_pkh ext_demo acct_a" acct_a]
    valid_demo_accounts(1)
  by (auto simp: from_did_pkh_res_def split: option.splits)

lemma statement_no_dapp: "STATEMENT_THIS_DOMAIN = the (c_statement cacao_demo)"
  by (simp add: STATEMENT_THIS_DOMAIN_def cacao_demo_def)

lemma cacao_app_demo: "cacao_app ext_demo cacao_demo = Inr (Limited ''app.example'')"
proof -
  have "c_statement cacao_demo = Some STATEMENT_THIS_DOMAIN" "c_resources cacao_demo = None"
    "c_domain cacao_demo = ''app.example''"
    by (simp_all add: cacao_demo_def STATEMENT_THIS_DOMAIN_def)
  then show ?thesis by (simp add: cacao_app_def fetch_optional_def parse_recap_def parse_cacao_statement_def)
qed

lemma keys_server_demo: "keys_server_request ext_demo url = Inr cacao_demo"
  by (simp add: keys_server_request_def ext_demo_def KEYS_SERVER_STATUS_SUCCESS_def)

lemma verify_identity_demo:
  "fst (verify_identity ext_demo 5 [6, 6] ''https://k'' (to_did_pkh ext_demo acct_a) None) =
     Inr \<lparr> az_account = acct_a, az_app = Limited ''app.example'', az_domain = ''app.example'' \<rparr>"
proof -
  have ks: "keys_server_request_cached ext_demo 5 url None = (Inr cacao_demo, None)" for url
    by (simp add: keys_server_request_cached_def keys_server_demo)
  have "client_id_to_string ext_demo [6, 6] = ''0606''" by code_simp
  moreover have "cacao_identity_key ext_demo cacao_demo = Inr ''0606''" "cacao_verify ext_demo cacao_demo = Inr True"
    "c_nbf cacao_demo = None" "c_exp cacao_demo = None" "c_domain cacao_demo = ''app.example''"
    by (simp_all add: ext_demo_def cacao_demo_def)
  ultimately have "verify_cacao ext_demo 5 (client_id_to_string ext_demo [6, 6]) (to_did_pkh ext_demo acct_a) cacao_demo =
      Inr \<lparr> az_account = acct_a, az_app = Limited ''app.example'', az_domain = ''app.example'' \<rparr>"
    using from_did_pkh_demo cacao_demo_account cacao_app_demo
    by (simp add: verify_cacao_def check_nbf_def check_exp_def)
  moreover have "url_parse ext_demo u = Some u" "url_join ext_demo u p = Some (u @ p)" for u p
    by (simp_all add: ext_demo_def)
  ultimately show ?thesis by (simp add: verify_identity_def Let_def ks)
qed

theorem cacao_app_sound_witness:
  "cacao_app ext_demo cacao_demo = Inr (Limited ''app.example'') \<and> (\<exists>st. c_statement cacao_demo = Some st)"
  using cacao_app_sound [OF cacao_app_demo] cacao_app_demo by blast

theorem verify_identity_sound_witness:
  "\<exists>az url cacao. fst (verify_identity ext_demo 5 [6, 6] ''https://k'' (to_did_pkh ext_demo acct_a) None) = Inr az \<and>
     keys_server_request ext_demo url = Inr cacao \<and> cacao_verify ext_demo cacao = Inr True \<and>
     c_iss cacao = to_did_pkh ext_demo acct_a"
  using verify_identity_sound [OF verify_identity_demo] verify_identity_demo by auto

theorem keys_server_cache_week_witness:
  "\<exists>r. keys_server_request_cached ext_demo 0 ''u'' (Some Map.empty) = (Inr cacao_demo, r) \<and>
     keys_server_request_cached (ext_demo\<lparr> http_get_key_server := (\<lambda>u. Inl ''down'') \<rparr>) (days 6) ''u'' r = (Inr cacao_demo, r)"
proof -
  obtain r where r: "keys_server_request_cached ext_demo 0 ''u'' (Some Map.empty) = (Inr cacao_demo, r)"
    by (simp add: keys_server_request_cached_def cache_get_def keys_server_demo)
  then show ?thesis
    using keys_server_cache_week [OF _ r, of "days 6" "ext_demo\<lparr> http_get_key_server := (\<lambda>u. Inl ''down'') \<rparr>"]
    by (auto simp: cache_get_def days_def)
qed

end
