(* ===== verification/Relay_Publish.thy ===== *)
theory Relay_Publish
  imports Prelude
begin

text \<open>
  Calls to the relay with retries: \<open>src/src/publish_relay_message.rs\<close>. The relay's answer to each
  attempt is an argument; sleeping, logging and metrics are not modelled. The analytics event that
  \<open>publish_relay_message\<close> emits at its end is in \<open>World\<close>.
\<close>

record Publish =
  pub_topic :: topic
  pub_message :: string
  pub_ttl_secs :: nat
  pub_tag :: nat
  pub_prompt :: bool

datatype PublishError = MailboxLimitExceeded | OtherRelayError string

text \<open>
  \<open>0.05 * (tries - 1) ^ 2\<close> seconds as milliseconds. The source computes in \<open>f32\<close>; for the values the
  loops use, 1 to 9, the truncated result is this integer.
\<close>

definition calculate_retry_in :: "nat \<Rightarrow> nat" where
  "calculate_retry_in tries = 50 * (tries - 1) ^ 2"

text \<open>
  \<open>while let Err(e) = call().await\<close>: the outcome, the number of calls made and the total
  milliseconds slept. The answer to the call after \<open>tries\<close> failures is \<open>call tries\<close>.
\<close>

function retry_loop :: "(nat \<Rightarrow> (unit, 'e) result) \<Rightarrow> nat \<Rightarrow> (unit, 'e) result \<times> nat \<times> nat" where
  "retry_loop call tries =
     (case call tries of
        Inr u \<Rightarrow> (Inr (), tries + 1, 0)
      | Inl e \<Rightarrow>
          if tries + 1 \<ge> 10 then (Inl e, tries + 1, 0)
          else (let (r, n, ms) = retry_loop call (tries + 1) in
                (r, n, calculate_retry_in (tries + 1) + ms)))"
  by pat_completeness auto

termination
  by (relation "measure (\<lambda>(call, tries). 10 - tries)") auto

declare retry_loop.simps [simp del]

text \<open>A full mailbox counts as success.\<close>

definition publish_call :: "(nat \<Rightarrow> (unit, PublishError) result) \<Rightarrow> nat \<Rightarrow> (unit, PublishError) result" where
  "publish_call relay k =
     (case relay k of
        Inr u \<Rightarrow> Inr ()
      | Inl MailboxLimitExceeded \<Rightarrow> Inr ()
      | Inl e \<Rightarrow> Inl e)"

definition publish_relay_message :: "(nat \<Rightarrow> (unit, PublishError) result) \<Rightarrow> (unit, PublishError) result" where
  "publish_relay_message relay = fst (retry_loop (publish_call relay) 0)"

definition subscribe_relay_topic :: "(nat \<Rightarrow> (unit, 'e) result) \<Rightarrow> (unit, 'e) result" where
  "subscribe_relay_topic relay = fst (retry_loop relay 0)"

definition batch_subscribe_relay_topics :: "(nat \<Rightarrow> (unit, 'e) result) \<Rightarrow> (unit, 'e) result" where
  "batch_subscribe_relay_topics relay = fst (retry_loop relay 0)"

section \<open>Facts\<close>

lemma retry_loop_spec:
  assumes "tries < 10"
  shows "case retry_loop call tries of (r, n, ms) \<Rightarrow>
    tries < n \<and> n \<le> 10 \<and> (\<forall>k. tries \<le> k \<and> k + 1 < n \<longrightarrow> \<not> is_ok (call k)) \<and>
    (if is_ok (call (n - 1)) then r = Inr () else n = 10 \<and> r = call 9)"
  using assms
proof (induction call tries rule: retry_loop.induct)
  case (1 call tries)
  show ?case
  proof (cases "call tries")
    case (Inr u)
    then show ?thesis using 1(2) by (auto simp: retry_loop.simps [of call tries])
  next
    case (Inl e)
    show ?thesis
    proof (cases "tries + 1 \<ge> 10")
      case True
      with 1(2) have "tries = 9" by simp
      then show ?thesis using Inl by (auto simp: retry_loop.simps [of call 9])
    next
      case False
      obtain r n ms where rn: "retry_loop call (tries + 1) = (r, n, ms)" by (metis prod_cases3)
      have IH: "tries + 1 < n \<and> n \<le> 10 \<and> (\<forall>k. tries + 1 \<le> k \<and> k + 1 < n \<longrightarrow> \<not> is_ok (call k)) \<and>
          (if is_ok (call (n - 1)) then r = Inr () else n = 10 \<and> r = call 9)"
        using 1(1) [OF Inl False] False rn by simp
      have "\<not> is_ok (call tries)" using Inl by simp
      then have "\<forall>k. tries \<le> k \<and> k + 1 < n \<longrightarrow> \<not> is_ok (call k)"
        using IH by (metis Suc_eq_plus1 Suc_leI le_neq_implies_less)
      then show ?thesis using IH rn Inl False by (simp add: retry_loop.simps [of call tries])
    qed
  qed
qed

lemma retry_loop_slept: "tries < 10 \<Longrightarrow> snd (snd (retry_loop call tries)) \<le> sum calculate_retry_in {Suc tries..9}"
proof (induction call tries rule: retry_loop.induct)
  case (1 call tries)
  show ?case
  proof (cases "call tries")
    case (Inl e)
    show ?thesis
    proof (cases "tries + 1 \<ge> 10")
      case False
      obtain r n ms where rn: "retry_loop call (Suc tries) = (r, n, ms)" by (metis prod_cases3)
      have "ms \<le> sum calculate_retry_in {Suc (Suc tries)..9}"
        using 1(1) [OF Inl False] False rn by simp
      moreover have "sum calculate_retry_in {Suc tries..9} =
          calculate_retry_in (Suc tries) + sum calculate_retry_in {Suc (Suc tries)..9}"
        using False by (simp add: sum.atLeast_Suc_atMost)
      ultimately show ?thesis
        using Inl False rn by (simp add: retry_loop.simps [of call tries])
    qed (use Inl in \<open>simp add: retry_loop.simps [of call tries]\<close>)
  qed (simp add: retry_loop.simps [of call tries])
qed

lemma publish_call_ok:
  "is_ok (publish_call relay k) \<longleftrightarrow> is_ok (relay k) \<or> relay k = Inl MailboxLimitExceeded"
  by (auto simp: publish_call_def split: sum.splits PublishError.splits)

lemma publish_call_err: "\<not> is_ok (publish_call relay k) \<Longrightarrow> publish_call relay k = relay k"
  by (auto simp: publish_call_def split: sum.splits PublishError.splits)

lemma retry_loop_ok_iff:
  assumes "retry_loop call 0 = (r, n, ms)"
  shows "is_ok r \<longleftrightarrow> (\<exists>k < 10. is_ok (call k))"
proof -
  have sp: "0 < n \<and> n \<le> 10 \<and> (\<forall>k. k + 1 < n \<longrightarrow> \<not> is_ok (call k)) \<and>
      (if is_ok (call (n - 1)) then r = Inr () else n = 10 \<and> r = call 9)"
    using retry_loop_spec [of 0 call] assms by simp
  show ?thesis
  proof (cases "is_ok (call (n - 1))")
    case True
    moreover have "n - 1 < 10" using sp by linarith
    ultimately show ?thesis using sp by (metis is_ok_simps(2))
  next
    case False
    then have n: "n = 10" "r = call 9" using sp by simp_all
    have "\<not> is_ok (call k)" if "k < 10" for k
    proof (cases "k = 9")
      case True then show ?thesis using False n by simp
    next
      case False then show ?thesis using sp n that by simp
    qed
    then show ?thesis using n(2) by auto
  qed
qed

lemma retry_loop_sleep_bound: "retry_loop call 0 = (r, n, ms) \<Longrightarrow> ms \<le> 10200"
proof -
  assume rn: "retry_loop call 0 = (r, n, ms)"
  have "sum calculate_retry_in {Suc 0..9} = 10200" by code_simp
  then show ?thesis using retry_loop_slept [of 0 call] rn by simp
qed

text \<open>
  C32. Publishing calls the relay at most ten times and stops at the first success; it succeeds
  exactly when one of the first ten answers is a success or a full mailbox, otherwise it returns
  the tenth error; in all it sleeps at most 10.2 seconds.
\<close>

theorem publish_relay_message_retries:
  assumes "retry_loop (publish_call relay) 0 = (r, n, ms)"
  shows "publish_relay_message relay = r \<and> 1 \<le> n \<and> n \<le> 10 \<and> ms \<le> 10200 \<and>
     (is_ok r \<longleftrightarrow> (\<exists>k < 10. is_ok (relay k) \<or> relay k = Inl MailboxLimitExceeded)) \<and>
     (\<forall>k. k + 1 < n \<longrightarrow> \<not> is_ok (relay k) \<and> relay k \<noteq> Inl MailboxLimitExceeded) \<and>
     (\<not> is_ok r \<longrightarrow> n = 10 \<and> r = relay 9)"
proof -
  have sp: "0 < n \<and> n \<le> 10 \<and> (\<forall>k. k + 1 < n \<longrightarrow> \<not> is_ok (publish_call relay k)) \<and>
      (if is_ok (publish_call relay (n - 1)) then r = Inr () else n = 10 \<and> r = publish_call relay 9)"
    using retry_loop_spec [of 0 "publish_call relay"] assms by simp
  have iff: "is_ok r \<longleftrightarrow> (\<exists>k < 10. is_ok (publish_call relay k))"
    by (rule retry_loop_ok_iff [OF assms])
  have last: "n = 10 \<and> r = relay 9" if "\<not> is_ok r"
  proof -
    have "\<not> is_ok (publish_call relay (n - 1))" using sp that by (metis is_ok_simps(2))
    moreover have "\<not> is_ok (publish_call relay 9)" using iff that by simp
    ultimately show ?thesis using sp publish_call_err [of relay 9] by simp
  qed
  have earlier: "\<forall>k. k + 1 < n \<longrightarrow> \<not> is_ok (relay k) \<and> relay k \<noteq> Inl MailboxLimitExceeded"
    using sp publish_call_ok [of relay] by blast
  have "publish_relay_message relay = r" by (simp add: publish_relay_message_def assms)
  then show ?thesis
    using sp last iff [unfolded publish_call_ok] retry_loop_sleep_bound [OF assms] earlier
    by (intro conjI impI) (blast | linarith)+
qed

theorem publish_relay_message_retries_witness:
  "publish_relay_message (\<lambda>k. if k < 3 then Inl (OtherRelayError ''down'') else Inl MailboxLimitExceeded) = Inr () \<and>
   retry_loop (publish_call (\<lambda>k. if k < 3 then Inl (OtherRelayError ''down'') else Inl MailboxLimitExceeded)) 0 =
     (Inr (), 4, 250)"
proof -
  let ?relay = "\<lambda>k. if k < (3::nat) then Inl (OtherRelayError ''down'') else Inl MailboxLimitExceeded"
  have "retry_loop (publish_call ?relay) 0 = (Inr (), 4, 250)"
    by (simp add: retry_loop.simps publish_call_def calculate_retry_in_def power2_eq_square)
  from this publish_relay_message_retries [OF this] show ?thesis by simp
qed

end
