(* ===== verification/Analytics.thy ===== *)
theory Analytics
  imports Account_Id Relay_Publish
begin

text \<open>
  The analytics events (\<open>src/src/analytics\<close>): what a handler reports, the record that is exported
  for it, and the kinds of data. Collecting a record hands it to an exporter outside the repository;
  the exporter's own observers only log and count. Which exporter it is follows from the
  configuration.
\<close>

section \<open>Kinds of data\<close>

datatype DataKind =
    SubscriberNotifications
  | SubscriberUpdates
  | GetNotifications_kind
  | MarkNotificationsAsRead_kind
  | NotificationLinks
  | RelayRequests

fun DataKind_as_str :: "DataKind \<Rightarrow> string" where
  "DataKind_as_str SubscriberNotifications = ''subscriber_notifications''"
| "DataKind_as_str SubscriberUpdates = ''subscriber_updates''"
| "DataKind_as_str GetNotifications_kind = ''get_notifications''"
| "DataKind_as_str MarkNotificationsAsRead_kind = ''mark_notifications_as_read''"
| "DataKind_as_str NotificationLinks = ''notification_links''"
| "DataKind_as_str RelayRequests = ''relay_requests''"

text \<open>Where the batches of a kind go: \<open>make_export\<close>, for a bucket and the address of the node.\<close>

definition aws_export_prefix :: "DataKind \<Rightarrow> string" where
  "aws_export_prefix k = ''notify/'' @ DataKind_as_str k"

definition ANALYTICS_EXPORT_TIMEOUT :: int where
  "ANALYTICS_EXPORT_TIMEOUT = 30"

definition DATA_QUEUE_CAPACITY :: nat where
  "DATA_QUEUE_CAPACITY = 8192"

record 'ip exporter =
  ex_queue_capacity :: nat
  ex_prefix :: string
  ex_name :: string
  ex_node_addr :: 'ip
  ex_file_extension :: string
  ex_bucket :: string
  ex_upload_timeout :: int

definition make_export :: "DataKind \<Rightarrow> string \<Rightarrow> 'ip \<Rightarrow> 'ip exporter" where
  "make_export k bucket node_addr =
     \<lparr> ex_queue_capacity = DATA_QUEUE_CAPACITY, ex_prefix = aws_export_prefix k, ex_name = DataKind_as_str k,
       ex_node_addr = node_addr, ex_file_extension = ''parquet'', ex_bucket = bucket,
       ex_upload_timeout = ANALYTICS_EXPORT_TIMEOUT \<rparr>"

text \<open>The collectors: an exporter per kind, or \<open>None\<close> for the collector that drops everything.\<close>

record ('ip, 'geo) NotifyAnalytics =
  na_collector :: "DataKind \<Rightarrow> 'ip exporter option"
  na_geoip_resolver :: "('ip \<Rightarrow> ('geo, string) result) option"

definition with_noop_export :: "('ip, 'geo) NotifyAnalytics" where
  "with_noop_export = \<lparr> na_collector = (\<lambda>k. None), na_geoip_resolver = None \<rparr>"

definition with_aws_export ::
  "string \<Rightarrow> 'ip \<Rightarrow> ('ip \<Rightarrow> ('geo, string) result) option \<Rightarrow> ('ip, 'geo) NotifyAnalytics" where
  "with_aws_export bucket node_addr resolver =
     \<lparr> na_collector = (\<lambda>k. Some (make_export k bucket node_addr)), na_geoip_resolver = resolver \<rparr>"

text \<open>\<open>initialize\<close>, from the configuration's bucket and public address.\<close>

definition analytics_initialize ::
  "string option \<Rightarrow> 'ip \<Rightarrow> ('ip \<Rightarrow> ('geo, string) result) option \<Rightarrow> ('ip, 'geo) NotifyAnalytics" where
  "analytics_initialize export_bucket public_ip resolver =
     (case export_bucket of Some bucket \<Rightarrow> with_aws_export bucket public_ip resolver | None \<Rightarrow> with_noop_export)"

definition analytics_lookup_geo_data :: "('ip, 'geo) NotifyAnalytics \<Rightarrow> 'ip \<Rightarrow> 'geo option" where
  "analytics_lookup_geo_data a addr =
     Option.bind (na_geoip_resolver a) (\<lambda>r. case r addr of Inl e \<Rightarrow> None | Inr geo \<Rightarrow> Some geo)"

section \<open>Changes of a subscriber\<close>

datatype NotifyClientMethod = Subscribe | Update | Unsubscribe

fun NotifyClientMethod_to_string :: "NotifyClientMethod \<Rightarrow> string" where
  "NotifyClientMethod_to_string Subscribe = ''subscribe''"
| "NotifyClientMethod_to_string Update = ''update''"
| "NotifyClientMethod_to_string Unsubscribe = ''unsubscribe''"

record SubscriberUpdateParams =
  sup_project_pk :: uuid
  sup_project_id :: string
  sup_pk :: uuid
  sup_account :: AccountId
  sup_updated_by_iss :: string
  sup_updated_by_domain :: string
  sup_method :: NotifyClientMethod
  sup_old_scope :: "uuid set"
  sup_new_scope :: "uuid set"
  sup_notification_topic :: topic
  sup_topic :: topic

record SubscriberUpdate =
  su_event_at :: datetime
  su_project_pk :: string
  su_project_id :: string
  su_pk :: string
  su_account :: string
  su_account_hash :: string
  su_updated_by_iss :: string
  su_updated_by_domain :: string
  su_method :: string
  su_old_scope :: string
  su_new_scope :: string
  su_notification_topic :: string
  su_topic :: string

text \<open>\<open>iter().join(",")\<close> of a hash set, whose order \<open>listing\<close> is the set's own.\<close>

definition join_scope :: "ext \<Rightarrow> (uuid set \<Rightarrow> uuid list) \<Rightarrow> uuid set \<Rightarrow> string" where
  "join_scope X listing scope = join_with '','' (map (uuid_to_string X) (listing scope))"

definition SubscriberUpdate_from ::
  "ext \<Rightarrow> (uuid set \<Rightarrow> uuid list) \<Rightarrow> datetime \<Rightarrow> SubscriberUpdateParams \<Rightarrow> SubscriberUpdate" where
  "SubscriberUpdate_from X listing now p =
     \<lparr> su_event_at = now, su_project_pk = uuid_to_string X (sup_project_pk p), su_project_id = sup_project_id p,
       su_pk = uuid_to_string X (sup_pk p), su_account = sup_account p,
       su_account_hash = sha256_digest X (as_bytes (sup_account p)), su_updated_by_iss = sup_updated_by_iss p,
       su_updated_by_domain = sup_updated_by_domain p, su_method = NotifyClientMethod_to_string (sup_method p),
       su_old_scope = join_scope X listing (sup_old_scope p), su_new_scope = join_scope X listing (sup_new_scope p),
       su_notification_topic = sup_notification_topic p, su_topic = sup_topic p \<rparr>"

section \<open>Deliveries\<close>

record SubscriberNotificationParams =
  snp_project_pk :: uuid
  snp_project_id :: string
  snp_subscriber_pk :: uuid
  snp_account :: AccountId
  snp_subscriber_notification_pk :: uuid
  snp_notification_pk :: uuid
  snp_notification_type :: uuid
  snp_notify_topic :: topic
  snp_message_id :: string

record SubscriberNotification =
  sne_event_at :: datetime
  sne_project_pk :: string
  sne_project_id :: string
  sne_subscriber_pk :: string
  sne_account :: string
  sne_account_hash :: string
  sne_subscriber_notification_pk :: string
  sne_notification_pk :: string
  sne_notification_type :: string
  sne_notification_topic :: string
  sne_message_id :: string

definition SubscriberNotification_from ::
  "ext \<Rightarrow> datetime \<Rightarrow> SubscriberNotificationParams \<Rightarrow> SubscriberNotification" where
  "SubscriberNotification_from X now p =
     \<lparr> sne_event_at = now, sne_project_pk = uuid_to_string X (snp_project_pk p), sne_project_id = snp_project_id p,
       sne_subscriber_pk = uuid_to_string X (snp_subscriber_pk p), sne_account = snp_account p,
       sne_account_hash = sha256_digest X (as_bytes (snp_account p)),
       sne_subscriber_notification_pk = uuid_to_string X (snp_subscriber_notification_pk p),
       sne_notification_pk = uuid_to_string X (snp_notification_pk p),
       sne_notification_type = uuid_to_string X (snp_notification_type p),
       sne_notification_topic = snp_notify_topic p, sne_message_id = snp_message_id p \<rparr>"

section \<open>Reading and marking\<close>

record GetNotificationsEventParams =
  gnp_topic :: topic
  gnp_message_id :: string
  gnp_get_by_iss :: string
  gnp_get_by_domain :: string
  gnp_project_pk :: uuid
  gnp_project_id :: string
  gnp_subscriber_pk :: uuid
  gnp_subscriber_account :: AccountId
  gnp_notification_topic :: topic
  gnp_subscriber_notification_pk :: uuid
  gnp_notification_pk :: uuid
  gnp_notification_type :: uuid
  gnp_returned_count :: nat

record GetNotificationsEvent =
  gne_event_at :: datetime
  gne_topic :: string
  gne_message_id :: string
  gne_get_by_iss :: string
  gne_get_by_domain :: string
  gne_project_pk :: string
  gne_project_id :: string
  gne_subscriber_pk :: string
  gne_subscriber_account :: string
  gne_subscriber_account_hash :: string
  gne_notification_topic :: string
  gne_subscriber_notification_id :: string
  gne_notification_id :: string
  gne_notification_type :: string
  gne_returned_count :: nat

definition GetNotifications_from ::
  "ext \<Rightarrow> datetime \<Rightarrow> GetNotificationsEventParams \<Rightarrow> GetNotificationsEvent" where
  "GetNotifications_from X now p =
     \<lparr> gne_event_at = now, gne_topic = gnp_topic p, gne_message_id = gnp_message_id p,
       gne_get_by_iss = gnp_get_by_iss p, gne_get_by_domain = gnp_get_by_domain p,
       gne_project_pk = uuid_to_string X (gnp_project_pk p), gne_project_id = gnp_project_id p,
       gne_subscriber_pk = uuid_to_string X (gnp_subscriber_pk p), gne_subscriber_account = gnp_subscriber_account p,
       gne_subscriber_account_hash = sha256_digest X (as_bytes (gnp_subscriber_account p)),
       gne_notification_topic = gnp_notification_topic p,
       gne_subscriber_notification_id = uuid_to_string X (gnp_subscriber_notification_pk p),
       gne_notification_id = uuid_to_string X (gnp_notification_pk p),
       gne_notification_type = uuid_to_string X (gnp_notification_type p),
       gne_returned_count = gnp_returned_count p \<rparr>"

record MarkNotificationsAsReadEventParams =
  mnp_topic :: topic
  mnp_message_id :: string
  mnp_by_iss :: string
  mnp_by_domain :: string
  mnp_project_pk :: uuid
  mnp_project_id :: string
  mnp_subscriber_pk :: uuid
  mnp_subscriber_account :: AccountId
  mnp_notification_topic :: topic
  mnp_subscriber_notification_pk :: uuid
  mnp_notification_pk :: uuid
  mnp_marked_count :: nat

record MarkNotificationsAsReadEvent =
  mne_event_at :: datetime
  mne_topic :: string
  mne_message_id :: string
  mne_get_by_iss :: string
  mne_get_by_domain :: string
  mne_project_pk :: string
  mne_project_id :: string
  mne_subscriber_pk :: string
  mne_subscriber_account :: string
  mne_subscriber_account_hash :: string
  mne_notification_topic :: string
  mne_subscriber_notification_pk :: string
  mne_notification_pk :: string
  mne_marked_count :: nat

definition MarkNotificationsAsRead_from ::
  "ext \<Rightarrow> datetime \<Rightarrow> MarkNotificationsAsReadEventParams \<Rightarrow> MarkNotificationsAsReadEvent" where
  "MarkNotificationsAsRead_from X now p =
     \<lparr> mne_event_at = now, mne_topic = mnp_topic p, mne_message_id = mnp_message_id p,
       mne_get_by_iss = mnp_by_iss p, mne_get_by_domain = mnp_by_domain p,
       mne_project_pk = uuid_to_string X (mnp_project_pk p), mne_project_id = mnp_project_id p,
       mne_subscriber_pk = uuid_to_string X (mnp_subscriber_pk p), mne_subscriber_account = mnp_subscriber_account p,
       mne_subscriber_account_hash = sha256_digest X (as_bytes (mnp_subscriber_account p)),
       mne_notification_topic = mnp_notification_topic p,
       mne_subscriber_notification_pk = uuid_to_string X (mnp_subscriber_notification_pk p),
       mne_notification_pk = uuid_to_string X (mnp_notification_pk p), mne_marked_count = mnp_marked_count p \<rparr>"

section \<open>Links\<close>

text \<open>\<open>wc::geoip::Data\<close>: the members that are read.\<close>

record geo_data =
  geo_continent :: "string option"
  geo_country :: "string option"
  geo_region :: "string list option"

record NotificationLinkParams =
  nlp_project_pk :: uuid
  nlp_project_id :: string
  nlp_subscriber_pk :: uuid
  nlp_subscriber_account :: AccountId
  nlp_notification_topic :: topic
  nlp_subscriber_notification_pk :: uuid
  nlp_notification_pk :: uuid
  nlp_notification_type :: uuid
  nlp_geo :: "geo_data option"
  nlp_user_agent :: "string option"

record NotificationLinkEvent =
  nle_project_pk :: string
  nle_project_id :: string
  nle_subscriber_pk :: string
  nle_subscriber_account :: string
  nle_subscriber_account_hash :: string
  nle_notification_topic :: string
  nle_subscriber_notification_id :: string
  nle_notification_id :: string
  nle_notification_type :: string
  nle_region :: "string option"
  nle_country :: "string option"
  nle_continent :: "string option"
  nle_user_agent :: "string option"

definition NotificationLink_from :: "ext \<Rightarrow> NotificationLinkParams \<Rightarrow> NotificationLinkEvent" where
  "NotificationLink_from X p =
     (let (region, country, continent) =
        (case nlp_geo p of None \<Rightarrow> (None, None, None)
         | Some geo \<Rightarrow> (map_option (join_with '', '') (geo_region geo), geo_country geo, geo_continent geo)) in
      \<lparr> nle_project_pk = uuid_to_string X (nlp_project_pk p), nle_project_id = nlp_project_id p,
        nle_subscriber_pk = uuid_to_string X (nlp_subscriber_pk p), nle_subscriber_account = nlp_subscriber_account p,
        nle_subscriber_account_hash = sha256_digest X (as_bytes (nlp_subscriber_account p)),
        nle_notification_topic = nlp_notification_topic p,
        nle_subscriber_notification_id = uuid_to_string X (nlp_subscriber_notification_pk p),
        nle_notification_id = uuid_to_string X (nlp_notification_pk p),
        nle_notification_type = uuid_to_string X (nlp_notification_type p),
        nle_region = region, nle_country = country, nle_continent = continent, nle_user_agent = nlp_user_agent p \<rparr>)"

section \<open>Answers to the relay's messages\<close>

record RelayIncomingMessage =
  rm_topic :: topic
  rm_message :: string
  rm_tag :: nat
  rm_message_id :: string
  rm_received_at :: datetime

record RelayResponseParams =
  rrp_request :: RelayIncomingMessage
  rrp_response_message_id :: string
  rrp_response_topic :: topic
  rrp_response_tag :: nat
  rrp_response_initiated_at :: datetime
  rrp_response_finished_at :: datetime
  rrp_response_success :: bool

record RelayRequest =
  rr_event_at :: datetime
  rr_request_message_id :: string
  rr_request_topic :: string
  rr_request_tag :: nat
  rr_request_received_at :: datetime
  rr_response_message_id :: string
  rr_response_topic :: string
  rr_response_tag :: nat
  rr_response_initiated_at :: datetime
  rr_response_finished_at :: datetime
  rr_response_success :: bool

definition RelayRequest_from :: "datetime \<Rightarrow> RelayResponseParams \<Rightarrow> RelayRequest" where
  "RelayRequest_from now p =
     \<lparr> rr_event_at = now, rr_request_message_id = rm_message_id (rrp_request p),
       rr_request_topic = rm_topic (rrp_request p), rr_request_tag = rm_tag (rrp_request p),
       rr_request_received_at = rm_received_at (rrp_request p),
       rr_response_message_id = rrp_response_message_id p, rr_response_topic = rrp_response_topic p,
       rr_response_tag = rrp_response_tag p, rr_response_initiated_at = rrp_response_initiated_at p,
       rr_response_finished_at = rrp_response_finished_at p, rr_response_success = rrp_response_success p \<rparr>"

section \<open>What is collected\<close>

datatype analytics_event =
    Subscriber_notification SubscriberNotification
  | Subscriber_update SubscriberUpdate
  | Get_notifications GetNotificationsEvent
  | Mark_notifications_as_read MarkNotificationsAsReadEvent
  | Notification_link NotificationLinkEvent
  | Relay_request RelayRequest

text \<open>The collector a record goes to.\<close>

fun data_kind :: "analytics_event \<Rightarrow> DataKind" where
  "data_kind (Subscriber_notification e) = SubscriberNotifications"
| "data_kind (Subscriber_update e) = SubscriberUpdates"
| "data_kind (Get_notifications e) = GetNotifications_kind"
| "data_kind (Mark_notifications_as_read e) = MarkNotificationsAsRead_kind"
| "data_kind (Notification_link e) = NotificationLinks"
| "data_kind (Relay_request e) = RelayRequests"

section \<open>Facts\<close>

lemma aws_export_prefix_inj: "aws_export_prefix k = aws_export_prefix l \<Longrightarrow> k = l"
  by (cases k; cases l) (simp_all add: aws_export_prefix_def)

text \<open>The kinds do not share a place in the bucket, so no batch of one can be taken for another's.\<close>

lemma exporters_apart:
  assumes "na_collector (analytics_initialize b ip r) k = Some x" "na_collector (analytics_initialize b ip r) l = Some y"
    and "ex_prefix x = ex_prefix y"
  shows "k = l"
  using assms aws_export_prefix_inj
  by (auto simp: analytics_initialize_def with_aws_export_def with_noop_export_def make_export_def split: option.splits)

lemma join_scope_empty: "listing {} = [] \<Longrightarrow> join_scope X listing {} = ''''"
  by (simp add: join_scope_def)

end
