(* ===== verification/Rpc.thy ===== *)
theory Rpc
  imports Jwt
begin

text \<open>
  JSON-RPC messages (\<open>src/src/rpc.rs\<close>) and the sealing and opening of the messages that carry
  them (\<open>relay_webhook/handlers/mod.rs\<close>). Message ids come from the generator of \<open>relay_rpc\<close>,
  which is an argument.
\<close>

section \<open>Messages\<close>

record 'p JsonRpcRequest =
  rq_id :: u64
  rq_jsonrpc :: string
  rq_method :: string
  rq_params :: 'p

definition JSON_RPC_VERSION :: string where
  "JSON_RPC_VERSION = ''2.0''"

definition JsonRpcRequest_new :: "u64 \<Rightarrow> string \<Rightarrow> 'p \<Rightarrow> 'p JsonRpcRequest" where
  "JsonRpcRequest_new i method params =
     \<lparr> rq_id = i, rq_jsonrpc = JSON_RPC_VERSION, rq_method = method, rq_params = params \<rparr>"

definition JsonRpcRequest_to_json :: "('p \<Rightarrow> json) \<Rightarrow> 'p JsonRpcRequest \<Rightarrow> json" where
  "JsonRpcRequest_to_json f r = JObject
     [(''id'', ju64 (rq_id r)), (''jsonrpc'', JString (rq_jsonrpc r)), (''method'', JString (rq_method r)),
      (''params'', f (rq_params r))]"

definition JsonRpcRequest_from_json :: "(json \<Rightarrow> 'p parsed) \<Rightarrow> json \<Rightarrow> 'p JsonRpcRequest parsed" where
  "JsonRpcRequest_from_json f j =
     rbind (as_struct [''id'', ''jsonrpc'', ''method'', ''params''] j) (\<lambda>ms.
     rbind (req_field as_u64 ''id'' ms) (\<lambda>i.
     rbind (req_field as_string ''jsonrpc'' ms) (\<lambda>v.
     rbind (req_field as_string ''method'' ms) (\<lambda>m.
     rbind (req_field f ''params'' ms) (\<lambda>p.
       Inr \<lparr> rq_id = i, rq_jsonrpc = v, rq_method = m, rq_params = p \<rparr>)))))"

record 'p JsonRpcResponse =
  rs_id :: u64
  rs_jsonrpc :: string
  rs_result :: 'p

definition JsonRpcResponse_new :: "u64 \<Rightarrow> 'p \<Rightarrow> 'p JsonRpcResponse" where
  "JsonRpcResponse_new i r = \<lparr> rs_id = i, rs_jsonrpc = JSON_RPC_VERSION, rs_result = r \<rparr>"

definition JsonRpcResponse_to_json :: "('p \<Rightarrow> json) \<Rightarrow> 'p JsonRpcResponse \<Rightarrow> json" where
  "JsonRpcResponse_to_json f r = JObject
     [(''id'', ju64 (rs_id r)), (''jsonrpc'', JString (rs_jsonrpc r)), (''result'', f (rs_result r))]"

record JsonRpcError =
  je_code :: int
  je_message :: string

record JsonRpcResponseError =
  re_id :: u64
  re_jsonrpc :: string
  re_error :: JsonRpcError

definition JsonRpcResponseError_new :: "u64 \<Rightarrow> JsonRpcError \<Rightarrow> JsonRpcResponseError" where
  "JsonRpcResponseError_new i e = \<lparr> re_id = i, re_jsonrpc = JSON_RPC_VERSION, re_error = e \<rparr>"

definition JsonRpcResponseError_to_json :: "JsonRpcResponseError \<Rightarrow> json" where
  "JsonRpcResponseError_to_json r = JObject
     [(''id'', ju64 (re_id r)), (''jsonrpc'', JString (re_jsonrpc r)),
      (''error'', JObject [(''code'', JInt (je_code (re_error r))),
                         (''message'', JString (je_message (re_error r)))])]"

text \<open>Each parameter and result struct has one string member; the structs are told apart by its name.\<close>

definition auth_from_json :: "string \<Rightarrow> json \<Rightarrow> string parsed" where
  "auth_from_json nm j = rbind (as_struct [nm] j) (req_field as_string nm)"

definition auth_to_json :: "string \<Rightarrow> string \<Rightarrow> json" where
  "auth_to_json nm s = JObject [(nm, JString s)]"

definition ResponseAuth_field :: string where "ResponseAuth_field = ''responseAuth''"
definition NotifyWatchSubscriptions_field :: string where "NotifyWatchSubscriptions_field = ''watchSubscriptionsAuth''"
definition NotifySubscriptionsChanged_field :: string where
  "NotifySubscriptionsChanged_field = ''subscriptionsChangedAuth''"
definition NotifySubscribe_field :: string where "NotifySubscribe_field = ''subscriptionAuth''"
definition NotifyUpdate_field :: string where "NotifyUpdate_field = ''updateAuth''"
definition NotifyDelete_field :: string where "NotifyDelete_field = ''deleteAuth''"
definition NotifyMessageAuth_field :: string where "NotifyMessageAuth_field = ''messageAuth''"
definition AuthMessage_field :: string where "AuthMessage_field = ''auth''"

section \<open>Sealing and opening\<close>

text \<open>
  \<open>serde_json::to_vec\<close>, a type 0 envelope under the symmetric key, and Base64: what every message
  the server publishes goes through. \<open>None\<close> when encryption fails.
\<close>

definition seal_message :: "ext \<Rightarrow> bytes \<Rightarrow> bytes \<Rightarrow> json \<Rightarrow> string option" where
  "seal_message X nonce sym_key message =
     map_option (\<lambda>e. b64_std_encode X (Envelope0_to_bytes e))
       (Envelope0_new X nonce sym_key (as_bytes (json_to_string X message)))"

datatype DecryptError = Decryption | JsonDeserialization string

definition decrypt_message ::
  "ext \<Rightarrow> (json \<Rightarrow> 'p parsed) \<Rightarrow> bytes \<Rightarrow> bytes \<Rightarrow> bytes \<Rightarrow> ('p JsonRpcRequest, DecryptError) result" where
  "decrypt_message X f envelope_iv envelope_sealbox encryption_key =
     rbind (ok_or (chacha_decrypt X encryption_key envelope_iv envelope_sealbox) Decryption) (\<lambda>msg.
       map_err JsonDeserialization (rbind (json_from_slice X msg) (JsonRpcRequest_from_json f)))"

section \<open>Facts\<close>

lemma as_u64_ju64 [simp]: "as_u64 (ju64 w) = Inr w"
  using uint_bounded [of w] by (simp add: as_u64_def ju64_def)

lemma auth_roundtrip [simp]: "auth_from_json nm (auth_to_json nm s) = Inr s"
  by (simp add: auth_from_json_def auth_to_json_def as_struct_def req_field_def jfield_def as_string_def)

lemma request_roundtrip:
  assumes "f (g (rq_params r)) = Inr (rq_params r)"
  shows "JsonRpcRequest_from_json f (JsonRpcRequest_to_json g r) = Inr r"
  using assms
  by (simp add: JsonRpcRequest_from_json_def JsonRpcRequest_to_json_def as_struct_def req_field_def
      jfield_def as_string_def)

text \<open>A client's request survives printing and parsing, whichever method it is for.\<close>

interpretation rpc_request: codec "\<lambda>_. True" "JsonRpcRequest_to_json (auth_to_json nm)"
    "JsonRpcRequest_from_json (auth_from_json nm)" for nm
  by unfold_locales (simp add: request_roundtrip)

lemma seal_message_Some:
  assumes "seal_message X nonce k j = Some s"
  obtains sb where "chacha_encrypt X k nonce (as_bytes (json_to_string X j)) = Some sb"
    and "s = b64_std_encode X (0 # nonce @ sb)"
  using assms by (auto simp: seal_message_def Envelope0_new_def Envelope0_to_bytes_def)

text \<open>Opening a sealed message gives its nonce and box back, and the box holds the message's text.\<close>

lemma seal_message_opens:
  assumes "aead_laws X" "\<forall>bs. b64_std_decode X (b64_std_encode X bs) = Inr bs" "length nonce = 12"
    and "seal_message X nonce k j = Some s"
  shows "\<exists>bs e. b64_std_decode X s = Inr bs \<and> Envelope0_from_bytes bs = Inr e \<and>
    chacha_decrypt X k (iv e) (sealbox e) = Some (as_bytes (json_to_string X j))"
proof -
  obtain sb where sb: "chacha_encrypt X k nonce (as_bytes (json_to_string X j)) = Some sb"
    and s: "s = b64_std_encode X (0 # nonce @ sb)"
    using seal_message_Some [OF assms(4)] by blast
  have "Envelope0_from_bytes (Envelope0_to_bytes \<lparr> envelope_type = 0, iv = nonce, sealbox = sb, opts = EnvelopeType0 \<rparr>) =
      Inr \<lparr> envelope_type = 0, iv = nonce, sealbox = sb, opts = EnvelopeType0 \<rparr>"
    by (rule envelope0.dec_enc) (simp add: wf_envelope0_def assms(3))
  then show ?thesis
    using sb s assms(1,2) by (simp add: Envelope0_to_bytes_def aead_laws_def)
qed

end
