(* ===== verification/Notify_Keys.thy ===== *)
theory Notify_Keys
  imports Wire Claims
begin

text \<open>
  The server's own keys (\<open>src/src/notify_keys.rs\<close>) and the DID document that publishes them
  (\<open>src/src/services/public_http_server/handlers/did_json.rs\<close>). The host of a URL, the seeded
  random generator, the generation of a signing key from it and padded URL-safe Base64 are
  arguments.
\<close>

record NotifyKeys =
  nk_domain :: string
  nk_key_agreement_secret :: bytes
  nk_key_agreement_public :: bytes
  nk_key_agreement_topic :: topic
  nk_authentication_secret :: bytes
  nk_authentication_public :: bytes
  nk_authentication_client_id :: bytes

text \<open>\<open>DecodedClientId::from_key\<close> is the bytes of the key.\<close>

definition get_client_id :: "bytes \<Rightarrow> bytes" where
  "get_client_id verifying_key = verifying_key"

datatype NotifyKeysError = NkUrlMissingHost

definition NotifyKeys_new ::
  "ext \<Rightarrow> (string \<Rightarrow> string option) \<Rightarrow> (bytes \<Rightarrow> bytes) \<Rightarrow> (bytes \<Rightarrow> bytes) \<Rightarrow> string \<Rightarrow> bytes
     \<Rightarrow> (NotifyKeys, NotifyKeysError) result" where
  "NotifyKeys_new X host_str fill_bytes signing_key_generate notify_url keypair_seed =
     rbind (ok_or (host_str notify_url) NkUrlMissingHost) (\<lambda>domain.
       let key_agreement_secret = fill_bytes keypair_seed;
           key_agreement_public = x25519_public_key X key_agreement_secret;
           authentication_secret = signing_key_generate keypair_seed;
           authentication_public = ed25519_verifying_key X authentication_secret in
       Inr \<lparr> nk_domain = domain, nk_key_agreement_secret = key_agreement_secret,
         nk_key_agreement_public = key_agreement_public,
         nk_key_agreement_topic = topic_from_key X key_agreement_public,
         nk_authentication_secret = authentication_secret, nk_authentication_public = authentication_public,
         nk_authentication_client_id = get_client_id authentication_public \<rparr>)"

section \<open>\<open>did.json\<close>\<close>

definition WC_NOTIFY_SUBSCRIBE_KEY_ID :: string where "WC_NOTIFY_SUBSCRIBE_KEY_ID = ''#wc-notify-subscribe-key''"
definition WC_NOTIFY_AUTHENTICATION_KEY_ID :: string where
  "WC_NOTIFY_AUTHENTICATION_KEY_ID = ''#wc-notify-authentication-key''"
definition CONTEXT_DID_V1 :: string where "CONTEXT_DID_V1 = ''https://www.w3.org/ns/did/v1''"
definition CONTEXT_JWS_V1 :: string where "CONTEXT_JWS_V1 = ''https://w3id.org/security/suites/jws-2020/v1''"
definition JSON_WEB_KEY_2020 :: string where "JSON_WEB_KEY_2020 = ''JsonWebKey2020''"
definition OKP :: string where "OKP = ''OKP''"
definition X25519 :: string where "X25519 = ''X25519''"
definition ED25519 :: string where "ED25519 = ''Ed25519''"

record PublicKeyJwk =
  jwk_kty :: string
  jwk_crv :: string
  jwk_x :: string

record VerificationMethod =
  vm_id :: string
  vm_type :: string
  vm_controller :: DidWeb
  vm_public_key_jwk :: PublicKeyJwk

record DidJson =
  dj_context :: "string list"
  dj_id :: DidWeb
  dj_verification_method :: "VerificationMethod list"
  dj_key_agreement :: "string list"
  dj_authentication :: "string list"

definition generate_json :: "ext \<Rightarrow> (bytes \<Rightarrow> string) \<Rightarrow> NotifyKeys \<Rightarrow> DidJson" where
  "generate_json X base64url notify_keys =
     (let did_id = nk_domain notify_keys;
          key_agreement_key_id = DidWeb_to_string X did_id @ WC_NOTIFY_SUBSCRIBE_KEY_ID;
          authentication_key_id = DidWeb_to_string X did_id @ WC_NOTIFY_AUTHENTICATION_KEY_ID;
          key_agreement = base64url (nk_key_agreement_public notify_keys);
          authentication = base64url (nk_authentication_public notify_keys) in
      \<lparr> dj_context = [CONTEXT_DID_V1, CONTEXT_JWS_V1], dj_id = did_id,
        dj_verification_method =
          [\<lparr> vm_id = key_agreement_key_id, vm_type = JSON_WEB_KEY_2020, vm_controller = did_id,
             vm_public_key_jwk = \<lparr> jwk_kty = OKP, jwk_crv = X25519, jwk_x = key_agreement \<rparr> \<rparr>,
           \<lparr> vm_id = authentication_key_id, vm_type = JSON_WEB_KEY_2020, vm_controller = did_id,
             vm_public_key_jwk = \<lparr> jwk_kty = OKP, jwk_crv = ED25519, jwk_x = authentication \<rparr> \<rparr>],
        dj_key_agreement = [key_agreement_key_id], dj_authentication = [authentication_key_id] \<rparr>)"

definition VerificationMethod_to_json :: "ext \<Rightarrow> VerificationMethod \<Rightarrow> json" where
  "VerificationMethod_to_json X v = JObject
     [(''id'', JString (vm_id v)), (''type'', JString (vm_type v)), (''controller'', jdid_web X (vm_controller v)),
      (''publicKeyJwk'', JObject [(''kty'', JString (jwk_kty (vm_public_key_jwk v))),
         (''crv'', JString (jwk_crv (vm_public_key_jwk v))), (''x'', JString (jwk_x (vm_public_key_jwk v)))])]"

definition DidJson_to_json :: "ext \<Rightarrow> DidJson \<Rightarrow> json" where
  "DidJson_to_json X d = JObject
     [(''@context'', JArray (map JString (dj_context d))), (''id'', jdid_web X (dj_id d)),
      (''verificationMethod'', JArray (map (VerificationMethod_to_json X) (dj_verification_method d))),
      (''keyAgreement'', JArray (map JString (dj_key_agreement d))),
      (''authentication'', JArray (map JString (dj_authentication d)))]"

text \<open>Keys for examples.\<close>

definition notify_keys_demo :: NotifyKeys where
  "notify_keys_demo = \<lparr> nk_domain = ''notify'', nk_key_agreement_secret = replicate 32 11,
     nk_key_agreement_public = replicate 32 13, nk_key_agreement_topic = hex_demo (replicate 32 13),
     nk_authentication_secret = replicate 32 11, nk_authentication_public = replicate 32 12,
     nk_authentication_client_id = replicate 32 12 \<rparr>"

lemma notify_keys_demo_new:
  "NotifyKeys_new ext_demo (\<lambda>u. Some ''notify'') (\<lambda>s. s) (\<lambda>s. s) ''https://notify'' (replicate 32 11) = Inr notify_keys_demo"
  by (simp add: NotifyKeys_new_def notify_keys_demo_def ext_demo_def topic_from_key_def get_client_id_def Let_def)

end
