(* ===== verification/World.thy ===== *)
theory World
  imports Rpc Auth Rate_Limit Analytics Notify_Keys
begin

text \<open>
  The state a request handler works on (\<open>AppState\<close> of \<open>src/src/state.rs\<close>) and the handlers' monad.
  A handler maps a world to a result and a new world; what it did before it failed stays done.
  The pool of PostgreSQL connections is the database, every statement of which is atomic; Redis is
  the buckets of the rate limiter and the cache of CACAOs; the relay is the list of messages it
  took and of topics the server subscribed to; the analytics are the records collected.
\<close>

section \<open>World and environment\<close>

record world =
  w_db :: db
  w_buckets :: redis_buckets
  w_cacao :: cacao_cache
  w_published :: "Publish list"
  w_subscribed :: "topic list"
  w_unsubscribed :: "topic list"
  w_receipts :: "(topic \<times> u64) list"
  w_events :: "analytics_event list"
  w_drawn :: nat

text \<open>
  One draw of the random generators: a stream of \<open>gen_random_uuid()\<close> for one statement, a
  \<open>Uuid::new_v4\<close>, a 12-byte nonce, a 32-byte secret and a JSON-RPC message id.
\<close>

record draw =
  dr_uuids :: "nat \<Rightarrow> uuid"
  dr_uuid_v4 :: uuid
  dr_nonce :: bytes
  dr_secret :: bytes
  dr_message_id :: u64

text \<open>
  What a request meets: one reading of the clock, Redis's own time, whether Redis is configured,
  the draws, the answers of the relay, attempt by attempt, the server's configuration and keys, the
  texts of errors that quote other libraries, which of two joined futures is ready first, and the
  iteration order of a hash set.
\<close>

record env =
  en_ext :: ext
  en_now :: datetime
  en_redis_now :: int
  en_redis :: bool
  en_draw :: "nat \<Rightarrow> draw"
  en_publish :: "Publish \<Rightarrow> nat \<Rightarrow> (unit, PublishError) result"
  en_subscribe :: "topic \<Rightarrow> nat \<Rightarrow> (unit, string) result"
  en_notify_url :: string
  en_notify_keys :: NotifyKeys
  en_relay_identity :: string
  en_webhook_notify_url :: string
  en_jwt_text :: "JwtError \<Rightarrow> string"
  en_identity_text :: "IdentityVerificationClientError \<Rightarrow> string"
  en_aead_text :: string
  en_debug_text :: "string \<Rightarrow> string"
  en_response_first :: bool
  en_listing :: "uuid set \<Rightarrow> uuid list"

section \<open>Handlers\<close>

datatype 'e failure = Failure 'e | Panicked

type_synonym ('a, 'e) handler = "world \<Rightarrow> ('a, 'e failure) result \<times> world"

definition h_return :: "'a \<Rightarrow> ('a, 'e) handler" where
  "h_return x w = (Inr x, w)"

definition h_fail :: "'e \<Rightarrow> ('a, 'e) handler" where
  "h_fail e w = (Inl (Failure e), w)"

definition h_panic :: "('a, 'e) handler" where
  "h_panic w = (Inl Panicked, w)"

definition h_bind :: "('a, 'e) handler \<Rightarrow> ('a \<Rightarrow> ('b, 'e) handler) \<Rightarrow> ('b, 'e) handler" where
  "h_bind m f w = (case m w of (Inl e, w') \<Rightarrow> (Inl e, w') | (Inr x, w') \<Rightarrow> f x w')"

text \<open>A pure result, with the error mapped as \<open>?\<close> maps it.\<close>

definition h_lift :: "('x \<Rightarrow> 'e) \<Rightarrow> ('a, 'x) result \<Rightarrow> ('a, 'e) handler" where
  "h_lift g r = (case r of Inl x \<Rightarrow> h_fail (g x) | Inr x \<Rightarrow> h_return x)"

definition h_guard :: "bool \<Rightarrow> 'e \<Rightarrow> (unit, 'e) handler" where
  "h_guard bad e = (if bad then h_fail e else h_return ())"

text \<open>A value that is \<open>None\<close> where the source panics.\<close>

definition h_expect :: "'a option \<Rightarrow> ('a, 'e) handler" where
  "h_expect v = (case v of None \<Rightarrow> h_panic | Some x \<Rightarrow> h_return x)"

text \<open>A query, and a statement that changes the database when it succeeds.\<close>

definition h_query :: "('x \<Rightarrow> 'e) \<Rightarrow> (db \<Rightarrow> ('a, 'x) result) \<Rightarrow> ('a, 'e) handler" where
  "h_query g q w = h_lift g (q (w_db w)) w"

definition h_exec :: "('x \<Rightarrow> 'e) \<Rightarrow> (db \<Rightarrow> ('a \<times> db, 'x) result) \<Rightarrow> ('a, 'e) handler" where
  "h_exec g q w =
     (case q (w_db w) of Inl x \<Rightarrow> h_fail (g x) w | Inr (r, d) \<Rightarrow> (Inr r, w\<lparr> w_db := d \<rparr>))"

definition h_draw :: "env \<Rightarrow> (draw, 'e) handler" where
  "h_draw E w = (Inr (en_draw E (w_drawn w)), w\<lparr> w_drawn := Suc (w_drawn w) \<rparr>)"

fun h_mapM :: "('a \<Rightarrow> ('b, 'e) handler) \<Rightarrow> 'a list \<Rightarrow> ('b list, 'e) handler" where
  "h_mapM f [] = h_return []"
| "h_mapM f (x # xs) = h_bind (f x) (\<lambda>y. h_bind (h_mapM f xs) (\<lambda>ys. h_return (y # ys)))"

fun h_foldM :: "('s \<Rightarrow> 'a \<Rightarrow> ('s, 'e) handler) \<Rightarrow> 's \<Rightarrow> 'a list \<Rightarrow> ('s, 'e) handler" where
  "h_foldM f s [] = h_return s"
| "h_foldM f s (x # xs) = h_bind (f s x) (\<lambda>s'. h_foldM f s' xs)"

section \<open>Calls\<close>

text \<open>\<open>rate_limit::token_bucket\<close>, skipped when Redis is not configured.\<close>

definition h_token_bucket ::
  "env \<Rightarrow> (int \<Rightarrow> 'e) \<Rightarrow> string \<Rightarrow> int \<Rightarrow> int \<Rightarrow> int \<Rightarrow> (unit, 'e) handler" where
  "h_token_bucket E g key max_tokens interval refill_rate w =
     (if \<not> en_redis E then (Inr (), w)
      else case token_bucket max_tokens interval refill_rate (timestamp_millis (en_now E)) (en_redis_now E) key (w_buckets w) of
             (None, st) \<Rightarrow> (Inl Panicked, w\<lparr> w_buckets := st \<rparr>)
           | (Some (Inr u), st) \<Rightarrow> (Inr (), w\<lparr> w_buckets := st \<rparr>)
           | (Some (Inl (RateLimitExceeded reset)), st) \<Rightarrow> (Inl (Failure (g reset)), w\<lparr> w_buckets := st \<rparr>))"

definition h_verify_identity ::
  "env \<Rightarrow> bytes \<Rightarrow> string \<Rightarrow> string \<Rightarrow> (Authorization, IdentityVerificationError) handler" where
  "h_verify_identity E iss_client_id ksu sub w =
     (case verify_identity (en_ext E) (en_now E) iss_client_id ksu sub
             (if en_redis E then Some (w_cacao w) else None) of
        (r, redis) \<Rightarrow>
          (case r of Inl VerifyPanic \<Rightarrow> Inl Panicked | Inl e \<Rightarrow> Inl (Failure e) | Inr az \<Rightarrow> Inr az,
           case redis of None \<Rightarrow> w | Some c \<Rightarrow> w\<lparr> w_cacao := c \<rparr>))"

text \<open>A record for the analytics; when it cannot be collected, that is only logged.\<close>

definition h_collect :: "analytics_event \<Rightarrow> (unit, 'e) handler" where
  "h_collect ev w = (Inr (), w\<lparr> w_events := w_events w @ [ev] \<rparr>)"

definition analytics_subscriber_notification :: "env \<Rightarrow> SubscriberNotificationParams \<Rightarrow> (unit, 'e) handler" where
  "analytics_subscriber_notification E p =
     h_collect (Subscriber_notification (SubscriberNotification_from (en_ext E) (en_now E) p))"

definition analytics_subscriber_update :: "env \<Rightarrow> SubscriberUpdateParams \<Rightarrow> (unit, 'e) handler" where
  "analytics_subscriber_update E p =
     h_collect (Subscriber_update (SubscriberUpdate_from (en_ext E) (en_listing E) (en_now E) p))"

definition analytics_get_notifications :: "env \<Rightarrow> GetNotificationsEventParams \<Rightarrow> (unit, 'e) handler" where
  "analytics_get_notifications E p = h_collect (Get_notifications (GetNotifications_from (en_ext E) (en_now E) p))"

definition analytics_mark_notifications_as_read :: "env \<Rightarrow> MarkNotificationsAsReadEventParams \<Rightarrow> (unit, 'e) handler" where
  "analytics_mark_notifications_as_read E p =
     h_collect (Mark_notifications_as_read (MarkNotificationsAsRead_from (en_ext E) (en_now E) p))"

definition analytics_notification_links :: "env \<Rightarrow> NotificationLinkParams \<Rightarrow> (unit, 'e) handler" where
  "analytics_notification_links E p = h_collect (Notification_link (NotificationLink_from (en_ext E) p))"

lemmas analytics_defs = analytics_subscriber_notification_def analytics_subscriber_update_def
  analytics_get_notifications_def analytics_mark_notifications_as_read_def analytics_notification_links_def

text \<open>
  \<open>publish_relay_message\<close>: when the message answers one of the relay's, the outcome is reported.
\<close>

definition relay_request_event :: "env \<Rightarrow> RelayIncomingMessage \<Rightarrow> Publish \<Rightarrow> bool \<Rightarrow> analytics_event" where
  "relay_request_event E request p success = Relay_request (RelayRequest_from (en_now E)
     \<lparr> rrp_request = request, rrp_response_message_id = get_message_id (en_ext E) (pub_message p),
       rrp_response_topic = pub_topic p, rrp_response_tag = pub_tag p, rrp_response_initiated_at = en_now E,
       rrp_response_finished_at = en_now E, rrp_response_success = success \<rparr>)"

definition relay_request_events :: "env \<Rightarrow> RelayIncomingMessage option \<Rightarrow> Publish \<Rightarrow> bool \<Rightarrow> analytics_event list" where
  "relay_request_events E request p success =
     (case request of None \<Rightarrow> [] | Some m \<Rightarrow> [relay_request_event E m p success])"

definition h_publish :: "env \<Rightarrow> RelayIncomingMessage option \<Rightarrow> Publish \<Rightarrow> (unit, PublishError) handler" where
  "h_publish E request p w =
     (case publish_relay_message (en_publish E p) of
        Inl e \<Rightarrow> (Inl (Failure e), w\<lparr> w_events := w_events w @ relay_request_events E request p False \<rparr>)
      | Inr u \<Rightarrow> (Inr (), w\<lparr> w_published := w_published w @ [p],
          w_events := w_events w @ relay_request_events E request p True \<rparr>))"

definition h_subscribe :: "env \<Rightarrow> topic \<Rightarrow> (unit, string) handler" where
  "h_subscribe E t w =
     (case subscribe_relay_topic (en_subscribe E t) of
        Inl e \<Rightarrow> (Inl (Failure e), w)
      | Inr u \<Rightarrow> (Inr (), w\<lparr> w_subscribed := w_subscribed w @ [t] \<rparr>))"

text \<open>\<open>map_err\<close> on a handler.\<close>

definition h_map_err :: "('x \<Rightarrow> 'e) \<Rightarrow> ('a, 'x) handler \<Rightarrow> ('a, 'e) handler" where
  "h_map_err g m w =
     (case m w of (Inl (Failure x), w') \<Rightarrow> (Inl (Failure (g x)), w') | (Inl Panicked, w') \<Rightarrow> (Inl Panicked, w')
      | (Inr x, w') \<Rightarrow> (Inr x, w'))"

text \<open>\<open>match m.await\<close>: the outcome as a value; a panic goes through.\<close>

definition h_try :: "('a, 'x) handler \<Rightarrow> (('a, 'x) result, 'e) handler" where
  "h_try m w =
     (case m w of (Inl (Failure x), w') \<Rightarrow> (Inr (Inl x), w') | (Inl Panicked, w') \<Rightarrow> (Inl Panicked, w')
      | (Inr x, w') \<Rightarrow> (Inr (Inr x), w'))"

section \<open>Statements\<close>

text \<open>The statements of the database helpers as handlers; \<open>g\<close> is the conversion of their error.\<close>

definition db_upsert_project ::
  "env \<Rightarrow> (sqlx_error \<Rightarrow> 'e) \<Rightarrow> string \<Rightarrow> string \<Rightarrow> topic \<Rightarrow> bytes \<Rightarrow> bytes \<Rightarrow> (ProjectWithPublicKeys, 'e) handler" where
  "db_upsert_project E g project_id app_domain t authentication_key subscribe_key =
     h_bind (h_draw E) (\<lambda>dr. h_exec g (upsert_project (en_ext E) (dr_uuids dr 0) (en_now E) project_id app_domain t
       authentication_key subscribe_key))"

definition db_upsert_subscriber ::
  "env \<Rightarrow> (sqlx_error \<Rightarrow> 'e) \<Rightarrow> uuid \<Rightarrow> AccountId \<Rightarrow> uuid set \<Rightarrow> bytes \<Rightarrow> topic \<Rightarrow> (SubscribeResponse, 'e) handler" where
  "db_upsert_subscriber E g project account scope notify_key notify_topic =
     h_bind (h_draw E) (\<lambda>dr. h_exec g (upsert_subscriber (en_ext E) (dr_uuids dr 0) (\<lambda>k. dr_uuids dr (Suc k)) (en_now E)
       project account scope notify_key notify_topic))"

definition db_update_subscriber :: "env \<Rightarrow> (sqlx_error \<Rightarrow> 'e) \<Rightarrow> uuid \<Rightarrow> uuid set \<Rightarrow> (subscriber_row, 'e) handler" where
  "db_update_subscriber E g subscriber scope =
     h_bind (h_draw E) (\<lambda>dr. h_exec g (update_subscriber (en_ext E) (dr_uuids dr) (en_now E) subscriber scope))"

definition db_delete_subscriber :: "uuid \<Rightarrow> (unit, 'e) handler" where
  "db_delete_subscriber subscriber w = (Inr (), w\<lparr> w_db := delete_subscriber subscriber (w_db w) \<rparr>)"

definition db_upsert_subscription_watcher ::
  "env \<Rightarrow> (UpsertSubscriptionWatcherError \<Rightarrow> 'e) \<Rightarrow> AccountId \<Rightarrow> uuid option \<Rightarrow> string \<Rightarrow> string \<Rightarrow> datetime \<Rightarrow> (unit, 'e) handler" where
  "db_upsert_subscription_watcher E g account project did_key sym_key expiry =
     h_bind (h_draw E) (\<lambda>dr. h_exec g (\<lambda>d. map_ok (Pair ())
       (upsert_subscription_watcher (dr_uuids dr 0) (en_now E) account project did_key sym_key expiry d)))"

definition db_upsert_notification ::
  "env \<Rightarrow> (sqlx_error \<Rightarrow> 'e) \<Rightarrow> string \<Rightarrow> uuid \<Rightarrow> Notification \<Rightarrow> (NotificationWithId, 'e) handler" where
  "db_upsert_notification E g notification_id project notification =
     h_bind (h_draw E) (\<lambda>dr. h_exec g (upsert_notification (dr_uuids dr 0) (en_now E) notification_id project notification))"

definition db_upsert_subscriber_notifications ::
  "env \<Rightarrow> (sqlx_error \<Rightarrow> 'e) \<Rightarrow> uuid \<Rightarrow> uuid list \<Rightarrow> (unit, 'e) handler" where
  "db_upsert_subscriber_notifications E g notification subscriber_ids =
     h_bind (h_draw E) (\<lambda>dr. h_exec g (\<lambda>d. map_ok (Pair ())
       (upsert_subscriber_notifications (dr_uuids dr) (en_now E) notification subscriber_ids d)))"

definition db_mark_notifications_as_read :: "uuid \<Rightarrow> uuid list option \<Rightarrow> ((uuid \<times> uuid) list, 'e) handler" where
  "db_mark_notifications_as_read subscriber ids w =
     (case mark_notifications_as_read subscriber ids (w_db w) of (r, d) \<Rightarrow> (Inr r, w\<lparr> w_db := d \<rparr>))"

definition db_mark_all_notifications_as_read_for_project :: "uuid \<Rightarrow> ((uuid \<times> uuid) list, 'e) handler" where
  "db_mark_all_notifications_as_read_for_project project w =
     (case mark_all_notifications_as_read_for_project project (w_db w) of (r, d) \<Rightarrow> (Inr r, w\<lparr> w_db := d \<rparr>))"

definition db_set_welcome_notification :: "env \<Rightarrow> (sqlx_error \<Rightarrow> 'e) \<Rightarrow> uuid \<Rightarrow> WelcomeNotification \<Rightarrow> (unit, 'e) handler" where
  "db_set_welcome_notification E g project welcome =
     h_bind (h_draw E) (\<lambda>dr. h_exec g (\<lambda>d. map_ok (Pair ()) (set_welcome_notification (dr_uuids dr 0) project welcome d)))"

section \<open>Facts\<close>

named_theorems h_defs \<open>definitions of the handler operations\<close>
named_theorems h_ok \<open>when a handler succeeds\<close>

lemmas handler_defs [h_defs] = h_return_def h_fail_def h_panic_def h_lift_def h_guard_def h_expect_def
  h_query_def h_exec_def h_draw_def

lemma h_bind_Inr [h_ok]:
  "h_bind m f w = (Inr y, w') \<longleftrightarrow> (\<exists>x w1. m w = (Inr x, w1) \<and> f x w1 = (Inr y, w'))"
  by (auto simp: h_bind_def split: prod.splits sum.splits)

lemma h_return_Inr [h_ok]: "h_return x w = (Inr y, w') \<longleftrightarrow> y = x \<and> w' = w"
  by (auto simp: h_return_def)

lemma h_fail_Inr [h_ok]: "h_fail e w = (Inr y, w') \<longleftrightarrow> False"
  by (simp add: h_fail_def)

lemma h_panic_Inr [h_ok]: "h_panic w = (Inr y, w') \<longleftrightarrow> False"
  by (simp add: h_panic_def)

lemma h_lift_Inr [h_ok]: "h_lift g r w = (Inr y, w') \<longleftrightarrow> r = Inr y \<and> w' = w"
  by (cases r) (auto simp: h_defs)

lemma h_guard_Inr [h_ok]: "h_guard bad e w = (Inr u, w') \<longleftrightarrow> \<not> bad \<and> w' = w"
  by (auto simp: h_defs)

lemma h_expect_Inr [h_ok]: "h_expect v w = (Inr y, w') \<longleftrightarrow> v = Some y \<and> w' = w"
  by (cases v) (auto simp: h_defs)

lemma h_query_Inr [h_ok]: "h_query g q w = (Inr y, w') \<longleftrightarrow> q (w_db w) = Inr y \<and> w' = w"
  by (simp add: h_query_def h_lift_Inr)

lemma h_exec_Inr [h_ok]:
  "h_exec g q w = (Inr y, w') \<longleftrightarrow> (\<exists>d. q (w_db w) = Inr (y, d) \<and> w' = w\<lparr> w_db := d \<rparr>)"
  by (auto simp: h_exec_def h_fail_def split: sum.splits)

lemma h_draw_Inr [h_ok]:
  "h_draw E w = (Inr y, w') \<longleftrightarrow> y = en_draw E (w_drawn w) \<and> w' = w\<lparr> w_drawn := Suc (w_drawn w) \<rparr>"
  by (auto simp: h_draw_def)

lemma h_map_err_Inr [h_ok]: "h_map_err g m w = (Inr y, w') \<longleftrightarrow> m w = (Inr y, w')"
  by (auto simp: h_map_err_def split: prod.splits sum.splits failure.splits)

lemma h_publish_Inr [h_ok]:
  "h_publish E request p w = (Inr u, w') \<longleftrightarrow>
     is_ok (publish_relay_message (en_publish E p)) \<and> w' = w\<lparr> w_published := w_published w @ [p],
       w_events := w_events w @ relay_request_events E request p True \<rparr>"
  by (auto simp: h_publish_def split: sum.splits)

lemma h_subscribe_Inr [h_ok]:
  "h_subscribe E t w = (Inr u, w') \<longleftrightarrow>
     is_ok (subscribe_relay_topic (en_subscribe E t)) \<and> w' = w\<lparr> w_subscribed := w_subscribed w @ [t] \<rparr>"
  by (auto simp: h_subscribe_def split: sum.splits)

lemma h_collect_Inr [h_ok]: "h_collect ev w = (Inr u, w') \<longleftrightarrow> w' = w\<lparr> w_events := w_events w @ [ev] \<rparr>"
  by (auto simp: h_collect_def)

lemma h_token_bucket_Inr:
  "h_token_bucket E g key m i r w = (Inr u, w') \<Longrightarrow> \<exists>st. w' = w\<lparr> w_buckets := st \<rparr>"
  by (cases "en_redis E")
     (auto simp: h_token_bucket_def split: option.splits sum.splits RateLimitError.splits prod.splits
        intro: exI [of _ "w_buckets w"])

lemma h_verify_identity_Inr:
  assumes "h_verify_identity E k ksu sub w = (Inr az, w')"
  shows "fst (verify_identity (en_ext E) (en_now E) k ksu sub (if en_redis E then Some (w_cacao w) else None)) = Inr az \<and>
    (\<exists>c. w' = w\<lparr> w_cacao := c \<rparr>)"
  using assms
  by (auto simp: h_verify_identity_def split: prod.splits sum.splits IdentityVerificationError.splits option.splits
      intro: exI [of _ "w_cacao w"])

section \<open>Database invariants\<close>

definition db_keeps :: "(db \<Rightarrow> bool) \<Rightarrow> ('a, 'e) handler \<Rightarrow> bool" where
  "db_keeps I m \<longleftrightarrow> (\<forall>w. I (w_db w) \<longrightarrow> I (w_db (snd (m w))))"

lemma db_keepsD: "db_keeps I m \<Longrightarrow> I (w_db w) \<Longrightarrow> I (w_db (snd (m w)))"
  by (simp add: db_keeps_def)

named_theorems keeps_intros \<open>handlers that keep a database invariant\<close>

lemma keeps_simple [keeps_intros]:
  "db_keeps I (h_return x)" "db_keeps I (h_fail e)" "db_keeps I h_panic" "db_keeps I (h_lift f r)"
  "db_keeps I (h_guard b e)" "db_keeps I (h_expect v)" "db_keeps I (h_query f q)" "db_keeps I (h_draw E)"
  by (auto simp: db_keeps_def h_defs split: sum.splits option.splits)

lemma keeps_calls [keeps_intros]:
  "db_keeps I (h_token_bucket E tg key m i r)" "db_keeps I (h_verify_identity E k ksu sub)"
  "db_keeps I (h_publish E request p)" "db_keeps I (h_collect ev)" "db_keeps I (h_subscribe E t)"
  by (auto simp: db_keeps_def h_token_bucket_def h_verify_identity_def h_publish_def h_subscribe_def h_collect_def
      split: sum.splits option.splits prod.splits RateLimitError.splits)

lemma keeps_analytics [keeps_intros]:
  "db_keeps I (analytics_subscriber_notification E np)" "db_keeps I (analytics_subscriber_update E up)"
  "db_keeps I (analytics_get_notifications E gp)" "db_keeps I (analytics_mark_notifications_as_read E mp)"
  "db_keeps I (analytics_notification_links E lp)"
  unfolding analytics_defs by (rule keeps_calls)+

lemma keeps_bind [keeps_intros]:
  assumes "db_keeps I m" "\<And>x w w'. m w = (Inr x, w') \<Longrightarrow> db_keeps I (f x)"
  shows "db_keeps I (h_bind m f)"
  unfolding db_keeps_def
proof (intro allI impI)
  fix w :: world assume w: "I (w_db w)"
  obtain r w1 where m: "m w = (r, w1)" by force
  then have "I (w_db w1)" using assms(1) w unfolding db_keeps_def by (metis snd_conv)
  then show "I (w_db (snd (h_bind m f w)))"
    using assms(2) m by (cases r) (auto simp: h_bind_def db_keeps_def)
qed

lemma keeps_map_err [keeps_intros]: "db_keeps I m \<Longrightarrow> db_keeps I (h_map_err g m)"
  unfolding db_keeps_def h_map_err_def by (auto split: prod.splits sum.splits failure.splits)

lemma keeps_try [keeps_intros]: "db_keeps I m \<Longrightarrow> db_keeps I (h_try m)"
  unfolding db_keeps_def h_try_def by (auto split: prod.splits sum.splits failure.splits)

lemma keeps_exec:
  assumes "\<And>d r d'. q d = Inr (r, d') \<Longrightarrow> I d \<Longrightarrow> I d'"
  shows "db_keeps I (h_exec g q)"
  using assms by (auto simp: db_keeps_def h_exec_def h_fail_def split: sum.splits)

lemma keeps_draw_exec:
  assumes "\<And>dr d r d'. q dr d = Inr (r, d') \<Longrightarrow> I d \<Longrightarrow> I d'"
  shows "db_keeps I (h_bind (h_draw E) (\<lambda>dr. h_exec g (q dr)))"
  by (intro keeps_bind keeps_simple keeps_exec) (rule assms)

lemma keeps_mapM [keeps_intros]: "(\<And>x. db_keeps I (f x)) \<Longrightarrow> db_keeps I (h_mapM f xs)"
  by (induction xs) (auto intro: keeps_intros)

lemma keeps_foldM [keeps_intros]: "(\<And>s x. db_keeps I (f s x)) \<Longrightarrow> db_keeps I (h_foldM f s xs)"
  by (induction xs arbitrary: s) (auto intro: keeps_intros)

lemma keeps_if [keeps_intros]: "db_keeps I m \<Longrightarrow> db_keeps I n \<Longrightarrow> db_keeps I (if b then m else n)"
  by simp

section \<open>Panics\<close>

text \<open>From a database that satisfies \<open>I\<close> the handler does not panic, and it keeps \<open>I\<close>.\<close>

definition panic_free :: "(db \<Rightarrow> bool) \<Rightarrow> ('a, 'e) handler \<Rightarrow> bool" where
  "panic_free I m \<longleftrightarrow> (\<forall>w. I (w_db w) \<longrightarrow> fst (m w) \<noteq> Inl Panicked \<and> I (w_db (snd (m w))))"

named_theorems panic_intros \<open>handlers that do not panic\<close>

lemma panic_freeI:
  "db_keeps I m \<Longrightarrow> (\<And>w. I (w_db w) \<Longrightarrow> fst (m w) \<noteq> Inl Panicked) \<Longrightarrow> panic_free I m"
  by (simp add: panic_free_def db_keeps_def)

lemma panic_freeD:
  "panic_free I m \<Longrightarrow> I (w_db w) \<Longrightarrow> fst (m w) \<noteq> Inl Panicked"
  "panic_free I m \<Longrightarrow> I (w_db w) \<Longrightarrow> I (w_db (snd (m w)))"
  by (simp_all add: panic_free_def)

lemma panic_free_bind:
  assumes "panic_free I m" "\<And>x w w'. I (w_db w) \<Longrightarrow> m w = (Inr x, w') \<Longrightarrow> panic_free I (f x)"
  shows "panic_free I (h_bind m f)"
  unfolding panic_free_def
proof (intro allI impI)
  fix w :: world assume w: "I (w_db w)"
  obtain r w1 where m: "m w = (r, w1)" by force
  then have "r \<noteq> Inl Panicked" "I (w_db w1)" using assms(1) w unfolding panic_free_def by (metis fst_conv snd_conv)+
  then show "fst (h_bind m f w) \<noteq> Inl Panicked \<and> I (w_db (snd (h_bind m f w)))"
    using assms(2) [OF w] m by (cases r) (auto simp: h_bind_def panic_free_def)
qed

lemma panic_free_simple [panic_intros]:
  "panic_free I (h_return x)" "panic_free I (h_fail e)" "panic_free I (h_lift f r)"
  "panic_free I (h_guard b e)" "panic_free I (h_query f q)" "panic_free I (h_draw E)"
  by (auto simp: panic_free_def h_defs split: sum.splits)

lemma panic_free_expect [panic_intros]: "v \<noteq> None \<Longrightarrow> panic_free I (h_expect v)"
  by (auto simp: panic_free_def h_defs)

lemma panic_free_calls [panic_intros]:
  "panic_free I (h_token_bucket E tg key m i r)" "panic_free I (h_publish E request p)" "panic_free I (h_collect ev)" "panic_free I (h_subscribe E t)"
  by (auto simp: panic_free_def h_token_bucket_def h_publish_def h_subscribe_def h_collect_def token_bucket_single Let_def
      split: sum.splits option.splits prod.splits RateLimitError.splits if_splits)

lemma panic_free_analytics [panic_intros]:
  "panic_free I (analytics_subscriber_notification E np)" "panic_free I (analytics_subscriber_update E up)"
  "panic_free I (analytics_get_notifications E gp)" "panic_free I (analytics_mark_notifications_as_read E mp)"
  "panic_free I (analytics_notification_links E lp)"
  unfolding analytics_defs by (rule panic_free_calls)+

lemma panic_free_map_err [panic_intros]: "panic_free I m \<Longrightarrow> panic_free I (h_map_err g m)"
  unfolding panic_free_def h_map_err_def by (auto split: prod.splits sum.splits failure.splits)

lemma panic_free_try [panic_intros]: "panic_free I m \<Longrightarrow> panic_free I (h_try m)"
  unfolding panic_free_def h_try_def by (auto split: prod.splits sum.splits failure.splits)

lemma panic_free_if [panic_intros]: "panic_free I m \<Longrightarrow> panic_free I n \<Longrightarrow> panic_free I (if b then m else n)"
  by simp

lemma panic_free_exec [panic_intros]: "db_keeps I (h_exec g q) \<Longrightarrow> panic_free I (h_exec g q)"
  by (erule panic_freeI) (auto simp: h_exec_def h_fail_def split: sum.splits)

lemma draw_exec_no_panic: "fst (h_bind (h_draw E) (\<lambda>dr. h_exec g (q dr)) w) \<noteq> Inl Panicked"
  by (auto simp: h_bind_def h_draw_def h_exec_def h_fail_def split: sum.splits)

lemma statements_no_panic:
  "fst (db_upsert_project E g pid a t ak sk w) \<noteq> Inl Panicked"
  "fst (db_upsert_subscriber E g p a sc nk nt w) \<noteq> Inl Panicked"
  "fst (db_update_subscriber E g s sc w) \<noteq> Inl Panicked"
  "fst (db_delete_subscriber s w) \<noteq> Inl Panicked"
  "fst (db_upsert_subscription_watcher E gw a po dk sy ex w) \<noteq> Inl Panicked"
  "fst (db_upsert_notification E g nid p n w) \<noteq> Inl Panicked"
  "fst (db_upsert_subscriber_notifications E g nu ss w) \<noteq> Inl Panicked"
  "fst (db_mark_notifications_as_read s ids w) \<noteq> Inl Panicked"
  "fst (db_mark_all_notifications_as_read_for_project p w) \<noteq> Inl Panicked"
  "fst (db_set_welcome_notification E g p wn w) \<noteq> Inl Panicked"
  unfolding db_upsert_project_def db_upsert_subscriber_def db_update_subscriber_def
    db_upsert_subscription_watcher_def db_upsert_notification_def db_upsert_subscriber_notifications_def
    db_set_welcome_notification_def
  by (rule draw_exec_no_panic
    | (auto simp: db_delete_subscriber_def db_mark_notifications_as_read_def
        db_mark_all_notifications_as_read_for_project_def split: prod.splits)[1])+

lemma panic_free_mapM:
  "(\<And>x. x \<in> set xs \<Longrightarrow> panic_free I (f x)) \<Longrightarrow> panic_free I (h_mapM f xs)"
  by (induction xs) (auto intro!: panic_free_bind panic_intros)

lemma panic_free_foldM:
  "(\<And>s x. x \<in> set xs \<Longrightarrow> panic_free I (f s x)) \<Longrightarrow> panic_free I (h_foldM f s xs)"
  by (induction xs arbitrary: s) (auto intro!: panic_free_bind panic_intros)

text \<open>
  The part of the contract that is about the other tables. The requests of projects, the workers and
  the jobs need no more than this, so they keep whatever only the subscribers' own statements
  change.
\<close>

locale rows_contract =
  fixes X :: ext and I :: "db \<Rightarrow> bool"
  assumes upsert_project: "upsert_project X i now pid a t ak sk d = Inr (pk, d') \<Longrightarrow> I d \<Longrightarrow> I d'"
    and upsert_watcher: "upsert_subscription_watcher i now a po dk sy ex d = Inr d' \<Longrightarrow> valid_account X a \<Longrightarrow> I d \<Longrightarrow> I d'"
    and upsert_notification: "upsert_notification i now nid p n d = Inr (k, d') \<Longrightarrow> I d \<Longrightarrow> I d'"
    and upsert_deliveries: "upsert_subscriber_notifications gen now nu ss d = Inr d' \<Longrightarrow> I d \<Longrightarrow> I d'"
    and mark_read: "I d \<Longrightarrow> I (snd (mark_notifications_as_read s ids d))"
    and mark_all: "I d \<Longrightarrow> I (snd (mark_all_notifications_as_read_for_project p d))"
    and set_welcome: "set_welcome_notification i p wn d = Inr d' \<Longrightarrow> I d \<Longrightarrow> I d'"
    and pick_row: "I d \<Longrightarrow> I (snd (pick_subscriber_notification_for_processing X pick now d))"
    and update_status: "update_message_processing_status now nu st d = Inr d' \<Longrightarrow> I d \<Longrightarrow> I d'"
    and requeue_dead: "I d \<Longrightarrow> I (dead_letters_check now th d)"
    and expire_watchers: "I d \<Longrightarrow> I (snd (delete_expired_subscription_watchers now d))"
begin

lemma rows_keep:
  shows "en_ext E = X \<Longrightarrow> db_keeps I (db_upsert_project E g pid a t ak sk)"
    and "valid_account X a \<Longrightarrow> db_keeps I (db_upsert_subscription_watcher E gw a po dk sy ex)"
    and "db_keeps I (db_upsert_notification E g nid p n)"
    and "db_keeps I (db_upsert_subscriber_notifications E g nu ss)"
    and "db_keeps I (db_mark_notifications_as_read s ids)"
    and "db_keeps I (db_mark_all_notifications_as_read_for_project p)"
    and "db_keeps I (db_set_welcome_notification E g p wn)"
proof -
  show "db_keeps I (db_upsert_project E g pid a t ak sk)" if "en_ext E = X"
    unfolding db_upsert_project_def that by (rule keeps_draw_exec) (rule upsert_project)
  show "db_keeps I (db_upsert_subscription_watcher E gw a po dk sy ex)" if "valid_account X a"
    unfolding db_upsert_subscription_watcher_def
    by (rule keeps_draw_exec) (auto simp: map_ok_Inr_iff intro: upsert_watcher [OF _ that])
  show "db_keeps I (db_upsert_notification E g nid p n)"
    unfolding db_upsert_notification_def by (rule keeps_draw_exec) (rule upsert_notification)
  show "db_keeps I (db_upsert_subscriber_notifications E g nu ss)"
    unfolding db_upsert_subscriber_notifications_def
    by (rule keeps_draw_exec) (auto simp: map_ok_Inr_iff intro: upsert_deliveries)
  show "db_keeps I (db_set_welcome_notification E g p wn)"
    unfolding db_set_welcome_notification_def
    by (rule keeps_draw_exec) (auto simp: map_ok_Inr_iff intro: set_welcome)
  show "db_keeps I (db_mark_notifications_as_read s ids)"
    using mark_read [of _ s ids]
    by (simp add: db_keeps_def db_mark_notifications_as_read_def case_prod_beta)
  show "db_keeps I (db_mark_all_notifications_as_read_for_project p)"
    using mark_all [of _ p]
    by (simp add: db_keeps_def db_mark_all_notifications_as_read_for_project_def case_prod_beta)
qed

end

text \<open>
  The contract between the handlers and the database helpers: \<open>I\<close> is kept by every statement that
  a handler may execute. Whatever satisfies it is an invariant of the server, whatever requests
  come in.
\<close>

locale database_contract = rows_contract +
  assumes upsert_subscriber: "upsert_subscriber X i gen now p a sc nk nt d = Inr (sr, d') \<Longrightarrow> I d \<Longrightarrow> I d'"
    and update_subscriber: "update_subscriber X gen now s sc d = Inr (row, d') \<Longrightarrow> I d \<Longrightarrow> I d'"
    and delete_subscriber: "I d \<Longrightarrow> I (delete_subscriber s d)"
begin

lemma statements_keep:
  assumes "en_ext E = X"
  shows "db_keeps I (db_upsert_project E g pid a t ak sk)"
    and "db_keeps I (db_upsert_subscriber E g p a sc nk nt)"
    and "db_keeps I (db_update_subscriber E g s sc)"
    and "db_keeps I (db_delete_subscriber s)"
    and "valid_account X a \<Longrightarrow> db_keeps I (db_upsert_subscription_watcher E gw a po dk sy ex)"
    and "db_keeps I (db_upsert_notification E g nid p n)"
    and "db_keeps I (db_upsert_subscriber_notifications E g nu ss)"
    and "db_keeps I (db_mark_notifications_as_read s ids)"
    and "db_keeps I (db_mark_all_notifications_as_read_for_project p)"
    and "db_keeps I (db_set_welcome_notification E g p wn)"
proof -
  show "db_keeps I (db_upsert_subscriber E g p a sc nk nt)"
    unfolding db_upsert_subscriber_def assms by (rule keeps_draw_exec) (rule upsert_subscriber)
  show "db_keeps I (db_update_subscriber E g s sc)"
    unfolding db_update_subscriber_def assms by (rule keeps_draw_exec) (rule update_subscriber)
  show "db_keeps I (db_delete_subscriber s)"
    by (auto simp: db_keeps_def db_delete_subscriber_def intro: delete_subscriber)
qed (rule rows_keep | assumption | rule assms)+

lemma statements_panic_free:
  assumes "en_ext E = X"
  shows "panic_free I (db_upsert_project E g pid a t ak sk)"
    and "panic_free I (db_upsert_subscriber E g p a sc nk nt)"
    and "panic_free I (db_update_subscriber E g s sc)"
    and "panic_free I (db_delete_subscriber s)"
    and "valid_account X a \<Longrightarrow> panic_free I (db_upsert_subscription_watcher E gw a po dk sy ex)"
    and "panic_free I (db_upsert_notification E g nid p n)"
    and "panic_free I (db_upsert_subscriber_notifications E g nu ss)"
    and "panic_free I (db_mark_notifications_as_read s ids)"
    and "panic_free I (db_mark_all_notifications_as_read_for_project p)"
    and "panic_free I (db_set_welcome_notification E g p wn)"
  using statements_keep [OF assms] by (auto intro!: panic_freeI simp: statements_no_panic)

end

text \<open>The constraints of the schema satisfy the contract.\<close>

interpretation schema: database_contract X "wf_db X" for X
  by unfold_locales (auto intro: wf_intros)

section \<open>A concrete environment\<close>

definition draw_demo :: "nat \<Rightarrow> draw" where
  "draw_demo k = \<lparr> dr_uuids = (\<lambda>i. 1000 * (of_nat k + 1) + of_nat i), dr_uuid_v4 = 500 + of_nat k,
     dr_nonce = replicate 12 0, dr_secret = replicate 32 9, dr_message_id = of_nat k \<rparr>"

definition env_demo :: env where
  "env_demo = \<lparr> en_ext = ext_demo, en_now = 1700000000000000, en_redis_now = 0, en_redis = False,
     en_draw = draw_demo, en_publish = (\<lambda>p k. Inr ()), en_subscribe = (\<lambda>t k. Inr ()),
     en_notify_url = ''https://notify'', en_notify_keys = notify_keys_demo, en_relay_identity = ''relay'',
     en_webhook_notify_url = ''https://webhook'', en_jwt_text = (\<lambda>e. ''jwt''),
     en_identity_text = (\<lambda>e. ''identity''), en_aead_text = ''aead::Error'',
     en_debug_text = (\<lambda>s. CHR 0x22 # s @ [CHR 0x22]), en_response_first = True,
     en_listing = sorted_list_of_set \<rparr>"

definition world_demo :: "db \<Rightarrow> world" where
  "world_demo d = \<lparr> w_db = d, w_buckets = Map.empty, w_cacao = Map.empty, w_published = [], w_subscribed = [],
     w_unsubscribed = [], w_receipts = [], w_events = [], w_drawn = 0 \<rparr>"

text \<open>A project and a subscriber with real keys, and one delivery row.\<close>

definition demo_key_project :: project_row where
  "demo_key_project = demo_project\<lparr> p_authentication_public_key := hex_demo (replicate 32 2),
     p_authentication_private_key := hex_demo (replicate 32 1),
     p_subscribe_public_key := hex_demo (replicate 32 6), p_subscribe_private_key := hex_demo (replicate 32 4),
     p_topic := hex_demo (replicate 32 6) \<rparr>"

definition demo_key_subscriber :: subscriber_row where
  "demo_key_subscriber = demo_subscriber\<lparr> s_sym_key := hex_demo (replicate 32 3),
     s_topic := hex_demo (replicate 32 3) \<rparr>"

definition demo_db6 :: db where
  "demo_db6 = demo_db4\<lparr> projects := [demo_key_project], subscribers := [demo_key_subscriber] \<rparr>"

lemmas demo_db6_defs = demo_db6_def demo_key_project_def demo_key_subscriber_def demo_db4_def demo_sn_def demo_defs

lemma wf_demo_db6: "wf_db ext_demo demo_db6"
  using valid_demo_accounts
  by (simp add: demo_db6_defs wf_db_def wf_table_defs pids_def sids_def nids_def pg_status_def)

lemma decode_key_demo: "length k = 32 \<Longrightarrow> decode_key ext_demo (hex_demo k) = Inr k"
  using hex_laws_demo by (simp add: decode_key_def hex_laws_def ext_demo_def)

lemma b64_std_demo: "b64_std_decode ext_demo (b64_std_encode ext_demo bs) = Inr bs"
  by (simp add: ext_demo_def hex_roundtrip_demo)

end
