(* ===== verification/Geo.thy ===== *)
theory Geo
  imports Analytics
begin

text \<open>
  Where a request comes from (\<open>get_geo_from_x_forwarded_for\<close> of \<open>handlers/notification_link.rs\<close>):
  the first item of the \<open>X-Forwarded-For\<close> header, parsed as \<open>str::parse::<IpAddr>\<close> of the standard
  library parses it, and looked up in the resolver's database, which is a parameter.
\<close>

section \<open>IP addresses\<close>

datatype IpAddr = V4 "nat list" | V6 "nat list"

definition digit_value :: "nat \<Rightarrow> char \<Rightarrow> nat option" where
  "digit_value radix c =
     (let v = (of_char c :: nat);
          d = (if 48 \<le> v \<and> v \<le> 57 then Some (v - 48) else if 65 \<le> v \<and> v \<le> 70 then Some (v - 55)
               else if 97 \<le> v \<and> v \<le> 102 then Some (v - 87) else None) in
      Option.bind d (\<lambda>n. if n < radix then Some n else None))"

fun take_digits :: "nat \<Rightarrow> string \<Rightarrow> nat list \<times> string" where
  "take_digits radix [] = ([], [])"
| "take_digits radix (c # s) =
     (case digit_value radix c of None \<Rightarrow> ([], c # s) | Some d \<Rightarrow> apfst ((#) d) (take_digits radix s))"

definition digits_number :: "nat \<Rightarrow> nat list \<Rightarrow> nat" where
  "digits_number radix ds = foldl (\<lambda>n d. n * radix + d) 0 ds"

text \<open>
  A parser reads from the front and leaves the rest; a parser that fails leaves everything.
  \<open>Parser::read_number\<close>: at most \<open>max_digits\<close> digits, a value that fits in the type.
\<close>

type_synonym 'a parser = "string \<Rightarrow> ('a \<times> string) option"

definition read_number :: "nat \<Rightarrow> nat \<Rightarrow> bool \<Rightarrow> nat \<Rightarrow> nat parser" where
  "read_number radix max_digits allow_zero_prefix bound s =
     (case take_digits radix s of (ds, rest) \<Rightarrow>
        if ds = [] \<or> length ds > max_digits \<or> digits_number radix ds \<ge> bound \<or>
           \<not> allow_zero_prefix \<and> hd ds = 0 \<and> length ds > 1
        then None else Some (digits_number radix ds, rest))"

definition read_given_char :: "char \<Rightarrow> unit parser" where
  "read_given_char c s = (case s of [] \<Rightarrow> None | d # rest \<Rightarrow> if d = c then Some ((), rest) else None)"

text \<open>\<open>read_separator\<close>: the separator is expected before every item but the first.\<close>

definition read_separator :: "char \<Rightarrow> nat \<Rightarrow> 'a parser \<Rightarrow> 'a parser" where
  "read_separator sep index p s =
     (if index > 0 then Option.bind (read_given_char sep s) (\<lambda>(u, rest). p rest) else p s)"

fun read_octets :: "nat \<Rightarrow> nat \<Rightarrow> nat list parser" where
  "read_octets i 0 s = Some ([], s)"
| "read_octets i (Suc k) s =
     Option.bind (read_separator (CHR ''.'') i (read_number 10 3 False 256) s) (\<lambda>(n, rest).
     Option.bind (read_octets (Suc i) k rest) (\<lambda>(ns, rest'). Some (n # ns, rest')))"

definition read_ipv4_addr :: "nat list parser" where
  "read_ipv4_addr = read_octets 0 4"

text \<open>
  \<open>read_groups\<close>: the groups of an IPv6 address up to a limit, whether an IPv4 address ended them,
  and the rest.
\<close>

function read_groups :: "nat \<Rightarrow> nat \<Rightarrow> string \<Rightarrow> nat list \<times> bool \<times> string" where
  "read_groups i limit s =
     (if i \<ge> limit then ([], False, s)
      else case (if Suc i < limit then read_separator (CHR '':'') i read_ipv4_addr s else None) of
        Some (ns, rest) \<Rightarrow> ([ns ! 0 * 256 + ns ! 1, ns ! 2 * 256 + ns ! 3], True, rest)
      | None \<Rightarrow>
          (case read_separator (CHR '':'') i (read_number 16 4 True 65536) s of
             None \<Rightarrow> ([], False, s)
           | Some (g, rest) \<Rightarrow> apfst ((#) g) (read_groups (Suc i) limit rest)))"
  by auto
termination by (relation "measure (\<lambda>(i, limit, s). limit - i)") auto

declare read_groups.simps [simp del]

definition read_ipv6_addr :: "nat list parser" where
  "read_ipv6_addr s =
     (case read_groups 0 8 s of (head, head_ipv4, rest) \<Rightarrow>
        if length head = 8 then Some (head, rest)
        else if head_ipv4 then None
        else Option.bind (read_given_char (CHR '':'') rest) (\<lambda>(u, rest1).
          Option.bind (read_given_char (CHR '':'') rest1) (\<lambda>(u, rest2).
            case read_groups 0 (8 - (length head + 1)) rest2 of (tail, tail_ipv4, rest3) \<Rightarrow>
              Some (head @ replicate (8 - length head - length tail) 0 @ tail, rest3))))"

definition parse_ip_addr :: "string \<Rightarrow> IpAddr option" where
  "parse_ip_addr s =
     (case read_ipv4_addr s of
        Some (ns, rest) \<Rightarrow> if rest = [] then Some (V4 ns) else None
      | None \<Rightarrow>
          (case read_ipv6_addr s of
             Some (gs, rest) \<Rightarrow> if rest = [] then Some (V6 gs) else None
           | None \<Rightarrow> None))"

section \<open>The header\<close>

text \<open>The value of a header: \<open>None\<close> where \<open>to_str\<close> refuses it, which is then a text of visible ASCII.\<close>

type_synonym header_value = "string option"

record link_headers =
  lh_x_forwarded_for :: "header_value option"
  lh_user_agent :: "header_value option"

datatype GetGeoError =
    MissingXForwardedFor
  | XForwardedForNotString
  | NoItemsInXForwardedFor
  | FirstItemNotIpAddr string
  | MaxMindResolver string

text \<open>\<open>str::trim\<close> on a header's text, whose only white space is the space and the tab.\<close>

definition is_blank :: "char \<Rightarrow> bool" where
  "is_blank c \<longleftrightarrow> c = CHR '' '' \<or> c = CHR 0x09"

definition trim :: "string \<Rightarrow> string" where
  "trim s = rev (dropWhile is_blank (rev (dropWhile is_blank s)))"

definition get_geo_from_x_forwarded_for ::
  "link_headers \<Rightarrow> (IpAddr \<Rightarrow> (geo_data, string) result) \<Rightarrow> (geo_data, GetGeoError) result" where
  "get_geo_from_x_forwarded_for headers lookup_geo_data =
     rbind (ok_or (lh_x_forwarded_for headers) MissingXForwardedFor) (\<lambda>header.
     rbind (ok_or header XForwardedForNotString) (\<lambda>value.
     rbind (case split_char (CHR '','') value of [] \<Rightarrow> Inl NoItemsInXForwardedFor | ip # items \<Rightarrow> Inr ip) (\<lambda>ip.
     rbind (ok_or (parse_ip_addr (trim ip)) (FirstItemNotIpAddr (trim ip))) (\<lambda>ip.
       map_err MaxMindResolver (lookup_geo_data ip)))))"

section \<open>Facts\<close>

text \<open>The error for a header without items never occurs: splitting always yields one.\<close>

lemma get_geo_has_item: "get_geo_from_x_forwarded_for h r \<noteq> Inl NoItemsInXForwardedFor"
  using split_char_nonempty
  by (auto simp: get_geo_from_x_forwarded_for_def rbind_def ok_or_def map_err_def
      split: sum.splits option.splits list.splits)

lemma read_octets_length: "read_octets i k s = Some (ns, rest) \<Longrightarrow> length ns = k"
  by (induction i k s arbitrary: ns rest rule: read_octets.induct)
     (auto simp: bind_eq_Some_conv split: prod.splits)

lemma read_number_bound: "read_number r m z b s = Some (n, rest) \<Longrightarrow> n < b"
  by (auto simp: read_number_def split: prod.splits if_splits)

lemma read_separator_cases:
  "read_separator c i p s = Some (n, rest) \<Longrightarrow> \<exists>s'. p s' = Some (n, rest)"
  by (auto simp: read_separator_def bind_eq_Some_conv split: if_splits)

lemma read_octets_bound: "read_octets i k s = Some (ns, rest) \<Longrightarrow> \<forall>n \<in> set ns. n < 256"
  by (induction i k s arbitrary: ns rest rule: read_octets.induct)
     (fastforce simp: bind_eq_Some_conv dest: read_separator_cases read_number_bound split: prod.splits)+

lemma read_ipv4_addr_octets:
  assumes "read_ipv4_addr s = Some (ns, rest)"
  shows "length ns = 4 \<and> (\<forall>n \<in> set ns. n < 256)"
  using assms read_octets_length read_octets_bound unfolding read_ipv4_addr_def by blast

lemma ipv4_group:
  assumes "read_ipv4_addr s = Some (ns, rest)"
  shows "ns ! 0 * 256 + ns ! 1 < 65536" "ns ! 2 * 256 + ns ! 3 < 65536"
proof -
  have "ns ! k < 256" if "k < 4" for k using read_ipv4_addr_octets [OF assms] that by simp
  from this [of 0] this [of 1] this [of 2] this [of 3]
  show "ns ! 0 * 256 + ns ! 1 < 65536" "ns ! 2 * 256 + ns ! 3 < 65536" by simp_all
qed

lemma read_groups_bound:
  "read_groups i limit s = (gs, f, rest) \<Longrightarrow> length gs \<le> limit - i \<and> (\<forall>g \<in> set gs. g < 65536)"
proof (induction i limit s arbitrary: gs f rest rule: read_groups.induct)
  case (1 i limit s)
  show ?case
  proof (cases "i \<ge> limit")
    case True
    then show ?thesis using "1.prems" by (simp add: read_groups.simps)
  next
    case False
    let ?v4 = "if Suc i < limit then read_separator (CHR '':'') i read_ipv4_addr s else None"
    show ?thesis
    proof (cases ?v4)
      case (Some r)
      obtain ns r' where r: "r = (ns, r')" by (cases r)
      with Some obtain s' where "read_ipv4_addr s' = Some (ns, r')" "Suc i < limit"
        by (auto dest: read_separator_cases split: if_splits)
      moreover have "gs = [ns ! 0 * 256 + ns ! 1, ns ! 2 * 256 + ns ! 3]"
        using "1.prems" False Some r by (simp add: read_groups.simps [of i limit s])
      ultimately show ?thesis using ipv4_group by auto
    next
      case None
      show ?thesis
      proof (cases "read_separator (CHR '':'') i (read_number 16 4 True 65536) s")
        case None
        then show ?thesis using "1.prems" False \<open>?v4 = None\<close> by (simp add: read_groups.simps [of i limit s])
      next
        case (Some r)
        obtain g r' where r: "r = (g, r')" by (cases r)
        obtain gs' f' r'' where rec: "read_groups (Suc i) limit r' = (gs', f', r'')" by (metis prod_cases3)
        have "gs = g # gs'" using "1.prems" False \<open>?v4 = None\<close> Some r rec by (simp add: read_groups.simps [of i limit s])
        moreover have "g < 65536" using Some r by (auto dest: read_separator_cases read_number_bound)
        moreover have "length gs' \<le> limit - Suc i \<and> (\<forall>g \<in> set gs'. g < 65536)"
          using "1.IH" [OF False \<open>?v4 = None\<close> Some r [symmetric] rec] by simp
        ultimately show ?thesis using False by auto
      qed
    qed
  qed
qed

text \<open>What is parsed is an address: four octets, or eight groups of 16 bits.\<close>

fun ip_addr_ok :: "IpAddr \<Rightarrow> bool" where
  "ip_addr_ok (V4 ns) \<longleftrightarrow> length ns = 4 \<and> (\<forall>n \<in> set ns. n < 256)"
| "ip_addr_ok (V6 gs) \<longleftrightarrow> length gs = 8 \<and> (\<forall>g \<in> set gs. g < 65536)"

lemma read_ipv6_addr_groups:
  assumes "read_ipv6_addr s = Some (gs, rest)"
  shows "length gs = 8 \<and> (\<forall>g \<in> set gs. g < 65536)"
proof -
  obtain head f r where h: "read_groups 0 8 s = (head, f, r)" by (metis prod_cases3)
  note hb = read_groups_bound [OF h]
  show ?thesis
  proof (cases "length head = 8")
    case True
    then show ?thesis using assms h hb by (simp add: read_ipv6_addr_def)
  next
    case False
    then obtain r1 r2 where r2: "read_given_char (CHR '':'') r = Some ((), r1)" "\<not> f"
        "read_given_char (CHR '':'') r1 = Some ((), r2)"
      using assms h by (auto simp: read_ipv6_addr_def bind_eq_Some_conv split: if_splits)
    obtain tail f2 r3 where t: "read_groups 0 (8 - (length head + 1)) r2 = (tail, f2, r3)" by (metis prod_cases3)
    have "gs = head @ replicate (8 - length head - length tail) 0 @ tail"
      using assms h False r2 t by (simp add: read_ipv6_addr_def)
    then show ?thesis using hb False read_groups_bound [OF t(1)] by auto
  qed
qed

lemma parse_ip_addr_ok: "parse_ip_addr s = Some a \<Longrightarrow> ip_addr_ok a"
  by (auto simp: parse_ip_addr_def dest!: read_ipv4_addr_octets read_ipv6_addr_groups
      split: option.splits prod.splits if_splits)

lemmas parse_ip_addr_defs = read_ipv6_addr_def read_separator_def
  read_number_def digit_value_def digits_number_def read_given_char_def

lemma read_ipv4_addr_steps: "read_ipv4_addr = read_octets 0 (Suc (Suc (Suc (Suc 0))))"
  by (simp add: read_ipv4_addr_def eval_nat_numeral)

lemma parse_ip_addr_example: "parse_ip_addr ''203.0.113.7'' = Some (V4 [203, 0, 113, 7])"
  by (simp add: parse_ip_addr_def read_ipv4_addr_steps parse_ip_addr_defs del: One_nat_def)

end
