(* ===== verification/Publisher.thy ===== *)
theory Publisher
  imports World
begin

text \<open>
  The publisher service (\<open>src/src/services/publisher_service/mod.rs\<close>): building and publishing the
  message of one queued delivery, the loop of one worker, and the counter that bounds the number
  of workers. Metrics and the polling of queue statistics are not modelled.
\<close>

section \<open>Constants\<close>

definition MAX_WORKERS :: nat where "MAX_WORKERS = 50"
definition START_WORKERS :: nat where "START_WORKERS = 50"
definition PUBLISHING_TIMEOUT :: duration where "PUBLISHING_TIMEOUT = 60 * 5 * 1000000"
definition PUBLISHING_GIVE_UP_TIMEOUT :: duration where "PUBLISHING_GIVE_UP_TIMEOUT = 60 * 60 * 24 * 1000000"
definition NOTIFY_MESSAGE_METHOD :: string where "NOTIFY_MESSAGE_METHOD = ''wc_notifyMessage''"

section \<open>One message\<close>

datatype ProcessNotificationError =
    PnDecodeKey DecodeKeyError
  | PnEnvelopeEncryption
  | PnRelayPublish PublishError

definition format_follow_link :: "ext \<Rightarrow> string \<Rightarrow> uuid \<Rightarrow> string option" where
  "format_follow_link X notify_url subscriber_notification_id =
     url_join X notify_url (''/v1/notification/'' @ uuid_to_string X subscriber_notification_id)"

definition notify_message_request ::
  "ext \<Rightarrow> datetime \<Rightarrow> u64 \<Rightarrow> NotificationToProcess \<Rightarrow> string \<Rightarrow> ProjectSigningDetails \<Rightarrow> json" where
  "notify_message_request X now message_id n url details =
     JsonRpcRequest_to_json (auth_to_json NotifyMessageAuth_field)
       (JsonRpcRequest_new message_id NOTIFY_MESSAGE_METHOD
         (sign_message X now
            \<lparr> jn_id = np_subscriber_notification n,
              jn_sent_at = timestamp_millis (np_notification_created_at n),
              jn_type = np_notification_type n, jn_title = np_notification_title n,
              jn_body = np_notification_body n,
              jn_icon = (case np_notification_icon n of None \<Rightarrow> '''' | Some i \<Rightarrow> i),
              jn_url = url, jn_is_read = np_subscriber_notification_is_read n \<rparr>
            (np_subscriber_account n) details))"

definition delivery_params :: "env \<Rightarrow> NotificationToProcess \<Rightarrow> string \<Rightarrow> SubscriberNotificationParams" where
  "delivery_params E n message =
     \<lparr> snp_project_pk = np_project n, snp_project_id = np_project_project_id n, snp_subscriber_pk = np_subscriber n,
       snp_account = np_subscriber_account n, snp_subscriber_notification_pk = np_subscriber_notification n,
       snp_notification_pk = np_notification n, snp_notification_type = np_notification_type n,
       snp_notify_topic = np_subscriber_topic n, snp_message_id = get_message_id (en_ext E) message \<rparr>"

definition process_notification :: "env \<Rightarrow> NotificationToProcess \<Rightarrow> (unit, ProcessNotificationError) handler" where
  "process_notification E n =
     h_bind (h_lift PnDecodeKey (decode_key (en_ext E) (np_project_authentication_private_key n))) (\<lambda>private_key.
     h_bind (h_lift PnDecodeKey (decode_key (en_ext E) (np_project_authentication_public_key n))) (\<lambda>client_id.
     h_bind (h_draw E) (\<lambda>dr.
     h_bind (case np_notification_url n of
               None \<Rightarrow> h_return ''''
             | Some link \<Rightarrow> h_expect (format_follow_link (en_ext E) (en_notify_url E) (np_subscriber_notification n))) (\<lambda>url.
     h_bind (h_lift PnDecodeKey (decode_key (en_ext E) (np_subscriber_sym_key n))) (\<lambda>sym_key.
     h_bind (h_lift id (ok_or (seal_message (en_ext E) (dr_nonce dr) sym_key
               (notify_message_request (en_ext E) (en_now E) (dr_message_id dr) n url
                 \<lparr> psd_decoded_client_id = client_id, psd_private_key = private_key,
                   psd_app = np_project_app_domain n \<rparr>)) PnEnvelopeEncryption)) (\<lambda>message.
     h_bind (h_map_err PnRelayPublish (h_publish E None
         \<lparr> pub_topic = topic_from_key (en_ext E) sym_key, pub_message = message,
           pub_ttl_secs = NOTIFY_MESSAGE_TTL, pub_tag = NOTIFY_MESSAGE_TAG, pub_prompt = True \<rparr>)) (\<lambda>_.
       analytics_subscriber_notification E (delivery_params E n message))))))))"

section \<open>One worker\<close>

definition update_message_status_queued_or_failed ::
  "datetime \<Rightarrow> uuid \<Rightarrow> datetime \<Rightarrow> duration \<Rightarrow> db \<Rightarrow> (db, sqlx_error) result" where
  "update_message_status_queued_or_failed now notification_id notification_created_at giveup_threshold d =
     (if dead_letter_give_up_check now notification_created_at giveup_threshold
      then update_message_processing_status now notification_id Failed d
      else update_message_processing_status now notification_id Queued d)"

text \<open>
  What one turn of the loop meets: the row the lock gives it, the environment while it publishes,
  whether \<open>PUBLISHING_TIMEOUT\<close> cuts the attempt short (and if so, whether the relay had already
  taken the message), and the time at its end.
\<close>

record turn =
  tn_pick :: "subscriber_notification_row list \<Rightarrow> subscriber_notification_row"
  tn_env :: env
  tn_elapsed :: "bool option"
  tn_done :: datetime

text \<open>\<open>None\<close> when the attempt timed out.\<close>

definition attempt :: "turn \<Rightarrow> NotificationToProcess \<Rightarrow> ((unit, ProcessNotificationError) result option, sqlx_error) handler" where
  "attempt T n =
     (case tn_elapsed T of
        None \<Rightarrow> h_bind (h_try (process_notification (tn_env T) n)) (\<lambda>r. h_return (Some r))
      | Some True \<Rightarrow> h_bind (h_try (process_notification (tn_env T) n)) (\<lambda>_. h_return None)
      | Some False \<Rightarrow> h_return None)"

text \<open>One turn: whether there was a message.\<close>

definition process_next :: "turn \<Rightarrow> (bool, sqlx_error) handler" where
  "process_next T w =
     (case pick_subscriber_notification_for_processing (en_ext (tn_env T)) (tn_pick T) (en_now (tn_env T)) (w_db w) of
        (result, d) \<Rightarrow>
          h_bind (h_lift id result) (\<lambda>next.
            case next of
              None \<Rightarrow> h_return False
            | Some notification \<Rightarrow>
                h_bind (attempt T notification) (\<lambda>process_result.
                h_bind (h_exec id (\<lambda>d. map_ok (Pair True)
                  (case process_result of
                     Some (Inr _) \<Rightarrow> update_message_processing_status (tn_done T)
                       (np_subscriber_notification notification) Published d
                   | _ \<Rightarrow> update_message_status_queued_or_failed (tn_done T)
                       (np_subscriber_notification notification) (np_notification_created_at notification)
                       PUBLISHING_GIVE_UP_TIMEOUT d))) h_return))
          (w\<lparr> w_db := d \<rparr>))"

text \<open>The loop ends when the queue is empty or a statement fails; \<open>None\<close> when the turns run out first.\<close>

fun process_queued_messages :: "turn list \<Rightarrow> world \<Rightarrow> ((unit, sqlx_error failure) result \<times> world) option" where
  "process_queued_messages [] w = None"
| "process_queued_messages (T # Ts) w =
     (case process_next T w of
        (Inl e, w') \<Rightarrow> Some (Inl e, w')
      | (Inr True, w') \<Rightarrow> process_queued_messages Ts w'
      | (Inr False, w') \<Rightarrow> Some (Inr (), w'))"

section \<open>The worker counter\<close>

text \<open>
  The shared counter, the workers that have not yet decremented it, and where the listener is:
  waiting, between the load that saw room and the increment, or between the increment and the spawn.
  A worker that panics never reaches the decrement of \<open>process_and_handle\<close>.
\<close>

datatype listener = Waiting | Seen_room | Counted

record workers =
  wk_counter :: nat
  wk_live :: nat
  wk_listener :: listener

definition workers_start :: workers where
  "workers_start = \<lparr> wk_counter = START_WORKERS, wk_live = START_WORKERS, wk_listener = Waiting \<rparr>"

inductive workers_step :: "workers \<Rightarrow> workers \<Rightarrow> bool" where
  load_room: "wk_listener s = Waiting \<Longrightarrow> wk_counter s < MAX_WORKERS \<Longrightarrow>
    workers_step s (s\<lparr> wk_listener := Seen_room \<rparr>)"
| load_full: "wk_listener s = Waiting \<Longrightarrow> \<not> wk_counter s < MAX_WORKERS \<Longrightarrow> workers_step s s"
| fetch_add: "wk_listener s = Seen_room \<Longrightarrow>
    workers_step s (s\<lparr> wk_counter := Suc (wk_counter s), wk_listener := Counted \<rparr>)"
| spawn: "wk_listener s = Counted \<Longrightarrow>
    workers_step s (s\<lparr> wk_live := Suc (wk_live s), wk_listener := Waiting \<rparr>)"
| fetch_sub: "0 < wk_live s \<Longrightarrow>
    workers_step s (s\<lparr> wk_counter := wk_counter s - 1, wk_live := wk_live s - 1 \<rparr>)"
| panic: "0 < wk_live s \<Longrightarrow> workers_step s (s\<lparr> wk_live := wk_live s - 1 \<rparr>)"

inductive_cases workers_stepE: "workers_step s t"

definition workers_inv :: "workers \<Rightarrow> bool" where
  "workers_inv s \<longleftrightarrow>
     wk_live s + (if wk_listener s = Counted then 1 else 0) \<le> wk_counter s \<and>
     wk_counter s + (if wk_listener s = Seen_room then 1 else 0) \<le> MAX_WORKERS"

interpretation workers: transition_system "\<lambda>s. s = workers_start" workers_step workers_inv
proof
  show "workers_inv s" if "s = workers_start" for s
    using that by (simp add: workers_inv_def workers_start_def START_WORKERS_def MAX_WORKERS_def)
  show "workers_inv t" if "workers_inv s" "workers_step s t" for s t
    using that(2,1) by cases (auto simp: workers_inv_def split: if_splits)
qed

section \<open>Facts\<close>

lemma keeps_process_notification [keeps_intros]: "db_keeps I (process_notification E n)"
  unfolding process_notification_def
  by (intro keeps_intros | (cases "np_notification_url n", auto intro: keeps_intros))+

lemma keeps_attempt [keeps_intros]: "db_keeps I (attempt T n)"
  by (auto simp: attempt_def split: option.splits bool.splits intro!: keeps_intros)

lemma attempt_frame: "attempt T n w = (r, w') \<Longrightarrow> w_db w' = w_db w"
  using db_keepsD [OF keeps_attempt, of "\<lambda>d. d = w_db w" w T n] by simp

lemma process_notification_ok:
  assumes "process_notification E n w = (Inr u, w')"
  obtains private_key client_id url sym_key message where
    "decode_key (en_ext E) (np_project_authentication_private_key n) = Inr private_key"
    "decode_key (en_ext E) (np_project_authentication_public_key n) = Inr client_id"
    "decode_key (en_ext E) (np_subscriber_sym_key n) = Inr sym_key"
    "seal_message (en_ext E) (dr_nonce (en_draw E (w_drawn w))) sym_key
      (notify_message_request (en_ext E) (en_now E) (dr_message_id (en_draw E (w_drawn w))) n url
        \<lparr> psd_decoded_client_id = client_id, psd_private_key = private_key, psd_app = np_project_app_domain n \<rparr>) = Some message"
    "np_notification_url n = None \<Longrightarrow> url = ''''"
    "np_notification_url n \<noteq> None \<Longrightarrow>
      format_follow_link (en_ext E) (en_notify_url E) (np_subscriber_notification n) = Some url"
    "w' = w\<lparr> w_drawn := Suc (w_drawn w), w_published := w_published w @
      [\<lparr> pub_topic = topic_from_key (en_ext E) sym_key, pub_message = message,
         pub_ttl_secs = NOTIFY_MESSAGE_TTL, pub_tag = NOTIFY_MESSAGE_TAG, pub_prompt = True \<rparr>],
      w_events := w_events w @ [Subscriber_notification (SubscriberNotification_from (en_ext E) (en_now E) (delivery_params E n message))] \<rparr>"
  using assms unfolding process_notification_def
  by (cases "np_notification_url n") (auto simp: h_ok relay_request_events_def analytics_subscriber_notification_def)

lemma process_notification_sent:
  assumes "process_notification E n w = (Inr u, w')"
    and "decode_key (en_ext E) (np_subscriber_sym_key n) = Inr key"
    and "decode_key (en_ext E) (np_project_authentication_private_key n) = Inr priv"
  shows "\<exists>client_id url message. seal_message (en_ext E) (dr_nonce (en_draw E (w_drawn w))) key
      (notify_message_request (en_ext E) (en_now E) (dr_message_id (en_draw E (w_drawn w))) n url
        \<lparr> psd_decoded_client_id = client_id, psd_private_key = priv, psd_app = np_project_app_domain n \<rparr>) = Some message \<and>
    w' = w\<lparr> w_drawn := Suc (w_drawn w), w_published := w_published w @
      [\<lparr> pub_topic = topic_from_key (en_ext E) key, pub_message = message,
         pub_ttl_secs = NOTIFY_MESSAGE_TTL, pub_tag = NOTIFY_MESSAGE_TAG, pub_prompt = True \<rparr>],
      w_events := w_events w @ [Subscriber_notification (SubscriberNotification_from (en_ext E) (en_now E) (delivery_params E n message))] \<rparr> \<and>
    (np_notification_url n = None \<longrightarrow> url = '''') \<and>
    (np_notification_url n \<noteq> None \<longrightarrow>
      format_follow_link (en_ext E) (en_notify_url E) (np_subscriber_notification n) = Some url)"
  by (rule process_notification_ok [OF assms(1), unfolded assms(2,3) sum.inject], hypsubst)
    (rule exI, rule exI, rule exI, intro conjI impI, assumption, (assumption | rule refl), blast+)

lemma process_notification_err:
  assumes "process_notification E n w = (Inl e, w')"
  shows "w_published w' = w_published w"
  using assms unfolding process_notification_def
  by (cases "np_notification_url n")
     (auto simp: h_bind_def h_defs h_map_err_def h_publish_def h_collect_def analytics_defs split: prod.splits sum.splits option.splits failure.splits)

lemma update_status_ok:
  assumes "pg_status st"
  shows "\<exists>c. update_message_processing_status now i st d = Inr (d\<lparr> subscriber_notifications :=
     update_where (\<lambda>q. sn_id q = i) (set_status now st) (subscriber_notifications d), delivery_channel := c \<rparr>)"
  using assms
  by (cases st) (auto simp: update_message_processing_status_def cast_status_def status_to_string_def pg_status_def)

lemma update_set_status_twice:
  "update_where (\<lambda>q. sn_id q = i) (set_status b st) (update_where (\<lambda>q. sn_id q = i) (set_status a st') t) =
   update_where (\<lambda>q. sn_id q = i) (set_status b st) t"
  by (induction t) (auto simp: update_where_def set_status_def)

text \<open>The status a turn leaves behind.\<close>

definition final_status :: "turn \<Rightarrow> datetime \<Rightarrow> (unit, ProcessNotificationError) result option \<Rightarrow> SubscriberNotificationStatus" where
  "final_status T created r =
     (case r of
        Some (Inr u) \<Rightarrow> Published
      | _ \<Rightarrow> if created + PUBLISHING_GIVE_UP_TIMEOUT < tn_done T then Failed else Queued)"

lemma final_update:
  "\<exists>c. (case r of
      Some (Inr u) \<Rightarrow> update_message_processing_status (tn_done T) i Published d
    | _ \<Rightarrow> update_message_status_queued_or_failed (tn_done T) i created PUBLISHING_GIVE_UP_TIMEOUT d) =
    Inr (d\<lparr> subscriber_notifications :=
      update_where (\<lambda>q. sn_id q = i) (set_status (tn_done T) (final_status T created r)) (subscriber_notifications d),
      delivery_channel := c \<rparr>)"
  using update_status_ok [of "final_status T created r" "tn_done T" i d]
  by (auto simp: final_status_def pg_status_def update_message_status_queued_or_failed_def
      dead_letter_give_up_check_def split: option.splits sum.splits if_splits)

text \<open>A turn on a well-formed database, apart from the message it publishes.\<close>

lemma process_next_picked:
  fixes T w
  defines "queued \<equiv> filter (\<lambda>r. sn_status r = Queued) (subscriber_notifications (w_db w))"
  defines "r \<equiv> tn_pick T queued"
  assumes "wf_db (en_ext (tn_env T)) (w_db w)" "picker (tn_pick T)" "queued \<noteq> []"
  shows "r \<in> set (subscriber_notifications (w_db w)) \<and> sn_status r = Queued \<and>
    (\<exists>n s p res w1 d1. n \<in> set (notifications (w_db w)) \<and> n_id n = sn_notification r \<and>
       s \<in> set (subscribers (w_db w)) \<and> s_id s = sn_subscriber r \<and> p \<in> set (projects (w_db w)) \<and> p_id p = n_project n \<and>
       attempt T (to_process (s_account s) (set_status (en_now (tn_env T)) Processing r, n, s, p)) (w\<lparr> w_db := d1 \<rparr>) = (res, w1) \<and>
       (case res of
          Inl e \<Rightarrow> process_next T w = (Inl e, w1) \<and> w_db w1 = (w_db w)\<lparr> subscriber_notifications :=
            update_where (\<lambda>q. sn_id q = sn_id r) (set_status (en_now (tn_env T)) Processing) (subscriber_notifications (w_db w)) \<rparr>
        | Inr a \<Rightarrow> (\<exists>c. process_next T w = (Inr True, w1\<lparr> w_db := (w_db w)\<lparr> subscriber_notifications :=
            update_where (\<lambda>q. sn_id q = sn_id r) (set_status (tn_done T) (final_status T (n_created_at n) a))
              (subscriber_notifications (w_db w)), delivery_channel := c \<rparr> \<rparr>))))"
proof -
  define d1 where "d1 = (w_db w)\<lparr> subscriber_notifications := update_where (\<lambda>q. sn_id q = sn_id r)
    (set_status (en_now (tn_env T)) Processing) (subscriber_notifications (w_db w)) \<rparr>"
  have q: "filter (\<lambda>r. sn_status r = Queued) (subscriber_notifications (w_db w)) \<noteq> []"
    using assms(5) by (simp add: queued_def)
  note picked = pick_picked [OF assms(3,4) q, of "en_now (tn_env T)", folded queued_def, folded r_def, folded d1_def]
  then obtain n s p where j: "n \<in> set (notifications (w_db w))" "n_id n = sn_notification r"
      "s \<in> set (subscribers (w_db w))" "s_id s = sn_subscriber r" "p \<in> set (projects (w_db w))" "p_id p = n_project n"
    and pk: "pick_subscriber_notification_for_processing (en_ext (tn_env T)) (tn_pick T) (en_now (tn_env T)) (w_db w) =
      (Inr (Some (to_process (s_account s) (set_status (en_now (tn_env T)) Processing r, n, s, p))), d1)"
    by blast
  define np where "np = to_process (s_account s) (set_status (en_now (tn_env T)) Processing r, n, s, p)"
  have np: "np_subscriber_notification np = sn_id r" "np_notification_created_at np = n_created_at n"
    by (simp_all add: np_def to_process_def set_status_def)
  obtain res w1 where at: "attempt T np (w\<lparr> w_db := d1 \<rparr>) = (res, w1)" by force
  have d1: "w_db w1 = d1" using attempt_frame [OF at] by simp
  have "case res of
          Inl e \<Rightarrow> process_next T w = (Inl e, w1) \<and> w_db w1 = (w_db w)\<lparr> subscriber_notifications :=
            update_where (\<lambda>q. sn_id q = sn_id r) (set_status (en_now (tn_env T)) Processing) (subscriber_notifications (w_db w)) \<rparr>
        | Inr a \<Rightarrow> (\<exists>c. process_next T w = (Inr True, w1\<lparr> w_db := (w_db w)\<lparr> subscriber_notifications :=
            update_where (\<lambda>q. sn_id q = sn_id r) (set_status (tn_done T) (final_status T (n_created_at n) a))
              (subscriber_notifications (w_db w)), delivery_channel := c \<rparr> \<rparr>))"
  proof (cases res)
    case (Inl e)
    then show ?thesis
      using at d1 [unfolded d1_def] by (simp add: process_next_def pk np_def [symmetric] h_bind_def h_lift_def h_return_def)
  next
    case (Inr a)
    obtain c where c: "(case a of
        Some (Inr u) \<Rightarrow> update_message_processing_status (tn_done T) (sn_id r) Published d1
      | _ \<Rightarrow> update_message_status_queued_or_failed (tn_done T) (sn_id r) (n_created_at n) PUBLISHING_GIVE_UP_TIMEOUT d1) =
      Inr (d1\<lparr> subscriber_notifications :=
        update_where (\<lambda>q. sn_id q = sn_id r) (set_status (tn_done T) (final_status T (n_created_at n) a)) (subscriber_notifications d1),
        delivery_channel := c \<rparr>)"
      using final_update by blast
    have "process_next T w = (Inr True, w1\<lparr> w_db := d1\<lparr> subscriber_notifications :=
        update_where (\<lambda>q. sn_id q = sn_id r) (set_status (tn_done T) (final_status T (n_created_at n) a)) (subscriber_notifications d1),
        delivery_channel := c \<rparr> \<rparr>)"
      using at Inr
      by (simp add: process_next_def pk np_def [symmetric] h_bind_def h_lift_def h_return_def h_exec_def)
        (unfold np d1 c, simp add: h_return_def)
    then show ?thesis using Inr by (auto simp: d1_def update_set_status_twice)
  qed
  then show ?thesis using picked j at unfolding np_def by blast
qed

lemma attempt_result:
  assumes "attempt T n w = (Inr a, w')"
  shows "a = Some (Inr u) \<Longrightarrow> tn_elapsed T = None \<and> process_notification (tn_env T) n w = (Inr (), w')"
    and "a = Some (Inl e) \<Longrightarrow> tn_elapsed T = None \<and> process_notification (tn_env T) n w = (Inl (Failure e), w')"
    and "a = None \<Longrightarrow> tn_elapsed T \<noteq> None"
  using assms
  by (auto simp: attempt_def h_bind_def h_try_def h_return_def
      split: option.splits bool.splits prod.splits sum.splits failure.splits)

text \<open>The one panic of an attempt: a link that cannot be joined to the server's URL.\<close>

lemma process_notification_panic:
  assumes "process_notification E n w = (Inl Panicked, w')"
  shows "np_notification_url n \<noteq> None \<and>
    format_follow_link (en_ext E) (en_notify_url E) (np_subscriber_notification n) = None"
  using assms unfolding process_notification_def
  by (cases "np_notification_url n")
     (auto simp: h_bind_def h_defs h_map_err_def h_publish_def h_collect_def analytics_defs
       split: prod.splits sum.splits option.splits failure.splits)

lemma attempt_Inl:
  assumes "attempt T n w = (Inl e, w')"
  shows "e = Panicked \<and> w_published w' = w_published w \<and> np_notification_url n \<noteq> None \<and>
    format_follow_link (en_ext (tn_env T)) (en_notify_url (tn_env T)) (np_subscriber_notification n) = None"
proof -
  have "e = Panicked \<and> process_notification (tn_env T) n w = (Inl Panicked, w')"
    using assms by (auto simp: attempt_def h_bind_def h_try_def h_return_def
        split: option.splits bool.splits prod.splits sum.splits failure.splits)
  then show ?thesis using process_notification_panic process_notification_err by blast
qed

lemma process_next_empty:
  "filter (\<lambda>r. sn_status r = Queued) (subscriber_notifications (w_db w)) = [] \<Longrightarrow> process_next T w = (Inr False, w)"
  by (simp add: process_next_def pick_nothing h_bind_def h_lift_def h_return_def)

lemma attempt_published:
  assumes "attempt T n w = (Inr a, w')" "a = Some (Inr u)"
  shows "\<exists>key p. decode_key (en_ext (tn_env T)) (np_subscriber_sym_key n) = Inr key \<and>
    w_published w' = w_published w @ [p] \<and> pub_topic p = topic_from_key (en_ext (tn_env T)) key \<and>
    pub_tag p = NOTIFY_MESSAGE_TAG"
proof -
  have "process_notification (tn_env T) n w = (Inr (), w')" using attempt_result(1) [OF assms] by blast
  then show ?thesis by (rule process_notification_ok) auto
qed

lemma to_process_sym_key: "np_subscriber_sym_key (to_process acct (r, n, s, p)) = s_sym_key s"
  by (simp add: to_process_def)

lemma world_db_published: "w_published (w\<lparr> w_db := d \<rparr>) = w_published w"
  by simp

text \<open>An attempt with an outcome: the notification was published, or it fails or waits again.\<close>

lemma attempt_outcome:
  assumes "attempt T np w = (Inr a, w1)"
  shows "final_status T created a = Published \<and> tn_elapsed T = None \<and>
      (\<exists>key p. decode_key (en_ext (tn_env T)) (np_subscriber_sym_key np) = Inr key \<and>
         w_published w1 = w_published w @ [p] \<and> pub_topic p = topic_from_key (en_ext (tn_env T)) key) \<or>
    final_status T created a = (if created + PUBLISHING_GIVE_UP_TIMEOUT < tn_done T then Failed else Queued) \<and>
      (tn_elapsed T = None \<longrightarrow> w_published w1 = w_published w)"
proof (cases a)
  case None
  then show ?thesis using attempt_result(3) [OF assms] by (auto simp: final_status_def)
next
  case (Some r')
  then show ?thesis
    using attempt_result(1,2) [OF assms] attempt_published [OF assms] process_notification_err [of "tn_env T" _ _ _ w1]
    by (cases r') (fastforce simp: final_status_def)+
qed

text \<open>
  C24. One turn of a worker on a well-formed database. If no row is queued it changes nothing and
  stops. Otherwise exactly one queued row changes. A turn that ends normally does not leave it
  processing: it is published only when the relay took a message on the subscriber's topic, failed
  only when the notification is more than a day old, else queued again; a turn that neither
  published nor timed out sent nothing. No statement of the turn fails; it panics only when the
  notification has a URL and its follow link cannot be joined to the server's URL, and then
  nothing was sent and the row stays processing, for the check for dead letters to find.
\<close>

theorem process_next_spec:
  assumes "wf_db (en_ext (tn_env T)) (w_db w)" "picker (tn_pick T)"
  shows "case process_next T w of
      (Inl e, w') \<Rightarrow> e = Panicked \<and> w_published w' = w_published w \<and>
        (\<exists>r n. r \<in> set (subscriber_notifications (w_db w)) \<and> sn_status r = Queued \<and>
           n \<in> set (notifications (w_db w)) \<and> n_id n = sn_notification r \<and> n_url n \<noteq> None \<and>
           format_follow_link (en_ext (tn_env T)) (en_notify_url (tn_env T)) (sn_id r) = None \<and>
           w_db w' = (w_db w)\<lparr> subscriber_notifications :=
             map (\<lambda>q. if q = r then q\<lparr> sn_updated_at := en_now (tn_env T), sn_status := Processing \<rparr> else q)
               (subscriber_notifications (w_db w)) \<rparr>)
    | (Inr False, w') \<Rightarrow> (\<forall>r \<in> set (subscriber_notifications (w_db w)). sn_status r \<noteq> Queued) \<and> w' = w
    | (Inr True, w') \<Rightarrow> \<exists>r st n s. r \<in> set (subscriber_notifications (w_db w)) \<and> sn_status r = Queued \<and>
        n \<in> set (notifications (w_db w)) \<and> n_id n = sn_notification r \<and>
        s \<in> set (subscribers (w_db w)) \<and> s_id s = sn_subscriber r \<and>
        subscriber_notifications (w_db w') =
          map (\<lambda>q. if q = r then q\<lparr> sn_updated_at := tn_done T, sn_status := st \<rparr> else q)
            (subscriber_notifications (w_db w)) \<and>
        (st = Published \<and> tn_elapsed T = None \<and>
           (\<exists>key p. decode_key (en_ext (tn_env T)) (s_sym_key s) = Inr key \<and>
              w_published w' = w_published w @ [p] \<and> pub_topic p = topic_from_key (en_ext (tn_env T)) key) \<or>
         st = (if n_created_at n + PUBLISHING_GIVE_UP_TIMEOUT < tn_done T then Failed else Queued) \<and>
           (tn_elapsed T = None \<longrightarrow> w_published w' = w_published w))"
proof (cases "filter (\<lambda>r. sn_status r = Queued) (subscriber_notifications (w_db w)) = []")
  case True
  then show ?thesis by (simp add: process_next_empty filter_empty_conv)
next
  case False
  define r where "r = tn_pick T (filter (\<lambda>r. sn_status r = Queued) (subscriber_notifications (w_db w)))"
  from process_next_picked [OF assms False, folded r_def] obtain n s p res w1 d1 where
    r: "r \<in> set (subscriber_notifications (w_db w))" "sn_status r = Queued"
    and j: "n \<in> set (notifications (w_db w))" "n_id n = sn_notification r"
      "s \<in> set (subscribers (w_db w))" "s_id s = sn_subscriber r"
    and at: "attempt T (to_process (s_account s) (set_status (en_now (tn_env T)) Processing r, n, s, p)) (w\<lparr> w_db := d1 \<rparr>) = (res, w1)"
    and out: "case res of
          Inl e \<Rightarrow> process_next T w = (Inl e, w1) \<and> w_db w1 = (w_db w)\<lparr> subscriber_notifications :=
            update_where (\<lambda>q. sn_id q = sn_id r) (set_status (en_now (tn_env T)) Processing) (subscriber_notifications (w_db w)) \<rparr>
        | Inr a \<Rightarrow> (\<exists>c. process_next T w = (Inr True, w1\<lparr> w_db := (w_db w)\<lparr> subscriber_notifications :=
            update_where (\<lambda>q. sn_id q = sn_id r) (set_status (tn_done T) (final_status T (n_created_at n) a))
              (subscriber_notifications (w_db w)), delivery_channel := c \<rparr> \<rparr>))"
    by blast
  show ?thesis
  proof (cases res)
    case (Inl e)
    then have eq: "process_next T w = (Inl e, w1)" "w_db w1 = (w_db w)\<lparr> subscriber_notifications :=
        update_where (\<lambda>q. sn_id q = sn_id r) (set_status (en_now (tn_env T)) Processing) (subscriber_notifications (w_db w)) \<rparr>"
      using out by simp_all
    have "np_notification_url (to_process a (set_status t st r, n, s, p)) = n_url n"
      "np_subscriber_notification (to_process a (set_status t st r, n, s, p)) = sn_id r" for a t st
      by (simp_all add: to_process_def set_status_def)
    with attempt_Inl [OF at [unfolded Inl]] have "e = Panicked" "w_published w1 = w_published w" "n_url n \<noteq> None"
      "format_follow_link (en_ext (tn_env T)) (en_notify_url (tn_env T)) (sn_id r) = None" by simp_all
    then show ?thesis
      unfolding eq prod.case sum.case update_where_id [OF assms(1) r(1)] using r j
      by (intro conjI exI [of _ r] exI [of _ n]) (simp_all add: set_status_def)
  next
    case (Inr a)
    then obtain c where next_eq: "process_next T w = (Inr True, w1\<lparr> w_db := (w_db w)\<lparr> subscriber_notifications :=
            update_where (\<lambda>q. sn_id q = sn_id r) (set_status (tn_done T) (final_status T (n_created_at n) a))
              (subscriber_notifications (w_db w)), delivery_channel := c \<rparr> \<rparr>)" using out by auto
    note upd = update_where_id [OF assms(1) r(1), of "set_status (tn_done T) (final_status T (n_created_at n) a)"]
    note sends = attempt_outcome [OF at [unfolded Inr], of "n_created_at n", unfolded to_process_sym_key world_db_published]
    show ?thesis
      unfolding next_eq prod.case sum.case bool.case
      by (rule exI [of _ r], rule exI [of _ "final_status T (n_created_at n) a"], rule exI [of _ n],
          rule exI [of _ s], intro conjI)
        (use r j upd sends in \<open>simp_all add: set_status_def\<close>)
  qed
qed

section \<open>Draining the queue\<close>

definition keys_ok :: "ext \<Rightarrow> db \<Rightarrow> bool" where
  "keys_ok X d \<longleftrightarrow>
     (\<forall>p \<in> set (projects d). is_ok (decode_key X (p_authentication_private_key p)) \<and>
        is_ok (decode_key X (p_authentication_public_key p))) \<and>
     (\<forall>s \<in> set (subscribers d). is_ok (decode_key X (s_sym_key s)))"

text \<open>
  A turn in which nothing outside goes wrong: the relay accepts, the attempt does not time out,
  and a follow link can be joined to the server's own URL. Its nonces are those of the code, 12 bytes.
\<close>

definition smooth :: "ext \<Rightarrow> turn \<Rightarrow> bool" where
  "smooth X T \<longleftrightarrow> en_ext (tn_env T) = X \<and> picker (tn_pick T) \<and> tn_elapsed T = None \<and>
     (\<forall>p k. is_ok (en_publish (tn_env T) p k)) \<and> (\<forall>k. length (dr_nonce (en_draw (tn_env T) k)) = 12) \<and>
     (\<forall>i. format_follow_link X (en_notify_url (tn_env T)) i \<noteq> None)"

text \<open>
  Every message that a turn may make of the notifications stored, for a subscriber of theirs, is
  within the limit of ChaCha20-Poly1305.
\<close>

definition messages_fit :: "ext \<Rightarrow> turn \<Rightarrow> db \<Rightarrow> bool" where
  "messages_fit X T d \<longleftrightarrow>
     (\<forall>n \<in> set (notifications d). \<forall>s \<in> set (subscribers d). \<forall>p \<in> set (projects d). p_id p = n_project n \<longrightarrow>
        (\<forall>r i url details.
           psd_app details = p_app_domain p \<longrightarrow>
           decode_key X (p_authentication_private_key p) = Inr (psd_private_key details) \<longrightarrow>
           decode_key X (p_authentication_public_key p) = Inr (psd_decoded_client_id details) \<longrightarrow>
           (if n_url n = None then url = ''''
            else format_follow_link X (en_notify_url (tn_env T)) (sn_id r) = Some url) \<longrightarrow>
           chacha_fits (as_bytes (json_to_string X
             (notify_message_request X (en_now (tn_env T)) i (to_process (s_account s) (r, n, s, p)) url details)))))"

lemma messages_fit_cong:
  "notifications d' = notifications d \<Longrightarrow> subscribers d' = subscribers d \<Longrightarrow> projects d' = projects d \<Longrightarrow>
   messages_fit X T d' = messages_fit X T d"
  by (simp add: messages_fit_def)

lemma decode_key_32: "decode_key X k = Inr bs \<Longrightarrow> length bs = 32"
  by (auto simp: decode_key_def rbind_Inr_iff split: if_splits)

lemma publish_relay_message_first: "is_ok (relay 0) \<Longrightarrow> publish_relay_message relay = Inr ()"
  by (auto simp: publish_relay_message_def publish_call_def retry_loop.simps is_ok_iff)

lemma smooth_attempt:
  assumes "smooth X T" "aead_total X" "messages_fit X T d" "keys_ok X d"
    and "n \<in> set (notifications d)" "s \<in> set (subscribers d)" "p \<in> set (projects d)" "p_id p = n_project n"
  shows "\<exists>w'. attempt T (to_process (s_account s) (r, n, s, p)) w = (Inr (Some (Inr ())), w') \<and>
    length (w_published w') = Suc (length (w_published w))"
proof -
  let ?n = "to_process (s_account s) (r, n, s, p)" and ?dr = "en_draw (tn_env T) (w_drawn w)"
  obtain priv pub sym where k: "decode_key X (p_authentication_private_key p) = Inr priv"
      "decode_key X (p_authentication_public_key p) = Inr pub" "decode_key X (s_sym_key s) = Inr sym"
    using assms(4,6,7) unfolding keys_ok_def is_ok_iff by metis
  have x: "en_ext (tn_env T) = X" "tn_elapsed T = None" and nonce: "length (dr_nonce ?dr) = 12"
    using assms(1) by (simp_all add: smooth_def)
  have seal: "\<exists>m. seal_message X (dr_nonce ?dr) sym (notify_message_request X (en_now (tn_env T)) (dr_message_id ?dr) ?n url
      \<lparr> psd_decoded_client_id = pub, psd_private_key = priv, psd_app = p_app_domain p \<rparr>) = Some m"
    if "if n_url n = None then url = '''' else format_follow_link X (en_notify_url (tn_env T)) (sn_id r) = Some url" for url
  proof -
    have "chacha_fits (as_bytes (json_to_string X
        (notify_message_request X (en_now (tn_env T)) (dr_message_id ?dr) ?n url
          \<lparr> psd_decoded_client_id = pub, psd_private_key = priv, psd_app = p_app_domain p \<rparr>)))"
      using assms(3,5-8) k that unfolding messages_fit_def by simp
    then show ?thesis
      using assms(2) decode_key_32 [OF k(3)] nonce by (auto simp: aead_total_def seal_message_def Envelope0_new_def)
  qed
  have pub_ok: "publish_relay_message (en_publish (tn_env T) m) = Inr ()" for m
    using assms(1) by (auto simp: smooth_def intro: publish_relay_message_first)
  obtain w' where "process_notification (tn_env T) ?n w = (Inr (), w')" "length (w_published w') = Suc (length (w_published w))"
  proof (cases "n_url n")
    case None
    obtain m where "seal_message X (dr_nonce ?dr) sym (notify_message_request X (en_now (tn_env T)) (dr_message_id ?dr) ?n ''''
          \<lparr> psd_decoded_client_id = pub, psd_private_key = priv, psd_app = p_app_domain p \<rparr>) = Some m"
      using seal [of "''''"] None by auto
    then show thesis
      using that k None
      by (auto simp: process_notification_def h_ok to_process_def x pub_ok analytics_subscriber_notification_def
          relay_request_events_def)
  next
    case (Some l)
    obtain u where u: "format_follow_link X (en_notify_url (tn_env T)) (sn_id r) = Some u"
      using assms(1) unfolding smooth_def by blast
    obtain m where "seal_message X (dr_nonce ?dr) sym (notify_message_request X (en_now (tn_env T)) (dr_message_id ?dr) ?n u
          \<lparr> psd_decoded_client_id = pub, psd_private_key = priv, psd_app = p_app_domain p \<rparr>) = Some m"
      using seal [of u] Some u by auto
    then show thesis
      using that k Some u
      by (auto simp: process_notification_def h_ok to_process_def x pub_ok analytics_subscriber_notification_def
          relay_request_events_def)
  qed
  then show ?thesis by (auto simp: attempt_def x h_bind_def h_try_def h_return_def)
qed

definition queued_count :: "db \<Rightarrow> nat" where
  "queued_count d = length (filter (\<lambda>r. sn_status r = Queued) (subscriber_notifications d))"

lemma queued_count_update:
  assumes "distinct l" "r \<in> set l" "sn_status r = Queued" "sn_status u \<noteq> Queued"
  shows "Suc (length (filter (\<lambda>r. sn_status r = Queued) (map (\<lambda>q. if q = r then u else q) l))) =
    length (filter (\<lambda>r. sn_status r = Queued) l)"
  using assms
proof (induction l)
  case (Cons x l)
  show ?case
  proof (cases "x = r")
    case True
    with Cons.prems have "map (\<lambda>q. if q = r then u else q) l = l" by (auto intro!: map_idI)
    then show ?thesis using True Cons.prems by simp
  next
    case False
    then show ?thesis using Cons by auto
  qed
qed simp

definition statuses_after :: "db \<Rightarrow> (uuid \<times> SubscriberNotificationStatus) list" where
  "statuses_after d = map (\<lambda>r. (sn_id r, if sn_status r = Queued then Published else sn_status r))
     (subscriber_notifications d)"

text \<open>A smooth turn delivers the row the picker chose.\<close>

lemma smooth_turn_row:
  assumes "smooth X T" "aead_total X" "messages_fit X T (w_db w)" "keys_ok X (w_db w)" "wf_db X (w_db w)"
    and "queued_count (w_db w) \<noteq> 0"
  obtains r n s p w1 d1 c where
    "r \<in> set (subscriber_notifications (w_db w))" "sn_status r = Queued"
    "n \<in> set (notifications (w_db w))" "n_id n = sn_notification r" "s \<in> set (subscribers (w_db w))" "s_id s = sn_subscriber r"
    "p \<in> set (projects (w_db w))" "p_id p = n_project n"
    "attempt T (to_process (s_account s) (set_status (en_now (tn_env T)) Processing r, n, s, p)) (w\<lparr> w_db := d1 \<rparr>) =
      (Inr (Some (Inr ())), w1)"
    "length (w_published w1) = Suc (length (w_published w))"
    "process_next T w = (Inr True, w1\<lparr> w_db := (w_db w)\<lparr> subscriber_notifications :=
      update_where (\<lambda>q. sn_id q = sn_id r) (set_status (tn_done T) Published) (subscriber_notifications (w_db w)),
      delivery_channel := c \<rparr> \<rparr>)"
proof -
  have x: "en_ext (tn_env T) = X" "picker (tn_pick T)" using assms(1) by (simp_all add: smooth_def)
  have q: "filter (\<lambda>r. sn_status r = Queued) (subscriber_notifications (w_db w)) \<noteq> []"
    using assms(6) by (simp add: queued_count_def)
  define r where "r = tn_pick T (filter (\<lambda>r. sn_status r = Queued) (subscriber_notifications (w_db w)))"
  from process_next_picked [OF _ x(2) q, folded r_def] obtain n s p res w1 d1 where
    r: "r \<in> set (subscriber_notifications (w_db w))" "sn_status r = Queued"
    and j: "n \<in> set (notifications (w_db w))" "n_id n = sn_notification r" "s \<in> set (subscribers (w_db w))" "s_id s = sn_subscriber r"
      "p \<in> set (projects (w_db w))" "p_id p = n_project n"
    and at: "attempt T (to_process (s_account s) (set_status (en_now (tn_env T)) Processing r, n, s, p)) (w\<lparr> w_db := d1 \<rparr>) = (res, w1)"
    and out: "case res of
          Inl e \<Rightarrow> process_next T w = (Inl e, w1) \<and> w_db w1 = (w_db w)\<lparr> subscriber_notifications :=
            update_where (\<lambda>q. sn_id q = sn_id r) (set_status (en_now (tn_env T)) Processing) (subscriber_notifications (w_db w)) \<rparr>
        | Inr a \<Rightarrow> (\<exists>c. process_next T w = (Inr True, w1\<lparr> w_db := (w_db w)\<lparr> subscriber_notifications :=
            update_where (\<lambda>q. sn_id q = sn_id r) (set_status (tn_done T) (final_status T (n_created_at n) a))
              (subscriber_notifications (w_db w)), delivery_channel := c \<rparr> \<rparr>))"
    using assms(5) x(1) by blast
  have res: "res = Inr (Some (Inr ()))" and l: "length (w_published w1) = Suc (length (w_published w))"
    using smooth_attempt [OF assms(1-4) j(1,3,5,6), of "set_status (en_now (tn_env T)) Processing r" "w\<lparr> w_db := d1 \<rparr>"] at
    by auto
  from out obtain c where "process_next T w = (Inr True, w1\<lparr> w_db := (w_db w)\<lparr> subscriber_notifications :=
      update_where (\<lambda>q. sn_id q = sn_id r) (set_status (tn_done T) Published) (subscriber_notifications (w_db w)),
      delivery_channel := c \<rparr> \<rparr>)"
    unfolding res by (auto simp: final_status_def)
  then show thesis by (rule that [OF r j at [unfolded res] l])
qed

text \<open>What publishing a row does to the database.\<close>

lemma published_row:
  fixes d c now r
  defines "d' \<equiv> d\<lparr> subscriber_notifications :=
      update_where (\<lambda>q. sn_id q = sn_id r) (set_status now Published) (subscriber_notifications d), delivery_channel := c \<rparr>"
  assumes "wf_db X d" "r \<in> set (subscriber_notifications d)" "sn_status r = Queued"
  shows "wf_db X d'" and "keys_ok X d \<Longrightarrow> keys_ok X d'" and "messages_fit X T d' = messages_fit X T d"
    and "subscriber_notifications d' = map (\<lambda>q. if q = r then set_status now Published q else q) (subscriber_notifications d)"
    and "Suc (queued_count d') = queued_count d" and "statuses_after d' = statuses_after d"
proof -
  have dist: "distinct (subscriber_notifications d)"
    using wf_dbD(6) [OF assms(2)] by (simp add: wf_subscriber_notifications_def distinct_map)
  note upd = update_where_id [OF assms(2,3), of "set_status now Published"]
  show "wf_db X d'"
    using wf_db_sn_update [OF assms(2), where P = "\<lambda>q. sn_id q = sn_id r" and u = "set_status now Published" and c = c]
    by (simp add: d'_def set_status_def pg_status_def)
  show "keys_ok X d \<Longrightarrow> keys_ok X d'" by (simp add: d'_def keys_ok_def)
  show "messages_fit X T d' = messages_fit X T d" by (rule messages_fit_cong) (simp_all add: d'_def)
  show "subscriber_notifications d' = map (\<lambda>q. if q = r then set_status now Published q else q) (subscriber_notifications d)"
    by (simp add: d'_def upd)
  show "Suc (queued_count d') = queued_count d"
    using queued_count_update [OF dist assms(3,4), of "set_status now Published r"]
    by (simp add: d'_def queued_count_def upd set_status_def cong: if_cong)
  show "statuses_after d' = statuses_after d"
    using assms(4) by (auto simp: d'_def statuses_after_def upd set_status_def)
qed

lemma smooth_turn:
  assumes "smooth X T" "aead_total X" "messages_fit X T (w_db w)" "keys_ok X (w_db w)" "wf_db X (w_db w)"
    and "queued_count (w_db w) \<noteq> 0"
  shows "\<exists>w'. process_next T w = (Inr True, w') \<and> wf_db X (w_db w') \<and> keys_ok X (w_db w') \<and>
    (\<forall>U. messages_fit X U (w_db w') = messages_fit X U (w_db w)) \<and>
    Suc (queued_count (w_db w')) = queued_count (w_db w) \<and> statuses_after (w_db w') = statuses_after (w_db w) \<and>
    length (w_published w') = Suc (length (w_published w))"
  by (rule smooth_turn_row [OF assms]) (use published_row [OF assms(5)] assms(4) in auto)

text \<open>
  C20. Liveness of the queue: on a well-formed database whose keys decode, when the relay accepts,
  no attempt times out, a follow link can be joined to the server's own URL and no message is
  beyond the 256 GiB that ChaCha20-Poly1305 can encrypt, a worker with one turn more than there
  are queued rows stops with every queued row published, every other status as it was, and one
  message per queued row.
\<close>

theorem queue_drains:
  assumes "wf_db X (w_db w)" "keys_ok X (w_db w)" "aead_total X"
    and "\<forall>T \<in> set Ts. smooth X T \<and> messages_fit X T (w_db w)" "queued_count (w_db w) < length Ts"
  shows "\<exists>w'. process_queued_messages Ts w = Some (Inr (), w') \<and>
    map (\<lambda>r. (sn_id r, sn_status r)) (subscriber_notifications (w_db w')) =
      map (\<lambda>r. (sn_id r, if sn_status r = Queued then Published else sn_status r)) (subscriber_notifications (w_db w)) \<and>
    length (w_published w') = length (w_published w) + queued_count (w_db w)"
  using assms
proof (induction Ts arbitrary: w)
  case (Cons T Ts)
  show ?case
  proof (cases "queued_count (w_db w) = 0")
    case True
    then have e: "filter (\<lambda>r. sn_status r = Queued) (subscriber_notifications (w_db w)) = []"
      by (simp add: queued_count_def)
    have "map (\<lambda>r. (sn_id r, sn_status r)) (subscriber_notifications (w_db w)) =
      map (\<lambda>r. (sn_id r, if sn_status r = Queued then Published else sn_status r)) (subscriber_notifications (w_db w))"
      using e by (auto simp: filter_empty_conv)
    then show ?thesis using True process_next_empty [OF e, of T] by simp
  next
    case False
    have sm: "smooth X T" "messages_fit X T (w_db w)" using Cons.prems(4) by simp_all
    obtain w1 where w1: "process_next T w = (Inr True, w1)" "wf_db X (w_db w1)" "keys_ok X (w_db w1)"
        "\<forall>U. messages_fit X U (w_db w1) = messages_fit X U (w_db w)"
        "Suc (queued_count (w_db w1)) = queued_count (w_db w)" "statuses_after (w_db w1) = statuses_after (w_db w)"
        "length (w_published w1) = Suc (length (w_published w))"
      using smooth_turn [OF sm(1) Cons.prems(3) sm(2) Cons.prems(2,1) False] by blast
    have "queued_count (w_db w1) < length Ts" using w1(5) Cons.prems(5) by simp
    from Cons.IH [OF w1(2,3) Cons.prems(3) _ this] Cons.prems(4) w1(4) obtain w' where
      "process_queued_messages Ts w1 = Some (Inr (), w')"
      "map (\<lambda>r. (sn_id r, sn_status r)) (subscriber_notifications (w_db w')) = statuses_after (w_db w1)"
      "length (w_published w') = length (w_published w1) + queued_count (w_db w1)"
      by (auto simp: statuses_after_def)
    then show ?thesis using w1 by (simp add: statuses_after_def)
  qed
qed simp

text \<open>The sealed message of a notification: who opens it finds a JWT of the project about the subscriber.\<close>

lemma notify_message_opens:
  assumes "aead_laws X" "jwt_laws X" "\<forall>bs. b64_std_decode X (b64_std_encode X bs) = Inr bs" "length nonce = 12"
    and seal: "seal_message X nonce key (notify_message_request X now i n url
      \<lparr> psd_decoded_client_id = client_id, psd_private_key = priv, psd_app = np_project_app_domain n \<rparr>) = Some message"
  shows "\<exists>bs e jwt m sig msg req. b64_std_decode X message = Inr bs \<and> Envelope0_from_bytes bs = Inr e \<and>
    chacha_decrypt X key (iv e) (sealbox e) = Some (as_bytes (json_to_string X req)) \<and>
    JsonRpcRequest_from_json (auth_from_json ''messageAuth'') req =
      Inr \<lparr> rq_id = i, rq_jsonrpc = ''2.0'', rq_method = ''wc_notifyMessage'', rq_params = jwt \<rparr> \<and>
    jwt = m @ ''.'' @ sig \<and> jwt_ed_verify X sig (as_bytes m) (ed25519_verifying_key X priv) = Inr True \<and>
    m = b64_url_no_pad_encode X (as_bytes (jwt_header_string X)) @ ''.'' @
      b64_url_no_pad_encode X (as_bytes (json_to_string X (NotifyMessage_to_json X msg))) \<and>
    nm_sub msg = to_did_pkh X (np_subscriber_account n) \<and> nm_app msg = np_project_app_domain n \<and>
    jn_id (nm_msg msg) = np_subscriber_notification n \<and> jn_title (nm_msg msg) = np_notification_title n \<and>
    jn_body (nm_msg msg) = np_notification_body n \<and> jn_type (nm_msg msg) = np_notification_type n \<and>
    jn_icon (nm_msg msg) = (case np_notification_icon n of None \<Rightarrow> '''' | Some i \<Rightarrow> i) \<and>
    jn_sent_at (nm_msg msg) = timestamp_millis (np_notification_created_at n) \<and>
    jn_is_read (nm_msg msg) = np_subscriber_notification_is_read n \<and> jn_url (nm_msg msg) = url \<and>
    nm_exp msg = nm_iat msg + 2592000"
proof -
  define details where "details = \<lparr> psd_decoded_client_id = client_id, psd_private_key = priv, psd_app = np_project_app_domain n \<rparr>"
  define body where "body = \<lparr> jn_id = np_subscriber_notification n,
      jn_sent_at = timestamp_millis (np_notification_created_at n), jn_type = np_notification_type n,
      jn_title = np_notification_title n, jn_body = np_notification_body n,
      jn_icon = (case np_notification_icon n of None \<Rightarrow> '''' | Some i \<Rightarrow> i),
      jn_url = url, jn_is_read = np_subscriber_notification_is_read n \<rparr>"
  define msg where "msg = \<lparr> nm_iat = timestamp now, nm_exp = timestamp (add_ttl now NOTIFY_MESSAGE_TTL),
      nm_iss = to_did_key X client_id, nm_act = NOTIFY_MESSAGE_ACT, nm_sub = to_did_pkh X (np_subscriber_account n),
      nm_app = np_project_app_domain n, nm_msg = body \<rparr>"
  define m where "m = b64_url_no_pad_encode X (as_bytes (jwt_header_string X)) @ ''.'' @
      b64_url_no_pad_encode X (as_bytes (json_to_string X (NotifyMessage_to_json X msg)))"
  define sig where "sig = b64_url_no_pad_encode X (ed25519_sign X priv (as_bytes m))"
  have jwt: "sign_message X now body (np_subscriber_account n) details = m @ ''.'' @ sig"
    by (simp add: sign_message_def sign_jwt_def Let_def details_def msg_def m_def sig_def)
  have ver: "jwt_ed_verify X sig (as_bytes m) (ed25519_verifying_key X priv) = Inr True"
    using assms(2) by (simp add: jwt_laws_def sig_def)
  define req where "req = notify_message_request X now i n url details"
  have rq: "JsonRpcRequest_from_json (auth_from_json ''messageAuth'') req =
      Inr \<lparr> rq_id = i, rq_jsonrpc = ''2.0'', rq_method = ''wc_notifyMessage'', rq_params = m @ ''.'' @ sig \<rparr>"
    using rpc_request.dec_enc [of NotifyMessageAuth_field "JsonRpcRequest_new i NOTIFY_MESSAGE_METHOD (m @ ''.'' @ sig)"]
    by (simp add: req_def notify_message_request_def body_def [symmetric] jwt JsonRpcRequest_new_def JSON_RPC_VERSION_def
        NOTIFY_MESSAGE_METHOD_def NotifyMessageAuth_field_def)
  obtain bs e where opens: "b64_std_decode X message = Inr bs" "Envelope0_from_bytes bs = Inr e"
    "chacha_decrypt X key (iv e) (sealbox e) = Some (as_bytes (json_to_string X req))"
    using seal_message_opens [OF assms(1,3,4) seal] unfolding req_def details_def by blast
  have "nm_exp msg = nm_iat msg + 2592000"
    by (simp add: msg_def add_ttl_def NOTIFY_MESSAGE_TTL_def T2592000_def timestamp_def)
  then show ?thesis
    using opens rq ver m_def
    by (intro exI [of _ bs] exI [of _ e] exI [of _ "m @ ''.'' @ sig"] exI [of _ m] exI [of _ sig] exI [of _ msg] exI [of _ req])
      (simp add: msg_def body_def)
qed

text \<open>
  C15. What a delivery sends. When \<open>process_notification\<close> succeeds, the relay took exactly one
  message, on the topic of the subscriber's key, with the notify tag and 30 days to live; the
  holder of that key opens it to a \<open>wc_notifyMessage\<close> request whose JWT verifies under the
  project's public key and whose claims carry the notification (with its icon, the time it was
  stored and, if it has a URL, the link that follows it), the subscriber's account and the
  project's domain. One delivery is recorded for the analytics, with the id of that message.
\<close>

theorem notification_reaches_subscriber:
  assumes "process_notification E n w = (Inr u, w')" "en_ext E = X"
    and "aead_laws X" "jwt_laws X" "\<forall>bs. b64_std_decode X (b64_std_encode X bs) = Inr bs"
    and "length (dr_nonce (en_draw E (w_drawn w))) = 12"
    and "decode_key X (np_subscriber_sym_key n) = Inr key"
    and "decode_key X (np_project_authentication_private_key n) = Inr priv"
  shows "\<exists>p bs e jwt m sig msg req. w_published w' = w_published w @ [p] \<and>
    pub_topic p = topic_from_key X key \<and> pub_tag p = 4002 \<and> pub_ttl_secs p = 2592000 \<and>
    b64_std_decode X (pub_message p) = Inr bs \<and> Envelope0_from_bytes bs = Inr e \<and>
    chacha_decrypt X key (iv e) (sealbox e) = Some (as_bytes (json_to_string X req)) \<and>
    JsonRpcRequest_from_json (auth_from_json ''messageAuth'') req =
      Inr \<lparr> rq_id = dr_message_id (en_draw E (w_drawn w)), rq_jsonrpc = ''2.0'', rq_method = ''wc_notifyMessage'', rq_params = jwt \<rparr> \<and>
    jwt = m @ ''.'' @ sig \<and> jwt_ed_verify X sig (as_bytes m) (ed25519_verifying_key X priv) = Inr True \<and>
    m = b64_url_no_pad_encode X (as_bytes (jwt_header_string X)) @ ''.'' @
      b64_url_no_pad_encode X (as_bytes (json_to_string X (NotifyMessage_to_json X msg))) \<and>
    nm_sub msg = to_did_pkh X (np_subscriber_account n) \<and> nm_app msg = np_project_app_domain n \<and>
    jn_id (nm_msg msg) = np_subscriber_notification n \<and> jn_title (nm_msg msg) = np_notification_title n \<and>
    jn_body (nm_msg msg) = np_notification_body n \<and> jn_type (nm_msg msg) = np_notification_type n \<and>
    jn_icon (nm_msg msg) = (case np_notification_icon n of None \<Rightarrow> '''' | Some i \<Rightarrow> i) \<and>
    jn_sent_at (nm_msg msg) = timestamp_millis (np_notification_created_at n) \<and>
    jn_is_read (nm_msg msg) = np_subscriber_notification_is_read n \<and> (case np_notification_url n of
       None \<Rightarrow> jn_url (nm_msg msg) = ''''
     | Some _ \<Rightarrow> format_follow_link X (en_notify_url E) (np_subscriber_notification n) = Some (jn_url (nm_msg msg))) \<and>
    nm_exp msg = nm_iat msg + 2592000 \<and>
    w_events w' = w_events w @ [Subscriber_notification (SubscriberNotification_from X (en_now E)
      (delivery_params E n (pub_message p)))]"
proof -
  obtain client_id url message where
    seal: "seal_message X (dr_nonce (en_draw E (w_drawn w))) key
      (notify_message_request X (en_now E) (dr_message_id (en_draw E (w_drawn w))) n url
        \<lparr> psd_decoded_client_id = client_id, psd_private_key = priv, psd_app = np_project_app_domain n \<rparr>) = Some message"
    and w': "w' = w\<lparr> w_drawn := Suc (w_drawn w), w_published := w_published w @
      [\<lparr> pub_topic = topic_from_key X key, pub_message = message,
         pub_ttl_secs = NOTIFY_MESSAGE_TTL, pub_tag = NOTIFY_MESSAGE_TAG, pub_prompt = True \<rparr>],
      w_events := w_events w @ [Subscriber_notification (SubscriberNotification_from X (en_now E) (delivery_params E n message))] \<rparr>"
    and url: "np_notification_url n = None \<Longrightarrow> url = ''''"
      "np_notification_url n \<noteq> None \<Longrightarrow> format_follow_link X (en_notify_url E) (np_subscriber_notification n) = Some url"
    using process_notification_sent [OF assms(1), unfolded assms(2), OF assms(7,8)]
    by (elim exE conjE) (rule that; simp)
  from notify_message_opens [OF assms(3-6) seal] obtain bs e jwt m sig msg req where
    "b64_std_decode X message = Inr bs" "Envelope0_from_bytes bs = Inr e"
    "chacha_decrypt X key (iv e) (sealbox e) = Some (as_bytes (json_to_string X req))"
    "JsonRpcRequest_from_json (auth_from_json ''messageAuth'') req =
      Inr \<lparr> rq_id = dr_message_id (en_draw E (w_drawn w)), rq_jsonrpc = ''2.0'', rq_method = ''wc_notifyMessage'', rq_params = jwt \<rparr>"
    "jwt = m @ ''.'' @ sig" "jwt_ed_verify X sig (as_bytes m) (ed25519_verifying_key X priv) = Inr True"
    "m = b64_url_no_pad_encode X (as_bytes (jwt_header_string X)) @ ''.'' @
      b64_url_no_pad_encode X (as_bytes (json_to_string X (NotifyMessage_to_json X msg)))"
    "nm_sub msg = to_did_pkh X (np_subscriber_account n)" "nm_app msg = np_project_app_domain n"
    "jn_id (nm_msg msg) = np_subscriber_notification n" "jn_title (nm_msg msg) = np_notification_title n"
    "jn_body (nm_msg msg) = np_notification_body n" "jn_type (nm_msg msg) = np_notification_type n"
    "jn_icon (nm_msg msg) = (case np_notification_icon n of None \<Rightarrow> '''' | Some i \<Rightarrow> i)"
    "jn_sent_at (nm_msg msg) = timestamp_millis (np_notification_created_at n)"
    "jn_is_read (nm_msg msg) = np_subscriber_notification_is_read n" "jn_url (nm_msg msg) = url"
    "nm_exp msg = nm_iat msg + 2592000"
    by blast
  then show ?thesis
    using w' by (intro exI [of _ "\<lparr> pub_topic = topic_from_key X key, pub_message = message,
         pub_ttl_secs = NOTIFY_MESSAGE_TTL, pub_tag = NOTIFY_MESSAGE_TAG, pub_prompt = True \<rparr>"] exI [of _ bs] exI [of _ e]
         exI [of _ jwt] exI [of _ m] exI [of _ sig] exI [of _ msg] exI [of _ req])
       (use url in \<open>simp add: NOTIFY_MESSAGE_TAG_def NOTIFY_MESSAGE_TTL_def T2592000_def split: option.split\<close>)
qed

text \<open>
  C33. The number of workers. However starts, ends and panics of workers interleave with the
  listener, at most 50 are alive and the counter is at least their number. Because a panic skips
  the decrement, 50 panics leave the counter full for ever: no worker is started again.
\<close>

theorem worker_limit:
  "(\<forall>s. workers_step\<^sup>*\<^sup>* workers_start s \<longrightarrow> wk_live s \<le> wk_counter s \<and> wk_counter s \<le> 50) \<and>
   (\<exists>s. workers_step\<^sup>*\<^sup>* workers_start s \<and> wk_live s = 0 \<and> (\<forall>t. workers_step\<^sup>*\<^sup>* s t \<longrightarrow> t = s))"
proof (intro conjI allI impI)
  fix s assume "workers_step\<^sup>*\<^sup>* workers_start s"
  then have "workers_inv s" by (rule workers.reachable_inv [OF refl])
  then show "wk_live s \<le> wk_counter s" "wk_counter s \<le> 50"
    by (auto simp: workers_inv_def MAX_WORKERS_def split: if_splits)
next
  let ?dead = "\<lambda>k. \<lparr> wk_counter = 50, wk_live = k, wk_listener = Waiting \<rparr>"
  have step: "workers_step (?dead (Suc k)) (?dead k)" for k
    using panic [of "?dead (Suc k)"] by simp
  have path: "workers_step\<^sup>*\<^sup>* (?dead k) (?dead 0)" for k
  proof (induction k)
    case (Suc k)
    then show ?case using step [of k] by (meson converse_rtranclp_into_rtranclp)
  qed simp
  have stuck: "workers_step (?dead 0) t \<Longrightarrow> t = ?dead 0" for t
    by (erule workers_stepE) (auto simp: MAX_WORKERS_def)
  have "workers_step\<^sup>*\<^sup>* (?dead 0) t \<Longrightarrow> t = ?dead 0" for t
    by (induction rule: rtranclp_induct) (auto dest: stuck)
  then show "\<exists>s. workers_step\<^sup>*\<^sup>* workers_start s \<and> wk_live s = 0 \<and> (\<forall>t. workers_step\<^sup>*\<^sup>* s t \<longrightarrow> t = s)"
    using path [of 50] by (auto simp: workers_start_def START_WORKERS_def intro!: exI [of _ "?dead 0"])
qed

section \<open>Witnesses\<close>

definition turn_demo :: turn where
  "turn_demo = \<lparr> tn_pick = hd, tn_env = env_demo, tn_elapsed = None, tn_done = 9 \<rparr>"

lemma smooth_demo: "smooth ext_demo turn_demo"
  by (simp add: smooth_def turn_demo_def env_demo_def draw_demo_def picker_hd format_follow_link_def) (simp add: ext_demo_def)

lemma messages_fit_demo: "messages_fit ext_demo turn_demo d"
proof -
  have "length (as_bytes (json_to_string ext_demo j)) = 2" for j by (simp add: ext_demo_def as_bytes_def)
  then show ?thesis by (simp add: messages_fit_def chacha_fits_def)
qed

lemma keys_demo: "keys_ok ext_demo demo_db6"
  by (simp add: keys_ok_def demo_db6_defs decode_key_demo)

lemma queued_demo: "queued_count demo_db6 = 1"
  by (simp add: queued_count_def demo_db6_defs)

theorem queue_drains_witness:
  "\<exists>w'. process_queued_messages [turn_demo, turn_demo] (world_demo demo_db6) = Some (Inr (), w') \<and>
     map (\<lambda>r. (sn_id r, sn_status r)) (subscriber_notifications (w_db w')) = [(31, Published)] \<and>
     length (w_published w') = 1"
proof -
  have "wf_db ext_demo (w_db (world_demo demo_db6))" "keys_ok ext_demo (w_db (world_demo demo_db6))"
    "queued_count (w_db (world_demo demo_db6)) = 1"
    using wf_demo_db6 keys_demo queued_demo by (simp_all add: world_demo_def)
  then show ?thesis
    using queue_drains [of ext_demo "world_demo demo_db6" "[turn_demo, turn_demo]"] smooth_demo messages_fit_demo aead_total_demo
    by (simp add: world_demo_def demo_db6_defs)
qed

theorem process_next_spec_witness:
  "\<exists>w'. process_next turn_demo (world_demo demo_db6) = (Inr True, w') \<and>
     map sn_status (subscriber_notifications (w_db w')) \<in> {[Published], [Queued], [Failed]}"
proof -
  have wf: "wf_db (en_ext (tn_env turn_demo)) (w_db (world_demo demo_db6))" "picker (tn_pick turn_demo)"
    using wf_demo_db6 by (simp_all add: turn_demo_def env_demo_def world_demo_def picker_hd)
  obtain w' where w': "process_next turn_demo (world_demo demo_db6) = (Inr True, w')"
    using smooth_turn [OF smooth_demo aead_total_demo messages_fit_demo, of "world_demo demo_db6"] wf_demo_db6 keys_demo queued_demo
    by (auto simp: world_demo_def)
  then show ?thesis
    using process_next_spec [OF wf] by (auto simp: world_demo_def demo_db6_defs)
qed

definition demo_np :: NotificationToProcess where
  "demo_np = to_process acct_a (demo_sn, demo_notification_row, demo_key_subscriber, demo_key_project)"

theorem notification_reaches_subscriber_witness:
  "\<exists>w' p bs e. process_notification env_demo demo_np (world_demo demo_db6) = (Inr (), w') \<and>
     w_published w' = [p] \<and> pub_topic p = topic_from_key ext_demo (replicate 32 3) \<and>
     b64_std_decode ext_demo (pub_message p) = Inr bs \<and> Envelope0_from_bytes bs = Inr e"
proof -
  have keys: "decode_key ext_demo (np_subscriber_sym_key demo_np) = Inr (replicate 32 3)"
    "decode_key ext_demo (np_project_authentication_private_key demo_np) = Inr (replicate 32 1)"
    by (simp_all add: demo_np_def to_process_def demo_db6_defs decode_key_demo)
  have "demo_notification_row \<in> set (notifications demo_db6)" "demo_key_subscriber \<in> set (subscribers demo_db6)"
    "demo_key_project \<in> set (projects demo_db6)" "p_id demo_key_project = n_project demo_notification_row"
    "s_account demo_key_subscriber = acct_a"
    by (simp_all add: demo_db6_defs)
  from smooth_attempt [OF smooth_demo aead_total_demo messages_fit_demo keys_demo this(1-4), of demo_sn "world_demo demo_db6"] this(5)
  obtain w' where "attempt turn_demo demo_np (world_demo demo_db6) = (Inr (Some (Inr ())), w')"
    by (auto simp: demo_np_def)
  then have ok: "process_notification env_demo demo_np (world_demo demo_db6) = (Inr (), w')"
    using attempt_result(1) by (fastforce simp: turn_demo_def)
  have "en_ext env_demo = ext_demo" "length (dr_nonce (en_draw env_demo (w_drawn (world_demo demo_db6)))) = 12"
    by (simp_all add: env_demo_def draw_demo_def)
  note spec = notification_reaches_subscriber [OF ok this(1) aead_laws_demo jwt_laws_demo _ this(2) keys]
  then show ?thesis using ok b64_std_demo by (fastforce simp: world_demo_def)
qed


text \<open>A worker of the fifty has panicked: 49 are left and the counter still says 50.\<close>

lemma worker_limit_witness:
  "wk_live (workers_start\<lparr> wk_live := 49 \<rparr>) \<le> wk_counter (workers_start\<lparr> wk_live := 49 \<rparr>) \<and>
   wk_counter (workers_start\<lparr> wk_live := 49 \<rparr>) \<le> 50"
proof -
  have "workers_step workers_start (workers_start\<lparr> wk_live := wk_live workers_start - 1 \<rparr>)"
    by (rule workers_step.panic) (simp add: workers_start_def START_WORKERS_def)
  then have "workers_step\<^sup>*\<^sup>* workers_start (workers_start\<lparr> wk_live := 49 \<rparr>)"
    by (simp add: workers_start_def START_WORKERS_def r_into_rtranclp)
  then show ?thesis
    using worker_limit by blast
qed

end
