(* ===== verification/Http.thy ===== *)
theory Http
  imports World Geo
begin

text \<open>
  The errors of \<open>src/src/error.rs\<close> and the public HTTP handlers of
  \<open>src/src/services/public_http_server/handlers\<close> that work on the database. The axum extractors
  that parse paths and bodies are arguments: a handler starts from the parsed request.
\<close>

section \<open>Errors and responses\<close>

datatype AuthError =
    AuthFormat | InvalidHeader | IssuerPrefix | IssuerFormat | IssuerMethod | AuthSignature string
  | AuthInvalidSignature | Algorithm | JwtIssNotDidKey string | JwtExpired | JwtNotYetValid | InvalidAct

text \<open>A message of the source, or the text the \<open>validator\<close> library prints.\<close>

datatype entity_message = Message string | ValidationErrors

datatype NotifyServerError =
    DotEnvy string | EnvConfiguration string | InvalidAccount | Reqwest string | RpcAuth string
  | UrlError string | UrlMissingHost | HexError string | UuidError string | SerdeJson string
  | TokioTimeElapsed string | RelayClient string | RelaySubscribe string | RelayPublish PublishError
  | RelayWatch string | InvalidKeypairSeed | JwtVerification AuthError | RegistryStorage StorageError
  | InvalidHeaderValue string | EdDalek string | Sqlx sqlx_error | SqlxMigration string | UrlSetScheme
  | UnprocessableEntity entity_message | AppDomainInUseByAnotherProject | RedisPool string
  | RedisError string | TooManyRequests int | RateLimit string | GetGeo string

datatype body =
    Empty
  | Text string
  | ErrorJson entity_message
  | AccountsJson "AccountId list"
  | SubscribersJson "(AccountId \<times> uuid set) list"
  | TopicJson string string
  | WelcomeJson "WelcomeNotification option"
  | RedirectTo string

record response =
  r_status :: nat
  r_body :: body

definition int_to_string :: "int \<Rightarrow> string" where
  "int_to_string i = (if i < 0 then CHR ''-'' # nat_to_string (nat (- i)) else nat_to_string (nat i))"

definition into_response :: "NotifyServerError \<Rightarrow> response" where
  "into_response e =
     (case e of
        UrlError s \<Rightarrow> \<lparr> r_status = 400, r_body = Text ''Invalid url. '' \<rparr>
      | HexError s \<Rightarrow> \<lparr> r_status = 400, r_body = Text ''Invalid symmetric key'' \<rparr>
      | UnprocessableEntity m \<Rightarrow> \<lparr> r_status = 422, r_body = ErrorJson m \<rparr>
      | AppDomainInUseByAnotherProject \<Rightarrow> \<lparr> r_status = 409, r_body = Text ''App domain in-use by another project'' \<rparr>
      | TooManyRequests reset \<Rightarrow>
          \<lparr> r_status = 429, r_body = Text (''Rate limit exceeded. Try again at '' @ int_to_string reset) \<rparr>
      | _ \<Rightarrow> \<lparr> r_status = 500, r_body = Text ''Internal server error.'' \<rparr>)"

type_synonym 'a http = "('a, NotifyServerError) handler"

text \<open>The mapping of \<open>RowNotFound\<close> that the project handlers share.\<close>

definition project_not_found :: "sqlx_error \<Rightarrow> NotifyServerError" where
  "project_not_found e =
     (case e of RowNotFound \<Rightarrow> UnprocessableEntity (Message ''Project not found'') | _ \<Rightarrow> Sqlx e)"

section \<open>\<open>subscribe_topic\<close>\<close>

definition subscribe_topic_rate_limit :: "env \<Rightarrow> string \<Rightarrow> unit http" where
  "subscribe_topic_rate_limit E project_id =
     h_token_bucket E TooManyRequests (''subscribe_topic-'' @ project_id) 100 60000 1"

text \<open>\<open>^[a-z0-9-_\.]+$\<close>.\<close>

definition is_domain :: "string \<Rightarrow> bool" where
  "is_domain domain \<longleftrightarrow> domain \<noteq> [] \<and>
     list_all (\<lambda>c. is_lower_az c \<or> is_digit c \<or> c = CHR ''-'' \<or> c = CHR ''_'' \<or> c = CHR ''.'') domain"

definition subscribe_topic_error :: "sqlx_error \<Rightarrow> NotifyServerError" where
  "subscribe_topic_error e =
     (case e of
        UniqueViolation c \<Rightarrow> if str_contains ''project_app_domain_key'' c then AppDomainInUseByAnotherProject else Sqlx e
      | _ \<Rightarrow> Sqlx e)"

text \<open>The two keys are two draws of the random generator.\<close>

definition subscribe_topic_handler :: "env \<Rightarrow> string \<Rightarrow> string \<Rightarrow> response http" where
  "subscribe_topic_handler E project_id app_domain =
     h_bind (subscribe_topic_rate_limit E project_id) (\<lambda>_.
       if length app_domain > 253
       then h_return \<lparr> r_status = 400, r_body = ErrorJson (Message ''app_domain exceeds 253 characters'') \<rparr>
       else if \<not> is_domain app_domain
       then h_return \<lparr> r_status = 400, r_body = ErrorJson (Message ''app_domain is not a valid domain'') \<rparr>
       else
         h_bind (h_draw E) (\<lambda>dr. let subscribe_key = dr_secret dr;
             topic = topic_from_key (en_ext E) (x25519_public_key (en_ext E) subscribe_key) in
         h_bind (h_draw E) (\<lambda>dr. let authentication_key = dr_secret dr in
         h_bind (db_upsert_project E subscribe_topic_error project_id app_domain topic authentication_key subscribe_key) (\<lambda>project.
         h_bind (h_map_err RelaySubscribe (h_subscribe E (pk_topic project))) (\<lambda>_.
           h_return \<lparr> r_status = 200, r_body = TopicJson (pk_authentication_public_key project)
             (pk_subscribe_public_key project) \<rparr>)))))"

section \<open>Subscribers\<close>

definition get_subscribers_v0_rate_limit :: "env \<Rightarrow> string \<Rightarrow> unit http" where
  "get_subscribers_v0_rate_limit E project_id =
     h_token_bucket E TooManyRequests (''subscribers-v0-'' @ project_id) 5 1000 1"

definition get_subscribers_v0_handler :: "env \<Rightarrow> string \<Rightarrow> response http" where
  "get_subscribers_v0_handler E project_id =
     h_bind (get_subscribers_v0_rate_limit E project_id) (\<lambda>_.
     h_bind (h_query project_not_found (get_subscriber_accounts_by_project_id (en_ext E) project_id)) (\<lambda>accounts.
       h_return \<lparr> r_status = 200, r_body = AccountsJson accounts \<rparr>))"

definition GetSubscribersBody_validate :: "AccountId list \<Rightarrow> bool" where
  "GetSubscribersBody_validate accounts \<longleftrightarrow> 1 \<le> length accounts \<and> length accounts \<le> 100"

definition get_subscribers_v1_rate_limit :: "env \<Rightarrow> string \<Rightarrow> unit http" where
  "get_subscribers_v1_rate_limit E project_id =
     h_token_bucket E TooManyRequests (''subscribers-v1-'' @ project_id) 100 1000 100"

text \<open>The answer is a \<open>HashMap\<close>; its accounts are different, as the rows are grouped by account.\<close>

definition get_subscribers_v1_handler :: "env \<Rightarrow> string \<Rightarrow> AccountId list \<Rightarrow> response http" where
  "get_subscribers_v1_handler E project_id accounts =
     h_bind (get_subscribers_v1_rate_limit E project_id) (\<lambda>_.
     h_bind (h_guard (\<not> GetSubscribersBody_validate accounts) (UnprocessableEntity ValidationErrors)) (\<lambda>_.
     h_bind (\<lambda>w. h_expect (get_subscribers_by_project_id_and_accounts (en_ext E) project_id accounts (w_db w)) w) (\<lambda>found.
     h_bind (h_lift project_not_found found) (\<lambda>subscribers.
       h_return \<lparr> r_status = 200,
         r_body = SubscribersJson (map (\<lambda>s. (sas_account s, sas_scope s)) subscribers) \<rparr>))))"

section \<open>Welcome notifications and read marks\<close>

definition get_welcome_notification_rate_limit :: "env \<Rightarrow> string \<Rightarrow> unit http" where
  "get_welcome_notification_rate_limit E project_id =
     h_token_bucket E TooManyRequests (''get_welcome_notification-'' @ project_id) 100 60000 1"

definition get_welcome_notification_handler :: "env \<Rightarrow> string \<Rightarrow> response http" where
  "get_welcome_notification_handler E project_id =
     h_bind (get_welcome_notification_rate_limit E project_id) (\<lambda>_.
     h_bind (h_query project_not_found (get_project_by_project_id project_id)) (\<lambda>project.
     h_bind (h_query Sqlx (\<lambda>d. Inr (get_welcome_notification (p_id project) d))) (\<lambda>welcome.
       h_return \<lparr> r_status = 200, r_body = WelcomeJson welcome \<rparr>)))"

definition post_welcome_notification_rate_limit :: "env \<Rightarrow> string \<Rightarrow> unit http" where
  "post_welcome_notification_rate_limit E project_id =
     h_token_bucket E TooManyRequests (''post_welcome_notification-'' @ project_id) 100 60000 1"

definition post_welcome_notification_handler :: "env \<Rightarrow> string \<Rightarrow> WelcomeNotification \<Rightarrow> response http" where
  "post_welcome_notification_handler E project_id welcome_notification =
     h_bind (post_welcome_notification_rate_limit E project_id) (\<lambda>_.
     h_bind (h_query project_not_found (get_project_by_project_id project_id)) (\<lambda>project.
     h_bind (db_set_welcome_notification E Sqlx (p_id project) welcome_notification) (\<lambda>_.
       h_return \<lparr> r_status = 204, r_body = Empty \<rparr>)))"

definition mark_all_as_read_rate_limit :: "env \<Rightarrow> string \<Rightarrow> unit http" where
  "mark_all_as_read_rate_limit E project_id =
     h_token_bucket E TooManyRequests (''mark_all_as_read-'' @ project_id) 100 60000 1"

definition mark_all_as_read_handler :: "env \<Rightarrow> string \<Rightarrow> response http" where
  "mark_all_as_read_handler E project_id =
     h_bind (mark_all_as_read_rate_limit E project_id) (\<lambda>_.
     h_bind (h_query project_not_found (get_project_by_project_id project_id)) (\<lambda>project.
     h_bind (db_mark_all_notifications_as_read_for_project (p_id project)) (\<lambda>_.
       h_return \<lparr> r_status = 204, r_body = Empty \<rparr>)))"

section \<open>Following a link\<close>

definition link_rate_limit :: "env \<Rightarrow> uuid \<Rightarrow> unit http" where
  "link_rate_limit E subscriber_notification_id =
     h_token_bucket E TooManyRequests
       (''follow-notification-link-'' @ uuid_to_string (en_ext E) subscriber_notification_id) 20 1000 2"

text \<open>What is reported of a follower: nothing where the header or the resolver gives no place.\<close>

definition link_geo ::
  "(IpAddr \<Rightarrow> (geo_data, string) result) option \<Rightarrow> link_headers \<Rightarrow> geo_data option" where
  "link_geo geoip_resolver headers =
     (case geoip_resolver of None \<Rightarrow> None
      | Some resolver \<Rightarrow>
          (case get_geo_from_x_forwarded_for headers resolver of Inr geo \<Rightarrow> Some geo | Inl e \<Rightarrow> None))"

definition link_params ::
  "FollowNotificationLink \<Rightarrow> geo_data option \<Rightarrow> string option \<Rightarrow> NotificationLinkParams" where
  "link_params notification geo user_agent =
     \<lparr> nlp_project_pk = fl_project_pk notification, nlp_project_id = fl_project_id notification,
       nlp_subscriber_pk = fl_subscriber_pk notification, nlp_subscriber_account = fl_subscriber_account notification,
       nlp_notification_topic = fl_notification_topic notification,
       nlp_subscriber_notification_pk = fl_subscriber_notification_id notification,
       nlp_notification_pk = fl_notification_id notification, nlp_notification_type = fl_notification_type notification,
       nlp_geo = geo, nlp_user_agent = user_agent \<rparr>"

text \<open>
  \<open>redirect_ok\<close> tells whether a URL can be the value of the \<open>Location\<close> header: \<open>Redirect::temporary\<close>
  of \<open>axum\<close> panics when it cannot, after the event was reported.
\<close>

definition notification_link_handler ::
  "env \<Rightarrow> (string \<Rightarrow> bool) \<Rightarrow> (IpAddr \<Rightarrow> (geo_data, string) result) option \<Rightarrow> link_headers \<Rightarrow> uuid \<Rightarrow> response http" where
  "notification_link_handler E redirect_ok geoip_resolver headers subscriber_notification_id =
     h_bind (link_rate_limit E subscriber_notification_id) (\<lambda>_.
     h_bind (h_query Sqlx (get_notification_link (en_ext E) subscriber_notification_id)) (\<lambda>notification.
     let geo = link_geo geoip_resolver headers; user_agent = Option.bind (lh_user_agent headers) (\<lambda>v. v) in
       case notification of
         None \<Rightarrow> h_return \<lparr> r_status = 404, r_body = Text ''That link was not found.'' \<rparr>
       | Some notification \<Rightarrow>
           (case fl_notification_url notification of
              None \<Rightarrow> h_return \<lparr> r_status = 404, r_body = Text ''That link was not found.'' \<rparr>
            | Some url \<Rightarrow>
                h_bind (analytics_notification_links E (link_params notification geo user_agent)) (\<lambda>_.
                  if redirect_ok url then h_return \<lparr> r_status = 307, r_body = RedirectTo url \<rparr> else h_panic))))"

end
