(* ===== verification/Notify.thy ===== *)
theory Notify
  imports Http
begin

text \<open>
  The \<open>notify_v1\<close> and \<open>notify_v0\<close> handlers: how a project's request to notify accounts becomes
  delivery rows, and the report it gives. The lemmas follow the body of the loop over the
  notifications: the address lookup table, the scope and rate loops, the upsert of the rows.
\<close>

section \<open>\<open>notify_v1\<close>\<close>

record NotifyBodyNotification =
  nb_notification_id :: "string option"
  nb_notification :: Notification
  nb_accounts :: "AccountId list"

record SendFailure =
  sf_account :: AccountId
  sf_reason :: string

record ResponseBody =
  rb_sent :: "AccountId set"
  rb_failed :: "SendFailure set"
  rb_not_found :: "AccountId set"

definition SUBSCRIBER_NOTIFICATION_COUNT_LIMIT :: nat where
  "SUBSCRIBER_NOTIFICATION_COUNT_LIMIT = 500"

definition notify_rate_limit :: "env \<Rightarrow> string \<Rightarrow> unit http" where
  "notify_rate_limit E project_id = h_token_bucket E TooManyRequests (''notify-v1-'' @ project_id) 20 1000 2"

definition subscriber_rate_limit_key :: "ext \<Rightarrow> string \<Rightarrow> uuid \<Rightarrow> string" where
  "subscriber_rate_limit_key X project_id subscriber =
     ''notify-v1-subscriber-'' @ project_id @ '':'' @ uuid_to_string X subscriber"

definition subscriber_rate_limit :: "env \<Rightarrow> string \<Rightarrow> uuid list \<Rightarrow> (string \<rightharpoonup> int \<times> int) http" where
  "subscriber_rate_limit E project_id ids w =
     (case token_bucket_many 50 3600000 2 (timestamp_millis (en_now E)) (en_redis_now E)
             (map (subscriber_rate_limit_key (en_ext E) project_id) ids) (w_buckets w) of
        (results, st) \<Rightarrow> (Inr results, w\<lparr> w_buckets := st \<rparr>))"

text \<open>The table from address to requested account; a later account replaces an earlier one.\<close>

definition chain_agnostic_lookup_table :: "AccountId list \<Rightarrow> (string \<rightharpoonup> AccountId) option" where
  "chain_agnostic_lookup_table accounts =
     map_option (\<lambda>addrs. map_of (rev (zip addrs accounts))) (those (map get_address_from_account accounts))"

text \<open>The first loop over the subscribers: who is found, and who is not subscribed to the type.\<close>

fun scope_loop :: "uuid \<Rightarrow> NotifySubscriberInfo list \<Rightarrow> ResponseBody \<Rightarrow> ResponseBody \<times> (uuid \<times> AccountId) list" where
  "scope_loop ty [] resp = (resp, [])"
| "scope_loop ty (s # ss) resp =
     (let resp = resp\<lparr> rb_not_found := rb_not_found resp - {nsi_account s} \<rparr> in
      if ty \<notin> nsi_scope s
      then scope_loop ty ss (resp\<lparr> rb_failed := insert
             \<lparr> sf_account = nsi_account s, sf_reason = ''Client is not subscribed to this notification type'' \<rparr>
             (rb_failed resp) \<rparr>)
      else (case scope_loop ty ss resp of (resp', valid) \<Rightarrow> (resp', (nsi_id s, nsi_account s) # valid)))"

text \<open>The second loop: who is over the hourly limit. \<open>None\<close> when a key is missing from the answer.\<close>

fun rate_loop ::
  "ext \<Rightarrow> string \<Rightarrow> (string \<rightharpoonup> int \<times> int) \<Rightarrow> (uuid \<times> AccountId) list \<Rightarrow> ResponseBody
     \<Rightarrow> (ResponseBody \<times> (uuid \<times> AccountId) list) option" where
  "rate_loop X project_id result [] resp = Some (resp, [])"
| "rate_loop X project_id result ((subscriber_id, account) # valid) resp =
     (case result (subscriber_rate_limit_key X project_id subscriber_id) of
        None \<Rightarrow> None
      | Some (remaining, reset) \<Rightarrow>
          if remaining < 0
          then rate_loop X project_id result valid (resp\<lparr> rb_failed := insert
                 \<lparr> sf_account = account, sf_reason = ''Rate limit exceeded'' \<rparr> (rb_failed resp) \<rparr>)
          else map_option (\<lambda>(resp', valid'). (resp', (subscriber_id, account) # valid'))
                 (rate_loop X project_id result valid resp))"

definition limit_subscribers ::
  "env \<Rightarrow> string \<Rightarrow> (uuid \<times> AccountId) list \<Rightarrow> ResponseBody \<Rightarrow> (ResponseBody \<times> (uuid \<times> AccountId) list) http" where
  "limit_subscribers E project_id valid resp =
     (if en_redis E
      then h_bind (subscriber_rate_limit E project_id (map fst valid)) (\<lambda>result.
             h_expect (rate_loop (en_ext E) project_id result valid resp))
      else h_return (resp, valid))"

text \<open>The body of the loop over the notifications of a request.\<close>

definition notify_one :: "env \<Rightarrow> string \<Rightarrow> project_row \<Rightarrow> ResponseBody \<Rightarrow> NotifyBodyNotification \<Rightarrow> ResponseBody http" where
  "notify_one E project_id project resp b =
     h_bind (h_draw E) (\<lambda>dr.
     h_bind (db_upsert_notification E Sqlx
               (case nb_notification_id b of None \<Rightarrow> uuid_to_string (en_ext E) (dr_uuid_v4 dr) | Some i \<Rightarrow> i)
               (p_id project) (nb_notification b)) (\<lambda>notification.
     h_bind (h_expect (chain_agnostic_lookup_table (nb_accounts b))) (\<lambda>table.
     h_bind (\<lambda>w. h_expect (get_subscribers_for_project_in (en_ext E) (p_id project) (nb_accounts b) (w_db w)) w) (\<lambda>found.
     h_bind (h_lift Sqlx found) (\<lambda>found.
     h_bind (h_mapM (\<lambda>s. h_bind (h_expect (Option.bind (get_address_from_account (nsi_account s)) table)) (\<lambda>account.
               h_return (s\<lparr> nsi_account := account \<rparr>))) found) (\<lambda>subs.
     case scope_loop (ntf_type (nwi_notification notification)) subs
            (resp\<lparr> rb_not_found := rb_not_found resp \<union> set (nb_accounts b) \<rparr>) of (resp, valid) \<Rightarrow>
     h_bind (limit_subscribers E project_id valid resp) (\<lambda>(resp, valid).
     h_bind (db_upsert_subscriber_notifications E Sqlx (nwi_id notification) (map fst valid)) (\<lambda>_.
       h_return (resp\<lparr> rb_sent := rb_sent resp \<union> snd ` set valid \<rparr>)))))))))"

definition notify_v1_handler_impl :: "env \<Rightarrow> string \<Rightarrow> NotifyBodyNotification list \<Rightarrow> ResponseBody http" where
  "notify_v1_handler_impl E project_id body =
     h_bind (notify_rate_limit E project_id) (\<lambda>_.
     h_bind (h_guard (\<exists>b \<in> set body. \<not> Notification_validate (nb_notification b))
               (UnprocessableEntity ValidationErrors)) (\<lambda>_.
     let count = length (concat (map nb_accounts body)) in
     h_bind (h_guard (count > SUBSCRIBER_NOTIFICATION_COUNT_LIMIT)
               (UnprocessableEntity (Message (''Too many notifications: '' @ nat_to_string count @ '' > 500'')))) (\<lambda>_.
     h_bind (h_query project_not_found (get_project_by_project_id project_id)) (\<lambda>project.
       h_foldM (notify_one E project_id project)
         \<lparr> rb_sent = {}, rb_failed = {}, rb_not_found = {} \<rparr> body))))"

text \<open>\<open>notify_v0\<close>: one notification, through \<open>notify_v1\<close>.\<close>

definition notify_v0_handler :: "env \<Rightarrow> string \<Rightarrow> NotifyBodyNotification \<Rightarrow> ResponseBody http" where
  "notify_v0_handler E project_id notify_args = notify_v1_handler_impl E project_id [notify_args]"

section \<open>The lookup table\<close>

lemma those_map_Some: "(\<And>x. x \<in> set xs \<Longrightarrow> f x = Some (g x)) \<Longrightarrow> those (map f xs) = Some (map g xs)"
  by (induction xs) auto

lemma zip_map_self: "zip (map f xs) xs = map (\<lambda>x. (f x, x)) xs"
  by (induction xs) auto

text \<open>
  For validated accounts the table exists, and it sends the address of every subscriber that the
  query found to a requested account with that address: the handler's \<open>unwrap\<close> cannot fail.
\<close>

lemma lookup_table_total:
  assumes "list_all (valid_account X) accounts"
  obtains t where "chain_agnostic_lookup_table accounts = Some t"
    and "\<And>s. valid_account X s \<Longrightarrow> get_address_lower s \<in> get_address_lower ` set accounts \<Longrightarrow>
      \<exists>a \<in> set accounts. Option.bind (get_address_from_account s) t = Some a \<and> get_address_lower a = get_address_lower s"
proof -
  define adr where "adr a = the (get_address_from_account a)" for a
  have adr: "get_address_from_account a = Some (adr a)" if "valid_account X a" for a
    using valid_address [OF that] by (auto simp: adr_def)
  have valid: "valid_account X a" if "a \<in> set accounts" for a
    using assms that by (simp add: list_all_iff)
  define t where "t = map_of (rev (map (\<lambda>a. (adr a, a)) accounts))"
  have 1: "chain_agnostic_lookup_table accounts = Some t"
    using those_map_Some [of accounts get_address_from_account adr] adr valid
    by (simp add: chain_agnostic_lookup_table_def zip_map_self t_def)
  have 2: "\<exists>a \<in> set accounts. Option.bind (get_address_from_account s) t = Some a \<and>
      get_address_lower a = get_address_lower s"
    if s: "valid_account X s" "get_address_lower s \<in> get_address_lower ` set accounts" for s
  proof -
    obtain b where b: "b \<in> set accounts" "get_address_lower s = get_address_lower b" using s(2) by blast
    have "adr s = adr b" using same_lower_address [OF s(1) valid [OF b(1)] adr [OF s(1)] adr [OF valid [OF b(1)]]] b(2) by simp
    then have "t (adr s) \<noteq> None"
      using b(1) by (simp add: t_def map_of_eq_None_iff image_image)
    then obtain a where a: "t (adr s) = Some a" by auto
    then have "(adr s, a) \<in> set (rev (map (\<lambda>a. (adr a, a)) accounts))"
      unfolding t_def by (rule map_of_SomeD)
    then have m: "a \<in> set accounts" "adr a = adr s" by auto
    have "get_address_lower a = get_address_lower s"
      using same_lower_address [OF valid [OF m(1)] s(1) adr [OF valid [OF m(1)]] adr [OF s(1)]] m(2) by simp
    then show ?thesis using a adr [OF s(1)] m(1) by auto
  qed
  show thesis using that 1 2 by blast
qed

section \<open>The loops\<close>

lemma Collect_set_Cons: "{x \<in> set (y # ys). P x} = (if P y then insert y {x \<in> set ys. P x} else {x \<in> set ys. P x})"
  by auto

text \<open>The two reasons for which the handler reports an account as failed.\<close>

definition not_subscribed :: "AccountId \<Rightarrow> SendFailure" where
  "not_subscribed a = \<lparr> sf_account = a, sf_reason = ''Client is not subscribed to this notification type'' \<rparr>"

definition over_limit :: "AccountId \<Rightarrow> SendFailure" where
  "over_limit a = \<lparr> sf_account = a, sf_reason = ''Rate limit exceeded'' \<rparr>"

lemma scope_loop_spec:
  assumes "scope_loop ty ss resp = (resp', valid)"
  shows "valid = map (\<lambda>s. (nsi_id s, nsi_account s)) (filter (\<lambda>s. ty \<in> nsi_scope s) ss) \<and>
    rb_sent resp' = rb_sent resp \<and> rb_not_found resp' = rb_not_found resp - nsi_account ` set ss \<and>
    rb_failed resp' = rb_failed resp \<union> (\<lambda>s. not_subscribed (nsi_account s)) ` {s \<in> set ss. ty \<notin> nsi_scope s}"
  using assms
proof (induction ss arbitrary: resp resp' valid)
  case (Cons s ss)
  show ?case
  proof (cases "ty \<in> nsi_scope s")
    case True
    let ?resp = "resp\<lparr> rb_not_found := rb_not_found resp - {nsi_account s} \<rparr>"
    obtain r v where v: "scope_loop ty ss ?resp = (r, v)" by force
    then have "resp' = r" "valid = (nsi_id s, nsi_account s) # v"
      using Cons.prems True by (simp_all add: Let_def)
    moreover note Cons.IH [OF v]
    moreover have "{q \<in> set (s # ss). ty \<notin> nsi_scope q} = {q \<in> set ss. ty \<notin> nsi_scope q}" using True by auto
    ultimately show ?thesis using True by (simp add: Diff_insert2 [symmetric])
  next
    case False
    let ?resp = "resp\<lparr> rb_not_found := rb_not_found resp - {nsi_account s},
      rb_failed := insert \<lparr> sf_account = nsi_account s,
        sf_reason = ''Client is not subscribed to this notification type'' \<rparr> (rb_failed resp) \<rparr>"
    have "scope_loop ty ss ?resp = (resp', valid)" using Cons.prems False by (simp add: Let_def)
    note Cons.IH [OF this]
    moreover have "{q \<in> set (s # ss). ty \<notin> nsi_scope q} = insert s {q \<in> set ss. ty \<notin> nsi_scope q}" using False by auto
    ultimately show ?thesis using False by (simp add: Diff_insert2 [symmetric] not_subscribed_def)
  qed
qed simp

definition within_limit :: "ext \<Rightarrow> string \<Rightarrow> (string \<rightharpoonup> int \<times> int) \<Rightarrow> uuid \<Rightarrow> bool" where
  "within_limit X project_id result i \<longleftrightarrow>
     (\<exists>remaining reset. result (subscriber_rate_limit_key X project_id i) = Some (remaining, reset) \<and> 0 \<le> remaining)"

lemma rate_loop_spec:
  assumes "rate_loop X pid res valid resp = Some (resp', valid')"
  shows "valid' = filter (\<lambda>v. within_limit X pid res (fst v)) valid \<and>
    rb_sent resp' = rb_sent resp \<and> rb_not_found resp' = rb_not_found resp \<and>
    rb_failed resp' = rb_failed resp \<union> (\<lambda>v. over_limit (snd v)) ` {v \<in> set valid. \<not> within_limit X pid res (fst v)}"
  using assms
proof (induction valid arbitrary: resp resp' valid')
  case (Cons v valid)
  obtain i a where v: "v = (i, a)" by force
  from Cons.prems v obtain rem reset where r: "res (subscriber_rate_limit_key X pid i) = Some (rem, reset)"
    by (auto split: option.splits)
  then have ok: "within_limit X pid res i \<longleftrightarrow> 0 \<le> rem" by (simp add: within_limit_def)
  show ?case
  proof (cases "rem < 0")
    case True
    with Cons.prems r v have "rate_loop X pid res valid (resp\<lparr> rb_failed := insert
        \<lparr> sf_account = a, sf_reason = ''Rate limit exceeded'' \<rparr> (rb_failed resp) \<rparr>) = Some (resp', valid')" by simp
    from Cons.IH [OF this] have "rb_failed resp' = insert (over_limit a) (rb_failed resp \<union>
        (\<lambda>v. over_limit (snd v)) ` {v \<in> set valid. \<not> within_limit X pid res (fst v)})" by (simp add: over_limit_def)
    then show ?thesis using Cons.IH [OF \<open>rate_loop X pid res valid _ = _\<close>] True ok v
      by (simp only: Collect_set_Cons) simp
  next
    case False
    with Cons.prems r v obtain v' where "rate_loop X pid res valid resp = Some (resp', v')" "valid' = (i, a) # v'"
      by auto
    with Cons.IH [OF this(1)] show ?thesis using False ok v by (simp only: Collect_set_Cons) simp
  qed
qed simp

lemma rate_loop_total:
  "(\<And>v. v \<in> set valid \<Longrightarrow> subscriber_rate_limit_key X pid (fst v) \<in> dom res) \<Longrightarrow>
   rate_loop X pid res valid resp \<noteq> None"
  by (induction valid arbitrary: resp) (fastforce split: option.splits)+

text \<open>The rate limiting of the subscribers keeps the database and never misses a key.\<close>

lemma limit_subscribers_outcome:
  "\<exists>resp' valid' st. limit_subscribers E pid valid resp w = (Inr (resp', valid'), w\<lparr> w_buckets := st \<rparr>)"
proof (cases "en_redis E")
  case True
  obtain results st where m: "token_bucket_many 50 3600000 2 (timestamp_millis (en_now E)) (en_redis_now E)
      (map (subscriber_rate_limit_key (en_ext E) pid) (map fst valid)) (w_buckets w) = (results, st)" by force
  have "dom results = set (map (subscriber_rate_limit_key (en_ext E) pid) (map fst valid))"
    using token_bucket_many_dom m by (metis fst_conv)
  then have "rate_loop (en_ext E) pid results valid resp \<noteq> None"
    by (intro rate_loop_total) auto
  then show ?thesis using True m
    by (auto simp: limit_subscribers_def h_bind_def subscriber_rate_limit_def h_expect_def h_return_def)
qed (auto simp: limit_subscribers_def h_return_def intro!: exI [of _ "w_buckets w"])

lemma limit_subscribers_spec:
  assumes "limit_subscribers E pid valid resp w = (Inr (resp', valid'), w')"
  shows "\<exists>ok st. valid' = filter ok valid \<and> rb_sent resp' = rb_sent resp \<and> rb_not_found resp' = rb_not_found resp \<and>
    rb_failed resp' = rb_failed resp \<union> (\<lambda>v. over_limit (snd v)) ` {v \<in> set valid. \<not> ok v} \<and>
    (en_redis E \<or> ok = (\<lambda>_. True)) \<and> w' = w\<lparr> w_buckets := st \<rparr>"
proof -
  obtain st where w': "w' = w\<lparr> w_buckets := st \<rparr>"
    using limit_subscribers_outcome [of E pid valid resp w] assms by auto
  show ?thesis
  proof (cases "en_redis E")
    case True
    with assms obtain results where "rate_loop (en_ext E) pid results valid resp = Some (resp', valid')"
      by (auto simp: limit_subscribers_def h_ok)
    from rate_loop_spec [OF this] show ?thesis
      using w' True by (intro exI [of _ "\<lambda>v. within_limit (en_ext E) pid results (fst v)"] exI [of _ st]) blast
  next
    case False
    with assms show ?thesis
      by (intro exI [of _ "\<lambda>_. True"] exI [of _ st]) (auto simp: w' limit_subscribers_def h_ok)
  qed
qed

lemma limit_subscribers_panic_free [panic_intros]: "panic_free I (limit_subscribers E pid valid resp)"
proof (unfold panic_free_def, intro allI impI)
  fix w :: world assume "I (w_db w)"
  then show "fst (limit_subscribers E pid valid resp w) \<noteq> Inl Panicked \<and> I (w_db (snd (limit_subscribers E pid valid resp w)))"
    using limit_subscribers_outcome [of E pid valid resp w] by auto
qed

section \<open>One notification\<close>

lemma h_bind_run: "m w = (Inr x, w1) \<Longrightarrow> h_bind m f w = f x w1"
  by (simp add: h_bind_def)

lemma h_draw_run: "h_draw E w = (Inr (en_draw E (w_drawn w)), w\<lparr> w_drawn := Suc (w_drawn w) \<rparr>)"
  by (simp add: h_draw_def)

lemma h_return_run: "h_return x w = (Inr x, w)"
  by (simp add: h_return_def)

lemma h_expect_run: "h_expect (Some x) = h_return x"
  by (simp add: h_expect_def)

lemma h_lift_run: "h_lift g (Inr x) = h_return x"
  by (simp add: h_lift_def)

lemma h_mapM_expect:
  "(\<And>x. x \<in> set xs \<Longrightarrow> g x = Some (h x)) \<Longrightarrow>
   h_mapM (\<lambda>s. h_bind (h_expect (g s)) (\<lambda>a. h_return (f s a))) xs w = (Inr (map (\<lambda>s. f s (h s)) xs), w)"
  by (induction xs) (auto simp: h_bind_def h_expect_def h_return_def)

text \<open>A valid notification fits its columns.\<close>

lemma valid_notification_kept:
  assumes "Notification_validate n" "n_type r = ntf_type n"
    and "varchar255 (ntf_title n) = Inr (n_title r)" "varchar255 (ntf_body n) = Inr (n_body r)"
    and "varchar255_opt (ntf_icon n) = Inr (n_icon r)" "varchar255_opt (ntf_url n) = Inr (n_url r)"
  shows "row_notification r = n"
  using assms varchar255_idem [OF assms(3)] varchar255_idem [OF assms(4)]
  by (cases n; cases "ntf_icon n"; cases "ntf_url n")
    (auto simp: Notification_validate_def length_ok_def varchar255_opt_def row_notification_def map_ok_Inr_iff dest!: varchar255_idem)

lemma upsert_notification_tables:
  assumes "upsert_notification i now nid p n d = Inr (k, d')"
  shows "subscribers d' = subscribers d \<and> projects d' = projects d \<and> scopes d' = scopes d \<and>
    subscriber_notifications d' = subscriber_notifications d \<and> set (notifications d) \<subseteq> set (notifications d') \<and>
    (\<exists>r \<in> set (notifications d'). n_id r = nwi_id k \<and> n_project r = p \<and> n_type r = ntf_type (nwi_notification k) \<and>
      varchar255 nid = Inr (n_notification_id r) \<and>
      (r \<in> set (notifications d) \<or> (Notification_validate n \<longrightarrow> row_notification r = n)))"
  using assms
proof (cases rule: upsert_notification_cases)
  case (new r)
  then show ?thesis using valid_notification_kept [OF _ new(4-8)]
    by (auto simp: insert_notification_row_def rbind_Inr_iff row_notification_def)
qed (auto simp: n_index_def row_notification_def)

text \<open>The subscribers a notification to some accounts concerns, and the scope test of the handler.\<close>

definition concerned :: "uuid \<Rightarrow> AccountId list \<Rightarrow> db \<Rightarrow> subscriber_row list" where
  "concerned project accounts d =
     filter (\<lambda>s. s_project s = project \<and> get_address_lower (s_account s) \<in> get_address_lower ` set accounts)
       (subscribers d)"

definition has_scope :: "ext \<Rightarrow> db \<Rightarrow> uuid \<Rightarrow> subscriber_row \<Rightarrow> bool" where
  "has_scope X d ty s \<longleftrightarrow> ty \<in> parse_scopes_and_ignore_invalid X (scope_names (s_id s) d)"

text \<open>The second half of the body, from the subscribers found on.\<close>

definition notify_found ::
  "env \<Rightarrow> string \<Rightarrow> uuid \<Rightarrow> uuid \<Rightarrow> NotifySubscriberInfo list \<Rightarrow> ResponseBody \<Rightarrow> ResponseBody http" where
  "notify_found E project_id nu ty subs resp =
     (case scope_loop ty subs resp of (resp, valid) \<Rightarrow>
     h_bind (limit_subscribers E project_id valid resp) (\<lambda>(resp, valid).
     h_bind (db_upsert_subscriber_notifications E Sqlx nu (map fst valid)) (\<lambda>_.
       h_return (resp\<lparr> rb_sent := rb_sent resp \<union> snd ` set valid \<rparr>))))"

lemma notify_found_spec:
  assumes "notify_found E pid nu ty (map (\<lambda>s. \<lparr> nsi_id = s_id s, nsi_account = f s, nsi_scope = sc s \<rparr>) sel) resp w = (Inr resp', w')"
  shows "\<exists>ok gen. upsert_subscriber_notifications gen (en_now E) nu
      (map s_id (filter (\<lambda>s. ty \<in> sc s \<and> ok s) sel)) (w_db w) = Inr (w_db w') \<and>
    rb_sent resp' = rb_sent resp \<union> f ` {s \<in> set sel. ty \<in> sc s \<and> ok s} \<and>
    rb_not_found resp' = rb_not_found resp - f ` set sel \<and>
    rb_failed resp' = rb_failed resp \<union> (\<lambda>s. not_subscribed (f s)) ` {s \<in> set sel. ty \<notin> sc s} \<union>
      (\<lambda>s. over_limit (f s)) ` {s \<in> set sel. ty \<in> sc s \<and> \<not> ok s} \<and>
    (en_redis E \<or> ok = (\<lambda>_. True))"
proof -
  let ?subs = "map (\<lambda>s. \<lparr> nsi_id = s_id s, nsi_account = f s, nsi_scope = sc s \<rparr>) sel"
  obtain r1 v1 where sl: "scope_loop ty ?subs resp = (r1, v1)" by force
  with assms obtain r2 v2 w2 w3 where ls: "limit_subscribers E pid v1 r1 w = (Inr (r2, v2), w2)"
    and up: "db_upsert_subscriber_notifications E Sqlx nu (map fst v2) w2 = (Inr (), w')"
    and resp': "resp' = r2\<lparr> rb_sent := rb_sent r2 \<union> snd ` set v2 \<rparr>"
    by (auto simp: notify_found_def h_ok)
  note S = scope_loop_spec [OF sl]
  have v1: "v1 = map (\<lambda>s. (s_id s, f s)) (filter (\<lambda>s. ty \<in> sc s) sel)"
    using S by (simp add: filter_map o_def)
  obtain q st where L: "v2 = filter q v1" "rb_sent r2 = rb_sent r1" "rb_not_found r2 = rb_not_found r1"
    "rb_failed r2 = rb_failed r1 \<union> (\<lambda>v. over_limit (snd v)) ` {v \<in> set v1. \<not> q v}" "en_redis E \<or> q = (\<lambda>_. True)" "w2 = w\<lparr> w_buckets := st \<rparr>"
    using limit_subscribers_spec [OF ls] by blast
  define ok where "ok s = q (s_id s, f s)" for s
  have v2: "v2 = map (\<lambda>s. (s_id s, f s)) (filter (\<lambda>s. ty \<in> sc s \<and> ok s) sel)"
    by (simp add: L(1) v1 filter_map o_def ok_def conj_commute)
  obtain gen where "upsert_subscriber_notifications gen (en_now E) nu (map fst v2) (w_db w) = Inr (w_db w')"
    using up L(6) by (auto simp: db_upsert_subscriber_notifications_def h_ok map_ok_Inr_iff)
  moreover have "map fst v2 = map s_id (filter (\<lambda>s. ty \<in> sc s \<and> ok s) sel)" by (simp add: v2 o_def)
  moreover have "rb_sent resp' = rb_sent resp \<union> f ` {s \<in> set sel. ty \<in> sc s \<and> ok s}"
    using S L(2) by (simp add: resp' v2 image_image)
  moreover have "rb_not_found resp' = rb_not_found resp - f ` set sel"
    using S L(3) by (simp add: resp' image_image)
  moreover have "rb_failed resp' = rb_failed resp \<union> (\<lambda>s. not_subscribed (f s)) ` {s \<in> set sel. ty \<notin> sc s} \<union>
      (\<lambda>s. over_limit (f s)) ` {s \<in> set sel. ty \<in> sc s \<and> \<not> ok s}"
  proof -
    have "rb_failed resp' = (rb_failed resp \<union> (\<lambda>s. not_subscribed (nsi_account s)) ` {s \<in> set ?subs. ty \<notin> nsi_scope s}) \<union>
        (\<lambda>v. over_limit (snd v)) ` {v \<in> set v1. \<not> q v}" using S L(4) by (simp add: resp')
    also have "(\<lambda>s. not_subscribed (nsi_account s)) ` {s \<in> set ?subs. ty \<notin> nsi_scope s} =
        (\<lambda>s. not_subscribed (f s)) ` {s \<in> set sel. ty \<notin> sc s}" by force
    also have "(\<lambda>v. over_limit (snd v)) ` {v \<in> set v1. \<not> q v} = (\<lambda>s. over_limit (f s)) ` {s \<in> set sel. ty \<in> sc s \<and> \<not> ok s}"
      by (force simp: v1 ok_def)
    finally show ?thesis .
  qed
  moreover have "en_redis E \<or> ok = (\<lambda>_. True)" using L(5) by (auto simp: ok_def)
  ultimately show ?thesis by (intro exI [of _ ok] exI [of _ gen]) simp
qed

text \<open>The id under which a request's notification is stored: the one it names, or a new UUID.\<close>

definition requested_id :: "env \<Rightarrow> NotifyBodyNotification \<Rightarrow> nat \<Rightarrow> string" where
  "requested_id E b k =
     (case nb_notification_id b of None \<Rightarrow> uuid_to_string (en_ext E) (dr_uuid_v4 (en_draw E k)) | Some i \<Rightarrow> i)"

lemma notify_one_split:
  "notify_one E pid p resp b =
     h_bind (h_draw E) (\<lambda>dr.
     h_bind (db_upsert_notification E Sqlx
               (case nb_notification_id b of None \<Rightarrow> uuid_to_string (en_ext E) (dr_uuid_v4 dr) | Some i \<Rightarrow> i)
               (p_id p) (nb_notification b)) (\<lambda>nt.
     h_bind (h_expect (chain_agnostic_lookup_table (nb_accounts b))) (\<lambda>table.
     h_bind (\<lambda>w. h_expect (get_subscribers_for_project_in (en_ext E) (p_id p) (nb_accounts b) (w_db w)) w) (\<lambda>found.
     h_bind (h_lift Sqlx found) (\<lambda>found.
     h_bind (h_mapM (\<lambda>s. h_bind (h_expect (Option.bind (get_address_from_account (nsi_account s)) table)) (\<lambda>account.
               h_return (s\<lparr> nsi_account := account \<rparr>))) found) (\<lambda>subs.
       notify_found E pid (nwi_id nt) (ntf_type (nwi_notification nt)) subs
         (resp\<lparr> rb_not_found := rb_not_found resp \<union> set (nb_accounts b) \<rparr>)))))))"
  by (simp add: notify_one_def notify_found_def)

text \<open>
  From the upsert of the notification on, the body is the second half run on the subscribers
  concerned, each under a requested account with its address.
\<close>

lemma notify_one_found:
  assumes "wf_db (en_ext E) (w_db w)" "list_all (valid_account (en_ext E)) (nb_accounts b)"
    and "h_bind (h_draw E) (\<lambda>dr. db_upsert_notification E Sqlx
           (case nb_notification_id b of None \<Rightarrow> uuid_to_string (en_ext E) (dr_uuid_v4 dr) | Some i \<Rightarrow> i)
           (p_id p) (nb_notification b)) w = (Inr nt, w1)"
  shows "\<exists>f. (\<forall>s \<in> set (concerned (p_id p) (nb_accounts b) (w_db w)).
        f s \<in> set (nb_accounts b) \<and> get_address_lower (f s) = get_address_lower (s_account s)) \<and>
    notify_one E pid p resp b w = notify_found E pid (nwi_id nt) (ntf_type (nwi_notification nt))
      (map (\<lambda>s. \<lparr> nsi_id = s_id s, nsi_account = f s,
         nsi_scope = parse_scopes_and_ignore_invalid (en_ext E) (scope_names (s_id s) (w_db w)) \<rparr>)
        (concerned (p_id p) (nb_accounts b) (w_db w)))
      (resp\<lparr> rb_not_found := rb_not_found resp \<union> set (nb_accounts b) \<rparr>) w1"
proof -
  let ?X = "en_ext E" and ?as = "nb_accounts b"
  obtain dr w0 i nid where dr: "dr = en_draw E (w_drawn w)" "w0 = w\<lparr> w_drawn := Suc (w_drawn w) \<rparr>" and
    up0: "db_upsert_notification E Sqlx
      (case nb_notification_id b of None \<Rightarrow> uuid_to_string ?X (dr_uuid_v4 dr) | Some i \<Rightarrow> i) (p_id p) (nb_notification b) w0
      = (Inr nt, w1)"
    and up: "upsert_notification i (en_now E) nid (p_id p) (nb_notification b) (w_db w) = Inr (nt, w_db w1)"
    using assms(3) by (auto simp: h_ok db_upsert_notification_def)
  have same: "subscribers (w_db w1) = subscribers (w_db w)" "scopes (w_db w1) = scopes (w_db w)"
    using upsert_notification_tables [OF up] by auto
  obtain t where t: "chain_agnostic_lookup_table ?as = Some t"
    and tl: "\<And>s. valid_account ?X s \<Longrightarrow> get_address_lower s \<in> get_address_lower ` set ?as \<Longrightarrow>
      \<exists>a \<in> set ?as. Option.bind (get_address_from_account s) t = Some a \<and> get_address_lower a = get_address_lower s"
    using lookup_table_total [OF assms(2)] by blast
  define f where "f s = the (Option.bind (get_address_from_account (s_account s)) t)" for s :: subscriber_row
  let ?sel = "concerned (p_id p) ?as (w_db w)"
  have f: "Option.bind (get_address_from_account (s_account s)) t = Some (f s) \<and> f s \<in> set ?as \<and>
      get_address_lower (f s) = get_address_lower (s_account s)" if "s \<in> set ?sel" for s
    using that tl [of "s_account s"] valid_subscriber_accounts [OF assms(1)]
    by (fastforce simp: concerned_def f_def)
  have info: "subscriber_info ?X (w_db w1) = subscriber_info ?X (w_db w)"
    by (auto simp: subscriber_info_def scope_names_def same fun_eq_iff)
  have q: "get_subscribers_for_project_in ?X (p_id p) ?as (w_db w1) = Some (Inr (map (subscriber_info ?X (w_db w)) ?sel))"
    using get_subscribers_for_project_in_total [OF upsert_notification_wf [OF up assms(1)] assms(2)]
    by (simp add: concerned_def same info)
  let ?infos = "map (\<lambda>s. \<lparr> nsi_id = s_id s, nsi_account = f s,
    nsi_scope = parse_scopes_and_ignore_invalid ?X (scope_names (s_id s) (w_db w)) \<rparr>) ?sel"
  have e: "map (\<lambda>s. s\<lparr> nsi_account := the (Option.bind (get_address_from_account (nsi_account s)) t) \<rparr>)
       (map (subscriber_info ?X (w_db w)) ?sel) = ?infos"
    by (simp add: subscriber_info_def f_def)
  have m: "h_mapM (\<lambda>s. h_bind (h_expect (Option.bind (get_address_from_account (nsi_account s)) t)) (\<lambda>account.
      h_return (s\<lparr> nsi_account := account \<rparr>))) (map (subscriber_info ?X (w_db w)) ?sel) w1 = (Inr ?infos, w1)"
    unfolding e [symmetric] using f by (intro h_mapM_expect) (auto simp: subscriber_info_def)
  show ?thesis
  proof (intro exI [of _ f] conjI ballI)
    show "notify_one E pid p resp b w = notify_found E pid (nwi_id nt) (ntf_type (nwi_notification nt)) ?infos
      (resp\<lparr> rb_not_found := rb_not_found resp \<union> set (nb_accounts b) \<rparr>) w1"
      unfolding notify_one_split
      using up0 [unfolded dr] by (simp add: h_bind_run h_draw_run h_return_run h_expect_run h_lift_run t q m)
  qed (use f in auto)
qed

lemma notify_one_result:
  assumes "wf_db (en_ext E) (w_db w)" "list_all (valid_account (en_ext E)) (nb_accounts b)"
    and "notify_one E pid p resp b w = (Inr resp', w')"
  shows "\<exists>f ok n. (\<forall>s \<in> set (concerned (p_id p) (nb_accounts b) (w_db w)).
        f s \<in> set (nb_accounts b) \<and> get_address_lower (f s) = get_address_lower (s_account s)) \<and>
    n \<in> set (notifications (w_db w')) \<and> n_project n = p_id p \<and>
    varchar255 (requested_id E b (w_drawn w)) = Inr (n_notification_id n) \<and>
    (n \<in> set (notifications (w_db w)) \<or> (Notification_validate (nb_notification b) \<longrightarrow> row_notification n = nb_notification b)) \<and>
    rb_sent resp' = rb_sent resp \<union> f ` {s \<in> set (concerned (p_id p) (nb_accounts b) (w_db w)).
      has_scope (en_ext E) (w_db w) (n_type n) s \<and> ok s} \<and>
    rb_not_found resp' = rb_not_found resp \<union> set (nb_accounts b) - f ` set (concerned (p_id p) (nb_accounts b) (w_db w)) \<and>
    rb_failed resp' = rb_failed resp \<union>
      (\<lambda>s. not_subscribed (f s)) ` {s \<in> set (concerned (p_id p) (nb_accounts b) (w_db w)). \<not> has_scope (en_ext E) (w_db w) (n_type n) s} \<union>
      (\<lambda>s. over_limit (f s)) ` {s \<in> set (concerned (p_id p) (nb_accounts b) (w_db w)). has_scope (en_ext E) (w_db w) (n_type n) s \<and> \<not> ok s} \<and>
    (en_redis E \<or> ok = (\<lambda>_. True)) \<and>
    (\<forall>s \<in> set (concerned (p_id p) (nb_accounts b) (w_db w)). has_scope (en_ext E) (w_db w) (n_type n) s \<and> ok s \<longrightarrow>
      (\<exists>!r. r \<in> set (subscriber_notifications (w_db w')) \<and> sn_notification r = n_id n \<and> sn_subscriber r = s_id s))"
proof -
  obtain nt w1 i where m: "h_bind (h_draw E) (\<lambda>dr. db_upsert_notification E Sqlx
           (case nb_notification_id b of None \<Rightarrow> uuid_to_string (en_ext E) (dr_uuid_v4 dr) | Some i \<Rightarrow> i)
           (p_id p) (nb_notification b)) w = (Inr nt, w1)"
    and up: "upsert_notification i (en_now E) (requested_id E b (w_drawn w)) (p_id p) (nb_notification b) (w_db w) = Inr (nt, w_db w1)"
    using assms(3) by (auto simp: notify_one_split h_ok db_upsert_notification_def requested_id_def)
  let ?sel = "concerned (p_id p) (nb_accounts b) (w_db w)" and ?ty = "ntf_type (nwi_notification nt)"
  from notify_one_found [OF assms(1,2) m, of pid resp] obtain f where
    f: "\<forall>s \<in> set ?sel. f s \<in> set (nb_accounts b) \<and> get_address_lower (f s) = get_address_lower (s_account s)"
    and eq: "notify_one E pid p resp b w = notify_found E pid (nwi_id nt) ?ty (map (\<lambda>s. \<lparr> nsi_id = s_id s, nsi_account = f s,
         nsi_scope = parse_scopes_and_ignore_invalid (en_ext E) (scope_names (s_id s) (w_db w)) \<rparr>) ?sel)
      (resp\<lparr> rb_not_found := rb_not_found resp \<union> set (nb_accounts b) \<rparr>) w1"
    by blast
  have "\<exists>ok gen. upsert_subscriber_notifications gen (en_now E) (nwi_id nt)
      (map s_id (filter (\<lambda>s. has_scope (en_ext E) (w_db w) ?ty s \<and> ok s) ?sel)) (w_db w1) = Inr (w_db w') \<and>
    rb_sent resp' = rb_sent resp \<union> f ` {s \<in> set ?sel. has_scope (en_ext E) (w_db w) ?ty s \<and> ok s} \<and>
    rb_not_found resp' = rb_not_found resp \<union> set (nb_accounts b) - f ` set ?sel \<and>
    rb_failed resp' = rb_failed resp \<union>
      (\<lambda>s. not_subscribed (f s)) ` {s \<in> set ?sel. \<not> has_scope (en_ext E) (w_db w) ?ty s} \<union>
      (\<lambda>s. over_limit (f s)) ` {s \<in> set ?sel. has_scope (en_ext E) (w_db w) ?ty s \<and> \<not> ok s} \<and>
    (en_redis E \<or> ok = (\<lambda>_. True))"
    using notify_found_spec [OF eq [symmetric, unfolded assms(3)]] unfolding has_scope_def by simp
  then obtain ok gen where
    ins: "upsert_subscriber_notifications gen (en_now E) (nwi_id nt)
      (map s_id (filter (\<lambda>s. has_scope (en_ext E) (w_db w) ?ty s \<and> ok s) ?sel)) (w_db w1) = Inr (w_db w')"
    and res: "rb_sent resp' = rb_sent resp \<union> f ` {s \<in> set ?sel. has_scope (en_ext E) (w_db w) ?ty s \<and> ok s}"
      "rb_not_found resp' = rb_not_found resp \<union> set (nb_accounts b) - f ` set ?sel"
      "rb_failed resp' = rb_failed resp \<union>
         (\<lambda>s. not_subscribed (f s)) ` {s \<in> set ?sel. \<not> has_scope (en_ext E) (w_db w) ?ty s} \<union>
         (\<lambda>s. over_limit (f s)) ` {s \<in> set ?sel. has_scope (en_ext E) (w_db w) ?ty s \<and> \<not> ok s}"
      "en_redis E \<or> ok = (\<lambda>_. True)"
    by (elim exE conjE)
  obtain n where n: "n \<in> set (notifications (w_db w1))" "n_id n = nwi_id nt" "n_project n = p_id p" "n_type n = ?ty"
      "varchar255 (requested_id E b (w_drawn w)) = Inr (n_notification_id n)"
      "n \<in> set (notifications (w_db w)) \<or> (Notification_validate (nb_notification b) \<longrightarrow> row_notification n = nb_notification b)"
    using upsert_notification_tables [OF up] by blast
  have wf1: "wf_db (en_ext E) (w_db w1)" by (rule upsert_notification_wf [OF up assms(1)])
  let ?d = "w_db w'"
  from insert_subscriber_notifications_spec [OF upsert_subscriber_notifications_rows [OF ins]]
  have upd: "?d = (w_db w1)\<lparr> subscriber_notifications := subscriber_notifications ?d, delivery_channel := delivery_channel ?d \<rparr>"
    and rows: "\<forall>s \<in> set (map s_id (filter (\<lambda>s. has_scope (en_ext E) (w_db w) ?ty s \<and> ok s) ?sel)).
      (nwi_id nt, s) \<in> sn_index ` set (subscriber_notifications ?d)"
    by blast+
  have "notifications ?d = notifications (w_db w1)" using arg_cong [OF upd, of notifications] by simp
  moreover have "\<exists>!r. r \<in> set (subscriber_notifications (w_db w')) \<and> sn_notification r = n_id n \<and> sn_subscriber r = s_id s"
    if "s \<in> set ?sel" "has_scope (en_ext E) (w_db w) ?ty s \<and> ok s" for s
    using that rows n(2) by (intro one_delivery_row [OF upsert_subscriber_notifications_wf [OF ins wf1]]) auto
  ultimately show ?thesis
    using f res by (intro exI [of _ f] exI [of _ ok] exI [of _ n] conjI) (use n(5,6) in \<open>simp_all add: n(1-4)\<close>)
qed

section \<open>The properties of \<open>notify\<close>\<close>

lemma h_token_bucket_db:
  "h_token_bucket E g k m i r w = (Inr u, w') \<Longrightarrow> w_db w' = w_db w \<and> w_drawn w' = w_drawn w"
  using h_token_bucket_Inr [of E g k m i r w u w'] by auto

lemma get_project_by_project_id_row:
  assumes "wf_db X d" "p \<in> set (projects d)" "get_project_by_project_id (p_project_id p) d = Inr q"
  shows "q = p"
proof -
  have "distinct (map p_project_id (projects d))" using wf_dbD(1) [OF assms(1)] by (simp add: wf_projects_def)
  from distinct_map_inj [OF this] show ?thesis
    using assms(2,3) fetch_one_filter_Inr [of "\<lambda>r. p_project_id r = p_project_id p" "projects d" q]
    by (auto simp: get_project_by_project_id_def)
qed

lemma concerned_unique:
  assumes "wf_db X d" "s \<in> set (concerned p as d)" "t \<in> set (concerned p as d)"
    and "get_address_lower (s_account s) = get_address_lower (s_account t)"
  shows "s = t"
proof -
  have "distinct (map s_index (subscribers d))" using wf_dbD(2) [OF assms(1)] by (simp add: wf_subscribers_def)
  then show ?thesis
    by (rule distinct_map_inj) (use assms(2-4) in \<open>auto simp: concerned_def s_index_def\<close>)
qed

text \<open>
  An account for each subscriber that the request concerns, with the subscriber's address: no account is
  chosen twice, and those chosen are the ones that some subscriber has.
\<close>

lemma chosen_accounts:
  assumes "wf_db X d" "distinct (map get_address_lower as)"
    and f: "\<forall>s \<in> set (concerned p as d). f s \<in> set as \<and> get_address_lower (f s) = get_address_lower (s_account s)"
  shows "inj_on f (set (concerned p as d))" and "f ` set (concerned p as d) \<subseteq> set as"
    and "a \<in> set as \<Longrightarrow> a \<in> f ` set (concerned p as d) \<longleftrightarrow>
      (\<exists>s \<in> set (subscribers d). s_project s = p \<and> get_address_lower (s_account s) = get_address_lower a)"
proof -
  show "inj_on f (set (concerned p as d))"
    using concerned_unique [OF assms(1)] f by (intro inj_onI) metis
  show "f ` set (concerned p as d) \<subseteq> set as" using f by blast
  show "a \<in> f ` set (concerned p as d) \<longleftrightarrow>
    (\<exists>s \<in> set (subscribers d). s_project s = p \<and> get_address_lower (s_account s) = get_address_lower a)" if a: "a \<in> set as"
  proof
    assume "a \<in> f ` set (concerned p as d)"
    then show "\<exists>s \<in> set (subscribers d). s_project s = p \<and> get_address_lower (s_account s) = get_address_lower a"
      using f by (force simp: concerned_def)
  next
    assume "\<exists>s \<in> set (subscribers d). s_project s = p \<and> get_address_lower (s_account s) = get_address_lower a"
    then obtain s where s: "s \<in> set (concerned p as d)" "get_address_lower (s_account s) = get_address_lower a"
      using a by (auto simp: concerned_def)
    then have "f s = a" using distinct_map_inj [OF assms(2)] bspec [OF f s(1)] a by simp
    then show "a \<in> f ` set (concerned p as d)" using s(1) by blast
  qed
qed

text \<open>The response and the rows of a request with one notification.\<close>

lemma inj_on_image_section:
  assumes "inj_on f S" "\<And>s. g (h s) = f s" "T \<subseteq> S"
  shows "inj_on g (h ` T)"
proof (rule inj_onI)
  fix x y assume "x \<in> h ` T" "y \<in> h ` T" "g x = g y"
  then obtain u v where "x = h u" "y = h v" "u \<in> T" "v \<in> T" "f u = f v" using assms(2) by auto
  then show "x = y" using inj_onD [OF assms(1)] assms(3) by blast
qed

lemma failures_split:
  "(\<lambda>s. g1 s) ` {s \<in> S. \<not> h s} \<union> (\<lambda>s. g2 s) ` {s \<in> S. h s \<and> \<not> ok s} =
   (\<lambda>s. if h s then g2 s else g1 s) ` {s \<in> S. \<not> (h s \<and> ok s)}"
  by (auto simp: image_iff)

lemma notify_v1_result:
  assumes "wf_db (en_ext E) (w_db w)" "list_all (valid_account (en_ext E)) (nb_accounts b)" "p \<in> set (projects (w_db w))"
    and "notify_v1_handler_impl E (p_project_id p) [b] w = (Inr resp, w')"
  obtains f ok n where
    "\<forall>s \<in> set (concerned (p_id p) (nb_accounts b) (w_db w)).
       f s \<in> set (nb_accounts b) \<and> get_address_lower (f s) = get_address_lower (s_account s)"
    "n \<in> set (notifications (w_db w'))" "n_project n = p_id p"
    "varchar255 (requested_id E b (w_drawn w)) = Inr (n_notification_id n)"
    "n \<in> set (notifications (w_db w)) \<or> row_notification n = nb_notification b"
    "rb_sent resp = f ` {s \<in> set (concerned (p_id p) (nb_accounts b) (w_db w)). has_scope (en_ext E) (w_db w) (n_type n) s \<and> ok s}"
    "rb_not_found resp = set (nb_accounts b) - f ` set (concerned (p_id p) (nb_accounts b) (w_db w))"
    "rb_failed resp = (\<lambda>s. if has_scope (en_ext E) (w_db w) (n_type n) s then over_limit (f s) else not_subscribed (f s)) `
       {s \<in> set (concerned (p_id p) (nb_accounts b) (w_db w)). \<not> (has_scope (en_ext E) (w_db w) (n_type n) s \<and> ok s)}"
    "en_redis E \<or> ok = (\<lambda>_. True)"
    "\<forall>s \<in> set (concerned (p_id p) (nb_accounts b) (w_db w)). has_scope (en_ext E) (w_db w) (n_type n) s \<and> ok s \<longrightarrow>
       (\<exists>!r. r \<in> set (subscriber_notifications (w_db w')) \<and> sn_notification r = n_id n \<and> sn_subscriber r = s_id s)"
proof -
  obtain w1 q where w1: "w_db w1 = w_db w" "w_drawn w1 = w_drawn w" and q: "get_project_by_project_id (p_project_id p) (w_db w) = Inr q"
    and valid: "Notification_validate (nb_notification b) = True"
    and one: "notify_one E (p_project_id p) q \<lparr> rb_sent = {}, rb_failed = {}, rb_not_found = {} \<rparr> b w1 = (Inr resp, w')"
    using assms(4) by (auto simp: notify_v1_handler_impl_def notify_rate_limit_def Let_def h_ok dest!: h_token_bucket_db)
  have qp: "q = p" by (rule get_project_by_project_id_row [OF assms(1,3) q])
  have 1: "wf_db (en_ext E) (w_db w1)" using assms(1) w1 by simp
  show thesis
    using notify_one_result [OF 1 assms(2) one,
      unfolded w1 qp ResponseBody.simps valid simp_thms Un_empty_left image_empty failures_split]
    by (elim exE conjE) (rule that)
qed

lemma notify_v1_sent:
  assumes "wf_db (en_ext E) (w_db w)" "list_all (valid_account (en_ext E)) (nb_accounts b)" "p \<in> set (projects (w_db w))"
    and "notify_v1_handler_impl E (p_project_id p) [b] w = (Inr resp, w')"
  obtains n where "n \<in> set (notifications (w_db w'))" "n_project n = p_id p"
    "varchar255 (requested_id E b (w_drawn w)) = Inr (n_notification_id n)"
    "n \<in> set (notifications (w_db w)) \<or> row_notification n = nb_notification b"
    "\<forall>a \<in> rb_sent resp. \<exists>s \<in> set (subscribers (w_db w)). s_project s = p_id p \<and>
      get_address_lower (s_account s) = get_address_lower a \<and> has_scope (en_ext E) (w_db w) (n_type n) s \<and>
      (\<exists>!r. r \<in> set (subscriber_notifications (w_db w')) \<and> sn_notification r = n_id n \<and> sn_subscriber r = s_id s)"
    "\<forall>q \<in> rb_failed resp. \<exists>s \<in> set (subscribers (w_db w)). s_project s = p_id p \<and>
      get_address_lower (s_account s) = get_address_lower (sf_account q) \<and>
      (if has_scope (en_ext E) (w_db w) (n_type n) s then q = over_limit (sf_account q) \<and> en_redis E
       else q = not_subscribed (sf_account q))"
proof -
  let ?sel = "concerned (p_id p) (nb_accounts b) (w_db w)"
  obtain f ok n where f: "\<forall>s \<in> set ?sel. f s \<in> set (nb_accounts b) \<and> get_address_lower (f s) = get_address_lower (s_account s)"
    and n: "n \<in> set (notifications (w_db w'))" "n_project n = p_id p"
      "varchar255 (requested_id E b (w_drawn w)) = Inr (n_notification_id n)"
      "n \<in> set (notifications (w_db w)) \<or> row_notification n = nb_notification b"
    and sent: "rb_sent resp = f ` {s \<in> set ?sel. has_scope (en_ext E) (w_db w) (n_type n) s \<and> ok s}"
    and failed: "rb_failed resp =
      (\<lambda>s. if has_scope (en_ext E) (w_db w) (n_type n) s then over_limit (f s) else not_subscribed (f s)) `
        {s \<in> set ?sel. \<not> (has_scope (en_ext E) (w_db w) (n_type n) s \<and> ok s)}"
    and redis: "en_redis E \<or> ok = (\<lambda>_. True)"
    and rows: "\<forall>s \<in> set ?sel. has_scope (en_ext E) (w_db w) (n_type n) s \<and> ok s \<longrightarrow>
      (\<exists>!r. r \<in> set (subscriber_notifications (w_db w')) \<and> sn_notification r = n_id n \<and> sn_subscriber r = s_id s)"
    by (rule notify_v1_result [OF assms])
  show thesis
  proof (rule that [OF n])
    show "\<forall>a \<in> rb_sent resp. \<exists>s \<in> set (subscribers (w_db w)). s_project s = p_id p \<and>
      get_address_lower (s_account s) = get_address_lower a \<and> has_scope (en_ext E) (w_db w) (n_type n) s \<and>
      (\<exists>!r. r \<in> set (subscriber_notifications (w_db w')) \<and> sn_notification r = n_id n \<and> sn_subscriber r = s_id s)"
    proof
      fix a assume "a \<in> rb_sent resp"
      then obtain s where s: "s \<in> set ?sel" "has_scope (en_ext E) (w_db w) (n_type n) s" "ok s" "a = f s"
        unfolding sent by blast
      then show "\<exists>s \<in> set (subscribers (w_db w)). s_project s = p_id p \<and>
        get_address_lower (s_account s) = get_address_lower a \<and> has_scope (en_ext E) (w_db w) (n_type n) s \<and>
        (\<exists>!r. r \<in> set (subscriber_notifications (w_db w')) \<and> sn_notification r = n_id n \<and> sn_subscriber r = s_id s)"
        using bspec [OF f s(1)] bspec [OF rows s(1)] s(2,3) by (intro bexI [of _ s]) (auto simp: concerned_def)
    qed
    show "\<forall>q \<in> rb_failed resp. \<exists>s \<in> set (subscribers (w_db w)). s_project s = p_id p \<and>
      get_address_lower (s_account s) = get_address_lower (sf_account q) \<and>
      (if has_scope (en_ext E) (w_db w) (n_type n) s then q = over_limit (sf_account q) \<and> en_redis E
       else q = not_subscribed (sf_account q))"
    proof
      fix q assume "q \<in> rb_failed resp"
      then obtain s where s: "s \<in> set ?sel" "\<not> (has_scope (en_ext E) (w_db w) (n_type n) s \<and> ok s)"
        "q = (if has_scope (en_ext E) (w_db w) (n_type n) s then over_limit (f s) else not_subscribed (f s))"
        unfolding failed by blast
      then show "\<exists>s \<in> set (subscribers (w_db w)). s_project s = p_id p \<and>
        get_address_lower (s_account s) = get_address_lower (sf_account q) \<and>
        (if has_scope (en_ext E) (w_db w) (n_type n) s then q = over_limit (sf_account q) \<and> en_redis E
         else q = not_subscribed (sf_account q))"
        using bspec [OF f s(1)] redis
        by (intro bexI [of _ s]) (auto simp: concerned_def over_limit_def not_subscribed_def)
    qed
  qed
qed

text \<open>
  C12. What a successful \<open>notify\<close> of one notification reports and does, on a well-formed database
  and for validated accounts with different addresses: every account is reported exactly once, as
  sent, failed (for one reason) or not found; it is not found exactly when the project has no
  subscriber with its address, on any chain. The project has, after the request, a notification
  with the id that the request names (a new UUID when it names none), as its column holds it; it
  is the one sent unless it was stored before. Each account reported as sent has a subscriber who
  accepts its type, with exactly one delivery row for it; each account reported as failed has a
  subscriber, and the reason is the rate limit (only when the server has a Redis) when that
  subscriber accepts the type, and that it is not subscribed to the type otherwise.
\<close>

theorem notify_v1_reports:
  assumes "wf_db (en_ext E) (w_db w)" "list_all (valid_account (en_ext E)) (nb_accounts b)"
    and "distinct (map get_address_lower (nb_accounts b))" "p \<in> set (projects (w_db w))"
    and "notify_v1_handler_impl E (p_project_id p) [b] w = (Inr resp, w')"
  shows "rb_sent resp \<union> sf_account ` rb_failed resp \<union> rb_not_found resp = set (nb_accounts b) \<and>
    rb_sent resp \<inter> sf_account ` rb_failed resp = {} \<and> inj_on sf_account (rb_failed resp) \<and>
    (rb_sent resp \<union> sf_account ` rb_failed resp) \<inter> rb_not_found resp = {} \<and>
    rb_not_found resp = {a \<in> set (nb_accounts b). \<forall>s \<in> set (subscribers (w_db w)).
      s_project s = p_id p \<longrightarrow> get_address_lower (s_account s) \<noteq> get_address_lower a} \<and>
    (\<exists>n \<in> set (notifications (w_db w')). n_project n = p_id p \<and>
      varchar255 (requested_id E b (w_drawn w)) = Inr (n_notification_id n) \<and>
      (n \<in> set (notifications (w_db w)) \<or> row_notification n = nb_notification b) \<and>
      (\<forall>a \<in> rb_sent resp. \<exists>s \<in> set (subscribers (w_db w)). s_project s = p_id p \<and>
        get_address_lower (s_account s) = get_address_lower a \<and> has_scope (en_ext E) (w_db w) (n_type n) s \<and>
        (\<exists>!r. r \<in> set (subscriber_notifications (w_db w')) \<and> sn_notification r = n_id n \<and> sn_subscriber r = s_id s)) \<and>
      (\<forall>q \<in> rb_failed resp. \<exists>s \<in> set (subscribers (w_db w)). s_project s = p_id p \<and>
        get_address_lower (s_account s) = get_address_lower (sf_account q) \<and>
        (if has_scope (en_ext E) (w_db w) (n_type n) s then q = over_limit (sf_account q) \<and> en_redis E
         else q = not_subscribed (sf_account q))))"
proof -
  let ?as = "nb_accounts b" and ?sel = "concerned (p_id p) (nb_accounts b) (w_db w)"
  obtain f ok n where f: "\<forall>s \<in> set ?sel. f s \<in> set ?as \<and> get_address_lower (f s) = get_address_lower (s_account s)"
    and "n \<in> set (notifications (w_db w'))" "n_project n = p_id p"
      "varchar255 (requested_id E b (w_drawn w)) = Inr (n_notification_id n)"
      "n \<in> set (notifications (w_db w)) \<or> row_notification n = nb_notification b"
    and sent: "rb_sent resp = f ` {s \<in> set ?sel. has_scope (en_ext E) (w_db w) (n_type n) s \<and> ok s}"
    and nf: "rb_not_found resp = set ?as - f ` set ?sel"
    and failed: "rb_failed resp =
      (\<lambda>s. if has_scope (en_ext E) (w_db w) (n_type n) s then over_limit (f s) else not_subscribed (f s)) `
        {s \<in> set ?sel. \<not> (has_scope (en_ext E) (w_db w) (n_type n) s \<and> ok s)}"
    and "en_redis E \<or> ok = (\<lambda>_. True)" "\<forall>s \<in> set ?sel. has_scope (en_ext E) (w_db w) (n_type n) s \<and> ok s \<longrightarrow>
      (\<exists>!r. r \<in> set (subscriber_notifications (w_db w')) \<and> sn_notification r = n_id n \<and> sn_subscriber r = s_id s)"
    by (rule notify_v1_result [OF assms(1,2,4,5)])
  note chosen = chosen_accounts [OF assms(1,3) f]
  have fa: "sf_account (if has_scope (en_ext E) (w_db w) (n_type n) s then over_limit (f s) else not_subscribed (f s)) = f s" for s
    by (simp add: over_limit_def not_subscribed_def)
  have failed': "sf_account ` rb_failed resp = f ` {s \<in> set ?sel. \<not> (has_scope (en_ext E) (w_db w) (n_type n) s \<and> ok s)}"
    unfolding failed image_image fa ..
  have part: "rb_sent resp \<union> sf_account ` rb_failed resp = f ` set ?sel" unfolding sent failed' by blast
  show ?thesis
  proof (intro conjI)
    show "rb_sent resp \<union> sf_account ` rb_failed resp \<union> rb_not_found resp = set ?as"
      unfolding part nf using chosen(2) by blast
    show "(rb_sent resp \<union> sf_account ` rb_failed resp) \<inter> rb_not_found resp = {}"
      unfolding part nf by blast
    show "rb_sent resp \<inter> sf_account ` rb_failed resp = {}"
      unfolding sent failed' using chosen(1) by (blast dest: inj_onD)
    show "inj_on sf_account (rb_failed resp)"
      unfolding failed by (rule inj_on_image_section [where g = sf_account, OF chosen(1) fa]) blast
    show "rb_not_found resp = {a \<in> set ?as. \<forall>s \<in> set (subscribers (w_db w)).
        s_project s = p_id p \<longrightarrow> get_address_lower (s_account s) \<noteq> get_address_lower a}"
      unfolding nf using chosen(3) by blast
  qed (rule notify_v1_sent [OF assms(1,2,4,5)], blast)
qed

definition demo_db7 :: db where
  "demo_db7 = demo_db6\<lparr> scopes := [\<lparr> sc_id = 41, sc_subscriber = 7, sc_name = uuid_to_string ext_demo 3 \<rparr>] \<rparr>"

definition demo_body :: NotifyBodyNotification where
  "demo_body = \<lparr> nb_notification_id = Some ''n2'', nb_notification = demo_notification, nb_accounts = [acct_a, acct_b] \<rparr>"

lemma wf_demo_db7: "wf_db ext_demo demo_db7"
  using valid_demo_accounts
  by (simp add: demo_db7_def demo_db6_defs wf_db_def wf_table_defs pids_def sids_def nids_def pg_status_def)

lemma acct_lower: "get_address_lower acct_a = ''0x'' @ replicate 40 CHR ''a''" "get_address_lower acct_b = ''0x'' @ replicate 40 CHR ''b''"
  by code_simp+

lemma demo_concerned: "concerned 1 [acct_a, acct_b] demo_db7 = [demo_key_subscriber]"
  by (simp add: concerned_def demo_db7_def demo_db6_defs)

text \<open>The database with the notification of the request.\<close>

definition demo_db_sent :: db where
  "demo_db_sent = demo_db7\<lparr> notifications := notifications demo_db7 @ [\<lparr> n_id = 2000, n_created_at = en_now env_demo,
     n_project = 1, n_notification_id = ''n2'', n_type = 3, n_title = ''title'', n_body = ''body'', n_icon = None, n_url = None \<rparr>] \<rparr>"

lemmas demo_db_sent_defs = demo_db_sent_def demo_db7_def demo_db6_defs

lemma notification_demo:
  "db_upsert_notification env_demo Sqlx ''n2'' 1 demo_notification ((world_demo demo_db7)\<lparr> w_drawn := 1 \<rparr>) =
     (Inr \<lparr> nwi_id = 2000, nwi_notification = demo_notification \<rparr>, (world_demo demo_db_sent)\<lparr> w_drawn := 2 \<rparr>)"
proof -
  have "upsert_notification 2000 (en_now env_demo) ''n2'' 1 demo_notification demo_db7 =
      Inr (\<lparr> nwi_id = 2000, nwi_notification = demo_notification \<rparr>, demo_db_sent)"
    by (simp add: upsert_notification_def demo_notification_def varchar255_short varchar255_opt_def Let_def n_index_def
        insert_notification_row_def demo_db_sent_defs unique_ok_def pids_def row_notification_def)
  then show ?thesis
    by (auto simp: h_bind_def h_draw_def db_upsert_notification_def env_demo_def draw_demo_def world_demo_def h_exec_def)
qed

lemma notify_v1_demo:
  "\<exists>resp w'. notify_v1_handler_impl env_demo ''prj'' [demo_body] (world_demo demo_db7) = (Inr resp, w')"
proof -
  have m: "h_bind (h_draw env_demo) (\<lambda>dr. db_upsert_notification env_demo Sqlx
      (case nb_notification_id demo_body of None \<Rightarrow> uuid_to_string (en_ext env_demo) (dr_uuid_v4 dr) | Some i \<Rightarrow> i)
      (p_id demo_key_project) (nb_notification demo_body)) (world_demo demo_db7) =
    (Inr \<lparr> nwi_id = 2000, nwi_notification = demo_notification \<rparr>, (world_demo demo_db_sent)\<lparr> w_drawn := 2 \<rparr>)"
    (is "_ = (_, ?w1)")
    using notification_demo by (simp add: h_bind_def h_draw_def demo_body_def world_demo_def demo_key_project_def demo_project_def)
  have ins: "\<exists>d. upsert_subscriber_notifications (dr_uuids (en_draw env_demo 2)) (en_now env_demo) 2000 [7] (w_db ?w1) = Inr d"
    by (simp add: upsert_subscriber_notifications_def cast_status_def status_to_string_def insert_subscriber_notification_row_def
        world_demo_def demo_db_sent_defs unique_ok_def sn_index_def nids_def sids_def env_demo_def draw_demo_def)
  have none: "upsert_subscriber_notifications (dr_uuids (en_draw env_demo 2)) (en_now env_demo) 2000 [] (w_db ?w1) = Inr (w_db ?w1)"
    by (simp add: upsert_subscriber_notifications_def cast_status_def status_to_string_def)
  have found: "\<exists>r w'. notify_found env_demo ''prj'' 2000 ty [\<lparr> nsi_id = 7, nsi_account = a, nsi_scope = sc \<rparr>] resp ?w1 = (Inr r, w')"
    for ty a sc resp
  proof -
    obtain r1 v1 where sl: "scope_loop ty [\<lparr> nsi_id = 7, nsi_account = a, nsi_scope = sc \<rparr>] resp = (r1, v1)" by force
    have "v1 = [] \<or> v1 = [(7, a)]" using scope_loop_spec [OF sl] by (auto split: if_splits)
    then have "\<exists>d. upsert_subscriber_notifications (dr_uuids (en_draw env_demo 2)) (en_now env_demo) 2000 (map fst v1) (w_db ?w1) = Inr d"
      using ins none by auto
    moreover have "w_drawn ?w1 = 2" "\<not> en_redis env_demo" by (simp_all add: env_demo_def)
    ultimately show ?thesis
      by (auto simp: notify_found_def sl limit_subscribers_def db_upsert_subscriber_notifications_def h_bind_def
          h_return_def h_draw_def h_exec_def simp del: scope_loop.simps)
  qed
  have v: "list_all (valid_account (en_ext env_demo)) (nb_accounts demo_body)"
    using valid_demo_accounts by (simp add: demo_body_def env_demo_def)
  have wf: "wf_db (en_ext env_demo) (w_db (world_demo demo_db7))" using wf_demo_db7 by (simp add: world_demo_def env_demo_def)
  have con: "concerned (p_id demo_key_project) (nb_accounts demo_body) (w_db (world_demo demo_db7)) = [demo_key_subscriber]"
    using demo_concerned by (simp add: demo_key_project_def demo_project_def demo_body_def world_demo_def)
  have one: "\<exists>r w'. notify_one env_demo ''prj'' demo_key_project resp demo_body (world_demo demo_db7) = (Inr r, w')" for resp
    using notify_one_found [OF wf v m, of "''prj''" resp] unfolding con
    by (elim exE conjE) (simp add: found demo_key_subscriber_def demo_subscriber_def)
  have "get_project_by_project_id ''prj'' demo_db7 = Inr demo_key_project"
    by (simp add: get_project_by_project_id_def demo_db7_def demo_db6_defs fetch_one_def)
  moreover have "Notification_validate (nb_notification demo_body)" "\<not> en_redis env_demo"
    "length (nb_accounts demo_body) = 2" "w_db (world_demo demo_db7) = demo_db7"
    by (code_simp | simp add: env_demo_def demo_body_def world_demo_def)+
  ultimately show ?thesis
    using one [of "\<lparr> rb_sent = {}, rb_failed = {}, rb_not_found = {} \<rparr>"]
    by (auto simp: notify_v1_handler_impl_def notify_rate_limit_def h_token_bucket_def h_bind_def h_guard_def h_return_def
        h_query_def h_lift_def SUBSCRIBER_NOTIFICATION_COUNT_LIMIT_def Let_def)
qed

theorem notify_v1_reports_witness:
  "\<exists>resp w'. notify_v1_handler_impl env_demo ''prj'' [demo_body] (world_demo demo_db7) = (Inr resp, w') \<and>
     rb_not_found resp = {acct_b}"
proof -
  obtain resp w' where h: "notify_v1_handler_impl env_demo ''prj'' [demo_body] (world_demo demo_db7) = (Inr resp, w')"
    using notify_v1_demo by blast
  have pid: "p_project_id demo_key_project = ''prj''" by (simp add: demo_key_project_def demo_project_def)
  have ab: "get_address_lower acct_a \<noteq> get_address_lower acct_b" by (simp add: acct_lower)
  have p: "demo_key_project \<in> set (projects (w_db (world_demo demo_db7)))"
    by (simp add: world_demo_def demo_db7_def demo_db6_def)
  have wf: "wf_db (en_ext env_demo) (w_db (world_demo demo_db7))" using wf_demo_db7 by (simp add: world_demo_def env_demo_def)
  have v: "list_all (valid_account (en_ext env_demo)) (nb_accounts demo_body)"
    "distinct (map get_address_lower (nb_accounts demo_body))"
    using valid_demo_accounts by (simp_all add: demo_body_def env_demo_def acct_lower)
  have "notify_v1_handler_impl env_demo (p_project_id demo_key_project) [demo_body] (world_demo demo_db7) = (Inr resp, w')"
    unfolding pid by (rule h)
  note R = notify_v1_reports [OF wf v p this]
  have "rb_not_found resp = {a \<in> set (nb_accounts demo_body). \<forall>s \<in> set (subscribers (w_db (world_demo demo_db7))).
      s_project s = p_id demo_key_project \<longrightarrow> get_address_lower (s_account s) \<noteq> get_address_lower a}"
    using R by (elim conjE)
  moreover have "subscribers (w_db (world_demo demo_db7)) = [demo_key_subscriber]" "nb_accounts demo_body = [acct_a, acct_b]"
    by (simp_all add: world_demo_def demo_db7_def demo_db6_def demo_body_def)
  moreover have "s_project demo_key_subscriber = p_id demo_key_project" "s_account demo_key_subscriber = acct_a"
    by (simp_all add: demo_key_subscriber_def demo_subscriber_def demo_key_project_def demo_project_def)
  ultimately have "rb_not_found resp = {a \<in> {acct_a, acct_b}. get_address_lower acct_a \<noteq> get_address_lower a}" by simp
  then have "rb_not_found resp = {acct_b}" using ab by auto
  then show ?thesis using h by blast
qed


text \<open>The query finds subscribers whose addresses the table of the requested accounts has.\<close>

lemma subscribers_found_total:
  assumes "list_all (valid_account X) accounts"
  shows "\<exists>t. chain_agnostic_lookup_table accounts = Some t \<and>
    (\<forall>d. wf_db X d \<longrightarrow> (\<exists>found. get_subscribers_for_project_in X p accounts d = Some (Inr found) \<and>
       (\<forall>s \<in> set found. Option.bind (get_address_from_account (nsi_account s)) t \<noteq> None)))"
proof -
  obtain t where t: "chain_agnostic_lookup_table accounts = Some t"
    and tl: "\<And>s. valid_account X s \<Longrightarrow> get_address_lower s \<in> get_address_lower ` set accounts \<Longrightarrow>
      Option.bind (get_address_from_account s) t \<noteq> None"
    using lookup_table_total [OF assms] by (metis option.distinct(1))
  have "\<exists>found. get_subscribers_for_project_in X p accounts d = Some (Inr found) \<and>
       (\<forall>s \<in> set found. Option.bind (get_address_from_account (nsi_account s)) t \<noteq> None)" if "wf_db X d" for d
    using get_subscribers_for_project_in_total [OF that assms] tl valid_subscriber_accounts [OF that]
    by (auto simp: subscriber_info_def)
  then show ?thesis using t by blast
qed

lemma notify_one_panic_free:
  assumes "list_all (valid_account (en_ext E)) (nb_accounts b)"
  shows "panic_free (wf_db (en_ext E)) (notify_one E pid p resp b)"
proof -
  let ?I = "wf_db (en_ext E)"
  obtain t where t: "chain_agnostic_lookup_table (nb_accounts b) = Some t"
    and reads: "\<And>d. ?I d \<Longrightarrow> \<exists>found. get_subscribers_for_project_in (en_ext E) (p_id p) (nb_accounts b) d = Some (Inr found) \<and>
      (\<forall>s \<in> set found. Option.bind (get_address_from_account (nsi_account s)) t \<noteq> None)"
    using subscribers_found_total [OF assms] by blast
  have found: "panic_free ?I (notify_found E pid nu ty subs r)" for nu ty subs r
    unfolding notify_found_def
    by (cases "scope_loop ty subs r")
      (auto intro!: panic_free_bind [OF limit_subscribers_panic_free] panic_free_bind [OF schema.statements_panic_free(7)]
        panic_free_simple)
  let ?query = "\<lambda>w. h_expect (get_subscribers_for_project_in (en_ext E) (p_id p) (nb_accounts b) (w_db w)) w"
  have query: "panic_free ?I ?query"
    unfolding panic_free_def
  proof (intro allI impI)
    fix w :: world assume "?I (w_db w)"
    from reads [OF this] show "fst (?query w) \<noteq> Inl Panicked \<and> ?I (w_db (snd (?query w)))"
      using \<open>?I (w_db w)\<close> by (auto simp: h_expect_def h_return_def)
  qed
  have answer: "\<forall>s \<in> set found. Option.bind (get_address_from_account (nsi_account s)) t \<noteq> None"
    if "?query w = (Inr r, w1)" "h_lift Sqlx r w2 = (Inr found, w3)" "?I (w_db w)" for w r w1 w2 w3 found
    using reads [OF that(3)] that(1,2) by (auto simp: h_ok)
  have addresses: "panic_free ?I (h_mapM (\<lambda>s. h_bind (h_expect (Option.bind (get_address_from_account (nsi_account s)) t))
      (\<lambda>account. h_return (s\<lparr> nsi_account := account \<rparr>))) found)"
    if "\<forall>s \<in> set found. Option.bind (get_address_from_account (nsi_account s)) t \<noteq> None" for found
    using that by (intro panic_free_mapM panic_free_bind panic_free_expect panic_free_simple) blast
  show ?thesis
    unfolding notify_one_split t h_expect_run
    apply (rule panic_free_bind [OF panic_free_simple(6)])
    apply (rule panic_free_bind [OF schema.statements_panic_free(6) [OF refl]])
    apply (rule panic_free_bind [OF panic_free_simple(1)])
    apply (rule panic_free_bind [OF query])
    apply (rule panic_free_bind [OF panic_free_simple(3)])
    apply (rule panic_free_bind [OF _ found])
    subgoal by (simp only: h_return_Inr) (rule addresses, erule (2) answer)
    done
qed

lemma notify_v1_panic_free:
  assumes "\<forall>b \<in> set body. list_all (valid_account (en_ext E)) (nb_accounts b)"
  shows "panic_free (wf_db (en_ext E)) (notify_v1_handler_impl E project_id body)"
  unfolding notify_v1_handler_impl_def notify_rate_limit_def Let_def
  using assms
  by (intro panic_free_bind [OF panic_free_calls(1)] panic_free_bind [OF panic_free_simple(4)]
      panic_free_bind [OF panic_free_simple(5)] panic_free_foldM notify_one_panic_free) blast

end
