(* ===== verification/Registry.thy ===== *)
theory Registry
  imports Externals
begin

text \<open>
  Authentication of a project by its secret: the registry client and its cache
  (\<open>src/src/registry/mod.rs\<close>) and the request extractor (\<open>src/src/registry/extractor.rs\<close>). The HTTP
  exchange with the registry is an argument; Redis is a map with expiry times that always answers. \<open>Caches\<close> has the
  same functions over a Redis that may fail, and relates the two.
\<close>

text \<open>The outcome of the request: an error, or the status and the outcome of reading \<open>isValid\<close> from the body.\<close>

type_synonym registry_http = "string \<Rightarrow> string \<Rightarrow> (nat \<times> (bool, string) result, string) result"

type_synonym registry_cache = "string \<Rightarrow> (bool \<times> datetime) option"

definition authenticate :: "registry_http \<Rightarrow> string \<Rightarrow> string \<Rightarrow> (nat, string) result" where
  "authenticate http project_id secret =
     rbind (http project_id secret) (\<lambda>(status, body).
       if \<not> (200 \<le> status \<and> status < 300) then Inr 401
       else rbind body (\<lambda>is_valid. Inr (if is_valid then 200 else 401)))"

definition CACHE_TTL :: duration where
  "CACHE_TTL = 60 * 30 * 1000000"

definition registry_key :: "ext \<Rightarrow> string \<Rightarrow> string \<Rightarrow> string" where
  "registry_key X project_id secret = sha256_digest X (as_bytes (project_id @ secret))"

definition registry_get :: "datetime \<Rightarrow> string \<Rightarrow> registry_cache \<Rightarrow> bool option" where
  "registry_get now key c = (case c key of None \<Rightarrow> None | Some (v, t) \<Rightarrow> if t \<le> now then None else Some v)"

definition is_authenticated ::
  "ext \<Rightarrow> datetime \<Rightarrow> registry_http \<Rightarrow> string \<Rightarrow> string \<Rightarrow> registry_cache option
     \<Rightarrow> (bool, string) result \<times> registry_cache option" where
  "is_authenticated X now http project_id secret cache =
     (let hash = registry_key X project_id secret in
      case Option.bind cache (registry_get now hash) of
        Some validity \<Rightarrow> (Inr validity, cache)
      | None \<Rightarrow>
          (case authenticate http project_id secret of
             Inl e \<Rightarrow> (Inl e, cache)
           | Inr status \<Rightarrow>
               let validity = (200 \<le> status \<and> status < 300) in
               (Inr validity, map_option (\<lambda>c. c(hash \<mapsto> (validity, now + CACHE_TTL))) cache)))"

section \<open>The extractor\<close>

text \<open>
  What the extractor finds in the request: the path parameters (\<open>None\<close> when they cannot be read), the
  bearer token, if there is one. The result is the project and its secret, or a status.
\<close>

definition from_request_parts ::
  "ext \<Rightarrow> datetime \<Rightarrow> registry_http \<Rightarrow> (string \<Rightarrow> string option) option \<Rightarrow> string option \<Rightarrow> registry_cache option
     \<Rightarrow> (string \<times> string, nat) result \<times> registry_cache option" where
  "from_request_parts X now http path_args bearer cache =
     (case path_args of None \<Rightarrow> (Inl 400, cache) | Some args \<Rightarrow>
     (case bearer of None \<Rightarrow> (Inl 401, cache) | Some secret \<Rightarrow>
     (case args ''project_id'' of None \<Rightarrow> (Inl 400, cache) | Some project_id \<Rightarrow>
     (case is_authenticated X now http project_id secret cache of
        (Inl e, cache') \<Rightarrow> (Inl 400, cache')
      | (Inr False, cache') \<Rightarrow> (Inl 401, cache')
      | (Inr True, cache') \<Rightarrow> (Inr (project_id, secret), cache')))))"

section \<open>Facts\<close>

text \<open>A request: when it comes, what the registry would answer then, its project and its secret.\<close>

record registry_call =
  rc_now :: datetime
  rc_http :: registry_http
  rc_project :: string
  rc_secret :: string

definition says_valid :: "registry_call \<Rightarrow> bool" where
  "says_valid c \<longleftrightarrow> (\<exists>status. 200 \<le> status \<and> status < 300 \<and> rc_http c (rc_project c) (rc_secret c) = Inr (status, Inr True))"

lemma authenticate_200: "authenticate (rc_http c) (rc_project c) (rc_secret c) = Inr n \<Longrightarrow> 200 \<le> n \<and> n < 300 \<longleftrightarrow> says_valid c"
  by (auto simp: authenticate_def says_valid_def rbind_Inr_iff split: prod.splits if_splits)

definition call :: "ext \<Rightarrow> registry_call \<Rightarrow> registry_cache option \<Rightarrow> (bool, string) result \<times> registry_cache option" where
  "call X c = is_authenticated X (rc_now c) (rc_http c) (rc_project c) (rc_secret c)"

definition cache_after :: "ext \<Rightarrow> registry_call list \<Rightarrow> registry_cache option \<Rightarrow> registry_cache option" where
  "cache_after X cs cache = fold (\<lambda>c k. snd (call X c k)) cs cache"

text \<open>Every entry of the cache comes from a call that the registry answered.\<close>

definition cache_from :: "ext \<Rightarrow> registry_call set \<Rightarrow> registry_cache option \<Rightarrow> bool" where
  "cache_from X C cache \<longleftrightarrow> (\<forall>k v t. Option.bind cache (\<lambda>c. c k) = Some (v, t) \<longrightarrow>
     (\<exists>c \<in> C. registry_key X (rc_project c) (rc_secret c) = k \<and> t = rc_now c + CACHE_TTL \<and> v = says_valid c))"

lemma registry_get_Some: "registry_get now k c = Some v \<longleftrightarrow> (\<exists>t. c k = Some (v, t) \<and> now < t)"
  by (auto simp: registry_get_def split: option.splits)

lemma call_cache_from: "cache_from X C cache \<Longrightarrow> cache_from X (insert c C) (snd (call X c cache))"
  by (cases cache)
    (auto simp: call_def is_authenticated_def Let_def cache_from_def authenticate_200 split: option.splits sum.splits if_splits)

lemma cache_after_from: "cache_from X C cache \<Longrightarrow> cache_from X (C \<union> set cs) (cache_after X cs cache)"
proof (induction cs arbitrary: C cache)
  case (Cons c cs)
  from Cons.IH [OF call_cache_from [OF Cons.prems]] show ?case by (simp add: cache_after_def)
qed (simp add: cache_after_def)

text \<open>
  A project is authenticated only by the registry: whatever calls came before, starting from an
  empty cache, a positive answer to a call means that the registry said yes to this call, or, less
  than 30 minutes ago, to an earlier call whose project id and secret, written one after the other,
  have the same SHA-256.
\<close>

theorem registry_answer_sound:
  assumes "cache = None \<or> cache = Some Map.empty"
    and "call X c (cache_after X cs cache) = (Inr True, cache')"
  shows "says_valid c \<or> (\<exists>e \<in> set cs. says_valid e \<and> rc_now c < rc_now e + CACHE_TTL \<and>
    sha256_digest X (as_bytes (rc_project e @ rc_secret e)) = sha256_digest X (as_bytes (rc_project c @ rc_secret c)))"
proof -
  let ?k = "registry_key X (rc_project c) (rc_secret c)" and ?m = "cache_after X cs cache"
  have "cache_from X {} cache" using assms(1) by (auto simp: cache_from_def)
  from cache_after_from [OF this] have inv: "cache_from X (set cs) ?m" by simp
  show ?thesis
  proof (cases "Option.bind ?m (registry_get (rc_now c) ?k)")
    case None
    then show ?thesis
      using assms(2) authenticate_200 [of c] by (auto simp: call_def is_authenticated_def Let_def split: sum.splits)
  next
    case (Some v)
    then have "v" using assms(2) by (simp add: call_def is_authenticated_def Let_def)
    with Some obtain m t where "?m = Some m" "m ?k = Some (True, t)" "rc_now c < t"
      by (auto simp: registry_get_Some bind_eq_Some_conv)
    then show ?thesis using inv by (fastforce simp: cache_from_def registry_key_def)
  qed
qed

definition call_demo :: "datetime \<Rightarrow> bool \<Rightarrow> string \<Rightarrow> string \<Rightarrow> registry_call" where
  "call_demo now valid p s = \<lparr> rc_now = now, rc_http = (\<lambda>_ _. Inr (200, Inr valid)), rc_project = p, rc_secret = s \<rparr>"

theorem registry_answer_sound_witness:
  "says_valid (call_demo 5 True ''p'' ''s'') \<or> (\<exists>e \<in> set [call_demo 0 True ''p'' ''s'']. says_valid e \<and>
     rc_now (call_demo 5 True ''p'' ''s'') < rc_now e + CACHE_TTL)"
  using registry_answer_sound [of "Some Map.empty" ext_demo "call_demo 5 True ''p'' ''s''" "[call_demo 0 True ''p'' ''s'']"
      "snd (call ext_demo (call_demo 5 True ''p'' ''s'') (cache_after ext_demo [call_demo 0 True ''p'' ''s''] (Some Map.empty)))"]
  by (auto simp: call_def cache_after_def is_authenticated_def call_demo_def registry_get_def authenticate_def
      CACHE_TTL_def Let_def)

text \<open>
  The cache key joins project id and secret without a separator. Once the registry has accepted a
  project id \<open>p @ x\<close> with secret \<open>s\<close>, the extractor accepts, for 30 minutes and without asking the
  registry, the project id \<open>p\<close> with secret \<open>x @ s\<close>, even if the registry rejects that pair.
\<close>

theorem registry_cache_confuses:
  assumes "http (p @ x) s = Inr (200, Inr True)" "c (registry_key X (p @ x) s) = None"
    and "now \<le> later" "later < now + CACHE_TTL"
  shows "fst (from_request_parts X later http' (Some [''project_id'' \<mapsto> p]) (Some (x @ s))
    (snd (is_authenticated X now http (p @ x) s (Some c)))) = Inr (p, x @ s)"
  using assms
  by (simp add: from_request_parts_def is_authenticated_def authenticate_def registry_get_def registry_key_def Let_def)

theorem registry_cache_confuses_witness:
  "fst (from_request_parts ext_demo 10 (\<lambda>_ _. Inr (200, Inr False)) (Some [''project_id'' \<mapsto> ''pro'']) (Some ''jectsecret'')
     (snd (is_authenticated ext_demo 0 (\<lambda>p s. Inr (200, Inr (p = ''project''))) ''project'' ''secret'' (Some Map.empty))))
   = Inr (''pro'', ''jectsecret'')"
  using registry_cache_confuses [where p = "''pro''" and x = "''ject''" and s = "''secret''" and now = 0 and later = 10
      and c = Map.empty and X = ext_demo and http = "\<lambda>p s. Inr (200, Inr (p = ''project''))"
      and http' = "\<lambda>_ _. Inr (200, Inr False)"]
  by (simp add: CACHE_TTL_def)

end
