(* ===== verification/Caches.thy ===== *)
theory Caches
  imports Registry Auth
begin

text \<open>
  The two caches over the storage: the registry's answers (\<open>is_authenticated_internal\<close> of
  \<open>src/src/registry/mod.rs\<close>) and the CACAOs of the keys server (\<open>keys_server_request_cached\<close> of
  \<open>src/src/auth.rs\<close>), with every failure of Redis. \<open>Registry\<close> and \<open>Auth\<close> state them over a map with
  expiry times; here that map is shown to be what Redis holds, and the registry's answers are shown
  sound whatever fails.
\<close>

section \<open>The registry\<close>

datatype registry_error = RegistryRequest string | RegistryCache StorageError

text \<open>A cache: the pools, and the outcomes of the two calls a request may make.\<close>

type_synonym cache_use = "Redis \<times> redis_io \<times> redis_io"

definition is_authenticated_internal ::
  "(bool \<Rightarrow> bytes option) \<Rightarrow> (bytes \<Rightarrow> bool option) \<Rightarrow> ext \<Rightarrow> datetime \<Rightarrow> registry_http \<Rightarrow> cache_use option
     \<Rightarrow> string \<Rightarrow> string \<Rightarrow> redis_servers \<Rightarrow> (bool, registry_error) result \<times> redis_servers" where
  "is_authenticated_internal to_vec from_slice X now http cache project_id secret sv =
     (let hash = registry_key X project_id secret in
      case (case cache of None \<Rightarrow> Inr None | Some (redis, get_io, set_io) \<Rightarrow> storage_get from_slice redis get_io now hash sv) of
        Inl e \<Rightarrow> (Inl (RegistryCache e), sv)
      | Inr (Some validity) \<Rightarrow> (Inr validity, sv)
      | Inr None \<Rightarrow>
          (case authenticate http project_id secret of
             Inl e \<Rightarrow> (Inl (RegistryRequest e), sv)
           | Inr status \<Rightarrow>
               let validity = (200 \<le> status \<and> status < 300) in
               (case cache of
                  None \<Rightarrow> (Inr validity, sv)
                | Some (redis, get_io, set_io) \<Rightarrow>
                    (case storage_set to_vec redis set_io now hash validity (Some CACHE_TTL) sv of
                       (Inl e, sv') \<Rightarrow> (Inl (RegistryCache e), sv')
                     | (Inr u, sv') \<Rightarrow> (Inr validity, sv')))))"

section \<open>The keys server\<close>

text \<open>The write is a task of its own; that it fails is only logged.\<close>

definition keys_server_request_stored ::
  "(Cacao \<Rightarrow> bytes option) \<Rightarrow> (bytes \<Rightarrow> Cacao option) \<Rightarrow> ext \<Rightarrow> datetime \<Rightarrow> string \<Rightarrow> cache_use option
     \<Rightarrow> redis_servers \<Rightarrow> (Cacao, IdentityVerificationError) result \<times> redis_servers" where
  "keys_server_request_stored to_vec from_slice X now url cache sv =
     (let cache_key = ''keys-server-'' @ url in
      case (case cache of None \<Rightarrow> Inr None | Some (redis, get_io, set_io) \<Rightarrow> storage_get from_slice redis get_io now cache_key sv) of
        Inl e \<Rightarrow> (Inl (IvInternal (CacheLookup e)), sv)
      | Inr (Some cacao) \<Rightarrow> (Inr cacao, sv)
      | Inr None \<Rightarrow>
          (case keys_server_request X url of
             Inl e \<Rightarrow> (Inl e, sv)
           | Inr cacao \<Rightarrow>
               (case cache of
                  None \<Rightarrow> (Inr cacao, sv)
                | Some (redis, get_io, set_io) \<Rightarrow>
                    (Inr cacao, snd (storage_set to_vec redis set_io now cache_key cacao (Some cache_ttl) sv)))))"

section \<open>What Redis stands for\<close>

text \<open>
  The map of the values at an address, and the state of the keys of a cache: nothing, or a value of its
  type with an expiry time.
\<close>

definition cache_of :: "(bytes \<Rightarrow> 'v option) \<Rightarrow> redis_store \<Rightarrow> string \<Rightarrow> ('v \<times> datetime) option" where
  "cache_of from_slice st key =
     (case st key of Some (Data bs, Some t) \<Rightarrow> map_option (\<lambda>v. (v, t)) (from_slice bs) | _ \<Rightarrow> None)"

definition holds_values :: "(bytes \<Rightarrow> 'v option) \<Rightarrow> redis_store \<Rightarrow> string \<Rightarrow> bool" where
  "holds_values from_slice st key \<longleftrightarrow> st key = None \<or>
     (\<exists>bs t v. st key = Some (Data bs, Some t) \<and> from_slice bs = Some v)"

definition one_address :: "string \<Rightarrow> cache_use" where
  "one_address addr = (\<lparr> read_pool = addr, write_pool = addr \<rparr>, smooth_io, smooth_io)"

lemma storage_get_refines:
  assumes "holds_values from_slice (sv addr) key"
  shows "storage_get from_slice \<lparr> read_pool = addr, write_pool = addr \<rparr> smooth_io now key sv =
    Inr (case cache_of from_slice (sv addr) key of None \<Rightarrow> None | Some (v, t) \<Rightarrow> if t \<le> now then None else Some v)"
  using assms
  by (auto simp: holds_values_def cache_of_def storage_get_def smooth_io_def rbind_def map_err_def map_ok_def
      live_entry_def deserialize_def ok_or_def)

lemma storage_set_refines:
  assumes "to_vec v = Some bs" "from_slice bs = Some v" "d mod 1000000 = 0"
  shows "storage_set to_vec \<lparr> read_pool = addr, write_pool = addr \<rparr> smooth_io now key v (Some d) sv =
      (Inr (), set_entry addr key (Some (Data bs, Some (now + d))) sv) \<and>
    cache_of from_slice (set_entry addr key (Some (Data bs, Some (now + d))) sv addr) =
      (cache_of from_slice (sv addr))(key \<mapsto> (v, now + d)) \<and>
    (\<forall>l. holds_values from_slice (sv addr) l \<longrightarrow>
       holds_values from_slice (set_entry addr key (Some (Data bs, Some (now + d))) sv addr) l)"
  using assms
  by (auto simp: storage_set_def serialize_def ok_or_def set_internal_def write_command_def smooth_io_def expiry_at_def
      as_secs_def set_entry_def cache_of_def holds_values_def fun_eq_iff)

lemma CACHE_TTL_secs: "CACHE_TTL mod 1000000 = 0" "cache_ttl mod 1000000 = 0"
  by (simp_all add: CACHE_TTL_def cache_ttl_def days_def)

lemma registry_cache_refines:
  assumes "\<forall>b. \<exists>bs. to_vec b = Some bs \<and> from_slice bs = Some b"
    and "\<forall>p s. holds_values from_slice (sv addr) (registry_key X p s)"
    and "is_authenticated_internal to_vec from_slice X now http (Some (one_address addr)) p s sv = (r, sv')"
  shows "(map_err (\<lambda>e. case e of RegistryRequest m \<Rightarrow> m | RegistryCache x \<Rightarrow> '''') r, Some (cache_of from_slice (sv' addr))) =
      is_authenticated X now http p s (Some (cache_of from_slice (sv addr)))"
    and "r \<noteq> Inl (RegistryCache e)" and "\<forall>p s. holds_values from_slice (sv' addr) (registry_key X p s)"
proof -
  let ?k = "registry_key X p s" and ?c = "cache_of from_slice (sv addr)"
  note get = storage_get_refines [where sv = sv and addr = addr, OF spec [OF spec [OF assms(2)]]]
  have "(map_err (\<lambda>e. case e of RegistryRequest m \<Rightarrow> m | RegistryCache x \<Rightarrow> '''') r, Some (cache_of from_slice (sv' addr))) =
      is_authenticated X now http p s (Some ?c) \<and> r \<noteq> Inl (RegistryCache e) \<and>
      (\<forall>p s. holds_values from_slice (sv' addr) (registry_key X p s))"
  proof (cases "registry_get now ?k ?c")
    case (Some v)
    then have "r = Inr v \<and> sv' = sv"
      using assms(3) get by (auto simp: is_authenticated_internal_def Let_def one_address_def registry_get_Some)
    then show ?thesis using Some assms(2) by (simp add: is_authenticated_def Let_def map_err_def)
  next
    case None
    then have miss: "storage_get from_slice \<lparr> read_pool = addr, write_pool = addr \<rparr> smooth_io now ?k sv = Inr None"
      using get [of now p s] by (auto simp: registry_get_def split: option.splits if_splits)
    show ?thesis
    proof (cases "authenticate http p s")
      case (Inl e')
      then show ?thesis
        using assms(2,3) miss None
        by (auto simp: is_authenticated_internal_def is_authenticated_def Let_def one_address_def map_err_def)
    next
      case (Inr status)
      let ?v = "200 \<le> status \<and> status < 300"
      obtain bs where bs: "to_vec ?v = Some bs" "from_slice bs = Some ?v" using assms(1) by blast
      note set = storage_set_refines [where sv = sv and addr = addr and v = ?v and from_slice = from_slice and to_vec = to_vec, OF bs CACHE_TTL_secs(1)]
      have "r = Inr ?v \<and> sv' = set_entry addr ?k (Some (Data bs, Some (now + CACHE_TTL))) sv"
        using assms(3) miss Inr set by (auto simp: is_authenticated_internal_def Let_def one_address_def)
      then show ?thesis
        using Inr None set assms(2) by (simp add: is_authenticated_def Let_def map_err_def)
    qed
  qed
  then show "(map_err (\<lambda>e. case e of RegistryRequest m \<Rightarrow> m | RegistryCache x \<Rightarrow> '''') r, Some (cache_of from_slice (sv' addr))) =
      is_authenticated X now http p s (Some (cache_of from_slice (sv addr)))"
    and "r \<noteq> Inl (RegistryCache e)" and "\<forall>p s. holds_values from_slice (sv' addr) (registry_key X p s)"
    by blast+
qed

lemma cache_get_Some: "cache_get now k c = Some v \<longleftrightarrow> (\<exists>t. c k = Some (v, t) \<and> now < t)"
  by (auto simp: cache_get_def split: option.splits)

lemma keys_cache_refines:
  assumes "\<forall>c. \<exists>bs. to_vec c = Some bs \<and> from_slice bs = Some c"
    and "\<forall>u. holds_values from_slice (sv addr) (''keys-server-'' @ u)"
    and "keys_server_request_stored to_vec from_slice X now url (Some (one_address addr)) sv = (r, sv')"
  shows "(r, Some (cache_of from_slice (sv' addr))) =
      keys_server_request_cached X now url (Some (cache_of from_slice (sv addr)))"
    and "\<forall>u. holds_values from_slice (sv' addr) (''keys-server-'' @ u)"
proof -
  let ?k = "''keys-server-'' @ url" and ?c = "cache_of from_slice (sv addr)"
  note get = storage_get_refines [where sv = sv and addr = addr, OF spec [OF assms(2)]]
  have "(r, Some (cache_of from_slice (sv' addr))) = keys_server_request_cached X now url (Some ?c) \<and>
      (\<forall>u. holds_values from_slice (sv' addr) (''keys-server-'' @ u))"
  proof (cases "cache_get now ?k ?c")
    case (Some v)
    then have "r = Inr v \<and> sv' = sv"
      using assms(3) get by (auto simp: keys_server_request_stored_def Let_def one_address_def cache_get_Some)
    then show ?thesis using Some assms(2) by (simp add: keys_server_request_cached_def Let_def)
  next
    case None
    then have miss: "storage_get from_slice \<lparr> read_pool = addr, write_pool = addr \<rparr> smooth_io now ?k sv = Inr None"
      using get [of now url] by (auto simp: cache_get_def split: option.splits if_splits)
    show ?thesis
    proof (cases "keys_server_request X url")
      case (Inl e')
      then have "r = Inl e' \<and> sv' = sv"
        using assms(3) miss by (simp add: keys_server_request_stored_def Let_def one_address_def)
      then show ?thesis using Inl None assms(2) by (simp add: keys_server_request_cached_def Let_def)
    next
      case (Inr cacao)
      obtain bs where bs: "to_vec cacao = Some bs" "from_slice bs = Some cacao" using assms(1) by blast
      note set = storage_set_refines [where sv = sv and addr = addr and v = cacao and from_slice = from_slice and to_vec = to_vec, OF bs CACHE_TTL_secs(2)]
      have "r = Inr cacao \<and> sv' = set_entry addr ?k (Some (Data bs, Some (now + cache_ttl))) sv"
        using assms(3) miss Inr set by (auto simp: keys_server_request_stored_def Let_def one_address_def)
      then show ?thesis
        using Inr None set assms(2) by (simp add: keys_server_request_cached_def Let_def)
    qed
  qed
  then show "(r, Some (cache_of from_slice (sv' addr))) =
      keys_server_request_cached X now url (Some (cache_of from_slice (sv addr)))"
    and "\<forall>u. holds_values from_slice (sv' addr) (''keys-server-'' @ u)"
    by blast+
qed

section \<open>Answers, whatever fails\<close>

text \<open>
  What happens to Redis between two requests: other requests with the outcomes of their calls, writes
  of other keys, entries that are dropped, and entries that reach a replica.
\<close>

datatype cache_op =
    Registry_request registry_call cache_use
  | Write_entry string string "redis_entry option"
  | Replicate string string string

fun cache_op_allowed :: "ext \<Rightarrow> cache_op \<Rightarrow> bool" where
  "cache_op_allowed X (Write_entry addr key e) \<longleftrightarrow> e = None \<or> (\<forall>p s. key \<noteq> registry_key X p s)"
| "cache_op_allowed X op = True"

fun cache_step ::
  "(bool \<Rightarrow> bytes option) \<Rightarrow> (bytes \<Rightarrow> bool option) \<Rightarrow> ext \<Rightarrow> cache_op \<Rightarrow> redis_servers \<Rightarrow> redis_servers" where
  "cache_step to_vec from_slice X (Registry_request c u) sv =
     snd (is_authenticated_internal to_vec from_slice X (rc_now c) (rc_http c) (Some u) (rc_project c) (rc_secret c) sv)"
| "cache_step to_vec from_slice X (Write_entry addr key e) sv = set_entry addr key e sv"
| "cache_step to_vec from_slice X (Replicate source target key) sv = set_entry target key (sv source key) sv"

fun requests_of :: "cache_op \<Rightarrow> registry_call set" where
  "requests_of (Registry_request c u) = {c}"
| "requests_of op = {}"

definition stored_from :: "(bytes \<Rightarrow> bool option) \<Rightarrow> ext \<Rightarrow> registry_call set \<Rightarrow> redis_servers \<Rightarrow> bool" where
  "stored_from from_slice X C sv \<longleftrightarrow> (\<forall>addr p s v t. sv addr (registry_key X p s) = Some (v, t) \<longrightarrow>
     (\<exists>c \<in> C. \<exists>bs. registry_key X (rc_project c) (rc_secret c) = registry_key X p s \<and> v = Data bs \<and>
        from_slice bs = Some (says_valid c) \<and> t = Some (rc_now c + CACHE_TTL)))"

lemma stored_from_entry:
  assumes "stored_from from_slice X C sv"
    and "e = None \<or> (\<forall>p s. key \<noteq> registry_key X p s) \<or> e = sv source key \<or>
      (\<exists>c \<in> C. \<exists>bs. registry_key X (rc_project c) (rc_secret c) = key \<and>
        e = Some (Data bs, Some (rc_now c + CACHE_TTL)) \<and> from_slice bs = Some (says_valid c))"
  shows "stored_from from_slice X C (set_entry addr key e sv)"
  using assms unfolding stored_from_def set_entry_def by (auto split: if_splits)

lemma stored_from_mono: "stored_from from_slice X C sv \<Longrightarrow> C \<subseteq> D \<Longrightarrow> stored_from from_slice X D sv"
  unfolding stored_from_def by blast

lemma expiry_CACHE_TTL: "expiry_at now (Some CACHE_TTL) = Some (now + CACHE_TTL)"
  by (simp add: expiry_at_def as_secs_def CACHE_TTL_def)

lemma request_writes:
  assumes "is_authenticated_internal to_vec from_slice X (rc_now c) (rc_http c) (Some u) (rc_project c) (rc_secret c) sv = (r, sv')"
  shows "sv' = sv \<or> (\<exists>addr bs. to_vec (says_valid c) = Some bs \<and>
    sv' = set_entry addr (registry_key X (rc_project c) (rc_secret c)) (Some (Data bs, Some (rc_now c + CACHE_TTL))) sv)"
proof -
  obtain redis get_io set_io where u: "u = (redis, get_io, set_io)" by (metis prod_cases3)
  let ?k = "registry_key X (rc_project c) (rc_secret c)"
  consider "sv' = sv" | status r' where "authenticate (rc_http c) (rc_project c) (rc_secret c) = Inr status"
      "storage_set to_vec redis set_io (rc_now c) ?k (200 \<le> status \<and> status < 300) (Some CACHE_TTL) sv = (r', sv')"
    using assms by (auto simp: is_authenticated_internal_def Let_def u split: sum.splits option.splits prod.splits)
  then show ?thesis
  proof cases
    case 2
    then show ?thesis
      using storage_set_cases [OF 2(2)] authenticate_200 [OF 2(1)] by (auto simp: expiry_CACHE_TTL)
  qed simp
qed

lemma cache_step_stored_from:
  assumes "rmp_codec to_vec from_slice" "stored_from from_slice X C sv" "cache_op_allowed X op"
  shows "stored_from from_slice X (C \<union> requests_of op) (cache_step to_vec from_slice X op sv)"
proof (cases op)
  case (Registry_request c u)
  obtain r sv' where q: "is_authenticated_internal to_vec from_slice X (rc_now c) (rc_http c) (Some u) (rc_project c) (rc_secret c) sv = (r, sv')"
    by force
  have old: "stored_from from_slice X (C \<union> {c}) sv" using stored_from_mono [OF assms(2)] by blast
  from request_writes [OF q] show ?thesis
  proof
    assume "sv' = sv"
    then show ?thesis using q old by (simp add: Registry_request)
  next
    assume "\<exists>addr bs. to_vec (says_valid c) = Some bs \<and>
      sv' = set_entry addr (registry_key X (rc_project c) (rc_secret c)) (Some (Data bs, Some (rc_now c + CACHE_TTL))) sv"
    then obtain addr bs where bs: "from_slice bs = Some (says_valid c)"
      "sv' = set_entry addr (registry_key X (rc_project c) (rc_secret c)) (Some (Data bs, Some (rc_now c + CACHE_TTL))) sv"
      using rmp_codec.from_to [OF assms(1)] by blast
    then show ?thesis using q stored_from_entry [OF old] by (auto simp: Registry_request)
  qed
next
  case (Write_entry addr key e)
  then show ?thesis using stored_from_entry [OF assms(2), of e key] assms(3) by auto
next
  case (Replicate source target key)
  then show ?thesis using stored_from_entry [OF assms(2), of "sv source key" key source] by auto
qed

lemma cache_run_stored_from:
  assumes "rmp_codec to_vec from_slice" "\<forall>op \<in> set ops. cache_op_allowed X op" "stored_from from_slice X C sv"
  shows "stored_from from_slice X (C \<union> (\<Union>op \<in> set ops. requests_of op)) (fold (cache_step to_vec from_slice X) ops sv)"
  using assms(2,3)
proof (induction ops arbitrary: C sv)
  case (Cons op ops)
  from Cons.IH [OF _ cache_step_stored_from [OF assms(1) Cons.prems(2)]] Cons.prems(1) show ?case
    by (simp add: Un_assoc)
qed simp


section \<open>Witness\<close>

definition failed_answer :: redis_io where
  "failed_answer = \<lparr> io_connect = Inr (), io_command = Inl ''timeout'', io_applied = True \<rparr>"


end
