(* ===== verification/Relay_Errors.thy ===== *)
theory Relay_Errors
  imports Http
begin

text \<open>
  The errors of the relay messages' handlers
  (\<open>src/src/services/public_http_server/handlers/relay_webhook/error.rs\<close>), their conversion to
  JSON-RPC errors, and the actions and times to live of \<open>src/src/spec.rs\<close>. The texts that quote
  errors of other libraries are fields of the environment.
\<close>

section \<open>Actions, methods and times to live\<close>

definition NOTIFY_SUBSCRIPTIONS_CHANGED_METHOD :: string where
  "NOTIFY_SUBSCRIPTIONS_CHANGED_METHOD = ''wc_notifySubscriptionsChanged''"

definition NOTIFY_SUBSCRIBE_RESPONSE_TTL :: nat where "NOTIFY_SUBSCRIBE_RESPONSE_TTL = T2592000"
definition NOTIFY_DELETE_RESPONSE_TTL :: nat where "NOTIFY_DELETE_RESPONSE_TTL = T2592000"
definition NOTIFY_UPDATE_RESPONSE_TTL :: nat where "NOTIFY_UPDATE_RESPONSE_TTL = T2592000"
definition NOTIFY_WATCH_SUBSCRIPTIONS_RESPONSE_TTL :: nat where "NOTIFY_WATCH_SUBSCRIPTIONS_RESPONSE_TTL = T300"
definition NOTIFY_SUBSCRIPTIONS_CHANGED_TTL :: nat where "NOTIFY_SUBSCRIPTIONS_CHANGED_TTL = T300"
definition NOTIFY_GET_NOTIFICATIONS_RESPONSE_TTL :: nat where "NOTIFY_GET_NOTIFICATIONS_RESPONSE_TTL = T300"
definition NOTIFY_MARK_NOTIFICATIONS_AS_READ_RESPONSE_TTL :: nat where
  "NOTIFY_MARK_NOTIFICATIONS_AS_READ_RESPONSE_TTL = T300"

definition NOTIFY_WATCH_SUBSCRIPTIONS_ACT :: string where "NOTIFY_WATCH_SUBSCRIPTIONS_ACT = ''notify_watch_subscriptions''"
definition NOTIFY_WATCH_SUBSCRIPTIONS_RESPONSE_ACT :: string where
  "NOTIFY_WATCH_SUBSCRIPTIONS_RESPONSE_ACT = ''notify_watch_subscriptions_response''"
definition NOTIFY_SUBSCRIPTIONS_CHANGED_ACT :: string where
  "NOTIFY_SUBSCRIPTIONS_CHANGED_ACT = ''notify_subscriptions_changed''"
definition NOTIFY_SUBSCRIBE_ACT :: string where "NOTIFY_SUBSCRIBE_ACT = ''notify_subscription''"
definition NOTIFY_SUBSCRIBE_RESPONSE_ACT :: string where "NOTIFY_SUBSCRIBE_RESPONSE_ACT = ''notify_subscription_response''"
definition NOTIFY_UPDATE_ACT :: string where "NOTIFY_UPDATE_ACT = ''notify_update''"
definition NOTIFY_UPDATE_RESPONSE_ACT :: string where "NOTIFY_UPDATE_RESPONSE_ACT = ''notify_update_response''"
definition NOTIFY_DELETE_ACT :: string where "NOTIFY_DELETE_ACT = ''notify_delete''"
definition NOTIFY_DELETE_RESPONSE_ACT :: string where "NOTIFY_DELETE_RESPONSE_ACT = ''notify_delete_response''"
definition NOTIFY_GET_NOTIFICATIONS_ACT :: string where "NOTIFY_GET_NOTIFICATIONS_ACT = ''notify_get_notifications''"
definition NOTIFY_GET_NOTIFICATIONS_RESPONSE_ACT :: string where
  "NOTIFY_GET_NOTIFICATIONS_RESPONSE_ACT = ''notify_get_notifications_response''"
definition NOTIFY_MARK_NOTIFICATIONS_AS_READ_ACT :: string where
  "NOTIFY_MARK_NOTIFICATIONS_AS_READ_ACT = ''notify_mark_notifications_as_read''"
definition NOTIFY_MARK_NOTIFICATIONS_AS_READ_RESPONSE_ACT :: string where
  "NOTIFY_MARK_NOTIFICATIONS_AS_READ_RESPONSE_ACT = ''notify_mark_notifications_as_read_response''"

section \<open>Errors\<close>

datatype GetAuthenticationClientIdError = GaDecodeKey DecodeKeyError | ParseVerifyingKey

datatype CheckAppAuthorizationError = AppNotAuthorizedFor "string option" string

datatype CollectSubscriptionsError = CsSqlx sqlx_error | CsDecodeKey DecodeKeyError

datatype PrepareSubscriptionWatchersError =
    PsCollectSubscriptions CollectSubscriptionsError
  | GetSubscriptionWatchersForAccountByAppOrAllApp sqlx_error

datatype SubscriptionWatcherSendError =
    SwDecodeKey DecodeKeyError
  | SwEnvelopeEncryption
  | SwRelayPublish PublishError

datatype RelayMessageClientError =
    WrongNotifySubscribeTopic topic
  | WrongNotifyWatchSubscriptionsTopic topic
  | SubscriptionWatcherLimitReached
  | WrongNotifyUpdateTopic topic
  | WrongNotifyDeleteTopic topic
  | WrongNotifyGetNotificationsTopic topic
  | WrongNotifyMarkNotificationsAsReadTopic topic
  | NotifyWatchSubscriptionsAppDomainNotFound string
  | AppDoesNotMatch
  | RcDecodeMessage string
  | RcEnvelopeParse EnvelopeParseError
  | RcDecryption
  | RcJsonDeserialization string
  | RcRateLimitExceeded int
  | AppSubscriptionsUnauthorized
  | RcJwt JwtError
  | RcIdentityVerification IdentityVerificationClientError
  | RcAppNotAuthorized CheckAppAuthorizationError
  | AccountNotAuthorized
  | TopicDoesNotMatchKey

datatype RelayMessageServerError =
    RsNotifyServer NotifyServerError
  | RsIdentityVerification IdentityVerificationInternalError
  | RsEnvelopeEncryption
  | RsDecodeKey DecodeKeyError
  | RsDeriveKey DeriveKeyError
  | RsGetAuthenticationClientId GetAuthenticationClientIdError
  | RsCollectSubscriptions CollectSubscriptionsError
  | RsPrepareSubscriptionWatchers PrepareSubscriptionWatchersError
  | RsSubscriptionWatcherSend SubscriptionWatcherSendError

datatype RelayMessageError = Client RelayMessageClientError | Server RelayMessageServerError

text \<open>The conversion of \<open>IdentityVerificationError\<close>. A panic is not an error value; it does not get here.\<close>

fun identity_error :: "IdentityVerificationError \<Rightarrow> RelayMessageError" where
  "identity_error (IvClient e) = Client (RcIdentityVerification e)"
| "identity_error (IvInternal e) = Server (RsIdentityVerification e)"
| "identity_error VerifyPanic = Server (RsNotifyServer InvalidAccount)"

definition check_app_text :: "env \<Rightarrow> CheckAppAuthorizationError \<Rightarrow> string" where
  "check_app_text E e =
     (case e of AppNotAuthorizedFor requested authorized \<Rightarrow>
        ''Requested app '' @
        (case requested of None \<Rightarrow> ''None'' | Some r \<Rightarrow> ''Some('' @ en_debug_text E r @ '')'') @
        '' is not authorized for '' @ authorized)"

definition client_error_text :: "env \<Rightarrow> RelayMessageClientError \<Rightarrow> string" where
  "client_error_text E e =
     (case e of
        WrongNotifySubscribeTopic t \<Rightarrow> ''No project found associated with topic '' @ t
      | WrongNotifyWatchSubscriptionsTopic t \<Rightarrow> ''Received 4010 on wrong topic: '' @ t
      | SubscriptionWatcherLimitReached \<Rightarrow> ''Subscription watcher limit reached''
      | WrongNotifyUpdateTopic t \<Rightarrow> ''Received 4008 on unrecognized topic: '' @ t
      | WrongNotifyDeleteTopic t \<Rightarrow> ''Received 4004 on unrecognized topic: '' @ t
      | WrongNotifyGetNotificationsTopic t \<Rightarrow> ''Received 4014 on unrecognized topic: '' @ t
      | WrongNotifyMarkNotificationsAsReadTopic t \<Rightarrow> ''Received 4016 on unrecognized topic: '' @ t
      | NotifyWatchSubscriptionsAppDomainNotFound a \<Rightarrow> ''No project found associated with app_domain '' @ a
      | AppDoesNotMatch \<Rightarrow> ''The requested app does not match the project'' @ [CHR 0x27] @ ''s app domain''
      | RcDecodeMessage m \<Rightarrow> ''Decode message: '' @ m
      | RcEnvelopeParse EnvelopeTooShort \<Rightarrow> ''Could not parse message envelope: Envelope too short''
      | RcDecryption \<Rightarrow> ''Decryption error: '' @ en_aead_text E
      | RcJsonDeserialization m \<Rightarrow> ''JSON deserialization error: '' @ m
      | RcRateLimitExceeded r \<Rightarrow> ''Rate limit exceeded. Try again at '' @ int_to_string r
      | AppSubscriptionsUnauthorized \<Rightarrow> ''Not authorized to control that app'' @ [CHR 0x27] @ ''s subscriptions''
      | RcJwt j \<Rightarrow> ''JWT parse/verification error: '' @ en_jwt_text E j
      | RcIdentityVerification i \<Rightarrow> ''Identity key verification: '' @ en_identity_text E i
      | RcAppNotAuthorized c \<Rightarrow> check_app_text E c
      | AccountNotAuthorized \<Rightarrow> ''The account authenticated cannot control this subscription''
      | TopicDoesNotMatchKey \<Rightarrow>
          ''Message received on topic, but the key associated with that topic does not hash to the topic'')"

fun to_json_rpc_error :: "env \<Rightarrow> RelayMessageError \<Rightarrow> JsonRpcError" where
  "to_json_rpc_error E (Client e) = \<lparr> je_code = -1, je_message = client_error_text E e \<rparr>"
| "to_json_rpc_error E (Server e) = \<lparr> je_code = -32000, je_message = ''Internal server error'' \<rparr>"

type_synonym 'a relay = "('a, RelayMessageError) handler"

text \<open>\<open>map_err(|e| RelayMessageServerError::NotifyServer(e.into()))\<close> and the like.\<close>

definition server_sqlx :: "sqlx_error \<Rightarrow> RelayMessageError" where
  "server_sqlx e = Server (RsNotifyServer (Sqlx e))"

definition not_found_or_server :: "RelayMessageClientError \<Rightarrow> sqlx_error \<Rightarrow> RelayMessageError" where
  "not_found_or_server missing e = (case e of RowNotFound \<Rightarrow> Client missing | _ \<Rightarrow> server_sqlx e)"

end
