(* ===== verification/Relay_Watchers.thy ===== *)
theory Relay_Watchers
  imports Relay_Errors
begin

text \<open>
  What the relay messages' handlers share
  (\<open>src/src/services/public_http_server/handlers/relay_webhook\<close>): opening and answering messages, the
  authorization of a request, and the subscriptions sent to a client and to the account's watchers
  (\<open>handlers/notify_watch_subscriptions.rs\<close>). The handlers repeat the first group of steps; here each
  step has one definition.
\<close>

section \<open>Messages\<close>

definition relay_rate_limit :: "env \<Rightarrow> string \<Rightarrow> int \<Rightarrow> int \<Rightarrow> int \<Rightarrow> unit relay" where
  "relay_rate_limit E key max_tokens interval refill_rate =
     h_token_bucket E (\<lambda>reset. Client (RcRateLimitExceeded reset)) key max_tokens interval refill_rate"

definition get_authentication_client_id :: "ext \<Rightarrow> project_row \<Rightarrow> (bytes, GetAuthenticationClientIdError) result" where
  "get_authentication_client_id X p =
     rbind (map_err GaDecodeKey (decode_key X (p_authentication_public_key p))) (\<lambda>key.
     rbind (guard_err (\<not> ed25519_public_key_ok X key) ParseVerifyingKey) (\<lambda>_.
       Inr (get_client_id key)))"

definition relay_client_id :: "env \<Rightarrow> project_row \<Rightarrow> bytes relay" where
  "relay_client_id E project =
     h_lift (\<lambda>e. Server (RsGetAuthenticationClientId e)) (get_authentication_client_id (en_ext E) project)"

definition relay_decode_key :: "env \<Rightarrow> string \<Rightarrow> bytes relay" where
  "relay_decode_key E key = h_lift (\<lambda>e. Server (RsDecodeKey e)) (decode_key (en_ext E) key)"

fun decrypt_error :: "DecryptError \<Rightarrow> RelayMessageError" where
  "decrypt_error Decryption = Client RcDecryption"
| "decrypt_error (JsonDeserialization m) = Client (RcJsonDeserialization m)"

definition relay_decrypt :: "env \<Rightarrow> string \<Rightarrow> bytes \<Rightarrow> bytes \<Rightarrow> bytes \<Rightarrow> string JsonRpcRequest relay" where
  "relay_decrypt E field nonce box key =
     h_lift decrypt_error (decrypt_message (en_ext E) (auth_from_json field) nonce box key)"

definition relay_envelope :: "env \<Rightarrow> (bytes \<Rightarrow> ('o, EnvelopeParseError) result) \<Rightarrow> RelayIncomingMessage \<Rightarrow> 'o relay" where
  "relay_envelope E from_bytes msg =
     h_bind (h_lift (\<lambda>e. Client (RcDecodeMessage e)) (b64_std_decode (en_ext E) (rm_message msg))) (\<lambda>bytes.
       h_lift (\<lambda>e. Client (RcEnvelopeParse e)) (from_bytes bytes))"

text \<open>The subscriber and the project of a message on a subscriber's topic.\<close>

definition relay_subscriber ::
  "env \<Rightarrow> (topic \<Rightarrow> RelayMessageClientError) \<Rightarrow> RelayIncomingMessage \<Rightarrow> (SubscriberWithScope \<times> project_row) relay" where
  "relay_subscriber E wrong_topic msg =
     h_bind (h_query (not_found_or_server (wrong_topic (rm_topic msg)))
               (get_subscriber_by_topic (en_ext E) (rm_topic msg))) (\<lambda>subscriber.
     h_bind (h_query server_sqlx (get_project_by_id (sws_project subscriber))) (\<lambda>project.
       h_return (subscriber, project)))"

text \<open>From the decoding of the message to its decryption under the subscriber's key.\<close>

definition relay_open :: "env \<Rightarrow> string \<Rightarrow> SubscriberWithScope \<Rightarrow> RelayIncomingMessage \<Rightarrow> (bytes \<times> string JsonRpcRequest) relay" where
  "relay_open E field subscriber msg =
     h_bind (relay_envelope E Envelope0_from_bytes msg) (\<lambda>envelope.
     h_bind (relay_decode_key E (sws_sym_key subscriber)) (\<lambda>sym_key.
     h_bind (h_guard (rm_topic msg \<noteq> topic_from_key (en_ext E) sym_key) (Client TopicDoesNotMatchKey)) (\<lambda>_.
     h_bind (relay_decrypt E field (iv envelope) (sealbox envelope) sym_key) (\<lambda>req.
       h_return (sym_key, req)))))"

text \<open>Parsing and verifying a request's JWT, and the key of its issuer.\<close>

definition relay_from_jwt :: "env \<Rightarrow> (json \<Rightarrow> 'c parsed) \<Rightarrow> ('c \<Rightarrow> SharedClaims) \<Rightarrow> string \<Rightarrow> ('c \<times> bytes) relay" where
  "relay_from_jwt E from_json shared jwt =
     h_bind (h_lift (\<lambda>e. Client (RcJwt e)) (from_jwt (en_ext E) (en_now E) from_json shared jwt)) (\<lambda>request_auth.
     h_bind (h_lift (\<lambda>e. Server (RsNotifyServer (JwtVerification (JwtIssNotDidKey e))))
               (try_from_did_key (en_ext E) (iss (shared request_auth)))) (\<lambda>client_id.
       h_return (request_auth, client_id)))"

definition relay_verify_identity :: "env \<Rightarrow> SharedClaims \<Rightarrow> bytes \<Rightarrow> string \<Rightarrow> string \<Rightarrow> string \<Rightarrow> Authorization relay" where
  "relay_verify_identity E claims client_id ksu sub expected_act =
     h_bind (h_guard (act claims \<noteq> expected_act) (Server (RsNotifyServer (JwtVerification InvalidAct)))) (\<lambda>_.
       h_map_err identity_error (h_verify_identity E client_id ksu sub))"

text \<open>The checks of a request about one app, up to its authorization for the project's domain.\<close>

definition relay_authorize :: "env \<Rightarrow> AppRequestAuth \<Rightarrow> bytes \<Rightarrow> string \<Rightarrow> string \<Rightarrow> Authorization relay" where
  "relay_authorize E request client_id expected_act app_domain =
     h_bind (h_guard (ar_app request \<noteq> app_domain) (Client AppDoesNotMatch)) (\<lambda>_.
     h_bind (relay_verify_identity E (ar_shared_claims request) client_id (ar_ksu request) (ar_sub request) expected_act) (\<lambda>authorization.
     h_bind (h_guard (case az_app authorization of Limited app \<Rightarrow> app \<noteq> app_domain | Unlimited \<Rightarrow> False)
               (Client AppSubscriptionsUnauthorized)) (\<lambda>_.
       h_return authorization)))"

definition relay_same_account :: "Authorization \<Rightarrow> SubscriberWithScope \<Rightarrow> unit relay" where
  "relay_same_account authorization subscriber =
     h_bind (h_expect (is_same_address (az_account authorization) (sws_account subscriber))) (\<lambda>same.
       h_guard (\<not> same) (Client AccountNotAuthorized))"

definition response_claims :: "env \<Rightarrow> nat \<Rightarrow> bytes \<Rightarrow> string \<Rightarrow> string \<Rightarrow> SharedClaims" where
  "response_claims E ttl issuer audience response_act =
     \<lparr> iat = of_int (timestamp (en_now E)), exp_claim = of_int (timestamp (add_ttl (en_now E) ttl)),
       iss = to_did_key (en_ext E) issuer, aud = audience, act = response_act, mjv = ''1'' \<rparr>"

text \<open>The signing key of the project, and the JWT it signs.\<close>

definition relay_sign :: "env \<Rightarrow> project_row \<Rightarrow> json \<Rightarrow> string relay" where
  "relay_sign E project message =
     h_bind (relay_decode_key E (p_authentication_private_key project)) (\<lambda>key.
       h_return (sign_jwt (en_ext E) message key))"

definition response_json :: "env \<Rightarrow> string \<Rightarrow> u64 \<Rightarrow> (string, RelayMessageError) result \<Rightarrow> json" where
  "response_json E field request_id result =
     (case result of
        Inr auth \<Rightarrow> JsonRpcResponse_to_json (auth_to_json field) (JsonRpcResponse_new request_id auth)
      | Inl e \<Rightarrow> JsonRpcResponseError_to_json (JsonRpcResponseError_new request_id (to_json_rpc_error E e)))"

definition publish_response :: "env \<Rightarrow> RelayIncomingMessage \<Rightarrow> bytes \<Rightarrow> topic \<Rightarrow> nat \<Rightarrow> nat \<Rightarrow> json \<Rightarrow> unit relay" where
  "publish_response E msg sym_key response_topic tag ttl response =
     h_bind (h_draw E) (\<lambda>dr.
     h_bind (h_lift (\<lambda>_. Server RsEnvelopeEncryption)
               (ok_or (seal_message (en_ext E) (dr_nonce dr) sym_key response) ())) (\<lambda>message.
       h_map_err (\<lambda>e. Server (RsNotifyServer (RelayPublish e))) (h_publish E (Some msg)
         \<lparr> pub_topic = response_topic, pub_message = message, pub_ttl_secs = ttl, pub_tag = tag, pub_prompt = False \<rparr>)))"

section \<open>Subscriptions of an account\<close>

definition wrap_subscription :: "ext \<Rightarrow> SubscriberWithProject \<Rightarrow> (NotifyServerSubscription, DecodeKeyError) result" where
  "wrap_subscription X s =
     rbind (decode_key X (swp_authentication_public_key s)) (\<lambda>key.
       Inr \<lparr> nss_app_domain = swp_app_domain s, nss_app_authentication_key = to_did_key X key,
         nss_sym_key = swp_sym_key s, nss_account = swp_account s, nss_scope = swp_scope s,
         nss_expiry = of_int (timestamp (swp_expiry s)),
         nss_unread_notification_count = of_nat (swp_unread_notification_count s) \<rparr>)"

definition collect_subscriptions ::
  "env \<Rightarrow> AccountId \<Rightarrow> string option \<Rightarrow> (NotifyServerSubscription list, CollectSubscriptionsError) handler" where
  "collect_subscriptions E account app_domain =
     h_bind (h_query CsSqlx (get_subscriptions_by_account_and_maybe_app (en_ext E) account app_domain)) (\<lambda>subscriptions.
       h_lift CsDecodeKey (collect_results (wrap_subscription (en_ext E)) subscriptions))"

definition with_account :: "AccountId \<Rightarrow> NotifyServerSubscription list \<Rightarrow> NotifyServerSubscription list" where
  "with_account account subs = map (\<lambda>s. s\<lparr> nss_account := account \<rparr>) subs"

type_synonym watchers_with_subscriptions = "(SubscriptionWatcherQuery \<times> NotifyServerSubscription list) list"

text \<open>
  The loop over the watchers: the subscriptions for the client itself, if it is one of them, and
  what goes to the others. \<open>None\<close> when the assertion that the client is one watcher only fails.
\<close>

fun watchers_loop ::
  "string \<Rightarrow> string \<Rightarrow> AccountId \<Rightarrow> NotifyServerSubscription list \<Rightarrow> NotifyServerSubscription list
     \<Rightarrow> SubscriptionWatcherQuery list \<Rightarrow> NotifyServerSubscription list option
     \<Rightarrow> (NotifyServerSubscription list option \<times> watchers_with_subscriptions) option" where
  "watchers_loop source_did_key source_mjv account all_subs app_subs [] source = Some (source, [])"
| "watchers_loop source_did_key source_mjv account all_subs app_subs (w # ws) source =
     (let subs = (if swq_project w \<noteq> None then app_subs else all_subs);
          source_is_this_watcher = (source_did_key = swq_did_key w) in
      if source_is_this_watcher \<and> source \<noteq> None then None
      else map_option (\<lambda>(src, rest).
             (src, if \<not> source_is_this_watcher \<or> source_mjv = ''0''
                   then (w, with_account (swq_account w) subs) # rest else rest))
           (watchers_loop source_did_key source_mjv account all_subs app_subs ws
             (if source_is_this_watcher then Some (with_account account subs) else source)))"

definition prepare_subscription_watchers ::
  "env \<Rightarrow> bytes \<Rightarrow> string \<Rightarrow> AccountId \<Rightarrow> string
     \<Rightarrow> (NotifyServerSubscription list \<times> watchers_with_subscriptions, PrepareSubscriptionWatchersError) handler" where
  "prepare_subscription_watchers E source_client_id source_mjv account app_domain =
     h_bind (h_map_err PsCollectSubscriptions (collect_subscriptions E account None)) (\<lambda>all_account_subscriptions.
       let app_subscriptions = filter (\<lambda>s. nss_app_domain s = app_domain) all_account_subscriptions in
     h_bind (h_query GetSubscriptionWatchersForAccountByAppOrAllApp
               (get_subscription_watchers_for_account_by_app_or_all_app (en_ext E) (en_now E) account app_domain)) (\<lambda>watchers.
     h_bind (h_expect (watchers_loop (to_did_key (en_ext E) source_client_id) source_mjv account
               all_account_subscriptions app_subscriptions watchers None)) (\<lambda>(source, others).
       h_return (case source of None \<Rightarrow> app_subscriptions | Some s \<Rightarrow> s, others))))"

section \<open>Telling the watchers\<close>

definition send_to_watcher ::
  "env \<Rightarrow> RelayIncomingMessage \<Rightarrow> NotifyServerSubscription list \<Rightarrow> AccountId \<Rightarrow> string \<Rightarrow> string
     \<Rightarrow> (unit, SubscriptionWatcherSendError) handler" where
  "send_to_watcher E msg subscriptions account audience sym_key =
     (let X = en_ext E; keys = en_notify_keys E;
          auth = sign_jwt X (WatchSubscriptionsChangedRequestAuth_to_json X
            (response_claims E NOTIFY_SUBSCRIPTIONS_CHANGED_TTL (nk_authentication_client_id keys) audience
              NOTIFY_SUBSCRIPTIONS_CHANGED_ACT) (to_did_pkh X account) subscriptions)
            (nk_authentication_secret keys) in
      h_bind (h_draw E) (\<lambda>dr.
      h_bind (h_lift SwDecodeKey (decode_key X sym_key)) (\<lambda>sym_key.
      h_bind (h_lift (\<lambda>_. SwEnvelopeEncryption) (ok_or (seal_message X (dr_nonce dr) sym_key
                (JsonRpcRequest_to_json (auth_to_json NotifySubscriptionsChanged_field)
                   (JsonRpcRequest_new (dr_message_id dr) NOTIFY_SUBSCRIPTIONS_CHANGED_METHOD auth))) ())) (\<lambda>message.
        h_map_err SwRelayPublish (h_publish E (Some msg)
          \<lparr> pub_topic = topic_from_key X sym_key, pub_message = message,
            pub_ttl_secs = NOTIFY_SUBSCRIPTIONS_CHANGED_TTL, pub_tag = NOTIFY_SUBSCRIPTIONS_CHANGED_TAG,
            pub_prompt = False \<rparr>)))))"

fun first_error :: "(unit, 'e) result list \<Rightarrow> (unit, 'e) result" where
  "first_error [] = Inr ()"
| "first_error (Inl e # rs) = Inl e"
| "first_error (Inr u # rs) = first_error rs"

text \<open>
  The sends run ten at a time in the source and finish in any order; the model takes the list's. All
  are made before the first error is reported.
\<close>

definition send_to_subscription_watchers ::
  "env \<Rightarrow> RelayIncomingMessage \<Rightarrow> watchers_with_subscriptions \<Rightarrow> (unit, SubscriptionWatcherSendError) handler" where
  "send_to_subscription_watchers E msg ws =
     h_bind (h_mapM (\<lambda>(w, subs). h_try (send_to_watcher E msg subs (swq_account w) (swq_did_key w) (swq_sym_key w))) ws)
       (\<lambda>results. h_lift id (first_error results))"

text \<open>
  \<open>tokio::try_join!\<close> of the two futures: they run one after the other in either order, and a failure
  of the first drops the second.
\<close>

definition try_join :: "env \<Rightarrow> unit relay \<Rightarrow> unit relay \<Rightarrow> unit relay" where
  "try_join E a b = (if en_response_first E then h_bind a (\<lambda>_. b) else h_bind b (\<lambda>_. a))"

text \<open>The end of the subscribe, update and delete handlers.\<close>

definition respond_and_tell ::
  "env \<Rightarrow> RelayIncomingMessage \<Rightarrow> bytes \<Rightarrow> topic \<Rightarrow> nat \<Rightarrow> nat \<Rightarrow> u64
     \<Rightarrow> (string \<times> watchers_with_subscriptions, RelayMessageError) result \<Rightarrow> unit relay" where
  "respond_and_tell E msg sym_key response_topic tag ttl request_id result =
     (let response_fut = publish_response E msg sym_key response_topic tag ttl
            (response_json E ResponseAuth_field request_id (map_ok fst result)) in
      h_bind (case result of
                Inr (_, ws) \<Rightarrow> try_join E response_fut
                  (h_map_err (\<lambda>e. Server (RsSubscriptionWatcherSend e)) (send_to_subscription_watchers E msg ws))
              | Inl _ \<Rightarrow> response_fut) (\<lambda>_.
        h_lift id (map_ok (\<lambda>_. ()) result)))"

text \<open>The end of the other three.\<close>

definition respond ::
  "env \<Rightarrow> RelayIncomingMessage \<Rightarrow> bytes \<Rightarrow> topic \<Rightarrow> nat \<Rightarrow> nat \<Rightarrow> string \<Rightarrow> u64 \<Rightarrow> (string, RelayMessageError) result \<Rightarrow> unit relay" where
  "respond E msg sym_key response_topic tag ttl field request_id result =
     h_bind (publish_response E msg sym_key response_topic tag ttl (response_json E field request_id result)) (\<lambda>_.
       h_lift id (map_ok (\<lambda>_. ()) result))"

section \<open>Authorization to watch\<close>

definition check_app_authorization ::
  "AuthorizedApp \<Rightarrow> string option \<Rightarrow> (unit, CheckAppAuthorizationError) result" where
  "check_app_authorization authorized_app app_domain =
     (case authorized_app of
        Unlimited \<Rightarrow> Inr ()
      | Limited authorized \<Rightarrow>
          (case app_domain of
             None \<Rightarrow> Inl (AppNotAuthorizedFor None authorized)
           | Some requested \<Rightarrow> guard_err (authorized \<noteq> requested) (AppNotAuthorizedFor (Some requested) authorized)))"

end
