(* ===== verification/Relay_Handlers.thy ===== *)
theory Relay_Handlers
  imports Relay_Watchers
begin

text \<open>
  The handlers of the relay's messages
  (\<open>src/src/services/public_http_server/handlers/relay_webhook/handlers\<close>) and the webhook that receives
  them (\<open>relay_webhook/mod.rs\<close>). Each handler is three parts: opening the message, the inner
  function, whose error becomes a JSON-RPC error for the client, and the response.
\<close>

section \<open>\<open>wc_notifyWatchSubscriptions\<close>\<close>

definition notify_watch_subscriptions_rate_limit :: "env \<Rightarrow> bytes \<Rightarrow> unit relay" where
  "notify_watch_subscriptions_rate_limit E client_public_key =
     relay_rate_limit E (''notify-watch-subscriptions-'' @ hex_encode (en_ext E) client_public_key) 100 1000 1"

definition watch_open :: "env \<Rightarrow> RelayIncomingMessage \<Rightarrow> (bytes \<times> string JsonRpcRequest) relay" where
  "watch_open E msg =
     h_bind (h_guard (rm_topic msg \<noteq> nk_key_agreement_topic (en_notify_keys E))
               (Client (WrongNotifyWatchSubscriptionsTopic (rm_topic msg)))) (\<lambda>_.
     h_bind (relay_envelope E Envelope1_from_bytes msg) (\<lambda>envelope.
     h_bind (notify_watch_subscriptions_rate_limit E (Envelope1_pubkey envelope)) (\<lambda>_.
     h_bind (h_lift (\<lambda>e. Server (RsDeriveKey e)) (derive_key (en_ext E) (Envelope1_pubkey envelope)
               (nk_key_agreement_secret (en_notify_keys E)))) (\<lambda>response_sym_key.
     h_bind (relay_decrypt E NotifyWatchSubscriptions_field (iv envelope) (sealbox envelope) response_sym_key) (\<lambda>req.
       h_return (response_sym_key, req))))))"

definition watcher_error :: "UpsertSubscriptionWatcherError \<Rightarrow> RelayMessageError" where
  "watcher_error e = (case e of WatcherLimitReached \<Rightarrow> Client SubscriptionWatcherLimitReached | WatcherSqlx e \<Rightarrow> server_sqlx e)"

definition watch_inner :: "env \<Rightarrow> string JsonRpcRequest \<Rightarrow> bytes \<Rightarrow> string relay" where
  "watch_inner E req response_sym_key =
     h_bind (relay_from_jwt E (WatchSubscriptionsRequestAuth_from_json (en_ext E)) wsr_shared_claims (rq_params req))
       (\<lambda>(request_auth, client_id).
     h_bind (relay_verify_identity E (wsr_shared_claims request_auth) client_id (wsr_ksu request_auth)
               (wsr_sub request_auth) NOTIFY_WATCH_SUBSCRIPTIONS_ACT) (\<lambda>authorization.
       let account = az_account authorization; app_domain = wsr_app request_auth in
     h_bind (h_lift (\<lambda>e. Client (RcAppNotAuthorized e)) (check_app_authorization (az_app authorization) app_domain)) (\<lambda>_.
     h_bind (h_map_err (\<lambda>e. Server (RsCollectSubscriptions e)) (collect_subscriptions E account app_domain)) (\<lambda>subscriptions.
     h_bind (case app_domain of
               None \<Rightarrow> h_return None
             | Some domain \<Rightarrow>
                 h_bind (h_query (not_found_or_server (NotifyWatchSubscriptionsAppDomainNotFound domain))
                           (get_project_by_app_domain domain)) (\<lambda>project. h_return (Some (p_id project)))) (\<lambda>project.
     h_bind (db_upsert_subscription_watcher E watcher_error account project (iss (wsr_shared_claims request_auth))
               (hex_encode (en_ext E) response_sym_key) (en_now E + days 1)) (\<lambda>_.
       h_return (sign_jwt (en_ext E) (WatchSubscriptionsResponseAuth_to_json (en_ext E)
         (response_claims E NOTIFY_WATCH_SUBSCRIPTIONS_RESPONSE_TTL (nk_authentication_client_id (en_notify_keys E))
           (to_did_key (en_ext E) client_id) NOTIFY_WATCH_SUBSCRIPTIONS_RESPONSE_ACT)
         (wsr_sub request_auth) (with_account account subscriptions))
         (nk_authentication_secret (en_notify_keys E)))))))))"

definition watch_handle :: "env \<Rightarrow> RelayIncomingMessage \<Rightarrow> unit relay" where
  "watch_handle E msg =
     h_bind (watch_open E msg) (\<lambda>(response_sym_key, req).
     h_bind (h_try (watch_inner E req response_sym_key)) (\<lambda>result.
       respond E msg response_sym_key (topic_from_key (en_ext E) response_sym_key)
         NOTIFY_WATCH_SUBSCRIPTIONS_RESPONSE_TAG NOTIFY_WATCH_SUBSCRIPTIONS_RESPONSE_TTL
         ResponseAuth_field (rq_id req) result))"

section \<open>\<open>wc_notifySubscribe\<close>\<close>

definition notify_subscribe_client_rate_limit :: "env \<Rightarrow> bytes \<Rightarrow> unit relay" where
  "notify_subscribe_client_rate_limit E client_public_key =
     relay_rate_limit E (''notify-subscribe-client-'' @ hex_encode (en_ext E) client_public_key) 500 86400000 100"

definition notify_subscribe_project_rate_limit :: "env \<Rightarrow> topic \<Rightarrow> unit relay" where
  "notify_subscribe_project_rate_limit E t = relay_rate_limit E (''notify-subscribe-project-'' @ t) 50000 1000 1"

record subscribe_opened =
  so_project :: project_row
  so_project_client_id :: bytes
  so_client_public_key :: bytes
  so_sym_key :: bytes
  so_req :: "string JsonRpcRequest"

definition subscribe_open :: "env \<Rightarrow> RelayIncomingMessage \<Rightarrow> subscribe_opened relay" where
  "subscribe_open E msg =
     h_bind (notify_subscribe_project_rate_limit E (rm_topic msg)) (\<lambda>_.
     h_bind (h_query (not_found_or_server (WrongNotifySubscribeTopic (rm_topic msg)))
               (get_project_by_topic (rm_topic msg))) (\<lambda>project.
     h_bind (relay_client_id E project) (\<lambda>project_client_id.
     h_bind (relay_envelope E Envelope1_from_bytes msg) (\<lambda>envelope.
     h_bind (notify_subscribe_client_rate_limit E (Envelope1_pubkey envelope)) (\<lambda>_.
     h_bind (relay_decode_key E (p_subscribe_private_key project)) (\<lambda>server_secret.
     h_bind (h_lift (\<lambda>e. Server (RsDeriveKey e)) (derive_key (en_ext E) (Envelope1_pubkey envelope) server_secret)) (\<lambda>sym_key.
     h_bind (h_guard (rm_topic msg \<noteq> topic_from_key (en_ext E) (x25519_public_key (en_ext E) server_secret))
               (Client TopicDoesNotMatchKey)) (\<lambda>_.
     h_bind (relay_decrypt E NotifySubscribe_field (iv envelope) (sealbox envelope) sym_key) (\<lambda>req.
       h_return \<lparr> so_project = project, so_project_client_id = project_client_id,
         so_client_public_key = Envelope1_pubkey envelope, so_sym_key = sym_key, so_req = req \<rparr>)))))))))"

text \<open>The welcome notification of a new subscriber.\<close>

definition send_welcome :: "env \<Rightarrow> project_row \<Rightarrow> uuid set \<Rightarrow> uuid \<Rightarrow> unit relay" where
  "send_welcome E project scope subscriber =
     h_bind (h_query server_sqlx (\<lambda>d. Inr (get_welcome_notification (p_id project) d))) (\<lambda>welcome.
       case welcome of
         None \<Rightarrow> h_return ()
       | Some wel \<Rightarrow>
           if wel_enabled wel \<and> wel_type wel \<in> scope
           then
             h_bind (h_draw E) (\<lambda>dr.
             h_bind (db_upsert_notification E server_sqlx (uuid_to_string (en_ext E) (dr_uuid_v4 dr)) (p_id project)
                       \<lparr> ntf_type = wel_type wel, ntf_title = wel_title wel, ntf_body = wel_body wel,
                         ntf_icon = None, ntf_url = wel_url wel \<rparr>) (\<lambda>notification.
               db_upsert_subscriber_notifications E server_sqlx (nwi_id notification) [subscriber]))
           else h_return ())"

text \<open>Telling a project's webhooks is disabled: \<open>notify_webhook\<close> of \<open>state.rs\<close> only logs the event.\<close>

datatype WebhookNotificationEvent = Subscribed_event | Unsubscribed_event

fun webhook_event_text :: "WebhookNotificationEvent \<Rightarrow> string" where
  "webhook_event_text Subscribed_event = ''subscribed''"
| "webhook_event_text Unsubscribed_event = ''unsubscribed''"

definition notify_webhook :: "string \<Rightarrow> WebhookNotificationEvent \<Rightarrow> string \<Rightarrow> unit relay" where
  "notify_webhook project_id ev account = h_return ()"

text \<open>From the subscription of the topic on: the event, the watchers and the signed answer.\<close>

definition subscribe_finish :: "env \<Rightarrow> RelayIncomingMessage \<Rightarrow> subscribe_opened \<Rightarrow> SubscriptionRequestAuth \<Rightarrow> bytes \<Rightarrow> Authorization
    \<Rightarrow> uuid set \<Rightarrow> SubscribeResponse \<Rightarrow> (string \<times> watchers_with_subscriptions) relay" where
  "subscribe_finish E msg opn request_auth client_id authorization scope subscriber =
     (let X = en_ext E; project = so_project opn; account = az_account authorization in
     h_bind (h_map_err (\<lambda>e. Server (RsNotifyServer (RelaySubscribe e))) (h_subscribe E (sr_topic subscriber))) (\<lambda>_.
     h_bind (analytics_subscriber_update E \<lparr> sup_project_pk = p_id project, sup_project_id = p_project_id project,
         sup_pk = sr_id subscriber, sup_account = sr_account subscriber, sup_updated_by_iss = to_did_key X client_id,
         sup_updated_by_domain = az_domain authorization, sup_method = Subscribe,
         sup_old_scope = {}, sup_new_scope = scope, sup_notification_topic = sr_topic subscriber,
         sup_topic = rm_topic msg \<rparr>) (\<lambda>_.
     h_bind (h_map_err (\<lambda>e. Server (RsPrepareSubscriptionWatchers e)) (prepare_subscription_watchers E client_id
               (mjv (ar_shared_claims (srq_base request_auth))) account (p_app_domain project))) (\<lambda>(sbs, ws).
     h_bind (relay_sign E project (SubscriptionResponseAuth_to_json X
               (response_claims E NOTIFY_SUBSCRIBE_RESPONSE_TTL (so_project_client_id opn) (to_did_key X client_id)
                  NOTIFY_SUBSCRIBE_RESPONSE_ACT)
               (to_did_pkh X account) (p_app_domain project) sbs)) (\<lambda>response_auth.
       h_return (response_auth, ws))))))"

definition subscribe_inner :: "env \<Rightarrow> RelayIncomingMessage \<Rightarrow> subscribe_opened \<Rightarrow> (string \<times> watchers_with_subscriptions) relay" where
  "subscribe_inner E msg opn =
     (let X = en_ext E; project = so_project opn in
     h_bind (relay_from_jwt E (SubscriptionRequestAuth_from_json X) (\<lambda>r. ar_shared_claims (srq_base r)) (rq_params (so_req opn)))
       (\<lambda>(request_auth, client_id).
     h_bind (relay_authorize E (srq_base request_auth) client_id NOTIFY_SUBSCRIBE_ACT (p_app_domain project)) (\<lambda>authorization.
       let account = az_account authorization in
     h_bind (h_lift (\<lambda>e. Server (RsNotifyServer (UuidError e))) (parse_scope X (srq_scp request_auth))) (\<lambda>scope.
     h_bind (h_draw E) (\<lambda>dr.
     h_bind (h_lift (\<lambda>e. Server (RsDeriveKey e)) (derive_key X (so_client_public_key opn) (dr_secret dr))) (\<lambda>notify_key.
     h_bind (db_upsert_subscriber E server_sqlx (p_id project) account scope notify_key (topic_from_key X notify_key)) (\<lambda>subscriber.
     h_bind (if sr_inserted subscriber then send_welcome E project scope (sr_id subscriber) else h_return ()) (\<lambda>_.
     h_bind (notify_webhook (p_project_id project) Subscribed_event account) (\<lambda>_.
       subscribe_finish E msg opn request_auth client_id authorization scope subscriber)))))))))"

definition subscribe_handle :: "env \<Rightarrow> RelayIncomingMessage \<Rightarrow> unit relay" where
  "subscribe_handle E msg =
     h_bind (subscribe_open E msg) (\<lambda>opn.
     h_bind (h_try (subscribe_inner E msg opn)) (\<lambda>result.
       respond_and_tell E msg (so_sym_key opn) (topic_from_key (en_ext E) (so_sym_key opn))
         NOTIFY_SUBSCRIBE_RESPONSE_TAG NOTIFY_SUBSCRIBE_RESPONSE_TTL (rq_id (so_req opn)) result))"

section \<open>Messages on a subscriber's topic\<close>

record topic_opened =
  to_subscriber :: SubscriberWithScope
  to_project :: project_row
  to_project_client_id :: bytes
  to_sym_key :: bytes
  to_req :: "string JsonRpcRequest"

text \<open>The update and delete handlers compute the project's client id before they open the message.\<close>

definition open_with_client_id ::
  "env \<Rightarrow> (topic \<Rightarrow> RelayMessageClientError) \<Rightarrow> string \<Rightarrow> RelayIncomingMessage \<Rightarrow> topic_opened relay" where
  "open_with_client_id E wrong_topic field msg =
     h_bind (relay_subscriber E wrong_topic msg) (\<lambda>(subscriber, project).
     h_bind (relay_client_id E project) (\<lambda>project_client_id.
     h_bind (relay_open E field subscriber msg) (\<lambda>(sym_key, req).
       h_return \<lparr> to_subscriber = subscriber, to_project = project, to_project_client_id = project_client_id,
         to_sym_key = sym_key, to_req = req \<rparr>)))"

text \<open>The other two compute it from the project's key when they answer.\<close>

definition open_without_client_id ::
  "env \<Rightarrow> (topic \<Rightarrow> RelayMessageClientError) \<Rightarrow> string \<Rightarrow> RelayIncomingMessage \<Rightarrow> topic_opened relay" where
  "open_without_client_id E wrong_topic field msg =
     h_bind (relay_subscriber E wrong_topic msg) (\<lambda>(subscriber, project).
     h_bind (relay_open E field subscriber msg) (\<lambda>(sym_key, req).
       h_return \<lparr> to_subscriber = subscriber, to_project = project, to_project_client_id = [],
         to_sym_key = sym_key, to_req = req \<rparr>))"

section \<open>\<open>wc_notifyUpdate\<close>\<close>

definition notify_update_rate_limit :: "env \<Rightarrow> topic \<Rightarrow> unit relay" where
  "notify_update_rate_limit E t = relay_rate_limit E (''notify-update-'' @ t) 100 1000 1"

definition update_open :: "env \<Rightarrow> RelayIncomingMessage \<Rightarrow> topic_opened relay" where
  "update_open E msg =
     h_bind (notify_update_rate_limit E (rm_topic msg)) (\<lambda>_.
       open_with_client_id E WrongNotifyUpdateTopic NotifyUpdate_field msg)"

definition update_inner :: "env \<Rightarrow> RelayIncomingMessage \<Rightarrow> topic_opened \<Rightarrow> (string \<times> watchers_with_subscriptions) relay" where
  "update_inner E msg opn =
     (let X = en_ext E; project = to_project opn in
     h_bind (relay_from_jwt E (SubscriptionUpdateRequestAuth_from_json X) (\<lambda>r. ar_shared_claims (srq_base r)) (rq_params (to_req opn)))
       (\<lambda>(request_auth, client_id).
     h_bind (relay_authorize E (srq_base request_auth) client_id NOTIFY_UPDATE_ACT (p_app_domain project)) (\<lambda>authorization.
     h_bind (relay_same_account authorization (to_subscriber opn)) (\<lambda>_.
     h_bind (h_lift (\<lambda>e. Server (RsNotifyServer (UuidError e))) (parse_scope X (srq_scp request_auth))) (\<lambda>new_scope.
     h_bind (db_update_subscriber E server_sqlx (sws_id (to_subscriber opn)) new_scope) (\<lambda>subscriber.
     h_bind (analytics_subscriber_update E \<lparr> sup_project_pk = p_id project, sup_project_id = p_project_id project,
         sup_pk = s_id subscriber, sup_account = s_account subscriber, sup_updated_by_iss = iss (ar_shared_claims (srq_base request_auth)),
         sup_updated_by_domain = az_domain authorization, sup_method = Update,
         sup_old_scope = sws_scope (to_subscriber opn), sup_new_scope = new_scope, sup_notification_topic = s_topic subscriber,
         sup_topic = rm_topic msg \<rparr>) (\<lambda>_.
     h_bind (h_map_err (\<lambda>e. Server (RsPrepareSubscriptionWatchers e)) (prepare_subscription_watchers E client_id
               (mjv (ar_shared_claims (srq_base request_auth))) (az_account authorization) (p_app_domain project))) (\<lambda>(sbs, ws).
     h_bind (relay_sign E project (SubscriptionResponseAuth_to_json X
               (response_claims E NOTIFY_UPDATE_RESPONSE_TTL (to_project_client_id opn) (to_did_key X client_id)
                  NOTIFY_UPDATE_RESPONSE_ACT)
               (to_did_pkh X (az_account authorization)) (p_app_domain project) sbs)) (\<lambda>response_auth.
       h_return (response_auth, ws))))))))))"

definition update_handle :: "env \<Rightarrow> RelayIncomingMessage \<Rightarrow> unit relay" where
  "update_handle E msg =
     h_bind (update_open E msg) (\<lambda>opn.
     h_bind (h_try (update_inner E msg opn)) (\<lambda>result.
       respond_and_tell E msg (to_sym_key opn) (rm_topic msg) NOTIFY_UPDATE_RESPONSE_TAG NOTIFY_UPDATE_RESPONSE_TTL
         (rq_id (to_req opn)) result))"

section \<open>\<open>wc_notifyDelete\<close>\<close>

definition notify_delete_rate_limit :: "env \<Rightarrow> topic \<Rightarrow> unit relay" where
  "notify_delete_rate_limit E t = relay_rate_limit E (''notify-delete-'' @ t) 10 3600000 1"

definition delete_open :: "env \<Rightarrow> RelayIncomingMessage \<Rightarrow> topic_opened relay" where
  "delete_open E msg =
     h_bind (notify_delete_rate_limit E (rm_topic msg)) (\<lambda>_.
       open_with_client_id E WrongNotifyDeleteTopic NotifyDelete_field msg)"

text \<open>The spawned task that asks the relay to unsubscribe; its outcome is only logged.\<close>

definition h_unsubscribe :: "topic \<Rightarrow> (unit, 'e) handler" where
  "h_unsubscribe t w = (Inr (), w\<lparr> w_unsubscribed := w_unsubscribed w @ [t] \<rparr>)"

definition delete_inner :: "env \<Rightarrow> RelayIncomingMessage \<Rightarrow> topic_opened \<Rightarrow> (string \<times> watchers_with_subscriptions) relay" where
  "delete_inner E msg opn =
     (let X = en_ext E; project = to_project opn in
     h_bind (relay_from_jwt E (SubscriptionDeleteRequestAuth_from_json X) ar_shared_claims (rq_params (to_req opn)))
       (\<lambda>(request_auth, client_id).
     h_bind (relay_authorize E request_auth client_id NOTIFY_DELETE_ACT (p_app_domain project)) (\<lambda>authorization.
     h_bind (relay_same_account authorization (to_subscriber opn)) (\<lambda>_.
     h_bind (db_delete_subscriber (sws_id (to_subscriber opn))) (\<lambda>_.
     h_bind (notify_webhook (p_project_id project) Unsubscribed_event (sws_account (to_subscriber opn))) (\<lambda>_.
     h_bind (h_unsubscribe (rm_topic msg)) (\<lambda>_.
     h_bind (analytics_subscriber_update E \<lparr> sup_project_pk = p_id project, sup_project_id = p_project_id project,
         sup_pk = sws_id (to_subscriber opn), sup_account = sws_account (to_subscriber opn), sup_updated_by_iss = iss (ar_shared_claims request_auth),
         sup_updated_by_domain = az_domain authorization, sup_method = Unsubscribe,
         sup_old_scope = sws_scope (to_subscriber opn), sup_new_scope = {}, sup_notification_topic = sws_topic (to_subscriber opn),
         sup_topic = rm_topic msg \<rparr>) (\<lambda>_.
     h_bind (h_map_err (\<lambda>e. Server (RsPrepareSubscriptionWatchers e)) (prepare_subscription_watchers E client_id
               (mjv (ar_shared_claims request_auth)) (az_account authorization) (p_app_domain project))) (\<lambda>(sbs, ws).
     h_bind (relay_sign E project (SubscriptionResponseAuth_to_json X
               (response_claims E NOTIFY_DELETE_RESPONSE_TTL (to_project_client_id opn) (iss (ar_shared_claims request_auth))
                  NOTIFY_DELETE_RESPONSE_ACT)
               (to_did_pkh X (az_account authorization)) (p_app_domain project) sbs)) (\<lambda>response_auth.
       h_return (response_auth, ws)))))))))))"

definition delete_handle :: "env \<Rightarrow> RelayIncomingMessage \<Rightarrow> unit relay" where
  "delete_handle E msg =
     h_bind (delete_open E msg) (\<lambda>opn.
     h_bind (h_try (delete_inner E msg opn)) (\<lambda>result.
       respond_and_tell E msg (to_sym_key opn) (rm_topic msg) NOTIFY_DELETE_RESPONSE_TAG NOTIFY_DELETE_RESPONSE_TTL
         (rq_id (to_req opn)) result))"

section \<open>\<open>wc_notifyGetNotifications\<close>\<close>

definition notify_get_notifications_rate_limit :: "env \<Rightarrow> topic \<Rightarrow> unit relay" where
  "notify_get_notifications_rate_limit E t = relay_rate_limit E (''notify-get-notifications-'' @ t) 100 500 1"

definition get_notifications_open :: "env \<Rightarrow> RelayIncomingMessage \<Rightarrow> topic_opened relay" where
  "get_notifications_open E msg =
     h_bind (notify_get_notifications_rate_limit E (rm_topic msg)) (\<lambda>_.
       open_without_client_id E WrongNotifyGetNotificationsTopic AuthMessage_field msg)"

text \<open>The link of a notification is replaced by one that goes through the server.\<close>

definition follow_links :: "env \<Rightarrow> GetNotificationsResult \<Rightarrow> GetNotificationsResult relay" where
  "follow_links E data =
     h_bind (h_mapM (\<lambda>n. h_bind (case gn_url n of
                 None \<Rightarrow> h_return None
               | Some link \<Rightarrow> h_bind (h_expect (url_join (en_ext E) (en_notify_url E)
                   (''/v1/notification/'' @ uuid_to_string (en_ext E) (gn_id n)))) (\<lambda>u. h_return (Some u)))
               (\<lambda>u. h_return (n\<lparr> gn_url := u \<rparr>))) (gr_notifications data)) (\<lambda>ns.
       h_return (data\<lparr> gr_notifications := ns \<rparr>))"

definition get_notifications_inner :: "env \<Rightarrow> RelayIncomingMessage \<Rightarrow> topic_opened \<Rightarrow> string relay" where
  "get_notifications_inner E msg opn =
     (let X = en_ext E; project = to_project opn in
     h_bind (relay_from_jwt E (SubscriptionGetNotificationsRequestAuth_from_json X) (\<lambda>r. ar_shared_claims (gnr_base r))
               (rq_params (to_req opn))) (\<lambda>(request_auth, client_id).
     h_bind (relay_authorize E (gnr_base request_auth) client_id NOTIFY_GET_NOTIFICATIONS_ACT (p_app_domain project)) (\<lambda>authorization.
     h_bind (relay_same_account authorization (to_subscriber opn)) (\<lambda>_.
     h_bind (h_guard (\<not> GetNotificationsParams_validate (gnr_params request_auth))
               (Server (RsNotifyServer (UnprocessableEntity ValidationErrors)))) (\<lambda>_.
     h_bind (h_query server_sqlx (\<lambda>d. Inr (get_notifications_for_subscriber (en_now E) (sws_id (to_subscriber opn))
               (gnr_params request_auth) d))) (\<lambda>data.
     h_bind (follow_links E data) (\<lambda>data.
     h_bind (h_mapM (\<lambda>n. analytics_get_notifications E \<lparr> gnp_topic = rm_topic msg,
         gnp_message_id = get_message_id X (rm_message msg), gnp_get_by_iss = iss (ar_shared_claims (gnr_base request_auth)),
         gnp_get_by_domain = az_domain authorization, gnp_project_pk = p_id project, gnp_project_id = p_project_id project,
         gnp_subscriber_pk = sws_id (to_subscriber opn), gnp_subscriber_account = sws_account (to_subscriber opn),
         gnp_notification_topic = sws_topic (to_subscriber opn), gnp_subscriber_notification_pk = gn_id n,
         gnp_notification_pk = gn_notification_id n, gnp_notification_type = gn_type n,
         gnp_returned_count = length (gr_notifications data) \<rparr>) (gr_notifications data)) (\<lambda>_.
     h_bind (relay_decode_key E (p_authentication_public_key project)) (\<lambda>identity.
     h_bind (relay_sign E project (SubscriptionGetNotificationsResponseAuth_to_json X
               (response_claims E NOTIFY_GET_NOTIFICATIONS_RESPONSE_TTL identity (to_did_key X client_id)
                  NOTIFY_GET_NOTIFICATIONS_RESPONSE_ACT)
               (to_did_pkh X (az_account authorization)) (p_app_domain project) data)) h_return)))))))))"

definition get_notifications_handle :: "env \<Rightarrow> RelayIncomingMessage \<Rightarrow> unit relay" where
  "get_notifications_handle E msg =
     h_bind (get_notifications_open E msg) (\<lambda>opn.
     h_bind (h_try (get_notifications_inner E msg opn)) (\<lambda>result.
       respond E msg (to_sym_key opn) (rm_topic msg) NOTIFY_GET_NOTIFICATIONS_RESPONSE_TAG
         NOTIFY_GET_NOTIFICATIONS_RESPONSE_TTL AuthMessage_field (rq_id (to_req opn)) result))"

section \<open>\<open>wc_notifyMarkNotificationsAsRead\<close>\<close>

definition notify_mark_notifications_as_read_rate_limit :: "env \<Rightarrow> topic \<Rightarrow> unit relay" where
  "notify_mark_notifications_as_read_rate_limit E t =
     relay_rate_limit E (''notify-mark-notifications-as-read-'' @ t) 100 500 1"

definition mark_open :: "env \<Rightarrow> RelayIncomingMessage \<Rightarrow> topic_opened relay" where
  "mark_open E msg =
     h_bind (notify_mark_notifications_as_read_rate_limit E (rm_topic msg)) (\<lambda>_.
       open_without_client_id E WrongNotifyMarkNotificationsAsReadTopic AuthMessage_field msg)"

definition mark_inner :: "env \<Rightarrow> RelayIncomingMessage \<Rightarrow> topic_opened \<Rightarrow> string relay" where
  "mark_inner E msg opn =
     (let X = en_ext E; project = to_project opn in
     h_bind (relay_from_jwt E (SubscriptionMarkNotificationsAsReadRequestAuth_from_json X)
               (\<lambda>r. ar_shared_claims (mnr_base r)) (rq_params (to_req opn))) (\<lambda>(request_auth, client_id).
     h_bind (relay_authorize E (mnr_base request_auth) client_id NOTIFY_MARK_NOTIFICATIONS_AS_READ_ACT (p_app_domain project)) (\<lambda>authorization.
     h_bind (relay_same_account authorization (to_subscriber opn)) (\<lambda>_.
     h_bind (h_guard (\<not> MarkNotificationsAsReadParams_validate (mnr_params request_auth))
               (Server (RsNotifyServer (UnprocessableEntity ValidationErrors)))) (\<lambda>_.
     h_bind (db_mark_notifications_as_read (sws_id (to_subscriber opn)) (mr_ids (mnr_params request_auth))) (\<lambda>data.
     h_bind (h_mapM (\<lambda>(notification, subscriber_notification). analytics_mark_notifications_as_read E
         \<lparr> mnp_topic = rm_topic msg, mnp_message_id = get_message_id X (rm_message msg),
           mnp_by_iss = iss (ar_shared_claims (mnr_base request_auth)), mnp_by_domain = az_domain authorization,
           mnp_project_pk = p_id project, mnp_project_id = p_project_id project,
           mnp_subscriber_pk = sws_id (to_subscriber opn), mnp_subscriber_account = sws_account (to_subscriber opn),
           mnp_notification_topic = sws_topic (to_subscriber opn),
           mnp_subscriber_notification_pk = subscriber_notification, mnp_notification_pk = notification,
           mnp_marked_count = length data \<rparr>) data) (\<lambda>_.
     h_bind (relay_decode_key E (p_authentication_public_key project)) (\<lambda>identity.
     h_bind (relay_sign E project (SubscriptionMarkNotificationsAsReadResponseAuth_to_json X
               (response_claims E NOTIFY_MARK_NOTIFICATIONS_AS_READ_RESPONSE_TTL identity (to_did_key X client_id)
                  NOTIFY_MARK_NOTIFICATIONS_AS_READ_RESPONSE_ACT)
               (to_did_pkh X (az_account authorization)) (p_app_domain project))) h_return))))))))"

definition mark_handle :: "env \<Rightarrow> RelayIncomingMessage \<Rightarrow> unit relay" where
  "mark_handle E msg =
     h_bind (mark_open E msg) (\<lambda>opn.
     h_bind (h_try (mark_inner E msg opn)) (\<lambda>result.
       respond E msg (to_sym_key opn) (rm_topic msg) NOTIFY_MARK_NOTIFICATIONS_AS_READ_RESPONSE_TAG
         NOTIFY_MARK_NOTIFICATIONS_AS_READ_RESPONSE_TTL AuthMessage_field (rq_id (to_req opn)) result))"

section \<open>The webhook\<close>

text \<open>The dispatch on the tag, and the errors that are the server's.\<close>

definition handle_by_tag :: "env \<Rightarrow> RelayIncomingMessage \<Rightarrow> unit relay" where
  "handle_by_tag E msg =
     (let tag = rm_tag msg in
      if tag = NOTIFY_SUBSCRIBE_TAG then subscribe_handle E msg
      else if tag = NOTIFY_DELETE_TAG then delete_handle E msg
      else if tag = NOTIFY_UPDATE_TAG then update_handle E msg
      else if tag = NOTIFY_WATCH_SUBSCRIPTIONS_TAG then watch_handle E msg
      else if tag = NOTIFY_GET_NOTIFICATIONS_TAG then get_notifications_handle E msg
      else if tag = NOTIFY_MARK_NOTIFICATIONS_AS_READ_TAG then mark_handle E msg
      else h_return ())"

definition handle_msg :: "env \<Rightarrow> RelayIncomingMessage \<Rightarrow> (unit, RelayMessageServerError) handler" where
  "handle_msg E msg =
     h_bind (h_try (handle_by_tag E msg)) (\<lambda>result.
       case result of
         Inl (Client e) \<Rightarrow> h_return ()
       | Inl (Server e) \<Rightarrow> h_fail e
       | Inr u \<Rightarrow> h_return ())"

text \<open>
  The claims of a watch event (\<open>WatchEventClaims\<close> of \<open>relay_rpc\<close>): those the handler reads. Parsing and
  verifying the event's JWT are arguments.
\<close>

datatype WatchAction = WatchEvent | OtherWatchAction
datatype WatchType = Subscriber_watch | Publisher_watch
datatype WatchStatus = Accepted | Queued_status | Delivered

record WatchEventClaims =
  wec_iss :: string
  wec_act :: WatchAction
  wec_typ :: WatchType
  wec_status :: WatchStatus
  wec_topic :: topic
  wec_message_id :: u64
  wec_message :: string
  wec_tag :: nat

datatype ClientError =
    NotSingleWatchEvent nat
  | ParseWatchEvent string
  | VerifyWatchEvent string
  | WrongIssuer
  | WrongWatchAction WatchAction
  | WrongWatchType WatchType
  | WrongWatchStatus WatchStatus

datatype webhook_error = WebhookClient ClientError | WebhookServer RelayMessageServerError

definition incoming_message :: "env \<Rightarrow> WatchEventClaims \<Rightarrow> RelayIncomingMessage" where
  "incoming_message E claims =
     \<lparr> rm_topic = wec_topic claims, rm_message = wec_message claims, rm_tag = wec_tag claims,
       rm_message_id = get_message_id (en_ext E) (wec_message claims), rm_received_at = en_now E \<rparr>"

definition webhook_handler ::
  "env \<Rightarrow> (string \<Rightarrow> (WatchEventClaims, string) result) \<Rightarrow> (WatchEventClaims \<Rightarrow> string \<Rightarrow> (unit, string) result)
     \<Rightarrow> string list \<Rightarrow> (response, webhook_error) handler" where
  "webhook_handler E try_from_str verify_basic event_auth =
     h_bind (h_guard (length event_auth \<noteq> 1) (WebhookClient (NotSingleWatchEvent (length event_auth)))) (\<lambda>_.
     h_bind (h_lift (\<lambda>e. WebhookClient (ParseWatchEvent e)) (try_from_str (hd event_auth))) (\<lambda>claims.
     h_bind (h_lift (\<lambda>e. WebhookClient (VerifyWatchEvent e)) (verify_basic claims (en_webhook_notify_url E))) (\<lambda>_.
     h_bind (h_guard (wec_iss claims \<noteq> en_relay_identity E) (WebhookClient WrongIssuer)) (\<lambda>_.
     h_bind (if wec_status claims = Queued_status
             then (\<lambda>w. (Inr (), w\<lparr> w_receipts := w_receipts w @ [(wec_topic claims, wec_message_id claims)] \<rparr>))
             else
               h_bind (h_guard (wec_act claims \<noteq> WatchEvent) (WebhookClient (WrongWatchAction (wec_act claims)))) (\<lambda>_.
               h_bind (h_guard (wec_typ claims \<noteq> Subscriber_watch) (WebhookClient (WrongWatchType (wec_typ claims)))) (\<lambda>_.
               h_bind (h_guard (wec_status claims \<noteq> Accepted) (WebhookClient (WrongWatchStatus (wec_status claims)))) (\<lambda>_.
                 h_map_err WebhookServer (handle_msg E (incoming_message E claims)))))) (\<lambda>_.
       h_return \<lparr> r_status = 204, r_body = Empty \<rparr>)))))"

end
