(* ===== verification/Relay_Facts.thy ===== *)
theory Relay_Facts
  imports Relay_Handlers
begin

text \<open>
  Facts the properties of the relay's handlers share: which steps leave the database alone, what a
  successful step establishes, and which steps cannot panic.
\<close>

section \<open>Steps that leave the database alone\<close>

lemma keeps_case_prod [keeps_intros]: "(\<And>a b. db_keeps I (f a b)) \<Longrightarrow> db_keeps I (case p of (a, b) \<Rightarrow> f a b)"
  by (cases p) simp

lemma keeps_case_option [keeps_intros]:
  "db_keeps I m \<Longrightarrow> (\<And>x. db_keeps I (f x)) \<Longrightarrow> db_keeps I (case v of None \<Rightarrow> m | Some x \<Rightarrow> f x)"
  by (cases v) simp_all

lemma keeps_case_sum [keeps_intros]:
  "(\<And>x. db_keeps I (f x)) \<Longrightarrow> (\<And>x. db_keeps I (g x)) \<Longrightarrow> db_keeps I (case v of Inl x \<Rightarrow> f x | Inr x \<Rightarrow> g x)"
  by (cases v) simp_all

lemmas relay_step_defs = relay_rate_limit_def relay_client_id_def relay_decode_key_def relay_decrypt_def
  relay_envelope_def relay_subscriber_def relay_open_def relay_from_jwt_def relay_verify_identity_def
  relay_authorize_def relay_same_account_def relay_sign_def

lemma keeps_relay_steps [keeps_intros]:
  "db_keeps I (relay_rate_limit E key m i r)" "db_keeps I (relay_client_id E project)"
  "db_keeps I (relay_decode_key E hex_key)" "db_keeps I (relay_decrypt E field iv' box k)"
  "db_keeps I (relay_envelope E from_bytes msg)" "db_keeps I (relay_subscriber E wrong msg)"
  "db_keeps I (relay_open E field s msg)" "db_keeps I (relay_from_jwt E from_json get jwt)"
  "db_keeps I (relay_verify_identity E claims client ksu sub expected)"
  "db_keeps I (relay_authorize E ra client expected domain)"
  "db_keeps I (relay_same_account az s)" "db_keeps I (relay_sign E project message)"
  unfolding relay_step_defs by (intro keeps_intros)+

lemma keeps_telling [keeps_intros]:
  "db_keeps I (publish_response E msg k t tag ttl response)"
  "db_keeps I (collect_subscriptions E account domain)"
  "db_keeps I (prepare_subscription_watchers E client v account app)"
  "db_keeps I (send_to_watcher E msg subs account audience key)"
  unfolding publish_response_def collect_subscriptions_def prepare_subscription_watchers_def
    send_to_watcher_def Let_def
  by (intro keeps_intros)+

lemma keeps_send_all [keeps_intros]: "db_keeps I (send_to_subscription_watchers E msg ws)"
  unfolding send_to_subscription_watchers_def by (intro keeps_intros)+

lemma keeps_try_join [keeps_intros]: "db_keeps I m \<Longrightarrow> db_keeps I n \<Longrightarrow> db_keeps I (try_join E m n)"
  unfolding try_join_def by (intro keeps_intros)

lemma keeps_respond [keeps_intros]:
  "db_keeps I (respond_and_tell E msg k t tag ttl i result)" "db_keeps I (respond E msg k t tag ttl field i result')"
  unfolding respond_and_tell_def respond_def Let_def by (intro keeps_intros)+

lemma keeps_unsubscribe [keeps_intros]: "db_keeps I (h_unsubscribe t)"
  by (simp add: db_keeps_def h_unsubscribe_def)

lemma keeps_webhook_disabled [keeps_intros]: "db_keeps I (notify_webhook p ev a)"
  unfolding notify_webhook_def by (intro keeps_intros)

lemma keeps_follow_links [keeps_intros]: "db_keeps I (follow_links E data)"
  unfolding follow_links_def by (intro keeps_intros)

lemmas relay_open_defs = watch_open_def subscribe_open_def open_with_client_id_def open_without_client_id_def
  update_open_def delete_open_def get_notifications_open_def mark_open_def
  notify_watch_subscriptions_rate_limit_def notify_subscribe_client_rate_limit_def
  notify_subscribe_project_rate_limit_def notify_update_rate_limit_def notify_delete_rate_limit_def
  notify_get_notifications_rate_limit_def notify_mark_notifications_as_read_rate_limit_def

lemma keeps_opens [keeps_intros]:
  "db_keeps I (watch_open E msg)" "db_keeps I (subscribe_open E msg)" "db_keeps I (update_open E msg)"
  "db_keeps I (delete_open E msg)" "db_keeps I (get_notifications_open E msg)" "db_keeps I (mark_open E msg)"
  unfolding relay_open_defs by (intro keeps_intros)+

lemma keeps_get_inner [keeps_intros]: "db_keeps I (get_notifications_inner E msg opn)"
  unfolding get_notifications_inner_def Let_def by (intro keeps_intros)

lemma unchanged: "(\<And>I. db_keeps I m) \<Longrightarrow> m w = (r, w') \<Longrightarrow> w_db w' = w_db w"
  using db_keepsD [of "\<lambda>d. d = w_db w" m w] by simp

lemma bind_cases:
  assumes "h_bind m f w = (r, w')"
  obtains (fail) e where "m w = (Inl e, w')" "r = Inl e"
    | (ok) x w1 where "m w = (Inr x, w1)" "f x w1 = (r, w')"
  using assms by (auto simp: h_bind_def split: prod.splits sum.splits)

lemma try_cases:
  assumes "h_try m w = (r, w')"
  obtains (panic) "m w = (Inl Panicked, w')" "r = Inl Panicked"
    | (fail) e where "m w = (Inl (Failure e), w')" "r = Inr (Inl e)"
    | (ok) x where "m w = (Inr x, w')" "r = Inr (Inr x)"
  using assms by (auto simp: h_try_def split: prod.splits sum.splits failure.splits)

section \<open>What successful steps establish\<close>

text \<open>A message that is opened: the worlds differ in the rate limiter's buckets only.\<close>

lemma relay_rate_limit_ok: "relay_rate_limit E key m i r w = (Inr u, w') \<Longrightarrow> \<exists>st. w' = w\<lparr> w_buckets := st \<rparr>"
  unfolding relay_rate_limit_def by (rule h_token_bucket_Inr)

lemma relay_subscriber_ok:
  "relay_subscriber E wrong msg w = (Inr (s, p), w') \<longleftrightarrow>
     get_subscriber_by_topic (en_ext E) (rm_topic msg) (w_db w) = Inr s \<and>
     get_project_by_id (sws_project s) (w_db w) = Inr p \<and> w' = w"
  by (auto simp: relay_subscriber_def h_ok)

lemma relay_open_ok:
  "relay_open E field s msg w = (Inr (k, req), w') \<longleftrightarrow>
     decode_key (en_ext E) (sws_sym_key s) = Inr k \<and> rm_topic msg = topic_from_key (en_ext E) k \<and> w' = w \<and>
     (\<exists>bytes env. b64_std_decode (en_ext E) (rm_message msg) = Inr bytes \<and> Envelope0_from_bytes bytes = Inr env \<and>
       decrypt_message (en_ext E) (auth_from_json field) (iv env) (sealbox env) k = Inr req)"
  by (auto simp: relay_open_def relay_envelope_def relay_decode_key_def relay_decrypt_def h_ok)

lemma relay_from_jwt_ok:
  "relay_from_jwt E from_json get jwt w = (Inr (ra, client), w') \<longleftrightarrow>
     from_jwt (en_ext E) (en_now E) from_json get jwt = Inr ra \<and>
     try_from_did_key (en_ext E) (iss (get ra)) = Inr client \<and> w' = w"
  by (auto simp: relay_from_jwt_def h_ok)

lemma relay_same_account_ok:
  "relay_same_account az s w = (Inr u, w') \<longleftrightarrow>
     is_same_address (az_account az) (sws_account s) = Some True \<and> w' = w"
  by (auto simp: relay_same_account_def h_ok)

text \<open>The authorization of a request about an app.\<close>

definition authorized :: "env \<Rightarrow> cacao_cache \<Rightarrow> string \<Rightarrow> AppRequestAuth \<Rightarrow> bytes \<Rightarrow> string \<Rightarrow> Authorization \<Rightarrow> bool" where
  "authorized E cache expected_act ra client app_domain az \<longleftrightarrow>
     ar_app ra = app_domain \<and> act (ar_shared_claims ra) = expected_act \<and>
     fst (verify_identity (en_ext E) (en_now E) client (ar_ksu ra) (ar_sub ra)
       (if en_redis E then Some cache else None)) = Inr az \<and>
     az_app az \<in> {Unlimited, Limited app_domain}"

lemma relay_authorize_ok:
  assumes "relay_authorize E ra client expected_act app_domain w = (Inr az, w')"
  shows "authorized E (w_cacao w) expected_act ra client app_domain az"
    and "\<exists>c. w' = w\<lparr> w_cacao := c \<rparr>"
  using assms
  by (auto simp: relay_authorize_def relay_verify_identity_def authorized_def h_ok split: AuthorizedApp.splits
      dest!: h_verify_identity_Inr)

lemma from_did_pkh_valid: "from_did_pkh X did = Some (Inr a) \<Longrightarrow> valid_account X a"
  by (auto simp: from_did_pkh_def valid_account_iff AccountId_try_from_Ok_iff split: sum.splits)

lemma verify_identity_valid:
  assumes "fst (verify_identity X now client ksu sub redis) = Inr az"
  shows "valid_account X (az_account az)"
proof -
  from assms obtain did where "from_did_pkh X did = Some (Inr (az_account az))"
    by (auto simp: verify_identity_def Let_def rbind_Inr_iff verify_cacao_def split: option.splits prod.splits)
  then show ?thesis by (rule from_did_pkh_valid)
qed

lemma authorized_valid: "authorized E c expected ra client domain az \<Longrightarrow> valid_account (en_ext E) (az_account az)"
  by (auto simp: authorized_def dest: verify_identity_valid)

lemma same_address_lower:
  assumes "valid_account X a" "valid_account X b" "is_same_address a b = Some True"
  shows "get_address_lower a = get_address_lower b"
proof -
  obtain p q where pq: "get_address_from_account a = Some p" "get_address_lower a = to_ascii_lowercase p"
    "get_address_from_account b = Some q" "get_address_lower b = to_ascii_lowercase q"
    using valid_address [OF assms(1)] valid_address [OF assms(2)] by blast
  then show ?thesis using assms(3) by (simp add: is_same_address_def eq_ignore_ascii_case_def)
qed

lemma is_same_address_total:
  assumes "valid_account X a" "valid_account X b"
  shows "is_same_address a b \<noteq> None"
  using valid_address [OF assms(1)] valid_address [OF assms(2)] by (auto simp: is_same_address_def)

lemma get_subscriber_by_topic_row:
  assumes "get_subscriber_by_topic X t d = Inr s"
  shows "\<exists>q \<in> set (subscribers d). s_topic q = t \<and> s_id q = sws_id s \<and> s_project q = sws_project s \<and>
    s_account q = sws_account s \<and> s_sym_key q = sws_sym_key s"
  using assms by (auto simp: get_subscriber_by_topic_def rbind_Inr_iff map_ok_Inr_iff dest!: fetch_one_filter_Inr)

lemma get_project_row:
  assumes "get_project_by_id i d = Inr p"
  shows "p \<in> set (projects d) \<and> p_id p = i"
  using assms by (auto simp: get_project_by_id_def dest: fetch_one_filter_Inr)

text \<open>What the opening of a message on a subscriber's topic establishes.\<close>

lemma topic_opens_ok:
  assumes "open_with_client_id E wrong field msg w = (Inr opn, w') \<or> open_without_client_id E wrong field msg w = (Inr opn, w')"
  shows "get_subscriber_by_topic (en_ext E) (rm_topic msg) (w_db w) = Inr (to_subscriber opn)"
    and "get_project_by_id (sws_project (to_subscriber opn)) (w_db w) = Inr (to_project opn)"
    and "decode_key (en_ext E) (sws_sym_key (to_subscriber opn)) = Inr (to_sym_key opn)"
    and "rm_topic msg = topic_from_key (en_ext E) (to_sym_key opn)" and "w' = w"
  using assms
  by (auto simp: open_with_client_id_def open_without_client_id_def relay_subscriber_ok relay_open_ok
      relay_client_id_def h_ok)

lemma update_open_ok:
  assumes "update_open E msg w = (Inr opn, w')"
  obtains st where "w' = w\<lparr> w_buckets := st \<rparr>"
    "open_with_client_id E WrongNotifyUpdateTopic NotifyUpdate_field msg w' = (Inr opn, w')"
proof -
  from assms obtain st where "open_with_client_id E WrongNotifyUpdateTopic NotifyUpdate_field msg (w\<lparr> w_buckets := st \<rparr>) = (Inr opn, w')"
    by (auto simp: update_open_def notify_update_rate_limit_def h_bind_Inr dest!: relay_rate_limit_ok)
  then show ?thesis using topic_opens_ok(5) that by blast
qed

lemma delete_open_ok:
  assumes "delete_open E msg w = (Inr opn, w')"
  obtains st where "w' = w\<lparr> w_buckets := st \<rparr>"
    "open_with_client_id E WrongNotifyDeleteTopic NotifyDelete_field msg w' = (Inr opn, w')"
proof -
  from assms obtain st where "open_with_client_id E WrongNotifyDeleteTopic NotifyDelete_field msg (w\<lparr> w_buckets := st \<rparr>) = (Inr opn, w')"
    by (auto simp: delete_open_def notify_delete_rate_limit_def h_bind_Inr dest!: relay_rate_limit_ok)
  then show ?thesis using topic_opens_ok(5) that by blast
qed

lemma subscribe_open_ok:
  assumes "subscribe_open E msg w = (Inr opn, w')"
  shows "so_project opn \<in> set (projects (w_db w))" "p_topic (so_project opn) = rm_topic msg"
    "\<exists>st. w' = w\<lparr> w_buckets := st \<rparr>"
proof -
  from assms obtain st where "get_project_by_topic (rm_topic msg) (w_db w) = Inr (so_project opn)" "w' = w\<lparr> w_buckets := st \<rparr>"
    by (auto simp: subscribe_open_def notify_subscribe_project_rate_limit_def notify_subscribe_client_rate_limit_def
        relay_client_id_def relay_envelope_def relay_decode_key_def relay_decrypt_def h_ok dest!: relay_rate_limit_ok)
  then show "so_project opn \<in> set (projects (w_db w))" "p_topic (so_project opn) = rm_topic msg"
    "\<exists>st. w' = w\<lparr> w_buckets := st \<rparr>"
    by (auto simp: get_project_by_topic_def dest: fetch_one_filter_Inr)
qed


lemma relay_verify_identity_valid:
  "relay_verify_identity E claims client ksu sub expected w = (Inr az, w') \<Longrightarrow> valid_account (en_ext E) (az_account az)"
  by (auto simp: relay_verify_identity_def h_ok dest!: h_verify_identity_Inr dest: verify_identity_valid)

lemma kept_along: "db_keeps I m \<Longrightarrow> m w = (r, w') \<Longrightarrow> I (w_db w) \<Longrightarrow> I (w_db w')"
  using db_keepsD [of I m w] by simp

text \<open>Answering leaves the database as the inner function left it, and succeeds only when that did.\<close>

lemma answer_cases:
  assumes "h_bind (h_try m) f w = (r, w')"
    and "\<And>x I. db_keeps I (f x)" "\<And>e w u w'. f (Inl e) w \<noteq> (Inr u, w')"
  obtains r2 w2 where "m w = (r2, w2)" "w_db w' = w_db w2" "is_ok r \<longrightarrow> is_ok r2"
  using assms(1)
proof (cases rule: bind_cases)
  case (fail e)
  then show ?thesis using that by (cases rule: try_cases [OF fail(1)]) auto
next
  case (ok x w1)
  have db: "w_db w' = w_db w1" using ok(2) by (rule unchanged [rotated]) (rule assms(2))
  from ok(1) show ?thesis
  proof (cases rule: try_cases)
    case (fail e)
    then show ?thesis using that [OF fail(1)] db assms(3) [of e w1] ok(2) by (auto simp: is_ok_iff)
  qed (use that db in auto)
qed

lemma respond_and_tell_fails: "respond_and_tell E msg k t tag ttl i (Inl e) w \<noteq> (Inr u, w')"
  by (simp add: respond_and_tell_def Let_def h_ok)

section \<open>Invariants of the messages\<close>

text \<open>
  The messages that watch, read and mark keep what the statements on the other tables keep; all
  messages keep what every statement keeps.
\<close>

context rows_contract begin

lemma watch_keeps:
  assumes "en_ext E = X"
  shows "db_keeps I (watch_handle E msg)"
proof -
  have "db_keeps I (watch_inner E req key)" for req key
    unfolding watch_inner_def Let_def
    by (intro keeps_intros, rule rows_keep) (use assms relay_verify_identity_valid in blast)+
  then show ?thesis unfolding watch_handle_def by (intro keeps_intros)
qed

lemma mark_keeps: "db_keeps I (mark_handle E msg)"
  unfolding mark_handle_def mark_inner_def Let_def by (intro keeps_intros rows_keep)

lemma get_keeps: "db_keeps I (get_notifications_handle E msg)"
  unfolding get_notifications_handle_def by (intro keeps_intros)

lemma send_welcome_keeps: "db_keeps I (send_welcome E project scope s)"
  unfolding send_welcome_def by (intro keeps_intros rows_keep)

end

context database_contract begin

lemma subscribe_keeps:
  assumes "en_ext E = X"
  shows "db_keeps I (subscribe_handle E msg)"
  unfolding subscribe_handle_def subscribe_inner_def subscribe_finish_def Let_def
  by (intro keeps_intros statements_keep [OF assms] send_welcome_keeps)

lemma update_keeps:
  assumes "en_ext E = X"
  shows "db_keeps I (update_handle E msg)"
  unfolding update_handle_def update_inner_def Let_def by (intro keeps_intros statements_keep [OF assms])

lemma delete_keeps:
  assumes "en_ext E = X"
  shows "db_keeps I (delete_handle E msg)"
  unfolding delete_handle_def delete_inner_def Let_def by (intro keeps_intros statements_keep [OF assms])

lemma handle_by_tag_keeps:
  assumes "en_ext E = X"
  shows "db_keeps I (handle_by_tag E msg)"
  unfolding handle_by_tag_def Let_def
  by (intro keeps_intros subscribe_keeps delete_keeps update_keeps watch_keeps get_keeps mark_keeps assms)

lemma webhook_keeps:
  assumes "en_ext E = X"
  shows "db_keeps I (webhook_handler E try_from_str verify_basic events)"
proof -
  have "db_keeps I (handle_msg E msg)" for msg
    unfolding handle_msg_def
    by (intro keeps_intros handle_by_tag_keeps assms) (auto intro: keeps_intros split: sum.splits RelayMessageError.splits)
  moreover have "db_keeps I (\<lambda>w. (Inr (), w\<lparr> w_receipts := w_receipts w @ [(t, i)] \<rparr>))" for t i
    by (simp add: db_keeps_def)
  ultimately show ?thesis unfolding webhook_handler_def by (intro keeps_intros)
qed

end

end
