(* ===== verification/Relay_Demo.thy ===== *)
theory Relay_Demo
  imports Relay_Facts
begin

text \<open>
  A concrete client, on which the properties of the relay's handlers are tried: its key, a
  \<open>wc_notifyDelete\<close> request sealed under the key of its subscription, a CACAO that lets the key act for
  the account, and another client that watches the account. The request is carried out
  (\<open>client_deletes\<close>).
\<close>

section \<open>The request\<close>

definition client_claims :: SharedClaims where
  "client_claims = \<lparr> iat = 1700000000, exp_claim = 1700001000, iss = did_key_demo (replicate 32 6),
    aud = ''aud'',
     act = NOTIFY_DELETE_ACT, mjv = ''1'' \<rparr>"

definition client_auth :: AppRequestAuth where
  "client_auth = \<lparr> ar_shared_claims = client_claims, ar_ksu = ''https://k'',
    ar_sub = to_did_pkh ext_demo acct_a, ar_app = ''app.example'' \<rparr>"

definition client_token :: json where
  "client_token = JObject (SharedClaims_to_json client_claims @
     [(''ksu'', JString ''https://k''), (''sub'', JString (to_did_pkh ext_demo acct_a)),
      (''app'', jdid_web ext_demo ''app.example'')])"

definition client_jwt :: string where
  "client_jwt = sign_jwt ext_demo (JObject []) (replicate 32 5)"

definition client_rpc :: "string JsonRpcRequest" where
  "client_rpc = JsonRpcRequest_new 77 ''wc_notifyDelete'' client_jwt"

text \<open>A JSON parser that reads the plaintext \<open>[1]\<close> as the request and anything else as the
  claims.\<close>

definition ext_client :: ext where
  "ext_client = ext_demo\<lparr>
     json_from_slice := (\<lambda>bs. Inr (if bs = [1] then JsonRpcRequest_to_json (auth_to_json NotifyDelete_field)
       client_rpc
       else client_token)),
     cacao_verify := (\<lambda>c. if c_signature c = ''sig'' then Inr True else Inl ''invalid''),
     cacao_identity_key := (\<lambda>c. Inr (hex_demo (replicate 32 6))) \<rparr>"

definition env_client :: env where
  "env_client = env_demo\<lparr> en_ext := ext_client \<rparr>"

definition other_watcher :: watcher_row where
  "other_watcher = \<lparr> w_id = 51, w_updated_at = 0, w_account = acct_a, w_project = None,
    w_did_key = ''did:key:other'',
     w_sym_key = hex_demo (replicate 32 8), w_expiry = 1800000000000000 \<rparr>"

definition other_query :: SubscriptionWatcherQuery where
  "other_query = \<lparr> swq_account = acct_a, swq_project = None, swq_did_key = ''did:key:other'',
     swq_sym_key = hex_demo (replicate 32 8) \<rparr>"

definition demo_db8 :: db where
  "demo_db8 = demo_db6\<lparr> watchers := [other_watcher] \<rparr>"

definition client_box :: envelope0 where
  "client_box = \<lparr> envelope_type = 0, iv = replicate 12 0, sealbox = replicate 32 3 @ replicate 12 0 @ [1],
     opts = EnvelopeType0 \<rparr>"

definition client_message :: RelayIncomingMessage where
  "client_message = \<lparr> rm_topic = hex_demo (replicate 32 3),
     rm_message = hex_demo (Envelope0_to_bytes client_box), rm_tag = NOTIFY_DELETE_TAG,
     rm_message_id = hex_demo (Envelope0_to_bytes client_box), rm_received_at = 1700000000000000 \<rparr>"

section \<open>What the server makes of it\<close>

lemma ext_client_same [simp]:
  "decode_key ext_client = decode_key ext_demo" "sign_jwt ext_client = sign_jwt ext_demo"
  "eip155_account ext_client = eip155_account ext_demo" 
  "to_did_pkh ext_client = to_did_pkh ext_demo" "topic_from_key ext_client = hex_demo" "valid_account ext_client = valid_account ext_demo"
proof -
  show a: "eip155_account ext_client = eip155_account ext_demo"
    by (simp add: fun_eq_iff eip155_account_def erc_55_checksum_encode_def ext_client_def)
  show "valid_account ext_client = valid_account ext_demo"
    by (simp add: fun_eq_iff valid_account_iff a)
  show "topic_from_key ext_client = hex_demo"
    by (simp add: fun_eq_iff topic_from_key_def ext_client_def ext_demo_def)
  show "decode_key ext_client = decode_key ext_demo" "sign_jwt ext_client
    = sign_jwt ext_demo" "to_did_pkh ext_client = to_did_pkh ext_demo"
    by (simp_all add: fun_eq_iff decode_key_def sign_jwt_def Let_def to_did_pkh_def ext_client_def)
qed

lemma wf_demo_db8: "wf_db ext_client demo_db8"
  using valid_demo_accounts
  by (simp add: demo_db8_def other_watcher_def demo_db6_defs wf_db_def wf_table_defs pids_def sids_def nids_def
    pg_status_def)

definition client_subscriber :: SubscriberWithScope where
  "client_subscriber = \<lparr> sws_id = 7, sws_project = 1, sws_account = acct_a,
    sws_sym_key = hex_demo (replicate 32 3),
     sws_topic = hex_demo (replicate 32 3), sws_scope = {}, sws_expiry = 100 \<rparr>"

lemma from_did_pkh_client: "from_did_pkh ext_client (to_did_pkh ext_demo acct_a) = Some (Inr acct_a)"
proof -
  have "did_laws ext_client" using did_laws_demo by (simp add: did_laws_def ext_client_def)
  from codec_exact.dec_iff [OF did_pkh_codec [OF this], of "to_did_pkh ext_demo acct_a" acct_a] show ?thesis
    using valid_demo_accounts(1) by (simp add: from_did_pkh_res_def split: option.splits)
qed

lemma client_rows:
  "get_subscriber_by_topic ext_client (hex_demo (replicate 32 3)) demo_db8 = Inr client_subscriber"
  "get_project_by_id 1 demo_db8 = Inr demo_key_project"
  using valid_demo_accounts
  by (simp_all add: get_subscriber_by_topic_def get_project_by_id_def fetch_one_def demo_db8_def demo_db6_defs
    client_subscriber_def
    scope_names_def parse_scopes_and_ignore_invalid_def decode_account_Inr_iff [THEN iffD2])

lemma client_envelope:
  "b64_std_decode ext_client (rm_message client_message) = Inr (0 # replicate 12 0 @ replicate 32 3 @ replicate 12 0
    @ [1])"
  "Envelope0_from_bytes (0 # replicate 12 0 @ replicate 32 3 @ replicate 12 0 @ [1]) =
    Inr client_box"
proof -
  show "b64_std_decode ext_client (rm_message client_message)
    = Inr (0 # replicate 12 0 @ replicate 32 3 @ replicate 12 0 @ [1])"
    by (simp add: client_message_def client_box_def Envelope0_to_bytes_def ext_client_def ext_demo_def
      hex_roundtrip_demo del: hex_demo.simps)
  show "Envelope0_from_bytes (0 # replicate 12 0 @ replicate 32 3 @ replicate 12 0 @ [1]) =
    Inr client_box"
    using envelope0.dec_enc [of client_box] by (simp add: client_box_def wf_envelope0_def Envelope0_to_bytes_def)
qed

lemma client_decrypt:
  "decrypt_message ext_client (auth_from_json NotifyDelete_field) (replicate 12 0) (replicate 32 3 @ replicate 12 0 @
    [1]) (replicate 32 3) = Inr client_rpc"
proof -
  have "chacha_decrypt ext_client (replicate 32 3) (replicate 12 0) (replicate 32 3 @ replicate 12 0 @
    [1]) = Some [1]"
    by (simp add: ext_client_def ext_demo_def)
  then show ?thesis
    by (simp add: decrypt_message_def request_roundtrip) (simp add: ext_client_def request_roundtrip)
qed

lemma client_open:
  "delete_open env_client client_message (world_demo demo_db8) = (Inr \<lparr> to_subscriber = client_subscriber,
     to_project = demo_key_project, to_project_client_id = replicate 32 2, to_sym_key = replicate 32 3,
       to_req = client_rpc \<rparr>, world_demo demo_db8)"
proof -
  have "relay_subscriber env_client WrongNotifyDeleteTopic client_message (world_demo demo_db8) = (Inr (client_subscriber, demo_key_project), world_demo demo_db8)"
    using client_rows by (simp add: relay_subscriber_def h_ok h_query_Inr client_message_def world_demo_def
      env_client_def) (simp add: client_subscriber_def)
  moreover have "relay_open env_client NotifyDelete_field client_subscriber client_message (world_demo demo_db8) = (Inr (replicate 32 3, client_rpc), world_demo demo_db8)"
    using client_envelope client_decrypt
    by (simp add: client_box_def relay_open_def relay_envelope_def relay_decode_key_def relay_decrypt_def h_ok
      env_client_def client_subscriber_def decode_key_demo)
       (simp add: client_message_def)
  moreover have "relay_client_id env_client demo_key_project (world_demo demo_db8)
    = (Inr (replicate 32 2), world_demo demo_db8)"
    by (simp add: relay_client_id_def h_ok get_authentication_client_id_def demo_key_project_def env_client_def
      decode_key_demo get_client_id_def) (simp add: ext_client_def ext_demo_def)
  ultimately show ?thesis
    by (simp add: delete_open_def notify_delete_rate_limit_def relay_rate_limit_def h_token_bucket_def
      open_with_client_id_def h_ok env_client_def env_demo_def)
qed

lemma client_from_jwt:
  "from_jwt ext_client 1700000000000000 (SubscriptionDeleteRequestAuth_from_json ext_client) ar_shared_claims client_jwt = Inr client_auth"
proof -
  have laws: "jwt_laws ext_client" using jwt_laws_demo by (simp add: jwt_laws_def ext_client_def)
  have j: "json_from_slice ext_client (as_bytes (json_to_string ext_client (JObject []))) = Inr client_token"
    by (simp add: ext_client_def ext_demo_def as_bytes_def)
  have w: "DidWeb_from ext_client (DidWeb_to_string ext_demo d) = Inr d" for d
    using did_laws_demo by (simp add: DidWeb_from_def DidWeb_to_string_def did_laws_def ext_client_def)
  have c: "SubscriptionDeleteRequestAuth_from_json ext_client client_token = Inr client_auth"
    by (simp add: SubscriptionDeleteRequestAuth_from_json_def as_object_def AppRequestAuth_from_members_def
      SharedClaims_from_json_def
      SharedClaims_to_json_def client_token_def req_field_def default_field_def jfield_def as_string_def jdid_web_def
        as_did_web_def w client_auth_def)
  have k: "try_from_did_key ext_client (iss (ar_shared_claims client_auth))
    = Inr (ed25519_verifying_key ext_client (replicate 32 5))"
    using demo_token_facts(1) by (simp add: client_auth_def client_claims_def demo_claims_def ext_client_def)
  have t: "\<not> jwt_expired 1700000000000000 (ar_shared_claims client_auth)" "\<not> jwt_not_yet_valid 1700000000000000 (ar_shared_claims client_auth)"
    using demo_token_facts(2,3) by (simp_all add: client_auth_def client_claims_def demo_claims_def jwt_expired_def
      jwt_not_yet_valid_def)
  have "\<forall>t \<in> {b64_url_no_pad_encode ext_client (as_bytes (jwt_header_string ext_client)),
     b64_url_no_pad_encode ext_client (as_bytes (json_to_string ext_client (JObject [])))}. CHR ''-'' \<notin> set t
       \<and> CHR ''_'' \<notin> set t"
    using demo_token_facts(4) by (simp add: ext_client_def)
  from sign_jwt_accepted [where get_shared = ar_shared_claims and claims = client_auth
      and from_json = "SubscriptionDeleteRequestAuth_from_json ext_client" and X = ext_client and
        j = "JObject []", OF laws j c k t this] show ?thesis by (simp add: client_jwt_def)
qed

lemma client_identity:
  "h_verify_identity env_client (replicate 32 6) ''https://k'' (to_did_pkh ext_demo acct_a) w =
    (Inr \<lparr> az_account = acct_a, az_app = Limited ''app.example'', az_domain = ''app.example'' \<rparr>, w)"
proof -
  have ks: "keys_server_request_cached ext_client 1700000000000000 url None = (Inr cacao_demo, None)" for url
    using keys_server_demo [of url] by (simp add: keys_server_request_cached_def keys_server_request_def
      ext_client_def)
  have "cacao_app ext_client cacao_demo = Inr (Limited ''app.example'')"
    using cacao_app_demo by (simp add: cacao_app_def parse_recap_def fetch_optional_def cacao_demo_def [THEN arg_cong
      [where f = c_resources]])
  then have "verify_cacao ext_client 1700000000000000 (hex_demo (replicate 32 6)) (to_did_pkh ext_demo acct_a)
    cacao_demo = Inr \<lparr> az_account = acct_a, az_app = Limited ''app.example'',
    az_domain = ''app.example'' \<rparr>"
    using from_did_pkh_client cacao_demo_account
    by (simp add: verify_cacao_def check_nbf_def check_exp_def) (simp add: ext_client_def ext_demo_def cacao_demo_def)
  moreover have "url_parse ext_client u = Some u" "url_join ext_client u p
    = Some (u @ p)" "client_id_to_string ext_client = hex_demo" for u p
    by (simp_all add: ext_client_def ext_demo_def)
  ultimately show ?thesis
    by (simp add: h_verify_identity_def verify_identity_def ks Let_def env_client_def env_demo_def)
qed

definition client_authorization :: Authorization where
  "client_authorization = \<lparr> az_account = acct_a, az_app = Limited ''app.example'',
    az_domain = ''app.example'' \<rparr>"

definition client_opened :: topic_opened where
  "client_opened = \<lparr> to_subscriber = client_subscriber,
     to_project = demo_key_project, to_project_client_id = replicate 32 2, to_sym_key = replicate 32 3,
       to_req = client_rpc \<rparr>"

lemma client_checks:
  "relay_from_jwt env_client (SubscriptionDeleteRequestAuth_from_json ext_client) ar_shared_claims client_jwt w = (Inr (client_auth, replicate 32 6), w)"
  "relay_authorize env_client client_auth (replicate 32 6) NOTIFY_DELETE_ACT ''app.example'' w = (Inr client_authorization, w)"
  "relay_same_account client_authorization client_subscriber w = (Inr (), w)"
proof -
  have "try_from_did_key ext_client (iss (ar_shared_claims client_auth)) = Inr (replicate 32 6)"
    using did_key_laws_demo by (simp add: did_key_laws_def client_auth_def client_claims_def ext_client_def
      ext_demo_def)
  then show "relay_from_jwt env_client (SubscriptionDeleteRequestAuth_from_json ext_client) ar_shared_claims client_jwt w = (Inr (client_auth, replicate 32 6), w)"
    using client_from_jwt by (simp add: relay_from_jwt_def h_ok env_client_def env_demo_def)
  show "relay_authorize env_client client_auth (replicate 32 6) NOTIFY_DELETE_ACT ''app.example'' w = (Inr client_authorization, w)"
    using client_identity by (auto simp: relay_authorize_def relay_verify_identity_def h_ok client_auth_def
      client_claims_def client_authorization_def)
  have "is_same_address acct_a acct_a = Some True"
    using is_same_address_total [OF valid_demo_accounts(1) valid_demo_accounts(1)]
      by (auto simp: is_same_address_def eq_ignore_ascii_case_def split: option.splits)
  then show "relay_same_account client_authorization client_subscriber w = (Inr (), w)"
    by (simp add: relay_same_account_def h_bind_def h_defs client_authorization_def client_subscriber_def)
qed

lemma client_prepared:
  assumes "w_db w = delete_subscriber 7 demo_db8"
  shows "prepare_subscription_watchers env_client (replicate 32 6) ''1'' acct_a ''app.example'' w = (Inr ([], [(other_query, [])]), w)"
proof -
  have "get_subscriptions_by_account_and_maybe_app ext_client acct_a None (delete_subscriber 7 demo_db8) = Inr []"
    by (simp add: get_subscriptions_by_account_and_maybe_app_def delete_subscriber_def demo_db8_def demo_db6_defs)
  moreover have "get_subscription_watchers_for_account_by_app_or_all_app ext_client 1700000000000000 acct_a ''app.example'' (delete_subscriber 7 demo_db8) =
    Inr [other_query]"
    using valid_demo_accounts
    by (simp add: get_subscription_watchers_for_account_by_app_or_all_app_def delete_subscriber_def demo_db8_def
      demo_db6_defs other_watcher_def other_query_def
      decode_account_Inr_iff [THEN iffD2])
  moreover have "to_did_key ext_client (replicate 32 6) \<noteq> ''did:key:other''"
    by (simp add: ext_client_def ext_demo_def did_key_demo_def did_combine_demo_def list_eq_iff_nth_eq)
  ultimately show ?thesis
    using assms by (simp add: prepare_subscription_watchers_def collect_subscriptions_def h_ok env_client_def
      env_demo_def Let_def with_account_def)
        (simp add: other_query_def)
qed

lemma client_sends: "publish_relay_message (en_publish env_client p)
  = Inr ()" "seal_message ext_client nonce key j \<noteq> None"
  by (simp_all add: publish_relay_message_def retry_loop.simps publish_call_def env_client_def env_demo_def
    seal_message_def Envelope0_new_def ext_client_def ext_demo_def)

lemma client_parts:
  "mjv (ar_shared_claims client_auth) = ''1''" "az_account client_authorization = acct_a" "sws_id client_subscriber = 7"
  "to_subscriber client_opened = client_subscriber" "to_project client_opened = demo_key_project"
  "rq_params (to_req client_opened) = client_jwt" "p_app_domain demo_key_project = ''app.example''"
  "en_ext env_client = ext_client" "p_authentication_private_key demo_key_project = hex_demo (replicate 32 1)"
  by (simp_all add: client_auth_def client_claims_def client_authorization_def client_subscriber_def client_opened_def
      client_rpc_def JsonRpcRequest_new_def demo_key_project_def demo_project_def env_client_def)

lemma client_inner:
  "\<exists>jwt w2. delete_inner env_client client_message client_opened (world_demo demo_db8) =
    (Inr (jwt, [(other_query, [])]), w2)"
  using client_checks
  by (simp add: delete_inner_def Let_def h_bind_def client_parts db_delete_subscriber_def
      notify_webhook_def h_return_def h_unsubscribe_def h_map_err_def client_prepared
        world_demo_def
      relay_sign_def relay_decode_key_def h_lift_def decode_key_demo analytics_subscriber_update_def h_collect_def)

lemma client_publishes: "\<exists>w'. publish_response env_client client_message key t tag ttl j w = (Inr (), w')"
  using client_sends(2) [of "dr_nonce (en_draw env_client (w_drawn w))" key j]
  by (auto simp: publish_response_def h_bind_def h_defs client_parts h_map_err_def h_publish_def client_sends(1))

lemma client_tells: "\<exists>w'. send_to_watcher env_client client_message subs a d (hex_demo (replicate 32 8)) w = (Inr (), w')"
proof -
  have "\<exists>f. \<forall>n k j. seal_message ext_client n k j = Some (f n k j)"
    by (rule exI [of _ "\<lambda>n k j. hex_demo (0 # n @ k @ n @ as_bytes ''{}'')"])
      (simp add: seal_message_def Envelope0_new_def Envelope0_to_bytes_def ext_client_def ext_demo_def del:
        hex_demo.simps)
  then obtain f where "seal_message ext_client n k j = Some (f n k j)" for n k j by blast
  then show ?thesis
    by (simp add: send_to_watcher_def Let_def h_bind_def h_defs client_parts h_map_err_def h_publish_def
      client_sends(1)
        decode_key_demo ok_or_def)
qed

lemma client_deletes: "\<exists>w'. delete_handle env_client client_message (world_demo demo_db8) = (Inr (), w')"
proof -
  obtain jwt w2 where "delete_inner env_client client_message client_opened (world_demo demo_db8) =
    (Inr (jwt, [(other_query, [])]), w2)"
    using client_inner by blast
  moreover have "\<exists>w'. respond_and_tell env_client client_message key t tag ttl i (Inr (jwt,
      [(other_query, [])])) w2 = (Inr (), w')"
    for key t tag ttl i
  proof -
    obtain w3 where "publish_response env_client client_message key t tag ttl (response_json env_client ResponseAuth_field i (Inr jwt)) w2 = (Inr (), w3)"
      using client_publishes by blast
    moreover obtain w4 where "send_to_watcher env_client client_message [] (swq_account other_query) (swq_did_key other_query)
        (swq_sym_key other_query) w3 = (Inr (), w4)"
      using client_tells by (fastforce simp: other_query_def)
    moreover have "en_response_first env_client" by (simp add: env_client_def env_demo_def)
    ultimately show ?thesis
      by (simp add: respond_and_tell_def Let_def h_bind_def try_join_def h_map_err_def
        send_to_subscription_watchers_def h_try_def h_return_def h_lift_def)
  qed
  ultimately show ?thesis
    using client_open by (simp add: delete_handle_def h_bind_def h_try_def client_opened_def [symmetric])
qed

section \<open>The laws\<close>

lemma laws_client:
  "keccak_laws ext_client" "uuid_laws ext_client" "jwt_laws ext_client" "aead_laws ext_client"
  "b64_std_decode ext_client (b64_std_encode ext_client bs) = Inr bs"
  using keccak_laws_demo uuid_laws_demo jwt_laws_demo aead_laws_demo b64_std_demo
  by (simp_all add: keccak_laws_def uuid_laws_def jwt_laws_def aead_laws_def ext_client_def)

lemma nonce_client: "length (dr_nonce (en_draw env_client k)) = 12"
  by (simp add: env_client_def env_demo_def draw_demo_def)

end
