(* ===== verification/Subscriptions.thy ===== *)
theory Subscriptions
  imports Relay_Demo
begin

text \<open>
  What the subscriber tables stand for: a map from a project and a lower-cased address to the set of
  notification types. The statements that subscribe, update and unsubscribe refine the update of
  this map, and the relay's messages change it only by commands that the account itself, or an app
  it authorized, has signed.
\<close>

section \<open>The abstract subscriptions\<close>

type_synonym subscription_map = "uuid \<times> string \<rightharpoonup> uuid set"

definition subscriptions :: "ext \<Rightarrow> db \<Rightarrow> subscription_map" where
  "subscriptions X d key =
     map_option (\<lambda>s. parse_scopes_and_ignore_invalid X (scope_names (s_id s) d))
       (find (\<lambda>s. s_index s = key) (subscribers d))"

datatype command = Put "uuid \<times> string" "uuid set" | Drop "uuid \<times> string"

fun apply_command :: "command \<Rightarrow> subscription_map \<Rightarrow> subscription_map" where
  "apply_command (Put key scope) m = m(key \<mapsto> scope)"
| "apply_command (Drop key) m = m(key := None)"

lemma map_eqI: "(\<And>k v. f k = Some v \<longleftrightarrow> g k = Some v) \<Longrightarrow> f = g"
  by (rule ext) (metis not_Some_eq)

lemma subscriptions_iff:
  assumes "wf_db X d"
  shows "subscriptions X d key = Some sc \<longleftrightarrow>
    (\<exists>s \<in> set (subscribers d). s_index s = key \<and> sc = parse_scopes_and_ignore_invalid X (scope_names (s_id s) d))"
proof -
  have dis: "distinct (map s_index (subscribers d))"
    using wf_dbD(2) [OF assms] by (simp add: wf_subscribers_def)
  have "find (\<lambda>s. s_index s = key) (subscribers d) = Some s" if "s \<in> set (subscribers d)" "s_index s = key" for s
  proof (cases "find (\<lambda>s. s_index s = key) (subscribers d)")
    case None
    then show ?thesis using that by (auto simp: find_None_iff)
  next
    case (Some q)
    then show ?thesis using find_Some_set [OF Some] distinct_map_inj [OF dis] that by auto
  qed
  then show ?thesis by (auto simp: subscriptions_def dest: find_Some_set)
qed

lemma subscriptions_frame:
  "subscribers d' = subscribers d \<Longrightarrow> scopes d' = scopes d \<Longrightarrow> subscriptions X d' = subscriptions X d"
  by (simp add: subscriptions_def scope_names_def fun_eq_iff)

lemma subscriptions_delete:
  assumes "wf_db X d" "s \<in> set (subscribers d)"
  shows "subscriptions X (delete_subscriber (s_id s) d) = apply_command (Drop (s_index s)) (subscriptions X d)"
proof (rule map_eqI)
  fix key sc
  let ?d = "delete_subscriber (s_id s) d"
  have dis: "distinct (map s_id (subscribers d))" "distinct (map s_index (subscribers d))"
    using wf_dbD(2) [OF assms(1)] by (simp_all add: wf_subscribers_def)
  have "scope_names i ?d = scope_names i d" if "i \<noteq> s_id s" for i
    using that by (auto simp: delete_subscriber_def scope_names_def
        intro!: arg_cong [where f = "map sc_name"] filter_cong)
  moreover have "s_id q = s_id s \<longleftrightarrow> s_index q = s_index s" if "q \<in> set (subscribers d)" for q
    using distinct_map_inj [OF dis(1) that assms(2)] distinct_map_inj [OF dis(2) that assms(2)] by auto
  moreover have "set (subscribers ?d) = {q \<in> set (subscribers d). s_id q \<noteq> s_id s}"
    by (auto simp: delete_subscriber_def)
  ultimately show "(subscriptions X ?d key = Some sc) =
      (apply_command (Drop (s_index s)) (subscriptions X d) key = Some sc)"
    by (auto simp: subscriptions_iff [OF delete_subscriber_wf [OF assms(1)]] subscriptions_iff [OF assms(1)])
qed

text \<open>
  One row has the written key and scope; the rows of every other id, and their scopes, are as before;
  and no other row had or has that id.
\<close>

lemma subscriptions_put:
  assumes "wf_db X d" "wf_db X d'"
    and "s \<in> set (subscribers d')" "s_index s = key" "parse_scopes_and_ignore_invalid X (scope_names (s_id s) d') = sc"
    and "{q \<in> set (subscribers d'). s_id q \<noteq> s_id s} = {q \<in> set (subscribers d). s_id q \<noteq> s_id s}"
    and "\<And>i. i \<noteq> s_id s \<Longrightarrow> scope_names i d' = scope_names i d"
    and "\<And>q. q \<in> set (subscribers d) \<Longrightarrow> s_id q = s_id s \<Longrightarrow> s_index q = key"
  shows "subscriptions X d' = apply_command (Put key sc) (subscriptions X d)"
proof (rule map_eqI)
  fix k v
  show "(subscriptions X d' k = Some v) = (apply_command (Put key sc) (subscriptions X d) k = Some v)"
  proof (cases "k = key")
    case True
    have "subscriptions X d' key = Some sc"
      unfolding subscriptions_iff [OF assms(2)] using assms(3-5) by blast
    then show ?thesis using True by auto
  next
    case False
    have rows: "q \<in> set (subscribers d') \<and> s_index q = k \<longleftrightarrow> q \<in> set (subscribers d) \<and> s_index q = k" for q
    proof (cases "s_id q = s_id s")
      case True
      have "distinct (map s_id (subscribers d'))"
        using wf_dbD(2) [OF assms(2)] by (simp add: wf_subscribers_def)
      from distinct_map_inj [OF this _ assms(3) True] have "q \<in> set (subscribers d') \<Longrightarrow> s_index q = key"
        using assms(4) by auto
      then show ?thesis using assms(8) [OF _ True] False by auto
    next
      case id: False
      show ?thesis using assms(6) id by blast
    qed
    have names: "scope_names (s_id q) d' = scope_names (s_id q) d" if "q \<in> set (subscribers d)" "s_index q = k" for q
      using assms(7,8) that False by metis
    have "(\<exists>q \<in> set (subscribers d'). s_index q = k \<and> v = parse_scopes_and_ignore_invalid X (scope_names (s_id q) d')) \<longleftrightarrow>
        (\<exists>q \<in> set (subscribers d). s_index q = k \<and> v = parse_scopes_and_ignore_invalid X (scope_names (s_id q) d))"
      using rows names by metis
    then show ?thesis
      using False by (simp add: subscriptions_iff [OF assms(1)] subscriptions_iff [OF assms(2)])
  qed
qed

lemma subscriptions_upsert:
  assumes "wf_db X d" "uuid_laws X" "valid_account X account" "finite scope"
    and "upsert_subscriber X new_id gen now project account scope notify_key notify_topic d = Inr (k, d')"
  shows "subscriptions X d' = apply_command (Put (project, get_address_lower account) scope) (subscriptions X d)"
proof -
  from assms(5) varchar255_valid_account [OF assms(3)] obtain sk nt d1 where
    row: "upsert_subscriber_row X now \<lparr> s_id = new_id, s_updated_at = now, s_project = project,
       s_account = account, s_sym_key = sk, s_topic = nt, s_expiry = now + days 30 \<rparr> d = Inr (k, d1)"
    and sc: "update_subscriber_scope X gen (sr_id k) scope d1 = Inr d'"
    by (auto simp: upsert_subscriber_def rbind_Inr_iff)
  let ?r = "\<lparr> s_id = new_id, s_updated_at = now, s_project = project,
       s_account = account, s_sym_key = sk, s_topic = nt, s_expiry = now + days 30 \<rparr>"
  note up = upsert_subscriber_row_spec [OF row]
  note sco = update_subscriber_scope_scopes [OF sc assms(2)]
  have d': "subscribers d' = subscribers d1"
    using sco(3) by (metis db.select_convs(2) db.surjective db.update_convs(3))
  have wf': "wf_db X d'" using assms(1,5) upsert_subscriber_wf by blast
  have ids: "distinct (map s_id (subscribers d))"
    using wf_dbD(2) [OF assms(1)] by (simp add: wf_subscribers_def)
  note rowf = subscriber_upserted_row [OF conjunct1 [OF up] ids]
  from rowf(1) d' obtain s where s: "s \<in> set (subscribers d')" "s_id s = sr_id k" "s_index s = s_index ?r"
    by auto
  show ?thesis
  proof (rule subscriptions_put [OF assms(1) wf' s(1)])
    show "s_index s = (project, get_address_lower account)" using s(3) by (simp add: s_index_def)
    show "parse_scopes_and_ignore_invalid X (scope_names (s_id s) d') = scope"
      using sco(1) s(2) parse_scopes_uuid_strings [OF assms(2,4)] by simp
    show "{q \<in> set (subscribers d'). s_id q \<noteq> s_id s} = {q \<in> set (subscribers d). s_id q \<noteq> s_id s}"
      using rowf(2) d' s(2) by simp
    show "scope_names i d' = scope_names i d" if "i \<noteq> s_id s" for i
    proof -
      have "scope_names i d1 = scope_names i d"
        using up by (metis (no_types) db.select_convs(3) db.surjective db.update_convs(2) scope_names_def)
      then show ?thesis using sco(2) that s(2) by simp
    qed
    show "s_index q = (project, get_address_lower account)" if q: "q \<in> set (subscribers d)" "s_id q = s_id s" for q
    proof -
      obtain s0 where "s0 \<in> set (subscribers d)" "s_index s0 = s_index ?r" "s_id s0 = sr_id k"
        using conjunct1 [OF up] imageI [OF q(1), of s_id] q(2) s(2)
        by (auto simp: subscriber_upserted_def split: if_splits)
      moreover from this have "q = s0" using distinct_map_inj [OF ids q(1)] q(2) s(2) by simp
      ultimately show ?thesis by (simp add: s_index_def)
    qed
  qed
qed

lemma subscriptions_update:
  assumes "wf_db X d" "uuid_laws X" "finite scope" "s \<in> set (subscribers d)"
    and "update_subscriber X gen now (s_id s) scope d = Inr (r, d')"
  shows "subscriptions X d' = apply_command (Put (s_index s) scope) (subscriptions X d)"
proof -
  let ?d1 = "renew_subscriber now (s_id s) d"
  have r: "s_id r = s_id s" and sc: "update_subscriber_scope X gen (s_id s) scope ?d1 = Inr d'"
    using assms(5) by (auto simp: update_subscriber_def rbind_Inr_iff fetch_one_Inr_iff Let_def dest: fetch_one_filter_Inr)
      (metis (mono_tags, lifting) filter_empty_conv hd_in_set mem_Collect_eq set_filter)+
  note sco = update_subscriber_scope_scopes [OF sc assms(2)]
  have d': "subscribers d' = subscribers ?d1"
    using sco(3) by (metis db.select_convs(2) db.surjective db.update_convs(3))
  have wf': "wf_db X d'" using assms(1,5) update_subscriber_wf by blast
  let ?s = "s\<lparr> s_updated_at := now, s_expiry := now + days 30 \<rparr>"
  have ids: "distinct (map s_id (subscribers d))"
    using wf_dbD(2) [OF assms(1)] by (simp add: wf_subscribers_def)
  have "subscriptions X d' = apply_command (Put (s_index s) scope) (subscriptions X d)"
  proof (rule subscriptions_put [OF assms(1) wf', where s = ?s])
    show "?s \<in> set (subscribers d')" using assms(4) d' by (auto simp: renew_subscriber_def set_update_where)
    show "s_index ?s = s_index s" by (simp add: s_index_def)
    show "parse_scopes_and_ignore_invalid X (scope_names (s_id ?s) d') = scope"
      using sco(1) parse_scopes_uuid_strings [OF assms(2,3)] by simp
    show "{q \<in> set (subscribers d'). s_id q \<noteq> s_id ?s} = {q \<in> set (subscribers d). s_id q \<noteq> s_id ?s}"
      unfolding d' by (auto simp: renew_subscriber_def set_update_where)
    show "scope_names i d' = scope_names i d" if "i \<noteq> s_id ?s" for i
      using sco(2) that by (simp add: renew_subscriber_def scope_names_def)
    show "s_index q = s_index s" if "q \<in> set (subscribers d)" "s_id q = s_id ?s" for q
      using distinct_map_inj [OF ids that(1) assms(4)] that(2) by simp
  qed
  then show ?thesis .
qed


section \<open>Commands\<close>

text \<open>
  The commands a message may carry out: the claims of a verified JWT, whose act is the tag's, about
  the project's app, and the authorization of the key that signed it.
\<close>

inductive signed_command :: "env \<Rightarrow> world \<Rightarrow> nat \<Rightarrow> command \<Rightarrow> bool" for E w where
  subscribes:
    "p \<in> set (projects (w_db w)) \<Longrightarrow>
     from_jwt (en_ext E) (en_now E) (SubscriptionRequestAuth_from_json (en_ext E)) (\<lambda>r. ar_shared_claims (srq_base r)) jwt = Inr ra \<Longrightarrow>
     try_from_did_key (en_ext E) (iss (ar_shared_claims (srq_base ra))) = Inr client \<Longrightarrow>
     authorized E (w_cacao w) NOTIFY_SUBSCRIBE_ACT (srq_base ra) client (p_app_domain p) az \<Longrightarrow>
     parse_scope (en_ext E) (srq_scp ra) = Inr scope \<Longrightarrow>
     signed_command E w NOTIFY_SUBSCRIBE_TAG (Put (p_id p, get_address_lower (az_account az)) scope)"
| updates:
    "p \<in> set (projects (w_db w)) \<Longrightarrow>
     from_jwt (en_ext E) (en_now E) (SubscriptionUpdateRequestAuth_from_json (en_ext E)) (\<lambda>r. ar_shared_claims (srq_base r)) jwt = Inr ra \<Longrightarrow>
     try_from_did_key (en_ext E) (iss (ar_shared_claims (srq_base ra))) = Inr client \<Longrightarrow>
     authorized E (w_cacao w) NOTIFY_UPDATE_ACT (srq_base ra) client (p_app_domain p) az \<Longrightarrow>
     parse_scope (en_ext E) (srq_scp ra) = Inr scope \<Longrightarrow>
     subscriptions (en_ext E) (w_db w) (p_id p, get_address_lower (az_account az)) \<noteq> None \<Longrightarrow>
     signed_command E w NOTIFY_UPDATE_TAG (Put (p_id p, get_address_lower (az_account az)) scope)"
| unsubscribes:
    "p \<in> set (projects (w_db w)) \<Longrightarrow>
     from_jwt (en_ext E) (en_now E) (SubscriptionDeleteRequestAuth_from_json (en_ext E)) ar_shared_claims jwt = Inr ra \<Longrightarrow>
     try_from_did_key (en_ext E) (iss (ar_shared_claims ra)) = Inr client \<Longrightarrow>
     authorized E (w_cacao w) NOTIFY_DELETE_ACT ra client (p_app_domain p) az \<Longrightarrow>
     subscriptions (en_ext E) (w_db w) (p_id p, get_address_lower (az_account az)) \<noteq> None \<Longrightarrow>
     signed_command E w NOTIFY_DELETE_TAG (Drop (p_id p, get_address_lower (az_account az)))"

lemma finite_parse_scope: "parse_scope X s = Inr scope \<Longrightarrow> finite scope"
  by (auto simp: parse_scope_def map_ok_Inr_iff)

lemma subscriber_key:
  assumes "wf_db X d" "get_subscriber_by_topic X t d = Inr s" "get_project_by_id (sws_project s) d = Inr p"
    and "valid_account X a" "is_same_address a (sws_account s) = Some True"
  obtains q where "q \<in> set (subscribers d)" "s_id q = sws_id s" "s_index q = (p_id p, get_address_lower a)"
    "p \<in> set (projects d)" "subscriptions X d (p_id p, get_address_lower a) \<noteq> None"
proof -
  obtain q where q: "q \<in> set (subscribers d)" "s_id q = sws_id s" "s_project q = sws_project s" "s_account q = sws_account s"
    using get_subscriber_by_topic_row [OF assms(2)] by blast
  have "get_address_lower a = get_address_lower (s_account q)"
    using same_address_lower [OF assms(4) _ assms(5)] valid_subscriber_accounts [OF assms(1) q(1)] q(4) by simp
  then have i: "s_index q = (p_id p, get_address_lower a)"
    using q(3) get_project_row [OF assms(3)] by (simp add: s_index_def)
  have "subscriptions X d (p_id p, get_address_lower a) =
      Some (parse_scopes_and_ignore_invalid X (scope_names (s_id q) d))"
    unfolding subscriptions_iff [OF assms(1)] using q(1) i by blast
  then show thesis using that q i get_project_row [OF assms(3)] by simp
qed

section \<open>The inner functions\<close>

text \<open>An inner function fails before it changes the subscriptions, or carries out its command.\<close>

lemma update_statement_cases:
  assumes "db_update_subscriber E g i scope w = (r, w')"
  obtains (fail) e where "r = Inl e" "w_db w' = w_db w"
    | (ok) row where "r = Inr row"
        "update_subscriber (en_ext E) (dr_uuids (en_draw E (w_drawn w))) (en_now E) i scope (w_db w) = Inr (row, w_db w')"
  using assms
  by (auto simp: db_update_subscriber_def h_bind_def h_draw_def h_exec_def h_fail_def split: sum.splits prod.splits)

lemma upsert_statement_cases:
  assumes "db_upsert_subscriber E g p account scope nk nt w = (r, w')"
  obtains (fail) e where "r = Inl e" "w_db w' = w_db w"
    | (ok) k new gen where "r = Inr k"
        "upsert_subscriber (en_ext E) new gen (en_now E) p account scope nk nt (w_db w) = Inr (k, w_db w')"
  using assms
  by (auto simp: db_upsert_subscriber_def h_bind_def h_draw_def h_exec_def h_fail_def split: sum.splits prod.splits)

text \<open>The part the three functions share: the JWT and what its key is authorized for.\<close>

lemma authorized_cases:
  assumes "h_bind (relay_from_jwt E from_json (\<lambda>r. ar_shared_claims (base r)) jwt) (\<lambda>(ra, client).
      h_bind (relay_authorize E (base ra) client expected_act app) (f ra client)) w = (r, w')"
  obtains (fail) e where "r = Inl e" "w_db w' = w_db w"
    | (ok) ra client az w2 where
        "from_jwt (en_ext E) (en_now E) from_json (\<lambda>r. ar_shared_claims (base r)) jwt = Inr ra"
        "try_from_did_key (en_ext E) (iss (ar_shared_claims (base ra))) = Inr client"
        "authorized E (w_cacao w) expected_act (base ra) client app az"
        "w_db w2 = w_db w" "f ra client az w2 = (r, w')"
  using assms
proof (cases rule: bind_cases)
  case (fail e)
  show ?thesis using that(1) fail(2) unchanged [OF keeps_relay_steps(8) fail(1)] by blast
next
  case (ok x w1)
  obtain ra client where x: "x = (ra, client)" by force
  from ok(1) have jwt: "from_jwt (en_ext E) (en_now E) from_json (\<lambda>r. ar_shared_claims (base r)) jwt = Inr ra"
    "try_from_did_key (en_ext E) (iss (ar_shared_claims (base ra))) = Inr client" "w1 = w"
    by (simp_all add: x relay_from_jwt_ok)
  from ok(2) show ?thesis unfolding x prod.case
  proof (cases rule: bind_cases)
    case (fail e)
    show ?thesis using that(1) fail(2) unchanged [OF keeps_relay_steps(10) fail(1)] jwt(3) by simp
  next
    case (ok az w2)
    show ?thesis
      using that(2) [OF jwt(1,2) _ _ ok(2)] relay_authorize_ok [OF ok(1)] jwt(3) by auto
  qed
qed

lemma delete_inner_cases:
  assumes "delete_inner E msg opn w = (r, w')"
  obtains (fail) e where "r = Inl e" "w_db w' = w_db w"
    | (ok) ra client az where
        "from_jwt (en_ext E) (en_now E) (SubscriptionDeleteRequestAuth_from_json (en_ext E)) ar_shared_claims (rq_params (to_req opn)) = Inr ra"
        "try_from_did_key (en_ext E) (iss (ar_shared_claims ra)) = Inr client"
        "authorized E (w_cacao w) NOTIFY_DELETE_ACT ra client (p_app_domain (to_project opn)) az"
        "is_same_address (az_account az) (sws_account (to_subscriber opn)) = Some True"
        "w_db w' = delete_subscriber (sws_id (to_subscriber opn)) (w_db w)"
  using assms unfolding delete_inner_def Let_def
proof (cases rule: authorized_cases [where base = "\<lambda>r. r", simplified, consumes 1, case_names fail ok])
  case (fail e)
  then show ?thesis using that(1) by blast
next
  case (ok ra client az w2)
  from ok(5) show ?thesis
  proof (cases rule: bind_cases)
    case (fail e)
    show ?thesis using that(1) fail(2) unchanged [OF keeps_relay_steps(11) fail(1)] ok(4) by simp
  next
    case same: (ok u w3)
    have w3: "is_same_address (az_account az) (sws_account (to_subscriber opn)) = Some True" "w_db w3 = w_db w"
      using same(1) ok(4) by (simp_all add: relay_same_account_ok)
    from same(2) show ?thesis
    proof (cases rule: bind_cases)
      case del: (ok v w4)
      have "w_db w' = w_db w4" using del(2) by (rule unchanged [rotated]) (intro keeps_intros)
      then show ?thesis using that(2) [OF ok(1-3) w3(1)] del(1) w3(2) by (auto simp: db_delete_subscriber_def)
    qed (simp add: db_delete_subscriber_def)
  qed
qed

lemma update_inner_cases:
  assumes "update_inner E msg opn w = (r, w')"
  obtains (fail) e where "r = Inl e" "w_db w' = w_db w"
    | (ok) ra client az scope gen row where
        "from_jwt (en_ext E) (en_now E) (SubscriptionUpdateRequestAuth_from_json (en_ext E))
           (\<lambda>r. ar_shared_claims (srq_base r)) (rq_params (to_req opn)) = Inr ra"
        "try_from_did_key (en_ext E) (iss (ar_shared_claims (srq_base ra))) = Inr client"
        "authorized E (w_cacao w) NOTIFY_UPDATE_ACT (srq_base ra) client (p_app_domain (to_project opn)) az"
        "is_same_address (az_account az) (sws_account (to_subscriber opn)) = Some True"
        "parse_scope (en_ext E) (srq_scp ra) = Inr scope"
        "update_subscriber (en_ext E) gen (en_now E) (sws_id (to_subscriber opn)) scope (w_db w) = Inr (row, w_db w')"
  using assms unfolding update_inner_def Let_def
proof (cases rule: authorized_cases)
  case (fail e)
  then show ?thesis using that(1) by blast
next
  case (ok ra client az w2)
  from ok(5) show ?thesis
  proof (cases rule: bind_cases)
    case (fail e)
    show ?thesis using that(1) fail(2) unchanged [OF keeps_relay_steps(11) fail(1)] ok(4) by simp
  next
    case same: (ok u w3)
    have w3: "is_same_address (az_account az) (sws_account (to_subscriber opn)) = Some True" "w_db w3 = w_db w"
      using same(1) ok(4) by (simp_all add: relay_same_account_ok)
    from same(2) show ?thesis
    proof (cases rule: bind_cases)
      case (fail e)
      show ?thesis using that(1) fail(2) unchanged [OF keeps_simple(4) fail(1)] w3(2) by simp
    next
      case sc: (ok scope w4)
      have w4: "parse_scope (en_ext E) (srq_scp ra) = Inr scope" "w_db w4 = w_db w"
        using sc(1) w3(2) by (simp_all add: h_lift_Inr)
      from sc(2) show ?thesis
      proof (cases rule: bind_cases)
        case (fail e)
        show ?thesis using fail(1) by (cases rule: update_statement_cases) (use that(1) fail(2) w4(2) in auto)
      next
        case up: (ok row w5)
        have "w_db w' = w_db w5" using up(2) by (rule unchanged [rotated]) (intro keeps_intros)
        with up(1) that(2) [OF ok(1-3) w3(1) w4(1)] w4(2) show ?thesis
          by (auto elim!: update_statement_cases)
      qed
    qed
  qed
qed

section \<open>Statements that leave the subscriptions alone\<close>

lemma upsert_project_frame:
  "upsert_project X i now pid a t ak sk d = Inr (pk, d') \<Longrightarrow> subscribers d' = subscribers d \<and> scopes d' = scopes d"
  by (auto simp: map_ok_Inr_iff upsert_project_def upsert_project_impl_def upsert_project_row_def insert_project_row_def
      update_project_domain_def rbind_Inr_iff Let_def split: if_splits option.splits)

lemma upsert_watcher_frame:
  "upsert_subscription_watcher i now a po dk sy ex d = Inr d' \<Longrightarrow> subscribers d' = subscribers d \<and> scopes d' = scopes d"
  by (auto simp: upsert_subscription_watcher_def upsert_subscription_watcher_seeing_def upsert_watcher_row_def rbind_Inr_iff split: if_splits)

lemma upsert_notification_frame:
  "upsert_notification i now nid p n d = Inr (k, d') \<Longrightarrow> subscribers d' = subscribers d \<and> scopes d' = scopes d"
  by (auto simp: map_ok_Inr_iff upsert_notification_def insert_notification_row_def rbind_Inr_iff Let_def split: option.splits if_splits)

lemma insert_deliveries_frame:
  "insert_subscriber_notifications gen k now nu st ss d = Inr d' \<Longrightarrow> subscribers d' = subscribers d \<and> scopes d' = scopes d"
  by (induction ss arbitrary: k d)
    (fastforce simp: insert_subscriber_notification_row_def rbind_Inr_iff split: if_splits)+

lemma upsert_deliveries_frame:
  "upsert_subscriber_notifications gen now nu ss d = Inr d' \<Longrightarrow> subscribers d' = subscribers d \<and> scopes d' = scopes d"
  by (auto simp: upsert_subscriber_notifications_def rbind_Inr_iff dest: insert_deliveries_frame)

lemma marks_frame:
  "subscribers (snd (mark_notifications_as_read s ids d)) = subscribers d \<and> scopes (snd (mark_notifications_as_read s ids d)) = scopes d"
  "subscribers (snd (mark_all_notifications_as_read_for_project p d)) = subscribers d \<and>
   scopes (snd (mark_all_notifications_as_read_for_project p d)) = scopes d"
  by (simp_all add: mark_notifications_as_read_def mark_all_notifications_as_read_for_project_def Let_def)

lemma set_welcome_frame:
  "set_welcome_notification i p wn d = Inr d' \<Longrightarrow> subscribers d' = subscribers d \<and> scopes d' = scopes d"
  by (auto simp: map_ok_Inr_iff set_welcome_notification_def upsert_welcome_row_def rbind_Inr_iff split: if_splits option.splits)

lemma queue_frame:
  "subscribers (snd (pick_subscriber_notification_for_processing X pick now d)) = subscribers d \<and>
   scopes (snd (pick_subscriber_notification_for_processing X pick now d)) = scopes d"
  "subscribers (dead_letters_check now th d) = subscribers d \<and> scopes (dead_letters_check now th d) = scopes d"
  "subscribers (snd (delete_expired_subscription_watchers now d)) = subscribers d \<and>
   scopes (snd (delete_expired_subscription_watchers now d)) = scopes d"
  by (auto simp: pick_subscriber_notification_for_processing_def dead_letters_check_def
      delete_expired_subscription_watchers_def Let_def split: option.splits)

lemma update_status_frame:
  "update_message_processing_status now nu st d = Inr d' \<Longrightarrow> subscribers d' = subscribers d \<and> scopes d' = scopes d"
  by (auto simp: update_message_processing_status_def rbind_Inr_iff map_ok_Inr_iff Let_def split: if_splits)

text \<open>So every statement but the subscribers' own keeps the subscriptions.\<close>

lemma subscriptions_kept:
  "subscribers d' = subscribers d \<and> scopes d' = scopes d \<Longrightarrow> subscriptions X d = A \<Longrightarrow> subscriptions X d' = A"
  using subscriptions_frame by blast

lemmas subscriptions_kept_by = upsert_project_frame [THEN subscriptions_kept] upsert_watcher_frame [THEN subscriptions_kept]
  upsert_notification_frame [THEN subscriptions_kept] upsert_deliveries_frame [THEN subscriptions_kept]
  set_welcome_frame [THEN subscriptions_kept] update_status_frame [THEN subscriptions_kept]
  marks_frame [THEN subscriptions_kept] queue_frame [THEN subscriptions_kept]

interpretation frame: rows_contract X "\<lambda>d. subscriptions X d = A" for X A
  by unfold_locales (erule subscriptions_kept_by; assumption | rule subscriptions_kept_by; assumption)+
lemma subscribe_inner_cases:
  assumes "subscribe_inner E msg opn w = (r, w')" "wf_db (en_ext E) (w_db w)" "uuid_laws (en_ext E)"
  obtains (fail) e where "r = Inl e" "w_db w' = w_db w"
    | (ok) ra client az scope where
        "from_jwt (en_ext E) (en_now E) (SubscriptionRequestAuth_from_json (en_ext E))
           (\<lambda>r. ar_shared_claims (srq_base r)) (rq_params (so_req opn)) = Inr ra"
        "try_from_did_key (en_ext E) (iss (ar_shared_claims (srq_base ra))) = Inr client"
        "authorized E (w_cacao w) NOTIFY_SUBSCRIBE_ACT (srq_base ra) client (p_app_domain (so_project opn)) az"
        "parse_scope (en_ext E) (srq_scp ra) = Inr scope"
        "subscriptions (en_ext E) (w_db w') =
           apply_command (Put (p_id (so_project opn), get_address_lower (az_account az)) scope) (subscriptions (en_ext E) (w_db w))"
  using assms(1) unfolding subscribe_inner_def subscribe_finish_def Let_def
proof (cases rule: authorized_cases)
  case (fail e)
  then show ?thesis using that(1) by blast
next
  case ok': (ok ra client az w2)
  from ok'(5) show ?thesis
  proof (cases rule: bind_cases)
    case (fail e)
    show ?thesis using that(1) fail(2) unchanged [OF keeps_simple(4) fail(1)] ok'(4) by simp
  next
    case sc: (ok scope w3)
    have w3: "parse_scope (en_ext E) (srq_scp ra) = Inr scope" "w_db w3 = w_db w"
      using sc(1) ok'(4) by (simp_all add: h_lift_Inr)
    from sc(2) show ?thesis
    proof (cases rule: bind_cases)
      case (ok dr w4)
      note w4 = unchanged [OF keeps_simple(8) ok(1)]
      from ok(2) show ?thesis
      proof (cases rule: bind_cases)
        case (fail e)
        show ?thesis using that(1) fail(2) unchanged [OF keeps_simple(4) fail(1)] w4 w3(2) by simp
      next
        case key: (ok notify_key w5)
        have w5: "w_db w5 = w_db w" using unchanged [OF keeps_simple(4) key(1)] w4 w3(2) by simp
        from key(2) show ?thesis
        proof (cases rule: bind_cases)
          case (fail e)
          show ?thesis using fail(1) by (cases rule: upsert_statement_cases) (use that(1) fail(2) w5 in auto)
        next
          case up: (ok k w6)
          let ?A = "subscriptions (en_ext E) (w_db w6)"
          have "subscriptions (en_ext E) (w_db w') = ?A"
            using up(2) by (rule kept_along [where I = "\<lambda>d. subscriptions (en_ext E) d = ?A", rotated]) (simp, intro keeps_intros frame.send_welcome_keeps)
          moreover from up(1) obtain new gen where "upsert_subscriber (en_ext E) new gen (en_now E) (p_id (so_project opn))
              (az_account az) scope notify_key (topic_from_key (en_ext E) notify_key) (w_db w) = Inr (k, w_db w6)"
            by (cases rule: upsert_statement_cases) (auto simp: w5)
          ultimately show ?thesis
            using that(2) [OF ok'(1-3) w3(1)] subscriptions_upsert [OF assms(2,3) authorized_valid [OF ok'(3)] finite_parse_scope [OF w3(1)]]
            by simp
        qed
      qed
    qed (simp add: h_draw_def)
  qed
qed

section \<open>The relay's messages refine the commands\<close>

definition carries_out :: "env \<Rightarrow> world \<Rightarrow> nat \<Rightarrow> world \<Rightarrow> bool" where
  "carries_out E w tag w' \<longleftrightarrow> (\<exists>c. signed_command E w tag c \<and>
     subscriptions (en_ext E) (w_db w') = apply_command c (subscriptions (en_ext E) (w_db w)))"

lemma delete_handle_cases:
  assumes "delete_handle E msg w = (r, w')" "wf_db (en_ext E) (w_db w)"
  shows "w_db w' = w_db w \<and> \<not> is_ok r \<or> carries_out E w NOTIFY_DELETE_TAG w'"
  using assms(1) unfolding delete_handle_def
proof (cases rule: bind_cases)
  case (fail e)
  then show ?thesis using unchanged [OF keeps_opens(4) fail(1)] by simp
next
  case opn: (ok opn w1)
  from delete_open_ok [OF opn(1)] obtain st where w1: "w1 = w\<lparr> w_buckets := st \<rparr>"
    "open_with_client_id E WrongNotifyDeleteTopic NotifyDelete_field msg w1 = (Inr opn, w1)" .
  note o = topic_opens_ok [OF disjI1 [OF w1(2)]]
  from opn(2) obtain r2 w2 where inner: "delete_inner E msg opn w1 = (r2, w2)" "w_db w' = w_db w2" "is_ok r \<longrightarrow> is_ok r2"
    by (rule answer_cases) (intro keeps_intros, rule respond_and_tell_fails, blast)
  from inner(1) show ?thesis
  proof (cases rule: delete_inner_cases)
    case (fail e)
    then show ?thesis using inner(2,3) w1(1) by auto
  next
    case (ok ra client az)
    have "wf_db (en_ext E) (w_db w1)" using assms(2) w1(1) by simp
    from subscriber_key [OF this o(1,2) authorized_valid [OF ok(3)] ok(4)] obtain q where
      q: "q \<in> set (subscribers (w_db w))" "s_id q = sws_id (to_subscriber opn)"
        "s_index q = (p_id (to_project opn), get_address_lower (az_account az))"
        "to_project opn \<in> set (projects (w_db w))"
        "subscriptions (en_ext E) (w_db w) (p_id (to_project opn), get_address_lower (az_account az)) \<noteq> None"
      unfolding w1(1) by auto
    have "signed_command E w NOTIFY_DELETE_TAG (Drop (s_index q))"
      unfolding q(3) using unsubscribes [OF q(4) ok(1,2) _ q(5)] ok(3) w1(1) by simp
    moreover have "subscriptions (en_ext E) (w_db w') = apply_command (Drop (s_index q)) (subscriptions (en_ext E) (w_db w))"
      using subscriptions_delete [OF assms(2) q(1)] ok(5) inner(2) q(2) w1(1) by simp
    ultimately show ?thesis unfolding carries_out_def by blast
  qed
qed

lemma update_handle_cases:
  assumes "update_handle E msg w = (r, w')" "wf_db (en_ext E) (w_db w)" "uuid_laws (en_ext E)"
  shows "w_db w' = w_db w \<and> \<not> is_ok r \<or> carries_out E w NOTIFY_UPDATE_TAG w'"
  using assms(1) unfolding update_handle_def
proof (cases rule: bind_cases)
  case (fail e)
  then show ?thesis using unchanged [OF keeps_opens(3) fail(1)] by simp
next
  case opn: (ok opn w1)
  from update_open_ok [OF opn(1)] obtain st where w1: "w1 = w\<lparr> w_buckets := st \<rparr>"
    "open_with_client_id E WrongNotifyUpdateTopic NotifyUpdate_field msg w1 = (Inr opn, w1)" .
  note o = topic_opens_ok [OF disjI1 [OF w1(2)]]
  from opn(2) obtain r2 w2 where inner: "update_inner E msg opn w1 = (r2, w2)" "w_db w' = w_db w2" "is_ok r \<longrightarrow> is_ok r2"
    by (rule answer_cases) (intro keeps_intros, rule respond_and_tell_fails, blast)
  from inner(1) show ?thesis
  proof (cases rule: update_inner_cases)
    case (fail e)
    then show ?thesis using inner(2,3) w1(1) by auto
  next
    case (ok ra client az scope gen row)
    have "wf_db (en_ext E) (w_db w1)" using assms(2) w1(1) by simp
    from subscriber_key [OF this o(1,2) authorized_valid [OF ok(3)] ok(4)] obtain q where
      q: "q \<in> set (subscribers (w_db w))" "s_id q = sws_id (to_subscriber opn)"
        "s_index q = (p_id (to_project opn), get_address_lower (az_account az))"
        "to_project opn \<in> set (projects (w_db w))"
        "subscriptions (en_ext E) (w_db w) (p_id (to_project opn), get_address_lower (az_account az)) \<noteq> None"
      unfolding w1(1) by auto
    have "signed_command E w NOTIFY_UPDATE_TAG (Put (s_index q) scope)"
      unfolding q(3) using updates [OF q(4) ok(1,2) _ ok(5) q(5)] ok(3) w1(1) by simp
    moreover have "subscriptions (en_ext E) (w_db w') = apply_command (Put (s_index q) scope) (subscriptions (en_ext E) (w_db w))"
      using subscriptions_update [OF assms(2,3) finite_parse_scope [OF ok(5)] q(1)] ok(6) inner(2) q(2) w1(1) by simp
    ultimately show ?thesis unfolding carries_out_def by blast
  qed
qed

lemma subscribe_handle_cases:
  assumes "subscribe_handle E msg w = (r, w')" "wf_db (en_ext E) (w_db w)" "uuid_laws (en_ext E)"
  shows "w_db w' = w_db w \<and> \<not> is_ok r \<or> carries_out E w NOTIFY_SUBSCRIBE_TAG w'"
  using assms(1) unfolding subscribe_handle_def
proof (cases rule: bind_cases)
  case (fail e)
  then show ?thesis using unchanged [OF keeps_opens(2) fail(1)] by simp
next
  case opn: (ok opn w1)
  note o = subscribe_open_ok [OF opn(1)]
  from o(3) have w1: "w_db w1 = w_db w" "w_cacao w1 = w_cacao w" by auto
  from opn(2) obtain r2 w2 where inner: "subscribe_inner E msg opn w1 = (r2, w2)" "w_db w' = w_db w2" "is_ok r \<longrightarrow> is_ok r2"
    by (rule answer_cases) (intro keeps_intros, rule respond_and_tell_fails, blast)
  have "wf_db (en_ext E) (w_db w1)" using assms(2) w1(1) by simp
  from inner(1) this assms(3) show ?thesis
  proof (cases rule: subscribe_inner_cases)
    case (fail e)
    then show ?thesis using inner(2,3) w1(1) by auto
  next
    case (ok ra client az scope)
    have "signed_command E w NOTIFY_SUBSCRIBE_TAG (Put (p_id (so_project opn), get_address_lower (az_account az)) scope)"
      using subscribes [OF o(1) ok(1,2) _ ok(4)] ok(3) w1(2) by simp
    then show ?thesis using ok(5) inner(2) w1(1) unfolding carries_out_def by auto
  qed
qed

lemma handle_by_tag_command:
  assumes "wf_db (en_ext E) (w_db w)" "uuid_laws (en_ext E)" "handle_by_tag E msg w = (r, w')"
  shows "subscriptions (en_ext E) (w_db w') = subscriptions (en_ext E) (w_db w) \<and>
      (is_ok r \<longrightarrow> rm_tag msg \<notin> {NOTIFY_SUBSCRIBE_TAG, NOTIFY_UPDATE_TAG, NOTIFY_DELETE_TAG}) \<or>
    (\<exists>c. signed_command E w (rm_tag msg) c \<and>
      subscriptions (en_ext E) (w_db w') = apply_command c (subscriptions (en_ext E) (w_db w)))"
proof -
  let ?A = "subscriptions (en_ext E) (w_db w)"
  note tags = NOTIFY_SUBSCRIBE_TAG_def NOTIFY_UPDATE_TAG_def NOTIFY_DELETE_TAG_def NOTIFY_WATCH_SUBSCRIPTIONS_TAG_def
    NOTIFY_GET_NOTIFICATIONS_TAG_def NOTIFY_MARK_NOTIFICATIONS_AS_READ_TAG_def
  consider (sub) "rm_tag msg = NOTIFY_SUBSCRIBE_TAG" | (upd) "rm_tag msg = NOTIFY_UPDATE_TAG"
    | (del) "rm_tag msg = NOTIFY_DELETE_TAG"
    | (rest) "rm_tag msg \<notin> {NOTIFY_SUBSCRIBE_TAG, NOTIFY_UPDATE_TAG, NOTIFY_DELETE_TAG}" by blast
  then show ?thesis
  proof cases
    case sub
    then have "subscribe_handle E msg w = (r, w')" using assms(3) by (simp add: handle_by_tag_def)
    from subscribe_handle_cases [OF this assms(1,2)] show ?thesis using sub by (auto simp: carries_out_def)
  next
    case upd
    then have "update_handle E msg w = (r, w')" using assms(3) by (simp add: handle_by_tag_def tags)
    from update_handle_cases [OF this assms(1,2)] show ?thesis using upd by (auto simp: carries_out_def)
  next
    case del
    then have "delete_handle E msg w = (r, w')" using assms(3) by (simp add: handle_by_tag_def tags)
    from delete_handle_cases [OF this assms(1)] show ?thesis using del by (auto simp: carries_out_def)
  next
    case rest
    then have "db_keeps (\<lambda>d. subscriptions (en_ext E) d = ?A) (handle_by_tag E msg)"
      unfolding handle_by_tag_def Let_def
      by (auto intro!: keeps_if frame.watch_keeps frame.mark_keeps frame.get_keeps keeps_simple(1))
    from kept_along [OF this assms(3)] show ?thesis using rest by simp
  qed
qed

text \<open>
  C10. The relay's messages refine a map from (project, address) to notification types. Whatever
  message arrives and whatever its handler's outcome, this map stays as it was or changes by one
  command of the message's kind: to set the types of one address, or to drop it, for a project of the
  database, carried by a verified JWT about the project's app, with the act of that kind, whose key
  is authorized for that address and that app. A subscribe, update or delete message that succeeds has
  carried out its command; an update or delete only for an address that was subscribed.
\<close>

theorem relay_refines_subscriptions:
  assumes "wf_db (en_ext E) (w_db w)" "uuid_laws (en_ext E)" "handle_by_tag E msg w = (r, w')"
  shows "subscriptions (en_ext E) (w_db w') = subscriptions (en_ext E) (w_db w) \<and>
      (is_ok r \<longrightarrow> rm_tag msg \<notin> {NOTIFY_SUBSCRIBE_TAG, NOTIFY_UPDATE_TAG, NOTIFY_DELETE_TAG}) \<or>
    (\<exists>c. signed_command E w (rm_tag msg) c \<and>
      subscriptions (en_ext E) (w_db w') = apply_command c (subscriptions (en_ext E) (w_db w)))"
  using handle_by_tag_command [OF assms] .

section \<open>Witness\<close>

theorem relay_refines_subscriptions_witness:
  "\<exists>w' c. handle_by_tag env_client client_message (world_demo demo_db8) = (Inr (), w') \<and>
     signed_command env_client (world_demo demo_db8) NOTIFY_DELETE_TAG c \<and>
     subscriptions ext_client (w_db w') = apply_command c (subscriptions ext_client demo_db8)"
proof -
  obtain w' where "delete_handle env_client client_message (world_demo demo_db8) = (Inr (), w')"
    using client_deletes by blast
  then have h: "handle_by_tag env_client client_message (world_demo demo_db8) = (Inr (), w')"
    by (simp add: handle_by_tag_def client_message_def NOTIFY_DELETE_TAG_def NOTIFY_SUBSCRIBE_TAG_def)
  have d: "w_db (world_demo demo_db8) = demo_db8" "rm_tag client_message = NOTIFY_DELETE_TAG"
    by (simp_all add: world_demo_def client_message_def)
  then show ?thesis
    using relay_refines_subscriptions [OF _ _ h] wf_demo_db8 laws_client(2) h by (auto simp: client_parts)
qed

end
