(* ===== verification/Relay_Safety.thy ===== *)
theory Relay_Safety
  imports Relay_Demo
begin

text \<open>
  The relay's messages never panic on a database that satisfies the schema: the assertion on the
  watchers' keys, the \<open>expect\<close>s and \<open>unwrap\<close>s on accounts and the cast-iron \<open>always_true\<close> of the CACAO
  check all hold. Then what the watchers are told.
\<close>

section \<open>The source's watcher is unique\<close>

lemma watchers_loop_none_after:
  assumes "\<forall>w \<in> set ws. swq_did_key w \<noteq> did"
  shows "watchers_loop did v account all_subs app_subs ws source =
    Some (source, map (\<lambda>w. (w, with_account (swq_account w) (if swq_project w \<noteq> None then app_subs else all_subs))) ws)"
  using assms by (induction ws) (auto simp: Let_def)

definition subs_for :: "SubscriptionWatcherQuery \<Rightarrow> 's \<Rightarrow> 's \<Rightarrow> 's" where
  "subs_for w all_subs app_subs = (if swq_project w \<noteq> None then app_subs else all_subs)"

text \<open>
  For watchers with different keys the loop does not fail its assertion; the source gets the
  subscriptions of its own watcher, and the others, with \<open>mjv\<close> 0 the source as well, get theirs, each
  under its own form of the account.
\<close>

lemma watchers_loop_spec:
  assumes "distinct (map swq_did_key ws)"
  shows "watchers_loop did v account all_subs app_subs ws None =
    Some (map_option (\<lambda>w. with_account account (subs_for w all_subs app_subs)) (find (\<lambda>w. swq_did_key w = did) ws),
      map (\<lambda>w. (w, with_account (swq_account w) (subs_for w all_subs app_subs)))
        (filter (\<lambda>w. swq_did_key w \<noteq> did \<or> v = ''0'') ws))"
  using assms
proof (induction ws)
  case (Cons w ws)
  show ?case
  proof (cases "swq_did_key w = did")
    case True
    then have "\<forall>q \<in> set ws. swq_did_key q \<noteq> did" using Cons.prems by (force simp: image_iff)
    moreover from this have "filter (\<lambda>q. swq_did_key q \<noteq> did \<or> v = ''0'') ws = ws" by (simp add: filter_id_conv)
    ultimately show ?thesis
      using True by (auto simp: Let_def subs_for_def watchers_loop_none_after)
  next
    case False
    then show ?thesis using Cons by (auto simp: Let_def subs_for_def)
  qed
qed simp

lemma watchers_query_spec:
  assumes "wf_db X d"
  shows "\<exists>ws. get_subscription_watchers_for_account_by_app_or_all_app X now account app d = Inr ws \<and>
    distinct (map swq_did_key ws)"
proof -
  let ?f = "\<lambda>w. \<lparr> swq_account = w_account w, swq_project = w_project w, swq_did_key = w_did_key w, swq_sym_key = w_sym_key w \<rparr>"
  let ?P = "\<lambda>w. now < w_expiry w \<and> get_address_lower (w_account w) = get_address_lower account \<and>
            (w_project w = None \<or> (\<exists>p \<in> set (projects d). w_project w = Some (p_id p) \<and> p_app_domain p = app))"
  have wf: "distinct (map w_did_key (watchers d))" "\<forall>w \<in> set (watchers d). valid_account X (w_account w)"
    using wf_dbD(4) [OF assms] by (auto simp: wf_watchers_def list_all_iff)
  have "get_subscription_watchers_for_account_by_app_or_all_app X now account app d = Inr (map ?f (filter ?P (watchers d)))"
    unfolding get_subscription_watchers_for_account_by_app_or_all_app_def
    by (rule collect_results_total) (use wf(2) in \<open>auto simp: map_ok_Inr_iff\<close>)
  moreover have "distinct (map swq_did_key (map ?f (filter ?P (watchers d))))"
    using distinct_map_filter_sub [OF wf(1)] by (simp add: o_def)
  ultimately show ?thesis by blast
qed

section \<open>No panics\<close>

lemma panic_free_case_prod [panic_intros]:
  "(\<And>a b. p = (a, b) \<Longrightarrow> panic_free I (f a b)) \<Longrightarrow> panic_free I (case p of (a, b) \<Rightarrow> f a b)"
  by (cases p) simp

lemma panic_free_case_option [panic_intros]:
  "panic_free I m \<Longrightarrow> (\<And>x. panic_free I (f x)) \<Longrightarrow> panic_free I (case v of None \<Rightarrow> m | Some x \<Rightarrow> f x)"
  by (cases v) simp_all

lemma panic_free_case_sum [panic_intros]:
  "(\<And>x. panic_free I (f x)) \<Longrightarrow> (\<And>x. panic_free I (g x)) \<Longrightarrow> panic_free I (case v of Inl x \<Rightarrow> f x | Inr x \<Rightarrow> g x)"
  by (cases v) simp_all

text \<open>\<open>Cacao::verify\<close> returns \<open>Ok(true)\<close> or an error.\<close>

definition cacao_laws :: "ext \<Rightarrow> bool" where
  "cacao_laws X \<longleftrightarrow> (\<forall>c. cacao_verify X c \<noteq> Inr False)"

lemma from_did_pkh_total: "keccak_laws X \<Longrightarrow> from_did_pkh X did \<noteq> None"
  using validate_caip_10_total by (fastforce simp: from_did_pkh_def AccountId_try_from_def split: sum.splits)

lemma keys_server_no_panic: "fst (keys_server_request_cached X now url redis) \<noteq> Inl VerifyPanic"
proof -
  have "keys_server_request X url \<noteq> Inl VerifyPanic"
    by (auto simp: keys_server_request_def rbind_Inl_iff map_err_Inl_iff)
  then show ?thesis
    by (auto simp: keys_server_request_cached_def Let_def split: option.splits sum.splits)
qed

lemma verify_cacao_no_panic:
  assumes "keccak_laws X" "cacao_laws X"
  shows "verify_cacao X now key sub c \<noteq> Inl VerifyPanic"
  using assms(2) from_did_pkh_total [OF assms(1), of "c_iss c"]
  by (auto simp: verify_cacao_def cacao_laws_def rbind_Inl_iff map_err_Inl_iff split: option.splits)

lemma verify_identity_no_panic:
  assumes "keccak_laws X" "cacao_laws X"
  shows "fst (verify_identity X now client ksu sub redis) \<noteq> Inl VerifyPanic"
proof -
  have "rbind (fst c) (verify_cacao X now key sub) \<noteq> Inl VerifyPanic"
    if "c = keys_server_request_cached X now url redis" for c key url
    using verify_cacao_no_panic [OF assms] keys_server_no_panic by (auto simp: that rbind_Inl_iff)
  then show ?thesis by (auto simp: verify_identity_def Let_def case_prod_beta split: option.splits)
qed

lemma panic_free_relay_steps [panic_intros]:
  "panic_free I (relay_rate_limit E key m i r)" "panic_free I (relay_client_id E project)"
  "panic_free I (relay_decode_key E hex_key)" "panic_free I (relay_decrypt E field iv' box k)"
  "panic_free I (relay_envelope E from_bytes msg)" "panic_free I (relay_subscriber E wrong msg)"
  "panic_free I (relay_open E field s msg)" "panic_free I (relay_from_jwt E from_json get jwt)"
  "panic_free I (relay_sign E project message)"
  unfolding relay_step_defs by (intro panic_free_bind panic_intros)+

lemma panic_free_telling [panic_intros]:
  "panic_free I (publish_response E msg k t tag ttl response)" "panic_free I (collect_subscriptions E account domain)"
  "panic_free I (send_to_watcher E msg subs account audience key)" "panic_free I (send_to_subscription_watchers E msg ws)"
  unfolding publish_response_def collect_subscriptions_def send_to_watcher_def send_to_subscription_watchers_def Let_def
  by (intro panic_free_bind panic_intros panic_free_mapM)+

lemma panic_free_try_join [panic_intros]: "panic_free I m \<Longrightarrow> panic_free I n \<Longrightarrow> panic_free I (try_join E m n)"
  unfolding try_join_def by (intro panic_free_bind panic_intros)

lemma panic_free_respond [panic_intros]:
  "panic_free I (respond_and_tell E msg k t tag ttl i result)" "panic_free I (respond E msg k t tag ttl field i result')"
  unfolding respond_and_tell_def respond_def Let_def by (intro panic_free_bind panic_intros)+

lemma panic_free_unsubscribe [panic_intros]:
  "panic_free I (h_unsubscribe t)" "panic_free I (notify_webhook p ev a)"
  by (simp_all add: panic_free_def h_unsubscribe_def notify_webhook_def h_return_def)

lemma panic_free_opens [panic_intros]:
  "panic_free I (watch_open E msg)" "panic_free I (subscribe_open E msg)" "panic_free I (update_open E msg)"
  "panic_free I (delete_open E msg)" "panic_free I (get_notifications_open E msg)" "panic_free I (mark_open E msg)"
  unfolding relay_open_defs by (intro panic_free_bind panic_intros)+

lemma panic_free_prepare [panic_intros]:
  assumes "en_ext E = X"
  shows "panic_free (wf_db X) (prepare_subscription_watchers E client v account app)"
  unfolding prepare_subscription_watchers_def Let_def
proof (intro panic_free_bind panic_intros)
  fix all_subs ws and w w' :: world
  assume "wf_db X (w_db w)" "h_query GetSubscriptionWatchersForAccountByAppOrAllApp
    (get_subscription_watchers_for_account_by_app_or_all_app (en_ext E) (en_now E) account app) w = (Inr ws, w')"
  then have "distinct (map swq_did_key ws)"
    using watchers_query_spec [of X "w_db w" "en_now E" account app] assms by (auto simp: h_query_Inr)
  then show "watchers_loop (to_did_key (en_ext E) client) v account all_subs
      (filter (\<lambda>s. nss_app_domain s = app) all_subs) ws None \<noteq> None"
    by (simp add: watchers_loop_spec)
qed

text \<open>What the handlers rely on: the laws above, and that the server's URL takes the links' paths.\<close>

definition sound_env :: "env \<Rightarrow> bool" where
  "sound_env E \<longleftrightarrow> keccak_laws (en_ext E) \<and> cacao_laws (en_ext E) \<and>
     (\<forall>u. url_join (en_ext E) (en_notify_url E) (''/v1/notification/'' @ uuid_to_string (en_ext E) u) \<noteq> None)"

lemma panic_free_verify:
  assumes "sound_env E"
  shows "panic_free I (relay_verify_identity E claims client ksu sub expected)"
proof -
  have "panic_free I (h_verify_identity E client ksu sub)"
    using verify_identity_no_panic [of "en_ext E" "en_now E" client ksu sub] assms
    by (intro panic_freeI keeps_intros)
      (auto simp: h_verify_identity_def sound_env_def split: prod.splits sum.splits IdentityVerificationError.splits
        dest: arg_cong [of _ _ fst])
  then show ?thesis unfolding relay_verify_identity_def by (intro panic_free_bind panic_intros)
qed

lemma panic_free_authorize: "sound_env E \<Longrightarrow> panic_free I (relay_authorize E ra client expected app)"
  unfolding relay_authorize_def by (intro panic_free_bind panic_intros panic_free_verify)

lemma panic_free_same_account:
  assumes "relay_authorize E ra client expected app w = (Inr az, w')" "valid_account (en_ext E) (sws_account s)"
  shows "panic_free I (relay_same_account az s)"
  unfolding relay_same_account_def
  using is_same_address_total [OF _ assms(2)] authorized_valid [OF relay_authorize_ok(1) [OF assms(1)]]
  by (intro panic_free_bind panic_intros) auto

lemma panic_free_follow_links:
  assumes "sound_env E"
  shows "panic_free I (follow_links E data)"
  using assms unfolding follow_links_def sound_env_def by (intro panic_free_bind panic_free_mapM panic_intros) simp_all

lemmas schema_panic_free = schema.statements_panic_free [OF refl]

lemma panic_free_watch:
  assumes "sound_env E"
  shows "panic_free (wf_db (en_ext E)) (watch_handle E msg)"
proof -
  have "panic_free (wf_db (en_ext E)) (watch_inner E req key)" for req key
    unfolding watch_inner_def Let_def
    by (intro panic_free_bind panic_intros panic_free_verify assms, rule schema_panic_free(5))
      (use relay_verify_identity_valid in blast)
  then show ?thesis unfolding watch_handle_def by (intro panic_free_bind panic_intros)
qed

lemma panic_free_subscribe:
  assumes "sound_env E"
  shows "panic_free (wf_db (en_ext E)) (subscribe_handle E msg)"
  unfolding subscribe_handle_def subscribe_inner_def subscribe_finish_def send_welcome_def Let_def
  by (intro panic_free_bind panic_intros panic_free_authorize schema_panic_free assms refl)

text \<open>The subscriber of an opened message has a validated account.\<close>

lemma opened_account_valid:
  assumes "open_with_client_id E wrong field msg w = (Inr opn, w') \<or> open_without_client_id E wrong field msg w = (Inr opn, w')"
  shows "valid_account (en_ext E) (sws_account (to_subscriber opn))"
  using topic_opens_ok(1) [OF assms] by (auto simp: get_subscriber_by_topic_def rbind_Inr_iff map_ok_Inr_iff)

lemma panic_free_topic_inners:
  assumes "sound_env E" "valid_account (en_ext E) (sws_account (to_subscriber opn))"
  shows "panic_free (wf_db (en_ext E)) (update_inner E msg opn)"
    and "panic_free (wf_db (en_ext E)) (delete_inner E msg opn)"
    and "panic_free (wf_db (en_ext E)) (get_notifications_inner E msg opn)"
    and "panic_free (wf_db (en_ext E)) (mark_inner E msg opn)"
  unfolding update_inner_def delete_inner_def get_notifications_inner_def mark_inner_def Let_def
  by (intro panic_free_bind panic_intros panic_free_mapM panic_free_authorize panic_free_follow_links schema_panic_free
        assms(1) refl;
      rule panic_free_same_account, assumption, rule assms(2))+

lemma panic_free_topic_handles:
  assumes "sound_env E"
  shows "panic_free (wf_db (en_ext E)) (update_handle E msg)"
    and "panic_free (wf_db (en_ext E)) (delete_handle E msg)"
    and "panic_free (wf_db (en_ext E)) (get_notifications_handle E msg)"
    and "panic_free (wf_db (en_ext E)) (mark_handle E msg)"
  unfolding update_handle_def delete_handle_def get_notifications_handle_def mark_handle_def
  by (intro panic_free_bind panic_intros panic_free_topic_inners assms;
      auto simp: update_open_def delete_open_def get_notifications_open_def mark_open_def h_bind_Inr
        intro: opened_account_valid)+

lemma panic_free_webhook:
  assumes "sound_env E"
  shows "panic_free (wf_db (en_ext E)) (webhook_handler E try_from_str verify_basic events)"
proof -
  have tag: "panic_free (wf_db (en_ext E)) (handle_by_tag E msg)" for msg
    unfolding handle_by_tag_def Let_def
    by (intro panic_intros panic_free_watch panic_free_subscribe panic_free_topic_handles assms)
  have msg: "panic_free (wf_db (en_ext E)) (handle_msg E msg)" for msg
    unfolding handle_msg_def
    by (intro panic_free_bind panic_intros tag) (auto intro: panic_intros split: sum.splits RelayMessageError.splits)
  have receipt: "panic_free (wf_db (en_ext E)) (\<lambda>w. (Inr (), w\<lparr> w_receipts := w_receipts w @ [(t, i)] \<rparr>))" for t i
    by (simp add: panic_free_def)
  show ?thesis unfolding webhook_handler_def by (intro panic_free_bind panic_intros msg receipt)
qed

text \<open>
  C8. No message makes the server panic: on a database that satisfies the schema, for whatever the
  relay delivers, the webhook's handler returns a response or an error, and the schema still holds.
\<close>

theorem webhook_never_panics:
  assumes "sound_env E" "wf_db (en_ext E) (w_db w)" "webhook_handler E try_from_str verify_basic events w = (r, w')"
  shows "r \<noteq> Inl Panicked \<and> wf_db (en_ext E) (w_db w')"
  using panic_freeD [OF panic_free_webhook [OF assms(1)] assms(2)] assms(3) by (metis fst_conv snd_conv)


section \<open>Witness\<close>

lemma sound_env_client: "sound_env env_client"
proof -
  have "cacao_laws ext_client"
    by (auto simp: cacao_laws_def ext_client_def ext_demo_def)
  then show ?thesis
    using laws_client(1) by (simp add: sound_env_def client_parts) (simp add: ext_client_def ext_demo_def)
qed

theorem webhook_never_panics_witness:
  "fst (webhook_handler env_client (\<lambda>s. Inr \<lparr> wec_iss = ''relay'', wec_act = WatchEvent, wec_typ = Subscriber_watch,
      wec_status = Accepted, wec_topic = rm_topic client_message, wec_message_id = 1, wec_message = rm_message client_message,
      wec_tag = NOTIFY_DELETE_TAG \<rparr>) (\<lambda>c u. Inr ()) [''jwt''] (world_demo demo_db8)) \<noteq> Inl Panicked"
  using webhook_never_panics [OF sound_env_client _ surjective_pairing, of "world_demo demo_db8"] wf_demo_db8
  by (simp add: client_parts world_demo_def)

end
