(* ===== verification/Relay_Answers.thy ===== *)
theory Relay_Answers
  imports Relay_Safety
begin

text \<open>
  What the clients receive: the answer to a request, under the key it was sent with, and the message
  to every watcher of an account whose subscriptions changed.
\<close>

section \<open>Messages on the relay\<close>

text \<open>A message that the holder of the key can open to a JSON text.\<close>

definition opens_to :: "ext \<Rightarrow> bytes \<Rightarrow> Publish \<Rightarrow> json \<Rightarrow> bool" where
  "opens_to X key p j \<longleftrightarrow> (\<exists>bs e. b64_std_decode X (pub_message p) = Inr bs
    \<and> Envelope0_from_bytes bs = Inr e \<and>
     chacha_decrypt X key (iv e) (sealbox e) = Some (as_bytes (json_to_string X j)))"

text \<open>The laws of the ciphers, and that the server draws nonces of twelve bytes.\<close>

definition sealing_laws :: "env \<Rightarrow> bool" where
  "sealing_laws E \<longleftrightarrow> aead_laws (en_ext E) \<and> (\<forall>bs. b64_std_decode (en_ext E)
    (b64_std_encode (en_ext E) bs) = Inr bs) \<and>
     (\<forall>k. length (dr_nonce (en_draw E k)) = 12)"

lemma publish_response_ok:
  assumes "publish_response E msg key t tag ttl j w = (Inr u, w')"
  shows "\<exists>m. seal_message (en_ext E) (dr_nonce (en_draw E (w_drawn w))) key j = Some m \<and>
    w' = w\<lparr> w_drawn := Suc (w_drawn w), w_published := w_published w @
      [\<lparr> pub_topic = t, pub_message = m, pub_ttl_secs = ttl, pub_tag = tag,
        pub_prompt = False \<rparr>],
      w_events := w_events w @ [relay_request_event E msg \<lparr> pub_topic = t, pub_message = m,
        pub_ttl_secs = ttl, pub_tag = tag, pub_prompt = False \<rparr> True] \<rparr>"
  using assms by (auto simp: publish_response_def h_ok relay_request_events_def)

lemma publish_response_opens:
  assumes "publish_response E msg key t tag ttl j w = (Inr u, w')" "sealing_laws E"
  shows "\<exists>p. w' = w\<lparr> w_drawn := Suc (w_drawn w), w_published := w_published w @ [p],
      w_events := w_events w @ [relay_request_event E msg p True] \<rparr> \<and>
    pub_topic p = t \<and> pub_tag p = tag \<and> pub_ttl_secs p = ttl \<and> opens_to (en_ext E) key p j"
proof -
  obtain m where m: "seal_message (en_ext E) (dr_nonce (en_draw E (w_drawn w))) key j = Some m"
    "w' = w\<lparr> w_drawn := Suc (w_drawn w), w_published := w_published w @
      [\<lparr> pub_topic = t, pub_message = m, pub_ttl_secs = ttl, pub_tag = tag,
        pub_prompt = False \<rparr>],
      w_events := w_events w @ [relay_request_event E msg \<lparr> pub_topic = t, pub_message = m,
        pub_ttl_secs = ttl, pub_tag = tag, pub_prompt = False \<rparr> True] \<rparr>"
    using publish_response_ok [OF assms(1)] by blast
  have "opens_to (en_ext E) key \<lparr> pub_topic = t, pub_message = m, pub_ttl_secs = ttl,
    pub_tag = tag, pub_prompt = False \<rparr> j"
    using seal_message_opens [OF _ _ _ m(1)] assms(2) by (simp add: opens_to_def sealing_laws_def)
  with m(2) show ?thesis
    by (intro exI [of _ "\<lparr> pub_topic = t, pub_message = m, pub_ttl_secs = ttl, pub_tag = tag,
      pub_prompt = False \<rparr>"]) simp
qed

text \<open>Messages are added to what was published, and nothing is unsubscribed.\<close>

definition published_grows :: "('a, 'e) handler \<Rightarrow> bool" where
  "published_grows m \<longleftrightarrow> (\<forall>w. (\<exists>ps. w_published (snd (m w)) = w_published w @ ps) \<and>
     w_unsubscribed (snd (m w)) = w_unsubscribed w)"

named_theorems grows_intros \<open>handlers that only add to what was published\<close>

lemma grows_simple [grows_intros]:
  "published_grows (h_return x)" "published_grows (h_fail e)" "published_grows h_panic" "published_grows (h_lift f r)"
  "published_grows (h_guard b e)" "published_grows (h_expect v)" "published_grows (h_query f q)" "published_grows (h_draw E)"
  "published_grows (h_publish E request p)"
  by (auto simp: published_grows_def h_defs h_publish_def split: sum.splits option.splits)

lemma growsD:
  "published_grows m \<Longrightarrow> m w = (r, w') \<Longrightarrow> \<exists>ps. w_published w' = w_published w @ ps"
  "published_grows m \<Longrightarrow> m w = (r, w') \<Longrightarrow> w_unsubscribed w' = w_unsubscribed w"
  unfolding published_grows_def by (metis snd_conv)+

lemma grows_bind [grows_intros]:
  assumes "published_grows m" "\<And>x. published_grows (f x)"
  shows "published_grows (h_bind m f)"
  unfolding published_grows_def
proof
  fix w
  obtain r w1 where m: "m w = (r, w1)" by force
  obtain ps where ps: "w_published w1 = w_published w @ ps" "w_unsubscribed w1 = w_unsubscribed w"
    using growsD [OF assms(1) m] by blast
  show "(\<exists>ps. w_published (snd (h_bind m f w)) = w_published w @ ps)
    \<and> w_unsubscribed (snd (h_bind m f w)) = w_unsubscribed w"
  proof (cases r)
    case (Inr x)
    obtain qs where "w_published (snd (f x w1)) = w_published w1 @ qs" "w_unsubscribed (snd (f x w1)) = w_unsubscribed w1"
      using assms(2) [of x] unfolding published_grows_def by blast
    then show ?thesis using m ps Inr by (simp add: h_bind_def)
  qed (use m ps in \<open>simp add: h_bind_def\<close>)
qed

lemma grows_case_prod [grows_intros]: "(\<And>a b. published_grows (f a b))
  \<Longrightarrow> published_grows (case p of (a, b) \<Rightarrow> f a b)"
  by (cases p) simp

lemma same_world: "snd (h_map_err g m w) = snd (m w)" "snd (h_try m w) = snd (m w)"
  by (auto simp: h_map_err_def h_try_def split: prod.splits sum.splits failure.splits)

lemma grows_map_err [grows_intros]: "published_grows m \<Longrightarrow> published_grows (h_map_err g m)"
  by (simp add: published_grows_def same_world)

lemma grows_try [grows_intros]: "published_grows m \<Longrightarrow> published_grows (h_try m)"
  by (simp add: published_grows_def same_world)

lemma grows_mapM [grows_intros]: "(\<And>x. published_grows (f x)) \<Longrightarrow> published_grows (h_mapM f xs)"
  by (induction xs) (auto intro: grows_intros)

lemma grows_send_all [grows_intros]: "published_grows (send_to_subscription_watchers E msg ws)"
  unfolding send_to_subscription_watchers_def send_to_watcher_def Let_def by (intro grows_intros)

lemma prepare_ok: "prepare_subscription_watchers E client v account app w = (Inr x, w') \<Longrightarrow> w' = w"
  by (auto simp: prepare_subscription_watchers_def collect_subscriptions_def Let_def h_ok)

lemma relay_sign_ok:
  "relay_sign E project message w = (Inr jwt, w') \<longleftrightarrow>
     (\<exists>key. decode_key (en_ext E) (p_authentication_private_key project) = Inr key \<and>
       jwt = sign_jwt (en_ext E) message key) \<and> w' = w"
  by (auto simp: relay_sign_def relay_decode_key_def h_ok)

lemma delete_inner_ok:
  assumes "delete_inner E msg opn w = (Inr (jwt, ws), w')"
  shows "w_db w' = delete_subscriber (sws_id (to_subscriber opn)) (w_db w)"
    and "w_unsubscribed w' = w_unsubscribed w @ [rm_topic msg]" and "w_published w' = w_published w"
    and "\<exists>key message. decode_key (en_ext E) (p_authentication_private_key (to_project opn)) = Inr key \<and>
      jwt = sign_jwt (en_ext E) message key"
  using assms
  by (auto simp: delete_inner_def Let_def h_ok analytics_subscriber_update_def relay_from_jwt_ok relay_same_account_ok relay_sign_ok
    db_delete_subscriber_def
      notify_webhook_def h_unsubscribe_def dest!: prepare_ok relay_authorize_ok(2))

text \<open>A successful answer: the response is among the new messages, whichever future ran first.\<close>

lemma respond_and_tell_ok:
  assumes "respond_and_tell E msg key t tag ttl i result w = (Inr u, w')" "sealing_laws E"
  shows "\<exists>jwt ws p ps. result = Inr (jwt, ws) \<and> w_published w' = w_published w @ ps
    \<and> p \<in> set ps \<and>
    pub_topic p = t \<and> pub_tag p = tag \<and> pub_ttl_secs p = ttl \<and>
    opens_to (en_ext E) key p (response_json E ResponseAuth_field i (Inr jwt)) \<and>
    w_unsubscribed w' = w_unsubscribed w"
proof -
  obtain jwt ws where res: "result = Inr (jwt, ws)"
    using assms(1) respond_and_tell_fails by (cases result) auto
  let ?resp = "publish_response E msg key t tag ttl (response_json E ResponseAuth_field i (Inr jwt))"
  let ?tell = "h_map_err (\<lambda>e. Server (RsSubscriptionWatcherSend e)) (send_to_subscription_watchers E msg ws)"
  have tell: "published_grows ?tell" by (intro grows_intros)
  have "try_join E ?resp ?tell w = (Inr (), w')"
    using assms(1) by (auto simp: res respond_and_tell_def Let_def h_ok)
  then consider w1 where "?resp w = (Inr (), w1)" "?tell w1 = (Inr (), w')"
    | w1 where "?tell w = (Inr (), w1)" "?resp w1 = (Inr (), w')"
    by (auto simp: try_join_def h_bind_Inr split: if_splits)
  then show ?thesis
  proof cases
    case 1
    from publish_response_opens [OF 1(1) assms(2)] growsD [OF tell 1(2)] show ?thesis
      by (auto simp: res)
  next
    case 2
    from publish_response_opens [OF 2(2) assms(2)] growsD [OF tell 2(1)] show ?thesis
      by (auto simp: res)
  qed
qed

text \<open>The request of a message on a subscriber's topic is what its envelope opens to.\<close>

lemma topic_request:
  assumes "open_with_client_id E wrong field msg w = (Inr opn, w')"
  shows "\<exists>bytes env. b64_std_decode (en_ext E) (rm_message msg) = Inr bytes \<and> Envelope0_from_bytes bytes = Inr env \<and>
    decrypt_message (en_ext E) (auth_from_json field) (iv env) (sealbox env) (to_sym_key opn) = Inr (to_req opn)"
  using assms by (auto simp: open_with_client_id_def relay_subscriber_ok relay_open_ok relay_client_id_def h_ok)

text \<open>
  C11. Unsubscribing, end to end. When the delete handler succeeds, the subscriber of the message's
  topic is deleted and the topic is unknown from then on, the server has asked the relay to
  unsubscribe from it, and among the messages the relay took is a response on that topic, with the
  delete tag and 30 days to live, that the holder of the subscriber's key opens to the JSON-RPC result,
  under its id, of the request that the message's envelope opens to with that key: a JWT signed
  with the project's key.
\<close>

theorem delete_end_to_end:
  assumes "delete_handle E msg w = (Inr u, w')" "wf_db (en_ext E) (w_db w)" "sealing_laws E" "jwt_laws (en_ext E)"
  shows "\<exists>s p key priv ps pub bytes env req h c sig. get_subscriber_by_topic (en_ext E) (rm_topic msg) (w_db w) = Inr s \<and>
    get_project_by_id (sws_project s) (w_db w) = Inr p \<and>
    w_db w' = delete_subscriber (sws_id s) (w_db w) \<and>
    get_subscriber_by_topic (en_ext E) (rm_topic msg) (w_db w') = Inl RowNotFound \<and>
    w_unsubscribed w' = w_unsubscribed w @ [rm_topic msg] \<and>
    decode_key (en_ext E) (sws_sym_key s) = Inr key \<and>
    b64_std_decode (en_ext E) (rm_message msg) = Inr bytes \<and> Envelope0_from_bytes bytes = Inr env \<and>
    decrypt_message (en_ext E) (auth_from_json ''deleteAuth'') (iv env) (sealbox env) key = Inr req \<and>
    w_published w' = w_published w @ ps
      \<and> pub \<in> set ps \<and>
    pub_topic pub = rm_topic msg \<and> pub_tag pub = 4005 \<and> pub_ttl_secs pub = 2592000 \<and>
    opens_to (en_ext E) key pub
      (JsonRpcResponse_to_json (auth_to_json ''responseAuth'') (JsonRpcResponse_new (rq_id req) (h @ ''.'' @ c @ ''.'' @ sig)))
        \<and>
    decode_key (en_ext E) (p_authentication_private_key p) = Inr priv \<and>
    jwt_ed_verify (en_ext E) sig (as_bytes (h @ ''.'' @ c)) (ed25519_verifying_key (en_ext E) priv) = Inr True"
proof -
  from assms(1) obtain opn w1 r w2 where opn: "delete_open E msg w = (Inr opn, w1)"
    and tried: "(h_try (delete_inner E msg opn) :: _ relay) w1 = (Inr r, w2)"
    and resp: "respond_and_tell E msg (to_sym_key opn) (rm_topic msg) NOTIFY_DELETE_RESPONSE_TAG NOTIFY_DELETE_RESPONSE_TTL (rq_id (to_req opn)) r w2 = (Inr u, w')"
    by (auto simp: delete_handle_def h_bind_Inr)
  from delete_open_ok [OF opn] obtain st where w1: "w1 = w\<lparr> w_buckets := st \<rparr>"
    "open_with_client_id E WrongNotifyDeleteTopic NotifyDelete_field msg w1 = (Inr opn, w1)" .
  note o = topic_opens_ok [OF disjI1 [OF w1(2)]]
  obtain bytes env where opened: "b64_std_decode (en_ext E) (rm_message msg) = Inr bytes" "Envelope0_from_bytes bytes = Inr env"
    "decrypt_message (en_ext E) (auth_from_json ''deleteAuth'') (iv env) (sealbox env) (to_sym_key opn) = Inr (to_req opn)"
    using topic_request [OF w1(2)] unfolding NotifyDelete_field_def by blast
  from respond_and_tell_ok [OF resp assms(3)] obtain jwt ws pub ps where res: "r = Inr (jwt, ws)"
    and pub: "w_published w' = w_published w2 @ ps" "pub \<in> set ps" "pub_topic pub = rm_topic msg"
      "pub_tag pub = NOTIFY_DELETE_RESPONSE_TAG" "pub_ttl_secs pub = NOTIFY_DELETE_RESPONSE_TTL"
      "opens_to (en_ext E) (to_sym_key opn) pub (response_json E ResponseAuth_field (rq_id (to_req opn)) (Inr jwt))"
      "w_unsubscribed w' = w_unsubscribed w2"
    by blast
  have inner: "delete_inner E msg opn w1 = (Inr (jwt, ws), w2)"
    using tried by (cases rule: try_cases) (auto simp: res)
  note d = delete_inner_ok [OF inner]
  have db: "w_db w' = delete_subscriber (sws_id (to_subscriber opn)) (w_db w)"
    using unchanged [OF keeps_respond(1) resp] d(1) w1(1) by simp
  obtain q where q: "q \<in> set (subscribers (w_db w))" "s_topic q = rm_topic msg" "s_id q = sws_id (to_subscriber opn)"
    using get_subscriber_by_topic_row [OF o(1)] w1(1) by auto
  obtain priv message where priv: "decode_key (en_ext E) (p_authentication_private_key (to_project opn)) = Inr priv"
    and jwt: "jwt = sign_jwt (en_ext E) message priv"
    using d(4) by blast
  obtain h c sig where "jwt = h @ ''.'' @ c @ ''.'' @ sig"
    "jwt_ed_verify (en_ext E) sig (as_bytes (h @ ''.'' @ c)) (ed25519_verifying_key (en_ext E) priv) = Inr True"
    using sign_jwt_parts [OF assms(4), of message priv] unfolding jwt rsplit_dot_Some by auto
  then show ?thesis
    using delete_subscriber_gone(1) [OF assms(2) q(1)] o(1-3) w1(1) db d(2,3) pub priv q(2,3) opened
    by (intro exI [of _ "to_subscriber opn"] exI [of _ "to_project opn"] exI [of _ "to_sym_key opn"] exI [of _ priv]
        exI [of _ ps] exI [of _ pub] exI [of _ bytes] exI [of _ env] exI [of _ "to_req opn"] exI [of _ h] exI [of _ c] exI [of _ sig])
      (simp add: response_json_def ResponseAuth_field_def NOTIFY_DELETE_RESPONSE_TAG_def
        NOTIFY_DELETE_RESPONSE_TTL_def
        T2592000_def)
qed


section \<open>Errors\<close>

lemma publish_response_fails:
  assumes "publish_response E msg key t tag ttl j w = (Inl e, w')"
  shows "(\<exists>s. e = Failure (Server s)) \<and> w_published w' = w_published w"
  using assms
  by (auto simp: publish_response_def h_bind_def h_defs h_map_err_def h_publish_def
      split: prod.splits sum.splits option.splits failure.splits)



section \<open>The watchers\<close>

text \<open>
  A watcher the update of an account's subscriptions concerns: not expired, of the same address, and
  of the app or of all apps.
\<close>

definition concerns :: "datetime \<Rightarrow> AccountId \<Rightarrow> string \<Rightarrow> db \<Rightarrow>
  watcher_row \<Rightarrow> bool" where
  "concerns now account app d w \<longleftrightarrow>
     now < w_expiry w \<and> get_address_lower (w_account w) = get_address_lower account \<and>
     (w_project w = None \<or> (\<exists>p \<in> set (projects d). w_project w = Some (p_id p)
       \<and> p_app_domain p = app))"

definition watcher_query :: "watcher_row \<Rightarrow> SubscriptionWatcherQuery" where
  "watcher_query w = \<lparr> swq_account = w_account w, swq_project = w_project w, swq_did_key = w_did_key w,
     swq_sym_key = w_sym_key w \<rparr>"

lemma watcher_query_simps [simp]:
  "swq_did_key (watcher_query w) = w_did_key w" "swq_account (watcher_query w) = w_account w"
  "swq_project (watcher_query w) = w_project w" "swq_sym_key (watcher_query w) = w_sym_key w"
  by (simp_all add: watcher_query_def)

lemma find_map_option: "find P (map f xs) = map_option f (find (\<lambda>x. P (f x)) xs)"
  by (induction xs) auto

lemma watchers_query_rows:
  assumes "wf_db X d"
  shows "get_subscription_watchers_for_account_by_app_or_all_app X now account app d =
    Inr (map watcher_query (filter (concerns now account app d) (watchers d)))"
proof -
  have "\<forall>w \<in> set (watchers d). valid_account X (w_account w)"
    using wf_dbD(4) [OF assms] by (auto simp: wf_watchers_def list_all_iff)
  then show ?thesis
    unfolding get_subscription_watchers_for_account_by_app_or_all_app_def concerns_def watcher_query_def
    by (intro collect_results_total) (auto simp: map_ok_Inr_iff)
qed

lemma find_distinct:
  assumes "distinct (map f xs)" "x \<in> set xs" "f x = k"
  shows "find (\<lambda>y. f y = k) xs = Some x"
proof (cases "find (\<lambda>y. f y = k) xs")
  case None
  then show ?thesis using assms by (auto simp: find_None_iff)
next
  case (Some y)
  then show ?thesis using find_Some_set [OF Some] distinct_map_inj [OF assms(1)] assms(2,3) by auto
qed

text \<open>
  C22. Who is told what. After a change of an account's subscriptions for an app by a client, exactly
  the watchers that concern the account and the app are told, once each, in the table's order: a
  watcher of the app gets the account's subscriptions to that app, a watcher of all apps all of them,
  under the form of the account it watches with. The client itself is left out unless its request has
  version 0; the answer it gets holds what its own watcher would, or the app's subscriptions when it
  has none, and then under the stored accounts rather than the account it used.
\<close>

theorem watchers_prepared:
  assumes "wf_db (en_ext E) (w_db w)"
    and "prepare_subscription_watchers E client v account app w = (Inr (answer, told), w')"
  shows "w' = w \<and> (\<exists>all_subs. collect_subscriptions E account None w = (Inr all_subs, w) \<and>
    (let did = to_did_key (en_ext E) client; app_subs = filter (\<lambda>s. nss_app_domain s = app) all_subs;
         subs = (\<lambda>q. if w_project q = None then all_subs else app_subs);
         ws = filter (concerns (en_now E) account app (w_db w)) (watchers (w_db w)) in
     told = map (\<lambda>q. (watcher_query q, map (\<lambda>s. s\<lparr> nss_account := w_account q \<rparr>) (subs q)))
       (filter (\<lambda>q. w_did_key q \<noteq> did \<or> v = ''0'') ws) \<and>
     (\<forall>q \<in> set ws. w_did_key q = did \<longrightarrow> answer
       = map (\<lambda>s. s\<lparr> nss_account := account \<rparr>) (subs q)) \<and>
     (did \<notin> w_did_key ` set ws \<longrightarrow> answer = app_subs)))"
proof -
  let ?ws = "filter (concerns (en_now E) account app (w_db w)) (watchers (w_db w))"
  let ?did = "to_did_key (en_ext E) client"
  have dis: "distinct (map w_did_key ?ws)"
    using wf_dbD(4) [OF assms(1)] distinct_map_filter_sub by (auto simp: wf_watchers_def)
  then have disq: "distinct (map swq_did_key (map watcher_query ?ws))" by (simp add: o_def)
  from assms(2) obtain all_subs source where c: "collect_subscriptions E account None w = (Inr all_subs, w)" "w' = w"
    and l: "watchers_loop ?did v account all_subs (filter (\<lambda>s. nss_app_domain s = app) all_subs) (map watcher_query ?ws) None =
        Some (source, told)"
    and a: "answer = (case source of None \<Rightarrow> filter (\<lambda>s. nss_app_domain s = app) all_subs | Some s \<Rightarrow> s)"
    by (auto simp: prepare_subscription_watchers_def collect_subscriptions_def Let_def h_ok watchers_query_rows [OF
      assms(1)])
  note spec = l [unfolded watchers_loop_spec [OF disq]]
  have src: "source = map_option (\<lambda>q. with_account account (subs_for (watcher_query q) all_subs (filter (\<lambda>s. nss_app_domain s = app) all_subs)))
      (find (\<lambda>q. w_did_key q = ?did) ?ws)"
    using spec by (auto simp: find_map_option option.map_comp o_def)
  have told: "told = map (\<lambda>q. (watcher_query q, with_account (w_account q) (subs_for (watcher_query q)
    all_subs
      (filter (\<lambda>s. nss_app_domain s = app) all_subs)))) (filter (\<lambda>q. w_did_key q \<noteq> ?did \<or>
        v = ''0'') ?ws)"
    using spec by (auto simp: filter_map o_def)
  note find = find_distinct [OF dis]
  have none: "find (\<lambda>q. w_did_key q = ?did) ?ws = None" if "?did \<notin> w_did_key ` set ?ws"
    unfolding find_None_iff using that by (metis imageI)
  have answer: "answer = with_account account (subs_for (watcher_query q) all_subs (filter (\<lambda>s. nss_app_domain s = app) all_subs))"
    if "q \<in> set ?ws" "w_did_key q = ?did" for q
    using a src find [of q] that by simp
  have "?did \<notin> w_did_key ` set ?ws \<Longrightarrow> answer = filter (\<lambda>s. nss_app_domain s = app) all_subs"
    using a src none by simp
  then show ?thesis
    unfolding Let_def using c told answer
    by (intro conjI exI [of _ all_subs] ballI impI) (simp_all add: subs_for_def with_account_def)
qed


text \<open>One message to a watcher: when its key decodes and the relay takes it, what the watcher gets.\<close>

definition tells :: "env \<Rightarrow> SubscriptionWatcherQuery \<times> NotifyServerSubscription list \<Rightarrow>
  Publish \<Rightarrow> bool" where
  "tells E = (\<lambda>(q, subs) p. \<exists>key i c h sig. decode_key (en_ext E) (swq_sym_key q) = Inr key \<and>
     pub_topic p = topic_from_key (en_ext E) key \<and> pub_tag p = 4012 \<and> pub_ttl_secs p = 300 \<and>
     opens_to (en_ext E) key p (JsonRpcRequest_to_json (auth_to_json ''subscriptionsChangedAuth'')
       (JsonRpcRequest_new i ''wc_notifySubscriptionsChanged'' (h @ ''.'' @ c @ ''.'' @ sig))) \<and>
     c = b64_url_no_pad_encode (en_ext E) (as_bytes (json_to_string (en_ext E)
       (WatchSubscriptionsChangedRequestAuth_to_json (en_ext E)
         (response_claims E 300 (nk_authentication_client_id (en_notify_keys E)) (swq_did_key q)
           ''notify_subscriptions_changed'')
         (to_did_pkh (en_ext E) (swq_account q)) subs))) \<and>
     jwt_ed_verify (en_ext E) sig (as_bytes (h @ ''.'' @ c))
       (ed25519_verifying_key (en_ext E) (nk_authentication_secret (en_notify_keys E))) = Inr True)"

definition reachable_watcher :: "env \<Rightarrow> SubscriptionWatcherQuery \<Rightarrow> bool" where
  "reachable_watcher E q \<longleftrightarrow> (\<exists>key. decode_key (en_ext E) (swq_sym_key q) = Inr key \<and>
     (\<forall>nonce j. seal_message (en_ext E) nonce key j \<noteq> None) \<and>
     (\<forall>p. pub_topic p = topic_from_key (en_ext E) key \<longrightarrow> is_ok (publish_relay_message (en_publish E p))))"

lemma send_to_watcher_tells:
  assumes "sealing_laws E" "jwt_laws (en_ext E)" "reachable_watcher E q"
  shows "\<exists>p w'. send_to_watcher E msg subs (swq_account q) (swq_did_key q) (swq_sym_key q) w = (Inr (), w') \<and>
    w_published w' = w_published w @ [p] \<and> tells E (q, subs) p"
proof -
  let ?X = "en_ext E"
  let ?j = "WatchSubscriptionsChangedRequestAuth_to_json ?X
         (response_claims E NOTIFY_SUBSCRIPTIONS_CHANGED_TTL (nk_authentication_client_id (en_notify_keys E))
           (swq_did_key q)
           NOTIFY_SUBSCRIPTIONS_CHANGED_ACT) (to_did_pkh ?X (swq_account q)) subs"
  let ?jwt = "sign_jwt ?X ?j (nk_authentication_secret (en_notify_keys E))"
  let ?dr = "en_draw E (w_drawn w)"
  let ?req = "JsonRpcRequest_to_json (auth_to_json NotifySubscriptionsChanged_field)
                   (JsonRpcRequest_new (dr_message_id ?dr) NOTIFY_SUBSCRIPTIONS_CHANGED_METHOD ?jwt)"
  obtain key m where key: "decode_key ?X (swq_sym_key q) = Inr key"
    and m: "seal_message ?X (dr_nonce ?dr) key ?req = Some m"
    and ok: "\<forall>p. pub_topic p = topic_from_key ?X key \<longrightarrow> is_ok (publish_relay_message (en_publish E p))"
    using assms(3) unfolding reachable_watcher_def by (metis not_None_eq)
  let ?p = "\<lparr> pub_topic = topic_from_key ?X key, pub_message = m, pub_ttl_secs
    = NOTIFY_SUBSCRIPTIONS_CHANGED_TTL,
      pub_tag = NOTIFY_SUBSCRIPTIONS_CHANGED_TAG, pub_prompt = False \<rparr>"
  have sent: "send_to_watcher E msg subs (swq_account q) (swq_did_key q) (swq_sym_key q) w =
      (Inr (), w\<lparr> w_drawn := Suc (w_drawn w), w_published := w_published w @ [?p],
         w_events := w_events w @ relay_request_events E (Some msg) ?p True \<rparr>)"
    using ok by (auto simp: send_to_watcher_def Let_def h_ok key m intro!: exI)
  have "opens_to ?X key ?p ?req"
    using seal_message_opens [OF _ _ _ m] assms(1) by (simp add: opens_to_def sealing_laws_def)
  moreover obtain sig where "?jwt = b64_url_no_pad_encode ?X (as_bytes (jwt_header_string ?X)) @ ''.'' @
      b64_url_no_pad_encode ?X (as_bytes (json_to_string ?X ?j)) @ ''.'' @ sig"
    "jwt_ed_verify ?X sig (as_bytes (b64_url_no_pad_encode ?X (as_bytes (jwt_header_string ?X)) @ ''.'' @
        b64_url_no_pad_encode ?X (as_bytes (json_to_string ?X ?j))))
      (ed25519_verifying_key ?X (nk_authentication_secret (en_notify_keys E))) = Inr True"
    using sign_jwt_parts [OF assms(2), of ?j "nk_authentication_secret (en_notify_keys E)"]
    unfolding rsplit_dot_Some by auto
  ultimately have "tells E (q, subs) ?p"
    using key unfolding tells_def
    by (auto simp: NotifySubscriptionsChanged_field_def NOTIFY_SUBSCRIPTIONS_CHANGED_METHOD_def
        NOTIFY_SUBSCRIPTIONS_CHANGED_TTL_def NOTIFY_SUBSCRIPTIONS_CHANGED_TAG_def
          NOTIFY_SUBSCRIPTIONS_CHANGED_ACT_def T300_def)
  then show ?thesis using sent by (intro exI [of _ ?p]) simp
qed

abbreviation tell_one :: "env \<Rightarrow> RelayIncomingMessage \<Rightarrow> SubscriptionWatcherQuery \<Rightarrow> NotifyServerSubscription list
  \<Rightarrow>
    (SubscriptionWatcherSendError + unit, SubscriptionWatcherSendError) handler" where
  "tell_one E msg q subs \<equiv> h_try (send_to_watcher E msg subs (swq_account q) (swq_did_key q) (swq_sym_key q))"

lemma send_one:
  assumes "sealing_laws E" "jwt_laws (en_ext E)"
  shows "\<exists>r ps w1. tell_one E msg q subs w = (Inr r, w1) \<and>
    w_published w1 = w_published w @ ps \<and>
    (reachable_watcher E q \<longrightarrow> r = Inr () \<and> (\<exists>p. ps = [p] \<and> tells E (q, subs) p))"
proof (cases "reachable_watcher E q")
  case True
  from send_to_watcher_tells [OF assms this, of msg subs w] obtain p w' where
    "send_to_watcher E msg subs (swq_account q) (swq_did_key q) (swq_sym_key q) w = (Inr (), w')"
    "w_published w' = w_published w @ [p]" "tells E (q, subs) p" by blast
  then show ?thesis by (auto simp: h_try_def)
next
  case False
  let ?m = "send_to_watcher E msg subs (swq_account q) (swq_did_key q) (swq_sym_key q)"
  obtain r w1 where m: "?m w = (r, w1)" by force
  have "r \<noteq> Inl Panicked"
    using panic_freeD(1) [OF panic_free_telling(3) [of "\<lambda>_. True" E msg subs "swq_account q" "swq_did_key q"
      "swq_sym_key q"], of w] m by (metis fst_conv)
  then have "\<exists>r'. h_try ?m w = (Inr r', w1)"
    using m by (cases r) (auto simp: h_try_def split: failure.splits)
  moreover have "published_grows ?m" unfolding send_to_watcher_def Let_def by (intro grows_intros)
  ultimately show ?thesis using growsD(1) [where m = ?m, OF _ m] False by blast
qed

lemma send_each:
  assumes "sealing_laws E" "jwt_laws (en_ext E)"
  shows "\<exists>rs ps w'. h_mapM (\<lambda>(q, subs). tell_one E msg q subs) ws w = (Inr rs, w') \<and>
    w_published w' = w_published w @ ps \<and>
    (\<forall>t \<in> set ws. reachable_watcher E (fst t) \<longrightarrow> (\<exists>p \<in> set ps. tells E t p))
      \<and>
    ((\<forall>t \<in> set ws. reachable_watcher E (fst t)) \<longrightarrow> first_error rs = Inr ()
      \<and> length ps = length ws)"
proof (induction ws arbitrary: w)
  case Nil
  then show ?case by (simp add: h_return_def)
next
  case (Cons t ws)
  obtain q subs where t: "t = (q, subs)" by force
  from send_one [OF assms, of msg subs q w] obtain r ps w1 where
    one: "tell_one E msg q subs w = (Inr r, w1)"
      "w_published w1 = w_published w @ ps"
      "reachable_watcher E q \<longrightarrow> r = Inr () \<and> (\<exists>p. ps = [p]
        \<and> tells E (q, subs) p)" by blast
  from Cons.IH [of w1] obtain rs qs w' where
    rest: "h_mapM (\<lambda>(q, subs). tell_one E msg q subs) ws w1 = (Inr rs, w')"
      "w_published w' = w_published w1 @ qs"
      "\<forall>t \<in> set ws. reachable_watcher E (fst t) \<longrightarrow> (\<exists>p \<in> set qs. tells E t p)"
      "(\<forall>t \<in> set ws. reachable_watcher E (fst t)) \<longrightarrow> first_error rs = Inr ()
        \<and> length qs = length ws" by blast
  show ?case
    by (intro exI [of _ "r # rs"] exI [of _ "ps @ qs"] exI [of _ w'])
      (use one rest in \<open>auto simp: t h_bind_def h_return_def\<close>)
qed



section \<open>Witnesses\<close>

lemma sealing_laws_client: "sealing_laws env_client"
  using laws_client(4,5) nonce_client by (simp add: sealing_laws_def client_parts)

theorem delete_end_to_end_witness:
  "\<exists>w'. delete_handle env_client client_message (world_demo demo_db8) = (Inr (), w') \<and>
     get_subscriber_by_topic ext_client (hex_demo (replicate 32 3)) (w_db w') = Inl RowNotFound \<and>
     w_unsubscribed w' = [hex_demo (replicate 32 3)]"
proof -
  obtain w' where w': "delete_handle env_client client_message (world_demo demo_db8) = (Inr (), w')"
    using client_deletes by blast
  have "w_db (world_demo demo_db8) = demo_db8" "rm_topic client_message = hex_demo (replicate 32 3)"
    "w_unsubscribed (world_demo demo_db8) = []"
    by (simp_all add: world_demo_def client_message_def)
  then show ?thesis
    using delete_end_to_end [OF w' _ sealing_laws_client] wf_demo_db8 laws_client(3) w' by (auto simp: client_parts)
qed


lemma other_query_row: "watcher_query other_watcher = other_query"
  by (simp add: watcher_query_def other_watcher_def other_query_def)

theorem watchers_prepared_witness:
  "\<exists>answer told. prepare_subscription_watchers env_client (replicate 32 6) ''1'' acct_a ''app.example''
     ((world_demo demo_db8)\<lparr> w_db := delete_subscriber 7 demo_db8 \<rparr>) =
       (Inr (answer, told), (world_demo demo_db8)\<lparr> w_db := delete_subscriber 7 demo_db8 \<rparr>) \<and>
     map fst told = [other_query]"
proof -
  let ?w = "(world_demo demo_db8)\<lparr> w_db := delete_subscriber 7 demo_db8 \<rparr>"
  have p: "prepare_subscription_watchers env_client (replicate 32 6) ''1'' acct_a ''app.example''
    ?w = (Inr ([], [(other_query, [])]), ?w)"
    using client_prepared [of ?w] by simp
  have "wf_db ext_client (delete_subscriber 7 demo_db8)"
    using delete_subscriber_wf wf_demo_db8 by blast
  then show ?thesis
    using watchers_prepared [OF _ p] p by (auto simp: client_parts)
qed


end
