(* ===== verification/Jobs.thy ===== *)
theory Jobs
  imports Publisher Relay_Handlers
begin

text \<open>
  The periodic jobs: the expiration of watchers (\<open>src/src/services/watcher_expiration_job.rs\<close>), the
  check for dead letters (\<open>publisher_service/mod.rs\<close>), and the daily renewal of the server's relay
  subscriptions (\<open>src/src/services/relay_renewal_job\<close>), whose background task is a step relation: up to
  25 requests are in flight and finish in any order, and the next day's run may find it still going.
\<close>

section \<open>Watchers and dead letters\<close>

definition watcher_expiration_job :: "env \<Rightarrow> (unit, sqlx_error) handler" where
  "watcher_expiration_job E w =
     (case delete_expired_subscription_watchers (en_now E) (w_db w) of (expired, d) \<Rightarrow> (Inr (), w\<lparr>
       w_db := d \<rparr>))"

definition dead_letters_job :: "env \<Rightarrow> (unit, sqlx_error) handler" where
  "dead_letters_job E w = (Inr (), w\<lparr> w_db := dead_letters_check (en_now E) PUBLISHING_TIMEOUT (w_db w)
    \<rparr>)"

section \<open>Registering the webhook\<close>

definition RELAY_WEBHOOK_ENDPOINT :: string where "RELAY_WEBHOOK_ENDPOINT = ''/v1/relay-webhook''"

record WatchRegisterRequest =
  wr_service_url :: string
  wr_webhook_url :: string
  wr_watch_type :: WatchType
  wr_tags :: "nat list"
  wr_statuses :: "WatchStatus list"
  wr_ttl_secs :: nat

definition watch_register_request :: "ext \<Rightarrow> string \<Rightarrow> WatchRegisterRequest option" where
  "watch_register_request X webhook_notify_url =
     map_option (\<lambda>url. \<lparr> wr_service_url = webhook_notify_url, wr_webhook_url = url,
       wr_watch_type = Subscriber_watch,
         wr_tags = INCOMING_TAGS, wr_statuses = [Accepted, Queued_status], wr_ttl_secs = 60 * 60 * 24 * 30 \<rparr>)
       (url_join X webhook_notify_url RELAY_WEBHOOK_ENDPOINT)"

definition register_webhook_run ::
  "env \<Rightarrow> (WatchRegisterRequest \<Rightarrow> (unit, string) result) \<Rightarrow> (unit, string) handler"
    where
  "register_webhook_run E watch_register =
     h_bind (h_expect (watch_register_request (en_ext E) (en_webhook_notify_url E))) (\<lambda>request.
       h_lift id (watch_register request))"

section \<open>Renewing the subscriptions\<close>

definition REQUEST_CONCURRENCY :: nat where "REQUEST_CONCURRENCY = 25"

text \<open>\<open>chunks(1)\<close>.\<close>

definition topic_batches :: "topic list \<Rightarrow> topic list list" where
  "topic_batches topics = map (\<lambda>t. [t]) topics"

definition topics_to_renew :: "topic \<Rightarrow> db \<Rightarrow> topic list" where
  "topics_to_renew key_agreement_topic d = key_agreement_topic # get_subscriber_topics d @ get_project_topics d"

text \<open>
  The spawned task: the batches the stream has not reached, those in flight, and the collected
  results. The topics it was started for are kept for the statements about it.
\<close>

record renew_task =
  rt_topics :: "topic list"
  rt_stream :: "topic list list"
  rt_flying :: "topic list list"
  rt_results :: "(topic list \<times> (unit, string) result) list"

definition renew_task_new :: "topic list \<Rightarrow> renew_task" where
  "renew_task_new topics = \<lparr> rt_topics = topics, rt_stream = topic_batches topics,
    rt_flying = [], rt_results = [] \<rparr>"

text \<open>
  \<open>buffer_unordered\<close>: a request is started while fewer than 25 are in flight, and any of those in
  flight may be the next to finish. \<open>relay\<close> is what the relay answers to a batch, attempt by attempt.
\<close>

inductive renew_task_step :: "(topic list \<Rightarrow> nat \<Rightarrow> (unit, string) result) \<Rightarrow>
  renew_task \<Rightarrow> renew_task \<Rightarrow> bool" for relay where
  ask: "rt_stream t = b # bs \<Longrightarrow> length (rt_flying t) < REQUEST_CONCURRENCY \<Longrightarrow>
    renew_task_step relay t (t\<lparr> rt_stream := bs, rt_flying := b # rt_flying t \<rparr>)"
| answer: "b \<in> set (rt_flying t) \<Longrightarrow>
    renew_task_step relay t (t\<lparr> rt_flying := remove1 b (rt_flying t),
      rt_results := rt_results t @ [(b, batch_subscribe_relay_topics (relay b))] \<rparr>)"

text \<open>The lock \<open>renew_all_topics_lock\<close>, the live tasks, and those that have ended.\<close>

record renewal =
  rn_lock :: bool
  rn_tasks :: "renew_task list"
  rn_ended :: "renew_task list"

definition renewal_init :: renewal where
  "renewal_init = \<lparr> rn_lock = False, rn_tasks = [], rn_ended = [] \<rparr>"

definition refresh_topic_subscriptions_run :: "topic \<Rightarrow> db \<Rightarrow> renewal \<Rightarrow> renewal"
  where
  "refresh_topic_subscriptions_run key_agreement_topic d s =
     (if \<not> rn_lock s
      then s\<lparr> rn_lock := True, rn_tasks := rn_tasks s @ [renew_task_new (topics_to_renew key_agreement_topic d)] \<rparr>
      else s)"

definition relay_renewal_job ::
  "env \<Rightarrow> (WatchRegisterRequest \<Rightarrow> (unit, string) result) \<Rightarrow> renewal \<Rightarrow>
    (renewal, string) handler" where
  "relay_renewal_job E watch_register s =
     h_bind (register_webhook_run E watch_register) (\<lambda>_.
     h_query id (\<lambda>d. Inr (refresh_topic_subscriptions_run (nk_key_agreement_topic (en_notify_keys E)) d s)))"

text \<open>The first run is part of the start of the server, which fails with it.\<close>

definition relay_renewal_start ::
  "env \<Rightarrow> (WatchRegisterRequest \<Rightarrow> (unit, string) result) \<Rightarrow> (renewal, string)
    handler" where
  "relay_renewal_start E watch_register = relay_renewal_job E watch_register renewal_init"

text \<open>
  The database and the renewals: the rest of the server changes the database in any way; a run of
  the job reads the topics that it has then; a task makes a step; and a task that has collected
  every result gives the lock back and ends.
\<close>

inductive renewal_step :: "topic \<Rightarrow> db \<times> renewal \<Rightarrow> db \<times> renewal \<Rightarrow> bool" for
  key_agreement_topic where
  others: "renewal_step key_agreement_topic (d, s) (d', s)"
| run: "renewal_step key_agreement_topic (d, s) (d, refresh_topic_subscriptions_run key_agreement_topic d s)"
| task: "rn_tasks s = ts @ t # us \<Longrightarrow> renew_task_step relay t t' \<Longrightarrow>
    renewal_step key_agreement_topic (d, s) (d, s\<lparr> rn_tasks := ts @ t' # us \<rparr>)"
| finish: "rn_tasks s = ts @ t # us \<Longrightarrow> rt_stream t = [] \<Longrightarrow> rt_flying t = [] \<Longrightarrow>
    renewal_step key_agreement_topic (d, s)
      (d, s\<lparr> rn_lock := False, rn_tasks := ts @ us, rn_ended := rn_ended s @ [t] \<rparr>)"

inductive_cases renew_task_stepE: "renew_task_step relay t t'"
inductive_cases renewal_stepE: "renewal_step k (d, s) (d', s')"

section \<open>Facts\<close>

text \<open>No batch is lost or asked for twice, and at most 25 are in flight.\<close>

definition task_inv :: "renew_task \<Rightarrow> bool" where
  "task_inv t \<longleftrightarrow> length (rt_flying t) \<le> REQUEST_CONCURRENCY \<and>
     mset (rt_stream t) + mset (rt_flying t) + mset (map fst (rt_results t)) = mset (topic_batches (rt_topics t))"

lemma task_inv_new: "task_inv (renew_task_new topics)"
  by (simp add: task_inv_def renew_task_new_def)

lemma task_inv_step:
  assumes "renew_task_step relay t t'" "task_inv t"
  shows "task_inv t' \<and> rt_topics t' = rt_topics t"
  using assms(1)
proof cases
  case (answer b)
  have "mset (rt_flying t) = add_mset b (mset (remove1 b (rt_flying t)))"
    using answer(2) by (simp add: insert_DiffM)
  then show ?thesis using assms(2) answer by (auto simp: task_inv_def length_remove1 simp del: mset_remove1)
qed (use assms(2) in \<open>auto simp: task_inv_def\<close>)

lemma task_inv_ended:
  "task_inv t \<Longrightarrow> rt_stream t = [] \<Longrightarrow> rt_flying t = []
    \<Longrightarrow> mset (map fst (rt_results t)) = mset (topic_batches (rt_topics t))"
  by (simp add: task_inv_def)

text \<open>The lock is held by one task, and only tasks with nothing left to do have ended.\<close>

definition renewal_inv :: "renewal \<Rightarrow> bool" where
  "renewal_inv s \<longleftrightarrow> length (rn_tasks s) \<le> 1 \<and> (rn_lock s \<longleftrightarrow> rn_tasks s \<noteq> []) \<and>
     (\<forall>t \<in> set (rn_tasks s @ rn_ended s). task_inv t) \<and>
     (\<forall>t \<in> set (rn_ended s). rt_stream t = [] \<and> rt_flying t = [])"

lemma renewal_inv_step:
  assumes "renewal_inv s" "renewal_step k (d, s) (d', s')"
  shows "renewal_inv s'"
  using assms(2)
proof cases
  case run
  with assms(1) show ?thesis
    by (auto simp: renewal_inv_def refresh_topic_subscriptions_run_def task_inv_new)
next
  case (task ts t us relay t')
  with assms(1) task_inv_step [OF task(4)] show ?thesis by (auto simp: renewal_inv_def)
next
  case (finish ts t us)
  with assms(1) show ?thesis by (auto simp: renewal_inv_def)
qed (use assms(1) in simp)

interpretation renewals: transition_system "\<lambda>x. snd x = renewal_init" "renewal_step k" "\<lambda>x. renewal_inv (snd x)" for k
proof
  show "renewal_inv (snd y)" if "renewal_inv (snd x)" "renewal_step k x y" for x y
    using renewal_inv_step [of "snd x" k "fst x" "fst y" "snd y"] that by simp
qed (auto simp: renewal_inv_def renewal_init_def)

text \<open>The task of a run, alive or ended as the next one, keeps the topics of that run.\<close>

definition run_task :: "nat \<Rightarrow> topic list \<Rightarrow> renewal \<Rightarrow> bool" where
  "run_task n topics s \<longleftrightarrow>
     (length (rn_ended s) = n \<and> (\<exists>t. rn_tasks s = [t] \<and> rt_topics t = topics)) \<or>
     (n < length (rn_ended s) \<and> rt_topics (rn_ended s ! n) = topics)"

lemma run_task_start:
  "renewal_inv s \<Longrightarrow> \<not> rn_lock s \<Longrightarrow>
     run_task (length (rn_ended s)) (topics_to_renew k d) (refresh_topic_subscriptions_run k d s)"
  by (simp add: run_task_def refresh_topic_subscriptions_run_def renewal_inv_def renew_task_new_def)

lemma run_task_step:
  assumes "run_task n topics s" "renewal_inv s" "renewal_step k (d, s) (d', s')"
  shows "run_task n topics s'"
  using assms(3)
proof cases
  case run
  with assms(1,2) show ?thesis
    by (auto simp: run_task_def refresh_topic_subscriptions_run_def renewal_inv_def)
next
  case (task ts t us relay t')
  with assms(1,2) task_inv_step [OF task(4)] show ?thesis
    by (auto simp: run_task_def renewal_inv_def Cons_eq_append_conv)
next
  case (finish ts t us)
  with assms(1) show ?thesis by (auto simp: run_task_def nth_append append_eq_Cons_conv)
qed (use assms(1) in simp)

lemma run_task_reachable:
  assumes "renewal_inv s" "\<not> rn_lock s"
    and "(renewal_step k)\<^sup>*\<^sup>* (d, refresh_topic_subscriptions_run k d s) x"
  shows "run_task (length (rn_ended s)) (topics_to_renew k d) (snd x) \<and> renewal_inv (snd x)"
  using assms(3)
proof (induction rule: rtranclp_induct)
  case base
  then show ?case using run_task_start [OF assms(1,2)] renewal_inv_step [OF assms(1) renewal_step.run] by simp
next
  case (step x y)
  have "renewal_step k (fst x, snd x) (fst y, snd y)" using step(2) by simp
  then show ?case using run_task_step renewal_inv_step step(3) by blast
qed

text \<open>
  C25. One renewal at a time, and every topic once. However the daily runs, the steps of the
  background tasks and changes of the database interleave, at most one task is alive, exactly
  while the lock is held, with at most 25 requests in flight. When a run finds the lock free, the
  next task to end has asked the relay, in some order and once for each, to subscribe to the
  server's own topic and the topics of the subscribers and projects that the database had at
  that run, whatever happened to the database since.
\<close>

theorem renewals_complete:
  assumes "(renewal_step k)\<^sup>*\<^sup>* (d0, renewal_init) (d, s)"
  shows "length (rn_tasks s) \<le> 1 \<and> (rn_lock s \<longleftrightarrow> rn_tasks s \<noteq> []) \<and>
    (\<forall>t \<in> set (rn_tasks s). length (rt_flying t) \<le> 25) \<and>
    (\<forall>d' s'. \<not> rn_lock s \<longrightarrow> (renewal_step k)\<^sup>*\<^sup>* (d, refresh_topic_subscriptions_run k d s) (d', s') \<longrightarrow>
       length (rn_ended s) < length (rn_ended s') \<longrightarrow>
       mset (map fst (rt_results (rn_ended s' ! length (rn_ended s)))) =
         mset (map (\<lambda>x. [x]) (k # map s_topic (subscribers d) @ map p_topic (projects d))))"
proof -
  have inv: "renewal_inv s" using renewals.reachable_inv [OF _ assms] by simp
  have "mset (map fst (rt_results (rn_ended s' ! length (rn_ended s)))) =
      mset (map (\<lambda>x. [x]) (k # map s_topic (subscribers d) @ map p_topic (projects d)))"
    if run: "\<not> rn_lock s" "(renewal_step k)\<^sup>*\<^sup>* (d, refresh_topic_subscriptions_run k d s) (d', s')"
      and "length (rn_ended s) < length (rn_ended s')" for d' s'
  proof -
    let ?t = "rn_ended s' ! length (rn_ended s)"
    have r: "run_task (length (rn_ended s)) (topics_to_renew k d) s'" "renewal_inv s'"
      using run_task_reachable [OF inv run] by simp_all
    then have "rt_topics ?t = topics_to_renew k d" using that(3) by (simp add: run_task_def)
    moreover have "task_inv ?t" "rt_stream ?t = []" "rt_flying ?t = []"
      using r(2) nth_mem [OF that(3)] by (simp_all add: renewal_inv_def)
    ultimately show ?thesis
      using task_inv_ended [of ?t]
      by (simp add: topics_to_renew_def get_subscriber_topics_def get_project_topics_def topic_batches_def)
  qed
  then show ?thesis using inv by (auto simp: renewal_inv_def task_inv_def REQUEST_CONCURRENCY_def)
qed

text \<open>Every step of a task is one request started or answered.\<close>

lemma renew_task_measure:
  "renew_task_step relay t t' \<Longrightarrow>
     2 * length (rt_stream t) + length (rt_flying t) = Suc (2 * length (rt_stream t') + length (rt_flying t'))"
  by (erule renew_task_stepE) (auto simp: length_remove1 dest: length_pos_if_in_set)

lemma renew_task_progress:
  assumes "rt_stream t \<noteq> [] \<or> rt_flying t \<noteq> []"
  shows "\<exists>t'. renew_task_step relay t t'"
proof (cases "rt_flying t")
  case Nil
  with assms obtain b bs where "rt_stream t = b # bs" by (cases "rt_stream t") auto
  then show ?thesis using Nil renew_task_step.ask [of t b bs] by (auto simp: REQUEST_CONCURRENCY_def)
next
  case (Cons b bs)
  then show ?thesis using renew_task_step.answer [of b t] by auto
qed

lemma renew_task_steps:
  "(renew_task_step relay ^^ n) t t' \<Longrightarrow>
     2 * length (rt_stream t) + length (rt_flying t) = n + 2 * length (rt_stream t') + length (rt_flying t')"
  by (induction n arbitrary: t') (auto dest: renew_task_measure)

text \<open>
  C26. A renewal comes to its end. A task started for \<open>n\<close> topics can always take a step until it has
  taken exactly \<open>2 n\<close>, one request and one answer for each topic, and then it has nothing left to do,
  so it gives the lock back: no choice of which answer comes first can keep it from ending.
\<close>

theorem renewal_ends:
  assumes "(renew_task_step relay ^^ n) (renew_task_new topics) t"
  shows "n \<le> 2 * length topics \<and>
    (if n = 2 * length topics
     then rt_stream t = [] \<and> rt_flying t = [] \<and>
       (rn_tasks s = [t] \<longrightarrow>
          renewal_step k (d, s) (d, s\<lparr> rn_lock := False, rn_tasks := [], rn_ended := rn_ended s @ [t] \<rparr>))
     else \<exists>t'. renew_task_step relay t t')"
proof -
  have n: "2 * length topics = n + 2 * length (rt_stream t) + length (rt_flying t)"
    using renew_task_steps [OF assms] by (simp add: renew_task_new_def topic_batches_def)
  moreover have "\<exists>t'. renew_task_step relay t t'" if "n \<noteq> 2 * length topics"
    using renew_task_progress [of t relay] n that by auto
  moreover have "renewal_step k (d, s) (d, s\<lparr> rn_lock := False, rn_tasks := [], rn_ended := rn_ended s @ [t] \<rparr>)"
    if "rn_tasks s = [t]" "rt_stream t = []" "rt_flying t = []"
    using renewal_step.finish [of s "[]" t "[]" k d] that by simp
  ultimately show ?thesis by auto
qed

text \<open>
  The registration fits the webhook. An event of the kinds and with the statuses the server
  registers for, from the relay itself and verified, is never turned away as the client's error; a
  queued one is passed to the mailbox clearing and answered 204 whatever its tag; an accepted one with a
  tag outside the registration is answered 204 and changes nothing.
\<close>

theorem registration_fits_webhook:
  assumes "watch_register_request (en_ext E) url = Some req"
    and "try_from_str jwt = Inr claims" "verify_basic claims (en_webhook_notify_url E) = Inr ()"
    and "wec_iss claims = en_relay_identity E" "wec_act claims = WatchEvent"
    and "wec_typ claims = wr_watch_type req" "wec_status claims \<in> set (wr_statuses req)"
  shows "fst (webhook_handler E try_from_str verify_basic [jwt] w) \<noteq> Inl (Failure (WebhookClient e)) \<and>
    (wec_status claims = Queued_status \<longrightarrow> webhook_handler E try_from_str verify_basic [jwt] w =
      (Inr \<lparr> r_status = 204, r_body = Empty \<rparr>, w\<lparr> w_receipts := w_receipts w @ [(wec_topic claims, wec_message_id claims)] \<rparr>)) \<and>
    (wec_status claims = Accepted \<longrightarrow> wec_tag claims \<notin> set (wr_tags req) \<longrightarrow>
      webhook_handler E try_from_str verify_basic [jwt] w = (Inr \<lparr> r_status = 204,
        r_body = Empty \<rparr>, w))"
proof -
  have req: "wec_typ claims = Subscriber_watch" "wec_status claims = Accepted \<or> wec_status claims = Queued_status"
    "wr_tags req = INCOMING_TAGS"
    using assms(1,6,7) by (auto simp: watch_register_request_def)
  have other: "handle_msg E msg w = (Inr (), w)" if "rm_tag msg \<notin> set INCOMING_TAGS" for msg
    using that by (simp add: handle_msg_def handle_by_tag_def INCOMING_TAGS_def Let_def h_bind_def h_try_def
      h_return_def)
  show ?thesis
    using assms(2-5) req other [of "incoming_message E claims"]
    by (auto simp: webhook_handler_def incoming_message_def h_bind_def h_defs h_map_err_def split: prod.splits sum.splits failure.splits)
qed

section \<open>Witnesses\<close>

definition relay_down :: "topic list \<Rightarrow> nat \<Rightarrow> (unit, string) result" where
  "relay_down b i = Inl ''down''"

text \<open>A run on an empty database, whose one request the relay refuses, while a subscriber arrives.\<close>

definition renewal_demo_end :: renewal where
  "renewal_demo_end = \<lparr> rn_lock = False, rn_tasks = [],
    rn_ended = [\<lparr> rt_topics = [''k''], rt_stream = [], rt_flying = [],
      rt_results = [([''k''], batch_subscribe_relay_topics (relay_down [''k'']))] \<rparr>] \<rparr>"

lemma renewal_run_demo:
  "(renewal_step ''k'')\<^sup>*\<^sup>* (empty_db, refresh_topic_subscriptions_run ''k'' empty_db renewal_init) (demo_db, renewal_demo_end)"
proof -
  let ?t = "\<lambda>s f r. \<lparr> rt_topics = [''k''], rt_stream = s, rt_flying = f, rt_results = r \<rparr>"
  let ?r = "[([''k''], batch_subscribe_relay_topics (relay_down [''k'']))]"
  let ?s = "\<lambda>t. \<lparr> rn_lock = True, rn_tasks = [t], rn_ended = [] \<rparr>"
  have 1: "refresh_topic_subscriptions_run ''k'' empty_db renewal_init = ?s (?t [[''k'']] [] [])"
    by (simp add: refresh_topic_subscriptions_run_def renewal_init_def renew_task_new_def topics_to_renew_def
        get_subscriber_topics_def get_project_topics_def empty_db_def topic_batches_def)
  have "renew_task_step relay_down (?t [[''k'']] [] []) (?t [] [[''k'']] [])"
    using renew_task_step.ask [of "?t [[''k'']] [] []" "[''k'']" "[]" relay_down]
      by (simp add: REQUEST_CONCURRENCY_def)
  then have 2: "renewal_step ''k'' (empty_db, ?s (?t [[''k'']] [] [])) (empty_db, ?s (?t [] [[''k'']] []))"
    using renewal_step.task [of "?s (?t [[''k'']] [] [])" "[]" "?t [[''k'']] [] []" "[]" relay_down "?t [] [[''k'']]
      []" "''k''"] by simp
  have 3: "renewal_step ''k'' (empty_db, ?s (?t [] [[''k'']] [])) (demo_db, ?s (?t [] [[''k'']] []))"
    by (rule renewal_step.others)
  have "renew_task_step relay_down (?t [] [[''k'']] []) (?t [] [] ?r)"
    using renew_task_step.answer [of "[''k'']" "?t [] [[''k'']] []" relay_down] by simp
  then have 4: "renewal_step ''k'' (demo_db, ?s (?t [] [[''k'']] [])) (demo_db, ?s (?t [] [] ?r))"
    using renewal_step.task [of "?s (?t [] [[''k'']] [])" "[]" "?t [] [[''k'']] []" "[]" relay_down "?t [] [] ?r"
      "''k''"] by simp
  have 5: "renewal_step ''k'' (demo_db, ?s (?t [] [] ?r)) (demo_db, renewal_demo_end)"
    using renewal_step.finish [of "?s (?t [] [] ?r)" "[]" "?t [] [] ?r" "[]" "''k''"] by (simp add: renewal_demo_end_def)
  show ?thesis
    unfolding 1 using 2 3 4 5 by (meson converse_rtranclp_into_rtranclp rtranclp.rtrancl_refl)
qed

theorem renewals_complete_witness:
  "(renewal_step ''k'')\<^sup>*\<^sup>* (empty_db, refresh_topic_subscriptions_run ''k'' empty_db renewal_init) (demo_db, renewal_demo_end) \<and>
   mset (map fst (rt_results (rn_ended renewal_demo_end ! 0))) = {#[''k'']#}"
proof -
  have "\<not> rn_lock renewal_init" "length (rn_ended renewal_init) = 0" "rn_ended renewal_demo_end \<noteq> []"
    "subscribers empty_db = []" "projects empty_db = []"
    by (simp_all add: renewal_init_def renewal_demo_end_def empty_db_def)
  moreover have "(renewal_step ''k'')\<^sup>*\<^sup>* (empty_db, renewal_init) (empty_db, renewal_init)" by simp
  note renewals_complete [OF this]
  ultimately show ?thesis using renewal_run_demo by auto
qed

theorem renewal_ends_witness:
  "\<exists>t. (renew_task_step relay_down ^^ 1) (renew_task_new [''a'']) t
    \<and> (\<exists>t'. renew_task_step relay_down t t')"
proof -
  have "renew_task_step relay_down (renew_task_new [''a''])
      ((renew_task_new [''a''])\<lparr> rt_stream := [], rt_flying := [[''a'']] \<rparr>)"
    using renew_task_step.ask [of "renew_task_new [''a'']" "[''a'']" "[]" relay_down]
    by (simp add: renew_task_new_def topic_batches_def REQUEST_CONCURRENCY_def)
  then have "(renew_task_step relay_down ^^ 1) (renew_task_new [''a''])
      ((renew_task_new [''a''])\<lparr> rt_stream := [], rt_flying := [[''a'']] \<rparr>)" by (simp add: eq_OO)
  with renewal_ends [OF this, of renewal_init "''k''" empty_db] show ?thesis by auto
qed

theorem registration_fits_webhook_witness:
  "fst (webhook_handler env_demo (\<lambda>s. Inr \<lparr> wec_iss = ''relay'', wec_act = WatchEvent,
    wec_typ = Subscriber_watch,
      wec_status = Accepted, wec_topic = ''t'', wec_message_id = 1, wec_message = ''m'',
        wec_tag = 4003 \<rparr>) (\<lambda>c u. Inr ())
      [''jwt''] (world_demo demo_db)) \<noteq> Inl (Failure (WebhookClient WrongIssuer))"
proof -
  have "watch_register_request (en_ext env_demo) ''u'' =
      Some \<lparr> wr_service_url = ''u'', wr_webhook_url = ''u'' @ RELAY_WEBHOOK_ENDPOINT,
        wr_watch_type = Subscriber_watch,
        wr_tags = INCOMING_TAGS, wr_statuses = [Accepted, Queued_status], wr_ttl_secs = 60 * 60 * 24 * 30 \<rparr>"
    by (simp add: watch_register_request_def env_demo_def) (simp add: ext_demo_def)
  from registration_fits_webhook [OF this, of _ "''jwt''"] show ?thesis by (simp add: env_demo_def)
qed

end
