(* ===== verification/Server.thy ===== *)
theory Server
  imports Subscriptions Relay_Answers Notify Registry Jobs
begin

text \<open>
  The whole server: what \<open>bootstrap\<close> of \<open>src/src/lib.rs\<close> starts and what they share. An event is a
  request to the public HTTP server, a message of the relay to its webhook, a turn of a publisher
  worker, or a run of a job; each happens at once, in its own environment (clock, random draws,
  answers of the relay). The state is the database and Redis with what was sent to the relay, the
  cache of the registry's answers, and the renewal of the relay subscriptions.
\<close>

section \<open>Requests of a project\<close>

text \<open>The handlers behind \<open>AuthedProjectId\<close>, with their parsed bodies.\<close>

datatype project_request =
    Subscribe_topic string
  | Subscribers_v0
  | Subscribers_v1 "string list"
  | Notify_v0 NotifyBodyNotification
  | Notify_v1 "NotifyBodyNotification list"
  | Get_welcome
  | Post_welcome WelcomeNotification
  | Mark_all_as_read

text \<open>
  What \<open>Deserialize\<close> of \<open>AccountId\<close> asks of the accounts of a body: \<open>try_from\<close> accepts them. A body
  that does not parse is turned away by \<open>axum\<close> with a status of its own.
\<close>

fun request_accounts :: "project_request \<Rightarrow> string list" where
  "request_accounts (Subscribers_v1 accounts) = accounts"
| "request_accounts (Notify_v0 b) = nb_accounts b"
| "request_accounts (Notify_v1 bs) = concat (map nb_accounts bs)"
| "request_accounts _ = []"

datatype answer =
    Rejected nat
  | Answer response
  | Report ResponseBody
  | Dropped

text \<open>A handler's outcome as an HTTP response; a panic ends the connection.\<close>

definition http_answer :: "('a \<Rightarrow> answer) \<Rightarrow> ('e \<Rightarrow> response) \<Rightarrow> ('a, 'e) handler \<Rightarrow> world \<Rightarrow> answer \<times> world" where
  "http_answer ok err m w =
     (case m w of
        (Inr x, w') \<Rightarrow> (ok x, w')
      | (Inl (Failure e), w') \<Rightarrow> (Answer (err e), w')
      | (Inl Panicked, w') \<Rightarrow> (Dropped, w'))"

definition project_handler :: "env \<Rightarrow> string \<Rightarrow> project_request \<Rightarrow> world \<Rightarrow> answer \<times> world" where
  "project_handler E project_id req =
     (case req of
        Subscribe_topic app_domain \<Rightarrow> http_answer Answer into_response (subscribe_topic_handler E project_id app_domain)
      | Subscribers_v0 \<Rightarrow> http_answer Answer into_response (get_subscribers_v0_handler E project_id)
      | Subscribers_v1 accounts \<Rightarrow> http_answer Answer into_response (get_subscribers_v1_handler E project_id accounts)
      | Notify_v0 b \<Rightarrow> http_answer Report into_response (notify_v0_handler E project_id b)
      | Notify_v1 bs \<Rightarrow> http_answer Report into_response (notify_v1_handler_impl E project_id bs)
      | Get_welcome \<Rightarrow> http_answer Answer into_response (get_welcome_notification_handler E project_id)
      | Post_welcome welcome \<Rightarrow> http_answer Answer into_response (post_welcome_notification_handler E project_id welcome)
      | Mark_all_as_read \<Rightarrow> http_answer Answer into_response (mark_all_as_read_handler E project_id))"

section \<open>The server\<close>

record server =
  sv_world :: world
  sv_registry :: registry_cache
  sv_renewal :: renewal

text \<open>The extractors run first: the project's secret, then the body.\<close>

definition serve_project ::
  "env \<Rightarrow> registry_http \<Rightarrow> (string \<Rightarrow> string option) option \<Rightarrow> string option \<Rightarrow> (project_request, nat) result
     \<Rightarrow> server \<Rightarrow> answer \<times> server" where
  "serve_project E registry path_args bearer body s =
     (case from_request_parts (en_ext E) (en_now E) registry path_args bearer (if en_redis E then Some (sv_registry s) else None) of
        (auth, cache) \<Rightarrow>
          let s = (case cache of None \<Rightarrow> s | Some c \<Rightarrow> s\<lparr> sv_registry := c \<rparr>) in
          (case auth of
             Inl status \<Rightarrow> (Rejected status, s)
           | Inr (project_id, secret) \<Rightarrow>
               (case body of
                  Inl status \<Rightarrow> (Rejected status, s)
                | Inr req \<Rightarrow>
                    if \<not> list_all (valid_account (en_ext E)) (request_accounts req) then (Rejected 422, s)
                    else (case project_handler E project_id req (sv_world s) of
                            (a, w) \<Rightarrow> (a, s\<lparr> sv_world := w \<rparr>)))))"

definition webhook_into_response :: "(ClientError \<Rightarrow> string) \<Rightarrow> webhook_error \<Rightarrow> response" where
  "webhook_into_response text e =
     (case e of
        WebhookClient c \<Rightarrow> \<lparr> r_status = 422, r_body = ErrorJson (Message (text c)) \<rparr>
      | WebhookServer s \<Rightarrow> \<lparr> r_status = 500, r_body = ErrorJson (Message ''Internal server error'') \<rparr>)"

datatype event =
    Project_request registry_http "(string \<Rightarrow> string option) option" "string option" "(project_request, nat) result"
  | Follow_link "string \<Rightarrow> bool" "(IpAddr \<Rightarrow> (geo_data, string) result) option" link_headers uuid
  | Relay_event "string \<Rightarrow> (WatchEventClaims, string) result" "WatchEventClaims \<Rightarrow> string \<Rightarrow> (unit, string) result"
      "string list" "ClientError \<Rightarrow> string"
  | Publisher_turn "subscriber_notification_row list \<Rightarrow> subscriber_notification_row" "bool option" datetime
  | Watcher_expiration
  | Dead_letters
  | Relay_renewal "WatchRegisterRequest \<Rightarrow> (unit, string) result"

text \<open>What is done on the database and Redis alone; the workers and the jobs answer nobody.\<close>

definition serve_world :: "env \<Rightarrow> event \<Rightarrow> world \<Rightarrow> answer option \<times> world" where
  "serve_world E ev w =
     (case ev of
        Follow_link redirect_ok resolver headers notification \<Rightarrow>
          apfst Some (http_answer Answer into_response (notification_link_handler E redirect_ok resolver headers notification) w)
      | Relay_event try_from_str verify_basic event_auth text \<Rightarrow>
          apfst Some (http_answer Answer (webhook_into_response text) (webhook_handler E try_from_str verify_basic event_auth) w)
      | Publisher_turn pick elapsed done_at \<Rightarrow>
          (None, snd (process_next \<lparr> tn_pick = pick, tn_env = E, tn_elapsed = elapsed, tn_done = done_at \<rparr> w))
      | Watcher_expiration \<Rightarrow> (None, snd (watcher_expiration_job E w))
      | Dead_letters \<Rightarrow> (None, snd (dead_letters_job E w))
      | _ \<Rightarrow> (None, w))"

definition serve :: "env \<Rightarrow> event \<Rightarrow> server \<Rightarrow> answer option \<times> server" where
  "serve E ev s =
     (case ev of
        Project_request registry path_args bearer body \<Rightarrow>
          apfst Some (serve_project E registry path_args bearer body s)
      | Relay_renewal watch_register \<Rightarrow>
          (case relay_renewal_job E watch_register (sv_renewal s) (sv_world s) of
             (Inr r, w) \<Rightarrow> (None, s\<lparr> sv_renewal := r \<rparr>)
           | (Inl e, w) \<Rightarrow> (None, s))
      | _ \<Rightarrow> (case serve_world E ev (sv_world s) of (a, w) \<Rightarrow> (a, s\<lparr> sv_world := w \<rparr>)))"

text \<open>The steps of the server with the libraries \<open>X\<close>: an event, or progress of a renewal in the background.\<close>

inductive server_step :: "ext \<Rightarrow> server \<Rightarrow> server \<Rightarrow> bool" for X where
  event: "en_ext E = X \<Longrightarrow> server_step X s (snd (serve E ev s))"
| renewal: "renewal_step k (w_db (sv_world s), sv_renewal s) (w_db (sv_world s), r) \<Longrightarrow> server_step X s (s\<lparr> sv_renewal := r \<rparr>)"

abbreviation sv_db :: "server \<Rightarrow> db" where
  "sv_db s \<equiv> w_db (sv_world s)"

section \<open>What every step keeps\<close>

lemma http_answer_keeps: "db_keeps I m \<Longrightarrow> I (w_db w) \<Longrightarrow> I (w_db (snd (http_answer ok err m w)))"
  using db_keepsD [of I m w] by (auto simp: http_answer_def split: prod.splits sum.splits failure.splits)

lemma keeps_follow_link [keeps_intros]: "db_keeps I (notification_link_handler E redirect_ok resolver headers n)"
  unfolding notification_link_handler_def link_rate_limit_def Let_def
  by (rule keeps_bind, intro keeps_intros)+ (auto split: option.split intro!: keeps_intros)

lemma keeps_notify_rate [keeps_intros]: "db_keeps I (limit_subscribers E p valid resp)"
  unfolding limit_subscribers_def
  by (intro keeps_intros) (simp add: db_keeps_def subscriber_rate_limit_def split: prod.splits)

lemma keeps_ask [keeps_intros]: "db_keeps I (\<lambda>w. h_expect (f (w_db w)) w)"
  by (auto simp: db_keeps_def h_defs split: option.splits)

context rows_contract
begin

lemma project_handlers_keep:
  assumes "en_ext E = X"
  shows "db_keeps I (subscribe_topic_handler E project_id app_domain)"
    and "db_keeps I (get_subscribers_v0_handler E project_id)"
    and "db_keeps I (get_subscribers_v1_handler E project_id accounts)"
    and "db_keeps I (notify_v1_handler_impl E project_id bs)"
    and "db_keeps I (get_welcome_notification_handler E project_id)"
    and "db_keeps I (post_welcome_notification_handler E project_id wel)"
    and "db_keeps I (mark_all_as_read_handler E project_id)"
proof -
  note rates = subscribe_topic_rate_limit_def get_subscribers_v0_rate_limit_def get_subscribers_v1_rate_limit_def
    get_welcome_notification_rate_limit_def post_welcome_notification_rate_limit_def mark_all_as_read_rate_limit_def
    notify_rate_limit_def
  show "db_keeps I (subscribe_topic_handler E project_id app_domain)"
    unfolding subscribe_topic_handler_def rates Let_def by (intro keeps_intros rows_keep assms)
  show "db_keeps I (get_subscribers_v0_handler E project_id)" "db_keeps I (get_subscribers_v1_handler E project_id accounts)"
    "db_keeps I (get_welcome_notification_handler E project_id)"
    unfolding get_subscribers_v0_handler_def get_subscribers_v1_handler_def get_welcome_notification_handler_def rates
    by (intro keeps_intros)+
  show "db_keeps I (post_welcome_notification_handler E project_id wel)" "db_keeps I (mark_all_as_read_handler E project_id)"
    unfolding post_welcome_notification_handler_def mark_all_as_read_handler_def rates
    by (intro keeps_intros rows_keep)+
  have "db_keeps I (notify_one E project_id p resp b)" for p resp b
    unfolding notify_one_def by (intro keeps_intros rows_keep)
  then show "db_keeps I (notify_v1_handler_impl E project_id bs)"
    unfolding notify_v1_handler_impl_def rates Let_def by (intro keeps_intros)
qed

lemma project_handler_keeps:
  assumes "en_ext E = X" "I (w_db w)"
  shows "I (w_db (snd (project_handler E project_id req w)))"
  using assms(2)
  by (cases req) (auto simp: project_handler_def notify_v0_handler_def intro!: http_answer_keeps project_handlers_keep [OF assms(1)])

lemma serve_project_keeps:
  assumes "en_ext E = X" "I (sv_db s)"
  shows "I (sv_db (snd (serve_project E registry path_args bearer body s)))"
  using assms(2) project_handler_keeps [OF assms(1), of "sv_world s"]
  by (auto simp: serve_project_def Let_def split: prod.splits sum.splits option.splits) (metis snd_conv)+

lemma process_next_keeps:
  assumes "en_ext (tn_env T) = X"
  shows "db_keeps I (process_next T)"
  unfolding db_keeps_def
proof (intro allI impI)
  fix w :: world assume w: "I (w_db w)"
  have status: "db_keeps I (h_exec id (\<lambda>d. map_ok (Pair True)
      (case r of Some (Inr _) \<Rightarrow> update_message_processing_status now n Published d
       | _ \<Rightarrow> update_message_status_queued_or_failed now n created give_up d)))"
    for r :: "(unit, ProcessNotificationError) result option" and now n created give_up
    by (rule keeps_exec) (auto simp: map_ok_Inr_iff update_message_status_queued_or_failed_def
        intro: update_status split: option.splits sum.splits if_splits)
  obtain result d where p: "pick_subscriber_notification_for_processing X (tn_pick T) (en_now (tn_env T)) (w_db w) = (result, d)"
    by force
  then have d: "I d" using pick_row [OF w] by (metis snd_conv)
  show "I (w_db (snd (process_next T w)))"
    unfolding process_next_def assms p prod.case
    by (rule db_keepsD [where w = "w\<lparr> w_db := d \<rparr>"]) (intro keeps_intros keeps_case_option status, simp add: d)
qed

text \<open>What is not a message of the relay.\<close>

lemma serve_rest_keeps:
  assumes "en_ext E = X" "I (sv_db s)" "\<And>t v es x. ev \<noteq> Relay_event t v es x"
  shows "I (sv_db (snd (serve E ev s)))"
proof -
  have turn: "db_keeps I (process_next T)" if "en_ext (tn_env T) = X" for T
    by (rule process_next_keeps [OF that])
  show ?thesis
  proof (cases ev)
    case (Relay_renewal reg)
    then show ?thesis using assms(2) by (auto simp: serve_def split: prod.splits sum.splits)
  next
    case (Follow_link ok resolver headers n)
    then show ?thesis
      using http_answer_keeps [OF keeps_follow_link, of I "sv_world s"] assms(2)
      by (simp add: serve_def serve_world_def case_prod_beta)
  next
    case (Publisher_turn pick elapsed done_at)
    then show ?thesis
      using db_keepsD [OF turn, of "\<lparr> tn_pick = pick, tn_env = E, tn_elapsed = elapsed, tn_done = done_at \<rparr>" "sv_world s"] assms(1,2)
      by (simp add: serve_def serve_world_def)
  qed (use assms in \<open>auto simp: serve_def serve_world_def serve_project_keeps watcher_expiration_job_def dead_letters_job_def
      case_prod_beta intro: expire_watchers requeue_dead\<close>)
qed

end

text \<open>A message of the relay changes the database only through its handler.\<close>

definition by_handler :: "env \<Rightarrow> ('a, 'e) handler \<Rightarrow> bool" where
  "by_handler E m \<longleftrightarrow> (\<forall>w. w_db (snd (m w)) = w_db w \<or> (\<exists>msg. w_db (snd (m w)) = w_db (snd (handle_by_tag E msg w))))"

lemma by_handler_bind_pure:
  assumes "\<And>w. snd (m w) = w" "\<And>x. by_handler E (f x)"
  shows "by_handler E (h_bind m f)"
  unfolding by_handler_def
proof
  fix w
  obtain r where "m w = (r, w)" using assms(1) [of w] by (metis prod.collapse)
  then show "w_db (snd (h_bind m f w)) = w_db w \<or> (\<exists>msg. w_db (snd (h_bind m f w)) = w_db (snd (handle_by_tag E msg w)))"
    using assms(2) unfolding by_handler_def by (cases r) (simp_all add: h_bind_def)
qed

lemma world_after_return: "snd (h_bind m (\<lambda>x. h_return (g x)) w) = snd (m w)"
  by (simp add: h_bind_def h_return_def split: prod.splits sum.splits)

lemma by_handler_return: "by_handler E m \<Longrightarrow> by_handler E (h_bind m (\<lambda>x. h_return (g x)))"
  by (simp add: by_handler_def world_after_return)

lemma by_handler_msg: "by_handler E (h_map_err g (handle_msg E msg))"
proof -
  have "w_db (snd (handle_msg E msg w)) = w_db (snd (handle_by_tag E msg w))" for w
    by (auto simp: handle_msg_def h_bind_def h_try_def h_return_def h_fail_def
        split: prod.splits sum.splits failure.splits RelayMessageError.splits)
  then show ?thesis unfolding by_handler_def same_world by blast
qed

lemma webhook_by_handler: "by_handler E (webhook_handler E try_from_str verify_basic events)"
proof -
  have pure: "snd (h_guard b e w) = w" "snd (h_lift g r w) = w" for b e w g r
    by (auto simp: h_defs split: sum.splits)
  have "by_handler E (\<lambda>w. (Inr (), w\<lparr> w_receipts := w_receipts w @ [(t, i)] \<rparr>))" for t i
    by (simp add: by_handler_def)
  then show ?thesis
    unfolding webhook_handler_def
    by (intro by_handler_bind_pure pure by_handler_return) (auto intro!: by_handler_bind_pure pure by_handler_msg)
qed

lemma webhook_db:
  assumes "webhook_handler E try_from_str verify_basic events w = (r, w')"
  shows "w_db w' = w_db w \<or> (\<exists>msg r1 w1. handle_by_tag E msg w = (r1, w1) \<and> w_db w' = w_db w1)"
  using webhook_by_handler [of E try_from_str verify_basic events] assms unfolding by_handler_def
  by (metis prod.collapse snd_conv)

section \<open>Runs of the server\<close>

lemma serve_keeps_wf:
  assumes "en_ext E = X" "wf_db X (sv_db s)"
  shows "wf_db X (sv_db (snd (serve E ev s)))"
proof (cases "\<exists>t v es x. ev = Relay_event t v es x")
  case True
  then show ?thesis
    using http_answer_keeps [OF schema.webhook_keeps [OF assms(1)], of "sv_world s"] assms(2)
    by (auto simp: serve_def serve_world_def case_prod_beta)
next
  case False
  then show ?thesis using schema.serve_rest_keeps [OF assms] by blast
qed

interpretation server: transition_system "\<lambda>s. wf_db X (sv_db s)" "server_step X" "\<lambda>s. wf_db X (sv_db s)" for X
  by unfold_locales (auto elim!: server_step.cases simp: serve_keeps_wf)

text \<open>
  C9. The schema holds at all times. Whatever requests, messages of the relay, turns of workers and runs
  of jobs come, in whatever order and however the relay, the registry and the clock behave, a
  database that satisfies the constraints of the schema (unique and foreign keys, validated accounts,
  the enumerations) satisfies them after every step.
\<close>

theorem server_keeps_schema:
  assumes "(server_step X)\<^sup>*\<^sup>* s t" "wf_db X (sv_db s)"
  shows "wf_db X (sv_db t)"
  using server.steps_inv [OF assms] .

lemma server_step_command:
  assumes "server_step X s t" "wf_db X (sv_db s)" "uuid_laws X"
  shows "subscriptions X (sv_db t) = subscriptions X (sv_db s) \<or>
    (\<exists>E tag c. en_ext E = X \<and> signed_command E (sv_world s) tag c \<and>
       subscriptions X (sv_db t) = apply_command c (subscriptions X (sv_db s)))"
  using assms(1)
proof cases
  case (event E ev)
  show ?thesis
  proof (cases "\<exists>p v es x. ev = Relay_event p v es x")
    case True
    then obtain p v es x where ev: "ev = Relay_event p v es x" by blast
    obtain r w where h: "webhook_handler E p v es (sv_world s) = (r, w)" by force
    have db: "sv_db t = w_db w"
      by (simp add: event(1) ev serve_def serve_world_def http_answer_def h case_prod_beta split: sum.splits failure.splits)
    from webhook_db [OF h] show ?thesis
    proof (elim disjE exE conjE)
      fix msg r1 w1 assume m: "handle_by_tag E msg (sv_world s) = (r1, w1)" "w_db w = w_db w1"
      from handle_by_tag_command [OF _ _ m(1)] assms(2,3) show ?thesis
        using event(2) db m(2) by auto
    qed (simp add: db)
  next
    case False
    then show ?thesis
      using frame.serve_rest_keeps [of E X s "subscriptions X (sv_db s)" ev] event by blast
  qed
qed simp

text \<open>
  C1. Only clients change subscriptions. Over any run of the server the map from (project, address) to
  notification types changes by the commands of some list, one after the other; each was carried, at
  some state of the run, by a verified JWT whose key was then authorized for that address and that
  project's app. Projects, workers, jobs and the relay itself cannot change it.
\<close>

theorem server_refines_subscriptions:
  assumes "(server_step X)\<^sup>*\<^sup>* s t" "wf_db X (sv_db s)" "uuid_laws X"
  shows "\<exists>cs. subscriptions X (sv_db t) = fold apply_command cs (subscriptions X (sv_db s)) \<and>
    (\<forall>c \<in> set cs. \<exists>E u tag. en_ext E = X \<and> (server_step X)\<^sup>*\<^sup>* s u \<and> (server_step X)\<^sup>*\<^sup>* u t \<and>
       signed_command E (sv_world u) tag c)"
  using assms(1)
proof (induction rule: rtranclp_induct)
  case base
  show ?case by (intro exI [of _ "[]"]) simp
next
  case (step u t)
  then obtain cs where cs: "subscriptions X (sv_db u) = fold apply_command cs (subscriptions X (sv_db s))"
    "\<forall>c \<in> set cs. \<exists>E v tag. en_ext E = X \<and> (server_step X)\<^sup>*\<^sup>* s v \<and> (server_step X)\<^sup>*\<^sup>* v u \<and> signed_command E (sv_world v) tag c"
    by blast
  then have old: "\<forall>c \<in> set cs. \<exists>E v tag. en_ext E = X \<and> (server_step X)\<^sup>*\<^sup>* s v \<and> (server_step X)\<^sup>*\<^sup>* v t \<and> signed_command E (sv_world v) tag c"
    using step.hyps(2) rtranclp.rtrancl_into_rtrancl by metis
  have "wf_db X (sv_db u)" using server.steps_inv [OF step.hyps(1) assms(2)] .
  from server_step_command [OF step.hyps(2) this assms(3)] show ?case
  proof (elim disjE exE conjE)
    fix E tag c
    assume "en_ext E = X" "signed_command E (sv_world u) tag c"
      "subscriptions X (sv_db t) = apply_command c (subscriptions X (sv_db u))"
    then show ?thesis
      using cs(1) old step.hyps by (intro exI [of _ "cs @ [c]"]) (auto intro: r_into_rtranclp)
  qed (use cs(1) old in auto)
qed

section \<open>Requests of projects\<close>

lemma project_handlers_panic_free:
  fixes E :: env
  defines "I \<equiv> wf_db (en_ext E)"
  shows "panic_free I (subscribe_topic_handler E project_id app_domain)"
    and "panic_free I (get_subscribers_v0_handler E project_id)"
    and "list_all (valid_account (en_ext E)) accounts \<Longrightarrow> panic_free I (get_subscribers_v1_handler E project_id accounts)"
    and "panic_free I (get_welcome_notification_handler E project_id)"
    and "panic_free I (post_welcome_notification_handler E project_id wel)"
    and "panic_free I (mark_all_as_read_handler E project_id)"
proof -
  note rates = subscribe_topic_rate_limit_def get_subscribers_v0_rate_limit_def get_subscribers_v1_rate_limit_def
    get_welcome_notification_rate_limit_def post_welcome_notification_rate_limit_def mark_all_as_read_rate_limit_def
  show "panic_free I (subscribe_topic_handler E project_id app_domain)"
    unfolding subscribe_topic_handler_def rates Let_def I_def
    by (intro panic_free_bind panic_intros schema.statements_panic_free(1) refl)
  show "panic_free I (get_subscribers_v0_handler E project_id)" "panic_free I (get_welcome_notification_handler E project_id)"
    unfolding get_subscribers_v0_handler_def get_welcome_notification_handler_def rates
    by (intro panic_free_bind panic_intros)+
  show "panic_free I (post_welcome_notification_handler E project_id wel)" "panic_free I (mark_all_as_read_handler E project_id)"
    unfolding post_welcome_notification_handler_def mark_all_as_read_handler_def rates I_def
    by (intro panic_free_bind panic_intros schema.statements_panic_free(9) [where E = E, OF refl]
        schema.statements_panic_free(10) [where E = E, OF refl])+
  assume "list_all (valid_account (en_ext E)) accounts"
  then have "get_subscribers_by_project_id_and_accounts (en_ext E) project_id accounts d \<noteq> None" for d :: db
    by (simp add: get_subscribers_by_project_id_and_accounts_def lower_addresses_valid)
  then have "panic_free I (\<lambda>w. h_expect (get_subscribers_by_project_id_and_accounts (en_ext E) project_id accounts (w_db w)) w)"
    by (auto simp: panic_free_def h_defs split: option.splits) (metis option.distinct(1))
  then show "panic_free I (get_subscribers_v1_handler E project_id accounts)"
    unfolding get_subscribers_v1_handler_def rates by (intro panic_free_bind panic_intros)
qed

lemma http_answer_panic_free:
  assumes "panic_free I m" "I (w_db w)" "\<And>x. ok x \<noteq> Dropped"
  shows "fst (http_answer ok err m w) \<noteq> Dropped"
  using panic_freeD(1) [OF assms(1,2)] assms(3)
  by (auto simp: http_answer_def split: prod.splits sum.splits failure.splits)

lemma project_handler_answers:
  assumes "wf_db (en_ext E) (w_db w)" "list_all (valid_account (en_ext E)) (request_accounts req)"
  shows "fst (project_handler E project_id req w) \<noteq> Dropped"
proof -
  note answers = http_answer_panic_free [where I = "wf_db (en_ext E)", OF _ assms(1)]
  show ?thesis
  proof (cases req)
    case (Notify_v0 b)
    then show ?thesis
      using assms(2) answers [OF notify_v1_panic_free [of "[b]"]] by (simp add: project_handler_def notify_v0_handler_def)
  next
    case (Notify_v1 bs)
    then show ?thesis
      using assms(2) answers [OF notify_v1_panic_free [of bs]] by (auto simp: project_handler_def list_all_iff)
  next
    case (Subscribers_v1 accounts)
    then show ?thesis
      using assms(2) answers [OF project_handlers_panic_free(3)] by (simp add: project_handler_def)
  qed (simp_all add: project_handler_def answers [OF project_handlers_panic_free(1)] answers [OF project_handlers_panic_free(2)]
      answers [OF project_handlers_panic_free(4)] answers [OF project_handlers_panic_free(5)]
      answers [OF project_handlers_panic_free(6)])
qed

text \<open>A request is turned away, or its project was authenticated and its handler ran.\<close>

lemma serve_project_cases:
  assumes "serve E (Project_request registry path_args bearer body) s = (a, s')"
  obtains (same) status where "sv_world s' = sv_world s" "sv_renewal s' = sv_renewal s" "a = Some (Rejected status)"
  | (handled) args project_id secret cache req a' where "path_args = Some args" "args ''project_id'' = Some project_id"
      "bearer = Some secret" "is_authenticated (en_ext E) (en_now E) registry project_id secret (if en_redis E then Some (sv_registry s) else None) = (Inr True, cache)"
      "body = Inr req" "list_all (valid_account (en_ext E)) (request_accounts req)" "a = Some a'"
      "project_handler E project_id req (sv_world s) = (a', sv_world s')" "sv_renewal s' = sv_renewal s"
proof -
  let ?c = "if en_redis E then Some (sv_registry s) else None"
  obtain auth cache where auth: "from_request_parts (en_ext E) (en_now E) registry path_args bearer ?c = (auth, cache)" by force
  have srv: "sv_world (case cache of None \<Rightarrow> s | Some c \<Rightarrow> s\<lparr> sv_registry := c \<rparr>) = sv_world s"
    "sv_renewal (case cache of None \<Rightarrow> s | Some c \<Rightarrow> s\<lparr> sv_registry := c \<rparr>) = sv_renewal s"
    by (auto split: option.splits)
  show thesis
  proof (cases auth)
    case (Inl status)
    then show ?thesis
      using assms auth srv by (intro same [of status]) (auto simp: serve_def serve_project_def Let_def)
  next
    case (Inr ps)
    obtain project_id secret where ps: "ps = (project_id, secret)" by force
    obtain args where parts: "path_args = Some args" "args ''project_id'' = Some project_id" "bearer = Some secret"
        "is_authenticated (en_ext E) (en_now E) registry project_id secret ?c = (Inr True, cache)"
      using auth unfolding Inr ps from_request_parts_def
      by (auto split: option.splits prod.splits sum.splits bool.splits)
    show ?thesis
    proof (cases "\<exists>req. body = Inr req \<and> list_all (valid_account (en_ext E)) (request_accounts req)")
      case True
      then obtain req where req: "body = Inr req" "list_all (valid_account (en_ext E)) (request_accounts req)" by blast
      obtain a' w' where h: "project_handler E project_id req (sv_world s) = (a', w')" by force
      have "a = Some a'" "sv_world s' = w'" "sv_renewal s' = sv_renewal s"
        using assms auth Inr ps req h srv by (auto simp: serve_def serve_project_def Let_def)
      then show ?thesis using handled [OF parts req] h by simp
    next
      case False
      then have "sv_world s' = sv_world s \<and> sv_renewal s' = sv_renewal s \<and> (\<exists>n. a = Some (Rejected n))"
        using assms auth Inr ps srv by (auto simp: serve_def serve_project_def Let_def split: sum.splits if_splits)
      then show ?thesis using same by blast
    qed
  qed
qed

text \<open>
  C6. The requests of projects. Every request to an endpoint of projects is answered, none ends in a
  panic, whatever its body holds. And nothing but the cache of the registry's answers changes (no
  row, no rate limit, no message) unless the request names a project in its path and carries a bearer
  token that the registry, or its cache, has accepted for that project, and its body was accepted.
\<close>

theorem project_requests_answered:
  assumes "wf_db (en_ext E) (sv_db s)" "serve E (Project_request registry path_args bearer body) s = (a, s')"
  shows "a \<noteq> Some Dropped \<and> sv_renewal s' = sv_renewal s \<and>
    (sv_world s' = sv_world s \<or>
     (\<exists>args project_id secret cache req. path_args = Some args \<and> args ''project_id'' = Some project_id \<and> bearer = Some secret \<and>
        is_authenticated (en_ext E) (en_now E) registry project_id secret (if en_redis E then Some (sv_registry s) else None) = (Inr True, cache) \<and>
        body = Inr req \<and> (a, sv_world s') = apfst Some (project_handler E project_id req (sv_world s))))"
  using assms(2)
proof (cases rule: serve_project_cases)
  case (handled args project_id secret cache req a')
  then show ?thesis using project_handler_answers [OF assms(1) handled(6), of project_id] by auto
qed simp

section \<open>Witnesses\<close>

definition server_demo :: "db \<Rightarrow> server" where
  "server_demo d = \<lparr> sv_world = world_demo d, sv_registry = Map.empty, sv_renewal = renewal_init \<rparr>"

definition client_event :: event where
  "client_event = Relay_event (\<lambda>s. Inr \<lparr> wec_iss = ''relay'', wec_act = WatchEvent, wec_typ = Subscriber_watch,
      wec_status = Accepted, wec_topic = rm_topic client_message, wec_message_id = 1, wec_message = rm_message client_message,
      wec_tag = NOTIFY_DELETE_TAG \<rparr>) (\<lambda>c u. Inr ()) [''jwt''] (\<lambda>e. ''error'')"

lemma client_event_served:
  "\<exists>w'. delete_handle env_client client_message (world_demo demo_db8) = (Inr (), w') \<and>
     snd (serve env_client client_event (server_demo demo_db8)) = (server_demo demo_db8)\<lparr> sv_world := w' \<rparr>"
proof -
  obtain w' where w': "delete_handle env_client client_message (world_demo demo_db8) = (Inr (), w')"
    using client_deletes by blast
  have m: "incoming_message env_client \<lparr> wec_iss = ''relay'', wec_act = WatchEvent, wec_typ = Subscriber_watch,
      wec_status = Accepted, wec_topic = rm_topic client_message, wec_message_id = 1, wec_message = rm_message client_message,
      wec_tag = NOTIFY_DELETE_TAG \<rparr> = client_message"
    by (simp add: incoming_message_def client_message_def env_client_def ext_client_def env_demo_def ext_demo_def)
  have "handle_msg env_client client_message (world_demo demo_db8) = (Inr (), w')"
    using w' by (simp add: handle_msg_def handle_by_tag_def client_message_def NOTIFY_DELETE_TAG_def NOTIFY_SUBSCRIBE_TAG_def
        h_bind_def h_try_def h_return_def)
  moreover have "en_relay_identity env_client = ''relay''" by (simp add: env_client_def env_demo_def)
  ultimately have "webhook_handler env_client (\<lambda>s. Inr \<lparr> wec_iss = ''relay'', wec_act = WatchEvent, wec_typ = Subscriber_watch,
      wec_status = Accepted, wec_topic = rm_topic client_message, wec_message_id = 1, wec_message = rm_message client_message,
      wec_tag = NOTIFY_DELETE_TAG \<rparr>) (\<lambda>c u. Inr ()) [''jwt''] (world_demo demo_db8) = (Inr \<lparr> r_status = 204, r_body = Empty \<rparr>, w')"
    by (simp add: webhook_handler_def h_bind_def h_guard_def h_lift_def h_return_def h_map_err_def m)
  then show ?thesis
    using w' by (simp add: serve_def serve_world_def client_event_def http_answer_def server_demo_def)
qed

lemma client_deleted:
  assumes "delete_handle env_client client_message (world_demo demo_db8) = (Inr (), w')"
  shows "w_db w' = delete_subscriber 7 demo_db8"
proof -
  obtain jwt ws w2 where inner: "delete_inner env_client client_message client_opened (world_demo demo_db8) = (Inr (jwt, ws), w2)"
    using client_inner by blast
  from assms inner have "respond_and_tell env_client client_message (to_sym_key client_opened) (rm_topic client_message)
      NOTIFY_DELETE_RESPONSE_TAG NOTIFY_DELETE_RESPONSE_TTL (rq_id (to_req client_opened)) (Inr (jwt, ws)) w2 = (Inr (), w')"
    by (simp add: delete_handle_def h_bind_def h_try_def client_open client_opened_def [symmetric])
  from unchanged [OF keeps_respond(1) this] delete_inner_ok(1) [OF inner] show ?thesis
    by (simp add: client_parts world_demo_def)
qed

lemma client_run:
  "\<exists>t. (server_step ext_client)\<^sup>*\<^sup>* (server_demo demo_db8) t \<and> subscribers (sv_db t) = [] \<and> subscribers demo_db8 \<noteq> []"
proof -
  obtain w' where w': "delete_handle env_client client_message (world_demo demo_db8) = (Inr (), w')"
    "snd (serve env_client client_event (server_demo demo_db8)) = (server_demo demo_db8)\<lparr> sv_world := w' \<rparr>"
    using client_event_served by blast
  then have "server_step ext_client (server_demo demo_db8) ((server_demo demo_db8)\<lparr> sv_world := w' \<rparr>)"
    using server_step.event [OF client_parts(8), of "server_demo demo_db8" client_event] by simp
  moreover have "subscribers (w_db w') = []"
    using client_deleted [OF w'(1)] by (simp add: delete_subscriber_def demo_db8_def demo_db6_defs)
  ultimately show ?thesis by (intro exI conjI r_into_rtranclp) (auto simp: demo_db8_def demo_db6_def)
qed

lemma wf_server_demo: "wf_db ext_client (sv_db (server_demo demo_db8))"
  using wf_demo_db8 by (simp add: server_demo_def world_demo_def)

theorem server_keeps_schema_witness:
  "\<exists>t. (server_step ext_client)\<^sup>*\<^sup>* (server_demo demo_db8) t \<and> subscribers (sv_db t) = [] \<and> wf_db ext_client (sv_db t)"
  using client_run server_keeps_schema [OF _ wf_server_demo] by blast

theorem server_refines_subscriptions_witness:
  "\<exists>t c cs. (server_step ext_client)\<^sup>*\<^sup>* (server_demo demo_db8) t \<and>
     subscriptions ext_client (sv_db t) = fold apply_command (c # cs) (subscriptions ext_client demo_db8)"
proof -
  obtain t where t: "(server_step ext_client)\<^sup>*\<^sup>* (server_demo demo_db8) t" "subscribers (sv_db t) = []" "subscribers demo_db8 \<noteq> []"
    using client_run by blast
  have d: "sv_db (server_demo demo_db8) = demo_db8" by (simp add: server_demo_def world_demo_def)
  from server_refines_subscriptions [OF t(1) wf_server_demo laws_client(2)] obtain cs where
    cs: "subscriptions ext_client (sv_db t) = fold apply_command cs (subscriptions ext_client demo_db8)"
    unfolding d by blast
  have "subscriptions ext_client (sv_db t) \<noteq> subscriptions ext_client demo_db8"
  proof -
    obtain s ss where "subscribers demo_db8 = s # ss" using t(3) by (cases "subscribers demo_db8") auto
    then have "subscriptions ext_client demo_db8 (s_index s) \<noteq> None" by (simp add: subscriptions_def)
    moreover have "subscriptions ext_client (sv_db t) (s_index s) = None" using t(2) by (simp add: subscriptions_def)
    ultimately show ?thesis by metis
  qed
  with cs have "cs \<noteq> []" by auto
  with cs t(1) show ?thesis by (metis neq_Nil_conv)
qed

theorem project_requests_answered_witness:
  "fst (serve env_demo (Project_request (\<lambda>p k. Inr (200, Inr False)) (Some [''project_id'' \<mapsto> ''prj'']) (Some ''wrong'')
     (Inr (Subscribe_topic ''other.example''))) (server_demo demo_db6)) \<noteq> Some Dropped \<and>
   sv_world (snd (serve env_demo (Project_request (\<lambda>p k. Inr (200, Inr False)) (Some [''project_id'' \<mapsto> ''prj'']) (Some ''wrong'')
     (Inr (Subscribe_topic ''other.example''))) (server_demo demo_db6))) = world_demo demo_db6"
proof -
  let ?ev = "Project_request (\<lambda>p k. Inr (200, Inr False)) (Some [''project_id'' \<mapsto> ''prj'']) (Some ''wrong'')
    (Inr (Subscribe_topic ''other.example''))"
  have "wf_db (en_ext env_demo) (sv_db (server_demo demo_db6))"
    using wf_demo_db6 by (simp add: server_demo_def world_demo_def env_demo_def)
  moreover obtain a s' where s': "serve env_demo ?ev (server_demo demo_db6) = (a, s')" by force
  ultimately have "a \<noteq> Some Dropped \<and> (sv_world s' = world_demo demo_db6 \<or>
      (\<exists>cache. is_authenticated (en_ext env_demo) (en_now env_demo) (\<lambda>p k. Inr (200, Inr False)) ''prj'' ''wrong'' None = (Inr True, cache)))"
    using project_requests_answered [of env_demo "server_demo demo_db6" "\<lambda>p k. Inr (200, Inr False)" "Some [''project_id'' \<mapsto> ''prj'']"
        "Some ''wrong''" "Inr (Subscribe_topic ''other.example'')" a s']
    by (auto simp: server_demo_def env_demo_def)
  then show ?thesis using s' by (simp add: is_authenticated_def authenticate_def Let_def)
qed

end
