(* ===== verification/Isolation.thy ===== *)
theory Isolation
  imports Server
begin

text \<open>
  One project's requests do not touch the rows of another: the part of the database that belongs to a
  project, and what the handlers behind \<open>AuthedProjectId\<close> can do to it.
\<close>

text \<open>
  The rows of a project: its own, its welcome notification, its subscribers and their scopes, its
  watchers, its notifications and their deliveries.
\<close>

definition project_part :: "uuid \<Rightarrow> db \<Rightarrow> db" where
  "project_part i d = \<lparr> projects = filter (\<lambda>p. p_id p = i) (projects d),
     subscribers = filter (\<lambda>s. s_project s = i) (subscribers d),
     scopes = filter (\<lambda>c. sc_subscriber c \<in> s_id ` {s \<in> set (subscribers d). s_project s = i}) (scopes d),
     watchers = filter (\<lambda>w. w_project w = Some i) (watchers d),
     notifications = filter (\<lambda>n. n_project n = i) (notifications d),
     subscriber_notifications = filter (\<lambda>r. sn_notification r \<in> n_id ` {n \<in> set (notifications d). n_project n = i})
       (subscriber_notifications d),
     welcome_notifications = filter (\<lambda>w. wn_project w = i) (welcome_notifications d),
     delivery_channel = [] \<rparr>"

text \<open>What is kept while a request for another project runs: the schema, the project and its part.\<close>

definition part_kept :: "ext \<Rightarrow> project_row \<Rightarrow> db \<Rightarrow> db \<Rightarrow> bool" where
  "part_kept X q A d \<longleftrightarrow> wf_db X d \<and> q \<in> set (projects d) \<and> project_part (p_id q) d = A"

lemma part_keptD: "part_kept X q A d \<Longrightarrow> wf_db X d" "part_kept X q A d \<Longrightarrow> q \<in> set (projects d)"
  by (simp_all add: part_kept_def)

lemma filter_update_where:
  "(\<And>x. x \<in> set xs \<Longrightarrow> P x \<Longrightarrow> \<not> Q x) \<Longrightarrow> (\<And>x. Q (f x) = Q x) \<Longrightarrow> filter Q (update_where P f xs) = filter Q xs"
  by (induction xs) (auto simp: update_where_def)

lemma other_project:
  assumes "wf_db X d" "q \<in> set (projects d)" "p \<in> set (projects d)" "p_project_id p \<noteq> p_project_id q"
  shows "p_id p \<noteq> p_id q"
  using assms wf_dbD(1) [OF assms(1)] distinct_map_inj by (fastforce simp: wf_projects_def)

lemma of_project_insert: "n_project r \<noteq> i \<Longrightarrow> {n. (n = r \<or> n \<in> S) \<and> n_project n = i} = {n \<in> S. n_project n = i}"
  by auto

section \<open>Statements\<close>

lemma upsert_project_part:
  assumes "upsert_project X i now pid a t ak sk d = Inr (k, d')" "part_kept X q A d" "p_project_id q \<noteq> pid" "chars_count pid \<le> 255"
  shows "part_kept X q A d'"
proof -
  have wf: "wf_db X d'" using assms(1,2) by (auto simp: part_kept_def intro: wf_intros)
  have "varchar255 pid = Inr v \<Longrightarrow> v = pid" for v
    using assms(4) by (auto simp: varchar255_def split: if_splits)
  then have "\<exists>r. p_project_id r = pid \<and> upsert_project_row now r d = Inr (k, d')"
    using assms(1) unfolding upsert_project_def upsert_project_impl_def rbind_Inr_iff
    by (metis project_row.select_convs(3))
  then obtain r where r: "p_project_id r = pid" "upsert_project_row now r d = Inr (k, d')" by blast
  show ?thesis
  proof (cases "find (\<lambda>p. p_project_id p = pid) (projects d)")
    case (Some p)
    then have "p \<in> set (projects d)" "p_project_id p = pid" using find_Some_set by fastforce+
    then have pq: "p_id p \<noteq> p_id q"
      using other_project [OF part_keptD(1) [OF assms(2)] part_keptD(2) [OF assms(2)]] assms(3) by auto
    have "d' = d\<lparr> projects := update_where (\<lambda>x. p_id x = p_id p)
        (\<lambda>x. x\<lparr> p_updated_at := now, p_app_domain := p_app_domain r \<rparr>) (projects d) \<rparr>"
      using r Some by (auto simp: upsert_project_row_def update_project_domain_def map_ok_Inr_iff rbind_Inr_iff guard_err_def split: if_splits)
    moreover have "q \<in> set (update_where (\<lambda>x. p_id x = p_id p) f (projects d))" for f
      using pq part_keptD(2) [OF assms(2)] by (force simp: update_where_def image_iff)
    ultimately show ?thesis
      using pq wf assms(2) by (auto simp: part_kept_def project_part_def filter_update_where)
  next
    case None
    then have "d' = d\<lparr> projects := projects d @ [r] \<rparr>" "unique_ok p_id r (projects d)"
      using r by (auto simp: upsert_project_row_def insert_project_row_def map_ok_Inr_iff rbind_Inr_iff guard_err_def Let_def split: if_splits)
    then show ?thesis
      using wf assms(2) by (auto simp: part_kept_def project_part_def unique_ok_def)
  qed
qed

lemma set_welcome_part:
  assumes "set_welcome_notification i p wn d = Inr d'" "part_kept X q A d" "p \<noteq> p_id q"
  shows "part_kept X q A d'"
proof -
  have wf: "wf_db X d'" using assms(1,2) by (auto simp: part_kept_def intro: wf_intros)
  have "\<exists>r. wn_project r = p \<and> upsert_welcome_row r d = Inr d'"
    using assms(1) unfolding set_welcome_notification_def rbind_Inr_iff by (metis welcome_row.select_convs(2))
  then obtain r where "wn_project r = p" "upsert_welcome_row r d = Inr d'" by blast
  then show ?thesis
    using wf assms(2,3)
    by (auto simp: part_kept_def project_part_def upsert_welcome_row_def rbind_Inr_iff guard_err_def filter_update_where split: if_splits)
qed

lemma upsert_notification_part:
  assumes "upsert_notification i now nid p n d = Inr (k, d')" "part_kept X q A d" "p \<noteq> p_id q"
  shows "part_kept X q A d'" and "\<exists>m \<in> set (notifications d'). n_id m = nwi_id k \<and> n_project m = p"
proof -
  have wf: "wf_db X d'" using assms(1,2) by (auto simp: part_kept_def intro: wf_intros)
  have "d' = d \<and> (\<exists>m \<in> set (notifications d). n_id m = nwi_id k \<and> n_project m = p) \<or>
      (\<exists>r. n_project r = p \<and> n_id r = nwi_id k \<and> d' = d\<lparr> notifications := notifications d @ [r] \<rparr>)"
    using assms(1)
    by (cases rule: upsert_notification_cases)
      (auto simp: n_index_def insert_notification_row_def rbind_Inr_iff guard_err_def split: if_splits)
  then show "part_kept X q A d'" "\<exists>m \<in> set (notifications d'). n_id m = nwi_id k \<and> n_project m = p"
    using wf assms(2,3) by (auto simp: part_kept_def project_part_def of_project_insert)
qed

lemma mark_all_nothing:
  assumes "\<forall>r \<in> set (subscriber_notifications d). sn_id r \<notin> sids d"
  shows "snd (mark_all_notifications_as_read_for_project p d) = d"
proof -
  have same: "update_where (\<lambda>r. sn_id r \<in> set ids) f (subscriber_notifications d) = subscriber_notifications d"
    if "set ids \<subseteq> sids d" for ids f
    using assms that by (auto simp: update_where_def intro!: map_idI)
  show ?thesis
    unfolding mark_all_notifications_as_read_for_project_def Let_def snd_conv
    by (subst same) (auto simp: sids_def)
qed

lemma upsert_deliveries_part:
  assumes "upsert_subscriber_notifications gen now nid ss d = Inr d'" "part_kept X q A d"
    and "m \<in> set (notifications d)" "n_id m = nid" "n_project m \<noteq> p_id q"
  shows "part_kept X q A d'"
proof -
  have wf: "wf_db X d'" using assms(1,2) by (auto simp: part_kept_def intro: wf_intros)
  from insert_subscriber_notifications_spec [OF upsert_subscriber_notifications_rows [OF assms(1)]] obtain rs where
    d': "subscriber_notifications d' = subscriber_notifications d @ rs"
      "d' = d\<lparr> subscriber_notifications := subscriber_notifications d', delivery_channel := delivery_channel d' \<rparr>"
      "\<forall>r \<in> set rs. sn_notification r = nid" by blast
  have "nid \<notin> n_id ` {n \<in> set (notifications d). n_project n = p_id q}"
  proof
    assume "nid \<in> n_id ` {n \<in> set (notifications d). n_project n = p_id q}"
    then obtain n where n: "n \<in> set (notifications d)" "n_project n = p_id q" "n_id n = n_id m" using assms(4) by auto
    have "distinct (map n_id (notifications d))"
      using wf_dbD(5) [OF part_keptD(1) [OF assms(2)]] by (simp add: wf_notifications_def)
    from distinct_map_inj [OF this n(1) assms(3) n(3)] n(2) assms(5) show False by simp
  qed
  then have "filter (\<lambda>r. sn_notification r \<in> n_id ` {n \<in> set (notifications d). n_project n = p_id q}) rs = []"
    using d'(3) by (auto simp: filter_empty_conv)
  moreover have "projects d' = projects d" "subscribers d' = subscribers d" "scopes d' = scopes d" "watchers d' = watchers d"
    "notifications d' = notifications d" "welcome_notifications d' = welcome_notifications d"
    by (subst d'(2), simp)+
  ultimately show ?thesis using wf assms(2) d'(1) by (simp add: part_kept_def project_part_def)
qed

section \<open>Handlers\<close>

text \<open>What is known after the first step may be used to keep the rows during the rest.\<close>

lemma keeps_bind_knowing:
  assumes "db_keeps I m" "\<And>x w w'. I (w_db w) \<Longrightarrow> m w = (Inr x, w') \<Longrightarrow> J x (w_db w')"
    and "\<And>x. db_keeps (J x) (f x)" "\<And>x d. J x d \<Longrightarrow> I d"
  shows "db_keeps I (h_bind m f)"
  unfolding db_keeps_def
proof (intro allI impI)
  fix w :: world assume w: "I (w_db w)"
  obtain r w1 where m: "m w = (r, w1)" by force
  show "I (w_db (snd (h_bind m f w)))"
  proof (cases r)
    case (Inl e)
    then show ?thesis using db_keepsD [OF assms(1) w] m by (simp add: h_bind_def)
  next
    case (Inr x)
    then have "J x (w_db (snd (f x w1)))" using assms(2) [OF w] m db_keepsD [OF assms(3)] by blast
    then show ?thesis using assms(4) m Inr by (simp add: h_bind_def)
  qed
qed

definition part_kept_with :: "ext \<Rightarrow> project_row \<Rightarrow> db \<Rightarrow> uuid \<Rightarrow> uuid \<Rightarrow> db \<Rightarrow> bool" where
  "part_kept_with X q A p nid d \<longleftrightarrow> part_kept X q A d \<and> p \<noteq> p_id q \<and> (\<exists>m \<in> set (notifications d). n_id m = nid \<and> n_project m = p)"

lemma notify_one_part:
  assumes "en_ext E = X" "p_id p \<noteq> p_id q"
  shows "db_keeps (part_kept X q A) (notify_one E pid p resp b)"
proof -
  have up: "db_keeps (part_kept X q A) (db_upsert_notification E Sqlx i (p_id p) n)" for i n
    unfolding db_upsert_notification_def
    by (rule keeps_draw_exec) (rule upsert_notification_part(1) [OF _ _ assms(2)])
  have known: "part_kept_with X q A (p_id p) (nwi_id k) (w_db w')"
    if "part_kept X q A (w_db w)" "db_upsert_notification E Sqlx i (p_id p) n w = (Inr k, w')" for w i n k w'
    using that upsert_notification_part [OF _ that(1) assms(2)] assms(2)
    by (fastforce simp: db_upsert_notification_def part_kept_with_def h_bind_def h_draw_def h_exec_def h_fail_def
        split: sum.splits prod.splits)
  have deliveries: "db_keeps (part_kept_with X q A (p_id p) nid) (db_upsert_subscriber_notifications E Sqlx nid ss)" for nid ss
    unfolding db_upsert_subscriber_notifications_def
  proof (rule keeps_draw_exec)
    fix dr d r d'
    assume "map_ok (Pair ()) (upsert_subscriber_notifications (dr_uuids dr) (en_now E) nid ss d) = Inr (r, d')"
      and kept: "part_kept_with X q A (p_id p) nid d"
    then have u: "upsert_subscriber_notifications (dr_uuids dr) (en_now E) nid ss d = Inr d'" by (simp add: map_ok_Inr_iff)
    have "notifications d' = notifications d"
      using insert_subscriber_notifications_spec [OF upsert_subscriber_notifications_rows [OF u]] by (metis db.select_convs(5) db.surjective db.update_convs(6,8))
    then show "part_kept_with X q A (p_id p) nid d'"
      using kept upsert_deliveries_part [OF u] unfolding part_kept_with_def by metis
  qed
  show ?thesis
    unfolding notify_one_def
    by (intro keeps_bind keeps_simple
        keeps_bind_knowing [where J = "\<lambda>k. part_kept_with X q A (p_id p) (nwi_id k)" and m = "db_upsert_notification E Sqlx i (p_id p) n" for i n, OF up known])
      (auto simp: part_kept_with_def intro!: keeps_intros keeps_ask deliveries)
qed

lemma fetched_project:
  assumes "part_kept X q A (w_db w)" "h_query f (get_project_by_project_id pid) w = (Inr p, w')" "p_project_id q \<noteq> pid"
  shows "p_id p \<noteq> p_id q"
  using assms other_project [OF part_keptD(1,2) [OF assms(1)], of p] fetch_one_filter_Inr
  by (fastforce simp: h_query_Inr get_project_by_project_id_def)

lemma keeps_query_project:
  assumes "p_project_id q \<noteq> pid" "\<And>p. p_id p \<noteq> p_id q \<Longrightarrow> db_keeps (part_kept X q A) (f p)"
  shows "db_keeps (part_kept X q A) (h_bind (h_query g (get_project_by_project_id pid)) f)"
proof (rule keeps_bind_knowing [where J = "\<lambda>p d. part_kept X q A d \<and> p_id p \<noteq> p_id q"])
  show "db_keeps (\<lambda>d. part_kept X q A d \<and> p_id p \<noteq> p_id q) (f p)" for p
    using assms(2) [of p] by (auto simp: db_keeps_def)
qed (use fetched_project [OF _ _ assms(1)] in \<open>auto simp: h_query_Inr intro: keeps_intros\<close>)

lemma project_handler_part:
  assumes "en_ext E = X" "p_project_id q \<noteq> pid" "chars_count pid \<le> 255" "part_kept X q A (w_db w)"
    and "req = Mark_all_as_read \<longrightarrow> (\<forall>r \<in> set (subscriber_notifications (w_db w)). sn_id r \<notin> sids (w_db w))"
  shows "part_kept X q A (w_db (snd (project_handler E pid req w)))"
proof -
  let ?I = "part_kept X q A"
  note kept = http_answer_keeps [where I = ?I, OF _ assms(4)]
  have notify: "db_keeps ?I (notify_v1_handler_impl E pid bs)" for bs
    unfolding notify_v1_handler_impl_def notify_rate_limit_def Let_def
    by (intro keeps_bind keeps_calls keeps_simple keeps_query_project assms keeps_foldM notify_one_part)
  have topic: "db_keeps ?I (subscribe_topic_handler E pid a)" for a
  proof -
    have "db_keeps ?I (db_upsert_project E g pid a t ak sk)" for t ak sk and g :: "sqlx_error \<Rightarrow> NotifyServerError"
      unfolding db_upsert_project_def assms(1)
      by (rule keeps_draw_exec) (rule upsert_project_part [OF _ _ assms(2,3)])
    then show ?thesis
      unfolding subscribe_topic_handler_def subscribe_topic_rate_limit_def Let_def by (intro keeps_intros)
  qed
  have wel: "db_keeps ?I (post_welcome_notification_handler E pid wn)" for wn
  proof -
    have "i \<noteq> p_id q \<Longrightarrow> db_keeps ?I (db_set_welcome_notification E Sqlx i wn)" for i
      unfolding db_set_welcome_notification_def
      by (rule keeps_draw_exec) (auto simp: map_ok_Inr_iff intro: set_welcome_part)
    then show ?thesis
      unfolding post_welcome_notification_handler_def post_welcome_notification_rate_limit_def
      by (intro keeps_bind keeps_calls keeps_query_project assms keeps_simple)
  qed
  have reads: "db_keeps ?I (get_subscribers_v0_handler E pid)" "db_keeps ?I (get_subscribers_v1_handler E pid accounts)"
    "db_keeps ?I (get_welcome_notification_handler E pid)" for accounts
    unfolding get_subscribers_v0_handler_def get_subscribers_v1_handler_def get_welcome_notification_handler_def
      get_subscribers_v0_rate_limit_def get_subscribers_v1_rate_limit_def get_welcome_notification_rate_limit_def
    by (intro keeps_intros keeps_ask)+
  show ?thesis
  proof (cases req)
    case Mark_all_as_read
    let ?J = "\<lambda>d. ?I d \<and> (\<forall>r \<in> set (subscriber_notifications d). sn_id r \<notin> sids d)"
    have "db_keeps ?J (mark_all_as_read_handler E pid)"
      unfolding mark_all_as_read_handler_def mark_all_as_read_rate_limit_def
      by (intro keeps_bind keeps_calls keeps_simple) (auto simp: db_keeps_def db_mark_all_notifications_as_read_for_project_def mark_all_nothing case_prod_beta)
    then show ?thesis
      using assms(4,5) Mark_all_as_read http_answer_keeps by (fastforce simp: project_handler_def)
  qed (simp_all add: project_handler_def notify_v0_handler_def kept notify topic wel
      kept [OF reads(1)] kept [OF reads(2)] kept [OF reads(3)])
qed

section \<open>Isolation\<close>

text \<open>
  C5. Projects are isolated. Whatever a request with the path of one project does, the rows of every
  other project stay exactly as they were: its own row and keys, its welcome notification, its
  subscribers and their notification types, its watchers, its notifications and their deliveries. The
  project id in the path is one that fits its column (a longer one that is padded with blanks would
  be cut to the id of another project), and, for the request to mark all as read, no delivery row has
  the id of a subscriber: the statement compares the two.
\<close>

theorem projects_isolated:
  assumes "wf_db (en_ext E) (sv_db s)" "q \<in> set (projects (sv_db s))"
    and "args ''project_id'' = Some project_id" "p_project_id q \<noteq> project_id" "chars_count project_id \<le> 255"
    and "body = Inr Mark_all_as_read \<longrightarrow> (\<forall>r \<in> set (subscriber_notifications (sv_db s)). sn_id r \<notin> sids (sv_db s))"
    and "serve E (Project_request registry (Some args) bearer body) s = (a, s')"
  shows "project_part (p_id q) (sv_db s') = project_part (p_id q) (sv_db s)"
  using assms(7)
proof (cases rule: serve_project_cases)
  case (handled args' project_id' secret cache req a')
  have "part_kept (en_ext E) q (project_part (p_id q) (sv_db s)) (sv_db s)"
    using assms(1,2) by (simp add: part_kept_def)
  from project_handler_part [OF refl assms(4,5) this, of req] handled(1,2,5,8) assms(3,6) show ?thesis
    by (auto simp: part_kept_def)
qed simp

section \<open>Witness\<close>

definition isolated_project :: project_row where
  "isolated_project = \<lparr> p_id = 2, p_updated_at = 0, p_project_id = ''second'', p_app_domain = ''second.example'',
     p_topic = ''topic2'', p_authentication_public_key = ''a2'', p_authentication_private_key = ''b2'',
     p_subscribe_public_key = ''c2'', p_subscribe_private_key = ''d2'' \<rparr>"

definition demo_db9 :: db where
  "demo_db9 = demo_db6\<lparr> projects := [demo_key_project, isolated_project] \<rparr>"

theorem projects_isolated_witness:
  "project_part 2 (sv_db (snd (serve env_demo (Project_request (\<lambda>p k. Inr (200, Inr True)) (Some [''project_id'' \<mapsto> ''prj''])
     (Some ''secret'') (Inr Mark_all_as_read)) (server_demo demo_db9)))) = project_part 2 demo_db9"
proof -
  have ne: "length t < 64 \<Longrightarrow> hex_demo (replicate 32 x) \<noteq> t" for t x
    by (metis length_hex_demo length_replicate less_irrefl mult_2 numeral_Bit0)
  have "wf_db (en_ext env_demo) (sv_db (server_demo demo_db9))"
    using valid_demo_accounts
    by (simp add: ne env_demo_def server_demo_def world_demo_def demo_db9_def isolated_project_def demo_db6_defs wf_db_def wf_table_defs
        pids_def sids_def nids_def pg_status_def)
  moreover have "isolated_project \<in> set (projects (sv_db (server_demo demo_db9)))" "p_id isolated_project = 2"
    "p_project_id isolated_project \<noteq> ''prj''" "sv_db (server_demo demo_db9) = demo_db9"
    "\<forall>r \<in> set (subscriber_notifications (sv_db (server_demo demo_db9))). sn_id r \<notin> sids (sv_db (server_demo demo_db9))"
    by (simp_all add: server_demo_def world_demo_def demo_db9_def isolated_project_def demo_db6_defs sids_def)
  moreover have "chars_count ''prj'' \<le> 255" by code_simp
  ultimately show ?thesis
    using projects_isolated [OF _ _ _ _ _ _ surjective_pairing, of env_demo "server_demo demo_db9" isolated_project
        "[''project_id'' \<mapsto> ''prj'']" "''prj''" "Inr Mark_all_as_read"] by simp
qed

end
