(* ===== verification/Delivery.thy ===== *)
theory Delivery
  imports Publisher
begin

text \<open>
  The workers of the publisher side by side, statement by statement
  (\<open>src/src/services/publisher_service/mod.rs\<close>): between the statement that picks a delivery row and the
  one that records how the attempt went, other workers, the check for dead letters and the handlers
  work on the same table. The question is whether two workers can have the same row.
\<close>

section \<open>Steps\<close>

text \<open>
  The clock, the database, and what each worker holds since when. Two more fields are only there to
  state things: the ids of rows there have been, and the rows recorded as published, in order.
\<close>

record delivery =
  dl_now :: datetime
  dl_db :: db
  dl_held :: "nat \<rightharpoonup> NotificationToProcess \<times> datetime"
  dl_ids :: "uuid set"
  dl_published :: "uuid list"

abbreviation deliveries :: "delivery \<Rightarrow> subscriber_notification_row list" where
  "deliveries s \<equiv> subscriber_notifications (dl_db s)"

definition delivery_start :: "datetime \<Rightarrow> db \<Rightarrow> delivery" where
  "delivery_start now d = \<lparr> dl_now = now, dl_db = d, dl_held = Map.empty,
     dl_ids = sn_id ` set (subscriber_notifications d), dl_published = [] \<rparr>"

text \<open>
  A worker \<open>k\<close> picks a row, or finds none and ends its loop (it may be started again). Its attempt
  succeeds, or fails or runs into the timeout, and the row's status is written; or it never gets to
  that, because it panics or the statement fails. Time passes, but no worker holds a row for longer
  than \<open>L\<close>: that is what \<open>timeout\<close> is for. Fresh rows get ids that were never used
  (\<open>gen_random_uuid()\<close>); statements on other tables leave the rows as they are.
\<close>

inductive delivery_step :: "ext \<Rightarrow> duration \<Rightarrow> delivery \<Rightarrow> delivery \<Rightarrow> bool" for X L where
  pick: "dl_held s k = None \<Longrightarrow> picker p \<Longrightarrow>
    pick_subscriber_notification_for_processing X p (dl_now s) (dl_db s) = (Inr (Some n), d) \<Longrightarrow>
    delivery_step X L s (s\<lparr> dl_db := d, dl_held := (dl_held s)(k \<mapsto> (n, dl_now s)) \<rparr>)"
| none_picked: "dl_held s k = None \<Longrightarrow> picker p \<Longrightarrow>
    pick_subscriber_notification_for_processing X p (dl_now s) (dl_db s) = (r, d) \<Longrightarrow>
    (\<forall>n. r \<noteq> Inr (Some n)) \<Longrightarrow> delivery_step X L s (s\<lparr> dl_db := d \<rparr>)"
| published: "dl_held s k = Some (n, t) \<Longrightarrow>
    update_message_processing_status (dl_now s) (np_subscriber_notification n) Published (dl_db s) = Inr d \<Longrightarrow>
    delivery_step X L s (s\<lparr> dl_db := d, dl_held := (dl_held s)(k := None),
      dl_published := dl_published s @ [np_subscriber_notification n] \<rparr>)"
| failed: "dl_held s k = Some (n, t) \<Longrightarrow>
    update_message_status_queued_or_failed (dl_now s) (np_subscriber_notification n)
      (np_notification_created_at n) PUBLISHING_GIVE_UP_TIMEOUT (dl_db s) = Inr d \<Longrightarrow>
    delivery_step X L s (s\<lparr> dl_db := d, dl_held := (dl_held s)(k := None) \<rparr>)"
| lost: "dl_held s k = Some (n, t) \<Longrightarrow> delivery_step X L s (s\<lparr> dl_held := (dl_held s)(k := None) \<rparr>)"
| dead: "delivery_step X L s (s\<lparr> dl_db := dead_letters_check (dl_now s) PUBLISHING_TIMEOUT (dl_db s) \<rparr>)"
| fresh: "upsert_subscriber_notifications gen (dl_now s) n subs (dl_db s) = Inr d \<Longrightarrow>
    (\<forall>i. gen i \<notin> dl_ids s) \<Longrightarrow>
    delivery_step X L s (s\<lparr> dl_db := d, dl_ids := dl_ids s \<union> sn_id ` set (subscriber_notifications d) \<rparr>)"
| read: "mark_notifications_as_read i ids (dl_db s) = (marked, d) \<Longrightarrow> delivery_step X L s (s\<lparr> dl_db := d \<rparr>)"
| read_all: "mark_all_notifications_as_read_for_project i (dl_db s) = (marked, d) \<Longrightarrow>
    delivery_step X L s (s\<lparr> dl_db := d \<rparr>)"
| unsubscribed: "delivery_step X L s (s\<lparr> dl_db := delete_subscriber i (dl_db s) \<rparr>)"
| other: "subscriber_notifications d = deliveries s \<Longrightarrow> delivery_step X L s (s\<lparr> dl_db := d \<rparr>)"
| tick: "dl_now s \<le> now \<Longrightarrow> (\<forall>k n t. dl_held s k = Some (n, t) \<longrightarrow> now \<le> t + L) \<Longrightarrow>
    delivery_step X L s (s\<lparr> dl_now := now \<rparr>)"

section \<open>The invariant\<close>

text \<open>
  A held row, while it exists, is processing since it was picked, and it is not among the published
  ones; two workers hold different rows.
\<close>

definition holds :: "delivery \<Rightarrow> NotificationToProcess \<Rightarrow> datetime \<Rightarrow> bool" where
  "holds s n t \<longleftrightarrow> dl_now s \<le> t + PUBLISHING_TIMEOUT \<and> np_subscriber_notification n \<in> dl_ids s \<and>
     np_subscriber_notification n \<notin> set (dl_published s) \<and>
     (\<forall>r \<in> set (deliveries s). sn_id r = np_subscriber_notification n \<longrightarrow>
        sn_status r = Processing \<and> sn_updated_at r = t)"

definition delivery_inv :: "delivery \<Rightarrow> bool" where
  "delivery_inv s \<longleftrightarrow>
     sn_id ` set (deliveries s) \<subseteq> dl_ids s \<and>
     (\<forall>k n t. dl_held s k = Some (n, t) \<longrightarrow> holds s n t) \<and>
     (\<forall>k k' n n' t t'. dl_held s k = Some (n, t) \<longrightarrow> dl_held s k' = Some (n', t') \<longrightarrow>
        np_subscriber_notification n = np_subscriber_notification n' \<longrightarrow> k = k') \<and>
     set (dl_published s) \<subseteq> dl_ids s \<and> distinct (dl_published s) \<and>
     (\<forall>r \<in> set (deliveries s). sn_id r \<in> set (dl_published s) \<longrightarrow> sn_status r = Published)"

lemma delivery_invD:
  assumes "delivery_inv s"
  shows "sn_id ` set (deliveries s) \<subseteq> dl_ids s"
    and "dl_held s k = Some (n, t) \<Longrightarrow> holds s n t"
    and "dl_held s k = Some (n, t) \<Longrightarrow> dl_held s k' = Some (n', t') \<Longrightarrow>
      np_subscriber_notification n = np_subscriber_notification n' \<Longrightarrow> k = k'"
    and "set (dl_published s) \<subseteq> dl_ids s" and "distinct (dl_published s)"
    and "r \<in> set (deliveries s) \<Longrightarrow> sn_id r \<in> set (dl_published s) \<Longrightarrow> sn_status r = Published"
  using assms unfolding delivery_inv_def by blast+

text \<open>
  A statement that leaves alone the rows that are processing in time and those that are published
  keeps the invariant.
\<close>

definition tame :: "datetime \<Rightarrow> uuid set \<Rightarrow> subscriber_notification_row list \<Rightarrow> subscriber_notification_row list \<Rightarrow> bool" where
  "tame now used rs rs' \<longleftrightarrow> (\<forall>r' \<in> set rs'. sn_id r' \<in> used \<longrightarrow>
     (\<exists>r \<in> set rs. sn_id r = sn_id r' \<and>
       (sn_status r = Processing \<and> now \<le> sn_updated_at r + PUBLISHING_TIMEOUT \<or> sn_status r = Published \<longrightarrow>
          sn_status r' = sn_status r \<and> sn_updated_at r' = sn_updated_at r)))"

lemma tame_inv:
  assumes "delivery_inv s" "tame (dl_now s) (dl_ids s) (deliveries s) (subscriber_notifications d)"
    and "used = dl_ids s \<union> sn_id ` set (subscriber_notifications d)"
  shows "delivery_inv (s\<lparr> dl_db := d, dl_ids := used \<rparr>)"
proof -
  note I = delivery_invD [OF assms(1)]
  have T: "\<exists>r \<in> set (deliveries s). sn_id r = sn_id r' \<and>
       (sn_status r = Processing \<and> dl_now s \<le> sn_updated_at r + PUBLISHING_TIMEOUT \<or> sn_status r = Published \<longrightarrow>
          sn_status r' = sn_status r \<and> sn_updated_at r' = sn_updated_at r)"
    if "r' \<in> set (subscriber_notifications d)" "sn_id r' \<in> dl_ids s" for r'
    using assms(2) that unfolding tame_def by blast
  have held: "holds (s\<lparr> dl_db := d, dl_ids := used \<rparr>) n t" if "dl_held s k = Some (n, t)" for k n t
  proof -
    have h: "holds s n t" using I(2) that by blast
    have "sn_status r' = Processing \<and> sn_updated_at r' = t"
      if "r' \<in> set (subscriber_notifications d)" "sn_id r' = np_subscriber_notification n" for r'
      using T [OF that(1)] h that(2) unfolding holds_def by metis
    then show ?thesis using h assms(3) unfolding holds_def by simp
  qed
  have pub: "sn_status r' = Published"
    if "r' \<in> set (subscriber_notifications d)" "sn_id r' \<in> set (dl_published s)" for r'
    using T [OF that(1)] I(4,6) that(2) by (metis subsetD)
  show ?thesis
    unfolding delivery_inv_def
    using held pub I(1,3,4,5) assms(3) by (auto 0 3)
qed

lemma tame_inv_same:
  assumes "delivery_inv s" "tame (dl_now s) (dl_ids s) (deliveries s) (subscriber_notifications d)"
    and "sn_id ` set (subscriber_notifications d) \<subseteq> sn_id ` set (deliveries s)"
  shows "delivery_inv (s\<lparr> dl_db := d \<rparr>)"
proof -
  have "dl_ids s = dl_ids s \<union> sn_id ` set (subscriber_notifications d)"
    using assms(3) delivery_invD(1) [OF assms(1)] by blast
  from tame_inv [OF assms(1,2) this] show ?thesis by simp
qed

lemma ids_update: "(\<And>r. sn_id (u r) = sn_id r) \<Longrightarrow> sn_id ` set (update_where P u t) = sn_id ` set t"
  by (auto simp: update_where_def image_Un image_image)

text \<open>A row another worker does not hold may get any status.\<close>

lemma tame_update:
  assumes "\<And>r. r \<in> set t \<Longrightarrow> P r \<Longrightarrow> sn_id (u r) = sn_id r \<and>
      (sn_status (u r) = sn_status r \<and> sn_updated_at (u r) = sn_updated_at r \<or>
       sn_status r \<noteq> Published \<and> (sn_status r = Processing \<longrightarrow> sn_updated_at r + PUBLISHING_TIMEOUT < now))"
  shows "tame now used t (update_where P u t)"
  unfolding tame_def
proof (intro ballI impI)
  fix r' assume "r' \<in> set (update_where P u t)"
  then obtain r where r: "r \<in> set t" "r' = (if P r then u r else r)" by (auto simp: update_where_def)
  show "\<exists>r \<in> set t. sn_id r = sn_id r' \<and>
       (sn_status r = Processing \<and> now \<le> sn_updated_at r + PUBLISHING_TIMEOUT \<or> sn_status r = Published \<longrightarrow>
          sn_status r' = sn_status r \<and> sn_updated_at r' = sn_updated_at r)"
    using r assms [OF r(1)] by (intro bexI [OF _ r(1)]) (cases "P r"; force)
qed

lemma tame_filter: "tame now used t (filter P t)"
  by (auto simp: tame_def)

lemma inv_filter:
  "delivery_inv s \<Longrightarrow> subscriber_notifications d = filter P (deliveries s) \<Longrightarrow> delivery_inv (s\<lparr> dl_db := d \<rparr>)"
  by (rule tame_inv_same) (auto simp: tame_filter)

lemma inv_update:
  assumes "delivery_inv s" "subscriber_notifications d = update_where P u (deliveries s)" "\<And>r. sn_id (u r) = sn_id r"
    and "\<And>r. r \<in> set (deliveries s) \<Longrightarrow> P r \<Longrightarrow>
      sn_status (u r) = sn_status r \<and> sn_updated_at (u r) = sn_updated_at r \<or>
       sn_status r \<noteq> Published \<and> (sn_status r = Processing \<longrightarrow> sn_updated_at r + PUBLISHING_TIMEOUT < dl_now s)"
  shows "delivery_inv (s\<lparr> dl_db := d \<rparr>)"
  using assms by (intro tame_inv_same) (simp_all add: tame_update ids_update)

text \<open>A worker that gives its row back, and what a status update does.\<close>

lemma inv_release: "delivery_inv s \<Longrightarrow> delivery_inv (s\<lparr> dl_held := (dl_held s)(k := None) \<rparr>)"
  unfolding delivery_inv_def holds_def by (auto split: if_splits)

lemma status_update:
  assumes "update_message_processing_status now i st d = Inr d'"
  shows "subscriber_notifications d' = update_where (\<lambda>r. sn_id r = i) (set_status now st) (subscriber_notifications d)"
  using assms by (auto simp: update_message_processing_status_def map_ok_Inr_iff cast_status_iff)

text \<open>The row of worker \<open>k\<close> gets its status and the worker lets it go; the others' rows stay.\<close>

lemma inv_finish:
  assumes "delivery_inv s" "dl_held s k = Some (n, t)"
    and "subscriber_notifications d = update_where (\<lambda>r. sn_id r = np_subscriber_notification n) (set_status now st) (deliveries s)"
    and "pub = (if st = Published then [np_subscriber_notification n] else [])"
  shows "delivery_inv (s\<lparr> dl_db := d, dl_held := (dl_held s)(k := None), dl_published := dl_published s @ pub \<rparr>)"
proof -
  note I = delivery_invD [OF assms(1)]
  have h: "holds s n t" using I(2) assms(2) by blast
  have row: "\<exists>r \<in> set (deliveries s). sn_id r' = sn_id r \<and> (if sn_id r = np_subscriber_notification n then sn_status r' = st else r' = r)"
    if "r' \<in> set (subscriber_notifications d)" for r'
    using that assms(3) by (fastforce simp: update_where_def set_status_def)
  have other: "np_subscriber_notification n' \<noteq> np_subscriber_notification n" if "dl_held s k' = Some (n', t')" "k' \<noteq> k" for k' n' t'
    using I(3) that assms(2) by blast
  have ids: "sn_id ` set (subscriber_notifications d) = sn_id ` set (deliveries s)"
    using assms(3) by (simp add: ids_update set_status_def)
  have held: "holds (s\<lparr> dl_db := d, dl_held := H, dl_published := dl_published s @ pub \<rparr>) n' t'"
    if "dl_held s k' = Some (n', t')" "k' \<noteq> k" for k' n' t' H
    using I(2) [OF that(1)] other [OF that] row assms(4) unfolding holds_def by (auto split: if_splits) metis+
  have fin: "sn_status r' = Published" if "r' \<in> set (subscriber_notifications d)" "sn_id r' \<in> set (dl_published s @ pub)" for r'
    using row [OF that(1)] that(2) I(6) h assms(4) unfolding holds_def by (auto split: if_splits)
  show ?thesis
    using held fin I(1,3,4,5) ids h assms(4) unfolding delivery_inv_def by (auto simp: holds_def [of s] split: if_splits)
qed

section \<open>Every step keeps it\<close>

lemma joined_id:
  assumes "joined_rows i d = x # xs"
  shows "sn_id (fst x) = i"
proof -
  have "x \<in> set (joined_rows i d)" by (simp add: assms)
  then show ?thesis by (auto simp: joined_rows_def)
qed

lemma pick_result:
  assumes "pick_subscriber_notification_for_processing X p now d = (r, d')" "picker p"
  shows "d' = d \<and> r = Inr None \<or>
    (\<exists>q \<in> set (subscriber_notifications d). sn_status q = Queued \<and>
       subscriber_notifications d' = update_where (\<lambda>x. sn_id x = sn_id q) (set_status now Processing) (subscriber_notifications d) \<and>
       (\<forall>n. r = Inr (Some n) \<longrightarrow> np_subscriber_notification n = sn_id q))"
proof (cases "filter (\<lambda>r. sn_status r = Queued) (subscriber_notifications d) = []")
  case True
  then show ?thesis using assms(1) by (simp add: pick_nothing)
next
  case False
  then have "p (filter (\<lambda>r. sn_status r = Queued) (subscriber_notifications d))
      \<in> set (filter (\<lambda>r. sn_status r = Queued) (subscriber_notifications d))"
    using assms(2) unfolding picker_def by blast
  with False assms(1) show ?thesis
    by (intro disjI2 bexI [of _ "p (filter (\<lambda>r. sn_status r = Queued) (subscriber_notifications d))"])
       (auto simp: pick_subscriber_notification_for_processing_def pick_queued_def Let_def fetch_optional_def
          to_process_def map_ok_Inr_iff dest!: joined_id split: list.splits prod.splits if_splits)
qed

lemma queued_not_held:
  assumes "delivery_inv s" "distinct (map sn_id (deliveries s))" "q \<in> set (deliveries s)" "sn_status q = Queued"
    and "dl_held s k = Some (n, t)"
  shows "np_subscriber_notification n \<noteq> sn_id q"
  using delivery_invD(2) [OF assms(1,5)] assms(3,4) unfolding holds_def by force

lemma pick_inv:
  assumes "delivery_inv s" "distinct (map sn_id (deliveries s))" "q \<in> set (deliveries s)" "sn_status q = Queued"
    and "subscriber_notifications d = update_where (\<lambda>x. sn_id x = sn_id q) (set_status (dl_now s) Processing) (deliveries s)"
  shows "delivery_inv (s\<lparr> dl_db := d \<rparr>)"
    and "np_subscriber_notification n = sn_id q \<Longrightarrow> dl_held s k = None \<Longrightarrow>
      delivery_inv (s\<lparr> dl_db := d, dl_held := (dl_held s)(k \<mapsto> (n, dl_now s)) \<rparr>)"
proof -
  note I = delivery_invD [OF assms(1)]
  have q: "r = q" if "r \<in> set (deliveries s)" "sn_id r = sn_id q" for r
    using that assms(2,3) by (simp add: distinct_map_inj)
  show inv: "delivery_inv (s\<lparr> dl_db := d \<rparr>)"
    using assms(1,5) by (rule inv_update) (auto simp: set_status_def assms(4) dest: q)
  assume n: "np_subscriber_notification n = sn_id q" "dl_held s k = None"
  have "sn_id q \<notin> set (dl_published s)" using I(6) [OF assms(3)] assms(4) by auto
  then have "holds (s\<lparr> dl_db := d, dl_held := (dl_held s)(k \<mapsto> (n, dl_now s)) \<rparr>) n (dl_now s)"
    using I(1) assms(3,5) n unfolding holds_def
    by (auto simp: PUBLISHING_TIMEOUT_def update_where_def set_status_def split: if_splits)
  moreover have "\<forall>k' n' t'. dl_held s k' = Some (n', t') \<longrightarrow> np_subscriber_notification n' \<noteq> np_subscriber_notification n"
    using queued_not_held [OF assms(1-4)] n by auto
  ultimately show "delivery_inv (s\<lparr> dl_db := d, dl_held := (dl_held s)(k \<mapsto> (n, dl_now s)) \<rparr>)"
    using inv unfolding delivery_inv_def by (auto simp: holds_def) blast+
qed

text \<open>Inserting appends rows with ids that were not in use.\<close>

lemma inserted_row:
  "insert_subscriber_notification_row r d = Inr d' \<Longrightarrow>
     set (subscriber_notifications d') \<subseteq> insert r (set (subscriber_notifications d))"
  by (auto simp: insert_subscriber_notification_row_def rbind_Inr_iff split: if_splits)

lemma inserted_rows:
  "insert_subscriber_notifications gen k now n st ss d = Inr d' \<Longrightarrow>
     set (subscriber_notifications d') \<subseteq> set (subscriber_notifications d) \<union> {r. sn_id r \<in> range gen}"
proof (induction ss arbitrary: k d)
  case (Cons a ss)
  from Cons.prems obtain e where e: "insert_subscriber_notification_row \<lparr> sn_id = gen k, sn_created_at = now,
      sn_updated_at = now, sn_notification = n, sn_subscriber = a, sn_status = st, sn_is_read = False \<rparr> d = Inr e"
    "insert_subscriber_notifications gen (Suc k) now n st ss e = Inr d'"
    by (auto simp: rbind_Inr_iff)
  from inserted_row [OF e(1)] Cons.IH [OF e(2)] show ?case by force
qed simp

lemma fresh_inv:
  assumes "delivery_inv s" "upsert_subscriber_notifications gen (dl_now s) n subs (dl_db s) = Inr d" "\<forall>i. gen i \<notin> dl_ids s"
  shows "delivery_inv (s\<lparr> dl_db := d, dl_ids := dl_ids s \<union> sn_id ` set (subscriber_notifications d) \<rparr>)"
proof (rule tame_inv [OF assms(1) _ refl])
  have "set (subscriber_notifications d) \<subseteq> set (deliveries s) \<union> {r. sn_id r \<in> range gen}"
    using assms(2) by (auto simp: upsert_subscriber_notifications_def rbind_Inr_iff cast_status_iff dest: inserted_rows)
  then show "tame (dl_now s) (dl_ids s) (deliveries s) (subscriber_notifications d)"
    using assms(3) by (fastforce simp: tame_def)
qed

lemma inserted_distinct:
  "insert_subscriber_notifications gen k now n st ss d = Inr d' \<Longrightarrow>
     distinct (map sn_id (subscriber_notifications d)) \<Longrightarrow> distinct (map sn_id (subscriber_notifications d'))"
proof (induction ss arbitrary: k d)
  case (Cons a ss)
  from Cons.prems obtain e where e: "insert_subscriber_notification_row \<lparr> sn_id = gen k, sn_created_at = now,
      sn_updated_at = now, sn_notification = n, sn_subscriber = a, sn_status = st, sn_is_read = False \<rparr> d = Inr e"
    "insert_subscriber_notifications gen (Suc k) now n st ss e = Inr d'"
    by (auto simp: rbind_Inr_iff)
  have "distinct (map sn_id (subscriber_notifications e))"
    using e(1) Cons.prems(2)
    by (auto simp: insert_subscriber_notification_row_def rbind_Inr_iff guard_err_def unique_ok_def split: if_splits)
  with Cons.IH [OF e(2)] show ?case .
qed simp

lemma ids_list_update: "(\<And>r. sn_id (u r) = sn_id r) \<Longrightarrow> map sn_id (update_where P u t) = map sn_id t"
  by (auto simp: update_where_def)

lemma updates:
  "mark_notifications_as_read i ids d = (marked, d') \<Longrightarrow> subscriber_notifications d' =
     update_where (mark_selected i ids) (\<lambda>r. r\<lparr> sn_is_read := True \<rparr>) (subscriber_notifications d)"
  "mark_all_notifications_as_read_for_project i d = (marked, d') \<Longrightarrow> \<exists>P. subscriber_notifications d' =
     update_where P (\<lambda>r. r\<lparr> sn_is_read := True \<rparr>) (subscriber_notifications d)"
  by (auto simp: mark_notifications_as_read_def mark_all_notifications_as_read_for_project_def Let_def)

lemma failed_update:
  assumes "update_message_status_queued_or_failed now i created give_up d = Inr d'"
  shows "\<exists>st. st \<noteq> Published \<and>
    subscriber_notifications d' = update_where (\<lambda>r. sn_id r = i) (set_status now st) (subscriber_notifications d)"
  using assms
  by (auto simp: update_message_status_queued_or_failed_def dest!: status_update split: if_splits)

definition exclusive :: "delivery \<Rightarrow> bool" where
  "exclusive s \<longleftrightarrow> delivery_inv s \<and> distinct (map sn_id (deliveries s))"

lemma exclusiveI: "delivery_inv s \<Longrightarrow> distinct (map sn_id (deliveries s)) \<Longrightarrow> exclusive s"
  by (simp add: exclusive_def)

lemma inv_tick:
  assumes "delivery_inv s" "\<forall>k n t. dl_held s k = Some (n, t) \<longrightarrow> now \<le> t + L" "L \<le> PUBLISHING_TIMEOUT"
  shows "delivery_inv (s\<lparr> dl_now := now \<rparr>)"
proof -
  have "holds (s\<lparr> dl_now := now \<rparr>) n t" if h: "dl_held s k = Some (n, t)" for k n t
  proof -
    have "now \<le> t + PUBLISHING_TIMEOUT" using assms(2,3) h by fastforce
    then show ?thesis using delivery_invD(2) [OF assms(1) h] by (simp add: holds_def)
  qed
  then show ?thesis using assms(1) by (simp add: delivery_inv_def)
qed

lemma distinct_update:
  "distinct (map sn_id (deliveries s)) \<Longrightarrow> (\<And>r. sn_id (u r) = sn_id r) \<Longrightarrow>
     subscriber_notifications d = update_where P u (deliveries s) \<Longrightarrow> distinct (map sn_id (subscriber_notifications d))"
  by (simp add: ids_list_update)

lemma delivery_step_exclusive:
  assumes "delivery_step X L s s'" "exclusive s" "L \<le> PUBLISHING_TIMEOUT"
  shows "exclusive s'"
proof -
  have inv: "delivery_inv s" and dis: "distinct (map sn_id (deliveries s))" using assms(2) by (simp_all add: exclusive_def)
  note dis_up = distinct_update [OF dis]
  from assms(1) show ?thesis
  proof cases
    case (pick k p n d)
    from pick_result [OF pick(4,3)] obtain q where q: "q \<in> set (deliveries s)" "sn_status q = Queued"
      "subscriber_notifications d = update_where (\<lambda>x. sn_id x = sn_id q) (set_status (dl_now s) Processing) (deliveries s)"
      "np_subscriber_notification n = sn_id q" by auto
    show ?thesis unfolding pick(1)
      using pick_inv(2) [OF inv dis q(1-4) pick(2)] dis_up [OF _ q(3)] by (intro exclusiveI) (simp_all add: set_status_def)
  next
    case (none_picked k p r d)
    from pick_result [OF none_picked(4,3)] show ?thesis
    proof (elim disjE bexE conjE)
      fix q assume q: "q \<in> set (deliveries s)" "sn_status q = Queued"
        "subscriber_notifications d = update_where (\<lambda>x. sn_id x = sn_id q) (set_status (dl_now s) Processing) (deliveries s)"
      show ?thesis unfolding none_picked(1)
        using pick_inv(1) [OF inv dis q] dis_up [OF _ q(3)] by (intro exclusiveI) (simp_all add: set_status_def)
    qed (use assms(2) none_picked(1) in simp)
  next
    case (published k n t d)
    note u = status_update [OF published(3)]
    show ?thesis unfolding published(1)
      using inv_finish [OF inv published(2) u, of "[np_subscriber_notification n]"] dis_up [OF _ u]
      by (intro exclusiveI) (simp_all add: set_status_def)
  next
    case (failed k n t d)
    from failed_update [OF failed(3)] obtain st where st: "st \<noteq> Published" and
      u: "subscriber_notifications d = update_where (\<lambda>r. sn_id r = np_subscriber_notification n) (set_status (dl_now s) st) (deliveries s)"
      by blast
    show ?thesis unfolding failed(1)
      using inv_finish [OF inv failed(2) u, of "[]"] st dis_up [OF _ u] by (intro exclusiveI) (simp_all add: set_status_def)
  next
    case (lost k n t)
    show ?thesis unfolding lost(1) using inv_release [OF inv] dis by (intro exclusiveI) simp_all
  next
    case dead
    let ?d = "dead_letters_check (dl_now s) PUBLISHING_TIMEOUT (dl_db s)"
    have u: "subscriber_notifications ?d = update_where (dead_letter (dl_now s) PUBLISHING_TIMEOUT) (\<lambda>r. r\<lparr> sn_status := Queued \<rparr>) (deliveries s)"
      by (simp add: dead_letters_check_def)
    show ?thesis unfolding dead
      using dis_up [OF _ u] by (intro exclusiveI inv_update [OF inv u]) (simp_all add: dead_letter_def)
  next
    case (fresh gen n subs d)
    have "distinct (map sn_id (subscriber_notifications d))"
      using fresh(2) dis by (auto simp: upsert_subscriber_notifications_def rbind_Inr_iff cast_status_iff dest: inserted_distinct)
    then show ?thesis unfolding fresh(1) using fresh_inv [OF inv fresh(2,3)] by (intro exclusiveI) simp_all
  next
    case (read i ids marked d)
    note u = updates(1) [OF read(2)]
    show ?thesis unfolding read(1)
      using dis_up [OF _ u] by (intro exclusiveI inv_update [OF inv u]) simp_all
  next
    case (read_all i marked d)
    from updates(2) [OF read_all(2)] obtain P where
      u: "subscriber_notifications d = update_where P (\<lambda>r. r\<lparr> sn_is_read := True \<rparr>) (deliveries s)" by blast
    show ?thesis unfolding read_all(1)
      using dis_up [OF _ u] by (intro exclusiveI inv_update [OF inv u]) simp_all
  next
    case (unsubscribed i)
    have u: "subscriber_notifications (delete_subscriber i (dl_db s)) = filter (\<lambda>r. sn_subscriber r \<noteq> i) (deliveries s)"
      by (simp add: delete_subscriber_def)
    show ?thesis unfolding unsubscribed using dis by (intro exclusiveI inv_filter [OF inv u]) (simp add: u distinct_map_filter)
  next
    case (other d)
    have "subscriber_notifications d = filter (\<lambda>_. True) (deliveries s)" by (simp add: other(2))
    then show ?thesis unfolding other(1) using dis other(2) by (intro exclusiveI inv_filter [OF inv, where P = "\<lambda>_. True"]) simp_all
  next
    case (tick now)
    show ?thesis unfolding tick(1) using inv_tick [OF inv tick(3) assms(3)] dis by (intro exclusiveI) simp_all
  qed
qed

interpretation workers_in_time: transition_system "\<lambda>s. \<exists>X now d. wf_db X d \<and> s = delivery_start now d"
  "\<lambda>s t. \<exists>X L. L \<le> PUBLISHING_TIMEOUT \<and> delivery_step X L s t" exclusive
proof
  fix s :: delivery assume "\<exists>X now d. wf_db X d \<and> s = delivery_start now d"
  then show "exclusive s"
    by (auto simp: exclusive_def delivery_start_def delivery_inv_def dest!: wf_dbD(6) simp: wf_subscriber_notifications_def)
qed (use delivery_step_exclusive in blast)

text \<open>
  C16. One worker per delivery. However the statements of the workers, of the check for dead letters
  and of the handlers interleave, as long as every worker records the outcome of its attempt within
  \<open>PUBLISHING_TIMEOUT\<close> of its pick: two workers never have the same row, no row is recorded as published
  twice, and a row recorded as published stays published for as long as it exists.
\<close>

theorem one_worker_per_delivery:
  assumes "(delivery_step X L)\<^sup>*\<^sup>* (delivery_start now d) s" "wf_db X d" "L \<le> PUBLISHING_TIMEOUT"
  shows "(\<forall>k k' n n' t t'. dl_held s k = Some (n, t) \<longrightarrow> dl_held s k' = Some (n', t') \<longrightarrow>
      np_subscriber_notification n = np_subscriber_notification n' \<longrightarrow> k = k') \<and>
    distinct (dl_published s) \<and>
    (\<forall>r \<in> set (deliveries s). sn_id r \<in> set (dl_published s) \<longrightarrow> sn_status r = Published)"
proof -
  have "(\<lambda>s t. \<exists>X L. L \<le> PUBLISHING_TIMEOUT \<and> delivery_step X L s t)\<^sup>*\<^sup>* (delivery_start now d) s"
    using assms(1,3) by (auto elim!: rtranclp_mono [THEN predicate2D, rotated])
  then have "exclusive s" using assms(2) by (intro workers_in_time.reachable_inv) blast
  then show ?thesis unfolding exclusive_def delivery_inv_def by blast
qed

section \<open>The timeout is just long enough\<close>

text \<open>The database of the demonstration while its one delivery goes through a run.\<close>

definition race_db :: "uuid list \<Rightarrow> datetime \<Rightarrow> SubscriberNotificationStatus \<Rightarrow> db" where
  "race_db channel t st = demo_db6\<lparr> subscriber_notifications := [demo_sn\<lparr> sn_updated_at := t, sn_status := st \<rparr>],
     delivery_channel := channel \<rparr>"

definition race :: "datetime \<Rightarrow> db \<Rightarrow> (nat \<rightharpoonup> NotificationToProcess \<times> datetime) \<Rightarrow> uuid list \<Rightarrow> delivery" where
  "race now d held done = \<lparr> dl_now = now, dl_db = d, dl_held = held, dl_ids = {31}, dl_published = done \<rparr>"

lemma race_start: "delivery_start now (race_db ch t st) = race now (race_db ch t st) Map.empty []"
  by (simp add: delivery_start_def race_def race_db_def demo_sn_def)

lemma race_pick:
  assumes "held k = None"
  shows "delivery_step ext_demo L (race now (race_db ch t Queued) held done)
    (race now (race_db ch now Processing) (held(k \<mapsto> (demo_np, now))) done)"
proof -
  have "pick_subscriber_notification_for_processing ext_demo hd now (race_db ch t Queued) =
      (Inr (Some demo_np), race_db ch now Processing)"
    using valid_demo_accounts
    by (simp add: pick_subscriber_notification_for_processing_def pick_queued_def Let_def update_where_def set_status_def
        fetch_optional_def joined_rows_def to_process_def race_db_def decode_account_Inr_iff [THEN iffD2] map_ok_def demo_np_def demo_db6_defs)
  from delivery_step.pick [of "race now (race_db ch t Queued) held done" k hd ext_demo, simplified race_def delivery.simps, OF _ picker_hd this]
  show ?thesis using assms by (simp add: race_def)
qed

lemma race_published:
  assumes "held k = Some (demo_np, u)"
  shows "delivery_step ext_demo L (race now (race_db ch t st) held done)
    (race now (race_db ch now Published) (held(k := None)) (done @ [31]))"
proof -
  have i: "np_subscriber_notification demo_np = 31" by (simp add: demo_np_def to_process_def demo_sn_def)
  have "update_message_processing_status now (np_subscriber_notification demo_np) Published (race_db ch t st) =
      Inr (race_db ch now Published)"
    by (simp add: i update_message_processing_status_def cast_status_def status_to_string_def map_ok_def update_where_def
        set_status_def requeued_def race_db_def demo_sn_def)
  from delivery_step.published [of "race now (race_db ch t st) held done" k, simplified race_def delivery.simps, OF _ this]
  show ?thesis using assms by (simp add: race_def i)
qed

text \<open>
  C17. The margin is nil. If outcomes may be recorded a microsecond later than \<open>PUBLISHING_TIMEOUT\<close> after
  the pick (the timer of an attempt starts after the pick, and its outcome is recorded after the timer),
  the check for dead letters, which uses the same constant, can hand the row to a second worker while
  the first still has it, and the delivery is recorded as published twice.
\<close>

theorem timeout_without_margin:
  "\<exists>s s'. (delivery_step ext_demo (PUBLISHING_TIMEOUT + 1))\<^sup>*\<^sup>* (delivery_start 5 (race_db [] 5 Queued)) s \<and>
     dl_held s 1 = Some (demo_np, 5) \<and> dl_held s 2 = Some (demo_np, 5 + PUBLISHING_TIMEOUT + 1) \<and>
     (delivery_step ext_demo (PUBLISHING_TIMEOUT + 1))\<^sup>*\<^sup>* s s' \<and>
     dl_published s' = [np_subscriber_notification demo_np, np_subscriber_notification demo_np]"
proof -
  let ?L = "PUBLISHING_TIMEOUT + 1" and ?H = "[1 \<mapsto> (demo_np, 5 :: datetime)] :: nat \<rightharpoonup> NotificationToProcess \<times> datetime"
  let ?R = "delivery_step ext_demo ?L" and ?now = "5 + PUBLISHING_TIMEOUT + 1"
  have 1: "?R (delivery_start 5 (race_db [] 5 Queued)) (race 5 (race_db [] 5 Processing) ?H [])"
    unfolding race_start by (rule race_pick) simp
  have 2: "?R (race 5 (race_db [] 5 Processing) ?H []) (race ?now (race_db [] 5 Processing) ?H [])"
    using delivery_step.tick [of "race 5 (race_db [] 5 Processing) ?H []" ?now ?L ext_demo]
    by (simp add: race_def PUBLISHING_TIMEOUT_def split: if_splits)
  have 3: "?R (race ?now (race_db [] 5 Processing) ?H []) (race ?now (race_db [31] 5 Queued) ?H [])"
    using delivery_step.dead [of ext_demo ?L "race ?now (race_db [] 5 Processing) ?H []"]
    by (simp add: race_def dead_letters_check_def dead_letter_def update_where_def requeued_def race_db_def demo_sn_def)
  have 4: "?R (race ?now (race_db [31] 5 Queued) ?H []) (race ?now (race_db [31] ?now Processing) (?H(2 \<mapsto> (demo_np, ?now))) [])"
    by (rule race_pick) simp
  have 5: "?R (race ?now (race_db [31] ?now Processing) (?H(2 \<mapsto> (demo_np, ?now))) [])
      (race ?now (race_db [31] ?now Published) ((?H(2 \<mapsto> (demo_np, ?now)))(1 := None)) ([] @ [31]))"
    by (rule race_published) simp
  have 6: "?R (race ?now (race_db [31] ?now Published) ((?H(2 \<mapsto> (demo_np, ?now)))(1 := None)) ([] @ [31]))
      (race ?now (race_db [31] ?now Published) ((?H(2 \<mapsto> (demo_np, ?now)))(1 := None, 2 := None)) (([] @ [31]) @ [31]))"
    by (rule race_published) simp
  have i: "np_subscriber_notification demo_np = 31" by (simp add: demo_np_def to_process_def demo_sn_def)
  have "?R\<^sup>*\<^sup>* (delivery_start 5 (race_db [] 5 Queued)) (race ?now (race_db [31] ?now Processing) (?H(2 \<mapsto> (demo_np, ?now))) [])"
    by (rule converse_rtranclp_into_rtranclp [OF 1 converse_rtranclp_into_rtranclp [OF 2
          converse_rtranclp_into_rtranclp [OF 3 r_into_rtranclp [where r = ?R, OF 4]]]])
  moreover have "?R\<^sup>*\<^sup>* (race ?now (race_db [31] ?now Processing) (?H(2 \<mapsto> (demo_np, ?now))) [])
      (race ?now (race_db [31] ?now Published) ((?H(2 \<mapsto> (demo_np, ?now)))(1 := None, 2 := None)) (([] @ [31]) @ [31]))"
    by (rule converse_rtranclp_into_rtranclp [OF 5 r_into_rtranclp [where r = ?R, OF 6]])
  moreover have "dl_held (race now d H P) = H" "dl_published (race now d H P) = P" for now d H P by (simp_all add: race_def)
  ultimately show ?thesis unfolding i by (intro exI conjI) (assumption | simp)+
qed

theorem one_worker_per_delivery_witness:
  "\<exists>s. (delivery_step ext_demo PUBLISHING_TIMEOUT)\<^sup>*\<^sup>* (delivery_start 5 demo_db6) s \<and>
     dl_published s = [31] \<and> (\<forall>r \<in> set (deliveries s). sn_status r = Published)"
proof -
  let ?R = "delivery_step ext_demo PUBLISHING_TIMEOUT" and ?H = "[1 \<mapsto> (demo_np, 5 :: datetime)] :: nat \<rightharpoonup> NotificationToProcess \<times> datetime"
  have d: "demo_db6 = race_db [] 5 Queued" by (simp add: race_db_def demo_db6_defs)
  have 1: "?R (delivery_start 5 demo_db6) (race 5 (race_db [] 5 Processing) ?H [])"
    unfolding d race_start by (rule race_pick) simp
  have 2: "?R (race 5 (race_db [] 5 Processing) ?H []) (race 5 (race_db [] 5 Published) (?H(1 := None)) ([] @ [31]))"
    by (rule race_published) simp
  have run: "?R\<^sup>*\<^sup>* (delivery_start 5 demo_db6) (race 5 (race_db [] 5 Published) (?H(1 := None)) ([] @ [31]))"
    using 1 2 by (rule converse_rtranclp_into_rtranclp [OF _ r_into_rtranclp])
  from one_worker_per_delivery [OF run wf_demo_db6 order_refl] show ?thesis
    using run by (intro exI [of _ "race 5 (race_db [] 5 Published) (?H(1 := None)) ([] @ [31])"])
      (auto simp: race_def race_db_def demo_sn_def)
qed

end
