(* ===== verification/Startup.thy ===== *)
theory Startup
  imports Config Relay_Handlers
begin

text \<open>
  Start-up: the options of the relay's client (\<open>src/src/relay_client_helpers.rs\<close>), the state that
  \<open>bootstrap\<close> of \<open>src/src/lib.rs\<close> builds from a configuration (\<open>AppState::new\<close> of \<open>src/src/state.rs\<close>), and
  what of it the handlers see. Connecting to PostgreSQL, S3 and the relay, URL surgery, the seeded
  random generators and the signing of the relay's token are arguments.
\<close>

section \<open>The relay's client\<close>

text \<open>\<open>str::replace\<close>.\<close>

function str_replace :: "string \<Rightarrow> string \<Rightarrow> string \<Rightarrow> string" where
  "str_replace pat rep s =
     (case s of [] \<Rightarrow> [] | c # r \<Rightarrow>
        if pat \<noteq> [] \<and> starts_with pat s then rep @ str_replace pat rep (drop (length pat) s)
        else c # str_replace pat rep r)"
  by auto
termination by (relation "measure (\<lambda>(pat, rep, s). length s)") auto

declare str_replace.simps [simp del]

record url_lib =
  ul_scheme :: "string \<Rightarrow> string"
  ul_set_scheme :: "string \<Rightarrow> string \<Rightarrow> string option"
  ul_origin :: "string \<Rightarrow> string"

text \<open>The token that authenticates the server to the relay: its subject, audience and time to live.\<close>

record AuthToken =
  at_sub :: string
  at_aud :: string
  at_ttl :: "duration option"

record UserAgent =
  ua_protocol_version :: nat
  ua_sdk_version :: string
  ua_os_family :: string
  ua_environment :: string
  ua_host :: string

record ConnectionOptions =
  co_address :: string
  co_project_id :: string
  co_auth :: string
  co_user_agent :: UserAgent

text \<open>\<open>as_jwt\<close> signs a token, \<open>version\<close> is the package's.\<close>

definition create_connect_options ::
  "url_lib \<Rightarrow> (AuthToken \<Rightarrow> bytes \<Rightarrow> (string, string) result) \<Rightarrow> string \<Rightarrow> bytes \<Rightarrow> string \<Rightarrow> string \<Rightarrow> string
     \<Rightarrow> duration option \<Rightarrow> (string \<Rightarrow> ConnectionOptions, NotifyServerError) result" where
  "create_connect_options U as_jwt version keypair relay_url notify_url project_id ttl =
     rbind (map_err RpcAuth (as_jwt \<lparr> at_sub = notify_url, at_aud = ul_origin U relay_url, at_ttl = ttl \<rparr> keypair)) (\<lambda>auth.
       Inr (\<lambda>address. \<lparr> co_address = address, co_project_id = project_id, co_auth = auth,
         co_user_agent = \<lparr> ua_protocol_version = 2, ua_sdk_version = version, ua_os_family = ''ECS'',
           ua_environment = ''Notify Server'', ua_host = notify_url \<rparr> \<rparr>))"

definition create_http_connect_options ::
  "ext \<Rightarrow> url_lib \<Rightarrow> (AuthToken \<Rightarrow> bytes \<Rightarrow> (string, string) result) \<Rightarrow> string \<Rightarrow> bytes \<Rightarrow> string \<Rightarrow> string \<Rightarrow> string
     \<Rightarrow> (ConnectionOptions, NotifyServerError) result" where
  "create_http_connect_options X U as_jwt version keypair relay_url notify_url project_id =
     rbind (ok_or (ul_set_scheme U relay_url (str_replace ''ws'' ''http'' (ul_scheme U relay_url))) UrlSetScheme) (\<lambda>relay_url.
     rbind (ok_or (url_join X relay_url ''/rpc'') (UrlError ''join'')) (\<lambda>rpc_address.
     rbind (create_connect_options U as_jwt version keypair relay_url notify_url project_id None) (\<lambda>options.
       Inr (options rpc_address))))"

section \<open>The state\<close>

type_synonym geoip_resolver = "IpAddr \<Rightarrow> (geo_data, string) result"

record AppState =
  as_config :: Configuration
  as_analytics :: "(IpAddr, geo_data) NotifyAnalytics"
  as_keypair :: bytes
  as_relay_client :: ConnectionOptions
  as_relay_identity :: string
  as_redis :: "Redis option"
  as_notify_keys :: NotifyKeys
  as_geoip_resolver :: "geoip_resolver option"

text \<open>What starting up asks of the outside.\<close>

record boot =
  bo_ext :: ext
  bo_geoip_from_s3 :: "string \<Rightarrow> string \<Rightarrow> (geoip_resolver, string) result"
  bo_postgres :: "string \<Rightarrow> nat \<Rightarrow> (unit, sqlx_error) result"
  bo_migrate :: "(unit, string) result"
  bo_fill_bytes :: "bytes \<Rightarrow> bytes"
  bo_signing_key :: "bytes \<Rightarrow> bytes"
  bo_host_str :: "string \<Rightarrow> string option"
  bo_urls :: url_lib
  bo_as_jwt :: "AuthToken \<Rightarrow> bytes \<Rightarrow> (string, string) result"
  bo_version :: string
  bo_relay_client :: "ConnectionOptions \<Rightarrow> (unit, string) result"
  bo_redis_pool :: "string \<Rightarrow> nat \<Rightarrow> (unit, string) result"
  bo_header_value :: "string \<Rightarrow> (unit, string) result"
  bo_http_client :: "(unit, string) result"
  bo_provider :: "string \<Rightarrow> string \<Rightarrow> (unit, string) result"

datatype boot_error = BootError NotifyServerError | BootPanics

definition get_geoip_resolver :: "boot \<Rightarrow> Configuration \<Rightarrow> geoip_resolver option" where
  "get_geoip_resolver B c =
     (case (cf_geoip_db_bucket c, cf_geoip_db_key c) of
        (Some bucket, Some key) \<Rightarrow> (case bo_geoip_from_s3 B bucket key of Inl e \<Rightarrow> None | Inr r \<Rightarrow> Some r)
      | _ \<Rightarrow> None)"

text \<open>The keys must be 32 bytes of hex that are a public key: each \<open>unwrap\<close> panics otherwise.\<close>

definition relay_identity :: "ext \<Rightarrow> string \<Rightarrow> string option" where
  "relay_identity X relay_public_key =
     (case hex_decode X relay_public_key of
        Inl e \<Rightarrow> None
      | Inr key \<Rightarrow> if length key = 32 \<and> ed25519_public_key_ok X key then Some (to_did_key X (get_client_id key)) else None)"

definition keys_error :: "NotifyKeysError \<Rightarrow> NotifyServerError" where
  "keys_error e = (case e of NkUrlMissingHost \<Rightarrow> UrlMissingHost)"

definition AppState_new ::
  "boot \<Rightarrow> (IpAddr, geo_data) NotifyAnalytics \<Rightarrow> Configuration \<Rightarrow> bytes \<Rightarrow> bytes \<Rightarrow> ConnectionOptions \<Rightarrow> Redis option
     \<Rightarrow> geoip_resolver option \<Rightarrow> (AppState, boot_error) result" where
  "AppState_new B analytics c keypair keypair_seed relay_client redis resolver =
     rbind (ok_or (relay_identity (bo_ext B) (cf_relay_public_key c)) BootPanics) (\<lambda>identity.
     rbind (map_err (BootError \<circ> keys_error)
              (NotifyKeys_new (bo_ext B) (bo_host_str B) (bo_fill_bytes B) (bo_signing_key B) (cf_notify_url c) keypair_seed)) (\<lambda>keys.
       Inr \<lparr> as_config = c, as_analytics = analytics, as_keypair = keypair, as_relay_client = relay_client,
         as_relay_identity = identity, as_redis = redis, as_notify_keys = keys, as_geoip_resolver = resolver \<rparr>))"

text \<open>\<open>RegistryHttpClient::new\<close>: the endpoint, the header with the token, the client.\<close>

definition RegistryHttpClient_new :: "boot \<Rightarrow> string \<Rightarrow> string \<Rightarrow> (string, NotifyServerError) result" where
  "RegistryHttpClient_new B registry_url auth_token =
     rbind (ok_or (url_join (bo_ext B) registry_url ''/internal/project/validate-notify-keys'') (UrlError ''join'')) (\<lambda>endpoint.
     rbind (map_err InvalidHeaderValue (bo_header_value B (''Bearer '' @ auth_token))) (\<lambda>_.
     rbind (map_err Reqwest (bo_http_client B)) (\<lambda>_. Inr endpoint)))"

text \<open>
  \<open>bootstrap\<close> up to the state of the server; the services it starts then are those of \<open>Server\<close>.
\<close>

definition bootstrap_state :: "boot \<Rightarrow> Configuration \<Rightarrow> (AppState, boot_error) result" where
  "bootstrap_state B c =
     (let X = bo_ext B; resolver = get_geoip_resolver B c;
          analytics = analytics_initialize (cf_analytics_export_bucket c) (cf_public_ip c) resolver in
      rbind (map_err (BootError \<circ> Sqlx) (bo_postgres B (cf_postgres_url c) (cf_postgres_max_connections c))) (\<lambda>_.
      rbind (map_err (BootError \<circ> SqlxMigration) (bo_migrate B)) (\<lambda>_.
      rbind (map_err (\<lambda>_. BootError InvalidKeypairSeed) (decode_key X (sha256_digest X (as_bytes (cf_keypair_seed c))))) (\<lambda>seed.
      let keypair = bo_signing_key B seed in
      rbind (map_err BootError (create_http_connect_options X (bo_urls B) (bo_as_jwt B) (bo_version B) keypair
               (cf_relay_url c) (cf_notify_url c) (cf_project_id c))) (\<lambda>options.
      rbind (map_err (BootError \<circ> RelayClient) (bo_relay_client B options)) (\<lambda>_.
      rbind (case auth_redis_addr c of
               None \<Rightarrow> Inr None
             | Some addr \<Rightarrow> map_ok Some (map_err (BootError \<circ> RegistryStorage)
                 (Redis_new (bo_redis_pool B) addr (cf_redis_pool_size c)))) (\<lambda>redis.
      rbind (map_err BootError (RegistryHttpClient_new B (cf_registry_url c) (cf_registry_auth_token c))) (\<lambda>_.
      rbind (case cf_blockchain_api_endpoint c of
               None \<Rightarrow> Inr ()
             | Some endpoint \<Rightarrow>
                 rbind (ok_or (url_parse X endpoint) (BootError (UrlError endpoint))) (\<lambda>endpoint.
                   map_err (BootError \<circ> Reqwest) (bo_provider B (cf_project_id c) endpoint))) (\<lambda>_.
        AppState_new B analytics c keypair seed options redis resolver)))))))))"

section \<open>What the handlers see\<close>

definition state_env :: "AppState \<Rightarrow> env \<Rightarrow> env" where
  "state_env st E = E\<lparr> en_redis := (as_redis st \<noteq> None), en_notify_url := cf_notify_url (as_config st),
     en_notify_keys := as_notify_keys st, en_relay_identity := as_relay_identity st,
     en_webhook_notify_url := cf_webhook_notify_url (as_config st) \<rparr>"

lemma state_env_simps [simp]:
  "en_ext (state_env st E) = en_ext E" "en_redis (state_env st E) = (as_redis st \<noteq> None)"
  "en_notify_url (state_env st E) = cf_notify_url (as_config st)" "en_notify_keys (state_env st E) = as_notify_keys st"
  "en_relay_identity (state_env st E) = as_relay_identity st"
  "en_webhook_notify_url (state_env st E) = cf_webhook_notify_url (as_config st)"
  by (simp_all add: state_env_def)

lemma relay_identity_Some:
  "relay_identity X k = Some i \<longleftrightarrow>
     (\<exists>key. hex_decode X k = Inr key \<and> length key = 32 \<and> ed25519_public_key_ok X key \<and> i = to_did_key X key)"
  by (auto simp: relay_identity_def get_client_id_def split: sum.splits)

lemma bootstrap_state_ok:
  assumes "bootstrap_state B c = Inr st"
  shows "as_config st = c" "relay_identity (bo_ext B) (cf_relay_public_key c) = Some (as_relay_identity st)"
    and "as_redis st = map_option (\<lambda>a. \<lparr> read_pool = Addr_read a, write_pool = Addr_write a \<rparr>) (auth_redis_addr c)"
    and "\<exists>seed. decode_key (bo_ext B) (sha256_digest (bo_ext B) (as_bytes (cf_keypair_seed c))) = Inr seed \<and>
      NotifyKeys_new (bo_ext B) (bo_host_str B) (bo_fill_bytes B) (bo_signing_key B) (cf_notify_url c) seed = Inr (as_notify_keys st)"
    and "create_http_connect_options (bo_ext B) (bo_urls B) (bo_as_jwt B) (bo_version B) (as_keypair st)
      (cf_relay_url c) (cf_notify_url c) (cf_project_id c) = Inr (as_relay_client st)"
  using assms
  by (auto simp: bootstrap_state_def Let_def AppState_new_def rbind_Inr_iff map_ok_Inr_iff Redis_new_ok
      split: option.splits)

lemma webhook_untouched:
  assumes "webhook_handler E try_from_str verify_basic events w = (r, w')" "w' \<noteq> w \<or> is_ok r"
  shows "\<exists>jwt claims. events = [jwt] \<and> try_from_str jwt = Inr claims \<and>
    verify_basic claims (en_webhook_notify_url E) = Inr () \<and> wec_iss claims = en_relay_identity E"
  using assms
  by (cases events)
     (auto simp: webhook_handler_def h_bind_def h_guard_def h_lift_def h_fail_def h_return_def is_ok_def
        split: sum.splits if_splits list.splits)

lemma NotifyKeys_new_ok:
  assumes "NotifyKeys_new X host fill gen url seed = Inr keys"
  shows "nk_authentication_secret keys = gen seed" "nk_key_agreement_secret keys = fill seed" "host url = Some (nk_domain keys)"
  using assms by (auto simp: NotifyKeys_new_def Let_def rbind_Inr_iff)

text \<open>
  C31. Only the configured relay is heard. A server that started from a configuration changes anything
  on a call of its webhook, or answers it with success, only when the call carries one event, signed
  for the configured webhook URL, whose issuer is the did:key of the configured relay key; and the
  keys with which it signs answers and opens subscriptions are those of the configured seed, under
  the host of the configured URL.
\<close>

theorem configured_relay_only:
  assumes "bootstrap_state B c = Inr st" "bo_ext B = en_ext E"
    and "webhook_handler (state_env st E) try_from_str verify_basic events w = (r, w')" "w' \<noteq> w \<or> is_ok r"
  shows "\<exists>jwt claims key. events = [jwt] \<and> try_from_str jwt = Inr claims \<and>
    verify_basic claims (cf_webhook_notify_url c) = Inr () \<and>
    hex_decode (en_ext E) (cf_relay_public_key c) = Inr key \<and> length key = 32 \<and> wec_iss claims = to_did_key (en_ext E) key \<and>
    (\<exists>seed. decode_key (en_ext E) (sha256_digest (en_ext E) (as_bytes (cf_keypair_seed c))) = Inr seed \<and>
       nk_authentication_secret (en_notify_keys (state_env st E)) = bo_signing_key B seed \<and>
       nk_key_agreement_secret (en_notify_keys (state_env st E)) = bo_fill_bytes B seed \<and>
       bo_host_str B (cf_notify_url c) = Some (nk_domain (en_notify_keys (state_env st E))))"
proof -
  note st = bootstrap_state_ok [OF assms(1)]
  obtain seed where seed: "decode_key (en_ext E) (sha256_digest (en_ext E) (as_bytes (cf_keypair_seed c))) = Inr seed"
    "NotifyKeys_new (en_ext E) (bo_host_str B) (bo_fill_bytes B) (bo_signing_key B) (cf_notify_url c) seed = Inr (as_notify_keys st)"
    using st(4) assms(2) by auto
  then show ?thesis
    using NotifyKeys_new_ok [OF seed(2)] webhook_untouched [OF assms(3,4)] st(1,2) seed(1) assms(2) by (auto simp: relay_identity_Some)
qed

section \<open>Witness\<close>

definition boot_demo :: boot where
  "boot_demo = \<lparr> bo_ext = ext_demo,
     bo_geoip_from_s3 = (\<lambda>b k. Inl ''none''), bo_postgres = (\<lambda>u n. Inr ()), bo_migrate = Inr (), bo_fill_bytes = (\<lambda>s. s),
     bo_signing_key = (\<lambda>s. s), bo_host_str = (\<lambda>u. Some ''notify''),
     bo_urls = \<lparr> ul_scheme = (\<lambda>u. ''wss''), ul_set_scheme = (\<lambda>u s. Some (s @ ''://relay'')), ul_origin = (\<lambda>u. u) \<rparr>,
     bo_as_jwt = (\<lambda>t k. Inr ''jwt''), bo_version = ''1'', bo_relay_client = (\<lambda>_. Inr ()), bo_redis_pool = (\<lambda>u n. Inr ()),
     bo_header_value = (\<lambda>s. Inr ()), bo_http_client = Inr (), bo_provider = (\<lambda>p u. Inr ()) \<rparr>"

definition config_demo :: Configuration where
  "config_demo = \<lparr> cf_public_ip = V4 [1, 1, 1, 1], cf_bind_ip = deployed_bind_ip, cf_port = default_port,
     cf_log_level = deployed_log_level, cf_postgres_url = ''postgres'', cf_postgres_max_connections = 10,
     cf_keypair_seed = replicate 32 (CHR ''s''), cf_project_id = ''project'', cf_blockchain_api_endpoint = None,
     cf_relay_url = ''wss://relay'', cf_relay_public_key = hex_demo (replicate 32 5), cf_notify_url = ''https://notify'',
     cf_webhook_notify_url = ''https://notify'', cf_registry_url = ''https://registry'', cf_registry_auth_token = ''token'',
     cf_auth_redis_addr_read = None, cf_auth_redis_addr_write = None, cf_redis_pool_size = 1,
     cf_telemetry_prometheus_port = None, cf_s3_endpoint = None, cf_geoip_db_bucket = None, cf_geoip_db_key = None,
     cf_blocked_countries = [], cf_analytics_export_bucket = None \<rparr>"

text \<open>The relay queues a message: its receipt is noted.\<close>

lemma bootstrap_demo: "\<exists>st. bootstrap_state boot_demo config_demo = Inr st"
proof -
  have seed: "decode_key ext_demo (sha256_digest ext_demo (as_bytes (replicate 32 (CHR ''s'')))) = Inr (as_bytes (replicate 32 (CHR ''s'')))"
    using decode_key_demo [of "as_bytes (replicate 32 (CHR ''s''))"] by (simp add: ext_demo_def as_bytes_def)
  have key: "relay_identity ext_demo (hex_demo (replicate 32 5)) = Some (did_key_demo (replicate 32 5))"
    using hex_laws_demo by (simp add: relay_identity_def hex_laws_def ext_demo_def get_client_id_def)
  show ?thesis
    using seed key
    by (simp add: bootstrap_state_def boot_demo_def config_demo_def Let_def rbind_def map_err_def ok_or_def
        create_http_connect_options_def create_connect_options_def auth_redis_addr_def RegistryHttpClient_new_def
        AppState_new_def NotifyKeys_new_def) (simp add: ext_demo_def)
qed

theorem configured_relay_only_witness:
  "\<exists>st claims. bootstrap_state boot_demo config_demo = Inr st \<and>
     fst (webhook_handler (state_env st env_demo) (\<lambda>s. Inr claims) (\<lambda>c u. Inr ()) [''jwt''] (world_demo demo_db6)) =
       Inr \<lparr> r_status = 204, r_body = Empty \<rparr> \<and>
     wec_iss claims = to_did_key ext_demo (replicate 32 5)"
proof -
  obtain st where st: "bootstrap_state boot_demo config_demo = Inr st" using bootstrap_demo by blast
  define claims where "claims = \<lparr> wec_iss = as_relay_identity st, wec_act = WatchEvent, wec_typ = Subscriber_watch,
      wec_status = Queued_status, wec_topic = ''t'', wec_message_id = 1, wec_message = ''m'', wec_tag = 4000 \<rparr>"
  let ?m = "webhook_handler (state_env st env_demo) (\<lambda>s. Inr claims) (\<lambda>c u. Inr ()) [''jwt''] (world_demo demo_db6)"
  have ok: "fst ?m = Inr \<lparr> r_status = 204, r_body = Empty \<rparr>"
    by (simp add: webhook_handler_def h_bind_def h_guard_def h_lift_def h_return_def claims_def)
  have X: "bo_ext boot_demo = en_ext env_demo" "en_ext env_demo = ext_demo" by (simp_all add: boot_demo_def env_demo_def)
  have "is_ok (fst ?m)" unfolding ok by (simp add: is_ok_def)
  from configured_relay_only [OF st X(1) surjective_pairing [of ?m] disjI2 [OF this]]
  obtain key where key: "hex_decode ext_demo (cf_relay_public_key config_demo) = Inr key" "wec_iss claims = to_did_key ext_demo key"
    unfolding X by blast
  have "key = replicate 32 5"
    using key(1) hex_laws_demo by (simp add: config_demo_def hex_laws_def ext_demo_def)
  then show ?thesis using st ok key(2) by blast
qed

end
