(* ===== verification/Routes.thy ===== *)
theory Routes
  imports Server Startup
begin

text \<open>
  The public HTTP server (\<open>start\<close> of \<open>src/src/services/public_http_server/mod.rs\<close>): its routes, the
  layers around them, and what a request becomes for the server. \<open>axum\<close> matches a path by its
  segments, prefers a literal segment to a parameter (the order of the routes here), answers 404 when no
  path matches and 405 when the path has no route for the method; \<open>get\<close> serves HEAD as well.
\<close>

section \<open>Routes\<close>

datatype http_method = GET | HEAD | POST | OPTIONS | Other_method

datatype endpoint =
    Health
  | Did_json
  | Relay_webhook
  | Notification_link_endpoint
  | Notify_v0_endpoint
  | Notify_v1_endpoint
  | Subscribers_v0_endpoint
  | Subscribers_v1_endpoint
  | Subscribe_topic_endpoint
  | Get_welcome_endpoint
  | Post_welcome_endpoint
  | Mark_all_as_read_endpoint

definition DID_JSON_ENDPOINT :: string where
  "DID_JSON_ENDPOINT = ''/.well-known/did.json''"

definition ROUTES :: "(string \<times> http_method \<times> endpoint) list" where
  "ROUTES =
     [(''/health'', GET, Health),
      (DID_JSON_ENDPOINT, GET, Did_json),
      (RELAY_WEBHOOK_ENDPOINT, POST, Relay_webhook),
      (''/v1/notification/:subscriber_notification_id'', GET, Notification_link_endpoint),
      (''/:project_id/notify'', POST, Notify_v0_endpoint),
      (''/v1/:project_id/notify'', POST, Notify_v1_endpoint),
      (''/:project_id/subscribers'', GET, Subscribers_v0_endpoint),
      (''/v1/:project_id/subscribers'', POST, Subscribers_v1_endpoint),
      (''/:project_id/subscribe-topic'', POST, Subscribe_topic_endpoint),
      (''/v0/:project_id/welcome-notification'', GET, Get_welcome_endpoint),
      (''/v0/:project_id/welcome-notification'', POST, Post_welcome_endpoint),
      (''/v1/:project_id/mark-all-as-read'', GET, Mark_all_as_read_endpoint)]"

fun match_segments :: "string list \<Rightarrow> string list \<Rightarrow> (string \<times> string) list option" where
  "match_segments [] [] = Some []"
| "match_segments (p # ps) (x # xs) =
     (if starts_with '':'' p
      then if x = [] then None else map_option ((#) (tl p, x)) (match_segments ps xs)
      else if p = x then match_segments ps xs else None)"
| "match_segments _ _ = None"

definition match_path :: "string \<Rightarrow> string \<Rightarrow> (string \<times> string) list option" where
  "match_path pattern path = match_segments (split_char (CHR ''/'') pattern) (split_char (CHR ''/'') path)"

fun method_matches :: "http_method \<Rightarrow> http_method \<Rightarrow> bool" where
  "method_matches GET m \<longleftrightarrow> m = GET \<or> m = HEAD"
| "method_matches r m \<longleftrightarrow> m = r"

datatype routed = Not_found | Method_not_allowed | Routed endpoint "(string \<times> string) list"

definition route :: "http_method \<Rightarrow> string \<Rightarrow> routed" where
  "route m path =
     (case find (\<lambda>(pattern, _). match_path pattern path \<noteq> None) ROUTES of
        None \<Rightarrow> Not_found
      | Some (pattern, _) \<Rightarrow>
          (case find (\<lambda>(p, r, _). p = pattern \<and> method_matches r m) ROUTES of
             None \<Rightarrow> Method_not_allowed
           | Some (_, _, ep) \<Rightarrow> Routed ep (the (match_path pattern path))))"

section \<open>Requests\<close>

text \<open>
  A request: what its line and headers say, and what each handler's body extractor would make of its
  body, the value or a status.
\<close>

record http_request =
  hr_method :: http_method
  hr_path :: string
  hr_bearer :: "string option"
  hr_link_headers :: link_headers
  hr_event_auth :: "(string list, nat) result"
  hr_notify_v0 :: "(NotifyBodyNotification, nat) result"
  hr_notify_v1 :: "(NotifyBodyNotification list, nat) result"
  hr_subscribers :: "(string list, nat) result"
  hr_subscribe_topic :: "(string, nat) result"
  hr_welcome :: "(WelcomeNotification, nat) result"

definition project_body :: "http_request \<Rightarrow> endpoint \<Rightarrow> (project_request, nat) result option" where
  "project_body req ep =
     (case ep of
        Notify_v0_endpoint \<Rightarrow> Some (map_ok Notify_v0 (hr_notify_v0 req))
      | Notify_v1_endpoint \<Rightarrow> Some (map_ok Notify_v1 (hr_notify_v1 req))
      | Subscribers_v0_endpoint \<Rightarrow> Some (Inr Subscribers_v0)
      | Subscribers_v1_endpoint \<Rightarrow> Some (map_ok Subscribers_v1 (hr_subscribers req))
      | Subscribe_topic_endpoint \<Rightarrow> Some (map_ok Subscribe_topic (hr_subscribe_topic req))
      | Get_welcome_endpoint \<Rightarrow> Some (Inr Get_welcome)
      | Post_welcome_endpoint \<Rightarrow> Some (map_ok Post_welcome (hr_welcome req))
      | Mark_all_as_read_endpoint \<Rightarrow> Some (Inr Mark_all_as_read)
      | _ \<Rightarrow> None)"

text \<open>
  What a request meets besides the environment: the block by place (a status, when the layer is there and
  turns the request away), percent-decoding of a path segment, the registry, the libraries that parse and
  check watch events and their errors' texts, and whether a URL is a valid header.
\<close>

record http_outside =
  ho_geo_block :: "http_request \<Rightarrow> nat option"
  ho_decode :: "string \<Rightarrow> string option"
  ho_registry :: registry_http
  ho_try_from_str :: "string \<Rightarrow> (WatchEventClaims, string) result"
  ho_verify_basic :: "WatchEventClaims \<Rightarrow> string \<Rightarrow> (unit, string) result"
  ho_client_text :: "ClientError \<Rightarrow> string"
  ho_redirect_ok :: "string \<Rightarrow> bool"
  ho_geoip_resolver :: "geoip_resolver option"
  ho_crate_name :: string
  ho_crate_version :: string
  ho_base64url :: "bytes \<Rightarrow> string"

definition path_args :: "http_outside \<Rightarrow> (string \<times> string) list \<Rightarrow> (string \<Rightarrow> string option) option" where
  "path_args H args =
     (if list_all (\<lambda>(n, v). ho_decode H v \<noteq> None) args
      then Some (\<lambda>n. Option.bind (map_of args n) (ho_decode H)) else None)"

definition health_handler :: "http_outside \<Rightarrow> response" where
  "health_handler H = \<lparr> r_status = 200, r_body = Text (''OK, '' @ ho_crate_name H @ '' v'' @ ho_crate_version H) \<rparr>"

definition did_json_handler :: "env \<Rightarrow> http_outside \<Rightarrow> response" where
  "did_json_handler E H = \<lparr> r_status = 200,
     r_body = Text (json_to_string (en_ext E) (DidJson_to_json (en_ext E)
       (generate_json (en_ext E) (ho_base64url H) (en_notify_keys E)))) \<rparr>"

definition link_id :: "env \<Rightarrow> http_outside \<Rightarrow> (string \<times> string) list \<Rightarrow> uuid option" where
  "link_id E H args =
     Option.bind (path_args H args) (\<lambda>f. Option.bind (f ''subscriber_notification_id'') (uuid_parse (en_ext E)))"

text \<open>The event of a request to an endpoint, or the response that is given without one.\<close>

definition endpoint_event ::
  "env \<Rightarrow> http_outside \<Rightarrow> http_request \<Rightarrow> endpoint \<Rightarrow> (string \<times> string) list \<Rightarrow> (answer, event) sum" where
  "endpoint_event E H req ep args =
     (case project_body req ep of
        Some body \<Rightarrow> Inr (Project_request (ho_registry H) (path_args H args) (hr_bearer req) body)
      | None \<Rightarrow>
          (case ep of
             Relay_webhook \<Rightarrow>
               (case hr_event_auth req of
                  Inl status \<Rightarrow> Inl (Rejected status)
                | Inr events \<Rightarrow> Inr (Relay_event (ho_try_from_str H) (ho_verify_basic H) events (ho_client_text H)))
           | Notification_link_endpoint \<Rightarrow>
               (case link_id E H args of
                  None \<Rightarrow> Inl (Rejected 400)
                | Some i \<Rightarrow> Inr (Follow_link (ho_redirect_ok H) (ho_geoip_resolver H) (hr_link_headers req) i))
           | Did_json \<Rightarrow> Inl (Answer (did_json_handler E H))
           | _ \<Rightarrow> Inl (Answer (health_handler H))))"

text \<open>The layers: the block by place is outermost, CORS answers preflight requests itself.\<close>

definition public_http :: "env \<Rightarrow> http_outside \<Rightarrow> http_request \<Rightarrow> server \<Rightarrow> answer \<times> server" where
  "public_http E H req s =
     (case ho_geo_block H req of
        Some status \<Rightarrow> (Rejected status, s)
      | None \<Rightarrow>
          if hr_method req = OPTIONS then (Answer \<lparr> r_status = 200, r_body = Empty \<rparr>, s)
          else (case route (hr_method req) (hr_path req) of
                  Not_found \<Rightarrow> (Rejected 404, s)
                | Method_not_allowed \<Rightarrow> (Rejected 405, s)
                | Routed ep args \<Rightarrow>
                    (case endpoint_event E H req ep args of
                       Inl a \<Rightarrow> (a, s)
                     | Inr ev \<Rightarrow> (case serve E ev s of (a, s') \<Rightarrow> (the a, s')))))"

section \<open>The private server\<close>

definition private_port :: "nat option \<Rightarrow> nat" where
  "private_port telemetry_prometheus_port = (case telemetry_prometheus_port of None \<Rightarrow> 3001 | Some p \<Rightarrow> p)"

definition private_metrics_handler :: "(string, string) result \<Rightarrow> response" where
  "private_metrics_handler export =
     (case export of
        Inr content \<Rightarrow> \<lparr> r_status = 200, r_body = Text content \<rparr>
      | Inl e \<Rightarrow> \<lparr> r_status = 500, r_body = Text ''Failed to get metrics'' \<rparr>)"

definition private_http :: "(string, string) result \<Rightarrow> http_method \<Rightarrow> string \<Rightarrow> answer" where
  "private_http export m path =
     (if match_path ''/metrics'' path = None then Rejected 404
      else if method_matches GET m then Answer (private_metrics_handler export) else Rejected 405)"

section \<open>Facts\<close>

text \<open>Every request of HTTP is an event of the server or changes nothing.\<close>

lemma public_http_cases:
  obtains (unchanged) "snd (public_http E H req s) = s" "fst (public_http E H req s) \<noteq> Dropped"
    | (event) ev a where "serve E ev s = (a, snd (public_http E H req s))" "fst (public_http E H req s) = the a"
        "\<exists>ep args. route (hr_method req) (hr_path req) = Routed ep args \<and> endpoint_event E H req ep args = Inr ev"
proof (cases "\<exists>ep args ev. ho_geo_block H req = None \<and> hr_method req \<noteq> OPTIONS \<and>
    route (hr_method req) (hr_path req) = Routed ep args \<and> endpoint_event E H req ep args = Inr ev")
  case True
  then obtain ep args ev where r: "ho_geo_block H req = None" "hr_method req \<noteq> OPTIONS"
    "route (hr_method req) (hr_path req) = Routed ep args" "endpoint_event E H req ep args = Inr ev" by blast
  obtain a s' where "serve E ev s = (a, s')" by force
  then show ?thesis using event r by (simp add: public_http_def)
next
  case False
  have "endpoint_event E H req ep args = Inl b \<Longrightarrow> b \<noteq> Dropped" for ep args b
    by (auto simp: endpoint_event_def split: option.splits endpoint.splits sum.splits)
  then have "snd (public_http E H req s) = s \<and> fst (public_http E H req s) \<noteq> Dropped"
    using False by (auto simp: public_http_def split: option.split routed.split sum.split)
  then show ?thesis using unchanged by blast
qed

lemma public_http_step:
  assumes "en_ext E = X"
  shows "snd (public_http E H req s) = s \<or> server_step X s (snd (public_http E H req s))"
proof (cases rule: public_http_cases [of E H req s])
  case (event ev a)
  then show ?thesis using server_step.event [OF assms, of s ev] by simp
qed simp

text \<open>The one way in which following a link panics: the URL stored cannot be a header.\<close>

lemma notification_link_row:
  assumes "get_notification_link X i d = Inr (Some l)" "fl_notification_url l = Some u"
  shows "\<exists>r \<in> set (subscriber_notifications d). \<exists>n \<in> set (notifications d).
    sn_id r = i \<and> n_id n = sn_notification r \<and> n_url n = Some u"
proof -
  let ?rows = "[(r, s, p, n). r \<leftarrow> filter (\<lambda>r. sn_id r = i) (subscriber_notifications d),
    s \<leftarrow> filter (\<lambda>s. s_id s = sn_subscriber r) (subscribers d),
    p \<leftarrow> filter (\<lambda>p. p_id p = s_project s) (projects d), n \<leftarrow> filter (\<lambda>n. n_id n = sn_notification r) (notifications d)]"
  obtain r s p n where f: "fetch_optional ?rows = Some (r, s, p, n)" and "n_url n = Some u"
    using assms by (auto simp: get_notification_link_def map_ok_Inr_iff split: option.splits)
  moreover have "(r, s, p, n) \<in> set ?rows" using f by (cases ?rows) (simp_all add: fetch_optional_def)
  ultimately show ?thesis by auto
qed

lemma follow_link_panics:
  assumes "notification_link_handler E redirect_ok resolver headers i w = (Inl Panicked, w')"
  shows "\<exists>r \<in> set (subscriber_notifications (w_db w)). \<exists>n \<in> set (notifications (w_db w)). \<exists>u.
    sn_id r = i \<and> n_id n = sn_notification r \<and> n_url n = Some u \<and> \<not> redirect_ok u"
proof -
  obtain rl w1 where l: "link_rate_limit E i w = (rl, w1)" by force
  have "panic_free (\<lambda>_. True) (link_rate_limit E i)" unfolding link_rate_limit_def by (intro panic_intros)
  from panic_freeD(1) [OF this, of w] have "rl \<noteq> Inl Panicked" by (simp add: l)
  then obtain u where rl: "rl = Inr u" using assms l by (cases rl) (auto simp: notification_link_handler_def h_bind_def)
  then have db: "w_db w1 = w_db w" using l h_token_bucket_Inr unfolding link_rate_limit_def by fastforce
  show ?thesis
  proof (cases "get_notification_link (en_ext E) i (w_db w)")
    case (Inl e)
    then show ?thesis
      using assms by (simp add: notification_link_handler_def l rl h_bind_def h_defs db)
  next
    case (Inr found)
    with assms obtain link url where "found = Some link" "fl_notification_url link = Some url" "\<not> redirect_ok url"
      by (auto simp: notification_link_handler_def l rl h_bind_def h_defs db Let_def
          analytics_defs h_collect_def split: option.splits if_splits)
    then show ?thesis using notification_link_row Inr by blast
  qed
qed

text \<open>What a call of the webhook and a followed link may do.\<close>

lemma served_webhook:
  assumes "sound_env E" "wf_db (en_ext E) (sv_db s)" "serve E (Relay_event try_from_str verify_basic events client_text) s = (b, s')"
  shows "the b \<noteq> Dropped \<and> (sv_db s' = sv_db s \<or> (\<exists>jwt claims. events = [jwt] \<and> try_from_str jwt = Inr claims \<and>
    verify_basic claims (en_webhook_notify_url E) = Inr () \<and> wec_iss claims = en_relay_identity E))"
proof -
  obtain r w where h: "webhook_handler E try_from_str verify_basic events (sv_world s) = (r, w)" by force
  have "the b \<noteq> Dropped" "sv_world s' = w"
    using assms(3) h panic_freeD(1) [OF panic_free_webhook [OF assms(1)] assms(2), of try_from_str verify_basic events]
    by (auto simp: serve_def serve_world_def http_answer_def split: sum.splits failure.splits)
  then show ?thesis using webhook_untouched [OF h] by metis
qed

lemma served_link:
  assumes "serve E (Follow_link redirect_ok resolver headers i) s = (b, s')"
  shows "sv_db s' = sv_db s" and "the b = Dropped \<Longrightarrow>
    \<exists>r \<in> set (subscriber_notifications (sv_db s)). \<exists>n \<in> set (notifications (sv_db s)). \<exists>u.
      sn_id r = i \<and> n_id n = sn_notification r \<and> n_url n = Some u \<and> \<not> redirect_ok u"
proof -
  let ?m = "notification_link_handler E redirect_ok resolver headers i"
  show "sv_db s' = sv_db s"
    using assms http_answer_keeps [OF keeps_follow_link, of "\<lambda>d. d = sv_db s" "sv_world s"]
    by (auto simp: serve_def serve_world_def case_prod_beta)
  assume "the b = Dropped"
  then have "fst (?m (sv_world s)) = Inl Panicked"
    using assms by (auto simp: serve_def serve_world_def http_answer_def case_prod_beta split: sum.splits failure.splits)
  then show "\<exists>r \<in> set (subscriber_notifications (sv_db s)). \<exists>n \<in> set (notifications (sv_db s)). \<exists>u.
      sn_id r = i \<and> n_id n = sn_notification r \<and> n_url n = Some u \<and> \<not> redirect_ok u"
    using follow_link_panics [of E redirect_ok resolver headers i "sv_world s" "snd (?m (sv_world s))"] by (simp add: prod_eq_iff)
qed



section \<open>Witness\<close>

lemmas route_eval = route_def ROUTES_def DID_JSON_ENDPOINT_def RELAY_WEBHOOK_ENDPOINT_def match_path_def starts_with_def

text \<open>
  A link whose id reads like the name of a route is a link; a path of two routes with different methods
  knows both; reading marks are reset with GET.
\<close>

lemma route_examples:
  "route GET ''/v1/notification/notify'' = Routed Notification_link_endpoint [(''subscriber_notification_id'', ''notify'')]"
  "route POST ''/v1/notification/notify'' = Method_not_allowed"
  "route POST ''/v0/prj/welcome-notification'' = Routed Post_welcome_endpoint [(''project_id'', ''prj'')]"
  "route GET ''/v1/prj/mark-all-as-read'' = Routed Mark_all_as_read_endpoint [(''project_id'', ''prj'')]"
  "route GET ''/prj'' = Not_found"
  by (simp_all add: route_eval)

definition outside_demo :: http_outside where
  "outside_demo = \<lparr> ho_geo_block = (\<lambda>r. None), ho_decode = Some, ho_registry = (\<lambda>p k. Inr (200, Inr False)),
     ho_try_from_str = (\<lambda>s. Inl ''jwt''), ho_verify_basic = (\<lambda>c u. Inl ''url''), ho_client_text = (\<lambda>e. ''error''),
     ho_redirect_ok = (\<lambda>u. True), ho_geoip_resolver = None, ho_crate_name = ''notify-server'', ho_crate_version = ''1'',
     ho_base64url = hex_demo \<rparr>"

definition request_demo :: http_request where
  "request_demo = \<lparr> hr_method = POST, hr_path = ''/prj/subscribe-topic'', hr_bearer = Some ''wrong'',
     hr_link_headers = \<lparr> lh_x_forwarded_for = None, lh_user_agent = None \<rparr>, hr_event_auth = Inl 422, hr_notify_v0 = Inl 422,
     hr_notify_v1 = Inl 422, hr_subscribers = Inl 422, hr_subscribe_topic = Inr ''other.example'', hr_welcome = Inl 422 \<rparr>"


end
