(* ===== verification/Metrics.thy ===== *)
theory Metrics
  imports Registry Jobs Notify Analytics
begin

text \<open>
  The metrics (\<open>src/src/metrics.rs\<close>): the instruments, what each observation adds to them, and where
  the code makes them. An observation is a list of samples; the time that passed is an argument. The
  exporter is a third-party library. The server always has metrics; \<open>None\<close> occurs in tests only.
\<close>

section \<open>Instruments\<close>

datatype instrument_kind = Observable_gauge | Counter | Histogram

record Instrument =
  in_name :: string
  in_kind :: instrument_kind
  in_description :: string

text \<open>HTTP and the relay, then the other services, the notifications and the workers.\<close>

definition traffic_instruments :: "Instrument list" where
  "traffic_instruments =
    [\<lparr> in_name = ''subscribed_project_topics'', in_kind = Observable_gauge,
      in_description = ''The number of subscribed project topics'' \<rparr>,
    \<lparr> in_name = ''subscribed_subscriber_topics'', in_kind = Observable_gauge,
      in_description = ''The number of subscribed subscriber topics'' \<rparr>,
    \<lparr> in_name = ''subscribe_latency'', in_kind = Histogram,
      in_description = ''The amount of time it took to subscribe to all topics'' \<rparr>,
    \<lparr> in_name = ''http_requests'', in_kind = Counter,
      in_description = ''The number of HTTP requests handled'' \<rparr>,
    \<lparr> in_name = ''http_request_latency'', in_kind = Histogram,
      in_description = ''The latency handling HTTP requests'' \<rparr>,
    \<lparr> in_name = ''relay_incoming_messages'', in_kind = Counter,
      in_description = ''The number of relay messages handled'' \<rparr>,
    \<lparr> in_name = ''relay_incoming_message_latency'', in_kind = Histogram,
      in_description = ''The latency handling relay messages'' \<rparr>,
    \<lparr> in_name = ''relay_outgoing_messages'', in_kind = Counter,
      in_description = ''The number of outgoing relay messages being published (not including retries)'' \<rparr>,
    \<lparr> in_name = ''relay_outgoing_message_failures'', in_kind = Counter,
      in_description = ''The number of publish fails'' \<rparr>,
    \<lparr> in_name = ''relay_outgoing_message_latency'', in_kind = Histogram,
      in_description = ''The latency publishing relay messages w/ built-in retry'' \<rparr>,
    \<lparr> in_name = ''relay_outgoing_message_publish_latency'', in_kind = Histogram,
      in_description = ''The latency publishing relay messages'' \<rparr>,
    \<lparr> in_name = ''relay_subscribes'', in_kind = Counter,
      in_description = ''The number of subscribes to relay topics (not including retries)'' \<rparr>,
    \<lparr> in_name = ''relay_subscribe_failures'', in_kind = Counter,
      in_description = ''The number of failures to subscribe to relay topics'' \<rparr>,
    \<lparr> in_name = ''relay_subscribe_latency'', in_kind = Histogram,
      in_description = ''The latency subscribing to relay topics w/ built-in retry'' \<rparr>,
    \<lparr> in_name = ''relay_subscribe_request_latency'', in_kind = Histogram,
      in_description = ''The latency subscribing to relay topics'' \<rparr>,
    \<lparr> in_name = ''relay_batch_subscribes'', in_kind = Counter,
      in_description = ''The number of batch subscribes to relay topics (not including retries)'' \<rparr>,
    \<lparr> in_name = ''relay_batch_subscribe_failures'', in_kind = Counter,
      in_description = ''The number of failures to batch subscribe to relay topics'' \<rparr>,
    \<lparr> in_name = ''relay_batch_subscribe_latency'', in_kind = Histogram,
      in_description = ''The latency batch subscribing to relay topics w/ built-in retry'' \<rparr>,
    \<lparr> in_name = ''relay_batch_subscribe_request_latency'', in_kind = Histogram,
      in_description = ''The latency batch subscribing to relay topics'' \<rparr>]"

definition service_instruments :: "Instrument list" where
  "service_instruments =
    [\<lparr> in_name = ''postgres_queries'', in_kind = Counter,
      in_description = ''The number of Postgres queries executed'' \<rparr>,
    \<lparr> in_name = ''postgres_query_latency'', in_kind = Histogram,
      in_description = ''The latency Postgres queries'' \<rparr>,
    \<lparr> in_name = ''keys_server_requests'', in_kind = Counter,
      in_description = ''The number of Keys Server requests'' \<rparr>,
    \<lparr> in_name = ''keys_server_request_latency'', in_kind = Histogram,
      in_description = ''The latency Keys Server requests'' \<rparr>,
    \<lparr> in_name = ''registry_requests'', in_kind = Counter,
      in_description = ''The number of Registry requests'' \<rparr>,
    \<lparr> in_name = ''registry_request_latency'', in_kind = Histogram,
      in_description = ''The latency Registry requests'' \<rparr>,
    \<lparr> in_name = ''processed_notifications'', in_kind = Counter,
      in_description = ''The number of processed notifications'' \<rparr>,
    \<lparr> in_name = ''dispatched_notifications'', in_kind = Counter,
      in_description = ''The number of notification dispatched in one request'' \<rparr>,
    \<lparr> in_name = ''notify_latency'', in_kind = Histogram,
      in_description = ''The amount of time it took to dispatch all notifications'' \<rparr>,
    \<lparr> in_name = ''publishing_workers_count'', in_kind = Observable_gauge,
      in_description = ''The number of spawned publishing workers tasks'' \<rparr>,
    \<lparr> in_name = ''publishing_workers_errors'', in_kind = Counter,
      in_description = ''The number of publishing worker that ended with an error'' \<rparr>,
    \<lparr> in_name = ''publishing_queue_queued_size'', in_kind = Observable_gauge,
      in_description = ''The messages publishing queue size in queued state'' \<rparr>,
    \<lparr> in_name = ''publishing_queue_processing_size'', in_kind = Observable_gauge,
      in_description = ''The messages publishing queue size in processing state'' \<rparr>,
    \<lparr> in_name = ''publishing_queue_published_count'', in_kind = Counter,
      in_description = ''The number of published messages by workers'' \<rparr>]"

definition Metrics_new :: "Instrument list" where
  "Metrics_new = traffic_instruments @ service_instruments"

text \<open>The histograms with buckets of their own.\<close>

definition metric_views :: "(string \<times> nat list) list" where
  "metric_views =
     [(''relay_outgoing_message_latency'', [0, 25, 50, 75, 100, 250, 500, 750, 1000, 2500, 5000, 7500, 10000]),
      (''relay_subscribe_latency'', [0, 25, 50, 75, 100, 250, 500, 750, 1000, 2500, 5000, 7500, 10000]),
      (''keys_server_request_latency'',
       [0, 2, 5, 8, 10, 15, 20, 25, 30, 35, 40, 45, 50, 55, 60, 65, 70, 75, 100]),
      (''registry_request_latency'', [20, 50, 75, 100, 125, 150, 175, 200, 225, 250, 275, 300, 400])]"

section \<open>Observations\<close>

type_synonym attributes = "(string \<times> string) list"

datatype sample =
    Add string nat attributes
  | Record string nat attributes
  | Observe string nat attributes

fun sample_name :: "sample \<Rightarrow> string" where
  "sample_name (Add n v a) = n"
| "sample_name (Record n v a) = n"
| "sample_name (Observe n v a) = n"

text \<open>\<open>elapsed.as_millis() as u64\<close>, and \<open>try_into().unwrap()\<close>, which panics.\<close>

definition millis_u64 :: "duration \<Rightarrow> nat" where
  "millis_u64 elapsed = nat (elapsed div 1000) mod 2 ^ 64"

definition millis_exact :: "duration \<Rightarrow> nat option" where
  "millis_exact elapsed = (if nat (elapsed div 1000) < 2 ^ 64 then Some (nat (elapsed div 1000)) else None)"

definition bool_to_string :: "bool \<Rightarrow> string" where
  "bool_to_string b = (if b then ''true'' else ''false'')"

definition Metrics_http_request :: "string \<Rightarrow> string \<Rightarrow> nat \<Rightarrow> duration \<Rightarrow> sample list" where
  "Metrics_http_request endpoint method status elapsed =
     (let attributes = [(''endpoint'', endpoint), (''method'', method), (''status'', nat_to_string status)] in
      [Add ''http_requests'' 1 attributes, Record ''http_request_latency'' (millis_u64 elapsed) attributes])"

datatype RelayIncomingMessageStatus = Success_status | ClientError_status | ServerError_status

fun incoming_status_text :: "RelayIncomingMessageStatus \<Rightarrow> string" where
  "incoming_status_text Success_status = ''success''"
| "incoming_status_text ClientError_status = ''client_error''"
| "incoming_status_text ServerError_status = ''server_error''"

definition Metrics_relay_incoming_message :: "nat \<Rightarrow> RelayIncomingMessageStatus \<Rightarrow> duration \<Rightarrow> sample list" where
  "Metrics_relay_incoming_message tag status elapsed =
     (let attributes = [(''tag'', nat_to_string tag), (''status'', incoming_status_text status)] in
      [Add ''relay_incoming_messages'' 1 attributes,
       Record ''relay_incoming_message_latency'' (millis_u64 elapsed) attributes])"

definition Metrics_relay_outgoing_message :: "nat \<Rightarrow> bool \<Rightarrow> duration \<Rightarrow> sample list" where
  "Metrics_relay_outgoing_message tag success elapsed =
     (let attributes = [(''tag'', nat_to_string tag), (''success'', bool_to_string success)] in
      [Add ''relay_outgoing_messages'' 1 attributes,
       Record ''relay_outgoing_message_latency'' (millis_u64 elapsed) attributes])"

definition Metrics_relay_outgoing_message_failure :: "nat \<Rightarrow> bool \<Rightarrow> sample list" where
  "Metrics_relay_outgoing_message_failure tag is_permanent =
     [Add ''relay_outgoing_message_failures'' 1
        [(''tag'', nat_to_string tag), (''is_permanent'', bool_to_string is_permanent)]]"

definition Metrics_relay_outgoing_message_publish :: "nat \<Rightarrow> duration \<Rightarrow> sample list" where
  "Metrics_relay_outgoing_message_publish tag elapsed =
     [Record ''relay_outgoing_message_publish_latency'' (millis_u64 elapsed) [(''tag'', nat_to_string tag)]]"

definition Metrics_relay_subscribe :: "bool \<Rightarrow> duration \<Rightarrow> sample list" where
  "Metrics_relay_subscribe success elapsed =
     (let attributes = [(''success'', bool_to_string success)] in
      [Add ''relay_subscribes'' 1 attributes, Record ''relay_subscribe_latency'' (millis_u64 elapsed) attributes])"

definition Metrics_relay_subscribe_failure :: "bool \<Rightarrow> sample list" where
  "Metrics_relay_subscribe_failure is_permanent =
     [Add ''relay_subscribe_failures'' 1 [(''is_permanent'', bool_to_string is_permanent)]]"

definition Metrics_relay_subscribe_request :: "duration \<Rightarrow> sample list" where
  "Metrics_relay_subscribe_request elapsed = [Record ''relay_subscribe_request_latency'' (millis_u64 elapsed) []]"

definition Metrics_relay_batch_subscribe :: "bool \<Rightarrow> duration \<Rightarrow> sample list" where
  "Metrics_relay_batch_subscribe success elapsed =
     (let attributes = [(''success'', bool_to_string success)] in
      [Add ''relay_batch_subscribes'' 1 attributes,
       Record ''relay_batch_subscribe_latency'' (millis_u64 elapsed) attributes])"

definition Metrics_relay_batch_subscribe_failure :: "bool \<Rightarrow> sample list" where
  "Metrics_relay_batch_subscribe_failure is_permanent =
     [Add ''relay_batch_subscribe_failures'' 1 [(''is_permanent'', bool_to_string is_permanent)]]"

definition Metrics_relay_batch_subscribe_request :: "duration \<Rightarrow> sample list" where
  "Metrics_relay_batch_subscribe_request elapsed =
     [Record ''relay_batch_subscribe_request_latency'' (millis_u64 elapsed) []]"

definition Metrics_postgres_query :: "string \<Rightarrow> duration \<Rightarrow> sample list" where
  "Metrics_postgres_query query_name elapsed =
     (let attributes = [(''name'', query_name)] in
      [Add ''postgres_queries'' 1 attributes, Record ''postgres_query_latency'' (millis_u64 elapsed) attributes])"

datatype KeysServerResponseSource = Cache_source | Server_source

fun source_as_str :: "KeysServerResponseSource \<Rightarrow> string" where
  "source_as_str Cache_source = ''cache''"
| "source_as_str Server_source = ''server''"

definition Metrics_keys_server_request :: "duration \<Rightarrow> KeysServerResponseSource \<Rightarrow> sample list" where
  "Metrics_keys_server_request elapsed source =
     [Add ''keys_server_requests'' 1 [(''source'', source_as_str source)],
      Record ''keys_server_request_latency'' (millis_u64 elapsed) [(''source'', source_as_str source)]]"

definition Metrics_registry_request :: "duration \<Rightarrow> sample list" where
  "Metrics_registry_request elapsed =
     [Add ''registry_requests'' 1 [], Record ''registry_request_latency'' (millis_u64 elapsed) []]"

section \<open>Requests and messages\<close>

text \<open>The layer of the routes: the path is the route's pattern, and the response passes unchanged.\<close>

definition http_request_middleware ::
  "string \<Rightarrow> string \<Rightarrow> ('s \<Rightarrow> response \<times> 's) \<Rightarrow> duration \<Rightarrow> 's \<Rightarrow> (response \<times> sample list) \<times> 's" where
  "http_request_middleware path method next_layer elapsed s =
     (case next_layer s of (response, s') \<Rightarrow>
        ((response, Metrics_http_request path method (r_status response) elapsed), s'))"

text \<open>\<open>handle_msg\<close> with the status it counts.\<close>

definition incoming_status :: "(unit, RelayMessageError) result \<Rightarrow> RelayIncomingMessageStatus" where
  "incoming_status result =
     (case result of
        Inl (Client e) \<Rightarrow> ClientError_status
      | Inl (Server e) \<Rightarrow> ServerError_status
      | Inr u \<Rightarrow> Success_status)"

definition metered_handle_msg ::
  "env \<Rightarrow> RelayIncomingMessage \<Rightarrow> duration \<Rightarrow> world
     \<Rightarrow> ((unit, RelayMessageServerError failure) result \<times> sample list) \<times> world" where
  "metered_handle_msg E msg elapsed w =
     (case handle_by_tag E msg w of
        (Inl Panicked, w') \<Rightarrow> ((Inl Panicked, []), w')
      | (Inl (Failure e), w') \<Rightarrow>
          (((case e of Client e \<Rightarrow> Inr () | Server e \<Rightarrow> Inl (Failure e)),
            Metrics_relay_incoming_message (rm_tag msg) (incoming_status (Inl e)) elapsed), w')
      | (Inr u, w') \<Rightarrow>
          ((Inr (), Metrics_relay_incoming_message (rm_tag msg) (incoming_status (Inr u)) elapsed), w'))"

text \<open>Where \<open>verify_identity\<close> has the CACAO from, when it has one; the registry's answers, whatever they say.\<close>

definition keys_server_source :: "datetime \<Rightarrow> string \<Rightarrow> cacao_cache option \<Rightarrow> KeysServerResponseSource" where
  "keys_server_source now url redis =
     (case Option.bind redis (cache_get now (''keys-server-'' @ url)) of None \<Rightarrow> Server_source | Some c \<Rightarrow> Cache_source)"

definition keys_server_samples :: "ext \<Rightarrow> datetime \<Rightarrow> string \<Rightarrow> cacao_cache option \<Rightarrow> duration \<Rightarrow> sample list" where
  "keys_server_samples X now url redis elapsed =
     (case fst (keys_server_request_cached X now url redis) of
        Inl e \<Rightarrow> []
      | Inr cacao \<Rightarrow> Metrics_keys_server_request elapsed (keys_server_source now url redis))"

definition registry_samples :: "registry_http \<Rightarrow> string \<Rightarrow> string \<Rightarrow> duration \<Rightarrow> sample list" where
  "registry_samples http project_id secret elapsed =
     (case http project_id secret of Inl e \<Rightarrow> [] | Inr res \<Rightarrow> Metrics_registry_request elapsed)"

section \<open>Calls to the relay\<close>

text \<open>What a retry loop observes: each call, each failure, and the end. Times are those of its clock.\<close>

record loop_meter =
  lm_call :: "duration \<Rightarrow> sample list"
  lm_failure :: "bool \<Rightarrow> sample list"
  lm_end :: "bool \<Rightarrow> duration \<Rightarrow> sample list"

record loop_clock =
  lc_call :: "nat \<Rightarrow> duration"
  lc_total :: "nat \<Rightarrow> duration"

function metered_loop ::
  "loop_meter \<Rightarrow> loop_clock \<Rightarrow> (nat \<Rightarrow> (unit, 'e) result) \<Rightarrow> nat \<Rightarrow> (unit, 'e) result \<times> sample list" where
  "metered_loop m c ask tries =
     (case ask tries of
        Inr u \<Rightarrow> (Inr (), lm_call m (lc_call c tries) @ lm_end m True (lc_total c tries))
      | Inl e \<Rightarrow>
          let is_permanent = (tries + 1 \<ge> 10) in
          if is_permanent
          then (Inl e, lm_call m (lc_call c tries) @ lm_failure m is_permanent @ lm_end m False (lc_total c tries))
          else case metered_loop m c ask (tries + 1) of (r, out) \<Rightarrow>
            (r, lm_call m (lc_call c tries) @ lm_failure m is_permanent @ out))"
  by pat_completeness auto

termination
  by (relation "measure (\<lambda>(m, c, ask, tries). 10 - tries)") auto

declare metered_loop.simps [simp del]

definition publish_meter :: "nat \<Rightarrow> loop_meter" where
  "publish_meter tag = \<lparr> lm_call = Metrics_relay_outgoing_message_publish tag,
     lm_failure = Metrics_relay_outgoing_message_failure tag, lm_end = Metrics_relay_outgoing_message tag \<rparr>"

definition subscribe_meter :: loop_meter where
  "subscribe_meter = \<lparr> lm_call = Metrics_relay_subscribe_request,
     lm_failure = Metrics_relay_subscribe_failure, lm_end = Metrics_relay_subscribe \<rparr>"

definition batch_subscribe_meter :: loop_meter where
  "batch_subscribe_meter = \<lparr> lm_call = Metrics_relay_batch_subscribe_request,
     lm_failure = Metrics_relay_batch_subscribe_failure, lm_end = Metrics_relay_batch_subscribe \<rparr>"

definition metered_publish ::
  "Publish \<Rightarrow> loop_clock \<Rightarrow> (nat \<Rightarrow> (unit, PublishError) result) \<Rightarrow> (unit, PublishError) result \<times> sample list" where
  "metered_publish p c relay = metered_loop (publish_meter (pub_tag p)) c (publish_call relay) 0"

definition metered_subscribe ::
  "loop_clock \<Rightarrow> (nat \<Rightarrow> (unit, 'e) result) \<Rightarrow> (unit, 'e) result \<times> sample list" where
  "metered_subscribe c relay = metered_loop subscribe_meter c relay 0"

definition metered_batch_subscribe ::
  "loop_clock \<Rightarrow> (nat \<Rightarrow> (unit, 'e) result) \<Rightarrow> (unit, 'e) result \<times> sample list" where
  "metered_batch_subscribe c relay = metered_loop batch_subscribe_meter c relay 0"

section \<open>Notifications and jobs\<close>

definition send_metrics :: "ResponseBody \<Rightarrow> duration \<Rightarrow> sample list option" where
  "send_metrics response elapsed =
     map_option (\<lambda>ms.
       [Add ''dispatched_notifications'' (card (rb_sent response)) [(''type'', ''sent'')],
        Add ''dispatched_notifications'' (card (rb_failed response)) [(''type'', ''failed'')],
        Add ''dispatched_notifications'' (card (rb_not_found response)) [(''type'', ''not_found'')],
        Record ''notify_latency'' ms []]) (millis_exact elapsed)"

definition update_metrics_on_message_status_change :: "SubscriberNotificationStatus \<Rightarrow> sample list" where
  "update_metrics_on_message_status_change status =
     (if status = Published then [Add ''publishing_queue_published_count'' 1 []] else [])"

text \<open>The statistics, or the error of the query.\<close>

definition update_metrics_on_queue_stats :: "(PublishingQueueStats, sqlx_error) result \<Rightarrow> duration \<Rightarrow> sample list" where
  "update_metrics_on_queue_stats queue_stats elapsed =
     (case queue_stats of
        Inl e \<Rightarrow> []
      | Inr qs \<Rightarrow> Metrics_postgres_query ''get_publishing_queue_stats'' elapsed @
          [Observe ''publishing_queue_queued_size'' (qs_queued qs) [],
           Observe ''publishing_queue_processing_size'' (qs_processing qs) []])"

text \<open>
  The gauge of workers when one is spawned and when one ends, from the counter's value before; the
  subtraction panics at zero in a debug build.
\<close>

definition worker_spawned_samples :: "nat \<Rightarrow> sample list" where
  "worker_spawned_samples prev_spawned_tasks = [Observe ''publishing_workers_count'' (prev_spawned_tasks + 1) []]"

definition worker_ended_samples :: "(unit, sqlx_error) result \<Rightarrow> nat \<Rightarrow> sample list option" where
  "worker_ended_samples result prev_spawned_tasks =
     (if prev_spawned_tasks = 0 then None
      else Some ((case result of Inl e \<Rightarrow> [Add ''publishing_workers_errors'' 1 []] | Inr u \<Rightarrow> []) @
        [Observe ''publishing_workers_count'' (prev_spawned_tasks - 1) []]))"

text \<open>The end of a renewal, with the topics of the database it was started on.\<close>

definition renewal_samples :: "db \<Rightarrow> duration \<Rightarrow> sample list option" where
  "renewal_samples d elapsed =
     map_option (\<lambda>ms.
       [Observe ''subscribed_project_topics'' (length (get_project_topics d)) [],
        Observe ''subscribed_subscriber_topics'' (length (get_subscriber_topics d)) [],
        Record ''subscribe_latency'' ms []]) (millis_exact elapsed)"

section \<open>The observers of the analytics\<close>

text \<open>
  What \<open>Observer\<close> of \<open>src/src/analytics/mod.rs\<close> counts and logs when a batch is serialized, a record
  collected or a batch exported. These counters are made where they are used.
\<close>

datatype log_line = Info_line string | Warn_line string

definition kind_attributes :: "DataKind \<Rightarrow> bool \<Rightarrow> attributes" where
  "kind_attributes k success = [(''data_kind'', DataKind_as_str k), (''success'', bool_to_string success)]"

definition observe_batch_serialization :: "DataKind \<Rightarrow> (bytes, 'e) result \<Rightarrow> sample list \<times> log_line list" where
  "observe_batch_serialization k res =
     ([Add ''analytics_batches_finished'' 1 (kind_attributes k (is_ok res))],
      [if is_ok res then Info_line ''analytics data batch serialized'' else Warn_line ''failed to serialize analytics batch''])"

definition observe_collection :: "DataKind \<Rightarrow> (unit, 'e) result \<Rightarrow> sample list \<times> log_line list" where
  "observe_collection k res =
     ([Add ''analytics_records_collected'' 1 (kind_attributes k (is_ok res))],
      if is_ok res then [] else [Warn_line ''failed to collect analytics data''])"

definition observe_export :: "DataKind \<Rightarrow> (unit, 'e) result \<Rightarrow> sample list \<times> log_line list" where
  "observe_export k res =
     ([Add ''analytics_batches_exported'' 1 (kind_attributes k (is_ok res))],
      [if is_ok res then Info_line ''analytics export failed'' else Warn_line ''analytics export failed''])"

section \<open>Facts\<close>

text \<open>A successful export is logged as a failed one, only at another level.\<close>

lemma successful_export_logged_as_failed:
  "observe_export k (Inr ()) = ([Add ''analytics_batches_exported'' 1 (kind_attributes k True)], [Info_line ''analytics export failed''])"
  by (simp add: observe_export_def)

lemmas metrics_new_defs = Metrics_new_def traffic_instruments_def service_instruments_def

text \<open>Every instrument has its own name, and a view is one of a histogram.\<close>

lemma distinct_instruments: "distinct (map in_name Metrics_new)"
  by (simp add: metrics_new_defs)

lemma views_histograms:
  "list_all (\<lambda>(n, b). list_ex (\<lambda>i. in_name i = n \<and> in_kind i = Histogram) Metrics_new \<and> sorted b) metric_views"
  by (simp add: metrics_new_defs metric_views_def)

text \<open>A sample fits the kind of an instrument of the server.\<close>

definition sample_fits :: "sample \<Rightarrow> bool" where
  "sample_fits x = list_ex (\<lambda>i. in_name i = sample_name x \<and>
     (case x of Add _ _ _ \<Rightarrow> in_kind i = Counter | Record _ _ _ \<Rightarrow> in_kind i = Histogram
      | Observe _ _ _ \<Rightarrow> in_kind i = Observable_gauge)) Metrics_new"

text \<open>Every observation fits.\<close>

definition kind_names :: "instrument_kind \<Rightarrow> string list" where
  "kind_names k = map in_name (filter (\<lambda>i. in_kind i = k) Metrics_new)"

lemma sample_fits_names [simp]:
  "sample_fits (Add n v a) \<longleftrightarrow> n \<in> set (kind_names Counter)"
  "sample_fits (Record n v a) \<longleftrightarrow> n \<in> set (kind_names Histogram)"
  "sample_fits (Observe n v a) \<longleftrightarrow> n \<in> set (kind_names Observable_gauge)"
  by (auto simp: sample_fits_def kind_names_def list_ex_iff)

lemmas metric_defs = Metrics_http_request_def Metrics_relay_incoming_message_def Metrics_relay_outgoing_message_def
  Metrics_relay_outgoing_message_failure_def Metrics_relay_outgoing_message_publish_def Metrics_relay_subscribe_def
  Metrics_relay_subscribe_failure_def Metrics_relay_subscribe_request_def Metrics_relay_batch_subscribe_def
  Metrics_relay_batch_subscribe_failure_def Metrics_relay_batch_subscribe_request_def Metrics_postgres_query_def
  Metrics_keys_server_request_def Metrics_registry_request_def

lemma samples_fit:
  "list_all sample_fits (Metrics_http_request e mth st t)"
  "list_all sample_fits (Metrics_relay_incoming_message tag status t)"
  "list_all sample_fits (Metrics_relay_outgoing_message tag b t)"
  "list_all sample_fits (Metrics_relay_outgoing_message_failure tag b)"
  "list_all sample_fits (Metrics_relay_outgoing_message_publish tag t)"
  "list_all sample_fits (Metrics_relay_subscribe b t)"
  "list_all sample_fits (Metrics_relay_subscribe_failure b)"
  "list_all sample_fits (Metrics_relay_subscribe_request t)"
  "list_all sample_fits (Metrics_relay_batch_subscribe b t)"
  "list_all sample_fits (Metrics_relay_batch_subscribe_failure b)"
  "list_all sample_fits (Metrics_relay_batch_subscribe_request t)"
  "list_all sample_fits (Metrics_postgres_query q t)"
  "list_all sample_fits (Metrics_keys_server_request t source)"
  "list_all sample_fits (Metrics_registry_request t)"
  by (simp_all add: metric_defs Let_def kind_names_def metrics_new_defs)

text \<open>Metering leaves the outcome of a loop alone, and counts its calls and failures.\<close>

lemma metered_loop_spec:
  assumes "retry_loop ask tries = (r, n, ms)" "tries < 10"
  shows "metered_loop m c ask tries =
    (r, concat (map (\<lambda>k. lm_call m (lc_call c k) @ lm_failure m False) [tries..<n - 1]) @ lm_call m (lc_call c (n - 1)) @
      (if is_ok r then [] else lm_failure m True) @ lm_end m (is_ok r) (lc_total c (n - 1)))"
  using assms
proof (induction ask tries arbitrary: r n ms rule: retry_loop.induct)
  case (1 ask tries)
  show ?case
  proof (cases "ask tries")
    case (Inr u)
    have "r = Inr ()" "n = tries + 1" using 1(2) Inr by (simp_all add: retry_loop.simps [of ask tries])
    then show ?thesis by (simp add: Inr metered_loop.simps [of m c ask tries])
  next
    case (Inl e)
    show ?thesis
    proof (cases "tries + 1 \<ge> 10")
      case True
      have "r = Inl e" "n = tries + 1" using 1(2) Inl True by (simp_all add: retry_loop.simps [of ask tries])
      then show ?thesis using True by (simp add: Inl metered_loop.simps [of m c ask tries])
    next
      case False
      obtain r' n' ms' where rn: "retry_loop ask (tries + 1) = (r', n', ms')" by (metis prod_cases3)
      have lt: "tries + 1 < n'" using retry_loop_spec [of "tries + 1" ask] False rn by simp
      have "r' = r" "n' = n" using 1(2) Inl False rn by (simp_all add: retry_loop.simps [of ask tries])
      moreover have "[tries..<n - 1] = tries # [tries + 1..<n - 1]"
        using lt \<open>n' = n\<close> by (simp add: upt_conv_Cons)
      ultimately show ?thesis
        using 1(1) [OF Inl False rn] Inl False by (simp add: metered_loop.simps [of m c ask tries])
    qed
  qed
qed

lemma metered_publish_outcome: "fst (metered_publish p c relay) = publish_relay_message relay"
  using metered_loop_spec [of "publish_call relay" 0]
  by (cases "retry_loop (publish_call relay) 0") (simp add: metered_publish_def publish_relay_message_def)

lemma metered_subscribe_outcome: "fst (metered_subscribe c relay) = subscribe_relay_topic relay"
  using metered_loop_spec [of relay 0]
  by (cases "retry_loop relay 0") (simp add: metered_subscribe_def subscribe_relay_topic_def)

lemma metered_batch_subscribe_outcome: "fst (metered_batch_subscribe c relay) = batch_subscribe_relay_topics relay"
  using metered_loop_spec [of relay 0]
  by (cases "retry_loop relay 0") (simp add: metered_batch_subscribe_def batch_subscribe_relay_topics_def)

definition samples_of :: "string \<Rightarrow> sample list \<Rightarrow> sample list" where
  "samples_of n = filter (\<lambda>x. sample_name x = n)"

lemma filter_concat_none: "(\<And>x. x \<in> set xs \<Longrightarrow> filter P (f x) = []) \<Longrightarrow> filter P (concat (map f xs)) = []"
  by (induction xs) auto

text \<open>One message is counted once, with what became of it; each call and each failure is counted as well.\<close>

lemma metered_publish_counts:
  assumes "metered_publish p c relay = (r, out)" "retry_loop (publish_call relay) 0 = (r', n, ms)"
  shows "samples_of ''relay_outgoing_messages'' out =
      [Add ''relay_outgoing_messages'' 1 [(''tag'', nat_to_string (pub_tag p)), (''success'', bool_to_string (is_ok r))]]"
    and "length (samples_of ''relay_outgoing_message_publish_latency'' out) = n"
    and "length (samples_of ''relay_outgoing_message_failures'' out) = (if is_ok r then n - 1 else n)"
proof -
  have n: "1 \<le> n" using retry_loop_spec [of 0 "publish_call relay"] assms(2) by simp
  note out = assms(1) [unfolded metered_publish_def metered_loop_spec [OF assms(2) zero_less_numeral], symmetric]
  have len: "length (samples_of nm (concat (map (\<lambda>k. Metrics_relay_outgoing_message_publish t (f k) @
      Metrics_relay_outgoing_message_failure t False) ks))) =
      (if nm = ''relay_outgoing_message_publish_latency'' \<or> nm = ''relay_outgoing_message_failures'' then length ks else 0)"
    for nm t f and ks :: "nat list"
    by (induction ks) (auto simp: samples_of_def metric_defs Let_def)
  show "samples_of ''relay_outgoing_messages'' out =
      [Add ''relay_outgoing_messages'' 1 [(''tag'', nat_to_string (pub_tag p)), (''success'', bool_to_string (is_ok r))]]"
    using out by (auto simp: publish_meter_def samples_of_def metric_defs Let_def intro!: filter_concat_none)
  show "length (samples_of ''relay_outgoing_message_publish_latency'' out) = n"
    "length (samples_of ''relay_outgoing_message_failures'' out) = (if is_ok r then n - 1 else n)"
    using out n len [unfolded samples_of_def] by (auto simp: publish_meter_def samples_of_def metric_defs Let_def)
qed

lemma metered_handle_msg_outcome:
  "metered_handle_msg E msg elapsed w = ((r, out), w') \<Longrightarrow> handle_msg E msg w = (r, w')"
  by (auto simp: metered_handle_msg_def handle_msg_def h_bind_def h_try_def h_fail_def h_return_def
      split: prod.splits sum.splits failure.splits RelayMessageError.splits)

text \<open>The subtraction of a worker that ends never meets a counter of zero.\<close>

lemma worker_ended_counted:
  assumes "workers_step\<^sup>*\<^sup>* workers_start s" "0 < wk_live s"
  shows "worker_ended_samples r (wk_counter s) \<noteq> None"
  using workers.reachable_inv [OF refl assms(1)] assms(2) by (auto simp: workers_inv_def worker_ended_samples_def)

end
