(* ===== verification/Limits.thy ===== *)
theory Limits
  imports Rate_Limit Storage Relay_Errors
begin

text \<open>
  Rate limiting over a Redis that may fail (\<open>src/src/rate_limit/token_bucket.rs\<close>): the pool may give no
  connection, and the script's call may fail before or after the script has run. The errors and what
  the handlers make of them; without failures this is \<open>Rate_Limit\<close>, which the handlers' monad uses, and whose
  \<open>rate_limit_bound\<close> is the bound without failures.
\<close>

datatype InternalRateLimitError = Pool_error string | Script_error string

datatype limit_error = Exceeded int | Internal InternalRateLimitError

fun internal_limit_text :: "InternalRateLimitError \<Rightarrow> string" where
  "internal_limit_text (Pool_error x) = ''Pool error '' @ x"
| "internal_limit_text (Script_error x) = ''Redis error: '' @ x"

fun limit_to_notify_error :: "limit_error \<Rightarrow> NotifyServerError" where
  "limit_to_notify_error (Exceeded reset) = TooManyRequests reset"
| "limit_to_notify_error (Internal e) = RateLimit (internal_limit_text e)"

fun limit_to_relay_error :: "limit_error \<Rightarrow> RelayMessageError" where
  "limit_to_relay_error (Exceeded reset) = Client (RcRateLimitExceeded reset)"
| "limit_to_relay_error (Internal e) = Server (RsNotifyServer (RateLimit (internal_limit_text e)))"

definition token_bucket_many_stored ::
  "redis_io \<Rightarrow> int \<Rightarrow> int \<Rightarrow> int \<Rightarrow> int \<Rightarrow> int \<Rightarrow> string list \<Rightarrow> redis_buckets
     \<Rightarrow> (string \<rightharpoonup> int \<times> int, InternalRateLimitError) result \<times> redis_buckets" where
  "token_bucket_many_stored io max_tokens interval refill_rate now rnow keys st =
     (case io_connect io of
        Inl x \<Rightarrow> (Inl (Pool_error x), st)
      | Inr _ \<Rightarrow>
          (case token_bucket_many max_tokens interval refill_rate now rnow keys st of
             (results, st') \<Rightarrow>
               (case io_command io of
                  Inl x \<Rightarrow> (Inl (Script_error x), if io_applied io then st' else st)
                | Inr _ \<Rightarrow> (Inr results, st'))))"

text \<open>\<open>None\<close> is the \<open>expect\<close> on the key.\<close>

definition token_bucket_stored ::
  "redis_io \<Rightarrow> int \<Rightarrow> int \<Rightarrow> int \<Rightarrow> int \<Rightarrow> int \<Rightarrow> string \<Rightarrow> redis_buckets
     \<Rightarrow> (unit, limit_error) result option \<times> redis_buckets" where
  "token_bucket_stored io max_tokens interval refill_rate now rnow key st =
     (case token_bucket_many_stored io max_tokens interval refill_rate now rnow [key] st of
        (Inl e, st') \<Rightarrow> (Some (Inl (Internal e)), st')
      | (Inr results, st') \<Rightarrow>
          ((case results key of
              None \<Rightarrow> None
            | Some (remaining, reset) \<Rightarrow> Some (if remaining < 0 then Inl (Exceeded (reset div 1000)) else Inr ())), st'))"

section \<open>Facts\<close>

text \<open>Where Redis answers, this is the token bucket of the handlers.\<close>

definition limit_error_of :: "RateLimitError \<Rightarrow> limit_error" where
  "limit_error_of e = (case e of RateLimitExceeded reset \<Rightarrow> Exceeded reset)"

lemma token_bucket_stored_smooth:
  "token_bucket_stored smooth_io m i r now rnow key st =
     apfst (map_option (map_err limit_error_of)) (token_bucket m i r now rnow key st)"
  by (auto simp: token_bucket_stored_def token_bucket_many_stored_def token_bucket_def smooth_io_def map_err_def
      limit_error_of_def split: option.splits prod.splits)

lemma token_bucket_stored_no_panic: "fst (token_bucket_stored io m i r now rnow key st) \<noteq> None"
proof -
  obtain results st' where many: "token_bucket_many m i r now rnow [key] st = (results, st')" by force
  have "key \<in> dom results" using token_bucket_many_dom [of m i r now rnow "[key]" st] many by simp
  then show ?thesis using many by (auto simp: token_bucket_stored_def token_bucket_many_stored_def split: sum.splits)
qed

text \<open>Whether the script runs, and whether its answer arrives.\<close>

definition script_runs :: "redis_io \<Rightarrow> bool" where
  "script_runs io \<longleftrightarrow> is_ok (io_connect io) \<and> (is_ok (io_command io) \<or> io_applied io)"

lemma token_bucket_stored_effect:
  "snd (token_bucket_stored io m i r now rnow key st) =
     (if script_runs io then snd (token_bucket m i r now rnow key st) else st)"
  by (auto simp: token_bucket_stored_def token_bucket_many_stored_def token_bucket_def script_runs_def is_ok_def
      split: sum.splits prod.splits)

lemma token_bucket_stored_accepts:
  "fst (token_bucket_stored io m i r now rnow key st) = Some (Inr ()) \<longleftrightarrow>
     is_ok (io_connect io) \<and> is_ok (io_command io) \<and> fst (token_bucket m i r now rnow key st) = Some (Inr ())"
  by (auto simp: token_bucket_stored_def token_bucket_many_stored_def token_bucket_def is_ok_def
      split: sum.splits prod.splits option.splits)

text \<open>A failure is answered 500 by the HTTP handlers, and a server error of the relay's.\<close>

lemma limit_failure_answers:
  "r_status (into_response (limit_to_notify_error (Internal e))) = 500"
  "r_status (into_response (limit_to_notify_error (Exceeded reset))) = 429"
  "\<exists>s. limit_to_relay_error (Internal e) = Server (RsNotifyServer s)"
  by (simp_all add: into_response_def)

fun accepted_stored :: "int \<Rightarrow> int \<Rightarrow> int \<Rightarrow> string \<Rightarrow> (int \<times> redis_io) list \<Rightarrow> redis_buckets \<Rightarrow> int" where
  "accepted_stored m i r key [] st = 0"
| "accepted_stored m i r key ((t, io) # cs) st =
     (case token_bucket_stored io m i r t t key st of (res, st') \<Rightarrow>
        (if res = Some (Inr ()) then 1 else 0) + accepted_stored m i r key cs st')"

lemma accepted_calls_nonneg: "0 \<le> accepted_calls m i r key ts st"
  by (induction ts arbitrary: st) (auto split: prod.split)

text \<open>The calls whose script runs accept as many, or more when an answer is lost.\<close>

lemma accepted_stored_le:
  "accepted_stored m i r key cs st \<le> accepted_calls m i r key (map fst (filter (script_runs \<circ> snd) cs)) st"
proof (induction cs arbitrary: st)
  case (Cons c cs)
  obtain t io where c: "c = (t, io)" by force
  let ?s = "token_bucket_stored io m i r t t key st" and ?u = "token_bucket m i r t t key st"
  have step: "accepted_stored m i r key (c # cs) st =
      (if fst ?s = Some (Inr ()) then 1 else 0) + accepted_stored m i r key cs (snd ?s)"
    by (simp add: c split: prod.split)
  have ref: "accepted_calls m i r key (t # ts) st =
      (if fst ?u = Some (Inr ()) then 1 else 0) + accepted_calls m i r key ts (snd ?u)" for ts
    by (simp split: prod.split)
  show ?case
  proof (cases "script_runs io")
    case True
    have "fst ?s = Some (Inr ()) \<longrightarrow> fst ?u = Some (Inr ())" by (simp add: token_bucket_stored_accepts)
    then show ?thesis
      using Cons.IH [of "snd ?u"] True unfolding step by (simp add: c ref token_bucket_stored_effect del: accepted_calls.simps)
  next
    case False
    have "fst ?s \<noteq> Some (Inr ())" using False by (auto simp: token_bucket_stored_accepts script_runs_def)
    then show ?thesis
      using Cons.IH [of st] False unfolding step by (simp add: c token_bucket_stored_effect)
  qed
qed simp

lemma sorted_within:
  assumes "sorted (map fst cs)" "map fst (filter P cs) = t # ts" "cs \<noteq> []"
  shows "sorted (t # ts)" "fst (hd cs) \<le> t" "last (t # ts) \<le> fst (last cs)"
proof -
  show "sorted (t # ts)" using sorted_filter [OF assms(1), of P] assms(2) by simp
  have sub: "set (t # ts) \<subseteq> set (map fst cs)" unfolding assms(2) [symmetric] by auto
  have hd: "fst (hd cs) \<le> x" if "x \<in> set (map fst cs)" for x
    using assms(1,3) that by (cases cs) auto
  have last: "x \<le> fst (last cs)" if "x \<in> set (map fst cs)" for x
    using assms(1) that
    by (induction cs) (auto split: if_splits)
  show "fst (hd cs) \<le> t" using hd sub by auto
  have "last (t # ts) \<in> set (t # ts)" by (rule last_in_set) simp
  then show "last (t # ts) \<le> fst (last cs)" using last sub by blast
qed

text \<open>
  C19. The rate limit holds, also when Redis fails. From an unused key, calls at non-decreasing times
  are accepted at most \<open>max_tokens + refill_rate * (elapsed / interval)\<close> times in all, however they are
  spread, although Redis forgets the key when its expiry passes, and whichever connections or
  answers are lost, before or after the script has run; a call whose connection or answer is lost is
  not accepted.
\<close>

theorem rate_limit_bound_stored:
  assumes "0 < i" "0 < r" "0 < m" "st key = None" "cs \<noteq> []" "sorted (map fst cs)"
  shows "accepted_stored m i r key cs st \<le> m + r * ((fst (last cs) - fst (hd cs)) div i) \<and>
    (\<forall>io now rnow st'. \<not> is_ok (io_connect io) \<or> \<not> is_ok (io_command io) \<longrightarrow>
       fst (token_bucket_stored io m i r now rnow key st') \<noteq> Some (Inr ()))"
proof (intro conjI allI impI)
  let ?ts = "map fst (filter (script_runs \<circ> snd) cs)"
  have "fst (hd cs) \<le> fst (last cs)" using assms(5,6) by (cases cs) (auto simp: last_map)
  then have span: "0 \<le> (fst (last cs) - fst (hd cs)) div i"
    using assms(1) by (simp add: pos_imp_zdiv_nonneg_iff)
  have "accepted_calls m i r key ?ts st \<le> m + r * ((fst (last cs) - fst (hd cs)) div i)"
  proof (cases ?ts)
    case Nil
    then show ?thesis using span assms(2,3) by simp
  next
    case (Cons t ts)
    note w = sorted_within [OF assms(6) Cons assms(5)]
    have "(last (t # ts) - t) div i \<le> (fst (last cs) - fst (hd cs)) div i"
      using w(2,3) assms(1) by (intro zdiv_mono1) auto
    then have "r * ((last (t # ts) - t) div i) \<le> r * ((fst (last cs) - fst (hd cs)) div i)" using assms(2) by simp
    then show ?thesis using rate_limit_bound [where st = st and key = key, OF assms(1-4) w(1)] unfolding Cons by linarith
  qed
  then show "accepted_stored m i r key cs st \<le> m + r * ((fst (last cs) - fst (hd cs)) div i)"
    using accepted_stored_le [of m i r key cs st] by linarith
qed (auto simp: token_bucket_stored_accepts)

section \<open>Witness\<close>

definition lost_answer :: redis_io where
  "lost_answer = \<lparr> io_connect = Inr (), io_command = Inl ''timeout'', io_applied = True \<rparr>"

text \<open>One answer of four is lost, with its token.\<close>

theorem rate_limit_bound_stored_witness:
  "accepted_stored 2 1000 1 ''k'' [(0, smooth_io), (1, lost_answer), (2, smooth_io), (1500, smooth_io)] Map.empty \<le> 3"
  using rate_limit_bound_stored [of 1000 1 2 Map.empty "''k''" "[(0, smooth_io), (1, lost_answer), (2, smooth_io), (1500, smooth_io)]"]
  by simp

end
