(* ===== verification/Sent_Messages.thy ===== *)
theory Sent_Messages
  imports Publisher Server
begin

text \<open>
  From the \<open>notify\<close> request to the wallets. This theory composes the handler of
  src/services/public_http_server/handlers/notify_v1.rs (theory \<open>Notify\<close>), which stores delivery
  rows, with the worker loop of src/services/publisher_service/mod.rs (theory \<open>Publisher\<close>), which
  turns them into relay messages. It states what a message must contain to be the delivery of a
  row, and shows that draining the queue sends exactly one such message for each queued row.
\<close>

section \<open>The delivery of a row\<close>

text \<open>
  A relay message delivers a notification to a subscriber: it is on the topic of the subscriber's
  key, with the notify tag, and whoever holds that key opens it to a \<open>wc_notifyMessage\<close> request with
  a JWT of the project about the account, carrying the notification under the id of the row, with
  the link of the server (at \<open>base\<close>) that follows its URL when it has one.
\<close>

definition opens_to_notification ::
  "ext \<Rightarrow> string \<Rightarrow> string \<Rightarrow> bytes \<Rightarrow> bytes \<Rightarrow> subscriber_row \<Rightarrow> project_row \<Rightarrow> notification_row \<Rightarrow> uuid \<Rightarrow> bool" where
  "opens_to_notification X base message key priv s p n i \<longleftrightarrow>
     (\<exists>bs e rid m sig msg req. b64_std_decode X message = Inr bs \<and> Envelope0_from_bytes bs = Inr e \<and>
        chacha_decrypt X key (iv e) (sealbox e) = Some (as_bytes (json_to_string X req)) \<and>
        JsonRpcRequest_from_json (auth_from_json ''messageAuth'') req =
          Inr \<lparr> rq_id = rid, rq_jsonrpc = ''2.0'', rq_method = ''wc_notifyMessage'', rq_params = m @ ''.'' @ sig \<rparr> \<and>
        jwt_ed_verify X sig (as_bytes m) (ed25519_verifying_key X priv) = Inr True \<and>
        m = b64_url_no_pad_encode X (as_bytes (jwt_header_string X)) @ ''.'' @
          b64_url_no_pad_encode X (as_bytes (json_to_string X (NotifyMessage_to_json X msg))) \<and>
        nm_sub msg = to_did_pkh X (s_account s) \<and> nm_app msg = p_app_domain p \<and> jn_id (nm_msg msg) = i \<and>
        jn_title (nm_msg msg) = n_title n \<and> jn_body (nm_msg msg) = n_body n \<and> jn_type (nm_msg msg) = n_type n \<and>
        jn_icon (nm_msg msg) = (case n_icon n of None \<Rightarrow> '''' | Some i \<Rightarrow> i) \<and>
        jn_sent_at (nm_msg msg) = timestamp_millis (n_created_at n) \<and>
        (case n_url n of None \<Rightarrow> jn_url (nm_msg msg) = ''''
         | Some _ \<Rightarrow> format_follow_link X base i = Some (jn_url (nm_msg msg))))"

definition delivers :: "ext \<Rightarrow> string \<Rightarrow> Publish \<Rightarrow> subscriber_row \<Rightarrow> project_row \<Rightarrow> notification_row \<Rightarrow> uuid \<Rightarrow> bool" where
  "delivers X base m s p n i \<longleftrightarrow>
     (\<exists>key priv. decode_key X (s_sym_key s) = Inr key \<and> decode_key X (p_authentication_private_key p) = Inr priv \<and>
        pub_topic m = topic_from_key X key \<and> pub_tag m = 4002 \<and> opens_to_notification X base (pub_message m) key priv s p n i)"

text \<open>The message delivers what the row joins: its notification, its subscriber, their project.\<close>

definition row_delivered :: "ext \<Rightarrow> string \<Rightarrow> db \<Rightarrow> subscriber_notification_row \<Rightarrow> Publish \<Rightarrow> bool" where
  "row_delivered X base d r m \<longleftrightarrow>
     (\<exists>n s p. n \<in> set (notifications d) \<and> n_id n = sn_notification r \<and> s \<in> set (subscribers d) \<and> s_id s = sn_subscriber r \<and>
        p \<in> set (projects d) \<and> p_id p = n_project n \<and> delivers X base m s p n (sn_id r))"

definition queued_rows :: "db \<Rightarrow> subscriber_notification_row list" where
  "queued_rows d = filter (\<lambda>r. sn_status r = Queued) (subscriber_notifications d)"

definition message_laws :: "ext \<Rightarrow> bool" where
  "message_laws X \<longleftrightarrow> aead_laws X \<and> aead_total X \<and> jwt_laws X \<and> (\<forall>bs. b64_std_decode X (b64_std_encode X bs) = Inr bs)"

section \<open>One turn\<close>

lemma attempt_delivers:
  assumes "smooth X T" "message_laws X"
    and "attempt T (to_process (s_account s) (r, n, s, p)) w = (Inr (Some (Inr ())), w')"
  shows "\<exists>m. w_published w' = w_published w @ [m] \<and> delivers X (en_notify_url (tn_env T)) m s p n (sn_id r)"
proof -
  let ?np = "to_process (s_account s) (r, n, s, p)"
  have x: "en_ext (tn_env T) = X" and nonce: "length (dr_nonce (en_draw (tn_env T) (w_drawn w))) = 12"
    using assms(1) by (simp_all add: smooth_def)
  have "process_notification (tn_env T) ?np w = (Inr (), w')" using attempt_result(1) [OF assms(3)] by blast
  then obtain priv client key url message where k: "decode_key X (p_authentication_private_key p) = Inr priv"
      "decode_key X (s_sym_key s) = Inr key"
    and seal: "seal_message X (dr_nonce (en_draw (tn_env T) (w_drawn w))) key
      (notify_message_request X (en_now (tn_env T)) (dr_message_id (en_draw (tn_env T) (w_drawn w))) ?np url
        \<lparr> psd_decoded_client_id = client, psd_private_key = priv, psd_app = np_project_app_domain ?np \<rparr>) = Some message"
    and w': "w_published w' = w_published w @ [\<lparr> pub_topic = topic_from_key X key, pub_message = message,
         pub_ttl_secs = NOTIFY_MESSAGE_TTL, pub_tag = NOTIFY_MESSAGE_TAG, pub_prompt = True \<rparr>]"
    and url: "case n_url n of None \<Rightarrow> url = '''' | Some _ \<Rightarrow> format_follow_link X (en_notify_url (tn_env T)) (sn_id r) = Some url"
    by (rule process_notification_ok) (auto simp: x to_process_def split: option.splits)
  have "opens_to_notification X (en_notify_url (tn_env T)) message key priv s p n (sn_id r)"
    using notify_message_opens [OF _ _ _ nonce seal] assms(2) url
    unfolding opens_to_notification_def message_laws_def to_process_def prod.case NotificationToProcess.simps
    by (cases "n_url n") (simp_all only: option.case, blast+)
  then show ?thesis using k w' by (auto simp: delivers_def NOTIFY_MESSAGE_TAG_def)
qed

lemma row_delivered_cong:
  "notifications d' = notifications d \<Longrightarrow> subscribers d' = subscribers d \<Longrightarrow> projects d' = projects d \<Longrightarrow>
   row_delivered X base d' = row_delivered X base d"
  by (simp add: row_delivered_def fun_eq_iff)

lemma set_status_published: "sn_status (set_status now Published r) = Published" "sn_status r = Queued \<Longrightarrow> r \<noteq> set_status now Published r"
  by (auto simp: set_status_def dest: arg_cong [where f = sn_status])

lemma smooth_turn_delivers:
  assumes "smooth X T" "message_laws X" "messages_fit X T (w_db w)" "keys_ok X (w_db w)" "wf_db X (w_db w)"
    and "queued_rows (w_db w) \<noteq> []"
  obtains w' r m where "process_next T w = (Inr True, w')" "wf_db X (w_db w')" "keys_ok X (w_db w')"
    "Suc (length (queued_rows (w_db w'))) = length (queued_rows (w_db w))"
    "set (queued_rows (w_db w)) = insert r (set (queued_rows (w_db w')))" "r \<notin> set (queued_rows (w_db w'))"
    "\<forall>base. row_delivered X base (w_db w') = row_delivered X base (w_db w)"
    "\<forall>U. messages_fit X U (w_db w') = messages_fit X U (w_db w)"
    "w_published w' = w_published w @ [m]" "row_delivered X (en_notify_url (tn_env T)) (w_db w) r m"
proof -
  have total: "aead_total X" using assms(2) by (simp add: message_laws_def)
  have q: "queued_count (w_db w) \<noteq> 0"
    using assms(6) by (simp add: queued_count_def queued_rows_def)
  obtain r n s p w1 d1 c where
    r: "r \<in> set (subscriber_notifications (w_db w))" "sn_status r = Queued"
    and j: "n \<in> set (notifications (w_db w))" "n_id n = sn_notification r" "s \<in> set (subscribers (w_db w))"
      "s_id s = sn_subscriber r" "p \<in> set (projects (w_db w))" "p_id p = n_project n"
    and at: "attempt T (to_process (s_account s) (set_status (en_now (tn_env T)) Processing r, n, s, p)) (w\<lparr> w_db := d1 \<rparr>) =
      (Inr (Some (Inr ())), w1)"
    and eq: "process_next T w = (Inr True, w1\<lparr> w_db := (w_db w)\<lparr> subscriber_notifications :=
      update_where (\<lambda>q. sn_id q = sn_id r) (set_status (tn_done T) Published) (subscriber_notifications (w_db w)),
      delivery_channel := c \<rparr> \<rparr>)"
    by (rule smooth_turn_row [OF assms(1) total assms(3-5) q])
  note P = published_row [OF assms(5) r, where now = "tn_done T" and c = c]
  obtain m where m: "w_published w1 = w_published w @ [m]" "delivers X (en_notify_url (tn_env T)) m s p n (sn_id r)"
    using attempt_delivers [OF assms(1,2) at] by (auto simp: set_status_def)
  show thesis
  proof (rule that [OF eq])
    show "row_delivered X (en_notify_url (tn_env T)) (w_db w) r m" unfolding row_delivered_def using j m(2) by blast
  qed (use P assms(4) m(1) r in \<open>auto simp: queued_rows_def queued_count_def set_status_published intro!: row_delivered_cong\<close>)
qed

section \<open>The whole queue\<close>

text \<open>
  Draining a queue sends one message for each queued row, in some order of the rows, and each
  message is the delivery of its row.
\<close>

lemma queue_delivers:
  assumes "message_laws X" "wf_db X (w_db w)" "keys_ok X (w_db w)"
    and "\<forall>T \<in> set Ts. smooth X T \<and> en_notify_url (tn_env T) = base \<and> messages_fit X T (w_db w)"
    and "length (queued_rows (w_db w)) < length Ts"
  shows "\<exists>w' rs ms. process_queued_messages Ts w = Some (Inr (), w') \<and> w_published w' = w_published w @ ms \<and>
    distinct rs \<and> set rs = set (queued_rows (w_db w)) \<and> list_all2 (row_delivered X base (w_db w)) rs ms"
  using assms(2-5)
proof (induction Ts arbitrary: w)
  case (Cons T Ts)
  show ?case
  proof (cases "queued_rows (w_db w) = []")
    case True
    then show ?thesis using process_next_empty [of w T] by (auto simp: queued_rows_def)
  next
    case False
    have T: "smooth X T" "messages_fit X T (w_db w)" "en_notify_url (tn_env T) = base" using Cons.prems(3) by simp_all
    obtain w1 r m where step: "process_next T w = (Inr True, w1)" and k: "wf_db X (w_db w1)" "keys_ok X (w_db w1)"
      and l: "Suc (length (queued_rows (w_db w1))) = length (queued_rows (w_db w))"
      and q: "set (queued_rows (w_db w)) = insert r (set (queued_rows (w_db w1)))" "r \<notin> set (queued_rows (w_db w1))"
      and d: "\<forall>base. row_delivered X base (w_db w1) = row_delivered X base (w_db w)"
        "\<forall>U. messages_fit X U (w_db w1) = messages_fit X U (w_db w)"
      and m: "w_published w1 = w_published w @ [m]" "row_delivered X base (w_db w) r m"
      by (rule smooth_turn_delivers [OF T(1) assms(1) T(2) Cons.prems(2,1) False, unfolded T(3)])
    have "length (queued_rows (w_db w1)) < length Ts" using l Cons.prems(4) by simp
    moreover have "\<forall>T \<in> set Ts. smooth X T \<and> en_notify_url (tn_env T) = base \<and> messages_fit X T (w_db w1)"
      using Cons.prems(3) by (simp add: d(2))
    ultimately obtain w' rs ms where
      "process_queued_messages Ts w1 = Some (Inr (), w')" "w_published w' = w_published w1 @ ms"
      "distinct rs" "set rs = set (queued_rows (w_db w1))" "list_all2 (row_delivered X base (w_db w)) rs ms"
      using Cons.IH [OF k] unfolding spec [OF d(1)] by blast
    then show ?thesis
      using step q m by (intro exI [of _ w'] exI [of _ "r # rs"] exI [of _ "m # ms"]) simp
  qed
qed simp


section \<open>From the request to the wallets\<close>

text \<open>What \<open>notify\<close> leaves alone: projects, subscribers and delivery rows; the rows it adds are queued.\<close>

definition only_queues :: "ext \<Rightarrow> db \<Rightarrow> db \<Rightarrow> bool" where
  "only_queues X d0 d \<longleftrightarrow> wf_db X d \<and> projects d = projects d0 \<and> subscribers d = subscribers d0 \<and>
     set (notifications d0) \<subseteq> set (notifications d) \<and>
     (\<exists>rs. subscriber_notifications d = subscriber_notifications d0 @ rs \<and> (\<forall>r \<in> set rs. sn_status r = Queued))"

lemma only_queues_notification:
  assumes "upsert_notification i now nid p n d = Inr (k, d')" "only_queues X d0 d"
  shows "only_queues X d0 d'"
  using assms(2) upsert_notification_tables [OF assms(1)] upsert_notification_wf [OF assms(1)]
  by (auto simp: only_queues_def)

lemma only_queues_deliveries:
  assumes "upsert_subscriber_notifications gen now n ss d = Inr d'" "only_queues X d0 d"
  shows "only_queues X d0 d'"
proof -
  obtain rs rs' where "subscriber_notifications d' = subscriber_notifications d0 @ rs @ rs'"
    "\<forall>r \<in> set (rs @ rs'). sn_status r = Queued"
    "d' = d\<lparr> subscriber_notifications := subscriber_notifications d', delivery_channel := delivery_channel d' \<rparr>"
    using insert_subscriber_notifications_spec [OF upsert_subscriber_notifications_rows [OF assms(1)]] assms(2)
    unfolding only_queues_def by (auto, metis UnE)
  moreover from this(3) have "projects d' = projects d" "subscribers d' = subscribers d" "notifications d' = notifications d"
    by (metis db.select_convs(1,2,5) db.surjective db.update_convs(6,8))+
  ultimately show ?thesis
    using assms(2) upsert_subscriber_notifications_wf [OF assms(1)] unfolding only_queues_def by metis
qed

lemma notify_only_queues:
  assumes "only_queues X d0 (w_db w)"
  shows "only_queues X d0 (w_db (snd (notify_v1_handler_impl E pid bs w)))"
proof -
  have "db_keeps (only_queues X d0) (db_upsert_notification E Sqlx i p n)" for i p n
    unfolding db_upsert_notification_def by (rule keeps_draw_exec) (rule only_queues_notification)
  moreover have "db_keeps (only_queues X d0) (db_upsert_subscriber_notifications E Sqlx n ss)" for n ss
    unfolding db_upsert_subscriber_notifications_def
    by (rule keeps_draw_exec) (auto simp: map_ok_Inr_iff intro: only_queues_deliveries)
  ultimately have "db_keeps (only_queues X d0) (notify_one E pid p resp b)" for p resp b
    unfolding notify_one_def by (intro keeps_intros)
  then have "db_keeps (only_queues X d0) (notify_v1_handler_impl E pid bs)"
    unfolding notify_v1_handler_impl_def notify_rate_limit_def Let_def by (intro keeps_intros)
  then show ?thesis using assms by (simp add: db_keepsD)
qed

lemma queued_or_old:
  assumes "wf_db X d" "wf_db X d0" "n \<in> set (notifications d)" "set (notifications d0) \<subseteq> set (notifications d)"
    and "subscriber_notifications d = subscriber_notifications d0 @ new" "\<forall>r \<in> set new. sn_status r = Queued"
    and one: "\<exists>!r. r \<in> set (subscriber_notifications d) \<and> sn_notification r = n_id n \<and> sn_subscriber r = i"
  shows "(\<exists>!r. r \<in> set (queued_rows d) \<and> sn_notification r = n_id n \<and> sn_subscriber r = i) \<or>
    n \<in> set (notifications d0) \<and>
      (\<exists>r \<in> set (subscriber_notifications d0). sn_notification r = n_id n \<and> sn_subscriber r = i)"
proof -
  obtain r where r: "r \<in> set (subscriber_notifications d)" "sn_notification r = n_id n" "sn_subscriber r = i"
    using one by blast
  show ?thesis
  proof (cases "r \<in> set new")
    case True
    then have "r \<in> set (queued_rows d)" using r(1) assms(6) by (simp add: queued_rows_def)
    moreover have "set (queued_rows d) \<subseteq> set (subscriber_notifications d)" by (simp add: queued_rows_def)
    ultimately show ?thesis using one r(2,3) by blast
  next
    case False
    then have old: "r \<in> set (subscriber_notifications d0)" using r(1) assms(5) by simp
    then obtain m where m: "m \<in> set (notifications d0)" "n_id m = n_id n"
      using wf_dbD(6) [OF assms(2)] r(2) by (fastforce simp: wf_subscriber_notifications_def nids_def)
    have "distinct (map n_id (notifications d))" using wf_dbD(5) [OF assms(1)] by (simp add: wf_notifications_def)
    then have "m = n" using m assms(3,4) distinct_map_inj [of n_id "notifications d" m n] by blast
    then show ?thesis using m(1) old r(2,3) by blast
  qed
qed

text \<open>
  C4. From the request to the wallets. After a successful \<open>notify\<close>, on a well-formed database whose
  keys decode, take a worker with more turns than there are queued rows: the relay accepts its
  messages, no attempt times out, the links can be joined to the URL of the server, and no message
  is beyond the 256 GiB that ChaCha20-Poly1305 can encrypt. It stops without an error having sent
  one message for each queued row, each of them the delivery of its row. The project then has a
  notification under the id that the request names (a new UUID when it names none), the one sent
  unless it was stored before; and every account that the response reports as sent has a
  subscriber of the project whose row for that notification is among the rows delivered, exactly
  once, unless that row existed before the request, and then the notification did too.
\<close>

theorem notify_sent_is_delivered:
  assumes "wf_db (en_ext E) (w_db w)" "list_all (valid_account (en_ext E)) (nb_accounts b)"
    and "p \<in> set (projects (w_db w))" "notify_v1_handler_impl E (p_project_id p) [b] w = (Inr resp, w')"
    and "keys_ok (en_ext E) (w_db w)" "message_laws (en_ext E)"
    and "\<forall>T \<in> set Ts. smooth (en_ext E) T \<and> en_notify_url (tn_env T) = en_notify_url E \<and> messages_fit (en_ext E) T (w_db w')"
    and "length (queued_rows (w_db w')) < length Ts"
  shows "\<exists>w'' rs ms n. process_queued_messages Ts w' = Some (Inr (), w'') \<and> w_published w'' = w_published w' @ ms \<and>
    distinct rs \<and> set rs = set (queued_rows (w_db w')) \<and> list_all2 (row_delivered (en_ext E) (en_notify_url E) (w_db w')) rs ms \<and>
    n \<in> set (notifications (w_db w')) \<and> n_project n = p_id p \<and>
    varchar255 (requested_id E b (w_drawn w)) = Inr (n_notification_id n) \<and>
    (n \<in> set (notifications (w_db w)) \<or> row_notification n = nb_notification b) \<and>
    (\<forall>a \<in> rb_sent resp. \<exists>s \<in> set (subscribers (w_db w')). s_project s = p_id p \<and>
      get_address_lower (s_account s) = get_address_lower a \<and> has_scope (en_ext E) (w_db w) (n_type n) s \<and>
      ((\<exists>!r. r \<in> set rs \<and> sn_notification r = n_id n \<and> sn_subscriber r = s_id s) \<or>
       n \<in> set (notifications (w_db w)) \<and>
         (\<exists>r \<in> set (subscriber_notifications (w_db w)). sn_notification r = n_id n \<and> sn_subscriber r = s_id s)))"
proof -
  let ?X = "en_ext E"
  have "only_queues ?X (w_db w) (w_db w)" using assms(1) by (simp add: only_queues_def)
  from notify_only_queues [OF this, of E "p_project_id p" "[b]"]
  have kept: "only_queues ?X (w_db w) (w_db w')" by (simp add: assms(4))
  then obtain new where wf': "wf_db ?X (w_db w')" "set (notifications (w_db w)) \<subseteq> set (notifications (w_db w'))"
    and same: "projects (w_db w') = projects (w_db w)" "subscribers (w_db w') = subscribers (w_db w)"
    and new: "subscriber_notifications (w_db w') = subscriber_notifications (w_db w) @ new" "\<forall>r \<in> set new. sn_status r = Queued"
    unfolding only_queues_def by blast
  have "keys_ok ?X (w_db w')" using assms(5) by (simp add: keys_ok_def same)
  from queue_delivers [OF assms(6) wf'(1) this assms(7,8)] obtain w'' rs ms where
    q: "process_queued_messages Ts w' = Some (Inr (), w'')" "w_published w'' = w_published w' @ ms"
      "distinct rs" "set rs = set (queued_rows (w_db w'))" "list_all2 (row_delivered ?X (en_notify_url E) (w_db w')) rs ms"
    by (elim exE conjE)
  obtain n where n: "n \<in> set (notifications (w_db w'))" "n_project n = p_id p"
      "varchar255 (requested_id E b (w_drawn w)) = Inr (n_notification_id n)"
      "n \<in> set (notifications (w_db w)) \<or> row_notification n = nb_notification b"
    and sent: "\<forall>a \<in> rb_sent resp. \<exists>s \<in> set (subscribers (w_db w)). s_project s = p_id p \<and>
        get_address_lower (s_account s) = get_address_lower a \<and> has_scope ?X (w_db w) (n_type n) s \<and>
        (\<exists>!r. r \<in> set (subscriber_notifications (w_db w')) \<and> sn_notification r = n_id n \<and> sn_subscriber r = s_id s)"
    by (rule notify_v1_sent [OF assms(1-4)])
  note rows = queued_or_old [OF wf'(1) assms(1) n(1) wf'(2) new, folded q(4)]
  show ?thesis
  proof (intro exI conjI ballI)
    fix a assume "a \<in> rb_sent resp"
    with sent obtain s where s: "s \<in> set (subscribers (w_db w))" "s_project s = p_id p"
        "get_address_lower (s_account s) = get_address_lower a" "has_scope ?X (w_db w) (n_type n) s"
      and one: "\<exists>!r. r \<in> set (subscriber_notifications (w_db w')) \<and> sn_notification r = n_id n \<and> sn_subscriber r = s_id s"
      by (elim ballE exE bexE conjE) auto
    show "\<exists>s \<in> set (subscribers (w_db w')). s_project s = p_id p \<and>
      get_address_lower (s_account s) = get_address_lower a \<and> has_scope ?X (w_db w) (n_type n) s \<and>
      ((\<exists>!r. r \<in> set rs \<and> sn_notification r = n_id n \<and> sn_subscriber r = s_id s) \<or>
       n \<in> set (notifications (w_db w)) \<and>
         (\<exists>r \<in> set (subscriber_notifications (w_db w)). sn_notification r = n_id n \<and> sn_subscriber r = s_id s))"
      unfolding same(2) by (intro bexI [OF _ s(1)] conjI s(2-4) rows one)
  qed (fact q n)+
qed

section \<open>Witness\<close>

lemma message_laws_demo: "message_laws ext_demo"
  using aead_laws_demo aead_total_demo jwt_laws_demo b64_std_demo by (simp add: message_laws_def)

text \<open>The row that waited before the request is delivered too.\<close>

theorem notify_sent_is_delivered_witness:
  "\<exists>resp w' w'' ms. notify_v1_handler_impl env_demo ''prj'' [demo_body] (world_demo demo_db7) = (Inr resp, w') \<and>
     process_queued_messages (replicate (Suc (length (queued_rows (w_db w')))) turn_demo) w' = Some (Inr (), w'') \<and>
     w_published w'' = w_published w' @ ms \<and> (\<exists>m \<in> set ms. row_delivered ext_demo (en_notify_url env_demo) (w_db w') demo_sn m)"
proof -
  let ?w = "world_demo demo_db7"
  have w: "w_db ?w = demo_db7" and x: "en_ext env_demo = ext_demo" by (simp_all add: world_demo_def env_demo_def)
  obtain resp w' where "notify_v1_handler_impl env_demo ''prj'' [demo_body] ?w = (Inr resp, w')"
    using notify_v1_demo by blast
  then have h: "notify_v1_handler_impl env_demo (p_project_id demo_key_project) [demo_body] ?w = (Inr resp, w')"
    by (simp add: demo_key_project_def demo_project_def)
  let ?Ts = "replicate (Suc (length (queued_rows (w_db w')))) turn_demo"
  have v: "list_all (valid_account ext_demo) (nb_accounts demo_body)" using valid_demo_accounts by (simp add: demo_body_def)
  have p: "demo_key_project \<in> set (projects demo_db7)" and k: "keys_ok ext_demo demo_db7"
    using keys_demo by (simp_all add: demo_db7_def demo_db6_def keys_ok_def)
  have "\<forall>T \<in> set ?Ts. smooth ext_demo T \<and> en_notify_url (tn_env T) = en_notify_url env_demo \<and> messages_fit ext_demo T (w_db w')"
    "length (queued_rows (w_db w')) < length ?Ts"
    using smooth_demo messages_fit_demo by (simp_all add: turn_demo_def)
  from notify_sent_is_delivered [OF _ _ _ h _ _ _ this(2), unfolded x w, OF wf_demo_db7 v p k message_laws_demo this(1)]
  obtain w'' rs ms where r: "process_queued_messages ?Ts w' = Some (Inr (), w'')" "w_published w'' = w_published w' @ ms"
    "set rs = set (queued_rows (w_db w'))" "list_all2 (row_delivered ext_demo (en_notify_url env_demo) (w_db w')) rs ms"
    by blast
  have "only_queues ext_demo demo_db7 demo_db7" using wf_demo_db7 by (simp add: only_queues_def)
  with notify_only_queues [of ext_demo demo_db7 ?w env_demo "p_project_id demo_key_project" "[demo_body]"]
  have "only_queues ext_demo demo_db7 (w_db w')" by (simp add: w h)
  then have "demo_sn \<in> set rs" by (auto simp: only_queues_def r(3) queued_rows_def demo_db7_def demo_db6_defs)
  then obtain i where "i < length rs" "rs ! i = demo_sn" by (auto simp: in_set_conv_nth)
  with r(4) have "i < length ms" "row_delivered ext_demo (en_notify_url env_demo) (w_db w') demo_sn (ms ! i)"
    using list_all2_nthD [OF r(4), of i] by (simp_all add: list_all2_lengthD)
  then have "\<exists>m \<in> set ms. row_delivered ext_demo (en_notify_url env_demo) (w_db w') demo_sn m" by (intro bexI [of _ "ms ! i"]) simp_all
  then show ?thesis using h r(1,2) by (auto simp: demo_key_project_def demo_project_def)
qed

end
