(* ===== verification/Interference.thy ===== *)
theory Interference
  imports Notify
begin

text \<open>
  A notify request among others: every statement of \<open>handlers/notify_v1.rs\<close> is a transaction of
  its own, so other requests may change the database and Redis before each of them. Here an
  arbitrary change may happen at each such point; without changes the handler is the one of
  \<open>Notify\<close>.
\<close>

section \<open>The handler, with other requests between its statements\<close>

definition h_meanwhile :: "(world \<Rightarrow> world) \<Rightarrow> (unit, 'e) handler" where
  "h_meanwhile g w = (Inr (), g w)"

text \<open>
  The body of the loop up to the last statement: \<open>g 0\<close> happens before the notification is stored,
  \<open>g 1\<close> before the subscribers are read, \<open>g 2\<close> before the rate limits are asked. It gives the
  notification, the response so far and the subscribers to deliver to.
\<close>

definition notify_prepare ::
  "(nat \<Rightarrow> world \<Rightarrow> world) \<Rightarrow> env \<Rightarrow> string \<Rightarrow> project_row \<Rightarrow> ResponseBody \<Rightarrow> NotifyBodyNotification
     \<Rightarrow> (uuid \<times> ResponseBody \<times> (uuid \<times> AccountId) list) http" where
  "notify_prepare g E project_id project resp b =
     h_bind (h_draw E) (\<lambda>dr.
     h_bind (h_meanwhile (g 0)) (\<lambda>_.
     h_bind (db_upsert_notification E Sqlx
               (case nb_notification_id b of None \<Rightarrow> uuid_to_string (en_ext E) (dr_uuid_v4 dr) | Some i \<Rightarrow> i)
               (p_id project) (nb_notification b)) (\<lambda>notification.
     h_bind (h_expect (chain_agnostic_lookup_table (nb_accounts b))) (\<lambda>table.
     h_bind (h_meanwhile (g 1)) (\<lambda>_.
     h_bind (\<lambda>w. h_expect (get_subscribers_for_project_in (en_ext E) (p_id project) (nb_accounts b) (w_db w)) w) (\<lambda>found.
     h_bind (h_lift Sqlx found) (\<lambda>found.
     h_bind (h_mapM (\<lambda>s. h_bind (h_expect (Option.bind (get_address_from_account (nsi_account s)) table)) (\<lambda>account.
               h_return (s\<lparr> nsi_account := account \<rparr>))) found) (\<lambda>subs.
     case scope_loop (ntf_type (nwi_notification notification)) subs
            (resp\<lparr> rb_not_found := rb_not_found resp \<union> set (nb_accounts b) \<rparr>) of (resp, valid) \<Rightarrow>
     h_bind (h_meanwhile (g 2)) (\<lambda>_.
     h_bind (limit_subscribers E project_id valid resp) (\<lambda>(resp, valid).
       h_return (nwi_id notification, resp, valid)))))))))))"

text \<open>The last statement: the delivery rows.\<close>

definition notify_deliver :: "env \<Rightarrow> uuid \<times> ResponseBody \<times> (uuid \<times> AccountId) list \<Rightarrow> ResponseBody http" where
  "notify_deliver E = (\<lambda>(notification, resp, valid).
     h_bind (db_upsert_subscriber_notifications E Sqlx notification (map fst valid)) (\<lambda>_.
       h_return (resp\<lparr> rb_sent := rb_sent resp \<union> snd ` set valid \<rparr>)))"

definition notify_one_among ::
  "(nat \<Rightarrow> world \<Rightarrow> world) \<Rightarrow> env \<Rightarrow> string \<Rightarrow> project_row \<Rightarrow> ResponseBody \<Rightarrow> NotifyBodyNotification \<Rightarrow> ResponseBody http" where
  "notify_one_among g E project_id project resp b =
     h_bind (notify_prepare g E project_id project resp b) (\<lambda>prepared.
     h_bind (h_meanwhile (g 3)) (\<lambda>_. notify_deliver E prepared))"

text \<open>\<open>before\<close> happens before the project is read, \<open>g k\<close> while the \<open>k\<close>-th notification is worked on.\<close>

definition notify_v1_among ::
  "(world \<Rightarrow> world) \<Rightarrow> (nat \<Rightarrow> nat \<Rightarrow> world \<Rightarrow> world) \<Rightarrow> env \<Rightarrow> string \<Rightarrow> NotifyBodyNotification list \<Rightarrow> ResponseBody http" where
  "notify_v1_among before g E project_id body =
     h_bind (notify_rate_limit E project_id) (\<lambda>_.
     h_bind (h_guard (\<exists>b \<in> set body. \<not> Notification_validate (nb_notification b))
               (UnprocessableEntity ValidationErrors)) (\<lambda>_.
     let count = length (concat (map nb_accounts body)) in
     h_bind (h_guard (count > SUBSCRIBER_NOTIFICATION_COUNT_LIMIT)
               (UnprocessableEntity (Message (''Too many notifications: '' @ nat_to_string count @ '' > 500'')))) (\<lambda>_.
     h_bind (h_meanwhile before) (\<lambda>_.
     h_bind (h_query project_not_found (get_project_by_project_id project_id)) (\<lambda>project.
       h_foldM (\<lambda>resp (k, b). notify_one_among (g k) E project_id project resp b)
         \<lparr> rb_sent = {}, rb_failed = {}, rb_not_found = {} \<rparr> (enumerate 0 body))))))"

section \<open>Alone\<close>

lemma h_meanwhile_id: "h_bind (h_meanwhile id) (\<lambda>_. m) = m" "h_bind (h_meanwhile (\<lambda>w. w)) (\<lambda>_. m) = m"
  by (simp_all add: fun_eq_iff h_bind_def h_meanwhile_def)

lemma h_bind_assoc: "h_bind (h_bind m f) k = h_bind m (\<lambda>x. h_bind (f x) k)"
  by (simp add: fun_eq_iff h_bind_def split: prod.splits sum.splits)

lemma h_bind_return: "h_bind (h_return x) f = f x"
  by (simp add: fun_eq_iff h_bind_def h_return_def)

lemma notify_one_among_alone: "notify_one_among (\<lambda>_. id) E project_id project resp b = notify_one E project_id project resp b"
  by (simp add: notify_one_among_def notify_prepare_def notify_one_def notify_deliver_def h_meanwhile_id h_bind_assoc
      h_bind_return case_prod_unfold)

lemma foldM_enumerate: "h_foldM (\<lambda>s (k, x). f s x) s (enumerate n xs) = h_foldM f s xs"
  by (induction xs arbitrary: s n) (simp_all add: enumerate_simps)

lemma notify_v1_among_alone: "notify_v1_among id (\<lambda>_ _. id) E project_id body = notify_v1_handler_impl E project_id body"
  by (simp add: notify_v1_among_def notify_v1_handler_impl_def notify_one_among_alone h_meanwhile_id foldM_enumerate)

section \<open>No panic, whatever happens in between\<close>

lemma panic_free_meanwhile: "(\<And>w. I (w_db w) \<Longrightarrow> I (w_db (g w))) \<Longrightarrow> panic_free I (h_meanwhile g)"
  by (simp add: panic_free_def h_meanwhile_def)

lemma notify_deliver_panic_free: "panic_free (wf_db (en_ext E)) (notify_deliver E prepared)"
  by (cases prepared)
    (auto simp: notify_deliver_def intro!: panic_free_bind [OF schema.statements_panic_free(7)] panic_free_simple)

lemma notify_prepare_panic_free:
  assumes "list_all (valid_account (en_ext E)) (nb_accounts b)"
    and g: "\<And>j w. wf_db (en_ext E) (w_db w) \<Longrightarrow> wf_db (en_ext E) (w_db (g j w))"
  shows "panic_free (wf_db (en_ext E)) (notify_prepare g E pid p resp b)"
proof -
  let ?I = "wf_db (en_ext E)"
  obtain t where t: "chain_agnostic_lookup_table (nb_accounts b) = Some t"
    and reads: "\<And>d. ?I d \<Longrightarrow> \<exists>found. get_subscribers_for_project_in (en_ext E) (p_id p) (nb_accounts b) d = Some (Inr found) \<and>
      (\<forall>s \<in> set found. Option.bind (get_address_from_account (nsi_account s)) t \<noteq> None)"
    using subscribers_found_total [OF assms(1)] by blast
  note mean = panic_free_meanwhile [of ?I, OF g]
  have found: "panic_free ?I (case scope_loop ty subs r of (resp, valid) \<Rightarrow>
     h_bind (h_meanwhile (g 2)) (\<lambda>_. h_bind (limit_subscribers E pid valid resp) (\<lambda>(resp, valid). h_return (nu, resp, valid))))"
    for ty subs r nu
    by (cases "scope_loop ty subs r")
      (auto intro!: panic_free_bind [OF mean] panic_free_bind [OF limit_subscribers_panic_free] panic_free_simple)
  let ?query = "\<lambda>w. h_expect (get_subscribers_for_project_in (en_ext E) (p_id p) (nb_accounts b) (w_db w)) w"
  have query: "panic_free ?I ?query"
    unfolding panic_free_def
  proof (intro allI impI)
    fix w :: world assume "?I (w_db w)"
    from reads [OF this] show "fst (?query w) \<noteq> Inl Panicked \<and> ?I (w_db (snd (?query w)))"
      using \<open>?I (w_db w)\<close> by (auto simp: h_expect_def h_return_def)
  qed
  have answer: "\<forall>s \<in> set found. Option.bind (get_address_from_account (nsi_account s)) t \<noteq> None"
    if "?query w = (Inr r, w1)" "h_lift Sqlx r w2 = (Inr found, w3)" "?I (w_db w)" for w r w1 w2 w3 found
    using reads [OF that(3)] that(1,2) by (auto simp: h_ok)
  have addresses: "panic_free ?I (h_mapM (\<lambda>s. h_bind (h_expect (Option.bind (get_address_from_account (nsi_account s)) t))
      (\<lambda>account. h_return (s\<lparr> nsi_account := account \<rparr>))) found)"
    if "\<forall>s \<in> set found. Option.bind (get_address_from_account (nsi_account s)) t \<noteq> None" for found
    using that by (intro panic_free_mapM panic_free_bind panic_free_expect panic_free_simple) blast
  show ?thesis
    unfolding notify_prepare_def t h_expect_run
    apply (rule panic_free_bind [OF panic_free_simple(6)])
    apply (rule panic_free_bind [OF mean], assumption)
    apply (rule panic_free_bind [OF schema.statements_panic_free(6) [OF refl]])
    apply (rule panic_free_bind [OF panic_free_simple(1)])
    apply (rule panic_free_bind [OF mean], assumption)
    apply (rule panic_free_bind [OF query])
    apply (rule panic_free_bind [OF panic_free_simple(3)])
    apply (rule panic_free_bind [OF _ found])
    subgoal by (simp only: h_return_Inr) (rule addresses, erule (2) answer)
    done
qed

text \<open>
  C13. Other requests may change the database and Redis in any way that keeps the schema, before
  each statement of a notify request: the handler never panics (in particular the subscribers it
  reads always have a requested account, and the rate limits it asked for are all there), and it
  keeps the schema itself.
\<close>

theorem notify_among_others:
  assumes "\<And>w. wf_db (en_ext E) (w_db w) \<Longrightarrow> wf_db (en_ext E) (w_db (before w))"
    and "\<And>k j w. wf_db (en_ext E) (w_db w) \<Longrightarrow> wf_db (en_ext E) (w_db (g k j w))"
    and "\<forall>b \<in> set body. list_all (valid_account (en_ext E)) (nb_accounts b)"
    and "wf_db (en_ext E) (w_db w)"
  shows "fst (notify_v1_among before g E project_id body w) \<noteq> Inl Panicked \<and>
    wf_db (en_ext E) (w_db (snd (notify_v1_among before g E project_id body w)))"
proof -
  let ?I = "wf_db (en_ext E)"
  have one: "panic_free ?I (notify_one_among (g k) E project_id p resp b)" if "b \<in> set body" for k p resp b
    unfolding notify_one_among_def using assms(2,3) that
    by (intro panic_free_bind [OF notify_prepare_panic_free] panic_free_bind [OF panic_free_meanwhile]
        notify_deliver_panic_free) auto
  have each: "panic_free ?I (case x of (k, b) \<Rightarrow> notify_one_among (g k) E project_id p resp b)"
    if "x \<in> set (enumerate 0 body)" for x p resp
    using that one [of "snd x" "fst x"] nth_mem [of "fst x" body] by (auto simp: in_set_enumerate_eq case_prod_unfold)
  have "panic_free ?I (notify_v1_among before g E project_id body)"
    unfolding notify_v1_among_def notify_rate_limit_def Let_def
    by (intro panic_free_bind [OF panic_free_calls(1)] panic_free_bind [OF panic_free_simple(4)]
        panic_free_bind [OF panic_free_simple(5)] panic_free_bind [OF panic_free_meanwhile] panic_free_foldM each)
      (erule assms(1))
  then show ?thesis using assms(4) by (simp add: panic_free_def)
qed

section \<open>A subscriber deleted in between\<close>

lemma deliveries_gone:
  assumes "wf_db X d" "s \<in> set ss" "s \<notin> sids d"
  shows "\<not> is_ok (upsert_subscriber_notifications gen now n ss d)"
proof
  assume "is_ok (upsert_subscriber_notifications gen now n ss d)"
  then obtain d' where d': "upsert_subscriber_notifications gen now n ss d = Inr d'" by (auto simp: is_ok_iff)
  note rows = insert_subscriber_notifications_spec [OF upsert_subscriber_notifications_rows [OF d']]
  from rows have same: "d' = d\<lparr> subscriber_notifications := subscriber_notifications d', delivery_channel := delivery_channel d' \<rparr>"
    and "(n, s) \<in> sn_index ` set (subscriber_notifications d')"
    using assms(2) by blast+
  then have "s \<in> sids d'"
    using wf_dbD(6) [OF upsert_subscriber_notifications_wf [OF d' assms(1)]]
    by (auto simp: wf_subscriber_notifications_def sn_index_def)
  moreover have "sids d' = sids d" using arg_cong [OF same, of subscribers] by (simp add: sids_def)
  ultimately show False using assms(3) by simp
qed

lemma deliveries_stored:
  assumes "n \<in> nids d" "set ss \<subseteq> sids d" "inj_on gen {..<length ss}"
    and "gen ` {..<length ss} \<inter> sn_id ` set (subscriber_notifications d) = {}"
  shows "is_ok (upsert_subscriber_notifications gen now n ss d)"
proof -
  have "is_ok (insert_subscriber_notifications gen k now n st ss d)"
    if "n \<in> nids d" "set ss \<subseteq> sids d" "inj_on gen {k..<k + length ss}"
      "gen ` {k..<k + length ss} \<inter> sn_id ` set (subscriber_notifications d) = {}" for k st d
    using that
  proof (induction ss arbitrary: k d)
    case (Cons s ss)
    let ?r = "\<lparr> sn_id = gen k, sn_created_at = now, sn_updated_at = now, sn_notification = n,
      sn_subscriber = s, sn_status = st, sn_is_read = False \<rparr>"
    let ?d = "d\<lparr> subscriber_notifications := subscriber_notifications d @ [?r],
      delivery_channel := delivery_channel d @ [gen k] \<rparr>"
    have split: "{k..<k + length (s # ss)} = insert k {Suc k..<Suc k + length ss}" by auto
    have new: "gen k \<notin> sn_id ` set (subscriber_notifications d)" using Cons.prems(4) unfolding split by blast
    have row: "insert_subscriber_notification_row ?r d = Inr (if unique_ok sn_index ?r (subscriber_notifications d) then ?d else d)"
      using Cons.prems(1,2) new by (simp add: insert_subscriber_notification_row_def unique_ok_def)
    have "is_ok (insert_subscriber_notifications gen (Suc k) now n st ss ?d)"
      using Cons.prems unfolding split by (intro Cons.IH) (auto simp: nids_def sids_def)
    moreover have "is_ok (insert_subscriber_notifications gen (Suc k) now n st ss d)"
      using Cons.prems unfolding split by (intro Cons.IH) auto
    ultimately show ?case by (simp add: row)
  qed simp
  from this [OF assms(1,2), of 0] show ?thesis
    using assms(3,4) by (simp add: upsert_subscriber_notifications_def cast_status_def status_to_string_def atLeast0LessThan)
qed

text \<open>
  C14. A notify request whose last statement comes after other requests' changes, while its
  notification is still stored and the ids that the database draws for the new rows are fresh. Take
  the subscribers it chose, those it read that accept the type and are within their rate limit: the
  request succeeds exactly when all of them are still there. Then it answers that their accounts
  were sent to, and each of them has one delivery row. If a single one of them was deleted
  meanwhile, the statement violates its foreign key: the request fails with an internal error, and
  nobody gets a delivery row. (A subscriber it read but did not choose does not matter.)
\<close>

theorem notify_race:
  assumes "notify_prepare g E pid p resp b w = (Inr (nu, resp1, valid), w1)"
    and "w2 = g 3 w1" "wf_db (en_ext E) (w_db w2)" "nu \<in> nids (w_db w2)"
    and "inj_on (dr_uuids (en_draw E (w_drawn w2))) {..<length valid}"
    and "dr_uuids (en_draw E (w_drawn w2)) ` {..<length valid} \<inter> sn_id ` set (subscriber_notifications (w_db w2)) = {}"
  shows "(fst ` set valid \<subseteq> sids (w_db w2) \<longrightarrow> (\<exists>w'. notify_one_among g E pid p resp b w =
        (Inr (resp1\<lparr> rb_sent := rb_sent resp1 \<union> snd ` set valid \<rparr>), w') \<and>
        (\<forall>s \<in> fst ` set valid. \<exists>!r. r \<in> set (subscriber_notifications (w_db w')) \<and> sn_notification r = nu \<and> sn_subscriber r = s))) \<and>
    (\<not> fst ` set valid \<subseteq> sids (w_db w2) \<longrightarrow> (\<exists>e w'. notify_one_among g E pid p resp b w = (Inl (Failure (Sqlx e)), w') \<and>
        w_db w' = w_db w2))"
proof (intro conjI impI)
  let ?gen = "dr_uuids (en_draw E (w_drawn w2))"
  let ?up = "upsert_subscriber_notifications ?gen (en_now E) nu (map fst valid) (w_db w2)"
  have run: "notify_one_among g E pid p resp b w = notify_deliver E (nu, resp1, valid) w2"
    by (simp add: notify_one_among_def h_bind_def assms(1,2) h_meanwhile_def)
  {
    assume "fst ` set valid \<subseteq> sids (w_db w2)"
    then have "is_ok ?up" using assms(4-6) by (intro deliveries_stored) simp_all
    then obtain d where d: "?up = Inr d" by (auto simp: is_ok_iff)
    then have "notify_one_among g E pid p resp b w =
        (Inr (resp1\<lparr> rb_sent := rb_sent resp1 \<union> snd ` set valid \<rparr>), w2\<lparr> w_drawn := Suc (w_drawn w2), w_db := d \<rparr>)"
      by (simp add: run notify_deliver_def db_upsert_subscriber_notifications_def h_bind_def h_draw_def h_exec_def h_return_def)
    moreover have "\<exists>!r. r \<in> set (subscriber_notifications d) \<and> sn_notification r = nu \<and> sn_subscriber r = s"
      if "s \<in> fst ` set valid" for s
      using insert_subscriber_notifications_spec [OF upsert_subscriber_notifications_rows [OF d]] that
      by (intro one_delivery_row [OF upsert_subscriber_notifications_wf [OF d assms(3)]]) auto
    ultimately show "\<exists>w'. notify_one_among g E pid p resp b w =
        (Inr (resp1\<lparr> rb_sent := rb_sent resp1 \<union> snd ` set valid \<rparr>), w') \<and>
        (\<forall>s \<in> fst ` set valid. \<exists>!r. r \<in> set (subscriber_notifications (w_db w')) \<and> sn_notification r = nu \<and> sn_subscriber r = s)"
      by auto
  }
  assume "\<not> fst ` set valid \<subseteq> sids (w_db w2)"
  then obtain s where "s \<in> set (map fst valid)" "s \<notin> sids (w_db w2)" by auto
  then have "\<not> is_ok ?up" by (rule deliveries_gone [OF assms(3)])
  then obtain e where "?up = Inl e" by (cases ?up) (auto simp: is_ok_def)
  then show "\<exists>e w'. notify_one_among g E pid p resp b w = (Inl (Failure (Sqlx e)), w') \<and> w_db w' = w_db w2"
    by (simp add: run notify_deliver_def db_upsert_subscriber_notifications_def h_bind_def h_draw_def h_exec_def h_fail_def)
qed

section \<open>Witnesses\<close>

text \<open>Before the last statement of the demonstration's request its subscriber is deleted.\<close>

definition deleted_meanwhile :: "nat \<Rightarrow> world \<Rightarrow> world" where
  "deleted_meanwhile j w = (if j = 3 then snd (db_delete_subscriber 7 w :: (unit, string failure) result \<times> world) else w)"

definition resp_demo :: ResponseBody where
  "resp_demo = \<lparr> rb_sent = {}, rb_failed = {}, rb_not_found = {} \<rparr>"

lemma lookup_demo:
  "chain_agnostic_lookup_table [acct_a, acct_b] \<noteq> None"
  "Option.bind (get_address_from_account acct_a) (the (chain_agnostic_lookup_table [acct_a, acct_b])) = Some acct_a"
  by code_simp+

lemma wf_demo_db_sent: "wf_db ext_demo demo_db_sent"
  using valid_demo_accounts by (simp add: demo_db_sent_defs wf_db_def wf_table_defs pids_def sids_def nids_def pg_status_def n_index_def)

lemma reads_demo:
  "get_subscribers_for_project_in ext_demo 1 [acct_a, acct_b] demo_db_sent =
     Some (Inr [\<lparr> nsi_id = 7, nsi_account = acct_a, nsi_scope = {3} \<rparr>])"
proof -
  have "filter (\<lambda>s. s_project s = 1 \<and> get_address_lower (s_account s) \<in> get_address_lower ` set [acct_a, acct_b])
      (subscribers demo_db_sent) = [demo_key_subscriber]"
    using demo_concerned by (simp add: concerned_def demo_db_sent_def)
  moreover have "subscriber_info ext_demo demo_db_sent demo_key_subscriber = \<lparr> nsi_id = 7, nsi_account = acct_a, nsi_scope = {3} \<rparr>"
    using uuid_laws_demo
    by (simp add: subscriber_info_def demo_db_sent_defs scope_names_def parse_scopes_and_ignore_invalid_def uuid_laws_def
        List.map_filter_def)
  ultimately show ?thesis
    using get_subscribers_for_project_in_total [OF wf_demo_db_sent, of "[acct_a, acct_b]" 1] valid_demo_accounts by simp
qed

lemma prepare_demo:
  "\<exists>resp1. notify_prepare deleted_meanwhile env_demo ''prj'' demo_key_project resp_demo demo_body (world_demo demo_db7) =
     (Inr (2000, resp1, [(7, acct_a)]), (world_demo demo_db_sent)\<lparr> w_drawn := 2 \<rparr>)"
proof -
  have "w_drawn (world_demo demo_db7) = 0" by (simp add: world_demo_def)
  moreover have "w_db ((world_demo demo_db_sent)\<lparr> w_drawn := 2 \<rparr>) = demo_db_sent" by (simp add: world_demo_def)
  moreover have "en_ext env_demo = ext_demo" "\<not> en_redis env_demo" "p_id demo_key_project = 1"
    "nb_accounts demo_body = [acct_a, acct_b]" "nb_notification_id demo_body = Some ''n2''" "nb_notification demo_body = demo_notification"
    "ntf_type demo_notification = 3"
    by (simp_all add: env_demo_def demo_key_project_def demo_project_def demo_body_def demo_notification_def)
  ultimately show ?thesis
    using lookup_demo notification_demo reads_demo
    by (auto simp: notify_prepare_def h_bind_def h_draw_def h_meanwhile_def deleted_meanwhile_def h_return_def h_expect_def h_lift_def
        limit_subscribers_def)
qed

lemma deleted_demo:
  "wf_db ext_demo (w_db (deleted_meanwhile 3 ((world_demo demo_db_sent)\<lparr> w_drawn := 2 \<rparr>)))"
  "7 \<notin> sids (w_db (deleted_meanwhile 3 ((world_demo demo_db_sent)\<lparr> w_drawn := 2 \<rparr>)))"
  "2000 \<in> nids (w_db (deleted_meanwhile 3 ((world_demo demo_db_sent)\<lparr> w_drawn := 2 \<rparr>)))"
  "w_drawn (deleted_meanwhile 3 ((world_demo demo_db_sent)\<lparr> w_drawn := 2 \<rparr>)) = 2"
  "subscriber_notifications (w_db (deleted_meanwhile 3 ((world_demo demo_db_sent)\<lparr> w_drawn := 2 \<rparr>))) = []"
  using delete_subscriber_wf [OF wf_demo_db_sent, of 7]
  by (auto simp: deleted_meanwhile_def db_delete_subscriber_def delete_subscriber_def world_demo_def demo_db_sent_defs sids_def nids_def)

theorem notify_race_witness:
  "\<exists>e w'. notify_one_among deleted_meanwhile env_demo ''prj'' demo_key_project resp_demo demo_body (world_demo demo_db7) =
     (Inl (Failure (Sqlx e)), w') \<and> subscriber_notifications (w_db w') = []"
proof -
  obtain resp1 where prep: "notify_prepare deleted_meanwhile env_demo ''prj'' demo_key_project resp_demo demo_body (world_demo demo_db7) =
     (Inr (2000, resp1, [(7, acct_a)]), (world_demo demo_db_sent)\<lparr> w_drawn := 2 \<rparr>)"
    using prepare_demo by blast
  have "en_ext env_demo = ext_demo" by (simp add: env_demo_def)
  then show ?thesis
    using notify_race [OF prep refl] deleted_demo by (auto simp: lessThan_Suc)
qed

theorem notify_among_others_witness:
  "fst (notify_v1_among id (\<lambda>k. deleted_meanwhile) env_demo ''prj'' [demo_body] (world_demo demo_db7)) \<noteq> Inl Panicked"
proof -
  have "wf_db (en_ext env_demo) (w_db (deleted_meanwhile j w))" if "wf_db (en_ext env_demo) (w_db w)" for j w
    using delete_subscriber_wf [OF that] that by (simp add: deleted_meanwhile_def db_delete_subscriber_def)
  moreover have "wf_db (en_ext env_demo) (w_db (world_demo demo_db7))" using wf_demo_db7 by (simp add: world_demo_def env_demo_def)
  moreover have "list_all (valid_account (en_ext env_demo)) (nb_accounts demo_body)"
    using valid_demo_accounts by (simp add: demo_body_def env_demo_def)
  ultimately show ?thesis
    using notify_among_others [of env_demo id "\<lambda>k. deleted_meanwhile" "[demo_body]" "world_demo demo_db7" "''prj''"] by simp
qed

end
