(* ===== verification/Cacao_Signing.thy ===== *)
theory Cacao_Signing
  imports Auth
begin

text \<open>
  The other side of \<open>verify_identity\<close>: how a client makes the CACAO that registers its identity
  key. \<open>sign_cacao\<close> and the mocked Keys Server are those of the module \<open>test_utils\<close> of
  \<open>src/src/auth.rs\<close>, the encoding of recaps those of \<open>src/src/siwx/erc5573.rs\<close> and
  \<open>notify_recap.rs\<close>. What \<open>sign_cacao\<close> makes, \<open>verify_identity\<close> accepts, for exactly the apps
  asked for; the unit tests of \<open>src/src/auth.rs\<close> about identities are instances.
\<close>

text \<open>
  The code outside the repository that only signing uses: the constants of \<open>relay_rpc\<close>, the EIP-4361
  message of a CACAO, its EIP-191 bytes, and the account's key, which signs a digest (signature and
  recovery id).
\<close>

record wallet_ext =
  wx_identity_key_query :: string
  wx_eip4361 :: string
  wx_eip191 :: string
  wx_version_1 :: string
  wx_siwe_message :: "Cacao \<Rightarrow> string option"
  wx_eip191_bytes :: "string \<Rightarrow> bytes"
  wx_sign_recoverable :: "bytes \<Rightarrow> (bytes \<times> u8) option"

section \<open>Recaps\<close>

definition abilities_to_json :: "recap_abilities \<Rightarrow> json" where
  "abilities_to_json ab = JObject (map (\<lambda>(a, vs). (Ability_to_string a, JArray vs)) ab)"

definition ReCapDetailsObject_to_json :: "ReCapDetailsObject \<Rightarrow> json" where
  "ReCapDetailsObject_to_json r = JObject [(''att'', JObject (map (\<lambda>(u, ab). (u, abilities_to_json ab)) (att r)))]"

definition encode_recaip_uri :: "ext \<Rightarrow> ReCapDetailsObject \<Rightarrow> string" where
  "encode_recaip_uri X recap =
     RECAP_URI_PREFIX @ b64_url_no_pad_encode X (as_bytes (json_to_string X (ReCapDetailsObject_to_json recap)))"

definition build_recap_details_object :: "string option \<Rightarrow> ReCapDetailsObject" where
  "build_recap_details_object domain =
     \<lparr> att = [(NOTIFY_URI, [(\<lparr> namespace = ABILITY_NAMESPACE_MANAGE,
          ability_name = (case domain of None \<Rightarrow> ABILITY_ABILITY_ALL_APPS_MAGIC | Some d \<Rightarrow> d) @ ABILITY_ABILITY_SUFFIX \<rparr>,
        [JObject []])])] \<rparr>"

section \<open>Signing\<close>

datatype CacaoAuth = Statement string | AllApps | ThisApp

text \<open>The audience of a CACAO with a recap: the app's URL with the identity key as a query.\<close>

definition recap_audience :: "ext \<Rightarrow> wallet_ext \<Rightarrow> string \<Rightarrow> bytes \<Rightarrow> string option" where
  "recap_audience X W domain identity_public_key =
     map_option (\<lambda>url. url_append_query X url (wx_identity_key_query W) (to_did_key X identity_public_key))
       (url_parse X (''https://'' @ domain))"

text \<open>
  From the literal of the CACAO on. \<open>None\<close> is a panic: the message cannot be built, the digest not
  signed, or the result does not verify.
\<close>

definition sign_payload ::
  "ext \<Rightarrow> wallet_ext \<Rightarrow> string \<Rightarrow> AccountId \<Rightarrow> string \<Rightarrow> string \<Rightarrow> string list \<Rightarrow> bytes \<Rightarrow> string \<Rightarrow> Cacao option" where
  "sign_payload X W domain account statement audience resources nonce issued_at =
     (let cacao = \<lparr> c_iss = to_did_pkh X account, c_domain = domain, c_statement = Some statement,
            c_resources = Some resources, c_nbf = None, c_exp = None, c_signature = '''', c_header_type = wx_eip4361 W,
            c_aud = audience, c_version = wx_version_1 W, c_nonce = hex_encode X nonce, c_iat = issued_at, c_request_id = None,
            c_signature_type = '''' \<rparr> in
      Option.bind (wx_siwe_message W cacao) (\<lambda>message.
      Option.bind (wx_sign_recoverable W (keccak256 X (wx_eip191_bytes W message))) (\<lambda>(signature, recovery).
      let cacao = cacao\<lparr> c_signature_type := wx_eip191 W, c_signature := hex_encode X (signature @ [recovery]) \<rparr> in
      if is_ok (cacao_verify X cacao) then Some cacao else None)))"

definition sign_cacao ::
  "ext \<Rightarrow> wallet_ext \<Rightarrow> string \<Rightarrow> AccountId \<Rightarrow> CacaoAuth \<Rightarrow> bytes \<Rightarrow> string \<Rightarrow> bytes \<Rightarrow> string \<Rightarrow> Cacao option" where
  "sign_cacao X W app_domain account auth identity_public_key keys_server_url nonce issued_at =
     Option.bind
       (case auth of
          Statement statement \<Rightarrow> Some (statement, to_did_key X identity_public_key, [keys_server_url])
        | _ \<Rightarrow>
            let recap = build_recap_details_object (if auth = ThisApp then Some app_domain else None) in
            map_option (\<lambda>audience. (build_statement recap, audience, [keys_server_url, encode_recaip_uri X recap]))
              (recap_audience X W app_domain identity_public_key))
       (\<lambda>(statement, audience, resources). sign_payload X W app_domain account statement audience resources nonce issued_at)"

section \<open>The mocked Keys Server\<close>

text \<open>The URL \<open>verify_identity\<close> requests, and a mock server: what is not mounted is a 404.\<close>

definition identity_url :: "ext \<Rightarrow> string \<Rightarrow> string \<Rightarrow> string option" where
  "identity_url X keys_server public_key =
     Option.bind (url_parse X keys_server) (\<lambda>base.
       map_option (\<lambda>endpoint. url_append_query X endpoint KEYS_SERVER_IDENTITY_ENDPOINT_PUBLIC_KEY_QUERY public_key)
         (url_join X base KEYS_SERVER_IDENTITY_ENDPOINT))"

definition mock_identity :: "ext \<Rightarrow> string \<Rightarrow> string \<Rightarrow> key_server_http \<Rightarrow> ext" where
  "mock_identity X keys_server public_key response =
     X\<lparr> http_get_key_server := (\<lambda>url. Inr (if Some url = identity_url X keys_server public_key then response
        else \<lparr> ksh_status = 404, ksh_body = Inl '''' \<rparr>)) \<rparr>"

definition register_mocked_identity_key :: "ext \<Rightarrow> string \<Rightarrow> bytes \<Rightarrow> Cacao \<Rightarrow> ext" where
  "register_mocked_identity_key X keys_server identity_public_key cacao =
     mock_identity X keys_server (client_id_to_string X identity_public_key)
       \<lparr> ksh_status = 200, ksh_body = Inr \<lparr> ksr_status = KEYS_SERVER_STATUS_SUCCESS, ksr_value = Some cacao \<rparr> \<rparr>"

section \<open>Recaps read back\<close>

definition recap_valid :: "ReCapDetailsObject \<Rightarrow> bool" where
  "recap_valid r \<longleftrightarrow> recap_ok r \<and> (\<forall>(u, ab) \<in> set (att r). \<forall>a \<in> fst ` set ab. ability_ok a)"

lemma dedup_last_distinct: "distinct (map fst ms) \<Longrightarrow> dedup_last ms = ms"
  by (induction ms) (auto simp: image_iff)

lemma abilities_from_to_json:
  assumes "distinct (map fst ab)" "\<forall>a \<in> fst ` set ab. ability_ok a"
  shows "abilities_from_json (abilities_to_json ab) = Inr ab"
proof -
  have "collect_results (\<lambda>(k, v). rbind (Ability_from_str k) (\<lambda>a. map_ok (Pair a) (as_array v)))
      (map (\<lambda>(a, vs). (Ability_to_string a, JArray vs)) ab) = Inr ab"
    using assms(2) by (induction ab) (auto simp: ability.dec_enc as_array_def)
  then show ?thesis
    by (simp add: abilities_from_json_def abilities_to_json_def as_object_def dedup_last_distinct [OF assms(1)])
qed

interpretation recap: codec recap_valid ReCapDetailsObject_to_json ReCapDetailsObject_from_json
proof
  fix r assume r: "recap_valid r"
  have one: "abilities_from_json (abilities_to_json ab) = Inr ab" if "(u, ab) \<in> set (att r)" for u ab
    using that r by (intro abilities_from_to_json) (fastforce simp: recap_valid_def recap_ok_def)+
  have "collect_results (\<lambda>(u, a). map_ok (Pair u) (abilities_from_json a))
      (map (\<lambda>(u, ab). (u, abilities_to_json ab)) us) = Inr us"
    if "set us \<subseteq> set (att r)" for us
    using that by (induction us) (auto simp: one)
  moreover have "distinct (map fst (att r))" using r by (simp add: recap_valid_def recap_ok_def)
  ultimately show "ReCapDetailsObject_from_json (ReCapDetailsObject_to_json r) = Inr r"
    by (simp add: ReCapDetailsObject_from_json_def ReCapDetailsObject_to_json_def as_struct_def req_field_def jfield_def as_object_def
        dedup_last_distinct)
qed

text \<open>\<open>serde_json\<close> reads the text it wrote for a recap.\<close>

definition recap_text_reads :: "ext \<Rightarrow> ReCapDetailsObject \<Rightarrow> bool" where
  "recap_text_reads X r \<longleftrightarrow>
     json_from_slice X (as_bytes (json_to_string X (ReCapDetailsObject_to_json r))) = Inr (ReCapDetailsObject_to_json r)"

lemma parse_recap_encoded:
  assumes "\<forall>bs. b64_url_no_pad_decode X (b64_url_no_pad_encode X bs) = Inr bs" "recap_text_reads X r" "recap_valid r"
    and "\<forall>uri \<in> fst ` set (att r). uri_regex uri \<or> uri = ''eip155''"
  shows "parse_recap X (Some (encode_recaip_uri X r)) = Inr (Some r)"
proof -
  have "strip_prefix RECAP_URI_PREFIX (encode_recaip_uri X r) =
      Some (b64_url_no_pad_encode X (as_bytes (json_to_string X (ReCapDetailsObject_to_json r))))"
    by (simp add: encode_recaip_uri_def)
  moreover have "find (\<lambda>uri. \<not> uri_regex uri \<and> uri \<noteq> ''eip155'') (map fst (att r)) = None"
    using assms(4) by (auto simp: find_None_iff)
  ultimately show ?thesis
    using assms(1,2) recap.dec_enc [OF assms(3)] by (simp add: parse_recap_def recap_text_reads_def)
qed

section \<open>What is signed is accepted\<close>

text \<open>
  What signing relies on: Base64 decodes what it encoded, verification answers true or fails, and
  \<open>identity_key\<close> finds the key an audience names, as a DID or in the query of the app's URL.
\<close>

definition signing_laws :: "ext \<Rightarrow> wallet_ext \<Rightarrow> bool" where
  "signing_laws X W \<longleftrightarrow> did_laws X \<and> (\<forall>bs. b64_url_no_pad_decode X (b64_url_no_pad_encode X bs) = Inr bs) \<and>
     (\<forall>c. cacao_verify X c \<noteq> Inr False) \<and>
     (\<forall>c k. c_aud c = to_did_key X k \<longrightarrow> cacao_identity_key X c = Inr (client_id_to_string X k)) \<and>
     (\<forall>c d k. recap_audience X W d k = Some (c_aud c) \<longrightarrow> cacao_identity_key X c = Inr (client_id_to_string X k))"

lemma sign_payload_Some:
  assumes "sign_payload X W domain account st au rs nonce t = Some c"
  shows "c_iss c = to_did_pkh X account \<and> c_domain c = domain \<and> c_statement c = Some st \<and> c_resources c = Some rs \<and>
    c_nbf c = None \<and> c_exp c = None \<and> c_aud c = au \<and> is_ok (cacao_verify X c)"
  using assms by (auto simp: sign_payload_def Let_def bind_eq_Some_conv split: if_splits)

lemma from_did_pkh_own: "did_laws X \<Longrightarrow> valid_account X a \<Longrightarrow> from_did_pkh X (to_did_pkh X a) = Some (Inr a)"
  using codec.dec_enc [OF codec_exact.axioms(1) [OF did_pkh_codec], of X a]
  by (auto simp: from_did_pkh_res_def split: option.splits)

lemma verify_signed:
  assumes "signing_laws X W" "valid_account X account" "sign_payload X W domain account st au rs nonce t = Some c"
    and "cacao_identity_key X c = Inr pk"
  shows "verify_cacao X now pk (to_did_pkh X account) c =
    map_ok (\<lambda>app. \<lparr> az_account = account, az_app = app, az_domain = domain \<rparr>) (map_err IvClient (cacao_app X c))"
proof -
  note c = sign_payload_Some [OF assms(3)]
  have d: "did_laws X" using assms(1) by (simp add: signing_laws_def)
  have "cacao_verify X c = Inr True" using c assms(1) unfolding signing_laws_def is_ok_iff by (metis (full_types))
  then show ?thesis
    using c assms(4) from_did_pkh_own [OF d assms(2)]
    by (cases "cacao_app X c") (simp_all add: verify_cacao_def check_nbf_def check_exp_def)
qed

text \<open>Mocking the Keys Server changes nothing else.\<close>

lemma http_frame:
  fixes X f
  defines "Y \<equiv> X\<lparr> http_get_key_server := f \<rparr>"
  shows "verify_cacao Y = verify_cacao X" "identity_url Y = identity_url X" "url_parse Y = url_parse X"
    "url_join Y = url_join X" "url_append_query Y = url_append_query X" "client_id_to_string Y = client_id_to_string X"
proof -
  have fields: "hex_encode Y = hex_encode X" "keccak256 Y = keccak256 X" "extract_did_data Y = extract_did_data X"
    "b64_url_no_pad_decode Y = b64_url_no_pad_decode X" "json_from_slice Y = json_from_slice X"
    "parse_rfc3339 Y = parse_rfc3339 X" "cacao_verify Y = cacao_verify X" "cacao_identity_key Y = cacao_identity_key X"
    by (simp_all add: Y_def)
  have erc: "erc_55_checksum_encode Y = erc_55_checksum_encode X" unfolding erc_55_checksum_encode_def fields ..
  have acc: "AccountId_try_from Y = AccountId_try_from X"
    unfolding AccountId_try_from_def validate_caip_10_def validate_eip155_def validate_eip155_address_def erc ..
  have did: "from_did_pkh Y = from_did_pkh X" unfolding from_did_pkh_def fields acc ..
  have app: "cacao_app Y = cacao_app X" unfolding cacao_app_def parse_recap_def fields ..
  show "verify_cacao Y = verify_cacao X"
    unfolding verify_cacao_def check_nbf_def check_exp_def fields did app ..
qed (simp_all add: Y_def identity_url_def fun_eq_iff)

lemma mock_frame:
  "verify_cacao (mock_identity X s pk r) = verify_cacao X" "identity_url (mock_identity X s pk r) = identity_url X"
  "url_parse (mock_identity X s pk r) = url_parse X" "url_join (mock_identity X s pk r) = url_join X"
  "url_append_query (mock_identity X s pk r) = url_append_query X"
  "client_id_to_string (mock_identity X s pk r) = client_id_to_string X"
  by (simp_all add: mock_identity_def http_frame del: ext.simps)

lemma verify_identity_mocked:
  assumes "identity_url X ksu (client_id_to_string X key) \<noteq> None"
  shows "fst (verify_identity (register_mocked_identity_key X ksu key cacao) now key ksu sub None) =
    verify_cacao X now (client_id_to_string X key) sub cacao"
proof -
  obtain u e where u: "url_parse X ksu = Some u" "url_join X u KEYS_SERVER_IDENTITY_ENDPOINT = Some e"
    using assms by (auto simp: identity_url_def bind_eq_Some_conv)
  let ?Y = "register_mocked_identity_key X ksu key cacao"
  let ?url = "url_append_query X e KEYS_SERVER_IDENTITY_ENDPOINT_PUBLIC_KEY_QUERY (client_id_to_string X key)"
  have "keys_server_request ?Y ?url = Inr cacao"
    by (simp add: keys_server_request_def register_mocked_identity_key_def mock_identity_def identity_url_def u)
  then show ?thesis
    by (simp add: verify_identity_def register_mocked_identity_key_def mock_frame u Let_def keys_server_request_cached_def)
qed

text \<open>
  The recap of a request, and the apps it asks for: what its statement says, all, or this one. A
  recap for one app names the app by its domain, so the domain \<open>all-apps\<close> asks for all apps, and a
  domain that is not one by the server's pattern (with a port, say) asks for nothing.
\<close>

definition requested_recap :: "string \<Rightarrow> CacaoAuth \<Rightarrow> ReCapDetailsObject" where
  "requested_recap domain auth = build_recap_details_object (if auth = ThisApp then Some domain else None)"

definition requested_app :: "string \<Rightarrow> CacaoAuth \<Rightarrow> (AuthorizedApp, IdentityVerificationClientError) result" where
  "requested_app domain auth =
     (case auth of
        Statement st \<Rightarrow> ok_or (parse_cacao_statement st domain) CacaoStatementInvalid
      | AllApps \<Rightarrow> Inr Unlimited
      | ThisApp \<Rightarrow>
          if domain = ABILITY_ABILITY_ALL_APPS_MAGIC then Inr Unlimited
          else if domain_regex domain then Inr (Limited domain)
          else if list_all ability_name_char domain then Inl CacaoRecapAbilityNameNotValidDomain
          else Inl (CacaoRecapParse (RecapJson ''Ability string invalid'')))"

lemma notify_uri_regex: "uri_regex NOTIFY_URI"
  by (simp add: uri_regex_def NOTIFY_URI_def)

lemma build_recap_valid:
  assumes "list_all ability_name_char (case d of None \<Rightarrow> ABILITY_ABILITY_ALL_APPS_MAGIC | Some d \<Rightarrow> d)"
  shows "recap_valid (build_recap_details_object d)"
  using assms
  by (simp add: recap_valid_def recap_ok_def build_recap_details_object_def ability_ok_def ABILITY_NAMESPACE_MANAGE_def
      ABILITY_ABILITY_SUFFIX_def ability_ns_char_def)
    (simp add: ability_name_char_def is_lower_az_def is_upper_az_def less_eq_char_def)

lemma all_apps_chars: "list_all ability_name_char ABILITY_ABILITY_ALL_APPS_MAGIC"
  by (simp add: ABILITY_ABILITY_ALL_APPS_MAGIC_def ability_name_char_def is_lower_az_def less_eq_char_def)

lemma domain_chars: "domain_regex d \<Longrightarrow> list_all ability_name_char d"
  by (auto simp: domain_regex_def list_all_iff ability_name_char_def is_upper_az_def less_eq_char_def)

lemma build_recap_app:
  "recap_app (build_recap_details_object d) =
     (case d of
        None \<Rightarrow> Inr Unlimited
      | Some d \<Rightarrow> if d = ABILITY_ABILITY_ALL_APPS_MAGIC then Inr Unlimited else if domain_regex d then Inr (Limited d)
          else Inl CacaoRecapAbilityNameNotValidDomain)"
proof -
  have "strip_suffix ABILITY_ABILITY_SUFFIX (x @ ABILITY_ABILITY_SUFFIX) = Some x" for x by (simp add: strip_suffix_Some_iff)
  then show ?thesis by (cases d) (simp_all add: recap_app_def build_recap_details_object_def fetch_optional_def)
qed

text \<open>With a recap as its only and last one, and the recap's statement, a CACAO authorizes what the recap says.\<close>

lemma cacao_app_recap:
  assumes "signing_laws X W" "recap_text_reads X r" "recap_valid r" "fst ` set (att r) \<subseteq> {NOTIFY_URI}"
    and "c_statement c = Some (build_statement r)" "c_resources c = Some [ksu, encode_recaip_uri X r]"
    and "\<not> starts_with RECAP_URI_PREFIX ksu"
  shows "cacao_app X c = recap_app r"
proof -
  have "parse_recap X (Some (encode_recaip_uri X r)) = Inr (Some r)"
    using assms(1-4) notify_uri_regex by (intro parse_recap_encoded) (auto simp: signing_laws_def)
  then show ?thesis
    using assms(5-7) by (simp add: cacao_app_def fetch_optional_def ends_with_iff)
qed

text \<open>A recap whose ability has a name that is none cannot be read.\<close>

lemma Ability_from_bad_name:
  assumes "\<not> list_all ability_name_char d"
  shows "Ability_from_str (Ability_to_string \<lparr> namespace = ABILITY_NAMESPACE_MANAGE, ability_name = d @ sfx \<rparr>) =
    Inl ''Ability string invalid''"
  using assms by (simp add: Ability_from_str_def Ability_to_string_def ABILITY_NAMESPACE_MANAGE_def)

lemma recap_bad_name:
  assumes "\<not> list_all ability_name_char d"
  shows "ReCapDetailsObject_from_json (ReCapDetailsObject_to_json (build_recap_details_object (Some d))) =
    Inl ''Ability string invalid''"
  by (simp add: ReCapDetailsObject_from_json_def ReCapDetailsObject_to_json_def build_recap_details_object_def as_struct_def
      req_field_def jfield_def as_object_def abilities_from_json_def abilities_to_json_def Ability_from_bad_name [OF assms])

lemma cacao_app_bad_name:
  assumes "signing_laws X W" "recap_text_reads X (build_recap_details_object (Some d))" "\<not> list_all ability_name_char d"
    and "c_statement c = Some st" "c_resources c = Some [ksu, encode_recaip_uri X (build_recap_details_object (Some d))]"
    and "\<not> starts_with RECAP_URI_PREFIX ksu"
  shows "cacao_app X c = Inl (CacaoRecapParse (RecapJson ''Ability string invalid''))"
proof -
  let ?r = "build_recap_details_object (Some d)"
  have "strip_prefix RECAP_URI_PREFIX (encode_recaip_uri X ?r) =
      Some (b64_url_no_pad_encode X (as_bytes (json_to_string X (ReCapDetailsObject_to_json ?r))))"
    by (simp add: encode_recaip_uri_def)
  then have "parse_recap X (Some (encode_recaip_uri X ?r)) = Inl (RecapJson ''Ability string invalid'')"
    using assms(1,2) recap_bad_name [OF assms(3)]
    by (simp add: parse_recap_def signing_laws_def recap_text_reads_def)
  then show ?thesis
    using assms(4-6) by (simp add: cacao_app_def fetch_optional_def ends_with_iff)
qed

lemma cacao_app_statement:
  assumes "c_statement c = Some st" "c_resources c = Some [ksu]" "\<not> starts_with RECAP_URI_PREFIX ksu"
  shows "cacao_app X c = ok_or (parse_cacao_statement st (c_domain c)) CacaoStatementInvalid"
proof -
  have "parse_recap X (Some ksu) = Inr None"
    using assms(3) by (auto simp: parse_recap_def starts_with_iff strip_prefix_Some_iff split: option.splits)
  then show ?thesis using assms by (simp add: cacao_app_def fetch_optional_def)
qed

lemma sign_cacao_Some:
  assumes "sign_cacao X W domain account auth key ksu nonce t = Some c"
  obtains st au rs where "sign_payload X W domain account st au rs nonce t = Some c"
    "auth = Statement st \<and> au = to_did_key X key \<and> rs = [ksu] \<or>
     (\<forall>s. auth \<noteq> Statement s) \<and> recap_audience X W domain key = Some au \<and>
       st = build_statement (requested_recap domain auth) \<and> rs = [ksu, encode_recaip_uri X (requested_recap domain auth)]"
  using assms
  by (cases auth) (auto simp: sign_cacao_def bind_eq_Some_conv Let_def requested_recap_def)

lemma cacao_app_requested:
  assumes "signing_laws X W" "\<not> starts_with RECAP_URI_PREFIX ksu" "\<forall>s. auth \<noteq> Statement s"
    and "recap_text_reads X (requested_recap domain auth)"
    and "c_statement c = Some (build_statement (requested_recap domain auth))"
    and "c_resources c = Some [ksu, encode_recaip_uri X (requested_recap domain auth)]"
  shows "cacao_app X c = requested_app domain auth"
proof (cases "auth = ThisApp \<and> \<not> list_all ability_name_char domain")
  case True
  then have "\<not> domain_regex domain" "domain \<noteq> ABILITY_ABILITY_ALL_APPS_MAGIC"
    using domain_chars all_apps_chars by auto
  then show ?thesis
    using cacao_app_bad_name [OF assms(1) _ _ assms(5) _ assms(2), of domain] assms(4,6) True
    by (simp add: requested_recap_def requested_app_def)
next
  case False
  then have "recap_valid (requested_recap domain auth)"
    using all_apps_chars by (auto simp: requested_recap_def intro!: build_recap_valid)
  moreover have "fst ` set (att (requested_recap domain auth)) \<subseteq> {NOTIFY_URI}"
    by (simp add: requested_recap_def build_recap_details_object_def)
  ultimately have "cacao_app X c = recap_app (requested_recap domain auth)"
    using assms(4) by (intro cacao_app_recap [OF assms(1) _ _ _ assms(5,6,2)])
  then show ?thesis
    using False assms(3) by (cases auth) (auto simp: requested_recap_def requested_app_def build_recap_app)
qed

lemma verify_signed_cacao:
  assumes "signing_laws X W" "valid_account X account" "\<not> starts_with RECAP_URI_PREFIX ksu"
    and "sign_cacao X W domain account auth key ksu nonce t = Some cacao"
    and "\<forall>s. auth \<noteq> Statement s \<Longrightarrow> recap_text_reads X (requested_recap domain auth)"
  shows "verify_cacao X now (client_id_to_string X key) (to_did_pkh X account) cacao =
    map_ok (\<lambda>app. \<lparr> az_account = account, az_app = app, az_domain = domain \<rparr>)
      (map_err IvClient (requested_app domain auth))"
proof -
  obtain st au rs where c: "sign_payload X W domain account st au rs nonce t = Some cacao"
    and how: "auth = Statement st \<and> au = to_did_key X key \<and> rs = [ksu] \<or>
     (\<forall>s. auth \<noteq> Statement s) \<and> recap_audience X W domain key = Some au \<and>
       st = build_statement (requested_recap domain auth) \<and> rs = [ksu, encode_recaip_uri X (requested_recap domain auth)]"
    by (rule sign_cacao_Some [OF assms(4)])
  note f = sign_payload_Some [OF c]
  have "cacao_identity_key X cacao = Inr (client_id_to_string X key)"
    using how f assms(1) unfolding signing_laws_def by metis
  note v = verify_signed [OF assms(1,2) c this, of now]
  have "cacao_app X cacao = requested_app domain auth"
  proof (cases "\<exists>s. auth = Statement s")
    case True
    then show ?thesis
      using how f cacao_app_statement [OF _ _ assms(3), of cacao st X] by (auto simp: requested_app_def)
  next
    case False
    then show ?thesis
      using how f assms(5) by (intro cacao_app_requested [OF assms(1,3)]) auto
  qed
  then show ?thesis unfolding v by simp
qed


section \<open>Witness\<close>

definition ext_signing :: ext where
  "ext_signing = ext_demo\<lparr>
     json_from_slice := (\<lambda>bs. Inr (ReCapDetailsObject_to_json (build_recap_details_object (Some ''app.example'')))),
     client_id_to_string := (\<lambda>k. ''0606''),
     cacao_verify := (\<lambda>c. if c_signature c = '''' then Inl ''unsigned'' else Inr True) \<rparr>"

definition wallet_demo :: wallet_ext where
  "wallet_demo = \<lparr> wx_identity_key_query = ''walletconnect_identity_key'', wx_eip4361 = ''eip4361'', wx_eip191 = ''eip191'',
     wx_version_1 = ''1'', wx_siwe_message = c_statement, wx_eip191_bytes = as_bytes,
     wx_sign_recoverable = (\<lambda>digest. Some (digest, 0)) \<rparr>"

lemma signing_laws_demo: "signing_laws ext_signing wallet_demo"
proof -
  have "did_laws ext_signing" using did_laws_demo by (simp add: did_laws_def ext_signing_def)
  moreover have "b64_url_no_pad_decode ext_signing (b64_url_no_pad_encode ext_signing bs) = Inr bs" for bs
    using hex_laws_demo by (simp add: ext_signing_def ext_demo_def hex_laws_def)
  moreover have "cacao_identity_key ext_signing c = Inr (client_id_to_string ext_signing k)" for c k
    by (simp add: ext_signing_def ext_demo_def)
  moreover have "cacao_verify ext_signing c \<noteq> Inr False" for c by (simp add: ext_signing_def)
  ultimately show ?thesis by (simp add: signing_laws_def)
qed


end
