(* ===== verification/Unit_Tests.thy ===== *)
theory Unit_Tests
  imports Cacao_Signing Relay_Publish Batcher Http
begin

text \<open>
  The unit tests the repository has, run against the model: each test function is a definition
  that evaluates to whether its assertions hold, and a lemma that they do. Values a test draws at
  random are arguments. What a test computes with code outside the repository (Base64, \<open>serde_json\<close>
  on a text, Keccak-256) is a hypothesis that states the result for the inputs of the test.
\<close>

section \<open>Recaps: \<open>src/src/siwx/erc5573.rs\<close>\<close>

abbreviation ab :: "string \<Rightarrow> string \<Rightarrow> json list \<Rightarrow> Ability \<times> json list" where
  "ab ns nm vs \<equiv> (\<lparr> namespace = ns, ability_name = nm \<rparr>, vs)"

definition RECAP_PAYLOAD :: string where
  "RECAP_PAYLOAD = ''eyJhdHQiOnsiaHR0cHM6Ly9leGFtcGxlLmNvbS9waWN0dXJlcy8iOnsiY3J1ZC9kZWxldGUiOlt7fV0sImNydWQvdXBkYXRlIjpbe31dLCJvdGhlci9hY3Rpb24iOlt7fV19LCJtYWlsdG86dXNlcm5hbWVAZXhhbXBsZS5jb20iOnsibXNnL3JlY2VpdmUiOlt7Im1heF9jb3VudCI6NSwidGVtcGxhdGVzIjpbIm5ld3NsZXR0ZXIiLCJtYXJrZXRpbmciXX1dLCJtc2cvc2VuZCI6W3sidG8iOiJzb21lb25lQGVtYWlsLmNvbSJ9LHsidG8iOiJqb2VAZW1haWwuY29tIn1dfX0sInByZiI6WyJ6ZGo3V2o2Rk5TNHJVVWJzaUp2amp4Y3NOcVpkRENTaVlSOHNLUVhmb1BmcFNadUF3Il19''"

definition RECAP_RESOURCE :: string where
  "RECAP_RESOURCE = ''urn:recap:'' @ RECAP_PAYLOAD"

definition RECAP_TEST :: ReCapDetailsObject where
  "RECAP_TEST = \<lparr> att = [
     (''https://example.com/pictures/'',
       [ab ''crud'' ''delete'' [JObject []], ab ''crud'' ''update'' [JObject []], ab ''other'' ''action'' [JObject []]]),
     (''mailto:username@example.com'',
       [ab ''msg'' ''receive'' [JObject [(''max_count'', JInt 5),
          (''templates'', JArray [JString ''newsletter'', JString ''marketing''])]],
        ab ''msg'' ''send'' [JObject [(''to'', JString ''someone@email.com'')], JObject [(''to'', JString ''joe@email.com'')]]])] \<rparr>"

definition recap_test_att :: "string \<times> json" where
  "recap_test_att = (''att'', JObject [
     (''https://example.com/pictures/'', JObject [(''crud/delete'', JArray [JObject []]),
        (''crud/update'', JArray [JObject []]), (''other/action'', JArray [JObject []])]),
     (''mailto:username@example.com'', JObject [
        (''msg/receive'', JArray [JObject [(''max_count'', JInt 5),
           (''templates'', JArray [JString ''newsletter'', JString ''marketing''])]]),
        (''msg/send'', JArray [JObject [(''to'', JString ''someone@email.com'')], JObject [(''to'', JString ''joe@email.com'')]])])])"

definition test_json :: bool where
  "test_json \<longleftrightarrow> ReCapDetailsObject_from_json (JObject [recap_test_att]) = Inr RECAP_TEST"

definition test_optional :: "ext \<Rightarrow> bool" where
  "test_optional X \<longleftrightarrow> parse_recap X None = Inr None"

definition test_parse :: "ext \<Rightarrow> bool" where
  "test_parse X \<longleftrightarrow> parse_recap X (Some RECAP_RESOURCE) = Inr (Some RECAP_TEST)"

definition test_parse_ignores_non_recaps :: "ext \<Rightarrow> bool" where
  "test_parse_ignores_non_recaps X \<longleftrightarrow> parse_recap X (Some ''junk'') = Inr None"

definition test_parse_decoding_failed :: "ext \<Rightarrow> bool" where
  "test_parse_decoding_failed X \<longleftrightarrow> (\<exists>e. parse_recap X (Some (RECAP_RESOURCE @ ''='')) = Inl (RecapDecode e))"

definition test_parse_json_failed :: "ext \<Rightarrow> bool" where
  "test_parse_json_failed X \<longleftrightarrow> (\<exists>e. parse_recap X (Some (RECAP_RESOURCE @ ''junk'')) = Inl (RecapJson e))"

definition invalid_uri_text :: string where
  "invalid_uri_text = [CHR ''{'', CHR 0x22] @ ''att'' @ [CHR 0x22, CHR '':'', CHR ''{'', CHR 0x22] @ ''invalid-uri'' @
     [CHR 0x22, CHR '':'', CHR ''{'', CHR ''}'', CHR ''}'', CHR ''}'']"

definition test_parse_uri_validation_failed :: "ext \<Rightarrow> bool" where
  "test_parse_uri_validation_failed X \<longleftrightarrow>
     (\<exists>u. parse_recap X (Some (''urn:recap:'' @ b64_url_no_pad_encode X (as_bytes invalid_uri_text))) = Inl (RecapInvalidUri u))"

text \<open>The text of the payload, as Base64 and JSON read it: the members of the test and \<open>prf\<close>.\<close>

definition recap_payload_json :: json where
  "recap_payload_json = JObject [recap_test_att, (''prf'', JArray [JString ''zdj7Wj6FNS4rUUbsiJvjjxcsNqZdDCSiYR8sKQXfoPfpSZuAw''])]"

definition payload_reads :: "ext \<Rightarrow> string \<Rightarrow> json \<Rightarrow> bool" where
  "payload_reads X payload j \<longleftrightarrow> (\<exists>bs. b64_url_no_pad_decode X payload = Inr bs \<and> json_from_slice X bs = Inr j)"

lemmas recap_reading = ReCapDetailsObject_from_json_def as_struct_def req_field_def jfield_def as_object_def as_array_def
  abilities_from_json_def

lemma tests_ability_strings:
  "Ability_from_str ''crud/delete'' = Inr \<lparr> namespace = ''crud'', ability_name = ''delete'' \<rparr>"
  "Ability_from_str ''crud/update'' = Inr \<lparr> namespace = ''crud'', ability_name = ''update'' \<rparr>"
  "Ability_from_str ''crud/read'' = Inr \<lparr> namespace = ''crud'', ability_name = ''read'' \<rparr>"
  "Ability_from_str ''other/action'' = Inr \<lparr> namespace = ''other'', ability_name = ''action'' \<rparr>"
  "Ability_from_str ''msg/receive'' = Inr \<lparr> namespace = ''msg'', ability_name = ''receive'' \<rparr>"
  "Ability_from_str ''msg/send'' = Inr \<lparr> namespace = ''msg'', ability_name = ''send'' \<rparr>"
  by code_simp+

lemma test_json_holds: "test_json"
  by (simp add: test_json_def recap_test_att_def RECAP_TEST_def recap_reading tests_ability_strings)

lemma test_optional_holds: "test_optional X" "test_parse_ignores_non_recaps X"
  by (simp_all add: test_optional_def test_parse_ignores_non_recaps_def parse_recap_def strip_prefix_def RECAP_URI_PREFIX_def)

lemma test_parse_holds: "payload_reads X RECAP_PAYLOAD recap_payload_json \<Longrightarrow> test_parse X"
  by (auto simp: test_parse_def payload_reads_def parse_recap_def RECAP_RESOURCE_def RECAP_URI_PREFIX_def [symmetric]
      recap_payload_json_def recap_test_att_def RECAP_TEST_def recap_reading tests_ability_strings uri_regex_def)

lemma test_parse_failures_hold:
  "\<not> is_ok (b64_url_no_pad_decode X (RECAP_PAYLOAD @ ''='')) \<Longrightarrow> test_parse_decoding_failed X"
  "b64_url_no_pad_decode X (RECAP_PAYLOAD @ ''junk'') = Inr bs \<Longrightarrow> \<not> is_ok (json_from_slice X bs) \<Longrightarrow> test_parse_json_failed X"
  "payload_reads X (b64_url_no_pad_encode X (as_bytes invalid_uri_text)) (JObject [(''att'', JObject [(''invalid-uri'', JObject [])])]) \<Longrightarrow>
     test_parse_uri_validation_failed X"
  unfolding test_parse_decoding_failed_def test_parse_json_failed_def test_parse_uri_validation_failed_def RECAP_RESOURCE_def
    payload_reads_def RECAP_URI_PREFIX_def [symmetric] append_assoc
  by (auto simp: parse_recap_def recap_reading uri_regex_def is_ok_def split: sum.splits)

definition test_abilities :: bool where
  "test_abilities \<longleftrightarrow>
     (case ReCapDetailsObject_from_json (JObject [(''att'', JObject [
        (''https://example1.com'', JObject [(''crud/read'', JArray [JObject []]), (''crud/update'', JArray [JObject [(''max_times'', JInt 1)]])]),
        (''https://example2.com'', JObject [(''crud/delete'', JArray [JObject []])])])]) of
        Inl e \<Rightarrow> False
      | Inr recap \<Rightarrow>
          map_option (\<lambda>as. fst ` set as) (map_of (att recap) ''https://example1.com'') =
            Some {\<lparr> namespace = ''crud'', ability_name = ''read'' \<rparr>, \<lparr> namespace = ''crud'', ability_name = ''update'' \<rparr>} \<and>
          map_option (\<lambda>as. fst ` set as) (map_of (att recap) ''https://example2.com'') =
            Some {\<lparr> namespace = ''crud'', ability_name = ''delete'' \<rparr>})"

lemma test_abilities_hold: "test_abilities"
  by (simp add: test_abilities_def recap_reading tests_ability_strings)

definition eip155_chains :: json where
  "eip155_chains = JArray [JObject [(''chains'', JArray [JString ''eip155:1''])]]"

definition eip155_requests :: "string list" where
  "eip155_requests = [''eth_sendRawTransaction'', ''eth_sendTransaction'', ''eth_sign'', ''eth_signTransaction'', ''eth_signTypedData'', ''eth_signTypedData_v3'', ''eth_signTypedData_v4'', ''personal_sign'']"

definition eip155_recap_json :: json where
  "eip155_recap_json = JObject [(''att'', JObject [
     (''eip155'', JObject (map (\<lambda>r. (''request/'' @ r, eip155_chains)) eip155_requests)),
     (''https://notify.walletconnect.com'', JObject [(''manage/all-apps-notifications'', JArray [JObject []])])])]"

definition test_allow_non_standard_eip155_att_key :: "ext \<Rightarrow> bool" where
  "test_allow_non_standard_eip155_att_key X \<longleftrightarrow>
     (case ReCapDetailsObject_from_json eip155_recap_json of
        Inl e \<Rightarrow> False
      | Inr recap \<Rightarrow>
          (case parse_recap X (Some (encode_recaip_uri X recap)) of
             Inr (Some parsed) \<Rightarrow> map_of (att parsed) ''eip155'' \<noteq> None
           | _ \<Rightarrow> False))"

definition eip155_recap :: ReCapDetailsObject where
  "eip155_recap = \<lparr> att = [
     (''eip155'', map (\<lambda>r. ab ''request'' r [JObject [(''chains'', JArray [JString ''eip155:1''])]]) eip155_requests),
     (''https://notify.walletconnect.com'', [ab ''manage'' ''all-apps-notifications'' [JObject []]])] \<rparr>"

lemma eip155_recap_valid: "recap_valid eip155_recap"
proof -
  have "list_all (\<lambda>r. ability_ok \<lparr> namespace = ''request'', ability_name = r \<rparr>) eip155_requests" by code_simp
  moreover have "ability_ok \<lparr> namespace = ''manage'', ability_name = ''all-apps-notifications'' \<rparr>" by code_simp
  moreover have "distinct eip155_requests" by code_simp
  ultimately show ?thesis
    by (auto simp: recap_valid_def recap_ok_def eip155_recap_def list_all_iff distinct_map o_def inj_on_def)
qed

lemma test_allow_non_standard_holds:
  assumes "\<forall>bs. b64_url_no_pad_decode X (b64_url_no_pad_encode X bs) = Inr bs" "recap_text_reads X eip155_recap"
  shows "test_allow_non_standard_eip155_att_key X"
proof -
  have j: "eip155_recap_json = ReCapDetailsObject_to_json eip155_recap"
    by (simp add: eip155_recap_json_def eip155_recap_def ReCapDetailsObject_to_json_def abilities_to_json_def
        Ability_to_string_def eip155_chains_def eip155_requests_def)
  have p: "parse_recap X (Some (encode_recaip_uri X eip155_recap)) = Inr (Some eip155_recap)"
    by (rule parse_recap_encoded [OF assms eip155_recap_valid]) (simp add: eip155_recap_def uri_regex_def)
  show ?thesis
    unfolding test_allow_non_standard_eip155_att_key_def j recap.dec_enc [OF eip155_recap_valid]
    by (simp add: p) (simp add: eip155_recap_def)
qed

definition test_ability_parse :: bool where
  "test_ability_parse \<longleftrightarrow> Ability_from_str ''crud/read'' = Inr \<lparr> namespace = ''crud'', ability_name = ''read'' \<rparr>"

definition test_ability_parse_error :: bool where
  "test_ability_parse_error \<longleftrightarrow>
     list_all (\<lambda>s. Ability_from_str s = Inl ''Ability string invalid'')
       ['''', ''/'', ''abc'', ''crud//read'', ''crud/read/'', ''crudread/'', ''crud/read!'']"

lemma test_ability_parse_holds: "test_ability_parse" "test_ability_parse_error"
  by (simp_all add: test_ability_parse_def tests_ability_strings) code_simp

text \<open>The statements of two encoded recaps, and of recaps built in the tests.\<close>

definition test_statement1 :: "ext \<Rightarrow> bool" where
  "test_statement1 X \<longleftrightarrow>
     (case parse_recap X (Some RECAP_RESOURCE) of
        Inr (Some recap) \<Rightarrow> build_statement recap =
          ''I further authorize the stated URI to perform the following actions on my behalf: (1) 'crud': 'delete', 'update' for 'https://example.com/pictures/'. (2) 'other': 'action' for 'https://example.com/pictures/'. (3) 'msg': 'receive', 'send' for 'mailto:username@example.com'.''
      | _ \<Rightarrow> False)"

definition RECAP_PAYLOAD_2 :: string where
  "RECAP_PAYLOAD_2 = ''eyJhdHQiOnsiaHR0cHM6Ly9leGFtcGxlLmNvbSI6eyJleGFtcGxlL2FwcGVuZCI6W10sImV4YW1wbGUvcmVhZCI6W10sIm90aGVyL2FjdGlvbiI6W119LCJteTpyZXNvdXJjZTp1cmkuMSI6eyJleGFtcGxlL2FwcGVuZCI6W10sImV4YW1wbGUvZGVsZXRlIjpbXX0sIm15OnJlc291cmNlOnVyaS4yIjp7ImV4YW1wbGUvYXBwZW5kIjpbXX0sIm15OnJlc291cmNlOnVyaS4zIjp7ImV4YW1wbGUvYXBwZW5kIjpbXX19LCJwcmYiOltdfQ''"

definition recap_payload_json_2 :: json where
  "recap_payload_json_2 = JObject [(''att'', JObject [
     (''https://example.com'', JObject [(''example/append'', JArray []), (''example/read'', JArray []), (''other/action'', JArray [])]),
     (''my:resource:uri.1'', JObject [(''example/append'', JArray []), (''example/delete'', JArray [])]),
     (''my:resource:uri.2'', JObject [(''example/append'', JArray [])]),
     (''my:resource:uri.3'', JObject [(''example/append'', JArray [])])]), (''prf'', JArray [])]"

definition test_statement2 :: "ext \<Rightarrow> bool" where
  "test_statement2 X \<longleftrightarrow>
     (case parse_recap X (Some (''urn:recap:'' @ RECAP_PAYLOAD_2)) of
        Inr (Some recap) \<Rightarrow> build_statement recap =
          ''I further authorize the stated URI to perform the following actions on my behalf: (1) 'example': 'append', 'read' for 'https://example.com'. (2) 'other': 'action' for 'https://example.com'. (3) 'example': 'append', 'delete' for 'my:resource:uri.1'. (4) 'example': 'append' for 'my:resource:uri.2'. (5) 'example': 'append' for 'my:resource:uri.3'.''
      | _ \<Rightarrow> False)"

definition test_statement_empty_recaps :: bool where
  "test_statement_empty_recaps \<longleftrightarrow> build_statement \<lparr> att = [] \<rparr> =
     ''I further authorize the stated URI to perform the following actions on my behalf:''"

definition test_statement_no_abilities :: bool where
  "test_statement_no_abilities \<longleftrightarrow> build_statement \<lparr> att = [(''uri1'', [])] \<rparr> =
     ''I further authorize the stated URI to perform the following actions on my behalf:''"

definition test_statement_1_uri_1_namespace_1_ability :: bool where
  "test_statement_1_uri_1_namespace_1_ability \<longleftrightarrow>
     build_statement \<lparr> att = [(''uri1'', [ab ''namespace1'' ''ability1'' [JObject []]])] \<rparr> =
     ''I further authorize the stated URI to perform the following actions on my behalf: (1) 'namespace1': 'ability1' for 'uri1'.''"

definition test_statement_1_uri_1_namespace_2_ability :: bool where
  "test_statement_1_uri_1_namespace_2_ability \<longleftrightarrow>
     build_statement \<lparr> att = [(''uri1'', [ab ''namespace1'' ''ability1'' [JObject []], ab ''namespace1'' ''ability2'' [JObject []]])] \<rparr> =
     ''I further authorize the stated URI to perform the following actions on my behalf: (1) 'namespace1': 'ability1', 'ability2' for 'uri1'.''"

definition test_statement_1_uri_2_namespace_2_ability :: bool where
  "test_statement_1_uri_2_namespace_2_ability \<longleftrightarrow>
     build_statement \<lparr> att = [(''uri1'', [ab ''namespace1'' ''ability1'' [JObject []], ab ''namespace2'' ''ability1'' [JObject []],
       ab ''namespace1'' ''ability2'' [JObject []], ab ''namespace2'' ''ability2'' [JObject []]])] \<rparr> =
     ''I further authorize the stated URI to perform the following actions on my behalf: (1) 'namespace1': 'ability1', 'ability2' for 'uri1'. (2) 'namespace2': 'ability1', 'ability2' for 'uri1'.''"

definition test_statement_2_uri_2_namespace_2_ability :: bool where
  "test_statement_2_uri_2_namespace_2_ability \<longleftrightarrow>
     build_statement \<lparr> att = [
       (''uri2'', [ab ''namespace1'' ''ability1'' [JObject []], ab ''namespace1'' ''ability2'' [JObject []]]),
       (''uri1'', [ab ''namespace1'' ''ability1'' [JObject []], ab ''namespace2'' ''ability1'' [JObject []],
         ab ''namespace1'' ''ability2'' [JObject []], ab ''namespace2'' ''ability2'' [JObject []]])] \<rparr> =
     ''I further authorize the stated URI to perform the following actions on my behalf: (1) 'namespace1': 'ability1', 'ability2' for 'uri1'. (2) 'namespace2': 'ability1', 'ability2' for 'uri1'. (3) 'namespace1': 'ability1', 'ability2' for 'uri2'.''"

lemma tests_example_strings:
  "Ability_from_str ''example/append'' = Inr \<lparr> namespace = ''example'', ability_name = ''append'' \<rparr>"
  "Ability_from_str ''example/read'' = Inr \<lparr> namespace = ''example'', ability_name = ''read'' \<rparr>"
  "Ability_from_str ''example/delete'' = Inr \<lparr> namespace = ''example'', ability_name = ''delete'' \<rparr>"
  by code_simp+

lemma test_statement1_holds:
  assumes "payload_reads X RECAP_PAYLOAD recap_payload_json"
  shows "test_statement1 X"
proof -
  have "parse_recap X (Some RECAP_RESOURCE) = Inr (Some RECAP_TEST)"
    using test_parse_holds [OF assms] by (simp add: test_parse_def)
  then show ?thesis by (simp add: test_statement1_def) code_simp
qed

definition recap_2 :: ReCapDetailsObject where
  "recap_2 = \<lparr> att = [(''https://example.com'', [ab ''example'' ''append'' [], ab ''example'' ''read'' [], ab ''other'' ''action'' []]),
     (''my:resource:uri.1'', [ab ''example'' ''append'' [], ab ''example'' ''delete'' []]),
     (''my:resource:uri.2'', [ab ''example'' ''append'' []]), (''my:resource:uri.3'', [ab ''example'' ''append'' []])] \<rparr>"

lemma test_statement2_holds:
  assumes "payload_reads X RECAP_PAYLOAD_2 recap_payload_json_2"
  shows "test_statement2 X"
proof -
  have "parse_recap X (Some (''urn:recap:'' @ RECAP_PAYLOAD_2)) = Inr (Some recap_2)"
    using assms unfolding RECAP_URI_PREFIX_def [symmetric]
    by (auto simp: payload_reads_def parse_recap_def recap_payload_json_2_def recap_2_def recap_reading tests_ability_strings
        tests_example_strings uri_regex_def)
  then show ?thesis unfolding test_statement2_def by simp code_simp
qed

lemma test_statements_hold:
  "test_statement_empty_recaps" "test_statement_no_abilities" "test_statement_1_uri_1_namespace_1_ability"
  "test_statement_1_uri_1_namespace_2_ability" "test_statement_1_uri_2_namespace_2_ability"
  "test_statement_2_uri_2_namespace_2_ability"
  by code_simp+

section \<open>Accounts: the files of \<open>src/src/model/types/account_id\<close>\<close>

text \<open>The addresses of the tests with the Keccak-256 digests of their lower-case forms, in hex.\<close>

definition test_digests :: "(string \<times> string) list" where
  "test_digests = [
     (''5aAeb6053F3E94C9b9A09f33669435E7Ef1BeAed'', ''d385650ce8fdc6db7ee3a091d34814dbc4ce18219ffae52182efff4034d707e5''),
     (''fB6916095ca1df60bB79Ce92cE3Ea74c37c5d359'', ''5cfac663f45837b409c4d3dc1cef5f4759734f4989dd53a31b1265734c0b28f4''),
     (''dbF03B407c01E7cD3CBea99509d93f8DDDC8C6FB'', ''75cd3958e251de0c49f54da99b77f79adbef92caed36af8e81f3a7ddbde17bb9''),
     (''D1220A0cf47c7B9Be7A2E6BA89F429762e7b9aDb'', ''c8bc5d10249238b92acb838a86d883bb9253c4b02ceb1b3f927d0c3ec09eef6c''),
     (''9AfEaC202C837df470b5A145e0EfD6a574B21029'', ''dc1a7ef2cb72e171eb07c7b16fb6bb3233b362a65cd2a8483056a43bba80edd3''),
     (''22227A31dd842196A246d8f3b775998560eAa61d'', ''112e2bd261a76240e257794760e8e79d5b287226e1b560cfb62158562ee6831b''),
     (''0495766cD136138Fc492Dd499B8DC87A92D6685b'', ''ee0619739c418369548d859d1b3a970bce9ebbb4fdc8aeeedb4bbc4834236f10''),
     (''62639418051006514eD5Bb5B20aa7aAD642cC2d0'', ''d7b86094ff4bac13e5a6c59d2a06b0fb2df4c96570f15bb972ea169abde4e90f'')]"

definition digests_known :: "ext \<Rightarrow> bool" where
  "digests_known X \<longleftrightarrow> (\<forall>(a, h) \<in> set test_digests. hex_encode X (keccak256 X (as_bytes (to_ascii_lowercase a))) = h)"

definition test_erc55 :: "ext \<Rightarrow> bool" where
  "test_erc55 X \<longleftrightarrow> list_all (\<lambda>addr. Some addr =
     map_option ((@) ''0x'') (erc_55_checksum_encode X (to_ascii_lowercase (drop (length ''0x'') addr))))
     [''0x5aAeb6053F3E94C9b9A09f33669435E7Ef1BeAed'', ''0xfB6916095ca1df60bB79Ce92cE3Ea74c37c5d359'',
      ''0xdbF03B407c01E7cD3CBea99509d93f8DDDC8C6FB'', ''0xD1220A0cf47c7B9Be7A2E6BA89F429762e7b9aDb'',
      ''0x9AfEaC202C837df470b5A145e0EfD6a574B21029'']"

definition ok_caip_10 :: "ext \<Rightarrow> string \<Rightarrow> bool" where
  "ok_caip_10 X s \<longleftrightarrow> validate_caip_10 X s = Some (Inr ())"

definition err_caip_10 :: "ext \<Rightarrow> string \<Rightarrow> bool" where
  "err_caip_10 X s \<longleftrightarrow> (\<exists>e. validate_caip_10 X s = Some (Inl e))"

definition test_eip155 :: "ext \<Rightarrow> bool" where
  "test_eip155 X \<longleftrightarrow>
     ok_caip_10 X ''eip155:1:0x22227A31dd842196A246d8f3b775998560eAa61d'' \<and>
     err_caip_10 X ''eip155:1:0x22227a31dd842196a246d8f3b775998560eaa61d'' \<and>
     ok_caip_10 X ''eip155:137:0x0495766cD136138Fc492Dd499B8DC87A92D6685b'' \<and>
     err_caip_10 X ''eip155:137:0x0495766CD136138FC492DD499B8DC87A92D6685B''"

definition test_validate_fn_uses_address_check :: "ext \<Rightarrow> bool" where
  "test_validate_fn_uses_address_check X \<longleftrightarrow>
     validate_eip155 X ''1'' ''123'' = Some (Inl (Eip155_Address Eip155Address_Regex))"

definition test_validate_fn_uses_reference_check :: "ext \<Rightarrow> bool" where
  "test_validate_fn_uses_reference_check X \<longleftrightarrow>
     validate_eip155 X ''abc'' ''0x62639418051006514eD5Bb5B20aa7aAD642cC2d0'' = Some (Inl (Eip155_Reference Eip155Reference_Regex))"

definition test_is_valid_eip155_account :: "ext \<Rightarrow> bool" where
  "test_is_valid_eip155_account X \<longleftrightarrow>
     list_all (ok_caip_10 X) [''eip155:1:0x62639418051006514eD5Bb5B20aa7aAD642cC2d0'', ''eip155:2:0x62639418051006514eD5Bb5B20aa7aAD642cC2d0'', ''eip155:12:0x62639418051006514eD5Bb5B20aa7aAD642cC2d0''] \<and>
     list_all (err_caip_10 X)
       [''eip155:1:0x62639418051006514eD5Bb5B20aa7aAD642cC2d'', ''eip156:1:0x62639418051006514eD5Bb5B20aa7aAD642cC2d0'', ''eip15:1:0x62639418051006514eD5Bb5B20aa7aAD642cC2d0'', ''0x62639418051006514eD5Bb5B20aa7aAD642cC2d0'',
        ''eip155:12:62639418051006514eD5Bb5B20aa7aAD642cC2d0'', ''62639418051006514eD5Bb5B20aa7aAD642cC2d0'', ''eip155:1:0x62639418051006514eD5Bb5B20aa7aAD642cC2d00'', ''eeip155:1:0x62639418051006514eD5Bb5B20aa7aAD642cC2d0'']"

definition test_reference :: bool where
  "test_reference \<longleftrightarrow> validate_eip155_reference ''f'' = Inl Eip155Reference_Regex"

definition test_address_regex_fail :: "ext \<Rightarrow> bool" where
  "test_address_regex_fail X \<longleftrightarrow>
     validate_eip155_address X ''0x62639418051006514eD5Bb5B20aa7aAD642cC2d'' = Some (Inl Eip155Address_Regex) \<and>
     validate_eip155_address X ''0x62639418051006514eD5Bb5B20aa7aAD642cC2d00'' = Some (Inl Eip155Address_Regex)"

definition test_requires_erc_55 :: "ext \<Rightarrow> bool" where
  "test_requires_erc_55 X \<longleftrightarrow>
     validate_eip155_address X ''0x62639418051006514eD5Bb5B20aa7aAD642cC2d0'' = Some (Inr ()) \<and>
     validate_eip155_address X ''0x62639418051006514eD5Bb5B20aa7aAD642cC2D0'' = Some (Inl Eip155Address_Erc55)"

definition test_caip_10 :: "ext \<Rightarrow> bool" where
  "test_caip_10 X \<longleftrightarrow>
     ok_caip_10 X ''eip155:1:0x9AfEaC202C837df470b5A145e0EfD6a574B21029'' \<and>
     validate_caip_10 X ''eip155:111111111111111111111111111111111:0x9AfEaC202C837df470b5A145e0EfD6a574B21029'' =
       Some (Inl Caip10_Invalid) \<and>
     validate_caip_10 X ''junk'' = Some (Inl Caip10_Invalid)"

definition test_account_id_valid_namespaces :: "ext \<Rightarrow> bool" where
  "test_account_id_valid_namespaces X \<longleftrightarrow>
     ok_caip_10 X ''eip155:1:0x9AfEaC202C837df470b5A145e0EfD6a574B21029'' \<and>
     validate_caip_10 X ''junk:1:1'' = Some (Inl Caip10_UnsupportedNamespace)"

text \<open>The checksum for a known hash, and the outcome of a validation by its captures.\<close>

definition erc_55_by_hash :: "string \<Rightarrow> string \<Rightarrow> string option" where
  "erc_55_by_hash address_hash s =
     (if list_all (\<lambda>i. is_digit (s ! i) \<or> i < length address_hash) [0..<length s]
      then Some (map (\<lambda>i. if \<not> is_digit (s ! i) \<and> address_hash ! i > CHR ''7''
                          then to_ascii_upper_char (s ! i) else s ! i) [0..<length s])
      else None)"

lemma erc_55_by_hash_map2:
  "length s \<le> length h \<Longrightarrow> erc_55_by_hash h s =
     Some (map2 (\<lambda>d c. if \<not> is_digit c \<and> d > CHR ''7'' then to_ascii_upper_char c else c) h s)"
  unfolding erc_55_by_hash_def by (simp add: list_all_iff) (rule nth_equalityI, auto)

lemma test_checksums: "list_all (\<lambda>(a, h). length a \<le> length h \<and>
    map2 (\<lambda>d c. if \<not> is_digit c \<and> d > CHR ''7'' then to_ascii_upper_char c else c) h (to_ascii_lowercase a) = a) test_digests"
  by code_simp

lemma test_checksum:
  assumes "digests_known X" "(a, h) \<in> set test_digests"
  shows "erc_55_checksum_encode X (to_ascii_lowercase a) = Some a"
proof -
  have "erc_55_checksum_encode X (to_ascii_lowercase a) = erc_55_by_hash h (to_ascii_lowercase a)"
    using assms by (fastforce simp: erc_55_checksum_encode_def erc_55_by_hash_def digests_known_def)
  then show ?thesis
    using assms(2) test_checksums erc_55_by_hash_map2 [of "to_ascii_lowercase a" h]
    by (auto simp: list_all_iff to_ascii_lowercase_def)
qed

lemma test_address:
  assumes "digests_known X" "(a, h) \<in> set test_digests" "address_captures s = Some c" "to_ascii_lowercase c = to_ascii_lowercase a"
  shows "validate_eip155_address X s = Some (if a = c then Inr () else Inl Eip155Address_Erc55)"
  using test_checksum [OF assms(1,2)] assms(3,4) by (simp add: validate_eip155_address_def)

lemma test_account:
  assumes "digests_known X" "(a, h) \<in> set test_digests" "caip10_captures s = Some (''eip155'', r, d)"
    and "validate_eip155_reference r = Inr ()" "address_captures d = Some c" "to_ascii_lowercase c = to_ascii_lowercase a"
  shows "a = c \<Longrightarrow> ok_caip_10 X s" and "a \<noteq> c \<Longrightarrow> err_caip_10 X s"
  using test_address [OF assms(1,2,5,6)] assms(3,4)
  by (simp_all add: ok_caip_10_def err_caip_10_def validate_caip_10_def NAMESPACE_EIP155_def validate_eip155_def)

lemma test_no_account:
  "caip10_captures s = None \<Longrightarrow> err_caip_10 X s"
  "caip10_captures s = Some (n, r, a) \<Longrightarrow> n \<noteq> ''eip155'' \<Longrightarrow> err_caip_10 X s"
  "caip10_captures s = Some (''eip155'', r, a) \<Longrightarrow> validate_eip155_reference r = Inr () \<Longrightarrow> address_captures a = None \<Longrightarrow> err_caip_10 X s"
  by (simp_all add: err_caip_10_def validate_caip_10_def NAMESPACE_EIP155_def validate_eip155_def validate_eip155_address_def)

lemma test_erc55_holds: "digests_known X \<Longrightarrow> test_erc55 X"
proof -
  assume d: "digests_known X"
  have "\<forall>a \<in> fst ` set test_digests. erc_55_checksum_encode X (to_ascii_lowercase a) = Some a"
    using test_checksum [OF d] by force
  moreover have "fst ` set test_digests = {''5aAeb6053F3E94C9b9A09f33669435E7Ef1BeAed'', ''fB6916095ca1df60bB79Ce92cE3Ea74c37c5d359'',
      ''dbF03B407c01E7cD3CBea99509d93f8DDDC8C6FB'', ''D1220A0cf47c7B9Be7A2E6BA89F429762e7b9aDb'',
      ''9AfEaC202C837df470b5A145e0EfD6a574B21029'', ''22227A31dd842196A246d8f3b775998560eAa61d'',
      ''0495766cD136138Fc492Dd499B8DC87A92D6685b'', ''62639418051006514eD5Bb5B20aa7aAD642cC2d0''}"
    by (simp add: test_digests_def insert_commute)
  ultimately show ?thesis by (simp add: test_erc55_def)
qed

lemma test_digest_members:
  "(''22227A31dd842196A246d8f3b775998560eAa61d'', ''112e2bd261a76240e257794760e8e79d5b287226e1b560cfb62158562ee6831b'') \<in> set test_digests"
  "(''0495766cD136138Fc492Dd499B8DC87A92D6685b'', ''ee0619739c418369548d859d1b3a970bce9ebbb4fdc8aeeedb4bbc4834236f10'') \<in> set test_digests"
  "(''62639418051006514eD5Bb5B20aa7aAD642cC2d0'', ''d7b86094ff4bac13e5a6c59d2a06b0fb2df4c96570f15bb972ea169abde4e90f'') \<in> set test_digests"
  "(''9AfEaC202C837df470b5A145e0EfD6a574B21029'', ''dc1a7ef2cb72e171eb07c7b16fb6bb3233b362a65cd2a8483056a43bba80edd3'') \<in> set test_digests"
  by (simp_all add: test_digests_def)

text \<open>The accounts of the tests, by their parts.\<close>

lemma test_captures:
  assumes "rep_class ns_char 3 8 n" "rep_class ref_char 1 32 r" "rep_class addr_char 1 128 a"
  shows "caip10_captures (n @ CHR '':'' # r @ CHR '':'' # a) = Some (n, r, a)"
  using assms by (simp add: caip10_captures_iff)

lemma test_account_parts:
  assumes "digests_known X" "(a, h) \<in> set test_digests" "list_all is_hex c" "length c = 40"
    and "to_ascii_lowercase c = to_ascii_lowercase a" "r \<in> {''1'', ''2'', ''12'', ''137''}"
  shows "a = c \<Longrightarrow> ok_caip_10 X (''eip155:'' @ r @ '':0x'' @ c)" and "a \<noteq> c \<Longrightarrow> err_caip_10 X (''eip155:'' @ r @ '':0x'' @ c)"
proof -
  have "rep_class ref_char 1 32 ''1''" "rep_class ref_char 1 32 ''2''" "rep_class ref_char 1 32 ''12''" "rep_class ref_char 1 32 ''137''"
    by code_simp+
  moreover have "validate_eip155_reference ''1'' = Inr ()" "validate_eip155_reference ''2'' = Inr ()"
    "validate_eip155_reference ''12'' = Inr ()" "validate_eip155_reference ''137'' = Inr ()"
    by code_simp+
  ultimately have r: "rep_class ref_char 1 32 r" "validate_eip155_reference r = Inr ()" using assms(6) by auto
  have "rep_class addr_char 1 128 (''0x'' @ c)" using assms(3,4) hex_addr_char addr_0x by (simp add: rep_class_def)
  then have k: "caip10_captures (''eip155:'' @ r @ '':0x'' @ c) = Some (''eip155'', r, ''0x'' @ c)"
    using test_captures [of "''eip155''" r "''0x'' @ c"] r(1) by simp
  have "address_captures (''0x'' @ c) = Some c" using assms(3,4) by (simp add: address_captures_iff)
  from test_account [OF assms(1,2) k r(2) this assms(5)]
  show "a = c \<Longrightarrow> ok_caip_10 X (''eip155:'' @ r @ '':0x'' @ c)" "a \<noteq> c \<Longrightarrow> err_caip_10 X (''eip155:'' @ r @ '':0x'' @ c)"
    by blast+
qed

lemma test_addresses_hex:
  "list_all is_hex ''22227A31dd842196A246d8f3b775998560eAa61d''" "list_all is_hex ''22227a31dd842196a246d8f3b775998560eaa61d''"
  "list_all is_hex ''0495766cD136138Fc492Dd499B8DC87A92D6685b''" "list_all is_hex ''0495766CD136138FC492DD499B8DC87A92D6685B''"
  "list_all is_hex ''62639418051006514eD5Bb5B20aa7aAD642cC2d0''"
  by code_simp+

lemma test_addresses_case:
  "to_ascii_lowercase ''22227a31dd842196a246d8f3b775998560eaa61d'' = to_ascii_lowercase ''22227A31dd842196A246d8f3b775998560eAa61d''"
  "to_ascii_lowercase ''0495766CD136138FC492DD499B8DC87A92D6685B'' = to_ascii_lowercase ''0495766cD136138Fc492Dd499B8DC87A92D6685b''"
  by code_simp+

lemma test_eip155_holds:
  assumes "digests_known X"
  shows "test_eip155 X"
  using test_account_parts [OF assms test_digest_members(1) test_addresses_hex(1) _ refl, of "''1''"]
    test_account_parts [OF assms test_digest_members(1) test_addresses_hex(2) _ test_addresses_case(1), of "''1''"]
    test_account_parts [OF assms test_digest_members(2) test_addresses_hex(3) _ refl, of "''137''"]
    test_account_parts [OF assms test_digest_members(2) test_addresses_hex(4) _ test_addresses_case(2), of "''137''"]
  by (simp add: test_eip155_def)

lemma test_other_namespaces:
  assumes "n \<in> {''eip156'', ''eip15'', ''eeip155''}"
  shows "err_caip_10 X (n @ '':1:0x62639418051006514eD5Bb5B20aa7aAD642cC2d0'')"
proof -
  have "rep_class ns_char 3 8 ''eip156''" "rep_class ns_char 3 8 ''eip15''" "rep_class ns_char 3 8 ''eeip155''" by code_simp+
  then have n: "rep_class ns_char 3 8 n" "n \<noteq> ''eip155''" using assms by auto
  have "rep_class ref_char 1 32 ''1''" "rep_class addr_char 1 128 ''0x62639418051006514eD5Bb5B20aa7aAD642cC2d0''" by code_simp+
  then have "caip10_captures (n @ '':1:0x62639418051006514eD5Bb5B20aa7aAD642cC2d0'') = Some (n, ''1'', ''0x62639418051006514eD5Bb5B20aa7aAD642cC2d0'')" using test_captures [OF n(1), of "''1''" "''0x62639418051006514eD5Bb5B20aa7aAD642cC2d0''"] by simp
  then show ?thesis using test_no_account(2) n(2) by simp
qed

lemma test_bad_addresses:
  assumes "(r, a) \<in> {(''1'', ''0x62639418051006514eD5Bb5B20aa7aAD642cC2d''), (''12'', ''62639418051006514eD5Bb5B20aa7aAD642cC2d0''), (''1'', ''0x62639418051006514eD5Bb5B20aa7aAD642cC2d00'')}"
  shows "err_caip_10 X (''eip155:'' @ r @ '':'' @ a)"
proof -
  have "rep_class ns_char 3 8 ''eip155''" "rep_class ref_char 1 32 ''1''" "rep_class ref_char 1 32 ''12''"
    "rep_class addr_char 1 128 ''0x62639418051006514eD5Bb5B20aa7aAD642cC2d''" "rep_class addr_char 1 128 ''62639418051006514eD5Bb5B20aa7aAD642cC2d0''"
    "rep_class addr_char 1 128 ''0x62639418051006514eD5Bb5B20aa7aAD642cC2d00''" "validate_eip155_reference ''1'' = Inr ()" "validate_eip155_reference ''12'' = Inr ()"
    "address_captures ''0x62639418051006514eD5Bb5B20aa7aAD642cC2d'' = None" "address_captures ''62639418051006514eD5Bb5B20aa7aAD642cC2d0'' = None"
    "address_captures ''0x62639418051006514eD5Bb5B20aa7aAD642cC2d00'' = None"
    by code_simp+
  then show ?thesis
    using assms test_no_account(3) test_captures [of "''eip155''" r a] by auto
qed

lemma test_is_valid_eip155_account_holds:
  assumes "digests_known X"
  shows "test_is_valid_eip155_account X"
proof -
  have "caip10_captures ''0x62639418051006514eD5Bb5B20aa7aAD642cC2d0'' = None" "caip10_captures ''62639418051006514eD5Bb5B20aa7aAD642cC2d0'' = None" by code_simp+
  then have "err_caip_10 X ''0x62639418051006514eD5Bb5B20aa7aAD642cC2d0''" "err_caip_10 X ''62639418051006514eD5Bb5B20aa7aAD642cC2d0''" by (simp_all add: test_no_account(1))
  then show ?thesis
    using test_account_parts(1) [OF assms test_digest_members(3) test_addresses_hex(5) _ refl _ refl, of "''1''"]
      test_account_parts(1) [OF assms test_digest_members(3) test_addresses_hex(5) _ refl _ refl, of "''2''"]
      test_account_parts(1) [OF assms test_digest_members(3) test_addresses_hex(5) _ refl _ refl, of "''12''"]
      test_other_namespaces [of "''eip156''" X] test_other_namespaces [of "''eip15''" X] test_other_namespaces [of "''eeip155''" X]
      test_bad_addresses [of "''1''" "''0x62639418051006514eD5Bb5B20aa7aAD642cC2d''" X]
      test_bad_addresses [of "''12''" "''62639418051006514eD5Bb5B20aa7aAD642cC2d0''" X] test_bad_addresses [of "''1''" "''0x62639418051006514eD5Bb5B20aa7aAD642cC2d00''" X]
    by (simp add: test_is_valid_eip155_account_def)
qed

lemma tests_no_digest_hold: "test_validate_fn_uses_address_check X" "test_validate_fn_uses_reference_check X" "test_reference"
  "test_address_regex_fail X"
proof -
  have "address_captures ''123'' = None" "address_captures ''0x62639418051006514eD5Bb5B20aa7aAD642cC2d'' = None"
    "address_captures ''0x62639418051006514eD5Bb5B20aa7aAD642cC2d00'' = None" "validate_eip155_reference ''1'' = Inr ()"
    "validate_eip155_reference ''abc'' = Inl Eip155Reference_Regex" "validate_eip155_reference ''f'' = Inl Eip155Reference_Regex"
    by code_simp+
  then show "test_validate_fn_uses_address_check X" "test_validate_fn_uses_reference_check X" "test_reference"
    "test_address_regex_fail X"
    by (simp_all add: test_validate_fn_uses_address_check_def test_validate_fn_uses_reference_check_def test_reference_def
        test_address_regex_fail_def validate_eip155_def validate_eip155_address_def)
qed

lemma test_requires_erc_55_holds: "digests_known X \<Longrightarrow> test_requires_erc_55 X"
proof -
  have c: "address_captures ''0x62639418051006514eD5Bb5B20aa7aAD642cC2d0'' = Some ''62639418051006514eD5Bb5B20aa7aAD642cC2d0''"
    "address_captures ''0x62639418051006514eD5Bb5B20aa7aAD642cC2D0'' = Some ''62639418051006514eD5Bb5B20aa7aAD642cC2D0''"
    "to_ascii_lowercase ''62639418051006514eD5Bb5B20aa7aAD642cC2D0'' = to_ascii_lowercase ''62639418051006514eD5Bb5B20aa7aAD642cC2d0''"
    by code_simp+
  assume "digests_known X"
  note a = test_address [OF this test_digest_members(3)]
  show ?thesis using a [OF c(1) refl] a [OF c(2,3)] by (simp add: test_requires_erc_55_def)
qed

lemma test_caip_10_holds:
  assumes "digests_known X"
  shows "test_caip_10 X" "test_account_id_valid_namespaces X"
proof -
  have "ok_caip_10 X ''eip155:1:0x9AfEaC202C837df470b5A145e0EfD6a574B21029''"
    by (rule test_account(1) [OF assms test_digest_members(4)]) code_simp+
  moreover have "caip10_captures ''eip155:111111111111111111111111111111111:0x9AfEaC202C837df470b5A145e0EfD6a574B21029'' = None"
    "caip10_captures ''junk'' = None" "caip10_captures ''junk:1:1'' = Some (''junk'', ''1'', ''1'')"
    by code_simp+
  ultimately show "test_caip_10 X" "test_account_id_valid_namespaces X"
    by (simp_all add: test_caip_10_def test_account_id_valid_namespaces_def validate_caip_10_def NAMESPACE_EIP155_def)
qed

text \<open>DIDs of accounts: \<open>did:pkh:\<close> and the account is how \<open>relay_rpc\<close> writes and reads the data.\<close>

definition test_did_pkh :: "ext \<Rightarrow> bool" where
  "test_did_pkh X \<longleftrightarrow>
     (let address = ''eip155:1:0x9AfEaC202C837df470b5A145e0EfD6a574B21029'' in
      map_option (map_ok (to_did_pkh X)) (AccountId_try_from X address) = Some (Inr (''did:pkh:'' @ address)) \<and>
      from_did_pkh X (''did:pkh:'' @ address) = Some (Inr address))"

lemma test_did_pkh_holds:
  assumes "digests_known X" "did_laws X" "\<forall>d. combine_did_data X ''pkh'' d = ''did:pkh:'' @ d"
  shows "test_did_pkh X"
proof -
  let ?a = "''eip155:1:0x9AfEaC202C837df470b5A145e0EfD6a574B21029''"
  have a: "AccountId_try_from X ?a = Some (Inr ?a)"
    using test_caip_10_holds(1) [OF assms(1)] by (simp add: test_caip_10_def ok_caip_10_def AccountId_try_from_def)
  moreover have "to_did_pkh X ?a = ''did:pkh:'' @ ?a" using assms(3) by (simp add: to_did_pkh_def DID_METHOD_PKH_def)
  moreover have "from_did_pkh X (to_did_pkh X ?a) = Some (Inr ?a)"
    using a by (intro from_did_pkh_own assms(2)) (simp add: valid_account_def)
  ultimately show ?thesis by (simp add: test_did_pkh_def)
qed

section \<open>Generated accounts\<close>

text \<open>The account of a random key, from its uncompressed public point; \<open>unwrap\<close> of an error is \<open>None\<close>.\<close>

definition generate_eoa :: "ext \<Rightarrow> bytes \<Rightarrow> string option" where
  "generate_eoa X encoded_point =
     map_option ((@) ''0x'') (erc_55_checksum_encode X (hex_encode X (drop 12 (keccak256 X (drop 1 encoded_point)))))"

definition format_eip155_account :: "ext \<Rightarrow> nat \<Rightarrow> string \<Rightarrow> AccountId option" where
  "format_eip155_account X chain_id address =
     (case AccountId_try_from X (''eip155:'' @ nat_to_string chain_id @ '':'' @ address) of
        Some (Inr account) \<Rightarrow> Some account
      | _ \<Rightarrow> None)"

definition generate_account :: "ext \<Rightarrow> bytes \<Rightarrow> AccountId option" where
  "generate_account X encoded_point = Option.bind (generate_eoa X encoded_point) (format_eip155_account X 1)"

definition is_lower_hex :: "char \<Rightarrow> bool" where
  "is_lower_hex c \<longleftrightarrow> is_digit c \<or> CHR ''a'' \<le> c \<and> c \<le> CHR ''f''"

text \<open>Hex text has two lower-case digits per byte, and a Keccak-256 digest has 32 bytes.\<close>

definition hex_text_laws :: "ext \<Rightarrow> bool" where
  "hex_text_laws X \<longleftrightarrow> (\<forall>bs. length (hex_encode X bs) = 2 * length bs \<and> list_all is_lower_hex (hex_encode X bs)) \<and>
     (\<forall>bs. length (keccak256 X bs) = 32)"

lemma lower_hex_char: "is_lower_hex c \<Longrightarrow> to_ascii_lower_char c = c \<and> is_hex c \<and> is_hex (to_ascii_upper_char c)"
  by (auto simp: is_lower_hex_def to_ascii_lower_char_def to_ascii_upper_char_def is_hex_def is_digit_def less_eq_char_def)

lemma erc_55_hex:
  assumes "erc_55_checksum_encode X s = Some t" "list_all is_lower_hex s"
  shows "list_all is_hex t" "to_ascii_lowercase t = s"
proof -
  show "list_all is_hex t"
    using assms lower_hex_char by (auto simp: erc_55_checksum_encode_def Let_def list_all_length split: if_splits)
  have "to_ascii_lowercase s = s"
    using assms(2) lower_hex_char by (auto simp: to_ascii_lowercase_def list_all_iff intro: map_idI)
  then show "to_ascii_lowercase t = s" using erc_55_lowercase(1) [OF assms(1)] by simp
qed

text \<open>Every key has an account, and the account is valid.\<close>

theorem generate_account_valid:
  assumes "hex_text_laws X"
  shows "\<exists>account. generate_account X encoded_point = Some account \<and> valid_account X account"
proof -
  let ?s = "hex_encode X (drop 12 (keccak256 X (drop 1 encoded_point)))"
  have s: "length ?s = 40" "list_all is_lower_hex ?s" using assms by (simp_all add: hex_text_laws_def)
  have "keccak_laws X" using assms by (simp add: keccak_laws_def hex_text_laws_def)
  then obtain t where t: "erc_55_checksum_encode X ?s = Some t" using erc_55_total [of X ?s] s(1) by auto
  have "nat_to_string 1 = ''1''" by code_simp
  moreover have "eip155_account X (''eip155:'' @ ''1'' @ '':0x'' @ t) ''1'' t"
    using t erc_55_hex [OF t s(2)] erc_55_lowercase(2) [OF t] s(1)
    by (simp add: eip155_account_def rep_class_def is_digit_def)
  then have "AccountId_try_from X (''eip155:1:0x'' @ t) = Some (Inr (''eip155:1:0x'' @ t))"
    unfolding AccountId_try_from_Ok_iff by auto
  ultimately show ?thesis
    using t by (simp add: generate_account_def generate_eoa_def format_eip155_account_def valid_account_def)
qed

end
