(* ===== verification/Service_Tests.thy ===== *)
theory Service_Tests
  imports Unit_Tests Relay_Watchers Notify_Keys
begin

text \<open>
  More of the repository's unit tests, as in \<open>Unit_Tests\<close>: notifications and scopes, the parameters
  of requests, the batcher with its timer, retries, \<open>did.json\<close> and the authorization of watchers.
\<close>

section \<open>Notifications and scopes: \<open>src/src/types\<close>\<close>

definition Notification_from_json :: "ext \<Rightarrow> json \<Rightarrow> Notification parsed" where
  "Notification_from_json X j =
     rbind (as_struct [''type'', ''title'', ''body'', ''icon'', ''url''] j) (\<lambda>ms.
     rbind (req_field (as_uuid X) ''type'' ms) (\<lambda>ty.
     rbind (req_field as_string ''title'' ms) (\<lambda>title.
     rbind (req_field as_string ''body'' ms) (\<lambda>body.
     rbind (default_field (as_option as_string) None ''icon'' ms) (\<lambda>icon.
     rbind (default_field (as_option as_string) None ''url'' ms) (\<lambda>url.
       Inr \<lparr> ntf_type = ty, ntf_title = title, ntf_body = body, ntf_icon = icon, ntf_url = url \<rparr>))))))"

abbreviation notif :: "uuid \<Rightarrow> string \<Rightarrow> string \<Rightarrow> string option \<Rightarrow> string option \<Rightarrow> Notification" where
  "notif ty title body icon url \<equiv>
     \<lparr> ntf_type = ty, ntf_title = title, ntf_body = body, ntf_icon = icon, ntf_url = url \<rparr>"

definition test_valid_notification :: "uuid \<Rightarrow> bool" where
  "test_valid_notification ty \<longleftrightarrow>
     Notification_validate (notif ty ''title'' ''body'' None None) \<and>
     Notification_validate (notif ty ''title'' ''body'' (Some ''icon'') (Some ''url''))"

definition test_invalid_notification :: "uuid \<Rightarrow> bool" where
  "test_invalid_notification ty \<longleftrightarrow>
     \<not> Notification_validate (notif ty '''' ''body'' None None) \<and>
     \<not> Notification_validate (notif ty ''title'' '''' (Some ''icon'') (Some ''url'')) \<and>
     \<not> Notification_validate (notif ty ''title'' ''body'' (Some '''') (Some ''url'')) \<and>
     \<not> Notification_validate (notif ty ''title'' ''body'' (Some ''icon'') (Some ''''))"

definition test_optional_fields :: "ext \<Rightarrow> uuid \<Rightarrow> bool" where
  "test_optional_fields X ty \<longleftrightarrow> is_ok (Notification_from_json X (JObject
     [(''type'', JString (uuid_to_string X ty)), (''title'', JString ''title''), (''body'', JString ''body'')]))"

lemma test_notifications_hold: "test_valid_notification ty" "test_invalid_notification ty"
proof -
  have "length_ok 1 64 ''title''" "length_ok 1 255 ''body''" "length_ok 1 255 ''icon''" "length_ok 1 255 ''url''"
    "\<not> length_ok 1 64 ''''" "\<not> length_ok 1 255 ''''"
    by code_simp+
  then show "test_valid_notification ty" "test_invalid_notification ty"
    by (simp_all add: test_valid_notification_def test_invalid_notification_def Notification_validate_def)
qed

lemma test_optional_fields_holds: "uuid_laws X \<Longrightarrow> test_optional_fields X ty"
  by (simp add: test_optional_fields_def Notification_from_json_def as_struct_def as_object_def req_field_def default_field_def
      jfield_def as_uuid_def as_string_def uuid_laws_def)

definition test_parse_scopes :: "ext \<Rightarrow> uuid \<Rightarrow> uuid \<Rightarrow> bool" where
  "test_parse_scopes X scope1 scope2 \<longleftrightarrow>
     parse_scope X '''' = Inr {} \<and>
     parse_scope X (uuid_to_string X scope1) = Inr {scope1} \<and>
     parse_scope X (uuid_to_string X scope1 @ '' '' @ uuid_to_string X scope2) = Inr {scope1, scope2}"

text \<open>Both orders of iteration are arguments of the encoding.\<close>

definition test_encode_scopes :: "ext \<Rightarrow> uuid \<Rightarrow> uuid \<Rightarrow> bool" where
  "test_encode_scopes X scope1 scope2 \<longleftrightarrow>
     encode_scope X [] = '''' \<and> encode_scope X [scope1] = uuid_to_string X scope1 \<and>
     list_all (\<lambda>order. encode_scope X order = uuid_to_string X scope1 @ '' '' @ uuid_to_string X scope2 \<or>
         encode_scope X order = uuid_to_string X scope2 @ '' '' @ uuid_to_string X scope1)
       [[scope1, scope2], [scope2, scope1]]"

lemma test_scopes_hold:
  assumes "uuid_laws X" "\<forall>u. uuid_to_string X u \<noteq> ''''"
  shows "test_parse_scopes X scope1 scope2" "test_encode_scopes X scope1 scope2"
proof -
  have s: "split_char CHR '' '' (uuid_to_string X u) = [uuid_to_string X u]" for u
    using assms(1) by (simp add: uuid_laws_def)
  have "split_char CHR '' '' (uuid_to_string X scope1 @ CHR '' '' # uuid_to_string X scope2) =
      [uuid_to_string X scope1, uuid_to_string X scope2]"
    using assms(1) s by (simp add: uuid_laws_def)
  then show "test_parse_scopes X scope1 scope2"
    using assms by (simp add: test_parse_scopes_def parse_scope_def s uuid_laws_def)
  show "test_encode_scopes X scope1 scope2"
    by (simp add: test_encode_scopes_def encode_scope_def)
qed

section \<open>Parameters: \<open>src/src/model/helpers.rs\<close>\<close>

text \<open>The parameters of a request, read and validated.\<close>

definition mark_params_valid :: "ext \<Rightarrow> (string \<times> json) list \<Rightarrow> bool option" where
  "mark_params_valid X ms =
     (case MarkNotificationsAsReadParams_from_members X ms of
        Inl e \<Rightarrow> None
      | Inr value \<Rightarrow> Some (MarkNotificationsAsReadParams_validate value))"

definition test_mark_notification_as_read_params :: "ext \<Rightarrow> uuid \<Rightarrow> bool" where
  "test_mark_notification_as_read_params X u \<longleftrightarrow>
     (let i = JString (uuid_to_string X u) in
      mark_params_valid X [(''all'', JBool False), (''ids'', JArray [i])] = Some True \<and>
      mark_params_valid X [(''all'', JBool False), (''ids'', JArray [])] = Some False \<and>
      mark_params_valid X [(''all'', JBool False), (''ids'', JArray (replicate 1001 i))] = Some False \<and>
      mark_params_valid X [(''all'', JBool True)] = Some True \<and>
      mark_params_valid X [(''all'', JBool False)] = Some False \<and>
      mark_params_valid X [(''all'', JBool True), (''ids'', JArray [i])] = Some False)"

definition test_get_notifications_params :: "ext \<Rightarrow> uuid \<Rightarrow> bool" where
  "test_get_notifications_params X u \<longleftrightarrow>
     GetNotificationsParams_from_members X [(''lmt'', JInt 5), (''aft'', JNull)] =
       Inr \<lparr> gp_limit = 5, gp_after = None, gp_unread_first = False \<rparr> \<and>
     GetNotificationsParams_from_members X [(''lmt'', JInt 5), (''aft'', JString (uuid_to_string X u)), (''urf'', JBool True)] =
       Inr \<lparr> gp_limit = 5, gp_after = Some u, gp_unread_first = True \<rparr>"

lemma test_params_hold:
  assumes "uuid_laws X"
  shows "test_mark_notification_as_read_params X u" "test_get_notifications_params X u"
proof -
  have u: "as_uuid X (JString (uuid_to_string X u)) = Inr u" using assms by (simp add: as_uuid_def as_string_def uuid_laws_def)
  have ids: "collect_results (as_uuid X) (replicate k (JString (uuid_to_string X u))) = Inr (replicate k u)" for k
    by (induction k) (simp_all add: u)
  note reading = MarkNotificationsAsReadParams_from_members_def GetNotificationsParams_from_members_def req_field_def
    default_field_def jfield_def as_bool_def as_option_def as_array_def as_u64_def
  have m: "MarkNotificationsAsReadParams_from_members X
      [(''all'', JBool b), (''ids'', JArray (replicate k (JString (uuid_to_string X u))))] =
      Inr \<lparr> mr_all = b, mr_ids = Some (replicate k u) \<rparr>" for b k
    by (simp add: reading ids)
  have n: "MarkNotificationsAsReadParams_from_members X [(''all'', JBool b)] = Inr \<lparr> mr_all = b, mr_ids = None \<rparr>" for b
    by (simp add: reading)
  show "test_mark_notification_as_read_params X u"
    using m [of _ 0] m [of _ 1, unfolded One_nat_def replicate.simps] m [of _ 1001] n
    by (simp add: test_mark_notification_as_read_params_def Let_def mark_params_valid_def MarkNotificationsAsReadParams_validate_def
        custom_mark_notifications_as_read_params_validator_def)
  show "test_get_notifications_params X u"
    by (simp add: test_get_notifications_params_def reading u)
qed

section \<open>Domains, retries, time to live, authorization\<close>

definition test_valid_domains :: bool where
  "test_valid_domains \<longleftrightarrow> list_all is_domain [''com'', ''example.com'', ''app.example.com'', ''123.example.com'']"

definition test_not_valid_domains :: bool where
  "test_not_valid_domains \<longleftrightarrow> list_all (\<lambda>d. \<not> is_domain d)
     [''https://app.example.com'', ''app.example.com/'', '' app.example.com'', ''app.example.com '']"

definition test_rate_limit_retries :: bool where
  "test_rate_limit_retries \<longleftrightarrow>
     calculate_retry_in 1 = 0 \<and> calculate_retry_in 2 > 0 \<and> calculate_retry_in 10 < 10 * 1000"

definition test_t2592000_is_30_days :: bool where
  "test_t2592000_is_30_days \<longleftrightarrow> T2592000 = 30 * 24 * 60 * 60"

definition test_check_app_authorization :: bool where
  "test_check_app_authorization \<longleftrightarrow>
     check_app_authorization Unlimited None = Inr () \<and>
     check_app_authorization Unlimited (Some ''app.example.com'') = Inr () \<and>
     check_app_authorization (Limited ''app.example.com'') (Some ''app.example.com'') = Inr () \<and>
     check_app_authorization (Limited ''app.example.com'') (Some ''example.com'') =
       Inl (AppNotAuthorizedFor (Some ''example.com'') ''app.example.com'') \<and>
     check_app_authorization (Limited ''app.example.com'') None = Inl (AppNotAuthorizedFor None ''app.example.com'')"

lemma test_domains_hold: "test_valid_domains" "test_not_valid_domains"
  by (simp_all add: test_valid_domains_def test_not_valid_domains_def is_domain_def is_lower_az_def is_digit_def less_eq_char_def)

lemma test_small_hold: "test_rate_limit_retries" "test_t2592000_is_30_days" "test_check_app_authorization"
  by (simp_all add: test_rate_limit_retries_def calculate_retry_in_def test_t2592000_is_30_days_def T2592000_def
      test_check_app_authorization_def check_app_authorization_def)

section \<open>\<open>did.json\<close>\<close>

definition test_json_encoding :: "ext \<Rightarrow> (bytes \<Rightarrow> string) \<Rightarrow> (string \<Rightarrow> string option) \<Rightarrow> (bytes \<Rightarrow> bytes) \<Rightarrow> (bytes \<Rightarrow> bytes)
    \<Rightarrow> string \<Rightarrow> bytes \<Rightarrow> bool" where
  "test_json_encoding X base64url host_str fill_bytes signing_key_generate notify_url seed \<longleftrightarrow>
     (case NotifyKeys_new X host_str fill_bytes signing_key_generate notify_url seed of
        Inl e \<Rightarrow> False
      | Inr notify_keys \<Rightarrow>
          let did_id = ''did:web:'' @ nk_domain notify_keys;
              key_agreement_key_id = did_id @ ''#wc-notify-subscribe-key'';
              authentication_key_id = did_id @ ''#wc-notify-authentication-key'';
              key_agreement = base64url (nk_key_agreement_public notify_keys);
              authentication = base64url (nk_authentication_public notify_keys) in
          DidJson_to_json X (generate_json X base64url notify_keys) = JObject [
            (''@context'', JArray [JString ''https://www.w3.org/ns/did/v1'', JString ''https://w3id.org/security/suites/jws-2020/v1'']),
            (''id'', JString did_id),
            (''verificationMethod'', JArray [
               JObject [(''id'', JString key_agreement_key_id), (''type'', JString ''JsonWebKey2020''), (''controller'', JString did_id),
                 (''publicKeyJwk'', JObject [(''kty'', JString ''OKP''), (''crv'', JString ''X25519''), (''x'', JString key_agreement)])],
               JObject [(''id'', JString authentication_key_id), (''type'', JString ''JsonWebKey2020''), (''controller'', JString did_id),
                 (''publicKeyJwk'', JObject [(''kty'', JString ''OKP''), (''crv'', JString ''Ed25519''), (''x'', JString authentication)])]]),
            (''keyAgreement'', JArray [JString key_agreement_key_id]),
            (''authentication'', JArray [JString authentication_key_id])])"

text \<open>The host of the URL is known, and \<open>did:web:\<close> with the domain is how the DID of a domain is written.\<close>

lemma test_json_encoding_holds:
  assumes "host_str notify_url \<noteq> None" "\<forall>d. DidWeb_to_string X d = ''did:web:'' @ d"
  shows "test_json_encoding X base64url host_str fill_bytes signing_key_generate notify_url seed"
  using assms
  by (auto simp: test_json_encoding_def NotifyKeys_new_def Let_def generate_json_def DidJson_to_json_def VerificationMethod_to_json_def
      jdid_web_def CONTEXT_DID_V1_def CONTEXT_JWS_V1_def JSON_WEB_KEY_2020_def OKP_def X25519_def ED25519_def
      WC_NOTIFY_SUBSCRIBE_KEY_ID_def WC_NOTIFY_AUTHENTICATION_KEY_ID_def)

section \<open>The batcher with its timer: \<open>src/src/services/relay_mailbox_clearing_service.rs\<close>\<close>

text \<open>
  The batches with the times (in milliseconds) they are sent, for items arriving at given times. A
  receive times out \<open>timeout\<close> after the item before it, and the tests keep the output open.
\<close>

definition sent_since :: "nat \<Rightarrow> 'a batcher \<Rightarrow> 'a batcher \<Rightarrow> (nat \<times> 'a list) list" where
  "sent_since t s s' = map (Pair t) (drop (length (batches_sent s)) (batches_sent s'))"

fun timed_batches :: "nat \<Rightarrow> nat \<Rightarrow> 'a batcher \<Rightarrow> nat \<Rightarrow> (nat \<times> 'a) list \<Rightarrow> (nat \<times> 'a list) list" where
  "timed_batches n timeout s prev [] =
     sent_since (prev + timeout) s (batcher_step n (TimedOut, True) s)"
| "timed_batches n timeout s prev ((t, x) # xs) =
     (let s1 = (if prev + timeout \<le> t then batcher_step n (TimedOut, True) s else s);
          s2 = batcher_step n (Received x, True) s1 in
      sent_since (prev + timeout) s s1 @ sent_since t s1 s2 @ timed_batches n timeout s2 t xs)"

definition setup_batches :: "(nat \<times> nat) list \<Rightarrow> (nat \<times> nat list) list" where
  "setup_batches items = timed_batches 10 100 batcher_init 0 items"

definition test_sends_one_after_timeout :: bool where
  "test_sends_one_after_timeout \<longleftrightarrow>
     (case setup_batches [(0, 1)] of (t, b) # _ \<Rightarrow> t \<le> 150 \<and> b = [1] | [] \<Rightarrow> False)"

definition test_sends_batch_instantly :: bool where
  "test_sends_batch_instantly \<longleftrightarrow>
     (case setup_batches (map (Pair 0) [0..<10]) of (t, b) # _ \<Rightarrow> t \<le> 10 \<and> b = [0..<10] | [] \<Rightarrow> False)"

definition test_sends_two_batches_instantly :: bool where
  "test_sends_two_batches_instantly \<longleftrightarrow>
     (case setup_batches (map (Pair 0) [0..<20]) of
        (t, b) # (u, c) # _ \<Rightarrow> t \<le> 10 \<and> b = [0..<10] \<and> u \<le> t + 10 \<and> c = [10..<20] | _ \<Rightarrow> False)"

definition test_sends_two_batches_second_after_timeout :: bool where
  "test_sends_two_batches_second_after_timeout \<longleftrightarrow>
     (case setup_batches (map (Pair 0) [0..<19]) of
        (t, b) # (u, c) # _ \<Rightarrow> t \<le> 10 \<and> b = [0..<10] \<and> u \<le> t + 110 \<and> c = [10..<19] | _ \<Rightarrow> False)"

definition test_timeout_reset_after_each_item :: bool where
  "test_timeout_reset_after_each_item \<longleftrightarrow>
     (case setup_batches (map (\<lambda>i. (50 * i, i)) [0..<10]) of (t, b) # _ \<Rightarrow> t \<le> 500 + 110 \<and> b = [0..<10] | [] \<Rightarrow> False)"

text \<open>Nothing for 150 ms, one item, its batch, and nothing more.\<close>

definition test_does_not_send_empty_batches :: bool where
  "test_does_not_send_empty_batches \<longleftrightarrow>
     setup_batches [] = [] \<and>
     (case setup_batches [(150, 1)] of [(t, b)] \<Rightarrow> t \<le> 150 + 150 \<and> b = [1] | _ \<Rightarrow> False)"

lemma test_batcher_hold: "test_sends_one_after_timeout" "test_sends_batch_instantly" "test_sends_two_batches_instantly"
  "test_sends_two_batches_second_after_timeout" "test_timeout_reset_after_each_item" "test_does_not_send_empty_batches"
  by code_simp+

section \<open>The limit on watchers: \<open>src/tests/integration.rs\<close>\<close>

text \<open>
  The last request of the test \<open>subscription_watcher_limit\<close> is for all apps, with a CACAO whose
  statement is the one for its domain. It fails before the limit is looked at: the CACAO authorizes
  that domain only, and \<open>watch_inner\<close> checks the authorization first.
\<close>

lemma test_watcher_limit_last_request:
  "parse_cacao_statement STATEMENT_THIS_DOMAIN ''com.example.appbundle'' = Some (Limited ''com.example.appbundle'')"
  "check_app_authorization (Limited ''com.example.appbundle'') None =
     Inl (AppNotAuthorizedFor None ''com.example.appbundle'')"
  by (simp_all add: parse_cacao_statement_def check_app_authorization_def)

end
