(* ===== verification/Identity_Tests.thy ===== *)
theory Identity_Tests
  imports Unit_Tests
begin

text \<open>
  The tests of \<open>src/src/auth.rs\<close>, run against the model: the statements, the requests to the Keys
  Server, and the CACAOs of clients, honest and not, end to end through a mocked Keys Server. What
  a test generates at random is in the record \<open>identity_test\<close>; \<open>test_world\<close> says that the code
  outside the repository works.
\<close>

section \<open>Statements\<close>

definition test_statements :: bool where
  "test_statements \<longleftrightarrow>
     parse_cacao_statement STATEMENT_ALL_DOMAINS ''app.example.com'' = Some Unlimited \<and>
     parse_cacao_statement STATEMENT_ALL_DOMAINS_OLD ''app.example.com'' = Some Unlimited \<and>
     parse_cacao_statement STATEMENT_THIS_DOMAIN ''app.example.com'' = Some (Limited ''app.example.com'') \<and>
     parse_cacao_statement STATEMENT_ALL_DOMAINS_IDENTITY ''app.example.com'' = Some Unlimited \<and>
     parse_cacao_statement STATEMENT_THIS_DOMAIN_IDENTITY ''app.example.com'' = Some (Limited ''app.example.com'') \<and>
     parse_cacao_statement STATEMENT ''app.example.com'' = Some Unlimited \<and>
     parse_cacao_statement
       ''I further authorize this DAPP to send and receive messages on my behalf for this domain using my WalletConnect identity.''
       ''app.example.com'' = Some (Limited ''app.example.com'')"

lemma test_auth_statements_hold: "test_statements"
  by code_simp

section \<open>What the tests generate\<close>

record identity_test =
  it_account :: AccountId
  it_key :: bytes
  it_server :: string
  it_project_id :: string
  it_nonce :: bytes
  it_iat :: string
  it_now :: datetime

definition it_domain :: "identity_test \<Rightarrow> string" where
  "it_domain i = it_project_id i @ ''.walletconnect.com''"

text \<open>
  The laws of signing, a valid account, a server URL that is no recap, a project id that can be
  part of a domain, JSON that reads back, and a key that signs whatever it is given.
\<close>

definition test_world :: "ext \<Rightarrow> wallet_ext \<Rightarrow> identity_test \<Rightarrow> bool" where
  "test_world X W i \<longleftrightarrow> signing_laws X W \<and> valid_account X (it_account i) \<and>
     \<not> starts_with RECAP_URI_PREFIX (it_server i) \<and> identity_url X (it_server i) (client_id_to_string X (it_key i)) \<noteq> None \<and>
     domain_regex (it_project_id i) \<and> (\<forall>r. recap_valid r \<longrightarrow> recap_text_reads X r) \<and>
     (\<forall>d. url_parse X (''https://'' @ d) \<noteq> None) \<and>
     (\<forall>st au rs. sign_payload X W (it_domain i) (it_account i) st au rs (it_nonce i) (it_iat i) \<noteq> None)"

definition it_sign :: "ext \<Rightarrow> wallet_ext \<Rightarrow> identity_test \<Rightarrow> CacaoAuth \<Rightarrow> Cacao option" where
  "it_sign X W i auth = sign_cacao X W (it_domain i) (it_account i) auth (it_key i) (it_server i) (it_nonce i) (it_iat i)"

definition it_verify :: "ext \<Rightarrow> identity_test \<Rightarrow> Cacao \<Rightarrow> (Authorization, IdentityVerificationError) result" where
  "it_verify X i cacao =
     fst (verify_identity (register_mocked_identity_key X (it_server i) (it_key i) cacao) (it_now i) (it_key i) (it_server i)
       (to_did_pkh X (it_account i)) None)"

definition it_authorized :: "identity_test \<Rightarrow> AuthorizedApp \<Rightarrow> Authorization" where
  "it_authorized i app = \<lparr> az_account = it_account i, az_app = app, az_domain = it_domain i \<rparr>"

section \<open>The Keys Server\<close>

definition test_keys_server_request :: "ext \<Rightarrow> wallet_ext \<Rightarrow> identity_test \<Rightarrow> bool" where
  "test_keys_server_request X W i \<longleftrightarrow>
     (case (it_sign X W i (Statement STATEMENT_THIS_DOMAIN), identity_url X (it_server i) (client_id_to_string X (it_key i))) of
        (Some cacao, Some url) \<Rightarrow>
          keys_server_request (register_mocked_identity_key X (it_server i) (it_key i) cacao) url = Inr cacao
      | _ \<Rightarrow> False)"

definition test_keys_server_request_404 :: "ext \<Rightarrow> string \<Rightarrow> string \<Rightarrow> bool" where
  "test_keys_server_request_404 X keys_server public_key \<longleftrightarrow>
     (case identity_url X keys_server public_key of
        Some url \<Rightarrow> keys_server_request (mock_identity X keys_server public_key \<lparr> ksh_status = 404, ksh_body = Inl '''' \<rparr>) url =
          Inl (IvClient NotRegistered)
      | None \<Rightarrow> False)"

definition test_keys_server_request_500 :: "ext \<Rightarrow> string \<Rightarrow> string \<Rightarrow> bool" where
  "test_keys_server_request_500 X keys_server public_key \<longleftrightarrow>
     (case identity_url X keys_server public_key of
        Some url \<Rightarrow> keys_server_request (mock_identity X keys_server public_key \<lparr> ksh_status = 500, ksh_body = Inl '''' \<rparr>) url =
          Inl (IvInternal (KeyServerUnsuccessfulResponse 500))
      | None \<Rightarrow> False)"

lemma it_audience:
  assumes "test_world X W i"
  obtains audience where "recap_audience X W d (it_key i) = Some audience"
proof -
  have "url_parse X (''https://'' @ d) \<noteq> None" using assms unfolding test_world_def by blast
  then show thesis using that by (auto simp: recap_audience_def)
qed

lemma it_signs:
  assumes "test_world X W i"
  obtains cacao where "it_sign X W i auth = Some cacao"
proof -
  obtain audience where "recap_audience X W (it_domain i) (it_key i) = Some audience" by (rule it_audience [OF assms])
  moreover have "(sign_payload X W (it_domain i) (it_account i) st au rs (it_nonce i) (it_iat i) = None) = False" for st au rs
    using assms unfolding test_world_def by blast
  ultimately have "(it_sign X W i auth = None) = False" by (cases auth) (simp_all add: it_sign_def sign_cacao_def Let_def)
  then show thesis using that by blast
qed

lemma test_keys_server_hold:
  "test_world X W i \<Longrightarrow> test_keys_server_request X W i"
  "identity_url X keys_server public_key \<noteq> None \<Longrightarrow> test_keys_server_request_404 X keys_server public_key"
  "identity_url X keys_server public_key \<noteq> None \<Longrightarrow> test_keys_server_request_500 X keys_server public_key"
proof -
  assume w: "test_world X W i"
  then obtain url where "identity_url X (it_server i) (client_id_to_string X (it_key i)) = Some url" by (auto simp: test_world_def)
  moreover obtain cacao where "it_sign X W i (Statement STATEMENT_THIS_DOMAIN) = Some cacao" by (rule it_signs [OF w])
  ultimately show "test_keys_server_request X W i"
    by (simp add: test_keys_server_request_def keys_server_request_def register_mocked_identity_key_def mock_identity_def)
qed (auto simp: test_keys_server_request_404_def test_keys_server_request_500_def keys_server_request_def mock_identity_def)

section \<open>Honest clients\<close>

definition test_authorized :: "ext \<Rightarrow> wallet_ext \<Rightarrow> identity_test \<Rightarrow> CacaoAuth \<Rightarrow> AuthorizedApp \<Rightarrow> bool" where
  "test_authorized X W i auth app \<longleftrightarrow>
     (case it_sign X W i auth of None \<Rightarrow> False | Some cacao \<Rightarrow> it_verify X i cacao = Inr (it_authorized i app))"

definition test_statement_this_app :: "ext \<Rightarrow> wallet_ext \<Rightarrow> identity_test \<Rightarrow> bool" where
  "test_statement_this_app X W i \<longleftrightarrow> test_authorized X W i (Statement STATEMENT_THIS_DOMAIN) (Limited (it_domain i))"

definition test_statement_all_apps :: "ext \<Rightarrow> wallet_ext \<Rightarrow> identity_test \<Rightarrow> bool" where
  "test_statement_all_apps X W i \<longleftrightarrow> test_authorized X W i (Statement STATEMENT_ALL_DOMAINS) Unlimited"

definition test_recaps_this_app :: "ext \<Rightarrow> wallet_ext \<Rightarrow> identity_test \<Rightarrow> bool" where
  "test_recaps_this_app X W i \<longleftrightarrow> test_authorized X W i ThisApp (Limited (it_domain i))"

definition test_recaps_all_apps :: "ext \<Rightarrow> wallet_ext \<Rightarrow> identity_test \<Rightarrow> bool" where
  "test_recaps_all_apps X W i \<longleftrightarrow> test_authorized X W i AllApps Unlimited"

lemma domain_ok:
  assumes "test_world X W i"
  shows "domain_regex (it_domain i) \<and> it_domain i \<noteq> ABILITY_ABILITY_ALL_APPS_MAGIC"
proof -
  have "list_all (\<lambda>c. is_lower_az c \<or> is_upper_az c \<or> is_digit c \<or> c = CHR ''.'' \<or> c = CHR ''-'') ''.walletconnect.com''"
    by (simp add: is_lower_az_def less_eq_char_def)
  then have "domain_regex (it_domain i)" using assms by (simp add: test_world_def it_domain_def domain_regex_def)
  moreover have "CHR ''.'' \<in> set (it_domain i)" "CHR ''.'' \<notin> set ABILITY_ABILITY_ALL_APPS_MAGIC"
    by (simp_all add: it_domain_def ABILITY_ABILITY_ALL_APPS_MAGIC_def)
  ultimately show ?thesis by auto
qed

lemma requested_valid:
  assumes "test_world X W i"
  shows "recap_valid (requested_recap (it_domain i) auth)"
  using domain_chars domain_ok [OF assms] all_apps_chars by (auto simp: requested_recap_def intro!: build_recap_valid)

lemma it_verify_verifies:
  "test_world X W i \<Longrightarrow> it_verify X i cacao =
     verify_cacao X (it_now i) (client_id_to_string X (it_key i)) (to_did_pkh X (it_account i)) cacao"
  unfolding it_verify_def by (rule verify_identity_mocked) (simp add: test_world_def)

lemma authorized_holds:
  assumes "test_world X W i" "requested_app (it_domain i) auth = Inr app"
  shows "test_authorized X W i auth app"
proof -
  obtain cacao where c: "it_sign X W i auth = Some cacao" by (rule it_signs [OF assms(1)])
  have "it_verify X i cacao = Inr (it_authorized i app)"
    using assms domain_ok [OF assms(1)] requested_valid [OF assms(1)]
      verify_signed_cacao [OF _ _ _ c [unfolded it_sign_def], of "it_now i"]
    unfolding it_verify_verifies [OF assms(1)] by (simp add: test_world_def it_authorized_def)
  then show ?thesis using c by (simp add: test_authorized_def)
qed

lemma test_honest_hold:
  assumes "test_world X W i"
  shows "test_statement_this_app X W i" "test_statement_all_apps X W i" "test_recaps_this_app X W i" "test_recaps_all_apps X W i"
proof -
  have "parse_cacao_statement STATEMENT_THIS_DOMAIN d = Some (Limited d)" "parse_cacao_statement STATEMENT_ALL_DOMAINS d = Some Unlimited"
    for d
    by (simp add: parse_cacao_statement_def)
      (simp add: parse_cacao_statement_def STATEMENT_ALL_DOMAINS_def STATEMENT_THIS_DOMAIN_def STATEMENT_THIS_DOMAIN_IDENTITY_def
        starts_with_def)
  then show "test_statement_this_app X W i" "test_statement_all_apps X W i" "test_recaps_this_app X W i" "test_recaps_all_apps X W i"
    unfolding test_statement_this_app_def test_statement_all_apps_def test_recaps_this_app_def test_recaps_all_apps_def
    using domain_ok [OF assms] by (auto simp: requested_app_def ok_or_def intro: authorized_holds [OF assms])
qed

section \<open>Recaps that are refused\<close>

text \<open>A CACAO made by hand from a recap: like \<open>sign_cacao\<close>, with the audience and the resources of the test.\<close>

definition it_sign_recap :: "ext \<Rightarrow> wallet_ext \<Rightarrow> identity_test \<Rightarrow> string \<Rightarrow> ReCapDetailsObject \<Rightarrow> string list \<Rightarrow> Cacao option" where
  "it_sign_recap X W i audience_domain recap resources =
     Option.bind (recap_audience X W audience_domain (it_key i)) (\<lambda>audience.
       sign_payload X W (it_domain i) (it_account i) (build_statement recap) audience (it_server i # resources)
         (it_nonce i) (it_iat i))"

definition test_refused :: "ext \<Rightarrow> wallet_ext \<Rightarrow> identity_test \<Rightarrow> string \<Rightarrow> ReCapDetailsObject \<Rightarrow> string list
    \<Rightarrow> IdentityVerificationClientError \<Rightarrow> bool" where
  "test_refused X W i audience_domain recap resources e \<longleftrightarrow>
     (case it_sign_recap X W i audience_domain recap resources of
        None \<Rightarrow> False
      | Some cacao \<Rightarrow> it_verify X i cacao = Inl (IvClient e))"

definition test_recaps_fail_more_than_one_recap_uri :: "ext \<Rightarrow> wallet_ext \<Rightarrow> identity_test \<Rightarrow> bool" where
  "test_recaps_fail_more_than_one_recap_uri X W i \<longleftrightarrow>
     (let recap = build_recap_details_object (Some (it_domain i)) in
      test_refused X W i (it_domain i) recap [encode_recaip_uri X recap, encode_recaip_uri X recap] CacaoMoreThanOneRecapUri)"

definition test_recaps_fail_empty_array :: "ext \<Rightarrow> wallet_ext \<Rightarrow> identity_test \<Rightarrow> bool" where
  "test_recaps_fail_empty_array X W i \<longleftrightarrow>
     (let recap = \<lparr> att = [(NOTIFY_URI, [(\<lparr> namespace = ABILITY_NAMESPACE_MANAGE,
            ability_name = ABILITY_ABILITY_ALL_APPS_MAGIC @ ABILITY_ABILITY_SUFFIX \<rparr>, [])])] \<rparr> in
      test_refused X W i (it_domain i) recap [encode_recaip_uri X recap] CacaoRecapAbilityEmptyObjects)"

definition test_recaps_fail_invalid_ability_domain :: "ext \<Rightarrow> wallet_ext \<Rightarrow> identity_test \<Rightarrow> bool" where
  "test_recaps_fail_invalid_ability_domain X W i \<longleftrightarrow>
     (let recap = build_recap_details_object (Some (''*'' @ it_domain i)) in
      test_refused X W i (it_domain i) recap [encode_recaip_uri X recap] CacaoRecapAbilityNameNotValidDomain)"

text \<open>The test the repository ignores: the audience is another domain, and any error would do.\<close>

definition test_recaps_fail_uri_not_match_domain :: "ext \<Rightarrow> wallet_ext \<Rightarrow> identity_test \<Rightarrow> bool" where
  "test_recaps_fail_uri_not_match_domain X W i \<longleftrightarrow>
     (let recap = build_recap_details_object (Some (it_domain i)) in
      case it_sign_recap X W i (''different.'' @ it_domain i) recap [encode_recaip_uri X recap] of
        None \<Rightarrow> False
      | Some cacao \<Rightarrow> \<not> is_ok (it_verify X i cacao))"

text \<open>Whatever its audience's domain, such a CACAO is judged by its recap alone.\<close>

lemma it_sign_recap_verified:
  assumes "test_world X W i"
  obtains cacao where "it_sign_recap X W i d recap resources = Some cacao"
    "c_statement cacao = Some (build_statement recap)" "c_resources cacao = Some (it_server i # resources)"
    "it_verify X i cacao = map_ok (it_authorized i) (map_err IvClient (cacao_app X cacao))"
proof -
  have l: "signing_laws X W" and a: "valid_account X (it_account i)" using assms by (simp_all add: test_world_def)
  obtain au where au: "recap_audience X W d (it_key i) = Some au" by (rule it_audience [OF assms])
  obtain cacao where c: "sign_payload X W (it_domain i) (it_account i) (build_statement recap) au (it_server i # resources)
      (it_nonce i) (it_iat i) = Some cacao"
    using assms unfolding test_world_def by (metis not_Some_eq)
  note f = sign_payload_Some [OF c]
  have "cacao_identity_key X cacao = Inr (client_id_to_string X (it_key i))"
    using l au f unfolding signing_laws_def by metis
  from verify_signed [OF l a c this, of "it_now i"]
  have "it_verify X i cacao = map_ok (it_authorized i) (map_err IvClient (cacao_app X cacao))"
    unfolding it_verify_verifies [OF assms] it_authorized_def by simp
  then show thesis using that c au f by (simp add: it_sign_recap_def)
qed

lemma it_recap_judged:
  assumes "test_world X W i" "recap_valid recap" "fst ` set (att recap) \<subseteq> {NOTIFY_URI}"
  obtains cacao where "it_sign_recap X W i d recap [encode_recaip_uri X recap] = Some cacao"
    "it_verify X i cacao = map_ok (it_authorized i) (map_err IvClient (recap_app recap))"
proof -
  obtain cacao where c: "it_sign_recap X W i d recap [encode_recaip_uri X recap] = Some cacao"
    "c_statement cacao = Some (build_statement recap)" "c_resources cacao = Some [it_server i, encode_recaip_uri X recap]"
    "it_verify X i cacao = map_ok (it_authorized i) (map_err IvClient (cacao_app X cacao))"
    by (rule it_sign_recap_verified [OF assms(1)])
  have "cacao_app X cacao = recap_app recap"
    using assms by (intro cacao_app_recap [OF _ _ assms(2,3) c(2,3)]) (auto simp: test_world_def)
  then show thesis using that c(1,4) by simp
qed

lemma test_more_than_one_holds:
  assumes "test_world X W i"
  shows "test_recaps_fail_more_than_one_recap_uri X W i"
proof -
  let ?r = "build_recap_details_object (Some (it_domain i))"
  obtain cacao where c: "it_sign_recap X W i (it_domain i) ?r [encode_recaip_uri X ?r, encode_recaip_uri X ?r] = Some cacao"
    "c_statement cacao = Some (build_statement ?r)"
    "c_resources cacao = Some [it_server i, encode_recaip_uri X ?r, encode_recaip_uri X ?r]"
    "it_verify X i cacao = map_ok (it_authorized i) (map_err IvClient (cacao_app X cacao))"
    by (rule it_sign_recap_verified [OF assms])
  have "starts_with RECAP_URI_PREFIX (encode_recaip_uri X ?r)" by (simp add: encode_recaip_uri_def starts_with_iff)
  then have "cacao_app X cacao = Inl CacaoMoreThanOneRecapUri" by (simp add: cacao_app_def c(2,3))
  then show ?thesis using c(1,4) by (simp add: test_recaps_fail_more_than_one_recap_uri_def Let_def test_refused_def)
qed

lemma notify_recap_only: "fst ` set (att (build_recap_details_object d)) \<subseteq> {NOTIFY_URI}"
  by (simp add: build_recap_details_object_def)

lemma test_empty_array_holds:
  assumes "test_world X W i"
  shows "test_recaps_fail_empty_array X W i"
proof -
  let ?r = "\<lparr> att = [(NOTIFY_URI, [(\<lparr> namespace = ABILITY_NAMESPACE_MANAGE,
            ability_name = ABILITY_ABILITY_ALL_APPS_MAGIC @ ABILITY_ABILITY_SUFFIX \<rparr>, [])])] \<rparr>"
  have "recap_valid ?r"
    using build_recap_valid [of None] all_apps_chars by (simp add: recap_valid_def recap_ok_def build_recap_details_object_def)
  from it_recap_judged [OF assms this] obtain cacao where
    c: "it_sign_recap X W i (it_domain i) ?r [encode_recaip_uri X ?r] = Some cacao"
    "it_verify X i cacao = map_ok (it_authorized i) (map_err IvClient (recap_app ?r))"
    by auto
  have "strip_suffix ABILITY_ABILITY_SUFFIX (ABILITY_ABILITY_ALL_APPS_MAGIC @ ABILITY_ABILITY_SUFFIX) = Some ABILITY_ABILITY_ALL_APPS_MAGIC"
    by (simp add: strip_suffix_Some_iff)
  then have "recap_app ?r = Inl CacaoRecapAbilityEmptyObjects" by (simp add: recap_app_def fetch_optional_def)
  then show ?thesis using c by (simp add: test_recaps_fail_empty_array_def Let_def test_refused_def)
qed

lemma star_domain: "\<not> domain_regex (''*'' @ d)" "''*'' @ d \<noteq> ABILITY_ABILITY_ALL_APPS_MAGIC" "ability_name_char CHR ''*''"
  by (simp_all add: domain_regex_def is_lower_az_def is_upper_az_def is_digit_def less_eq_char_def ABILITY_ABILITY_ALL_APPS_MAGIC_def
      ability_name_char_def)

lemma test_invalid_ability_domain_holds:
  assumes "test_world X W i"
  shows "test_recaps_fail_invalid_ability_domain X W i"
proof -
  let ?r = "build_recap_details_object (Some (''*'' @ it_domain i))"
  have "recap_valid ?r" using domain_chars domain_ok [OF assms] star_domain(3) by (intro build_recap_valid) simp
  from it_recap_judged [OF assms this notify_recap_only] obtain cacao where
    c: "it_sign_recap X W i (it_domain i) ?r [encode_recaip_uri X ?r] = Some cacao"
    "it_verify X i cacao = map_ok (it_authorized i) (map_err IvClient (recap_app ?r))"
    by blast
  have "recap_app ?r = Inl CacaoRecapAbilityNameNotValidDomain"
    using star_domain(1,2) [of "it_domain i"] by (simp add: build_recap_app del: append_Cons)
  then show ?thesis using c by (simp add: test_recaps_fail_invalid_ability_domain_def Let_def test_refused_def)
qed

text \<open>
  The ignored test would fail: \<open>verify_identity\<close> does not look at the audience's domain (the source
  has a TODO), and authorizes the app of the recap.
\<close>

lemma test_uri_not_match_domain_fails:
  assumes "test_world X W i"
  shows "\<not> test_recaps_fail_uri_not_match_domain X W i"
proof -
  let ?r = "build_recap_details_object (Some (it_domain i))"
  have "recap_valid ?r" using domain_chars domain_ok [OF assms] by (intro build_recap_valid) simp
  from it_recap_judged [OF assms this notify_recap_only] obtain cacao where
    c: "it_sign_recap X W i (''different.'' @ it_domain i) ?r [encode_recaip_uri X ?r] = Some cacao"
    "it_verify X i cacao = map_ok (it_authorized i) (map_err IvClient (recap_app ?r))"
    by blast
  have "recap_app ?r = Inr (Limited (it_domain i))" using domain_ok [OF assms] by (simp add: build_recap_app)
  then show ?thesis using c by (simp add: test_recaps_fail_uri_not_match_domain_def Let_def)
qed

end
