(* ===== verification/Spec2Isabelle.thy ===== *)
theory Spec2Isabelle
  imports Prelude Externals Account_Id Database Wire Model_Helpers Notification_Store Pagination
    Rate_Limit Batcher Mailbox Claims Recap Storage Jwt Auth Relay_Publish Analytics Rpc Notify_Keys World Geo
    Publisher Http Notify Registry Caches Relay_Errors Relay_Watchers Relay_Handlers Relay_Facts Relay_Demo
    Subscriptions Relay_Safety Relay_Answers Jobs Server Isolation Delivery Config Startup Routes Metrics Limits
    Sent_Messages Interference Cacao_Signing Unit_Tests Service_Tests Identity_Tests
begin

text \<open>
  Notify Server: a verification development.

  \<^bold>\<open>The program.\<close> The server keeps the subscriptions of accounts to the notifications of apps
  (projects), takes notifications from the apps over HTTP, and sends them through a message relay to
  the wallets that hold the subscriptions. Wallets manage their subscriptions with messages sealed
  for the server and signed by an identity key that an account, or an app it authorized, stands
  for (a CACAO). The state is a PostgreSQL database, Redis (rate limits and caches) and the relay.

  \<^bold>\<open>How the parts interact.\<close> A project's request passes \<open>AuthedProjectId\<close> (\<open>Registry\<close>) and its handler
  (\<open>Http\<close>, \<open>Notify\<close>), which writes notifications and delivery rows. The workers of the publisher
  (\<open>Publisher\<close>, on the queue of \<open>Notification_Store\<close>) seal and publish them. The relay calls the
  webhook (\<open>Relay_Handlers\<close>), which opens a message (\<open>Rpc\<close>, \<open>Wire\<close>), checks its JWT (\<open>Jwt\<close>,
  \<open>Claims\<close>) and the identity behind it (\<open>Auth\<close>, \<open>Recap\<close>), changes the subscriptions
  (\<open>Model_Helpers\<close>), answers, and tells the account's other clients (\<open>Relay_Watchers\<close>); receipts
  of stored messages go to the mailbox clearing (\<open>Batcher\<close>). Periodic jobs (\<open>Jobs\<close>) expire watchers,
  requeue dead letters and renew the relay subscriptions. \<open>Server\<close> puts all of this together,
  \<open>Routes\<close> puts HTTP in front of it, and \<open>Config\<close> and \<open>Startup\<close> say where its environment comes from.

  \<^bold>\<open>Theories and sources\<close> (paths under \<open>src/src\<close>).
  \<^item> \<open>Prelude\<close>: Rust's \<open>Result\<close> and \<open>?\<close>, the string functions of its library, and the locales \<open>codec\<close>,
    \<open>codec_exact\<close>, \<open>transition_system\<close> and \<open>event_system\<close>. \<open>Externals\<close>: the code that is not in the
    repository (hashes, ciphers, key agreement, signatures, Base64, JSON, URLs, UUID texts, the key
    server) as a record \<open>ext\<close> of functions, with its documented behaviour as named hypotheses
    (\<open>uuid_laws\<close>, \<open>hex_laws\<close>, \<open>dh_laws\<close>, \<open>aead_laws\<close>, \<open>jwt_laws\<close>, ...) and a concrete instance \<open>ext_demo\<close>.
  \<^item> \<open>Account_Id\<close>: \<open>model/types/account_id\<close>, \<open>utils.rs\<close>. \<open>Wire\<close>: \<open>types\<close>, \<open>spec.rs\<close>. \<open>Rpc\<close>: \<open>rpc.rs\<close>.
    \<open>Claims\<close>, \<open>Jwt\<close>, \<open>Auth\<close>: \<open>auth.rs\<close>, \<open>notify_message.rs\<close>. \<open>Recap\<close>: \<open>siwx\<close>. \<open>Notify_Keys\<close>:
    \<open>notify_keys.rs\<close> and the DID document.
  \<^item> \<open>Database\<close>: the tables and constraints of \<open>src/migrations\<close>. \<open>Model_Helpers\<close>, \<open>Pagination\<close>: the
    SQL of \<open>model/helpers.rs\<close>. \<open>Notification_Store\<close>: the SQL of the queue
    (\<open>services/publisher_service/helpers.rs\<close>) and of the notification history. A table is the list of
    its rows; a statement maps a database to an error or a new database.
  \<^item> \<open>Rate_Limit\<close>: \<open>rate_limit\<close>, the Lua script included, and \<open>Limits\<close> over a Redis that fails. \<open>Relay_Publish\<close>: \<open>publish_relay_message.rs\<close>.
    \<open>Batcher\<close>, and \<open>Mailbox\<close> with the channels around it: \<open>services/relay_mailbox_clearing_service.rs\<close>. \<open>Analytics\<close>: \<open>analytics\<close>, the events and
    their conversions. \<open>Geo\<close>: where the follower of a link is, with the standard library's parser of IP
    addresses.
  \<^item> \<open>World\<close>: \<open>state.rs\<close>; the state of a handler (database, Redis, what the relay took, the analytics collected), its environment
    (clock, random draws, answers of the relay, configuration) and the handlers' monad, in which a
    failure keeps what was done before it and a panic is an outcome of its own.
  \<^item> \<open>Http\<close>, \<open>Notify\<close>, \<open>Registry\<close>: the handlers of \<open>services/public_http_server/handlers\<close>, \<open>error.rs\<close>,
    \<open>registry\<close>. \<open>Storage\<close>: \<open>registry/storage\<close>, Redis with all failures of its connections and commands, and
    \<open>Caches\<close>: the two caches over it, which refine the ones that the handlers use. \<open>Relay_Errors\<close>, \<open>Relay_Watchers\<close>, \<open>Relay_Handlers\<close>: \<open>handlers/relay_webhook\<close>.
    \<open>Publisher\<close>, \<open>Delivery\<close> (the workers side by side): \<open>services/publisher_service/mod.rs\<close>. \<open>Jobs\<close>: \<open>services/watcher_expiration_job.rs\<close>,
    \<open>services/relay_renewal_job\<close>. \<open>Server\<close>: \<open>services/public_http_server/mod.rs\<close>, \<open>lib.rs\<close>.
  \<^item> \<open>Config\<close>: \<open>config\<close>. \<open>Startup\<close>: \<open>lib.rs\<close>, \<open>state.rs\<close>, \<open>relay_client_helpers.rs\<close>. \<open>Routes\<close>: the routes of
    \<open>services/public_http_server/mod.rs\<close>, \<open>handlers/health.rs\<close>, \<open>services/private_http_server\<close>. \<open>Metrics\<close>:
    \<open>metrics.rs\<close> and the places that record something.
  \<^item> \<open>Relay_Facts\<close>, \<open>Relay_Demo\<close>, \<open>Subscriptions\<close>, \<open>Relay_Safety\<close>, \<open>Relay_Answers\<close>, \<open>Isolation\<close> hold no
    code of the server: facts about its handlers, a concrete client, and properties. \<open>Sent_Messages\<close>
    composes a notify request with the publisher's queue: what a project sends reaches each subscriber.
    \<open>Interference\<close> runs \<open>notify_v1\<close> with arbitrary changes by other requests between its statements.
  \<^item> \<open>Cacao_Signing\<close>: the wallet's side that the sources keep beside the server (\<open>test_utils\<close> of
    \<open>auth.rs\<close>, \<open>siwx/erc5573.rs\<close>, \<open>siwx/notify_recap.rs\<close>): recaps, signed CACAOs, a mocked Keys Server.
    \<open>Unit_Tests\<close>, \<open>Service_Tests\<close>, \<open>Identity_Tests\<close>: the unit tests of the sources as propositions
    about the model, one definition per test (\<open>test_...\<close>) and their proofs (\<open>test_..._hold\<close>). The
    accounts, digests and encoded texts of the tests are theirs; what Keccak-256, Base64 or the JSON reader
    give for them are hypotheses with those values, and what a test draws at random is arbitrary.

  \<^bold>\<open>What the lemmas show.\<close>
  \<^item> Refinement: \<open>Subscriptions\<close> states what the subscriber tables stand for, a map from a project
    and an address to a set of notification types; \<open>Server\<close> shows that every run of the whole server is
    a run of commands on this map, each of which was signed by a key the account authorized.
  \<^item> Invariants: \<open>wf_db\<close> (the schema with its keys, foreign keys and validated columns) is kept by every
    statement (\<open>wf_intros\<close>), by every handler (\<open>rows_contract\<close>, \<open>database_contract\<close> and the rules
    \<open>keeps_intros\<close>), and so by every step of the server; the workers' counter, the renewal's lock and the
    batcher have invariants of their own.
  \<^item> Safety: identities are verified (\<open>Auth\<close>, \<open>Jwt\<close>), projects are isolated (\<open>Isolation\<close>), no message of
    the relay and no request of a project ends in a panic (\<open>Relay_Safety\<close>, \<open>Server\<close>), the database changes
    only on behalf of the configured relay and of accepted projects (\<open>Startup\<close>, \<open>Routes\<close>), also when Redis
    fails (\<open>Caches\<close>, \<open>Limits\<close>).
  \<^item> Function: each statement of the database helpers on every branch, pagination, reports of \<open>notify\<close>,
    the messages clients receive (\<open>Relay_Answers\<close>, \<open>Publisher\<close>), the queue that drains.
  \<^item> Codecs: round trips of envelopes, claims, abilities, JSON-RPC messages and accounts, by the locales
    \<open>codec\<close> and \<open>codec_exact\<close>; a CACAO that a wallet signs for an app is accepted by the server for
    exactly what was asked (\<open>Cacao_Signing\<close>).
  \<^item> Tests: the unit tests of the modelled modules hold of the model, except the one that the
    repository ignores (\<open>recaps_fail_uri_not_match_domain\<close>), which fails: the audience is not checked.

  \<^bold>\<open>Bounds and time.\<close> Loops are structural recursions, so no fuel is needed; the loops that never end
  (the workers' and the jobs' timers) are step relations or lists of turns. The retry loops of the relay
  calls end by their own attempt limit, which is proved. That the queue drains and that a notification
  reaches its subscribers is stated for turns in which the relay accepts, no attempt times out and links
  can be joined to the server's own URL (\<open>smooth\<close>), and for messages within the limit of
  ChaCha20-Poly1305 (\<open>messages_fit\<close>, \<open>aead_total\<close>); \<open>process_next_spec\<close> says what happens in the others. Clock readings are microseconds in \<open>int\<close>; JWT
  times, tags and ids are machine words where the code computes with them.

  \<^bold>\<open>Not modelled.\<close> A handler reads the clock once and runs between other requests, so interleavings of
  two handlers are those of their sequence, except for \<open>notify_v1\<close> (\<open>Interference\<close>) and the workers (\<open>Delivery\<close>). Sends that the code starts together are in list
  order. The statement of \<open>upsert_subscription_watcher\<close> is also modelled with the older state that it
  counts in when other transactions run beside it; the other statements see the database they change.
  The receiver of the mailbox channel lives as long as the webhook's handler, so the handler's \<open>expect\<close>
  on that channel, which can fail only while the server shuts down, is left out. Lost connections to
  PostgreSQL while a handler runs, tracing, TLS and the clients of AWS have no counterpart. The extractors of \<open>axum\<close> that parse bodies
  appear as fields of a request, the block by place as an argument. Reading the environment takes
  variables as a map. The handlers under \<open>webhooks\<close> are commented out of the server's routes. Two unit tests
  have no counterpart: that parsing an envelope does not panic (a total function here), and the one of the
  registration of the webhook, which reads the JWT that the relay's client library makes.
\<close>

end
